(* ===== verification/Prelude.thy ===== *)
theory Prelude
  imports Main "HOL-Library.List_Lexorder" "HOL-Library.Char_ord" "HOL-Library.Sublist"
    "HOL-Library.Multiset"
begin

text \<open>
  Shared vocabulary of the development: Go errors as values, the sequence of checks of a
  \<open>Validate\<close> method, the loops over slices that several components share, and the
  collections of facts the component proofs use.

  A Go \<open>string\<close> is a list of bytes, and so is HOL's \<^typ>\<open>string\<close> (a \<^typ>\<open>char\<close> is an
  8-bit value); the order on strings is the bytewise lexicographic order of
  \<open>List_Lexorder\<close> and \<open>Char_ord\<close>, which is Go's \<open><\<close> on strings.
\<close>

named_theorems check_simps \<open>when a sequence of checks succeeds\<close>
named_theorems builder_simps \<open>what one operation of a builder does to its fields\<close>

section \<open>Go errors\<close>

text \<open>
  A function that returns \<open>error\<close> becomes a function into \<open>go_error option\<close>: \<open>None\<close> is
  \<open>nil\<close>. \<open>Err m\<close> is an error value with its message, \<open>Panic m\<close> a run-time panic (a nil
  dereference, or the \<open>panic(err)\<close> of \<open>internal/experience/hash.go\<close>).
\<close>

datatype go_error = Err string | Panic string

type_synonym check = "go_error option"

fun first_error :: "check list \<Rightarrow> check" where
  "first_error [] = None"
| "first_error (c # cs) = (case c of None \<Rightarrow> first_error cs | Some e \<Rightarrow> Some e)"

definition reject_if :: "bool \<Rightarrow> string \<Rightarrow> check" where
  "reject_if b msg = (if b then Some (Err msg) else None)"

text \<open>\<open>fmt.Errorf("ctx: %w", err)\<close>; a panic is not caught.\<close>

fun wrap_error :: "string \<Rightarrow> check \<Rightarrow> check" where
  "wrap_error ctx None = None"
| "wrap_error ctx (Some (Err m)) = Some (Err (ctx @ '': '' @ m))"
| "wrap_error ctx (Some (Panic m)) = Some (Panic m)"

text \<open>\<open>for _, x := range xs { if err := f(x); err != nil { return err } }\<close>\<close>

definition check_each :: "('a \<Rightarrow> check) \<Rightarrow> 'a list \<Rightarrow> check" where
  "check_each f xs = first_error (map f xs)"

definition is_panic :: "check \<Rightarrow> bool" where
  "is_panic c = (case c of Some (Panic m) \<Rightarrow> True | _ \<Rightarrow> False)"

lemma first_error_None [check_simps]:
  "first_error (c # cs) = None \<longleftrightarrow> c = None \<and> first_error cs = None"
  by (cases c) auto

lemma first_error_Nil_None [check_simps]: "first_error [] = None"
  by simp

lemma first_error_Cons_Some [simp]: "first_error (Some e # cs) = Some e"
  and first_error_Cons_None [simp]: "first_error (None # cs) = first_error cs"
  by simp_all

declare first_error.simps(2) [simp del]

lemma first_error_all: "first_error cs = None \<longleftrightarrow> (\<forall>c \<in> set cs. c = None)"
  by (induction cs) (auto simp: check_simps)

lemma first_error_in: "first_error cs = Some e \<Longrightarrow> Some e \<in> set cs"
  by (induction cs) (auto simp: first_error.simps split: option.splits)

lemma reject_if_None [check_simps]: "reject_if b msg = None \<longleftrightarrow> \<not> b"
  by (simp add: reject_if_def)

lemma wrap_error_None [check_simps]: "wrap_error ctx c = None \<longleftrightarrow> c = None"
  by (cases "(ctx, c)" rule: wrap_error.cases) auto

lemma check_each_None [check_simps]: "check_each f xs = None \<longleftrightarrow> (\<forall>x \<in> set xs. f x = None)"
  by (simp add: check_each_def first_error_all)

lemma is_panic_simps [simp]:
  "\<not> is_panic None" "\<not> is_panic (Some (Err m))" "is_panic (Some (Panic m))"
  by (simp_all add: is_panic_def)

lemma is_panic_reject_if [simp]: "\<not> is_panic (reject_if b msg)"
  by (simp add: reject_if_def)

lemma is_panic_wrap_error [simp]: "is_panic (wrap_error ctx c) \<longleftrightarrow> is_panic c"
  by (cases "(ctx, c)" rule: wrap_error.cases) auto

lemma is_panic_first_error:
  "is_panic (first_error cs) \<Longrightarrow> \<exists>c \<in> set cs. is_panic c"
  by (induction cs) (auto simp: first_error.simps split: option.splits)

lemma not_panic_first_error [simp]:
  "\<not> is_panic c \<Longrightarrow> \<not> is_panic (first_error cs) \<Longrightarrow> \<not> is_panic (first_error (c # cs))"
  by (cases c) auto

lemma not_panic_check_each:
  "(\<And>x. x \<in> set xs \<Longrightarrow> \<not> is_panic (f x)) \<Longrightarrow> \<not> is_panic (check_each f xs)"
  unfolding check_each_def using is_panic_first_error by fastforce

section \<open>Slices\<close>

text \<open>
  \<open>compactComparable\<close>: the result starts with the first element, and every later one is
  appended unless it equals the last one kept.
\<close>

fun compact_from :: "('a \<Rightarrow> 'b) \<Rightarrow> 'a \<Rightarrow> 'a list \<Rightarrow> 'a list" where
  "compact_from key prev [] = []"
| "compact_from key prev (x # xs) =
     (if key x \<noteq> key prev then x # compact_from key x xs else compact_from key prev xs)"

definition compact_by :: "('a \<Rightarrow> 'b) \<Rightarrow> 'a list \<Rightarrow> 'a list" where
  "compact_by key values = (case values of [] \<Rightarrow> [] | x # xs \<Rightarrow> x # compact_from key x xs)"

definition compactComparable :: "'a list \<Rightarrow> 'a list" where
  "compactComparable values = compact_by (\<lambda>x. x) values"

lemma compact_by_simps [simp]:
  "compact_by key [] = []" "compact_by key (x # xs) = x # compact_from key x xs"
  by (simp_all add: compact_by_def)

lemma set_compact_from: "set (compact_from key x xs) \<subseteq> set xs"
  by (induction key x xs rule: compact_from.induct) auto

lemma set_compact_by: "set (compact_by key xs) \<subseteq> set xs"
  using set_compact_from by (cases xs) fastforce+

lemma length_compact_from: "length (compact_from key x xs) \<le> length xs"
  by (induction key x xs rule: compact_from.induct) auto

lemma length_compact_by: "length (compact_by key xs) \<le> length xs"
  by (cases xs) (auto simp: length_compact_from)

lemma compact_by_eq_Nil [simp]: "compact_by key xs = [] \<longleftrightarrow> xs = []"
  by (cases xs) auto

lemma keys_compact_from:
  "insert (key x) (key ` set (compact_from key x xs)) = insert (key x) (key ` set xs)"
  by (induction key x xs rule: compact_from.induct) auto

lemma keys_compact_by: "key ` set (compact_by key xs) = key ` set xs"
  by (cases xs) (simp_all add: keys_compact_from)

lemma sorted_compact_from:
  fixes key :: "'a \<Rightarrow> 'b::linorder"
  assumes "sorted (map key (x # xs))"
  shows "sorted_wrt (\<lambda>a b. key a < key b) (x # compact_from key x xs)"
  using assms
proof (induction key x xs rule: compact_from.induct)
  case (1 key prev)
  then show ?case by simp
next
  case (2 key prev x xs)
  show ?case
  proof (cases "key x = key prev")
    case True
    with 2 show ?thesis by simp
  next
    case False
    with "2.prems" have less: "key prev < key x" by (simp add: order.not_eq_order_implies_strict)
    with 2 have IH: "sorted_wrt (\<lambda>a b. key a < key b) (x # compact_from key x xs)"
      by simp
    with less False show ?thesis by fastforce
  qed
qed

lemma sorted_compact_by:
  fixes key :: "'a \<Rightarrow> 'b::linorder"
  assumes "sorted (map key xs)"
  shows "sorted_wrt (\<lambda>a b. key a < key b) (compact_by key xs)"
proof (cases xs)
  case (Cons y ys)
  with assms show ?thesis using sorted_compact_from [of key y ys] by simp
qed simp

lemma compact_from_id:
  assumes "sorted_wrt (\<lambda>a b. key a < key b) (x # xs)"
  shows "compact_from (key :: 'a \<Rightarrow> 'b::linorder) x xs = xs"
  using assms
  by (induction key x xs rule: compact_from.induct) (auto simp: less_imp_neq)

lemma compact_by_id:
  fixes key :: "'a \<Rightarrow> 'b::linorder"
  assumes "sorted_wrt (\<lambda>a b. key a < key b) xs"
  shows "compact_by key xs = xs"
  using assms by (cases xs) (simp_all add: compact_from_id)

section \<open>Sorted, compacted slices\<close>

text \<open>
  \<open>sort.Slice(xs, less on key); compact\<close>: the normal form of every unordered list of the
  contracts. Go's \<open>sort.Slice\<close> is not stable; elements of equal key are merged by the
  compaction that follows it.
\<close>

definition sort_compact :: "('a \<Rightarrow> 'b::linorder) \<Rightarrow> 'a list \<Rightarrow> 'a list" where
  "sort_compact key xs = compact_by key (sort_key key xs)"

lemma sort_compact_sorted: "sorted_wrt (\<lambda>a b. key a < key b) (sort_compact key xs)"
  by (simp add: sort_compact_def sorted_compact_by)

lemma sort_compact_keys: "key ` set (sort_compact key xs) = key ` set xs"
  by (simp add: sort_compact_def keys_compact_by)

lemma sort_compact_subset: "set (sort_compact key xs) \<subseteq> set xs"
  using set_compact_by [of key "sort_key key xs"] by (simp add: sort_compact_def)

lemma sorted_wrt_less_sorted:
  "sorted_wrt (\<lambda>a b. key a < key b) xs \<Longrightarrow> sorted (map key xs)"
  by (induction xs) (auto simp: less_imp_le)

lemma sort_compact_idem [simp]: "sort_compact key (sort_compact key xs) = sort_compact key xs"
proof -
  have s: "sorted_wrt (\<lambda>a b. key a < key b) (sort_compact key xs)"
    by (rule sort_compact_sorted)
  then have "sort_key key (sort_compact key xs) = sort_compact key xs"
    by (intro sort_key_id_if_sorted sorted_wrt_less_sorted)
  with s show ?thesis
    by (simp add: sort_compact_def compact_by_id)
qed

lemma sort_key_eq_Nil [simp]: "sort_key key xs = [] \<longleftrightarrow> xs = []"
  using length_sort [of key xs] by (metis length_0_conv)

lemma sort_compact_eq_Nil [simp]: "sort_compact key xs = [] \<longleftrightarrow> xs = []"
  by (simp add: sort_compact_def)

lemma length_sort_compact: "length (sort_compact key xs) \<le> length xs"
  by (metis length_compact_by length_sort sort_compact_def)

lemma strict_sorted_keys_unique:
  fixes key :: "'a \<Rightarrow> 'b::linorder"
  assumes "sorted_wrt (\<lambda>a b. key a < key b) xs" "sorted_wrt (\<lambda>a b. key a < key b) ys"
    and "key ` set xs = key ` set ys"
  shows "map key xs = map key ys"
proof (rule sorted_distinct_set_unique)
  show "sorted (map key xs)" "sorted (map key ys)"
    using assms(1,2) by (auto intro: sorted_wrt_less_sorted)
  show "distinct (map key xs)" "distinct (map key ys)"
    using assms(1,2) strict_sorted_iff [of "map key xs"] strict_sorted_iff [of "map key ys"]
    by (simp_all add: sorted_wrt_map)
  show "set (map key xs) = set (map key ys)" using assms(3) by simp
qed

lemma sort_compact_cong:
  assumes "key ` set xs = key ` set ys"
  shows "map key (sort_compact key xs) = map key (sort_compact key ys)"
  using assms sort_compact_keys [of key xs] sort_compact_keys [of key ys]
  by (intro strict_sorted_keys_unique sort_compact_sorted) simp

lemma sort_compact_id_set: "set (sort_compact (\<lambda>x. x) xs) = set xs"
  using sort_compact_keys [of "\<lambda>x. x" xs] by simp

lemma sort_compact_id_distinct: "distinct (sort_compact (\<lambda>x. x) xs)"
  using sort_compact_sorted [of "\<lambda>x. x" xs] by (simp add: strict_sorted_iff)

lemma sort_compact_id_eq_iff:
  "sort_compact (\<lambda>x. x) xs = sort_compact (\<lambda>x. x) ys \<longleftrightarrow> set xs = set ys"
proof
  assume "sort_compact (\<lambda>x. x) xs = sort_compact (\<lambda>x. x) ys"
  then show "set xs = set ys" by (metis sort_compact_id_set)
next
  assume "set xs = set ys"
  then show "sort_compact (\<lambda>x. x) xs = sort_compact (\<lambda>x. x) ys"
    using sort_compact_cong [of "\<lambda>x. x" xs ys] by simp
qed

section \<open>Loops that remember what they have seen\<close>

text \<open>
  \<open>seen := map[T]bool{}; for x := range xs { if err := f(x) ...; if seen[x] { return dup };
  seen[x] = true }\<close>
\<close>

fun check_unique :: "('a \<Rightarrow> check) \<Rightarrow> string \<Rightarrow> 'a set \<Rightarrow> 'a list \<Rightarrow> check" where
  "check_unique f dup seen [] = None"
| "check_unique f dup seen (x # xs) =
     first_error [f x, reject_if (x \<in> seen) dup, check_unique f dup (insert x seen) xs]"

lemma check_unique_None_aux:
  "check_unique f dup seen xs = None \<longleftrightarrow>
     (\<forall>x \<in> set xs. f x = None) \<and> distinct xs \<and> set xs \<inter> seen = {}"
  by (induction f dup seen xs rule: check_unique.induct) (auto simp: check_simps)

lemma check_unique_None [check_simps]:
  "check_unique f dup {} xs = None \<longleftrightarrow> (\<forall>x \<in> set xs. f x = None) \<and> distinct xs"
  by (simp add: check_unique_None_aux)

lemma not_panic_check_unique:
  "(\<And>x. x \<in> set xs \<Longrightarrow> \<not> is_panic (f x)) \<Longrightarrow> \<not> is_panic (check_unique f dup seen xs)"
  by (induction f dup seen xs rule: check_unique.induct) simp_all

section \<open>Machine integers\<close>

text \<open>Go's \<open>int\<close> and \<open>int64\<close>: subtraction wraps in two's complement.\<close>

definition wrap64 :: "int \<Rightarrow> int" where
  "wrap64 x = (x + 2 ^ 63) mod 2 ^ 64 - 2 ^ 63"

definition sub64 :: "int \<Rightarrow> int \<Rightarrow> int" where
  "sub64 a b = wrap64 (a - b)"

definition is_int64 :: "int \<Rightarrow> bool" where
  "is_int64 x \<longleftrightarrow> - (2 ^ 63) \<le> x \<and> x < 2 ^ 63"

lemma wrap64_id: "is_int64 x \<Longrightarrow> wrap64 x = x"
  by (simp add: wrap64_def is_int64_def)

lemma sub64_exact: "is_int64 a \<Longrightarrow> is_int64 b \<Longrightarrow> 0 \<le> a \<Longrightarrow> 0 \<le> b \<Longrightarrow> sub64 a b = a - b"
  by (simp add: sub64_def is_int64_def wrap64_id)

end
