(* ===== verification/Enums.thy ===== *)
theory Enums
  imports Prelude
begin

text \<open>
  The string-typed enumerations of \<open>internal/experience\<close> (\<open>enums.go\<close>, \<open>verifier.go\<close>,
  \<open>lifecycle.go\<close>, \<open>conflict.go\<close>). A Go value of such a type is any string: the constants are the
  constructors of a datatype, and \<open>T_other s\<close> stands for every string \<open>s\<close> that is none of them, the
  zero value (the empty string) included. \<open>T_text\<close> is the string, \<open>T_Valid\<close> the \<open>Valid\<close> method.
\<close>

section \<open>String enumerations in general\<close>

text \<open>Reading a string as a value of the type: the constant with that label, if there is one.\<close>

definition enum_of :: "'e list \<Rightarrow> ('e \<Rightarrow> string) \<Rightarrow> (string \<Rightarrow> 'e) \<Rightarrow> string \<Rightarrow> 'e" where
  "enum_of constants label other s =
     (case find (\<lambda>v. label v = s) constants of Some v \<Rightarrow> v | None \<Rightarrow> other s)"

locale string_enum =
  fixes constants :: "'e list"
    and label :: "'e \<Rightarrow> string"
    and other :: "string \<Rightarrow> 'e"
    and valid :: "'e \<Rightarrow> bool"
  assumes text_other: "label (other s) = s"
    and texts_distinct: "distinct (map label constants)"
    and valid_const: "valid v \<Longrightarrow> v \<in> set constants"
    and const_valid: "list_all valid constants"
    and other_invalid: "\<not> valid (other s)"
begin

text \<open>The canonical constants are the constants and the strings that are none of them.\<close>

definition canonical :: "'e \<Rightarrow> bool" where
  "canonical v \<longleftrightarrow> enum_of constants label other (label v) = v"

lemma text_of: "label (enum_of constants label other s) = s"
  by (auto simp: enum_of_def text_other find_Some_iff split: option.splits)

lemma of_text_const:
  assumes "v \<in> set constants"
  shows "enum_of constants label other (label v) = v"
proof (cases "find (\<lambda>u. label u = label v) constants")
  case None
  with assms show ?thesis by (auto simp: find_None_iff)
next
  case (Some u)
  then have "u \<in> set constants" "label u = label v" by (auto simp: find_Some_iff)
  with assms texts_distinct have "u = v" by (auto simp: distinct_map dest: inj_onD)
  with Some show ?thesis by (simp add: enum_of_def)
qed

lemma of_text: "valid v \<Longrightarrow> enum_of constants label other (label v) = v"
  by (rule of_text_const) (rule valid_const)

lemma canonical_valid: "valid v \<Longrightarrow> canonical v"
  by (simp add: canonical_def of_text)

lemma canonical_of: "canonical (enum_of constants label other s)"
  by (simp add: canonical_def text_of)

lemma valid_of_iff: "valid (enum_of constants label other s) \<longleftrightarrow> s \<in> label ` set constants"
proof
  assume "valid (enum_of constants label other s)"
  then show "s \<in> label ` set constants" using valid_const text_of by (metis image_eqI)
next
  assume "s \<in> label ` set constants"
  then show "valid (enum_of constants label other s)"
    using of_text_const const_valid by (auto simp: list_all_iff)
qed

lemma text_inj: "canonical v \<Longrightarrow> canonical w \<Longrightarrow> label v = label w \<Longrightarrow> v = w"
  unfolding canonical_def by metis

end

section \<open>enums.go\<close>

datatype ExperienceType =
    ExperiencePreference | ExperienceProcedure | ExperienceWarning | ExperienceConstraint
    | ExperienceFact | ExperienceType_other string

fun ExperienceType_text :: "ExperienceType \<Rightarrow> string" where
  "ExperienceType_text ExperiencePreference = ''preference''"
| "ExperienceType_text ExperienceProcedure = ''procedure''"
| "ExperienceType_text ExperienceWarning = ''warning''"
| "ExperienceType_text ExperienceConstraint = ''constraint''"
| "ExperienceType_text ExperienceFact = ''fact''"
| "ExperienceType_text (ExperienceType_other s) = s"

fun ExperienceType_Valid :: "ExperienceType \<Rightarrow> bool" where
  "ExperienceType_Valid ExperiencePreference = True"
| "ExperienceType_Valid ExperienceProcedure = True"
| "ExperienceType_Valid ExperienceWarning = True"
| "ExperienceType_Valid ExperienceConstraint = True"
| "ExperienceType_Valid ExperienceFact = True"
| "ExperienceType_Valid (ExperienceType_other s) = False"

interpretation ExperienceType_enum: string_enum
  "[ExperiencePreference, ExperienceProcedure, ExperienceWarning, ExperienceConstraint,
    ExperienceFact]"
  ExperienceType_text ExperienceType_other ExperienceType_Valid
  by unfold_locales (auto elim: ExperienceType_Valid.elims)

datatype CandidateFamily =
    CandidateCorrection | CandidateSuccessfulProcedure | CandidateFailedApproach
    | CandidateFamily_other string

fun CandidateFamily_text :: "CandidateFamily \<Rightarrow> string" where
  "CandidateFamily_text CandidateCorrection = ''correction''"
| "CandidateFamily_text CandidateSuccessfulProcedure = ''successful_procedure''"
| "CandidateFamily_text CandidateFailedApproach = ''failed_approach''"
| "CandidateFamily_text (CandidateFamily_other s) = s"

fun CandidateFamily_Valid :: "CandidateFamily \<Rightarrow> bool" where
  "CandidateFamily_Valid CandidateCorrection = True"
| "CandidateFamily_Valid CandidateSuccessfulProcedure = True"
| "CandidateFamily_Valid CandidateFailedApproach = True"
| "CandidateFamily_Valid (CandidateFamily_other s) = False"

interpretation CandidateFamily_enum: string_enum
  "[CandidateCorrection, CandidateSuccessfulProcedure, CandidateFailedApproach]"
  CandidateFamily_text CandidateFamily_other CandidateFamily_Valid
  by unfold_locales (auto elim: CandidateFamily_Valid.elims)

datatype EvidenceTurnRole =
    EvidenceTurnUser | EvidenceTurnAssistant | EvidenceTurnToolCall | EvidenceTurnToolResult
    | EvidenceTurnSystem | EvidenceTurnCompactionSummary | EvidenceTurnRole_other string

fun EvidenceTurnRole_text :: "EvidenceTurnRole \<Rightarrow> string" where
  "EvidenceTurnRole_text EvidenceTurnUser = ''user''"
| "EvidenceTurnRole_text EvidenceTurnAssistant = ''assistant''"
| "EvidenceTurnRole_text EvidenceTurnToolCall = ''tool_call''"
| "EvidenceTurnRole_text EvidenceTurnToolResult = ''tool_result''"
| "EvidenceTurnRole_text EvidenceTurnSystem = ''system''"
| "EvidenceTurnRole_text EvidenceTurnCompactionSummary = ''compaction_summary''"
| "EvidenceTurnRole_text (EvidenceTurnRole_other s) = s"

fun EvidenceTurnRole_Valid :: "EvidenceTurnRole \<Rightarrow> bool" where
  "EvidenceTurnRole_Valid EvidenceTurnUser = True"
| "EvidenceTurnRole_Valid EvidenceTurnAssistant = True"
| "EvidenceTurnRole_Valid EvidenceTurnToolCall = True"
| "EvidenceTurnRole_Valid EvidenceTurnToolResult = True"
| "EvidenceTurnRole_Valid EvidenceTurnSystem = True"
| "EvidenceTurnRole_Valid EvidenceTurnCompactionSummary = True"
| "EvidenceTurnRole_Valid (EvidenceTurnRole_other s) = False"

interpretation EvidenceTurnRole_enum: string_enum
  "[EvidenceTurnUser, EvidenceTurnAssistant, EvidenceTurnToolCall, EvidenceTurnToolResult,
    EvidenceTurnSystem, EvidenceTurnCompactionSummary]"
  EvidenceTurnRole_text EvidenceTurnRole_other EvidenceTurnRole_Valid
  by unfold_locales (auto elim: EvidenceTurnRole_Valid.elims)

datatype LifecycleState =
    LifecycleCandidate | LifecycleApproved | LifecycleActive | LifecyclePaused
    | LifecycleContradicted | LifecycleSuperseded | LifecycleExpired | LifecycleRejected
    | LifecycleState_other string

fun LifecycleState_text :: "LifecycleState \<Rightarrow> string" where
  "LifecycleState_text LifecycleCandidate = ''candidate''"
| "LifecycleState_text LifecycleApproved = ''approved''"
| "LifecycleState_text LifecycleActive = ''active''"
| "LifecycleState_text LifecyclePaused = ''paused''"
| "LifecycleState_text LifecycleContradicted = ''contradicted''"
| "LifecycleState_text LifecycleSuperseded = ''superseded''"
| "LifecycleState_text LifecycleExpired = ''expired''"
| "LifecycleState_text LifecycleRejected = ''rejected''"
| "LifecycleState_text (LifecycleState_other s) = s"

fun LifecycleState_Valid :: "LifecycleState \<Rightarrow> bool" where
  "LifecycleState_Valid LifecycleCandidate = True"
| "LifecycleState_Valid LifecycleApproved = True"
| "LifecycleState_Valid LifecycleActive = True"
| "LifecycleState_Valid LifecyclePaused = True"
| "LifecycleState_Valid LifecycleContradicted = True"
| "LifecycleState_Valid LifecycleSuperseded = True"
| "LifecycleState_Valid LifecycleExpired = True"
| "LifecycleState_Valid LifecycleRejected = True"
| "LifecycleState_Valid (LifecycleState_other s) = False"

interpretation LifecycleState_enum: string_enum
  "[LifecycleCandidate, LifecycleApproved, LifecycleActive, LifecyclePaused,
    LifecycleContradicted, LifecycleSuperseded, LifecycleExpired, LifecycleRejected]"
  LifecycleState_text LifecycleState_other LifecycleState_Valid
  by unfold_locales (auto elim: LifecycleState_Valid.elims)

datatype InterventionStrength =
    InterventionObserve | InterventionAdvise | InterventionClarify
    | InterventionRequireVerification | InterventionDeny | InterventionStrength_other string

fun InterventionStrength_text :: "InterventionStrength \<Rightarrow> string" where
  "InterventionStrength_text InterventionObserve = ''observe''"
| "InterventionStrength_text InterventionAdvise = ''advise''"
| "InterventionStrength_text InterventionClarify = ''clarify''"
| "InterventionStrength_text InterventionRequireVerification = ''require_verification''"
| "InterventionStrength_text InterventionDeny = ''deny''"
| "InterventionStrength_text (InterventionStrength_other s) = s"

fun InterventionStrength_Valid :: "InterventionStrength \<Rightarrow> bool" where
  "InterventionStrength_Valid InterventionObserve = True"
| "InterventionStrength_Valid InterventionAdvise = True"
| "InterventionStrength_Valid InterventionClarify = True"
| "InterventionStrength_Valid InterventionRequireVerification = True"
| "InterventionStrength_Valid InterventionDeny = True"
| "InterventionStrength_Valid (InterventionStrength_other s) = False"

interpretation InterventionStrength_enum: string_enum
  "[InterventionObserve, InterventionAdvise, InterventionClarify,
    InterventionRequireVerification, InterventionDeny]"
  InterventionStrength_text InterventionStrength_other InterventionStrength_Valid
  by unfold_locales (auto elim: InterventionStrength_Valid.elims)

datatype InstructionAuthority =
    AuthorityNone | AuthorityUserApproved | InstructionAuthority_other string

fun InstructionAuthority_text :: "InstructionAuthority \<Rightarrow> string" where
  "InstructionAuthority_text AuthorityNone = ''none''"
| "InstructionAuthority_text AuthorityUserApproved = ''user_approved''"
| "InstructionAuthority_text (InstructionAuthority_other s) = s"

fun InstructionAuthority_Valid :: "InstructionAuthority \<Rightarrow> bool" where
  "InstructionAuthority_Valid AuthorityNone = True"
| "InstructionAuthority_Valid AuthorityUserApproved = True"
| "InstructionAuthority_Valid (InstructionAuthority_other s) = False"

interpretation InstructionAuthority_enum: string_enum
  "[AuthorityNone, AuthorityUserApproved]"
  InstructionAuthority_text InstructionAuthority_other InstructionAuthority_Valid
  by unfold_locales (auto elim: InstructionAuthority_Valid.elims)

datatype ScopeKind =
    ScopeProject | ScopeSession | ScopeKind_other string

fun ScopeKind_text :: "ScopeKind \<Rightarrow> string" where
  "ScopeKind_text ScopeProject = ''project''"
| "ScopeKind_text ScopeSession = ''session''"
| "ScopeKind_text (ScopeKind_other s) = s"

fun ScopeKind_Valid :: "ScopeKind \<Rightarrow> bool" where
  "ScopeKind_Valid ScopeProject = True"
| "ScopeKind_Valid ScopeSession = True"
| "ScopeKind_Valid (ScopeKind_other s) = False"

interpretation ScopeKind_enum: string_enum
  "[ScopeProject, ScopeSession]"
  ScopeKind_text ScopeKind_other ScopeKind_Valid
  by unfold_locales (auto elim: ScopeKind_Valid.elims)

datatype Harness =
    HarnessClaude | HarnessCodex | HarnessCursor | HarnessAntigravity | Harness_other string

fun Harness_text :: "Harness \<Rightarrow> string" where
  "Harness_text HarnessClaude = ''claude''"
| "Harness_text HarnessCodex = ''codex''"
| "Harness_text HarnessCursor = ''cursor''"
| "Harness_text HarnessAntigravity = ''antigravity''"
| "Harness_text (Harness_other s) = s"

fun Harness_Valid :: "Harness \<Rightarrow> bool" where
  "Harness_Valid HarnessClaude = True"
| "Harness_Valid HarnessCodex = True"
| "Harness_Valid HarnessCursor = True"
| "Harness_Valid HarnessAntigravity = True"
| "Harness_Valid (Harness_other s) = False"

interpretation Harness_enum: string_enum
  "[HarnessClaude, HarnessCodex, HarnessCursor, HarnessAntigravity]"
  Harness_text Harness_other Harness_Valid
  by unfold_locales (auto elim: Harness_Valid.elims)

datatype SemanticDisposition =
    SemanticDispositionPropose | SemanticDispositionReject | SemanticDispositionDefer
    | SemanticDisposition_other string

fun SemanticDisposition_text :: "SemanticDisposition \<Rightarrow> string" where
  "SemanticDisposition_text SemanticDispositionPropose = ''propose''"
| "SemanticDisposition_text SemanticDispositionReject = ''reject''"
| "SemanticDisposition_text SemanticDispositionDefer = ''defer''"
| "SemanticDisposition_text (SemanticDisposition_other s) = s"

fun SemanticDisposition_Valid :: "SemanticDisposition \<Rightarrow> bool" where
  "SemanticDisposition_Valid SemanticDispositionPropose = True"
| "SemanticDisposition_Valid SemanticDispositionReject = True"
| "SemanticDisposition_Valid SemanticDispositionDefer = True"
| "SemanticDisposition_Valid (SemanticDisposition_other s) = False"

interpretation SemanticDisposition_enum: string_enum
  "[SemanticDispositionPropose, SemanticDispositionReject, SemanticDispositionDefer]"
  SemanticDisposition_text SemanticDisposition_other SemanticDisposition_Valid
  by unfold_locales (auto elim: SemanticDisposition_Valid.elims)

datatype SemanticDecisionReasonCode =
    SemanticReasonReusableSupported | SemanticReasonTemporaryOrTaskSpecific
    | SemanticReasonInsufficientContext | SemanticReasonUnsafeOrOverbroad
    | SemanticReasonNotReusable | SemanticDecisionReasonCode_other string

fun SemanticDecisionReasonCode_text :: "SemanticDecisionReasonCode \<Rightarrow> string" where
  "SemanticDecisionReasonCode_text SemanticReasonReusableSupported = ''reusable_supported''"
| "SemanticDecisionReasonCode_text SemanticReasonTemporaryOrTaskSpecific = ''temporary_or_task_specific''"
| "SemanticDecisionReasonCode_text SemanticReasonInsufficientContext = ''insufficient_context''"
| "SemanticDecisionReasonCode_text SemanticReasonUnsafeOrOverbroad = ''unsafe_or_overbroad''"
| "SemanticDecisionReasonCode_text SemanticReasonNotReusable = ''not_reusable''"
| "SemanticDecisionReasonCode_text (SemanticDecisionReasonCode_other s) = s"

fun SemanticDecisionReasonCode_Valid :: "SemanticDecisionReasonCode \<Rightarrow> bool" where
  "SemanticDecisionReasonCode_Valid SemanticReasonReusableSupported = True"
| "SemanticDecisionReasonCode_Valid SemanticReasonTemporaryOrTaskSpecific = True"
| "SemanticDecisionReasonCode_Valid SemanticReasonInsufficientContext = True"
| "SemanticDecisionReasonCode_Valid SemanticReasonUnsafeOrOverbroad = True"
| "SemanticDecisionReasonCode_Valid SemanticReasonNotReusable = True"
| "SemanticDecisionReasonCode_Valid (SemanticDecisionReasonCode_other s) = False"

interpretation SemanticDecisionReasonCode_enum: string_enum
  "[SemanticReasonReusableSupported, SemanticReasonTemporaryOrTaskSpecific,
    SemanticReasonInsufficientContext, SemanticReasonUnsafeOrOverbroad,
    SemanticReasonNotReusable]"
  SemanticDecisionReasonCode_text SemanticDecisionReasonCode_other SemanticDecisionReasonCode_Valid
  by unfold_locales (auto elim: SemanticDecisionReasonCode_Valid.elims)

datatype DeterministicConditionKind =
    ConditionEventType | ConditionToolName | ConditionCommandClass | ConditionPathPattern
    | ConditionLifecyclePhase | ConditionPriorEventSequence
    | DeterministicConditionKind_other string

fun DeterministicConditionKind_text :: "DeterministicConditionKind \<Rightarrow> string" where
  "DeterministicConditionKind_text ConditionEventType = ''event_type''"
| "DeterministicConditionKind_text ConditionToolName = ''tool_name''"
| "DeterministicConditionKind_text ConditionCommandClass = ''command_class''"
| "DeterministicConditionKind_text ConditionPathPattern = ''path_pattern''"
| "DeterministicConditionKind_text ConditionLifecyclePhase = ''lifecycle_phase''"
| "DeterministicConditionKind_text ConditionPriorEventSequence = ''prior_event_sequence''"
| "DeterministicConditionKind_text (DeterministicConditionKind_other s) = s"

fun DeterministicConditionKind_Valid :: "DeterministicConditionKind \<Rightarrow> bool" where
  "DeterministicConditionKind_Valid ConditionEventType = True"
| "DeterministicConditionKind_Valid ConditionToolName = True"
| "DeterministicConditionKind_Valid ConditionCommandClass = True"
| "DeterministicConditionKind_Valid ConditionPathPattern = True"
| "DeterministicConditionKind_Valid ConditionLifecyclePhase = True"
| "DeterministicConditionKind_Valid ConditionPriorEventSequence = True"
| "DeterministicConditionKind_Valid (DeterministicConditionKind_other s) = False"

interpretation DeterministicConditionKind_enum: string_enum
  "[ConditionEventType, ConditionToolName, ConditionCommandClass, ConditionPathPattern,
    ConditionLifecyclePhase, ConditionPriorEventSequence]"
  DeterministicConditionKind_text DeterministicConditionKind_other DeterministicConditionKind_Valid
  by unfold_locales (auto elim: DeterministicConditionKind_Valid.elims)

datatype EvidenceSourceKind =
    EvidenceTranscriptTurn | EvidenceCanonicalEvent | EvidenceOutcomeObservation
    | EvidenceWorkspaceHash | EvidenceUserRecorded | EvidenceSourceKind_other string

fun EvidenceSourceKind_text :: "EvidenceSourceKind \<Rightarrow> string" where
  "EvidenceSourceKind_text EvidenceTranscriptTurn = ''transcript_turn''"
| "EvidenceSourceKind_text EvidenceCanonicalEvent = ''canonical_event''"
| "EvidenceSourceKind_text EvidenceOutcomeObservation = ''outcome_observation''"
| "EvidenceSourceKind_text EvidenceWorkspaceHash = ''workspace_hash''"
| "EvidenceSourceKind_text EvidenceUserRecorded = ''user_recorded_outcome''"
| "EvidenceSourceKind_text (EvidenceSourceKind_other s) = s"

fun EvidenceSourceKind_Valid :: "EvidenceSourceKind \<Rightarrow> bool" where
  "EvidenceSourceKind_Valid EvidenceTranscriptTurn = True"
| "EvidenceSourceKind_Valid EvidenceCanonicalEvent = True"
| "EvidenceSourceKind_Valid EvidenceOutcomeObservation = True"
| "EvidenceSourceKind_Valid EvidenceWorkspaceHash = True"
| "EvidenceSourceKind_Valid EvidenceUserRecorded = True"
| "EvidenceSourceKind_Valid (EvidenceSourceKind_other s) = False"

interpretation EvidenceSourceKind_enum: string_enum
  "[EvidenceTranscriptTurn, EvidenceCanonicalEvent, EvidenceOutcomeObservation,
    EvidenceWorkspaceHash, EvidenceUserRecorded]"
  EvidenceSourceKind_text EvidenceSourceKind_other EvidenceSourceKind_Valid
  by unfold_locales (auto elim: EvidenceSourceKind_Valid.elims)

datatype EvidenceAvailability =
    EvidenceAvailable | EvidencePartial | EvidencePruned | EvidenceRetainedSnapshot
    | EvidenceAvailability_other string

fun EvidenceAvailability_text :: "EvidenceAvailability \<Rightarrow> string" where
  "EvidenceAvailability_text EvidenceAvailable = ''available''"
| "EvidenceAvailability_text EvidencePartial = ''partial''"
| "EvidenceAvailability_text EvidencePruned = ''pruned''"
| "EvidenceAvailability_text EvidenceRetainedSnapshot = ''retained_snapshot''"
| "EvidenceAvailability_text (EvidenceAvailability_other s) = s"

fun EvidenceAvailability_Valid :: "EvidenceAvailability \<Rightarrow> bool" where
  "EvidenceAvailability_Valid EvidenceAvailable = True"
| "EvidenceAvailability_Valid EvidencePartial = True"
| "EvidenceAvailability_Valid EvidencePruned = True"
| "EvidenceAvailability_Valid EvidenceRetainedSnapshot = True"
| "EvidenceAvailability_Valid (EvidenceAvailability_other s) = False"

interpretation EvidenceAvailability_enum: string_enum
  "[EvidenceAvailable, EvidencePartial, EvidencePruned, EvidenceRetainedSnapshot]"
  EvidenceAvailability_text EvidenceAvailability_other EvidenceAvailability_Valid
  by unfold_locales (auto elim: EvidenceAvailability_Valid.elims)

datatype ApprovalMode =
    ApprovalAsProposed | ApprovalNarrowed | ApprovalUserEdited | ApprovalMode_other string

fun ApprovalMode_text :: "ApprovalMode \<Rightarrow> string" where
  "ApprovalMode_text ApprovalAsProposed = ''as_proposed''"
| "ApprovalMode_text ApprovalNarrowed = ''narrowed''"
| "ApprovalMode_text ApprovalUserEdited = ''user_edited''"
| "ApprovalMode_text (ApprovalMode_other s) = s"

fun ApprovalMode_Valid :: "ApprovalMode \<Rightarrow> bool" where
  "ApprovalMode_Valid ApprovalAsProposed = True"
| "ApprovalMode_Valid ApprovalNarrowed = True"
| "ApprovalMode_Valid ApprovalUserEdited = True"
| "ApprovalMode_Valid (ApprovalMode_other s) = False"

interpretation ApprovalMode_enum: string_enum
  "[ApprovalAsProposed, ApprovalNarrowed, ApprovalUserEdited]"
  ApprovalMode_text ApprovalMode_other ApprovalMode_Valid
  by unfold_locales (auto elim: ApprovalMode_Valid.elims)

datatype TransitionActorKind =
    ActorUser | ActorDeterministicWorker | TransitionActorKind_other string

fun TransitionActorKind_text :: "TransitionActorKind \<Rightarrow> string" where
  "TransitionActorKind_text ActorUser = ''user''"
| "TransitionActorKind_text ActorDeterministicWorker = ''deterministic_worker''"
| "TransitionActorKind_text (TransitionActorKind_other s) = s"

fun TransitionActorKind_Valid :: "TransitionActorKind \<Rightarrow> bool" where
  "TransitionActorKind_Valid ActorUser = True"
| "TransitionActorKind_Valid ActorDeterministicWorker = True"
| "TransitionActorKind_Valid (TransitionActorKind_other s) = False"

interpretation TransitionActorKind_enum: string_enum
  "[ActorUser, ActorDeterministicWorker]"
  TransitionActorKind_text TransitionActorKind_other TransitionActorKind_Valid
  by unfold_locales (auto elim: TransitionActorKind_Valid.elims)

datatype DeliveryKind =
    DeliveryMissionPack | DeliveryHook | DeliveryKind_other string

fun DeliveryKind_text :: "DeliveryKind \<Rightarrow> string" where
  "DeliveryKind_text DeliveryMissionPack = ''mission_pack''"
| "DeliveryKind_text DeliveryHook = ''hook''"
| "DeliveryKind_text (DeliveryKind_other s) = s"

fun DeliveryKind_Valid :: "DeliveryKind \<Rightarrow> bool" where
  "DeliveryKind_Valid DeliveryMissionPack = True"
| "DeliveryKind_Valid DeliveryHook = True"
| "DeliveryKind_Valid (DeliveryKind_other s) = False"

interpretation DeliveryKind_enum: string_enum
  "[DeliveryMissionPack, DeliveryHook]"
  DeliveryKind_text DeliveryKind_other DeliveryKind_Valid
  by unfold_locales (auto elim: DeliveryKind_Valid.elims)

datatype DeliveryState =
    DeliveryPending | DeliveryDelivered | DeliveryNotDelivered | DeliveryUnknown
    | DeliveryState_other string

fun DeliveryState_text :: "DeliveryState \<Rightarrow> string" where
  "DeliveryState_text DeliveryPending = ''pending''"
| "DeliveryState_text DeliveryDelivered = ''delivered''"
| "DeliveryState_text DeliveryNotDelivered = ''not_delivered''"
| "DeliveryState_text DeliveryUnknown = ''unknown''"
| "DeliveryState_text (DeliveryState_other s) = s"

fun DeliveryState_Valid :: "DeliveryState \<Rightarrow> bool" where
  "DeliveryState_Valid DeliveryPending = True"
| "DeliveryState_Valid DeliveryDelivered = True"
| "DeliveryState_Valid DeliveryNotDelivered = True"
| "DeliveryState_Valid DeliveryUnknown = True"
| "DeliveryState_Valid (DeliveryState_other s) = False"

interpretation DeliveryState_enum: string_enum
  "[DeliveryPending, DeliveryDelivered, DeliveryNotDelivered, DeliveryUnknown]"
  DeliveryState_text DeliveryState_other DeliveryState_Valid
  by unfold_locales (auto elim: DeliveryState_Valid.elims)

datatype OpportunityState =
    OpportunityObserved | OpportunityNotObserved | OpportunityUnknown
    | OpportunityState_other string

fun OpportunityState_text :: "OpportunityState \<Rightarrow> string" where
  "OpportunityState_text OpportunityObserved = ''observed''"
| "OpportunityState_text OpportunityNotObserved = ''not_observed''"
| "OpportunityState_text OpportunityUnknown = ''unknown''"
| "OpportunityState_text (OpportunityState_other s) = s"

fun OpportunityState_Valid :: "OpportunityState \<Rightarrow> bool" where
  "OpportunityState_Valid OpportunityObserved = True"
| "OpportunityState_Valid OpportunityNotObserved = True"
| "OpportunityState_Valid OpportunityUnknown = True"
| "OpportunityState_Valid (OpportunityState_other s) = False"

interpretation OpportunityState_enum: string_enum
  "[OpportunityObserved, OpportunityNotObserved, OpportunityUnknown]"
  OpportunityState_text OpportunityState_other OpportunityState_Valid
  by unfold_locales (auto elim: OpportunityState_Valid.elims)

datatype ApplicabilityState =
    ApplicabilityApplicable | ApplicabilityNotApplicable | ApplicabilityUnknown
    | ApplicabilityState_other string

fun ApplicabilityState_text :: "ApplicabilityState \<Rightarrow> string" where
  "ApplicabilityState_text ApplicabilityApplicable = ''applicable''"
| "ApplicabilityState_text ApplicabilityNotApplicable = ''not_applicable''"
| "ApplicabilityState_text ApplicabilityUnknown = ''unknown''"
| "ApplicabilityState_text (ApplicabilityState_other s) = s"

fun ApplicabilityState_Valid :: "ApplicabilityState \<Rightarrow> bool" where
  "ApplicabilityState_Valid ApplicabilityApplicable = True"
| "ApplicabilityState_Valid ApplicabilityNotApplicable = True"
| "ApplicabilityState_Valid ApplicabilityUnknown = True"
| "ApplicabilityState_Valid (ApplicabilityState_other s) = False"

interpretation ApplicabilityState_enum: string_enum
  "[ApplicabilityApplicable, ApplicabilityNotApplicable, ApplicabilityUnknown]"
  ApplicabilityState_text ApplicabilityState_other ApplicabilityState_Valid
  by unfold_locales (auto elim: ApplicabilityState_Valid.elims)

datatype VerifierState =
    VerifierNotEvaluated | VerifierSatisfied | VerifierViolated | VerifierUnknown
    | VerifierState_other string

fun VerifierState_text :: "VerifierState \<Rightarrow> string" where
  "VerifierState_text VerifierNotEvaluated = ''not_evaluated''"
| "VerifierState_text VerifierSatisfied = ''satisfied''"
| "VerifierState_text VerifierViolated = ''violated''"
| "VerifierState_text VerifierUnknown = ''unknown''"
| "VerifierState_text (VerifierState_other s) = s"

fun VerifierState_Valid :: "VerifierState \<Rightarrow> bool" where
  "VerifierState_Valid VerifierNotEvaluated = True"
| "VerifierState_Valid VerifierSatisfied = True"
| "VerifierState_Valid VerifierViolated = True"
| "VerifierState_Valid VerifierUnknown = True"
| "VerifierState_Valid (VerifierState_other s) = False"

interpretation VerifierState_enum: string_enum
  "[VerifierNotEvaluated, VerifierSatisfied, VerifierViolated, VerifierUnknown]"
  VerifierState_text VerifierState_other VerifierState_Valid
  by unfold_locales (auto elim: VerifierState_Valid.elims)

datatype TaskOutcomeState =
    TaskOutcomeNotObserved | TaskOutcomeSucceeded | TaskOutcomeFailed | TaskOutcomeUnknown
    | TaskOutcomeState_other string

fun TaskOutcomeState_text :: "TaskOutcomeState \<Rightarrow> string" where
  "TaskOutcomeState_text TaskOutcomeNotObserved = ''not_observed''"
| "TaskOutcomeState_text TaskOutcomeSucceeded = ''succeeded''"
| "TaskOutcomeState_text TaskOutcomeFailed = ''failed''"
| "TaskOutcomeState_text TaskOutcomeUnknown = ''unknown''"
| "TaskOutcomeState_text (TaskOutcomeState_other s) = s"

fun TaskOutcomeState_Valid :: "TaskOutcomeState \<Rightarrow> bool" where
  "TaskOutcomeState_Valid TaskOutcomeNotObserved = True"
| "TaskOutcomeState_Valid TaskOutcomeSucceeded = True"
| "TaskOutcomeState_Valid TaskOutcomeFailed = True"
| "TaskOutcomeState_Valid TaskOutcomeUnknown = True"
| "TaskOutcomeState_Valid (TaskOutcomeState_other s) = False"

interpretation TaskOutcomeState_enum: string_enum
  "[TaskOutcomeNotObserved, TaskOutcomeSucceeded, TaskOutcomeFailed, TaskOutcomeUnknown]"
  TaskOutcomeState_text TaskOutcomeState_other TaskOutcomeState_Valid
  by unfold_locales (auto elim: TaskOutcomeState_Valid.elims)

section \<open>verifier.go\<close>

datatype VerifierKind =
    VerifierCommandObserved | VerifierCommandSucceeded | VerifierFileNotModified
    | VerifierFileModified | VerifierPathPatternNotModified | VerifierVerificationAfterLastEdit
    | VerifierNoRepeatFailure | VerifierUserCorrectionAbsent | VerifierObservationOnly
    | VerifierKind_other string

fun VerifierKind_text :: "VerifierKind \<Rightarrow> string" where
  "VerifierKind_text VerifierCommandObserved = ''command_observed''"
| "VerifierKind_text VerifierCommandSucceeded = ''command_succeeded''"
| "VerifierKind_text VerifierFileNotModified = ''file_not_modified''"
| "VerifierKind_text VerifierFileModified = ''file_modified''"
| "VerifierKind_text VerifierPathPatternNotModified = ''path_pattern_not_modified''"
| "VerifierKind_text VerifierVerificationAfterLastEdit = ''verification_after_last_edit''"
| "VerifierKind_text VerifierNoRepeatFailure = ''no_repeat_failure''"
| "VerifierKind_text VerifierUserCorrectionAbsent = ''user_correction_absent''"
| "VerifierKind_text VerifierObservationOnly = ''observation_only''"
| "VerifierKind_text (VerifierKind_other s) = s"

fun VerifierKind_Valid :: "VerifierKind \<Rightarrow> bool" where
  "VerifierKind_Valid VerifierCommandObserved = True"
| "VerifierKind_Valid VerifierCommandSucceeded = True"
| "VerifierKind_Valid VerifierFileNotModified = True"
| "VerifierKind_Valid VerifierFileModified = True"
| "VerifierKind_Valid VerifierPathPatternNotModified = True"
| "VerifierKind_Valid VerifierVerificationAfterLastEdit = True"
| "VerifierKind_Valid VerifierNoRepeatFailure = True"
| "VerifierKind_Valid VerifierUserCorrectionAbsent = True"
| "VerifierKind_Valid VerifierObservationOnly = True"
| "VerifierKind_Valid (VerifierKind_other s) = False"

interpretation VerifierKind_enum: string_enum
  "[VerifierCommandObserved, VerifierCommandSucceeded, VerifierFileNotModified,
    VerifierFileModified, VerifierPathPatternNotModified, VerifierVerificationAfterLastEdit,
    VerifierNoRepeatFailure, VerifierUserCorrectionAbsent, VerifierObservationOnly]"
  VerifierKind_text VerifierKind_other VerifierKind_Valid
  by unfold_locales (auto elim: VerifierKind_Valid.elims)

datatype CoverageRequirement =
    CoverageTranscriptComplete | CoverageCanonicalComplete | CoverageWorkspaceCaptured
    | CoverageOutcomesComplete | CoverageRequirement_other string

fun CoverageRequirement_text :: "CoverageRequirement \<Rightarrow> string" where
  "CoverageRequirement_text CoverageTranscriptComplete = ''transcript_complete''"
| "CoverageRequirement_text CoverageCanonicalComplete = ''canonical_events_complete''"
| "CoverageRequirement_text CoverageWorkspaceCaptured = ''workspace_state_captured''"
| "CoverageRequirement_text CoverageOutcomesComplete = ''outcome_observations_complete''"
| "CoverageRequirement_text (CoverageRequirement_other s) = s"

fun CoverageRequirement_Valid :: "CoverageRequirement \<Rightarrow> bool" where
  "CoverageRequirement_Valid CoverageTranscriptComplete = True"
| "CoverageRequirement_Valid CoverageCanonicalComplete = True"
| "CoverageRequirement_Valid CoverageWorkspaceCaptured = True"
| "CoverageRequirement_Valid CoverageOutcomesComplete = True"
| "CoverageRequirement_Valid (CoverageRequirement_other s) = False"

interpretation CoverageRequirement_enum: string_enum
  "[CoverageTranscriptComplete, CoverageCanonicalComplete, CoverageWorkspaceCaptured,
    CoverageOutcomesComplete]"
  CoverageRequirement_text CoverageRequirement_other CoverageRequirement_Valid
  by unfold_locales (auto elim: CoverageRequirement_Valid.elims)

section \<open>lifecycle.go\<close>

datatype LifecycleAction =
    LifecycleActionActivate | LifecycleActionPause | LifecycleActionSupersede
    | LifecycleActionExpire | LifecycleAction_other string

fun LifecycleAction_text :: "LifecycleAction \<Rightarrow> string" where
  "LifecycleAction_text LifecycleActionActivate = ''activate''"
| "LifecycleAction_text LifecycleActionPause = ''pause''"
| "LifecycleAction_text LifecycleActionSupersede = ''supersede''"
| "LifecycleAction_text LifecycleActionExpire = ''expire''"
| "LifecycleAction_text (LifecycleAction_other s) = s"

fun LifecycleAction_Valid :: "LifecycleAction \<Rightarrow> bool" where
  "LifecycleAction_Valid LifecycleActionActivate = True"
| "LifecycleAction_Valid LifecycleActionPause = True"
| "LifecycleAction_Valid LifecycleActionSupersede = True"
| "LifecycleAction_Valid LifecycleActionExpire = True"
| "LifecycleAction_Valid (LifecycleAction_other s) = False"

interpretation LifecycleAction_enum: string_enum
  "[LifecycleActionActivate, LifecycleActionPause, LifecycleActionSupersede,
    LifecycleActionExpire]"
  LifecycleAction_text LifecycleAction_other LifecycleAction_Valid
  by unfold_locales (auto elim: LifecycleAction_Valid.elims)

section \<open>conflict.go\<close>

datatype ConflictState =
    ConflictNoConflict | ConflictPossibleOverlap | ConflictPossibleContradiction
    | ConflictState_other string

fun ConflictState_text :: "ConflictState \<Rightarrow> string" where
  "ConflictState_text ConflictNoConflict = ''no_conflict''"
| "ConflictState_text ConflictPossibleOverlap = ''possible_overlap''"
| "ConflictState_text ConflictPossibleContradiction = ''possible_contradiction''"
| "ConflictState_text (ConflictState_other s) = s"

fun ConflictState_Valid :: "ConflictState \<Rightarrow> bool" where
  "ConflictState_Valid ConflictNoConflict = True"
| "ConflictState_Valid ConflictPossibleOverlap = True"
| "ConflictState_Valid ConflictPossibleContradiction = True"
| "ConflictState_Valid (ConflictState_other s) = False"

interpretation ConflictState_enum: string_enum
  "[ConflictNoConflict, ConflictPossibleOverlap, ConflictPossibleContradiction]"
  ConflictState_text ConflictState_other ConflictState_Valid
  by unfold_locales (auto elim: ConflictState_Valid.elims)

datatype ConflictReasonCode =
    ConflictReasonNoActiveExperiences | ConflictReasonDifferentProject
    | ConflictReasonDisjointSession | ConflictReasonDisjointHarnesses
    | ConflictReasonDisjointModels | ConflictReasonDisjointTaskFamilies
    | ConflictReasonOverlappingScope | ConflictReasonFileVerifierOpposition
    | ConflictReasonPatternVerifierOpposition | ConflictReasonExperienceRefsTruncated
    | ConflictReasonActiveQueryCapReached | ConflictReasonCode_other string

fun ConflictReasonCode_text :: "ConflictReasonCode \<Rightarrow> string" where
  "ConflictReasonCode_text ConflictReasonNoActiveExperiences = ''no_active_experiences''"
| "ConflictReasonCode_text ConflictReasonDifferentProject = ''different_project''"
| "ConflictReasonCode_text ConflictReasonDisjointSession = ''disjoint_session''"
| "ConflictReasonCode_text ConflictReasonDisjointHarnesses = ''disjoint_harnesses''"
| "ConflictReasonCode_text ConflictReasonDisjointModels = ''disjoint_models''"
| "ConflictReasonCode_text ConflictReasonDisjointTaskFamilies = ''disjoint_task_families''"
| "ConflictReasonCode_text ConflictReasonOverlappingScope = ''overlapping_scope''"
| "ConflictReasonCode_text ConflictReasonFileVerifierOpposition = ''file_verifier_opposition''"
| "ConflictReasonCode_text ConflictReasonPatternVerifierOpposition = ''path_pattern_verifier_opposition''"
| "ConflictReasonCode_text ConflictReasonExperienceRefsTruncated = ''experience_refs_truncated''"
| "ConflictReasonCode_text ConflictReasonActiveQueryCapReached = ''active_experience_query_cap_reached''"
| "ConflictReasonCode_text (ConflictReasonCode_other s) = s"

fun ConflictReasonCode_Valid :: "ConflictReasonCode \<Rightarrow> bool" where
  "ConflictReasonCode_Valid ConflictReasonNoActiveExperiences = True"
| "ConflictReasonCode_Valid ConflictReasonDifferentProject = True"
| "ConflictReasonCode_Valid ConflictReasonDisjointSession = True"
| "ConflictReasonCode_Valid ConflictReasonDisjointHarnesses = True"
| "ConflictReasonCode_Valid ConflictReasonDisjointModels = True"
| "ConflictReasonCode_Valid ConflictReasonDisjointTaskFamilies = True"
| "ConflictReasonCode_Valid ConflictReasonOverlappingScope = True"
| "ConflictReasonCode_Valid ConflictReasonFileVerifierOpposition = True"
| "ConflictReasonCode_Valid ConflictReasonPatternVerifierOpposition = True"
| "ConflictReasonCode_Valid ConflictReasonExperienceRefsTruncated = True"
| "ConflictReasonCode_Valid ConflictReasonActiveQueryCapReached = True"
| "ConflictReasonCode_Valid (ConflictReasonCode_other s) = False"

interpretation ConflictReasonCode_enum: string_enum
  "[ConflictReasonNoActiveExperiences, ConflictReasonDifferentProject,
    ConflictReasonDisjointSession, ConflictReasonDisjointHarnesses,
    ConflictReasonDisjointModels, ConflictReasonDisjointTaskFamilies,
    ConflictReasonOverlappingScope, ConflictReasonFileVerifierOpposition,
    ConflictReasonPatternVerifierOpposition, ConflictReasonExperienceRefsTruncated,
    ConflictReasonActiveQueryCapReached]"
  ConflictReasonCode_text ConflictReasonCode_other ConflictReasonCode_Valid
  by unfold_locales (auto elim: ConflictReasonCode_Valid.elims)

text \<open>Reading a turn role back from its trimmed text (\<open>normalizedEvidenceRefs\<close>).\<close>

definition EvidenceTurnRole_of :: "string \<Rightarrow> EvidenceTurnRole" where
  "EvidenceTurnRole_of s =
     enum_of [EvidenceTurnUser, EvidenceTurnAssistant, EvidenceTurnToolCall, EvidenceTurnToolResult,
       EvidenceTurnSystem, EvidenceTurnCompactionSummary] EvidenceTurnRole_text
       EvidenceTurnRole_other s"

lemmas EvidenceTurnRole_of_text = EvidenceTurnRole_enum.of_text [folded EvidenceTurnRole_of_def]
lemmas EvidenceTurnRole_text_of = EvidenceTurnRole_enum.text_of [folded EvidenceTurnRole_of_def]

end
