(* ===== verification/GoText.thy ===== *)
theory GoText
  imports Prelude
begin

text \<open>
  What the code uses of Go's \<open>strings\<close>, \<open>unicode\<close> and \<open>unicode/utf8\<close> packages, on byte
  strings: \<open>utf8.ValidString\<close>, \<open>utf8.DecodeRuneInString\<close>, \<open>strings.TrimSpace\<close>,
  \<open>strings.Split\<close> on one byte, and the control-character tests of
  \<open>internal/experience/validate.go\<close>. A loop \<open>for _, character := range value\<close> that only tests
  for code points below 0x80 is a loop over bytes: a byte below 0x80 is always a rune of its own.
\<close>

section \<open>Bytes and UTF-8\<close>

definition byte :: "char \<Rightarrow> nat" where
  "byte c = of_char c"

definition is_cont :: "char \<Rightarrow> bool" where
  "is_cont c \<longleftrightarrow> 128 \<le> byte c \<and> byte c \<le> 191"

text \<open>
  The length of the valid encoding at the front of a string, 0 if there is none: the table of
  well-formed UTF-8 sequences (no overlong forms, no surrogates, at most U+10FFFF).
\<close>

definition second_ok :: "nat \<Rightarrow> char \<Rightarrow> bool" where
  "second_ok x b \<longleftrightarrow>
     (if x = 224 then 160 else if x = 240 then 144 else 128) \<le> byte b \<and>
     byte b \<le> (if x = 237 then 159 else if x = 244 then 143 else 191)"

fun utf8_len :: "string \<Rightarrow> nat" where
  "utf8_len [] = 0"
| "utf8_len (a # s) =
     (let x = byte a in
      if x < 128 then 1
      else if 194 \<le> x \<and> x \<le> 223 then
        (case s of b # _ \<Rightarrow> if second_ok x b then 2 else 0 | _ \<Rightarrow> 0)
      else if 224 \<le> x \<and> x \<le> 239 then
        (case s of b # c # _ \<Rightarrow> if second_ok x b \<and> is_cont c then 3 else 0 | _ \<Rightarrow> 0)
      else if 240 \<le> x \<and> x \<le> 244 then
        (case s of b # c # d # _ \<Rightarrow>
           if second_ok x b \<and> is_cont c \<and> is_cont d then 4 else 0 | _ \<Rightarrow> 0)
      else 0)"

lemma utf8_len_le: "utf8_len s \<le> length s"
  by (induction s rule: utf8_len.induct) (auto simp: Let_def split: list.splits)

function ValidString :: "string \<Rightarrow> bool" where
  "ValidString s =
     (if s = [] then True
      else if utf8_len s = 0 then False
      else ValidString (drop (utf8_len s) s))"
  by pat_completeness auto
termination
  by (relation "measure length") (auto simp: diff_less)

declare ValidString.simps [simp del]

lemma ValidString_Nil [simp]: "ValidString []"
  by (simp add: ValidString.simps)

definition is_ascii :: "string \<Rightarrow> bool" where
  "is_ascii s \<longleftrightarrow> list_all (\<lambda>c. byte c < 128) s"

lemma ValidString_ascii: "is_ascii s \<Longrightarrow> ValidString s"
proof (induction s)
  case (Cons a s)
  then show ?case by (subst ValidString.simps) (simp add: is_ascii_def)
qed simp

text \<open>\<open>utf8.DecodeRuneInString\<close>: the rune and its width; (RuneError, 1) on an invalid byte.\<close>

definition rune_error :: nat where
  "rune_error = 65533"

definition DecodeRune :: "string \<Rightarrow> nat \<times> nat" where
  "DecodeRune s =
     (case s of [] \<Rightarrow> (rune_error, 0)
      | a # t \<Rightarrow>
        (if utf8_len s = 0 then (rune_error, 1)
         else if utf8_len s = 1 then (byte a, 1)
         else if utf8_len s = 2 then ((byte a - 192) * 64 + (byte (t ! 0) - 128), 2)
         else if utf8_len s = 3 then
           ((byte a - 224) * 4096 + (byte (t ! 0) - 128) * 64 + (byte (t ! 1) - 128), 3)
         else ((byte a - 240) * 262144 + (byte (t ! 0) - 128) * 4096 + (byte (t ! 1) - 128) * 64
               + (byte (t ! 2) - 128), 4)))"

section \<open>\<open>strings.TrimSpace\<close>\<close>

text \<open>
  The encodings of the code points for which \<open>unicode.IsSpace\<close> holds. Decoding the last rune of
  a string yields such a code point exactly when its encoding is a suffix.
\<close>

definition bytes :: "nat list \<Rightarrow> string" where
  "bytes ns = map char_of ns"

definition space_encodings :: "string list" where
  "space_encodings = map bytes
     [[9], [10], [11], [12], [13], [32], [194, 133], [194, 160], [225, 154, 128],
      [226, 128, 128], [226, 128, 129], [226, 128, 130], [226, 128, 131], [226, 128, 132],
      [226, 128, 133], [226, 128, 134], [226, 128, 135], [226, 128, 136], [226, 128, 137],
      [226, 128, 138], [226, 128, 168], [226, 128, 169], [226, 128, 175], [226, 129, 159],
      [227, 128, 128]]"

definition front_match :: "string list \<Rightarrow> string \<Rightarrow> string option" where
  "front_match ws s = find (\<lambda>w. w \<noteq> [] \<and> prefix w s) ws"

lemma front_match_SomeD: "front_match ws s = Some w \<Longrightarrow> w \<in> set ws \<and> w \<noteq> [] \<and> prefix w s"
  by (auto simp: front_match_def find_Some_iff)

function trim_front :: "string list \<Rightarrow> string \<Rightarrow> string" where
  "trim_front ws s =
     (case front_match ws s of None \<Rightarrow> s | Some w \<Rightarrow> trim_front ws (drop (length w) s))"
  by pat_completeness auto
termination
  by (relation "measure (\<lambda>(ws, s). length s)") (auto dest!: front_match_SomeD simp: prefix_def)

declare trim_front.simps [simp del]

definition TrimSpace :: "string \<Rightarrow> string" where
  "TrimSpace s =
     rev (trim_front (map rev space_encodings) (rev (trim_front space_encodings s)))"

lemma trim_front_clean [simp]: "front_match ws (trim_front ws s) = None"
proof (induction ws s rule: trim_front.induct)
  case (1 ws s)
  then show ?case
    by (cases "front_match ws s") (simp_all add: trim_front.simps [of ws s])
qed

lemma trim_front_eq: "front_match ws s = None \<Longrightarrow> trim_front ws s = s"
  by (simp add: trim_front.simps)

lemma trim_front_suffix: "suffix (trim_front ws s) s"
proof (induction ws s rule: trim_front.induct)
  case (1 ws s)
  show ?case
  proof (cases "front_match ws s")
    case (Some w)
    with 1 have "suffix (trim_front ws s) (drop (length w) s)"
      by (simp add: trim_front.simps [of ws s])
    then show ?thesis using suffix_drop suffix_order.trans by blast
  qed (simp add: trim_front_eq)
qed

lemma front_match_prefix:
  "front_match ws s = None \<Longrightarrow> prefix t s \<Longrightarrow> front_match ws t = None"
  by (auto simp: front_match_def find_None_iff dest: prefix_order.trans)

lemma TrimSpace_idem [simp]: "TrimSpace (TrimSpace s) = TrimSpace s"
proof -
  let ?l = "trim_front space_encodings s"
  let ?r = "trim_front (map rev space_encodings) (rev ?l)"
  have "prefix (rev ?r) ?l"
    using trim_front_suffix [of "map rev space_encodings" "rev ?l"]
    by (simp add: suffix_to_prefix)
  then have "front_match space_encodings (rev ?r) = None"
    by (rule front_match_prefix [rotated]) simp
  then show ?thesis
    by (simp add: TrimSpace_def trim_front_eq)
qed

lemma set_TrimSpace: "set (TrimSpace s) \<subseteq> set s"
  using trim_front_suffix [of space_encodings s]
    trim_front_suffix [of "map rev space_encodings" "rev (trim_front space_encodings s)"]
  by (fastforce simp: TrimSpace_def dest!: set_mono_suffix)

lemma length_TrimSpace: "length (TrimSpace s) \<le> length s"
  using suffix_length_le [OF trim_front_suffix [of space_encodings s]]
    suffix_length_le [OF trim_front_suffix
      [of "map rev space_encodings" "rev (trim_front space_encodings s)"]]
  by (simp add: TrimSpace_def)

lemma TrimSpace_Nil [simp]: "TrimSpace [] = []"
  using length_TrimSpace [of "[]"] by simp

section \<open>Control characters\<close>

definition hasControl :: "string \<Rightarrow> bool" where
  "hasControl value = list_ex (\<lambda>c. byte c < 32 \<or> byte c = 127) value"

definition hasDisallowedControl :: "string \<Rightarrow> bool" where
  "hasDisallowedControl value =
     list_ex (\<lambda>c. (byte c < 32 \<and> c \<noteq> CHR 0x0A \<and> c \<noteq> CHR 0x09) \<or> byte c = 127) value"

text \<open>\<open>strings.ContainsAny\<close> with a cutset of ASCII characters.\<close>

definition ContainsAny :: "string \<Rightarrow> string \<Rightarrow> bool" where
  "ContainsAny s cutset = list_ex (\<lambda>c. c \<in> set cutset) s"

text \<open>
  Visible ASCII text: a sufficient condition for the validators that is cheap to evaluate.
\<close>

definition visible :: "string \<Rightarrow> bool" where
  "visible s \<longleftrightarrow> list_all (\<lambda>c. 32 < byte c \<and> byte c < 127) s"

lemma visible_append [simp]: "visible (s @ t) \<longleftrightarrow> visible s \<and> visible t"
  by (simp add: visible_def)

lemma visible_Nil [simp]: "visible []"
  by (simp add: visible_def)

lemma visible_ascii: "visible s \<Longrightarrow> is_ascii s"
  by (induction s) (auto simp: visible_def is_ascii_def)

lemma visible_ValidString [simp]: "visible s \<Longrightarrow> ValidString s"
  by (simp add: visible_ascii ValidString_ascii)

lemma visible_no_control [simp]: "visible s \<Longrightarrow> \<not> hasControl s"
  by (induction s) (auto simp: visible_def hasControl_def)

lemma visible_no_disallowed [simp]: "visible s \<Longrightarrow> \<not> hasDisallowedControl s"
  by (induction s) (auto simp: visible_def hasDisallowedControl_def)

lemma space_encodings_not_visible:
  "list_all (\<lambda>w. w \<noteq> [] \<and> (byte (hd w) \<le> 32 \<or> 127 \<le> byte (hd w)) \<and>
       (byte (last w) \<le> 32 \<or> 127 \<le> byte (last w))) space_encodings"
  by (simp add: space_encodings_def bytes_def byte_def)

lemma front_match_visible:
  assumes "visible s" and "\<forall>w \<in> set ws. w \<noteq> [] \<longrightarrow> byte (hd w) \<le> 32 \<or> 127 \<le> byte (hd w)"
  shows "front_match ws s = None"
proof -
  have "\<not> prefix w s" if "w \<in> set ws" "w \<noteq> []" for w
  proof
    assume "prefix w s"
    with that(2) have "hd w \<in> set s"
      by (metis hd_in_set set_mono_prefix subsetD)
    with assms that show False by (fastforce simp: visible_def list_all_iff)
  qed
  then show ?thesis by (auto simp: front_match_def find_None_iff)
qed

lemma TrimSpace_visible [simp]: "visible s \<Longrightarrow> TrimSpace s = s"
proof -
  assume v: "visible s"
  then have r: "visible (rev s)" by (simp add: visible_def)
  have "front_match space_encodings s = None"
    using space_encodings_not_visible
    by (intro front_match_visible [OF v]) (auto simp: list_all_iff)
  moreover have "front_match (map rev space_encodings) (rev s) = None"
    using space_encodings_not_visible
    by (intro front_match_visible [OF r]) (auto simp: list_all_iff hd_rev)
  ultimately show ?thesis by (simp add: TrimSpace_def trim_front_eq)
qed

section \<open>\<open>strings.Split\<close> and \<open>strings.Join\<close>\<close>

fun split_on :: "char \<Rightarrow> string \<Rightarrow> string list" where
  "split_on d [] = [[]]"
| "split_on d (x # xs) =
     (if x = d then [] # split_on d xs
      else case split_on d xs of [] \<Rightarrow> [[x]] | y # ys \<Rightarrow> (x # y) # ys)"

fun join_with :: "char \<Rightarrow> string list \<Rightarrow> string" where
  "join_with d [] = []"
| "join_with d [x] = x"
| "join_with d (x # xs) = x @ d # join_with d xs"

lemma split_on_not_Nil [simp]: "split_on d s \<noteq> []"
  by (induction s) (auto split: list.splits)

lemma join_split [simp]: "join_with d (split_on d s) = s"
proof (induction s)
  case (Cons x xs)
  then show ?case
    by (cases "split_on d xs"; cases "tl (split_on d xs)") auto
qed simp

lemma split_on_no_delim: "d \<notin> set s \<Longrightarrow> split_on d s = [s]"
  by (induction s) auto

lemma split_on_app: "d \<notin> set s \<Longrightarrow> split_on d (s @ d # t) = s # split_on d t"
  by (induction s) auto

lemma split_join: "xs \<noteq> [] \<Longrightarrow> \<forall>x \<in> set xs. d \<notin> set x \<Longrightarrow> split_on d (join_with d xs) = xs"
  by (induction d xs rule: join_with.induct) (auto simp: split_on_no_delim split_on_app)

lemma split_on_segments: "seg \<in> set (split_on d s) \<Longrightarrow> d \<notin> set seg"
proof (induction s arbitrary: seg)
  case (Cons x xs)
  then show ?case
    by (cases "split_on d xs") (auto split: if_splits)
qed simp

section \<open>\<open>strings.ToLower\<close> on ASCII\<close>

text \<open>
  On an ASCII string \<open>strings.ToLower\<close> only shifts A-Z. Where the argument may hold other letters
  the function is a parameter of the model instead (see \<open>Evaluate\<close>).
\<close>

definition lower_char :: "char \<Rightarrow> char" where
  "lower_char c = (if 65 \<le> byte c \<and> byte c \<le> 90 then char_of (byte c + 32) else c)"

definition ascii_lower :: "string \<Rightarrow> string" where
  "ascii_lower s = map lower_char s"

end
