(* ===== verification/GoTime.thy ===== *)
theory GoTime
  imports GoText
begin

text \<open>
  \<open>time.Time\<close> as the code uses it: an instant (nanoseconds since 1 January of the year 1, UTC),
  an optional monotonic reading, and a location, known by its offset in seconds east of UTC. The struct equality \<open>==\<close> of Go compares all three,
  \<open>Equal\<close>, \<open>Before\<close> and \<open>After\<close> compare the monotonic readings when both times have one and the
  instants otherwise.
\<close>

record gotime =
  wall_ns :: int
  mono :: "int option"
  loc :: int

definition utc_at :: "int \<Rightarrow> gotime" where
  "utc_at ns = \<lparr>wall_ns = ns, mono = None, loc = 0\<rparr>"

definition IsZero :: "gotime \<Rightarrow> bool" where
  "IsZero t \<longleftrightarrow> wall_ns t = 0"

definition time_cmp_key :: "gotime \<Rightarrow> gotime \<Rightarrow> int \<times> int" where
  "time_cmp_key t u =
     (case (mono t, mono u) of (Some a, Some b) \<Rightarrow> (a, b) | _ \<Rightarrow> (wall_ns t, wall_ns u))"

definition After :: "gotime \<Rightarrow> gotime \<Rightarrow> bool" where
  "After t u \<longleftrightarrow> fst (time_cmp_key t u) > snd (time_cmp_key t u)"

definition Before :: "gotime \<Rightarrow> gotime \<Rightarrow> bool" where
  "Before t u \<longleftrightarrow> fst (time_cmp_key t u) < snd (time_cmp_key t u)"

text \<open>\<open>value.UTC().Round(0)\<close>: the same instant in UTC, without the monotonic reading.\<close>

definition utcTime :: "gotime \<Rightarrow> gotime" where
  "utcTime t = \<lparr>wall_ns = wall_ns t, mono = None, loc = 0\<rparr>"

definition normalizedTimePointer :: "gotime option \<Rightarrow> gotime option" where
  "normalizedTimePointer t = map_option utcTime t"

lemma utcTime_idem [simp]: "utcTime (utcTime t) = utcTime t"
  by (simp add: utcTime_def)

lemma normalizedTimePointer_idem [simp]:
  "normalizedTimePointer (normalizedTimePointer t) = normalizedTimePointer t"
  by (cases t) (simp_all add: normalizedTimePointer_def)

lemma wall_ns_utcTime [simp]: "wall_ns (utcTime t) = wall_ns t"
  by (simp add: utcTime_def)

lemma Before_After: "Before t u \<longleftrightarrow> After u t"
  by (auto simp: Before_def After_def time_cmp_key_def split: option.splits)

lemma After_irrefl [simp]: "\<not> After t t"
  by (auto simp: After_def time_cmp_key_def split: option.splits)

section \<open>The calendar\<close>

definition day_number :: "int \<Rightarrow> int" where
  "day_number ns = ns div 86400000000000"

text \<open>Year and day of the year (from 0) of a day number in the proleptic Gregorian calendar.\<close>

definition year_day :: "int \<Rightarrow> int \<times> int" where
  "year_day d =
     (let n400 = d div 146097; d1 = d mod 146097;
          n100 = min 3 (d1 div 36524); d2 = d1 - n100 * 36524;
          n4 = d2 div 1461; d3 = d2 mod 1461;
          n1 = min 3 (d3 div 365)
      in (400 * n400 + 100 * n100 + 4 * n4 + n1 + 1, d3 - n1 * 365))"

definition leap_year :: "int \<Rightarrow> bool" where
  "leap_year y \<longleftrightarrow> y mod 4 = 0 \<and> (y mod 100 \<noteq> 0 \<or> y mod 400 = 0)"

fun month_day :: "int list \<Rightarrow> int \<Rightarrow> int \<Rightarrow> int \<times> int" where
  "month_day [] m d = (m, d + 1)"
| "month_day (l # ls) m d = (if d < l then (m, d + 1) else month_day ls (m + 1) (d - l))"

definition month_lengths :: "int \<Rightarrow> int list" where
  "month_lengths y = [31, if leap_year y then 29 else 28, 31, 30, 31, 30, 31, 31, 30, 31, 30]"

definition utc_year :: "gotime \<Rightarrow> int" where
  "utc_year t = fst (year_day (day_number (wall_ns t)))"

text \<open>\<open>Time.MarshalJSON\<close> of a UTC time fails for a year outside 0..9999.\<close>

definition json_time_ok :: "gotime \<Rightarrow> bool" where
  "json_time_ok t \<longleftrightarrow> 0 \<le> utc_year t \<and> utc_year t \<le> 9999"

section \<open>Decimal text\<close>

definition digit_char :: "int \<Rightarrow> char" where
  "digit_char d = char_of (48 + d)"

fun digits_text :: "int \<Rightarrow> string" where
  "digits_text n =
     (if n < 10 then [digit_char n] else digits_text (n div 10) @ [digit_char (n mod 10)])"

declare digits_text.simps [simp del]

definition int_text :: "int \<Rightarrow> string" where
  "int_text i = (if i < 0 then CHR ''-'' # digits_text (- i) else digits_text i)"

definition pad_left :: "nat \<Rightarrow> string \<Rightarrow> string" where
  "pad_left n s = replicate (n - length s) (CHR ''0'') @ s"

fun drop_zeros :: "string \<Rightarrow> string" where
  "drop_zeros [] = []"
| "drop_zeros (c # cs) = (if c = CHR ''0'' then drop_zeros cs else c # cs)"

text \<open>RFC 3339 in UTC with as many fractional digits as needed (\<open>time.RFC3339Nano\<close>).\<close>

definition rfc3339 :: "gotime \<Rightarrow> string" where
  "rfc3339 t =
     (let ns = wall_ns t;
          (y, yd) = year_day (day_number ns);
          (m, d) = month_day (month_lengths y) 1 yd;
          s = (ns div 1000000000) mod 86400;
          two = (\<lambda>i. pad_left 2 (digits_text i));
          frac = rev (drop_zeros (rev (pad_left 9 (digits_text (ns mod 1000000000)))))
      in pad_left 4 (digits_text y) @ ''-'' @ two m @ ''-'' @ two d @ ''T'' @
         two (s div 3600) @ '':'' @ two (s div 60 mod 60) @ '':'' @ two (s mod 60) @
         (if frac = [] then [] else CHR ''.'' # frac) @ ''Z'')"

text \<open>
  In any location: the text shows the clock there and the offset in minutes (seconds of the offset
  are cut off); \<open>MarshalJSON\<close> wants the year there in 0..9999 and fewer than 24 hours of offset.
\<close>

definition local_clock :: "gotime \<Rightarrow> gotime" where
  "local_clock t = \<lparr>wall_ns = wall_ns t + loc t * 1000000000, mono = None, loc = 0\<rparr>"

definition zone_text :: "int \<Rightarrow> string" where
  "zone_text offset =
     (let m = \<bar>offset\<bar> div 60; two = (\<lambda>i. pad_left 2 (digits_text i))
      in if offset = 0 then ''Z''
         else (if m = 0 \<or> 0 < offset then CHR ''+'' else CHR ''-'') # two (m div 60) @ '':'' @ two (m mod 60))"

definition json_local_ok :: "gotime \<Rightarrow> bool" where
  "json_local_ok t \<longleftrightarrow> json_time_ok (local_clock t) \<and> \<bar>loc t\<bar> div 60 < 24 * 60"

definition local_rfc3339 :: "gotime \<Rightarrow> string" where
  "local_rfc3339 t = butlast (rfc3339 (local_clock t)) @ zone_text (loc t)"

lemma json_time_ok_utcTime [simp]: "json_time_ok (utcTime t) \<longleftrightarrow> json_time_ok t"
  by (simp add: json_time_ok_def utc_year_def)

lemma json_local_ok_utcTime [simp]: "json_local_ok (utcTime t) \<longleftrightarrow> json_time_ok t"
  by (simp add: json_local_ok_def local_clock_def json_time_ok_def utc_year_def utcTime_def)

lemma rfc3339_epoch: "rfc3339 (utc_at 0) = ''0001-01-01T00:00:00Z''"
  by code_simp

lemma rfc3339_sample:
  "rfc3339 (utc_at 63844547696780000000) = ''2024-02-26T12:34:56.78Z''"
  by code_simp

end
