(* ===== verification/GoDigest.thy ===== *)
theory GoDigest
  imports GoText "HOL-Library.Word"
begin

unbundle bit_operations_syntax

text \<open>
  \<open>crypto/sha256.Sum256\<close> (FIPS 180-4), \<open>encoding/hex\<close> and \<open>encoding/base32\<close> (standard alphabet,
  no padding), as \<open>internal/experience/hash.go\<close> uses them. Nothing in the development depends on the
  digest being collision free: what is proved of identifiers is their shape, which inputs give the
  same identifier, and that a mismatch is rejected.
\<close>

section \<open>SHA-256\<close>

type_synonym u32 = "32 word"

definition rotr32 :: "nat \<Rightarrow> u32 \<Rightarrow> u32" where
  "rotr32 n x = drop_bit n x OR push_bit (32 - n) x"

text \<open>Round constants: the fractional parts of the cube roots of the first 64 primes.\<close>

definition sha_k :: "u32 list" where
  "sha_k =
    [1116352408, 1899447441, 3049323471, 3921009573, 961987163, 1508970993, 2453635748, 2870763221,
     3624381080, 310598401, 607225278, 1426881987, 1925078388, 2162078206, 2614888103, 3248222580,
     3835390401, 4022224774, 264347078, 604807628, 770255983, 1249150122, 1555081692, 1996064986,
     2554220882, 2821834349, 2952996808, 3210313671, 3336571891, 3584528711, 113926993, 338241895,
     666307205, 773529912, 1294757372, 1396182291, 1695183700, 1986661051, 2177026350, 2456956037,
     2730485921, 2820302411, 3259730800, 3345764771, 3516065817, 3600352804, 4094571909, 275423344,
     430227734, 506948616, 659060556, 883997877, 958139571, 1322822218, 1537002063, 1747873779,
     1955562222, 2024104815, 2227730452, 2361852424, 2428436474, 2756734187, 3204031479, 3329325298]"

definition sha_init :: "u32 list" where
  "sha_init = [1779033703, 3144134277, 1013904242, 2773480762, 1359893119, 2600822924, 528734635,
     1541459225]"

definition be_word :: "string \<Rightarrow> u32" where
  "be_word bs = foldl (\<lambda>w c. push_bit 8 w OR of_char c) 0 bs"

fun chunks :: "nat \<Rightarrow> 'a list \<Rightarrow> 'a list list" where
  "chunks n xs = (if n = 0 \<or> xs = [] then [] else take n xs # chunks n (drop n xs))"

declare chunks.simps [simp del]

definition be_bytes :: "nat \<Rightarrow> 'a::len word \<Rightarrow> string" where
  "be_bytes n w = map (\<lambda>i. char_of (uint (drop_bit (8 * i) w))) (rev [0..<n])"

definition sha_pad :: "string \<Rightarrow> string" where
  "sha_pad msg =
     msg @ CHR 0x80 # replicate ((119 - length msg mod 64) mod 64) (CHR 0x00)
         @ be_bytes 8 (of_nat (8 * length msg) :: 64 word)"

text \<open>The message schedule, newest word first.\<close>

definition sha_extend :: "u32 list \<Rightarrow> u32 list" where
  "sha_extend r =
     (let w2 = r ! 1; w15 = r ! 14;
          s0 = rotr32 7 w15 XOR rotr32 18 w15 XOR drop_bit 3 w15;
          s1 = rotr32 17 w2 XOR rotr32 19 w2 XOR drop_bit 10 w2
      in (s1 + r ! 6 + s0 + r ! 15) # r)"

definition sha_schedule :: "string \<Rightarrow> u32 list" where
  "sha_schedule block = rev ((sha_extend ^^ 48) (rev (map be_word (chunks 4 block))))"

type_synonym sha_state = "u32 \<times> u32 \<times> u32 \<times> u32 \<times> u32 \<times> u32 \<times> u32 \<times> u32"

fun sha_round :: "u32 \<times> u32 \<Rightarrow> sha_state \<Rightarrow> sha_state" where
  "sha_round (k, w) (a, b, c, d, e, f, g, h) =
     (let t1 = h + (rotr32 6 e XOR rotr32 11 e XOR rotr32 25 e) + ((e AND f) XOR (NOT e AND g)) + k + w;
          t2 = (rotr32 2 a XOR rotr32 13 a XOR rotr32 22 a) + ((a AND b) XOR (a AND c) XOR (b AND c))
      in (t1 + t2, a, b, c, d + t1, e, f, g))"

fun state_words :: "sha_state \<Rightarrow> u32 list" where
  "state_words (a, b, c, d, e, f, g, h) = [a, b, c, d, e, f, g, h]"

fun words_state :: "u32 list \<Rightarrow> sha_state" where
  "words_state [a, b, c, d, e, f, g, h] = (a, b, c, d, e, f, g, h)"
| "words_state _ = (0, 0, 0, 0, 0, 0, 0, 0)"

definition sha_block :: "u32 list \<Rightarrow> string \<Rightarrow> u32 list" where
  "sha_block hs block =
     map2 (+) hs (state_words (fold sha_round (zip sha_k (sha_schedule block)) (words_state hs)))"

definition sha256 :: "string \<Rightarrow> string" where
  "sha256 msg = concat (map (be_bytes 4) (foldl sha_block sha_init (chunks 64 (sha_pad msg))))"

lemma length_state_words [simp]: "length (state_words s) = 8"
  by (induction s rule: state_words.induct) simp

lemma length_sha_block: "length hs = 8 \<Longrightarrow> length (sha_block hs b) = 8"
  by (simp add: sha_block_def)

lemma length_sha_blocks: "length hs = 8 \<Longrightarrow> length (foldl sha_block hs bs) = 8"
  by (induction bs arbitrary: hs) (simp_all add: length_sha_block)

lemma length_sha256 [simp]: "length (sha256 msg) = 32"
  by (simp add: sha256_def be_bytes_def length_concat comp_def sum_list_triv length_sha_blocks
      sha_init_def)

section \<open>Hexadecimal\<close>

definition hex_digits :: string where
  "hex_digits = ''0123456789abcdef''"

definition hex_encode :: "string \<Rightarrow> string" where
  "hex_encode bs = concat (map (\<lambda>c. [hex_digits ! (byte c div 16), hex_digits ! (byte c mod 16)]) bs)"

definition hex_value :: "char \<Rightarrow> nat option" where
  "hex_value c =
     (let n = byte c in
      if 48 \<le> n \<and> n \<le> 57 then Some (n - 48)
      else if 97 \<le> n \<and> n \<le> 102 then Some (n - 87)
      else if 65 \<le> n \<and> n \<le> 70 then Some (n - 55)
      else None)"

text \<open>\<open>hex.DecodeString\<close>; \<open>None\<close> on a bad digit or an odd length.\<close>

fun hex_decode :: "string \<Rightarrow> string option" where
  "hex_decode [] = Some []"
| "hex_decode [c] = None"
| "hex_decode (a # b # s) =
     (case (hex_value a, hex_value b, hex_decode s) of
        (Some x, Some y, Some r) \<Rightarrow> Some (char_of (16 * x + y) # r)
      | _ \<Rightarrow> None)"

lemma byte_less [simp]: "byte c < 256"
  by (simp add: byte_def)

lemma char_of_byte [simp]: "char_of (byte c) = c"
  by (simp add: byte_def)

lemma hex_digits_table:
  "list_all (\<lambda>n. hex_value (hex_digits ! n) = Some n) [0..<16]"
  by code_simp

lemma hex_value_digit: "n < 16 \<Longrightarrow> hex_value (hex_digits ! n) = Some n"
  using hex_digits_table by (simp add: list_all_iff)

lemma hex_decode_encode [simp]: "hex_decode (hex_encode bs) = Some bs"
proof (induction bs)
  case (Cons c bs)
  have "byte c div 16 < 16" "byte c mod 16 < 16"
    using byte_less [of c] by linarith+
  moreover have "16 * (byte c div 16) + byte c mod 16 = byte c" by simp
  ultimately show ?case
    using Cons by (simp add: hex_encode_def hex_value_digit)
qed (simp add: hex_encode_def)

lemma length_hex_encode [simp]: "length (hex_encode bs) = 2 * length bs"
  by (induction bs) (simp_all add: hex_encode_def)

definition is_lower_hex :: "char \<Rightarrow> bool" where
  "is_lower_hex c \<longleftrightarrow> 48 \<le> byte c \<and> byte c \<le> 57 \<or> 97 \<le> byte c \<and> byte c \<le> 102"

lemma hex_digits_lower: "n < 16 \<Longrightarrow> is_lower_hex (hex_digits ! n)"
proof -
  have "list_all is_lower_hex hex_digits"
    by (simp add: hex_digits_def is_lower_hex_def byte_def)
  then show "n < 16 \<Longrightarrow> is_lower_hex (hex_digits ! n)"
    by (simp add: list_all_length hex_digits_def)
qed

lemma hex_encode_lower: "list_all is_lower_hex (hex_encode bs)"
proof (induction bs)
  case (Cons c bs)
  have "byte c div 16 < 16" "byte c mod 16 < 16"
    using byte_less [of c] by linarith+
  with Cons show ?case by (simp add: hex_encode_def hex_digits_lower)
qed (simp add: hex_encode_def)

section \<open>Base 32\<close>

definition base32_alphabet :: string where
  "base32_alphabet = ''ABCDEFGHIJKLMNOPQRSTUVWXYZ234567''"

definition byte_bits :: "char \<Rightarrow> bool list" where
  "byte_bits c = map (\<lambda>i. bit (byte c) i) (rev [0..<8])"

definition bits_value :: "bool list \<Rightarrow> nat" where
  "bits_value bs = foldl (\<lambda>n b. 2 * n + of_bool b) 0 (take 5 (bs @ replicate 4 False))"

definition base32_encode :: "string \<Rightarrow> string" where
  "base32_encode s =
     map (\<lambda>bs. base32_alphabet ! bits_value bs) (chunks 5 (concat (map byte_bits s)))"

lemma length_chunks: "0 < n \<Longrightarrow> length (chunks n xs) = (length xs + (n - 1)) div n"
proof (induction n xs rule: chunks.induct)
  case (1 n xs)
  show ?case
  proof (cases "xs = []")
    case True
    with 1 show ?thesis by (simp add: chunks.simps)
  next
    case False
    then have l: "length xs + (n - 1) = (length xs - 1) + n"
      using "1.prems" by (cases xs) simp_all
    have "length (chunks n xs) = Suc ((length xs - n + (n - 1)) div n)"
      using 1 False by (simp add: chunks.simps [of n xs])
    also have "(length xs - n + (n - 1)) div n = (length xs - 1) div n"
    proof (cases "n \<le> length xs")
      case True
      then have "length xs - n + (n - 1) = length xs - 1" using "1.prems" by linarith
      then show ?thesis by simp
    next
      case False
      then have "length xs - n = 0" "n - 1 < n" "length xs - 1 < n" using "1.prems" by linarith+
      then show ?thesis by simp
    qed
    also have "Suc ((length xs - 1) div n) = (length xs + (n - 1)) div n"
      unfolding l using "1.prems" div_add_self2 [of n "length xs - 1"] by linarith
    finally show ?thesis .
  qed
qed

lemma length_base32: "length (base32_encode s) = (8 * length s + 4) div 5"
  by (simp add: base32_encode_def length_chunks length_concat comp_def byte_bits_def sum_list_triv
      mult.commute)

lemma foldl_bits_bound:
  "foldl (\<lambda>n b. 2 * n + of_bool b) a bs < (a + 1) * 2 ^ length bs" for a :: nat
proof (induction bs arbitrary: a)
  case (Cons b bs)
  have "(2 * a + of_bool b + 1) * 2 ^ length bs \<le> (2 * a + 2) * 2 ^ length bs"
    by (intro mult_right_mono) auto
  also have "\<dots> = (a + 1) * 2 ^ length (b # bs)" by simp
  finally show ?case using Cons [of "2 * a + of_bool b"] by simp
qed simp

lemma bits_value_less: "bits_value bs < 32"
proof -
  have "(2::nat) ^ length (take 5 (bs @ replicate 4 False)) \<le> 2 ^ 5"
    by (intro power_increasing) auto
  then show ?thesis
    using foldl_bits_bound [of 0 "take 5 (bs @ replicate 4 False)"]
    unfolding bits_value_def by simp
qed

definition is_base32_lower :: "char \<Rightarrow> bool" where
  "is_base32_lower c \<longleftrightarrow> 97 \<le> byte c \<and> byte c \<le> 122 \<or> 50 \<le> byte c \<and> byte c \<le> 55"

lemma base32_alphabet_lower: "list_all is_base32_lower (ascii_lower base32_alphabet)"
  by (simp add: ascii_lower_def base32_alphabet_def is_base32_lower_def lower_char_def byte_def)

lemma base32_lower: "list_all is_base32_lower (ascii_lower (base32_encode s))"
proof -
  have "is_base32_lower (lower_char (base32_alphabet ! bits_value bs))" for bs
  proof -
    have "bits_value bs < length (ascii_lower base32_alphabet)"
      using bits_value_less [of bs] by (simp add: ascii_lower_def base32_alphabet_def)
    then show ?thesis
      using base32_alphabet_lower by (auto simp: list_all_length ascii_lower_def)
  qed
  then show ?thesis by (simp add: base32_encode_def ascii_lower_def list_all_iff)
qed

end
