(* ===== verification/GoJson.thy ===== *)
theory GoJson
  imports GoTime GoDigest Complex_Main
begin

text \<open>
  \<open>encoding/json.Marshal\<close> on the payloads the code hashes and sorts by: a struct is an object with
  its fields in declaration order, a nil slice or pointer is \<open>null\<close>, a field tagged \<open>omitempty\<close> is
  left out when it is empty. \<open>Marshal\<close> fails on a NaN or infinite float and on a time whose year is
  outside 0..9999 (in its location): the rendering is then \<open>None\<close>.
\<close>

section \<open>Float values\<close>

text \<open>
  The values of a \<open>float64\<close>; a finite value other than -0 is the rational number it stands for.
\<close>

datatype float64 = NaN | PosInf | NegInf | NegZero | Finite rat

text \<open>\<open>strconv.AppendFloat(b, f, 'f' or 'e', -1, 64)\<close>: the shortest decimal that reads back as the
  same float.\<close>

fun bit_length :: "int \<Rightarrow> int" where
  "bit_length n = (if n \<le> 0 then 0 else 1 + bit_length (n div 2))"

declare bit_length.simps [simp del]

definition rat_pow :: "rat \<Rightarrow> int \<Rightarrow> rat" where
  "rat_pow b e = (if 0 \<le> e then b ^ nat e else inverse (b ^ nat (- e)))"

definition binary_exponent :: "rat \<Rightarrow> int" where
  "binary_exponent v =
     (let (p, q) = quotient_of v; k = bit_length p - bit_length q
      in max (-1074) ((if rat_pow 2 k \<le> v then k else k - 1) - 52))"

text \<open>Does the decimal \<open>d\<close> round (to nearest, ties to even) to the positive float \<open>v\<close>?\<close>

definition reads_back :: "rat \<Rightarrow> rat \<Rightarrow> bool" where
  "reads_back v d =
     (let e = binary_exponent v; ulp = rat_pow 2 e; m = \<lfloor>v / ulp\<rfloor>;
          above = v + ulp / 2;
          below = (if m = 2 ^ 52 \<and> -1074 < e then v - ulp / 4 else v - ulp / 2)
      in if even m then below \<le> d \<and> d \<le> above else below < d \<and> d < above)"

definition decimal_exponent :: "rat \<Rightarrow> int" where
  "decimal_exponent v =
     (case find (\<lambda>x. v < rat_pow 10 (x + 1)) [-330..309] of Some x \<Rightarrow> x | None \<Rightarrow> 309)"

definition decimal_candidate :: "rat \<Rightarrow> int \<Rightarrow> nat \<Rightarrow> int option" where
  "decimal_candidate v x n =
     (let s = rat_pow 10 (x - int n + 1); lo = \<lfloor>v / s\<rfloor>; hi = \<lceil>v / s\<rceil>;
          lo_ok = reads_back v (of_int lo * s); hi_ok = reads_back v (of_int hi * s)
      in if lo_ok \<and> hi_ok then
           Some (if v - of_int lo * s < of_int hi * s - v \<or>
                    v - of_int lo * s = of_int hi * s - v \<and> even lo then lo else hi)
         else if lo_ok then Some lo else if hi_ok then Some hi else None)"

definition shortest_digits :: "rat \<Rightarrow> string \<times> int" where
  "shortest_digits v =
     (let x = decimal_exponent v;
          m = (case find (\<lambda>n. decimal_candidate v x n \<noteq> None) [1..<18] of
                 Some n \<Rightarrow> the (decimal_candidate v x n)
               | None \<Rightarrow> \<lfloor>v / rat_pow 10 (x - 16)\<rfloor>);
          ds = digits_text m;
          x' = (if rat_pow 10 (x + 1) \<le> of_int m * rat_pow 10 (x - int (length ds) + 1)
                then x + 1 else x)
      in (case rev (drop_zeros (rev ds)) of [] \<Rightarrow> ''0'' | t \<Rightarrow> t, x'))"

definition zeros :: "int \<Rightarrow> string" where
  "zeros n = replicate (nat n) (CHR ''0'')"

definition fixed_text :: "string \<Rightarrow> int \<Rightarrow> string" where
  "fixed_text ds x =
     (if x < 0 then ''0.'' @ zeros (- x - 1) @ ds
      else if int (length ds) \<le> x + 1 then ds @ zeros (x + 1 - int (length ds))
      else take (nat (x + 1)) ds @ ''.'' @ drop (nat (x + 1)) ds)"

definition exp_text :: "string \<Rightarrow> int \<Rightarrow> string" where
  "exp_text ds x =
     take 1 ds @ (if length ds = 1 then [] else CHR ''.'' # drop 1 ds) @ ''e'' @
     (if x < 0 then CHR ''-'' # digits_text (- x) else CHR ''+'' # pad_left 2 (digits_text x))"

definition positive_text :: "rat \<Rightarrow> string" where
  "positive_text v =
     (let (ds, x) = shortest_digits v
      in if v < inverse (10 ^ 6) \<or> 10 ^ 21 \<le> v then exp_text ds x else fixed_text ds x)"

fun float_text :: "float64 \<Rightarrow> string option" where
  "float_text NaN = None"
| "float_text PosInf = None"
| "float_text NegInf = None"
| "float_text NegZero = Some ''-0''"
| "float_text (Finite v) =
     Some (if v = 0 then ''0'' else if v < 0 then CHR ''-'' # positive_text (- v) else positive_text v)"

section \<open>String literals\<close>

definition escape_ascii :: "char \<Rightarrow> string" where
  "escape_ascii c =
     (let n = byte c in
      if c = CHR 0x22 \<or> c = CHR 0x5C then [CHR 0x5C, c]
      else if n = 8 then CHR 0x5C # ''b''
      else if n = 12 then CHR 0x5C # ''f''
      else if n = 10 then CHR 0x5C # ''n''
      else if n = 13 then CHR 0x5C # ''r''
      else if n = 9 then CHR 0x5C # ''t''
      else if n < 32 \<or> c = CHR ''<'' \<or> c = CHR ''>'' \<or> c = CHR ''&'' then
        CHR 0x5C # ''u00'' @ hex_encode [c]
      else [c])"

function escape_text :: "string \<Rightarrow> string" where
  "escape_text s =
     (if s = [] then []
      else if utf8_len s = 0 then CHR 0x5C # ''ufffd'' @ escape_text (tl s)
      else if utf8_len s = 1 then escape_ascii (hd s) @ escape_text (tl s)
      else if take 3 s = bytes [226, 128, 168] then CHR 0x5C # ''u2028'' @ escape_text (drop 3 s)
      else if take 3 s = bytes [226, 128, 169] then CHR 0x5C # ''u2029'' @ escape_text (drop 3 s)
      else take (utf8_len s) s @ escape_text (drop (utf8_len s) s))"
  by pat_completeness auto
termination
  by (relation "measure length") auto

declare escape_text.simps [simp del]

definition string_text :: "string \<Rightarrow> string" where
  "string_text s = CHR 0x22 # escape_text s @ [CHR 0x22]"

section \<open>Values\<close>

datatype json =
    JNull | JBool bool | JInt int | JFloat float64 | JStr string | JTime gotime
  | JArr "json list" | JObj "(string \<times> json) list"

fun commas :: "string list \<Rightarrow> string" where
  "commas [] = []"
| "commas [x] = x"
| "commas (x # xs) = x @ '','' @ commas xs"

fun render :: "json \<Rightarrow> string option"
  and render_list :: "json list \<Rightarrow> string list option"
  and render_fields :: "(string \<times> json) list \<Rightarrow> string list option" where
  "render JNull = Some ''null''"
| "render (JBool b) = Some (if b then ''true'' else ''false'')"
| "render (JInt i) = Some (int_text i)"
| "render (JFloat f) = float_text f"
| "render (JStr s) = Some (string_text s)"
| "render (JTime t) = (if json_local_ok t then Some (string_text (local_rfc3339 t)) else None)"
| "render (JArr js) = map_option (\<lambda>xs. ''['' @ commas xs @ '']'') (render_list js)"
| "render (JObj fs) = map_option (\<lambda>xs. ''{'' @ commas xs @ ''}'') (render_fields fs)"
| "render_list [] = Some []"
| "render_list (j # js) =
     (case (render j, render_list js) of (Some x, Some xs) \<Rightarrow> Some (x # xs) | _ \<Rightarrow> None)"
| "render_fields [] = Some []"
| "render_fields (f # fs) =
     (case (render (snd f), render_fields fs) of
        (Some x, Some xs) \<Rightarrow> Some ((string_text (fst f) @ '':'' @ x) # xs)
      | _ \<Rightarrow> None)"

text \<open>\<open>left, _ := json.Marshal(x); string(left)\<close>: the empty string when \<open>Marshal\<close> fails.\<close>

definition marshal_text :: "json \<Rightarrow> string" where
  "marshal_text j = (case render j of Some s \<Rightarrow> s | None \<Rightarrow> [])"

text \<open>Struct fields with and without \<open>omitempty\<close>; slices that are nil when empty.\<close>

definition str_field :: "string \<Rightarrow> string \<Rightarrow> (string \<times> json) list" where
  "str_field name s = (if s = [] then [] else [(name, JStr s)])"

definition arr_field :: "string \<Rightarrow> json list \<Rightarrow> (string \<times> json) list" where
  "arr_field name js = (if js = [] then [] else [(name, JArr js)])"

definition opt_field :: "string \<Rightarrow> json option \<Rightarrow> (string \<times> json) list" where
  "opt_field name v = (case v of None \<Rightarrow> [] | Some j \<Rightarrow> [(name, j)])"

definition nil_array :: "json list \<Rightarrow> json" where
  "nil_array js = (if js = [] then JNull else JArr js)"

definition strings_json :: "string list \<Rightarrow> json" where
  "strings_json xs = JArr (map JStr xs)"

section \<open>When \<open>Marshal\<close> succeeds\<close>

fun float_ok :: "float64 \<Rightarrow> bool" where
  "float_ok NaN = False"
| "float_ok PosInf = False"
| "float_ok NegInf = False"
| "float_ok _ = True"

fun json_ok :: "json \<Rightarrow> bool" where
  "json_ok (JFloat f) = float_ok f"
| "json_ok (JTime t) = json_local_ok t"
| "json_ok (JArr js) = (\<forall>j \<in> set js. json_ok j)"
| "json_ok (JObj fs) = (\<forall>f \<in> set fs. json_ok (snd f))"
| "json_ok _ = True"

lemma float_text_ok: "float_text f \<noteq> None \<longleftrightarrow> float_ok f"
  by (cases f rule: float_ok.cases) auto

lemma render_ok_aux:
  "render j \<noteq> None \<longleftrightarrow> json_ok j"
  "render_list js \<noteq> None \<longleftrightarrow> (\<forall>j \<in> set js. json_ok j)"
  "render_fields fs \<noteq> None \<longleftrightarrow> (\<forall>f \<in> set fs. json_ok (snd f))"
proof (induction j and js and fs rule: render_render_list_render_fields.induct)
  case (4 f)
  then show ?case by (simp only: render.simps json_ok.simps float_text_ok)
qed (auto split: option.splits)

lemma render_ok: "(\<exists>s. render j = Some s) \<longleftrightarrow> json_ok j"
  using render_ok_aux(1) [of j] by auto

lemma json_ok_fields [simp]:
  "(\<forall>f \<in> set (str_field n s). json_ok (snd f))"
  "(\<forall>f \<in> set (arr_field n js). json_ok (snd f)) \<longleftrightarrow> (\<forall>j \<in> set js. json_ok j)"
  "(\<forall>f \<in> set (opt_field n v). json_ok (snd f)) \<longleftrightarrow> (\<forall>j. v = Some j \<longrightarrow> json_ok j)"
  "json_ok (nil_array js) \<longleftrightarrow> (\<forall>j \<in> set js. json_ok j)"
  "json_ok (strings_json xs)"
  by (auto simp: str_field_def arr_field_def opt_field_def nil_array_def strings_json_def
      split: option.splits)

end
