(* ===== verification/Model.thy ===== *)
theory Model
  imports Enums GoJson
begin

text \<open>
  The data of \<open>internal/experience/model.go\<close> and \<open>verifier.go\<close>: one record per struct, each field
  under the struct's prefix and its Go name. Pointers are options, slices lists, \<open>int\<close> and \<open>int64\<close>
  integers (the subtraction the code does on them is \<open>sub64\<close> of \<open>Prelude\<close>), \<open>time.Time\<close> is
  \<open>gotime\<close>, \<open>float64\<close> the type of \<open>GoJson\<close>. A nil slice and an empty one are the same list: the
  code tells them apart only in the JSON text of a payload, where which of the two an empty slice
  is follows from how the payload is built.
\<close>

section \<open>Versions\<close>

definition CandidateSchemaVersion :: string where
  "CandidateSchemaVersion = ''belay.experience-candidate.v1''"

definition SemanticProposalSchemaVersion :: string where
  "SemanticProposalSchemaVersion = ''belay.experience-semantic-proposal.v1''"

definition SemanticDecisionSchemaVersion :: string where
  "SemanticDecisionSchemaVersion = ''belay.experience-semantic-decision.v1''"

definition SemanticProposalPromptVersions :: "string list" where
  "SemanticProposalPromptVersions =
     [''belay.experience-prompt.v1'', ''belay.experience-prompt.v2'', ''belay.experience-prompt.v3'',
      ''belay.experience-prompt.v4'', ''belay.experience-prompt.v5'', ''belay.experience-prompt.v6'',
      ''belay.experience-prompt.v7'', ''belay.experience-prompt.v8'', ''belay.experience-prompt.v9'',
      ''belay.experience-prompt.v10'', ''belay.experience-prompt.v11'',
      ''belay.experience-prompt.v12'']"

definition ExperienceSchemaVersion :: string where
  "ExperienceSchemaVersion = ''belay.experience.v1''"

definition ApplicationSchemaVersion :: string where
  "ApplicationSchemaVersion = ''belay.experience-application.v1''"

definition EvaluationSchemaVersion :: string where
  "EvaluationSchemaVersion = ''belay.experience-evaluation.v1''"

section \<open>References to an experience version\<close>

datatype ExperienceRef = ExperienceRef (xref_ExperienceID: string) (xref_Version: int)

text \<open>
  The order of every sorted list of references in the code: by ID, then by version
  (\<open>sortedConflictRefs\<close>, \<open>Candidate.DeterministicID\<close>).
\<close>

instantiation ExperienceRef :: linorder
begin

definition less_eq_ExperienceRef :: "ExperienceRef \<Rightarrow> ExperienceRef \<Rightarrow> bool" where
  "less_eq_ExperienceRef a b \<longleftrightarrow>
     xref_ExperienceID a < xref_ExperienceID b \<or>
     xref_ExperienceID a = xref_ExperienceID b \<and> xref_Version a \<le> xref_Version b"

definition less_ExperienceRef :: "ExperienceRef \<Rightarrow> ExperienceRef \<Rightarrow> bool" where
  "less_ExperienceRef a b \<longleftrightarrow>
     xref_ExperienceID a < xref_ExperienceID b \<or>
     xref_ExperienceID a = xref_ExperienceID b \<and> xref_Version a < xref_Version b"

instance
  by standard
    (auto simp: less_eq_ExperienceRef_def less_ExperienceRef_def intro: ExperienceRef.expand)

end

section \<open>Verifiers\<close>

record CommandVerifierSpec =
  cvs_Command :: string
  cvs_CommandClass :: string
  cvs_ScrubbingVersion :: string

record FileVerifierSpec =
  fvs_Path :: string

record PathPatternVerifierSpec =
  pps_Patterns :: "string list"

record VerificationAfterLastEditSpec =
  vle_CommandClasses :: "string list"
  vle_RequireSuccess :: bool

record NoRepeatFailureSpec =
  nrf_CommandClass :: string
  nrf_NormalizedPattern :: string
  nrf_WindowTurns :: int

record UserCorrectionAbsentSpec =
  uca_MarkerFamilies :: "string list"

record ObservationOnlySpec =
  oos_Explanation :: string

record Verifier =
  ver_Kind :: VerifierKind
  ver_CoverageRequirements :: "CoverageRequirement list"
  ver_Command :: "CommandVerifierSpec option"
  ver_File :: "FileVerifierSpec option"
  ver_PathPattern :: "PathPatternVerifierSpec option"
  ver_VerificationAfterLastEdit :: "VerificationAfterLastEditSpec option"
  ver_NoRepeatFailure :: "NoRepeatFailureSpec option"
  ver_UserCorrectionAbsent :: "UserCorrectionAbsentSpec option"
  ver_ObservationOnly :: "ObservationOnlySpec option"

section \<open>Scope, applicability, guidance, evidence\<close>

record Scope =
  scope_Kind :: ScopeKind
  scope_ProjectIdentity :: string
  scope_SessionKey :: string
  scope_RepositoryPaths :: "string list"
  scope_TaskFamilies :: "string list"
  scope_Harnesses :: "Harness list"
  scope_Models :: "string list"

record DeterministicCondition =
  cond_Kind :: DeterministicConditionKind
  cond_Values :: "string list"

record Applicability =
  appl_SemanticDescription :: string
  appl_DeterministicConditions :: "DeterministicCondition list"
  appl_Exclusions :: "string list"
  appl_ExpiresAt :: "gotime option"

record Guidance =
  guid_Instruction :: string
  guid_Rationale :: string
  guid_Exceptions :: "string list"
  guid_InterventionStrength :: InterventionStrength

record EvidenceRef =
  eref_Kind :: EvidenceSourceKind
  eref_SessionKey :: string
  eref_TurnIndex :: "int option"
  eref_TurnRole :: EvidenceTurnRole
  eref_ToolName :: string
  eref_EventID :: string
  eref_OutcomeID :: string
  eref_Path :: string
  eref_SHA256 :: string
  eref_RecordedBy :: string
  eref_OccurredAt :: "gotime option"
  eref_Excerpt :: string

record EvidenceSet =
  evs_EvidenceSetID :: string
  evs_Availability :: EvidenceAvailability
  evs_Refs :: "EvidenceRef list"

record Provenance =
  prov_ExtractorVersion :: string
  prov_Harness :: Harness
  prov_Model :: string
  prov_PromptVersion :: string
  prov_InputHash :: string
  prov_SourceCandidateID :: string
  prov_GeneratedAt :: gotime

record ApprovalProvenance =
  apr_ApprovedBy :: string
  apr_ApprovedAt :: gotime
  apr_Mode :: ApprovalMode
  apr_CandidateID :: string
  apr_ProposedContentHash :: string
  apr_ApprovedContentHash :: string

record Governance =
  gov_LifecycleState :: LifecycleState
  gov_Authority :: InstructionAuthority
  gov_Approval :: "ApprovalProvenance option"
  gov_StateReason :: string

record EvidenceSupport =
  sup_GuidanceRefs :: "string list"
  sup_ExceptionRefs :: "string list list"
  sup_VerifierRefs :: "string list"

record ExperienceProposal =
  prop_Type :: ExperienceType
  prop_Scope :: Scope
  prop_Applicability :: Applicability
  prop_Guidance :: Guidance
  prop_Verifier :: Verifier
  prop_EvidenceSupport :: "EvidenceSupport option"
  prop_Confidence :: "float64 option"
  prop_SemanticCompilationPending :: bool

section \<open>Candidates, proposals, experiences and their records\<close>

record Candidate =
  cand_SchemaVersion :: string
  cand_CandidateID :: string
  cand_Family :: CandidateFamily
  cand_ProjectIdentity :: string
  cand_ObservedBehavior :: string
  cand_UserFeedback :: string
  cand_Evidence :: EvidenceSet
  cand_OutcomeRefs :: "string list"
  cand_EpisodeRefs :: "string list"
  cand_ExistingRefs :: "ExperienceRef list"
  cand_Proposal :: ExperienceProposal
  cand_Provenance :: Provenance
  cand_Authority :: InstructionAuthority
  cand_LifecycleState :: LifecycleState
  cand_CreatedAt :: gotime

record SemanticProposalProvenance =
  sprov_Harness :: Harness
  sprov_Model :: string
  sprov_PromptVersion :: string
  sprov_InputHash :: string
  sprov_OutputHash :: string
  sprov_GeneratedAt :: gotime

record SemanticProposal =
  semp_SchemaVersion :: string
  semp_ProposalID :: string
  semp_CandidateID :: string
  semp_ProjectIdentity :: string
  semp_Proposal :: ExperienceProposal
  semp_Provenance :: SemanticProposalProvenance
  semp_Authority :: InstructionAuthority

record SemanticDecision =
  semd_SchemaVersion :: string
  semd_DecisionID :: string
  semd_CandidateID :: string
  semd_ProjectIdentity :: string
  semd_Disposition :: SemanticDisposition
  semd_ReasonCode :: SemanticDecisionReasonCode
  semd_Explanation :: string
  semd_Confidence :: float64
  semd_ProposalID :: string
  semd_Provenance :: SemanticProposalProvenance

record SemanticResult =
  semr_Proposal :: "SemanticProposal option"
  semr_Decision :: SemanticDecision

record Experience =
  xp_SchemaVersion :: string
  xp_ExperienceID :: string
  xp_OriginCandidateID :: string
  xp_Version :: int
  xp_Type :: ExperienceType
  xp_Scope :: Scope
  xp_Applicability :: Applicability
  xp_Guidance :: Guidance
  xp_Verifier :: Verifier
  xp_Evidence :: EvidenceSet
  xp_EpisodeRefs :: "string list"
  xp_Provenance :: Provenance
  xp_Governance :: Governance
  xp_ContentHash :: string
  xp_PreviousVersion :: "ExperienceRef option"
  xp_CreatedAt :: gotime

record ExperienceMeasurement =
  meas_Experience :: ExperienceRef
  meas_Opportunities :: int
  meas_Deliveries :: int
  meas_Satisfied :: int
  meas_Violated :: int
  meas_Unknown :: int
  meas_ExplicitCorrections :: int
  meas_LastAppliedAt :: "gotime option"
  meas_LastValidatedAt :: "gotime option"

record LifecycleTransition =
  lt_TransitionID :: string
  lt_Experience :: ExperienceRef
  lt_FromState :: LifecycleState
  lt_ToState :: LifecycleState
  lt_ReasonCode :: string
  lt_ActorKind :: TransitionActorKind
  lt_ActorID :: string
  lt_OccurredAt :: gotime
  lt_SourceEvidence :: "EvidenceRef list"

record Application =
  app_SchemaVersion :: string
  app_ApplicationID :: string
  app_Experience :: ExperienceRef
  app_ProjectIdentity :: string
  app_SessionKey :: string
  app_DeliveryKind :: DeliveryKind
  app_DeliveryState :: DeliveryState
  app_DeliveredAt :: "gotime option"
  app_OpportunityState :: OpportunityState
  app_ApplicabilityState :: ApplicabilityState
  app_VerifierState :: VerifierState
  app_TaskOutcomeState :: TaskOutcomeState
  app_SourceEvidence :: "EvidenceRef list"

record Evaluation =
  evl_SchemaVersion :: string
  evl_EvaluationID :: string
  evl_ApplicationID :: string
  evl_Experience :: ExperienceRef
  evl_EvaluatedAt :: gotime
  evl_OpportunityState :: OpportunityState
  evl_ApplicabilityState :: ApplicabilityState
  evl_VerifierState :: VerifierState
  evl_TaskOutcomeState :: TaskOutcomeState
  evl_Coverage :: "CoverageRequirement list"
  evl_SourceEvidence :: "EvidenceRef list"
  evl_DerivationVersion :: string

end
