(* ===== verification/Canonical.thy ===== *)
theory Canonical
  imports Model
begin

text \<open>
  \<open>internal/experience/hash.go\<close>: the normal forms of the contracts, their JSON payloads, and the
  identifiers and content hashes computed from them. An identifier is \<open>None\<close> where Go panics
  (\<open>deterministicID\<close> and \<open>contentHash\<close> panic when \<open>json.Marshal\<close> fails).
\<close>

section \<open>Normal forms\<close>

definition normalizedStrings :: "string list \<Rightarrow> string list" where
  "normalizedStrings values =
     sort_compact (\<lambda>x. x) (filter (\<lambda>v. v \<noteq> []) (map TrimSpace values))"

definition normalizeSupportRefs :: "string list \<Rightarrow> string list" where
  "normalizeSupportRefs values = sort_compact (\<lambda>x. x) (map TrimSpace values)"

definition normalizedEvidenceSupport :: "EvidenceSupport option \<Rightarrow> EvidenceSupport option" where
  "normalizedEvidenceSupport value =
     (case value of None \<Rightarrow> None
      | Some s \<Rightarrow> Some \<lparr>sup_GuidanceRefs = normalizeSupportRefs (sup_GuidanceRefs s),
                       sup_ExceptionRefs = map normalizeSupportRefs (sup_ExceptionRefs s),
                       sup_VerifierRefs = normalizeSupportRefs (sup_VerifierRefs s)\<rparr>)"

text \<open>Values of a string type are compared and compacted as strings.\<close>

definition normalizedCoverage :: "CoverageRequirement list \<Rightarrow> CoverageRequirement list" where
  "normalizedCoverage values = sort_compact CoverageRequirement_text values"

definition normalizedScope :: "Scope \<Rightarrow> Scope" where
  "normalizedScope value = value\<lparr>
     scope_ProjectIdentity := TrimSpace (scope_ProjectIdentity value),
     scope_SessionKey := TrimSpace (scope_SessionKey value),
     scope_RepositoryPaths := normalizedStrings (scope_RepositoryPaths value),
     scope_TaskFamilies := normalizedStrings (scope_TaskFamilies value),
     scope_Models := normalizedStrings (scope_Models value),
     scope_Harnesses := sort_compact Harness_text (scope_Harnesses value)\<rparr>"

definition DeterministicCondition_json :: "DeterministicCondition \<Rightarrow> json" where
  "DeterministicCondition_json c =
     JObj [(''kind'', JStr (DeterministicConditionKind_text (cond_Kind c))),
           (''values'', strings_json (cond_Values c))]"

definition normalizedCondition :: "DeterministicCondition \<Rightarrow> DeterministicCondition" where
  "normalizedCondition c = c\<lparr>cond_Values := normalizedStrings (cond_Values c)\<rparr>"

definition condition_key :: "DeterministicCondition \<Rightarrow> string" where
  "condition_key c = marshal_text (DeterministicCondition_json c)"

text \<open>
  Sort by JSON text, then \<open>compactConditions\<close>, which compares the same JSON texts.
\<close>

definition normalizedConditions :: "DeterministicCondition list \<Rightarrow> DeterministicCondition list" where
  "normalizedConditions cs = sort_compact condition_key (map normalizedCondition cs)"

definition normalizedApplicability :: "Applicability \<Rightarrow> Applicability" where
  "normalizedApplicability value = value\<lparr>
     appl_SemanticDescription := TrimSpace (appl_SemanticDescription value),
     appl_Exclusions := normalizedStrings (appl_Exclusions value),
     appl_DeterministicConditions := normalizedConditions (appl_DeterministicConditions value),
     appl_ExpiresAt := map_option utcTime (appl_ExpiresAt value)\<rparr>"

definition normalizedGuidance :: "Guidance \<Rightarrow> Guidance" where
  "normalizedGuidance value = value\<lparr>
     guid_Instruction := TrimSpace (guid_Instruction value),
     guid_Rationale := TrimSpace (guid_Rationale value),
     guid_Exceptions := normalizedStrings (guid_Exceptions value)\<rparr>"

definition normalizedVerifier :: "Verifier \<Rightarrow> Verifier" where
  "normalizedVerifier value = value\<lparr>
     ver_CoverageRequirements := normalizedCoverage (ver_CoverageRequirements value),
     ver_PathPattern := map_option (\<lambda>s. s\<lparr>pps_Patterns := normalizedStrings (pps_Patterns s)\<rparr>)
       (ver_PathPattern value),
     ver_VerificationAfterLastEdit :=
       map_option (\<lambda>s. s\<lparr>vle_CommandClasses := normalizedStrings (vle_CommandClasses s)\<rparr>)
         (ver_VerificationAfterLastEdit value),
     ver_UserCorrectionAbsent :=
       map_option (\<lambda>s. s\<lparr>uca_MarkerFamilies := normalizedStrings (uca_MarkerFamilies s)\<rparr>)
         (ver_UserCorrectionAbsent value)\<rparr>"

definition EvidenceRef_json :: "EvidenceRef \<Rightarrow> json" where
  "EvidenceRef_json r =
     JObj ((''kind'', JStr (EvidenceSourceKind_text (eref_Kind r))) #
       str_field ''session_key'' (eref_SessionKey r) @
       opt_field ''turn_index'' (map_option JInt (eref_TurnIndex r)) @
       str_field ''turn_role'' (EvidenceTurnRole_text (eref_TurnRole r)) @
       str_field ''tool_name'' (eref_ToolName r) @
       str_field ''event_id'' (eref_EventID r) @
       str_field ''outcome_id'' (eref_OutcomeID r) @
       str_field ''path'' (eref_Path r) @
       str_field ''sha256'' (eref_SHA256 r) @
       str_field ''recorded_by'' (eref_RecordedBy r) @
       opt_field ''occurred_at'' (map_option JTime (eref_OccurredAt r)) @
       str_field ''excerpt'' (eref_Excerpt r))"

definition normalizedEvidenceRef :: "EvidenceRef \<Rightarrow> EvidenceRef" where
  "normalizedEvidenceRef r = r\<lparr>
     eref_SessionKey := TrimSpace (eref_SessionKey r),
     eref_TurnRole := EvidenceTurnRole_of (TrimSpace (EvidenceTurnRole_text (eref_TurnRole r))),
     eref_ToolName := TrimSpace (eref_ToolName r),
     eref_EventID := TrimSpace (eref_EventID r),
     eref_OutcomeID := TrimSpace (eref_OutcomeID r),
     eref_Path := TrimSpace (eref_Path r),
     eref_SHA256 := TrimSpace (eref_SHA256 r),
     eref_RecordedBy := TrimSpace (eref_RecordedBy r),
     eref_Excerpt := TrimSpace (eref_Excerpt r),
     eref_OccurredAt := normalizedTimePointer (eref_OccurredAt r)\<rparr>"

definition evidence_key :: "EvidenceRef \<Rightarrow> string" where
  "evidence_key r = marshal_text (EvidenceRef_json r)"

definition normalizedEvidenceRefs :: "EvidenceRef list \<Rightarrow> EvidenceRef list" where
  "normalizedEvidenceRefs values = sort_key evidence_key (map normalizedEvidenceRef values)"

section \<open>Payloads\<close>

definition ExperienceRef_json :: "ExperienceRef \<Rightarrow> json" where
  "ExperienceRef_json r = JObj [(''experience_id'', JStr (xref_ExperienceID r)),
     (''version'', JInt (xref_Version r))]"

definition Scope_json :: "Scope \<Rightarrow> json" where
  "Scope_json s = JObj ([(''kind'', JStr (ScopeKind_text (scope_Kind s))),
       (''project_identity'', JStr (scope_ProjectIdentity s))] @
     str_field ''session_key'' (scope_SessionKey s) @
     arr_field ''repository_paths'' (map JStr (scope_RepositoryPaths s)) @
     arr_field ''task_families'' (map JStr (scope_TaskFamilies s)) @
     arr_field ''harnesses'' (map (JStr \<circ> Harness_text) (scope_Harnesses s)) @
     arr_field ''models'' (map JStr (scope_Models s)))"

definition Applicability_json :: "Applicability \<Rightarrow> json" where
  "Applicability_json a = JObj ((''semantic_description'', JStr (appl_SemanticDescription a)) #
     arr_field ''deterministic_conditions''
       (map DeterministicCondition_json (appl_DeterministicConditions a)) @
     arr_field ''exclusions'' (map JStr (appl_Exclusions a)) @
     opt_field ''expires_at'' (map_option JTime (appl_ExpiresAt a)))"

definition Guidance_json :: "Guidance \<Rightarrow> json" where
  "Guidance_json g = JObj ([(''instruction'', JStr (guid_Instruction g)),
       (''rationale'', JStr (guid_Rationale g))] @
     arr_field ''exceptions'' (map JStr (guid_Exceptions g)) @
     [(''intervention_strength'', JStr (InterventionStrength_text (guid_InterventionStrength g)))])"

definition CommandVerifierSpec_json :: "CommandVerifierSpec \<Rightarrow> json" where
  "CommandVerifierSpec_json s = JObj ((''command'', JStr (cvs_Command s)) #
     str_field ''command_class'' (cvs_CommandClass s) @
     [(''scrubbing_version'', JStr (cvs_ScrubbingVersion s))])"

definition VerificationAfterLastEditSpec_json :: "VerificationAfterLastEditSpec \<Rightarrow> json" where
  "VerificationAfterLastEditSpec_json s =
     JObj (arr_field ''command_classes'' (map JStr (vle_CommandClasses s)) @
       [(''require_success'', JBool (vle_RequireSuccess s))])"

definition NoRepeatFailureSpec_json :: "NoRepeatFailureSpec \<Rightarrow> json" where
  "NoRepeatFailureSpec_json s = JObj [(''command_class'', JStr (nrf_CommandClass s)),
     (''normalized_pattern'', JStr (nrf_NormalizedPattern s)),
     (''window_turns'', JInt (nrf_WindowTurns s))]"

definition Verifier_json :: "Verifier \<Rightarrow> json" where
  "Verifier_json v = JObj ((''kind'', JStr (VerifierKind_text (ver_Kind v))) #
     arr_field ''coverage_requirements''
       (map (JStr \<circ> CoverageRequirement_text) (ver_CoverageRequirements v)) @
     opt_field ''command'' (map_option CommandVerifierSpec_json (ver_Command v)) @
     opt_field ''file'' (map_option (\<lambda>s. JObj [(''path'', JStr (fvs_Path s))]) (ver_File v)) @
     opt_field ''path_pattern''
       (map_option (\<lambda>s. JObj [(''patterns'', strings_json (pps_Patterns s))]) (ver_PathPattern v)) @
     opt_field ''verification_after_last_edit''
       (map_option VerificationAfterLastEditSpec_json (ver_VerificationAfterLastEdit v)) @
     opt_field ''no_repeat_failure''
       (map_option NoRepeatFailureSpec_json (ver_NoRepeatFailure v)) @
     opt_field ''user_correction_absent''
       (map_option (\<lambda>s. JObj (arr_field ''marker_families'' (map JStr (uca_MarkerFamilies s))))
         (ver_UserCorrectionAbsent v)) @
     opt_field ''observation_only''
       (map_option (\<lambda>s. JObj [(''explanation'', JStr (oos_Explanation s))]) (ver_ObservationOnly v)))"

definition EvidenceSupport_json :: "EvidenceSupport \<Rightarrow> json" where
  "EvidenceSupport_json s = JObj
     [(''guidance_refs'', nil_array (map JStr (sup_GuidanceRefs s))),
      (''exception_refs'', JArr (map (\<lambda>refs. nil_array (map JStr refs)) (sup_ExceptionRefs s))),
      (''verifier_refs'', nil_array (map JStr (sup_VerifierRefs s)))]"

section \<open>Identifiers and content hashes\<close>

definition deterministicID :: "string \<Rightarrow> json \<Rightarrow> string option" where
  "deterministicID pre value =
     map_option (\<lambda>encoded. pre @ ascii_lower (base32_encode (sha256 encoded))) (render value)"

definition contentHash :: "json \<Rightarrow> string option" where
  "contentHash value = map_option (\<lambda>encoded. ''sha256:'' @ hex_encode (sha256 encoded)) (render value)"

definition Candidate_payload :: "Candidate \<Rightarrow> json" where
  "Candidate_payload value = JObj
     [(''SchemaVersion'', JStr CandidateSchemaVersion),
      (''Family'', JStr (CandidateFamily_text (cand_Family value))),
      (''ProjectIdentity'', JStr (TrimSpace (cand_ProjectIdentity value))),
      (''ObservedBehavior'', JStr (TrimSpace (cand_ObservedBehavior value))),
      (''UserFeedback'', JStr (TrimSpace (cand_UserFeedback value))),
      (''Evidence'',
        nil_array (map EvidenceRef_json (normalizedEvidenceRefs (evs_Refs (cand_Evidence value))))),
      (''OutcomeRefs'', strings_json (normalizedStrings (cand_OutcomeRefs value))),
      (''EpisodeRefs'', strings_json (normalizedStrings (cand_EpisodeRefs value))),
      (''ExistingRefs'', nil_array (map ExperienceRef_json (sort (cand_ExistingRefs value))))]"

definition Candidate_DeterministicID :: "Candidate \<Rightarrow> string option" where
  "Candidate_DeterministicID value = deterministicID ''exc_'' (Candidate_payload value)"

definition proposal_json :: "ExperienceProposal \<Rightarrow> json" where
  "proposal_json p = JObj
     ([(''type'', JStr (ExperienceType_text (prop_Type p))),
       (''scope'', Scope_json (normalizedScope (prop_Scope p))),
       (''applicability'', Applicability_json (normalizedApplicability (prop_Applicability p))),
       (''guidance'', Guidance_json (normalizedGuidance (prop_Guidance p))),
       (''verifier'', Verifier_json (normalizedVerifier (prop_Verifier p)))] @
      opt_field ''evidence_support''
        (map_option EvidenceSupport_json (normalizedEvidenceSupport (prop_EvidenceSupport p))) @
      opt_field ''confidence'' (map_option JFloat (prop_Confidence p)))"

definition SemanticProposal_DeterministicID :: "SemanticProposal \<Rightarrow> string option" where
  "SemanticProposal_DeterministicID value = deterministicID ''exs_'' (JObj
     [(''SchemaVersion'', JStr SemanticProposalSchemaVersion),
      (''CandidateID'', JStr (TrimSpace (semp_CandidateID value))),
      (''ProjectIdentity'', JStr (TrimSpace (semp_ProjectIdentity value))),
      (''Proposal'', proposal_json (semp_Proposal value)),
      (''Harness'', JStr (Harness_text (sprov_Harness (semp_Provenance value)))),
      (''Model'', JStr (TrimSpace (sprov_Model (semp_Provenance value)))),
      (''PromptVersion'', JStr (TrimSpace (sprov_PromptVersion (semp_Provenance value)))),
      (''InputHash'', JStr (TrimSpace (sprov_InputHash (semp_Provenance value)))),
      (''OutputHash'', JStr (TrimSpace (sprov_OutputHash (semp_Provenance value))))])"

definition SemanticDecision_DeterministicID :: "SemanticDecision \<Rightarrow> string option" where
  "SemanticDecision_DeterministicID value = deterministicID ''exd_'' (JObj
     [(''SchemaVersion'', JStr SemanticDecisionSchemaVersion),
      (''CandidateID'', JStr (TrimSpace (semd_CandidateID value))),
      (''ProjectIdentity'', JStr (TrimSpace (semd_ProjectIdentity value))),
      (''Disposition'', JStr (SemanticDisposition_text (semd_Disposition value))),
      (''ReasonCode'', JStr (SemanticDecisionReasonCode_text (semd_ReasonCode value))),
      (''Explanation'', JStr (TrimSpace (semd_Explanation value))),
      (''Confidence'', JFloat (semd_Confidence value)),
      (''ProposalID'', JStr (TrimSpace (semd_ProposalID value))),
      (''Harness'', JStr (Harness_text (sprov_Harness (semd_Provenance value)))),
      (''Model'', JStr (TrimSpace (sprov_Model (semd_Provenance value)))),
      (''PromptVersion'', JStr (TrimSpace (sprov_PromptVersion (semd_Provenance value)))),
      (''InputHash'', JStr (TrimSpace (sprov_InputHash (semd_Provenance value)))),
      (''OutputHash'', JStr (TrimSpace (sprov_OutputHash (semd_Provenance value))))])"

definition DeriveExperienceID :: "string \<Rightarrow> string \<Rightarrow> string option" where
  "DeriveExperienceID projectIdentity originCandidateID = deterministicID ''exp_'' (JObj
     [(''SchemaVersion'', JStr ExperienceSchemaVersion),
      (''ProjectIdentity'', JStr (TrimSpace projectIdentity)),
      (''OriginCandidateID'', JStr (TrimSpace originCandidateID))])"

definition content_payload ::
  "ExperienceType \<Rightarrow> Scope \<Rightarrow> Applicability \<Rightarrow> Guidance \<Rightarrow> Verifier \<Rightarrow> json" where
  "content_payload t s a g v = JObj
     [(''Type'', JStr (ExperienceType_text t)),
      (''Scope'', Scope_json (normalizedScope s)),
      (''Applicability'', Applicability_json (normalizedApplicability a)),
      (''Guidance'', Guidance_json (normalizedGuidance g)),
      (''Verifier'', Verifier_json (normalizedVerifier v))]"

definition ExperienceProposal_CanonicalContentHash :: "ExperienceProposal \<Rightarrow> string option" where
  "ExperienceProposal_CanonicalContentHash value = contentHash
     (content_payload (prop_Type value) (prop_Scope value) (prop_Applicability value)
       (prop_Guidance value) (prop_Verifier value))"

definition Experience_CanonicalContentHash :: "Experience \<Rightarrow> string option" where
  "Experience_CanonicalContentHash value = ExperienceProposal_CanonicalContentHash
     \<lparr>prop_Type = xp_Type value, prop_Scope = xp_Scope value,
      prop_Applicability = xp_Applicability value, prop_Guidance = xp_Guidance value,
      prop_Verifier = xp_Verifier value, prop_EvidenceSupport = None, prop_Confidence = None,
      prop_SemanticCompilationPending = False\<rparr>"

definition EvidenceSet_DeterministicID :: "EvidenceSet \<Rightarrow> string option" where
  "EvidenceSet_DeterministicID value = deterministicID ''evs_'' (JObj
     [(''Availability'', JStr (EvidenceAvailability_text (evs_Availability value))),
      (''Refs'', nil_array (map EvidenceRef_json (normalizedEvidenceRefs (evs_Refs value))))])"

definition LifecycleTransition_DeterministicID :: "LifecycleTransition \<Rightarrow> string option" where
  "LifecycleTransition_DeterministicID value = deterministicID ''ext_'' (JObj
     [(''Experience'', ExperienceRef_json (lt_Experience value)),
      (''From'', JStr (LifecycleState_text (lt_FromState value))),
      (''To'', JStr (LifecycleState_text (lt_ToState value))),
      (''Reason'', JStr (TrimSpace (lt_ReasonCode value))),
      (''ActorKind'', JStr (TransitionActorKind_text (lt_ActorKind value))),
      (''ActorID'', JStr (TrimSpace (lt_ActorID value))),
      (''OccurredAt'', JTime (utcTime (lt_OccurredAt value))),
      (''Evidence'',
        nil_array (map EvidenceRef_json (normalizedEvidenceRefs (lt_SourceEvidence value))))])"

definition Application_DeterministicID :: "Application \<Rightarrow> string option" where
  "Application_DeterministicID value = deterministicID ''exa_'' (JObj
     [(''SchemaVersion'', JStr ApplicationSchemaVersion),
      (''Experience'', ExperienceRef_json (app_Experience value)),
      (''ProjectIdentity'', JStr (TrimSpace (app_ProjectIdentity value))),
      (''SessionKey'', JStr (TrimSpace (app_SessionKey value))),
      (''DeliveryKind'', JStr (DeliveryKind_text (app_DeliveryKind value))),
      (''DeliveryState'', JStr (DeliveryState_text (app_DeliveryState value))),
      (''DeliveredAt'',
        (case normalizedTimePointer (app_DeliveredAt value) of None \<Rightarrow> JNull | Some t \<Rightarrow> JTime t))])"

definition Evaluation_DeterministicID :: "Evaluation \<Rightarrow> string option" where
  "Evaluation_DeterministicID value = deterministicID ''exv_'' (JObj
     [(''SchemaVersion'', JStr EvaluationSchemaVersion),
      (''ApplicationID'', JStr (TrimSpace (evl_ApplicationID value))),
      (''Experience'', ExperienceRef_json (evl_Experience value)),
      (''EvaluatedAt'', JTime (utcTime (evl_EvaluatedAt value))),
      (''OpportunityState'', JStr (OpportunityState_text (evl_OpportunityState value))),
      (''Applicability'', JStr (ApplicabilityState_text (evl_ApplicabilityState value))),
      (''Verifier'', JStr (VerifierState_text (evl_VerifierState value))),
      (''TaskOutcome'', JStr (TaskOutcomeState_text (evl_TaskOutcomeState value))),
      (''Coverage'',
        nil_array (map (JStr \<circ> CoverageRequirement_text) (normalizedCoverage (evl_Coverage value)))),
      (''Evidence'',
        nil_array (map EvidenceRef_json (normalizedEvidenceRefs (evl_SourceEvidence value)))),
      (''Derivation'', JStr (TrimSpace (evl_DerivationVersion value)))])"

section \<open>Normal forms are normal\<close>

lemma normalizedStrings_set:
  "set (normalizedStrings xs) = TrimSpace ` set xs - {[]}"
  by (auto simp: normalizedStrings_def sort_compact_id_set)

lemma normalizedStrings_distinct: "distinct (normalizedStrings xs)"
  by (simp add: normalizedStrings_def sort_compact_id_distinct)

lemma normalizedStrings_eq_iff:
  "normalizedStrings xs = normalizedStrings ys \<longleftrightarrow>
     TrimSpace ` set xs - {[]} = TrimSpace ` set ys - {[]}"
  by (auto simp: normalizedStrings_def sort_compact_id_eq_iff)

lemma normalizedStrings_idem [simp]:
  "normalizedStrings (normalizedStrings xs) = normalizedStrings xs"
proof -
  have "TrimSpace ` (TrimSpace ` set xs - {[]}) = TrimSpace ` set xs - {[]}"
    by (rule trans [OF image_cong [OF refl, of _ _ "\<lambda>x. x"]]) auto
  then show ?thesis by (simp add: normalizedStrings_eq_iff normalizedStrings_set)
qed

lemma normalizeSupportRefs_idem [simp]:
  "normalizeSupportRefs (normalizeSupportRefs xs) = normalizeSupportRefs xs"
  by (auto simp: normalizeSupportRefs_def sort_compact_id_eq_iff sort_compact_id_set image_iff)

lemma normalizedEvidenceSupport_idem [simp]:
  "normalizedEvidenceSupport (normalizedEvidenceSupport s) = normalizedEvidenceSupport s"
  by (cases s) (simp_all add: normalizedEvidenceSupport_def)

lemma normalizedCoverage_idem [simp]:
  "normalizedCoverage (normalizedCoverage xs) = normalizedCoverage xs"
  by (simp add: normalizedCoverage_def)

lemma normalizedScope_idem [simp]: "normalizedScope (normalizedScope s) = normalizedScope s"
  by (simp add: normalizedScope_def)

lemma normalizedCondition_idem [simp]:
  "normalizedCondition (normalizedCondition c) = normalizedCondition c"
  by (simp add: normalizedCondition_def)

lemma normalizedConditions_idem [simp]:
  "normalizedConditions (normalizedConditions cs) = normalizedConditions cs"
proof -
  have "map normalizedCondition (normalizedConditions cs) = normalizedConditions cs"
    using sort_compact_subset [of condition_key "map normalizedCondition cs"]
    by (intro map_idI) (auto simp: normalizedConditions_def)
  then show ?thesis
    unfolding normalizedConditions_def [of "normalizedConditions cs"]
    by (simp add: normalizedConditions_def)
qed

lemma normalizedApplicability_idem [simp]:
  "normalizedApplicability (normalizedApplicability a) = normalizedApplicability a"
  by (simp add: normalizedApplicability_def option.map_comp comp_def)

lemma normalizedGuidance_idem [simp]: "normalizedGuidance (normalizedGuidance g) = normalizedGuidance g"
  by (simp add: normalizedGuidance_def)

lemma normalizedVerifier_idem [simp]: "normalizedVerifier (normalizedVerifier v) = normalizedVerifier v"
  by (simp add: normalizedVerifier_def option.map_comp comp_def)

lemma normalizedEvidenceRef_idem [simp]:
  "normalizedEvidenceRef (normalizedEvidenceRef r) = normalizedEvidenceRef r"
  by (simp add: normalizedEvidenceRef_def EvidenceTurnRole_text_of)

lemma normalizedEvidenceRefs_idem [simp]:
  "normalizedEvidenceRefs (normalizedEvidenceRefs rs) = normalizedEvidenceRefs rs"
proof -
  have "map normalizedEvidenceRef (normalizedEvidenceRefs rs) = normalizedEvidenceRefs rs"
    by (intro map_idI) (auto simp: normalizedEvidenceRefs_def)
  then show ?thesis
    unfolding normalizedEvidenceRefs_def [of "normalizedEvidenceRefs rs"]
    by (simp add: normalizedEvidenceRefs_def sort_key_id_if_sorted)
qed

section \<open>The order of evidence does not matter\<close>

lemma render_list_map:
  "render_list (map f xs) =
     (if \<forall>x \<in> set xs. json_ok (f x) then Some (map (marshal_text \<circ> f) xs) else None)"
proof (induction xs)
  case (Cons x xs)
  show ?case
  proof (cases "render (f x)")
    case None
    then have "\<not> json_ok (f x)" using render_ok [of "f x"] by simp
    with None show ?thesis by simp
  next
    case (Some s)
    then have "json_ok (f x)" using render_ok [of "f x"] by simp
    with Some Cons show ?thesis by (simp add: marshal_text_def)
  qed
qed simp

lemma render_sorted_array:
  assumes "mset xs = mset ys"
  shows "render (nil_array (map f (sort_key (marshal_text \<circ> f) xs))) =
    render (nil_array (map f (sort_key (marshal_text \<circ> f) ys)))"
proof -
  have s: "set xs = set ys" using assms by (metis set_mset_mset)
  have e: "xs = [] \<longleftrightarrow> ys = []" using assms by auto
  have "mset (map (marshal_text \<circ> f) (sort_key (marshal_text \<circ> f) xs)) =
      mset (map (marshal_text \<circ> f) (sort_key (marshal_text \<circ> f) ys))"
    using assms by simp
  then have "map (marshal_text \<circ> f) (sort_key (marshal_text \<circ> f) xs) =
      map (marshal_text \<circ> f) (sort_key (marshal_text \<circ> f) ys)"
    by (metis properties_for_sort sort_key_def sorted_sort_key)
  then have "render_list (map f (sort_key (marshal_text \<circ> f) xs)) =
      render_list (map f (sort_key (marshal_text \<circ> f) ys))"
    by (simp only: render_list_map set_sort s)
  then show ?thesis using e by (simp add: nil_array_def)
qed

lemma evidence_key_comp: "evidence_key = marshal_text \<circ> EvidenceRef_json"
  by (simp add: evidence_key_def fun_eq_iff)

lemma render_evidence_cong:
  assumes "mset (map normalizedEvidenceRef xs) = mset (map normalizedEvidenceRef ys)"
  shows "render (nil_array (map EvidenceRef_json (normalizedEvidenceRefs xs))) =
    render (nil_array (map EvidenceRef_json (normalizedEvidenceRefs ys)))"
  unfolding normalizedEvidenceRefs_def evidence_key_comp by (rule render_sorted_array [OF assms])

section \<open>When the identifiers exist, and their shape\<close>

lemma deterministicID_exists: "(\<exists>i. deterministicID p j = Some i) \<longleftrightarrow> json_ok j"
  using render_ok [of j] by (auto simp: deterministicID_def)

lemma contentHash_exists: "(\<exists>h. contentHash j = Some h) \<longleftrightarrow> json_ok j"
  using render_ok [of j] by (auto simp: contentHash_def)

lemma json_ok_atoms [simp]:
  "json_ok (DeterministicCondition_json c)" "json_ok (ExperienceRef_json r)" "json_ok (Scope_json s)"
  "json_ok (Guidance_json g)" "json_ok (CommandVerifierSpec_json cs)"
  "json_ok (VerificationAfterLastEditSpec_json ve)" "json_ok (NoRepeatFailureSpec_json nr)"
  "json_ok (EvidenceSupport_json es)"
  by (auto simp: DeterministicCondition_json_def ExperienceRef_json_def Scope_json_def
      Guidance_json_def CommandVerifierSpec_json_def VerificationAfterLastEditSpec_json_def
      NoRepeatFailureSpec_json_def EvidenceSupport_json_def ball_Un)

lemma json_ok_Verifier [simp]: "json_ok (Verifier_json v)"
  by (auto simp: Verifier_json_def ball_Un)

lemma json_ok_Applicability [simp]:
  "json_ok (Applicability_json a) \<longleftrightarrow> (\<forall>t. appl_ExpiresAt a = Some t \<longrightarrow> json_local_ok t)"
  by (auto simp: Applicability_json_def ball_Un)

lemma json_ok_EvidenceRef [simp]:
  "json_ok (EvidenceRef_json r) \<longleftrightarrow> (\<forall>t. eref_OccurredAt r = Some t \<longrightarrow> json_local_ok t)"
  by (auto simp: EvidenceRef_json_def ball_Un)

definition times_ok :: "EvidenceRef list \<Rightarrow> bool" where
  "times_ok rs \<longleftrightarrow> (\<forall>r \<in> set rs. \<forall>t. eref_OccurredAt r = Some t \<longrightarrow> json_time_ok t)"

lemma json_ok_normalizedEvidenceRefs [simp]:
  "(\<forall>r \<in> set (normalizedEvidenceRefs rs). json_ok (EvidenceRef_json r)) \<longleftrightarrow> times_ok rs"
  by (auto simp: normalizedEvidenceRefs_def normalizedEvidenceRef_def times_ok_def
      normalizedTimePointer_def)

lemma content_payload_ok [simp]:
  "json_ok (content_payload t s a g v) \<longleftrightarrow>
     (\<forall>e. appl_ExpiresAt a = Some e \<longrightarrow> json_time_ok e)"
  by (auto simp: content_payload_def normalizedApplicability_def)

definition is_identifier_of :: "string \<Rightarrow> string \<Rightarrow> bool" where
  "is_identifier_of pre i \<longleftrightarrow>
     (\<exists>body. i = pre @ body \<and> length body = 52 \<and> list_all is_base32_lower body)"

lemma deterministicID_shape: "deterministicID pre j = Some i \<Longrightarrow> is_identifier_of pre i"
  using base32_lower length_base32
  by (auto simp: deterministicID_def is_identifier_of_def) (auto simp: ascii_lower_def)

lemma base32_lower_visible: "list_all is_base32_lower s \<Longrightarrow> visible s"
  by (induction s) (auto simp: is_base32_lower_def visible_def)

lemma identifier_visible: "is_identifier_of pre i \<Longrightarrow> visible pre \<Longrightarrow> visible i"
  by (auto simp: is_identifier_of_def base32_lower_visible)

lemma identifier_length: "is_identifier_of pre i \<Longrightarrow> length i = length pre + 52"
  by (auto simp: is_identifier_of_def)

end
