(* ===== verification/Validators.thy ===== *)
theory Validators
  imports Canonical
begin

text \<open>
  The field validators at the end of \<open>internal/experience/validate.go\<close> and what they use of Go's
  \<open>path\<close> package, with the facts the rest of the development needs about accepted values.
\<close>

section \<open>Limits\<close>

definition maxIdentifierBytes :: nat where "maxIdentifierBytes = 256"
definition maxPathBytes :: nat where "maxPathBytes = 512"
definition maxCommandBytes :: nat where "maxCommandBytes = 16 * 1024"
definition maxGuidanceBytes :: nat where "maxGuidanceBytes = 2 * 1024"
definition maxRationaleBytes :: nat where "maxRationaleBytes = 8 * 1024"
definition maxDecisionBytes :: nat where "maxDecisionBytes = 1024"
definition maxExcerptBytes :: nat where "maxExcerptBytes = 16 * 1024"
definition maxListItems :: nat where "maxListItems = 128"

lemmas limit_defs = maxIdentifierBytes_def maxPathBytes_def maxCommandBytes_def maxGuidanceBytes_def
  maxRationaleBytes_def maxDecisionBytes_def maxExcerptBytes_def maxListItems_def

section \<open>Text\<close>

definition validateIdentifier :: "string \<Rightarrow> string \<Rightarrow> check" where
  "validateIdentifier name value = first_error
     [reject_if (TrimSpace value = []) (name @ '' is required''),
      reject_if (value \<noteq> TrimSpace value \<or> maxIdentifierBytes < length value \<or>
          \<not> ValidString value \<or> hasControl value) (name @ '' is invalid'')]"

definition validateText :: "string \<Rightarrow> string \<Rightarrow> nat \<Rightarrow> bool \<Rightarrow> check" where
  "validateText name value limit required =
     (if required \<and> TrimSpace value = [] then Some (Err (name @ '' is required''))
      else if value = [] then None
      else reject_if (value \<noteq> TrimSpace value \<or> limit < length value \<or> \<not> ValidString value \<or>
          hasDisallowedControl value) (name @ '' is invalid or exceeds its byte limit''))"

definition validateOneLine :: "string \<Rightarrow> string \<Rightarrow> nat \<Rightarrow> bool \<Rightarrow> check" where
  "validateOneLine name value limit required = first_error
     [validateText name value limit required,
      reject_if (ContainsAny value [CHR 0x0D, CHR 0x0A]) (name @ '' must be one line'')]"

section \<open>Paths\<close>

text \<open>\<open>path.Clean\<close>: the segments kept so far are held in reverse.\<close>

fun clean_segments :: "bool \<Rightarrow> string list \<Rightarrow> string list \<Rightarrow> string list" where
  "clean_segments rooted out [] = rev out"
| "clean_segments rooted out (s # ss) =
     (if s = [] \<or> s = ''.'' then clean_segments rooted out ss
      else if s = ''..'' then
        (case out of
           [] \<Rightarrow> clean_segments rooted (if rooted then [] else [''..'']) ss
         | d # ds \<Rightarrow> clean_segments rooted (if d = ''..'' then ''..'' # out else ds) ss)
      else clean_segments rooted (s # out) ss)"

definition path_Clean :: "string \<Rightarrow> string" where
  "path_Clean p =
     (if p = [] then ''.''
      else
        let rooted = (hd p = CHR ''/'');
            out = clean_segments rooted [] (split_on (CHR ''/'') p)
        in if rooted then CHR ''/'' # join_with (CHR ''/'') out
           else if out = [] then ''.'' else join_with (CHR ''/'') out)"

definition validateRelativePath :: "string \<Rightarrow> check" where
  "validateRelativePath value = first_error
     [reject_if (TrimSpace value = [] \<or> value \<noteq> TrimSpace value \<or> maxPathBytes < length value)
        ''relative path is required and bounded'',
      reject_if (CHR 0x5C \<in> set value \<or> prefix ''/'' value \<or> CHR 0x00 \<in> set value)
        ''path must use relative slash-separated form'',
      reject_if (path_Clean value = ''.'' \<or> path_Clean value \<noteq> value \<or> path_Clean value = ''..'' \<or>
          prefix ''../'' (path_Clean value)) ''path must be clean and cannot traverse parents'',
      reject_if (ContainsAny value ''*?[]{}'' \<or> hasControl value)
        ''file path cannot contain glob or control characters'']"

definition pattern_character :: "char \<Rightarrow> bool" where
  "pattern_character c =
     (let n = byte c
      in n \<in> {97..122} \<or> n \<in> {65..90} \<or> n \<in> {48..57} \<or> c \<in> set ''_-.@+*?'')"

definition validatePatternSegment :: "string \<Rightarrow> check" where
  "validatePatternSegment segment = first_error
     [reject_if (segment = [] \<or> segment = ''.'' \<or> segment = ''..'')
        ''path pattern contains an invalid segment'',
      reject_if (\<not> list_all pattern_character segment)
        ''path pattern contains unsupported characters'']"

definition validateRelativePattern :: "string \<Rightarrow> check" where
  "validateRelativePattern value = first_error
     [reject_if (TrimSpace value = [] \<or> value \<noteq> TrimSpace value \<or> maxPathBytes < length value)
        ''relative path pattern is required and bounded'',
      reject_if (CHR 0x5C \<in> set value \<or> prefix ''/'' value \<or> CHR 0x00 \<in> set value)
        ''path pattern must use relative slash-separated form'',
      check_each validatePatternSegment (split_on (CHR ''/'') value)]"

section \<open>Digests\<close>

definition validSHA256 :: "string \<Rightarrow> bool" where
  "validSHA256 value \<longleftrightarrow>
     prefix ''sha256:'' value \<and> length value = length ''sha256:'' + 64 \<and>
     hex_decode (drop (length ''sha256:'') value) \<noteq> None \<and> ascii_lower value = value"

section \<open>What the text validators accept\<close>

lemma validateIdentifier_None [check_simps]:
  "validateIdentifier name value = None \<longleftrightarrow>
     value \<noteq> [] \<and> TrimSpace value = value \<and> length value \<le> 256 \<and> ValidString value \<and>
     \<not> hasControl value"
  by (auto simp: validateIdentifier_def check_simps limit_defs)

lemma validateText_None:
  "validateText name value limit required = None \<longleftrightarrow>
     (required \<longrightarrow> value \<noteq> []) \<and> TrimSpace value = value \<and> (value = [] \<or> length value \<le> limit) \<and>
     ValidString value \<and> \<not> hasDisallowedControl value"
  by (auto simp: validateText_def check_simps hasDisallowedControl_def)

lemma validateOneLine_None:
  "validateOneLine name value limit required = None \<longleftrightarrow>
     validateText name value limit required = None \<and> CHR 0x0D \<notin> set value \<and> CHR 0x0A \<notin> set value"
proof -
  have "ContainsAny value [CHR 0x0D, CHR 0x0A] \<longleftrightarrow> CHR 0x0D \<in> set value \<or> CHR 0x0A \<in> set value"
    unfolding ContainsAny_def list_ex_iff by auto
  then show ?thesis by (simp add: validateOneLine_def check_simps)
qed

text \<open>Sufficient conditions for concrete values.\<close>

lemma validateIdentifier_visible [simp]:
  "visible value \<Longrightarrow> value \<noteq> [] \<Longrightarrow> length value \<le> 256 \<Longrightarrow> validateIdentifier name value = None"
  by (simp add: validateIdentifier_None)

lemma validateText_visible [simp]:
  "visible value \<Longrightarrow> value \<noteq> [] \<Longrightarrow> length value \<le> limit \<Longrightarrow> validateText name value limit req = None"
  by (simp add: validateText_None)

lemma visible_one_line: "visible value \<Longrightarrow> CHR 0x0D \<notin> set value \<and> CHR 0x0A \<notin> set value"
  unfolding visible_def list_all_iff by (force simp: byte_def)

lemma validateOneLine_visible [simp]:
  "visible value \<Longrightarrow> value \<noteq> [] \<Longrightarrow> length value \<le> limit \<Longrightarrow> validateOneLine name value limit req = None"
  by (simp add: validateOneLine_None visible_one_line)

lemma not_panic_first_error_Nil [simp]: "\<not> is_panic (first_error [])"
  by simp

lemma not_panic_validators [simp]:
  "\<not> is_panic (validateIdentifier name value)"
  "\<not> is_panic (validateText name value limit required)"
  "\<not> is_panic (validateOneLine name value limit required)"
  "\<not> is_panic (validateRelativePath value)"
  "\<not> is_panic (validateRelativePattern value)"
proof -
  show "\<not> is_panic (validateText name value limit required)"
    by (simp add: validateText_def)
  then show "\<not> is_panic (validateOneLine name value limit required)"
    by (simp add: validateOneLine_def)
  have "\<not> is_panic (check_each validatePatternSegment segs)" for segs
    by (rule not_panic_check_each) (simp add: validatePatternSegment_def)
  then show "\<not> is_panic (validateRelativePattern value)"
    by (simp add: validateRelativePattern_def del: first_error_Cons_None)
qed (simp_all add: validateIdentifier_def validateRelativePath_def)

lemma identifier_valid:
  "is_identifier_of pre i \<Longrightarrow> visible pre \<Longrightarrow> length pre \<le> 204 \<Longrightarrow> validateIdentifier name i = None"
proof -
  assume i: "is_identifier_of pre i" "visible pre" "length pre \<le> 204"
  from i(1) have "i \<noteq> []" by (auto simp: is_identifier_of_def)
  with i show ?thesis by (simp add: identifier_visible identifier_length)
qed

section \<open>Accepted paths stay inside the project\<close>

text \<open>
  The segments \<open>path.Clean\<close> keeps: parent references, if any, come first.
\<close>

definition clean_shape :: "string list \<Rightarrow> bool" where
  "clean_shape segs \<longleftrightarrow>
     (\<forall>s \<in> set segs. s \<noteq> [] \<and> s \<noteq> ''.'' \<and> CHR ''/'' \<notin> set s) \<and>
     (\<exists>ups rest. segs = ups @ rest \<and> (\<forall>s \<in> set ups. s = ''..'') \<and> ''..'' \<notin> set rest)"

lemma clean_shape_snoc:
  assumes "clean_shape segs" "s \<noteq> []" "s \<noteq> ''.''" "s \<noteq> ''..''" "CHR ''/'' \<notin> set s"
  shows "clean_shape (segs @ [s])"
proof -
  from assms(1) obtain ups rest where "segs = ups @ rest" "\<forall>s \<in> set ups. s = ''..''" "''..'' \<notin> set rest"
    unfolding clean_shape_def by blast
  with assms have "segs @ [s] = ups @ (rest @ [s]) \<and> (\<forall>s \<in> set ups. s = ''..'') \<and>
      ''..'' \<notin> set (rest @ [s])" by simp
  moreover have "\<forall>t \<in> set (segs @ [s]). t \<noteq> [] \<and> t \<noteq> ''.'' \<and> CHR ''/'' \<notin> set t"
    using assms unfolding clean_shape_def by auto
  ultimately show ?thesis unfolding clean_shape_def by blast
qed

lemma clean_shape_butlast:
  assumes "clean_shape (segs @ [d])"
  shows "clean_shape segs"
proof -
  from assms obtain ups rest where
    u: "segs @ [d] = ups @ rest" "\<forall>s \<in> set ups. s = ''..''" "''..'' \<notin> set rest"
    unfolding clean_shape_def by blast
  have "\<exists>ups rest. segs = ups @ rest \<and> (\<forall>s \<in> set ups. s = ''..'') \<and> ''..'' \<notin> set rest"
  proof (cases rest rule: rev_cases)
    case Nil
    with u have "segs = butlast ups" by (metis append_Nil2 butlast_snoc)
    moreover have "\<forall>s \<in> set (butlast ups). s = ''..''" using u(2) by (auto dest: in_set_butlastD)
    ultimately show ?thesis by (intro exI [of _ "butlast ups"] exI [of _ "[]"]) simp
  next
    case (snoc rest' e)
    with u show ?thesis by (intro exI [of _ ups] exI [of _ rest']) simp
  qed
  moreover have "\<forall>t \<in> set segs. t \<noteq> [] \<and> t \<noteq> ''.'' \<and> CHR ''/'' \<notin> set t"
    using assms unfolding clean_shape_def by auto
  ultimately show ?thesis unfolding clean_shape_def by blast
qed

lemma clean_shape_up:
  assumes "clean_shape (segs @ [''..''])"
  shows "clean_shape (segs @ [''..'', ''..''])"
proof -
  from assms obtain ups rest where
    u: "segs @ [''..''] = ups @ rest" "\<forall>s \<in> set ups. s = ''..''" "''..'' \<notin> set rest"
    unfolding clean_shape_def by blast
  have "rest = []"
  proof (rule ccontr)
    assume "rest \<noteq> []"
    then have "last rest = ''..''" using u(1) by (metis last_appendR last_snoc)
    with \<open>rest \<noteq> []\<close> u(3) show False by (metis last_in_set)
  qed
  with u have "\<forall>s \<in> set (segs @ [''..'']). s = ''..''" by simp
  then have ups: "\<forall>s \<in> set (segs @ [''..'', ''..'']). s = ''..''" by simp
  then have "\<exists>ups rest. segs @ [''..'', ''..''] = ups @ rest \<and> (\<forall>s \<in> set ups. s = ''..'') \<and>
      ''..'' \<notin> set rest"
    by (intro exI [of _ "segs @ [''..'', ''..'']"] exI [of _ "[]"]) simp
  moreover have "\<forall>t \<in> set (segs @ [''..'', ''..'']). t \<noteq> [] \<and> t \<noteq> ''.'' \<and> CHR ''/'' \<notin> set t"
    using ups by auto
  ultimately show ?thesis unfolding clean_shape_def by blast
qed

lemma clean_segments_shape:
  "clean_shape (rev out) \<Longrightarrow> \<forall>s \<in> set ss. CHR ''/'' \<notin> set s \<Longrightarrow>
     clean_shape (clean_segments rooted out ss)"
proof (induction rooted out ss rule: clean_segments.induct)
  case (1 rooted out)
  then show ?case by simp
next
  case (2 rooted out s ss)
  consider "s = [] \<or> s = ''.''" | "s = ''..''" "out = []" | d ds where "s = ''..''" "out = d # ds"
    | "s \<noteq> []" "s \<noteq> ''.''" "s \<noteq> ''..''"
    by (cases out) auto
  then show ?case
  proof cases
    case 1
    with 2 show ?thesis by auto
  next
    case c: 2
    have "clean_shape [''..'']"
      unfolding clean_shape_def by (intro conjI exI [of _ "[''..'']"] exI [of _ "[]"]) auto
    moreover have "clean_shape []" by (simp add: clean_shape_def)
    ultimately show ?thesis using 2 c by auto
  next
    case c: 3
    have "clean_shape (rev (if d = ''..'' then ''..'' # out else ds))"
      using "2.prems"(1) c clean_shape_up [of "rev ds"] clean_shape_butlast [of "rev ds" d] by auto
    with 2 c show ?thesis by auto
  next
    case c: 4
    with 2 clean_shape_snoc [of "rev out" s] show ?thesis by auto
  qed
qed

lemma join_prefix_up:
  "join_with (CHR ''/'') (''..'' # segs) = ''..'' \<or> prefix ''../'' (join_with (CHR ''/'') (''..'' # segs))"
  by (cases segs) auto

lemma validateRelativePath_segments:
  assumes "validateRelativePath value = None" and "seg \<in> set (split_on (CHR ''/'') value)"
  shows "seg \<noteq> [] \<and> seg \<noteq> ''.'' \<and> seg \<noteq> ''..''"
proof -
  let ?segs = "clean_segments False [] (split_on (CHR ''/'') value)"
  from assms(1) have v: "value \<noteq> []" "hd value \<noteq> CHR ''/''" "path_Clean value = value"
    "value \<noteq> ''.''" "value \<noteq> ''..''" "\<not> prefix ''../'' value"
    by (cases "value", auto simp: validateRelativePath_def check_simps)+
  have shape: "clean_shape ?segs"
    by (rule clean_segments_shape) (auto simp: clean_shape_def dest: split_on_segments)
  have "?segs \<noteq> []" and j: "value = join_with (CHR ''/'') ?segs"
    using v by (auto simp: path_Clean_def Let_def split: if_splits)
  with shape have s: "split_on (CHR ''/'') value = ?segs"
    by (metis clean_shape_def split_join)
  obtain ups rest where u: "?segs = ups @ rest" "\<forall>s \<in> set ups. s = ''..''" "''..'' \<notin> set rest"
    using shape unfolding clean_shape_def by blast
  have "ups = []"
  proof (cases ups)
    case (Cons a as)
    with u have "?segs = ''..'' # (as @ rest)" by auto
    with j v(5,6) join_prefix_up [of "as @ rest"] show ?thesis by metis
  qed simp
  with u s assms(2) shape show ?thesis unfolding clean_shape_def by auto
qed

section \<open>Accepted digests are the encodings of 32 bytes\<close>

lemma lower_hex_fixed: "is_lower_hex c \<Longrightarrow> lower_char c = c"
  by (auto simp: is_lower_hex_def lower_char_def)

lemma ascii_lower_hex: "list_all is_lower_hex s \<Longrightarrow> ascii_lower s = s"
  by (induction s) (simp_all add: ascii_lower_def lower_hex_fixed)

lemma hex_digits_chars:
  "n < 10 \<Longrightarrow> hex_digits ! n = char_of (48 + n)"
  "n < 6 \<Longrightarrow> hex_digits ! (10 + n) = char_of (97 + n)"
proof -
  have "list_all (\<lambda>n. hex_digits ! n = char_of (48 + n)) [0..<10]"
    "list_all (\<lambda>n. hex_digits ! (10 + n) = char_of (97 + n)) [0..<6]"
    by code_simp+
  then show "n < 10 \<Longrightarrow> hex_digits ! n = char_of (48 + n)"
    "n < 6 \<Longrightarrow> hex_digits ! (10 + n) = char_of (97 + n)"
    by (simp_all add: list_all_iff)
qed

lemma byte_lower_char: "lower_char c = c \<Longrightarrow> \<not> (65 \<le> byte c \<and> byte c \<le> 90)"
proof
  assume l: "lower_char c = c" and r: "65 \<le> byte c \<and> byte c \<le> 90"
  then have "char_of (byte c + 32) = c" by (simp add: lower_char_def)
  then have "byte (char_of (byte c + 32)) = byte c" by simp
  with r show False by (simp add: byte_def)
qed

lemma hex_value_inverse:
  assumes "hex_value c = Some x" "lower_char c = c"
  shows "x < 16 \<and> hex_digits ! x = c"
proof -
  consider "48 \<le> byte c" "byte c \<le> 57" "x = byte c - 48"
    | "97 \<le> byte c" "byte c \<le> 102" "x = byte c - 87"
    using assms byte_lower_char [of c] by (auto simp: hex_value_def Let_def split: if_splits)
  then show ?thesis
  proof cases
    case 1
    then have "hex_digits ! x = char_of (48 + x)" by (intro hex_digits_chars) simp
    with 1 show ?thesis by simp
  next
    case 2
    then have "hex_digits ! (10 + (byte c - 97)) = char_of (97 + (byte c - 97))"
      by (intro hex_digits_chars) simp
    with 2 show ?thesis by simp
  qed
qed

lemma byte_char_of: "n < 256 \<Longrightarrow> byte (char_of n) = n"
  by (simp add: byte_def)

lemma hex_encode_decode:
  "hex_decode s = Some bs \<Longrightarrow> ascii_lower s = s \<Longrightarrow> hex_encode bs = s"
proof (induction s arbitrary: bs rule: hex_decode.induct)
  case (3 a b s)
  then obtain x y r where r: "hex_value a = Some x" "hex_value b = Some y" "hex_decode s = Some r"
    "bs = char_of (16 * x + y) # r"
    by (auto split: option.splits)
  have l: "lower_char a = a" "lower_char b = b" "ascii_lower s = s"
    using "3.prems"(2) by (simp_all add: ascii_lower_def)
  with r have xy: "x < 16" "hex_digits ! x = a" "y < 16" "hex_digits ! y = b"
    using hex_value_inverse by blast+
  have "hex_encode r = s" using "3.IH" r l by simp
  moreover have "byte (char_of (16 * x + y)) = 16 * x + y" using xy by (intro byte_char_of) simp
  ultimately show ?case using xy by (simp add: r hex_encode_def)
qed (auto simp: hex_encode_def)

lemma hex_decode_length: "hex_decode s = Some bs \<Longrightarrow> length s = 2 * length bs"
  by (induction s arbitrary: bs rule: hex_decode.induct) (auto split: option.splits)

lemma sha256_prefix_lower [simp]: "ascii_lower (''sha256:'' @ s) = ''sha256:'' @ ascii_lower s"
  by (simp add: ascii_lower_def lower_char_def byte_def)

lemma validSHA256_iff:
  "validSHA256 value \<longleftrightarrow> (\<exists>digest. length digest = 32 \<and> value = ''sha256:'' @ hex_encode digest)"
proof
  assume v: "validSHA256 value"
  then obtain s where s: "value = ''sha256:'' @ s" by (auto simp: validSHA256_def prefix_def)
  with v obtain bs where bs: "hex_decode s = Some bs" "length s = 64" "ascii_lower s = s"
    using sha256_prefix_lower [of s] by (auto simp: validSHA256_def simp del: sha256_prefix_lower)
  then show "\<exists>digest. length digest = 32 \<and> value = ''sha256:'' @ hex_encode digest"
    using s hex_encode_decode [OF bs(1,3)] hex_decode_length [OF bs(1)]
    by (intro exI [of _ bs]) simp
next
  assume "\<exists>digest. length digest = 32 \<and> value = ''sha256:'' @ hex_encode digest"
  then obtain bs where bs: "length bs = 32" "value = ''sha256:'' @ hex_encode bs" by blast
  have "ascii_lower value = value"
    unfolding bs(2) sha256_prefix_lower by (simp add: ascii_lower_hex hex_encode_lower)
  with bs show "validSHA256 value" by (simp add: validSHA256_def)
qed

lemma contentHash_valid: "contentHash j = Some h \<Longrightarrow> validSHA256 h"
  by (auto simp: contentHash_def validSHA256_iff intro: exI [of _ "sha256 _"])

lemma validSHA256_not_Nil: "validSHA256 h \<Longrightarrow> h \<noteq> []"
  by (auto simp: validSHA256_def)

end
