(* ===== verification/Validate.thy ===== *)
theory Validate
  imports Validators
begin

text \<open>
  The \<open>Validate\<close> methods of \<open>internal/experience/validate.go\<close>, one definition each, with the
  checks in the order of the code. A method returns the first error it meets; \<open>None\<close> is success. The
  deterministic identifier is recomputed last, and \<open>Panic\<close> is the panic of \<open>hash.go\<close> when the
  payload cannot be rendered.
\<close>

section \<open>Recomputed identifiers\<close>

text \<open>\<open>value.ID == "" || value.ID != value.DeterministicID()\<close>\<close>

definition id_mismatch :: "string \<Rightarrow> string option \<Rightarrow> string \<Rightarrow> check" where
  "id_mismatch actual computed msg =
     (if actual = [] then Some (Err msg)
      else case computed of
          None \<Rightarrow> Some (Panic ''json.Marshal failed'')
        | Some expected \<Rightarrow> reject_if (actual \<noteq> expected) msg)"

lemma id_mismatch_None [check_simps]:
  "id_mismatch actual computed msg = None \<longleftrightarrow> actual \<noteq> [] \<and> computed = Some actual"
  by (auto simp: id_mismatch_def check_simps split: option.splits)

lemma id_mismatch_panic: "is_panic (id_mismatch actual computed msg) \<longleftrightarrow> actual \<noteq> [] \<and> computed = None"
  by (auto simp: id_mismatch_def split: option.splits)

definition optional_zero :: "gotime option \<Rightarrow> string \<Rightarrow> check" where
  "optional_zero t msg = reject_if (case t of None \<Rightarrow> False | Some u \<Rightarrow> IsZero u) msg"

lemma optional_zero_None [check_simps]:
  "optional_zero t msg = None \<longleftrightarrow> (\<forall>u. t = Some u \<longrightarrow> \<not> IsZero u)"
  by (cases t) (simp_all add: optional_zero_def check_simps)

lemma optional_zero_panic [simp]: "\<not> is_panic (optional_zero t msg)"
  by (simp add: optional_zero_def)

section \<open>Verifiers\<close>

fun absenceBased :: "VerifierKind \<Rightarrow> bool" where
  "absenceBased VerifierFileNotModified = True"
| "absenceBased VerifierPathPatternNotModified = True"
| "absenceBased VerifierNoRepeatFailure = True"
| "absenceBased VerifierUserCorrectionAbsent = True"
| "absenceBased _ = False"

definition CommandVerifierSpec_Validate :: "CommandVerifierSpec \<Rightarrow> check" where
  "CommandVerifierSpec_Validate value = first_error
     [validateOneLine ''verifier command'' (cvs_Command value) maxCommandBytes True,
      validateIdentifier ''verifier command scrubbing version'' (cvs_ScrubbingVersion value),
      if cvs_CommandClass value \<noteq> []
      then validateIdentifier ''verifier command class'' (cvs_CommandClass value) else None]"

definition FileVerifierSpec_Validate :: "FileVerifierSpec \<Rightarrow> check" where
  "FileVerifierSpec_Validate value = validateRelativePath (fvs_Path value)"

definition PathPatternVerifierSpec_Validate :: "PathPatternVerifierSpec \<Rightarrow> check" where
  "PathPatternVerifierSpec_Validate value = first_error
     [reject_if (pps_Patterns value = [] \<or> maxListItems < length (pps_Patterns value))
        ''path-pattern verifier patterns are required and bounded'',
      check_each validateRelativePattern (pps_Patterns value)]"

definition VerificationAfterLastEditSpec_Validate :: "VerificationAfterLastEditSpec \<Rightarrow> check" where
  "VerificationAfterLastEditSpec_Validate value = first_error
     [reject_if (maxListItems < length (vle_CommandClasses value))
        ''verification command classes exceed item limit'',
      check_each (validateIdentifier ''verification command class'') (vle_CommandClasses value)]"

definition NoRepeatFailureSpec_Validate :: "NoRepeatFailureSpec \<Rightarrow> check" where
  "NoRepeatFailureSpec_Validate value = first_error
     [validateIdentifier ''failure command class'' (nrf_CommandClass value),
      validateOneLine ''normalized failure pattern'' (nrf_NormalizedPattern value) maxGuidanceBytes
        True,
      reject_if (nrf_WindowTurns value < 1 \<or> 1000 < nrf_WindowTurns value)
        ''failure window turns must be between one and 1000'']"

definition UserCorrectionAbsentSpec_Validate :: "UserCorrectionAbsentSpec \<Rightarrow> check" where
  "UserCorrectionAbsentSpec_Validate value = first_error
     [reject_if (maxListItems < length (uca_MarkerFamilies value))
        ''correction marker families exceed item limit'',
      check_each (validateIdentifier ''correction marker family'') (uca_MarkerFamilies value)]"

definition ObservationOnlySpec_Validate :: "ObservationOnlySpec \<Rightarrow> check" where
  "ObservationOnlySpec_Validate value =
     validateText ''observation-only explanation'' (oos_Explanation value) maxRationaleBytes True"

definition spec_count :: "Verifier \<Rightarrow> nat" where
  "spec_count value = length (filter (\<lambda>present. present)
     [ver_Command value \<noteq> None, ver_File value \<noteq> None, ver_PathPattern value \<noteq> None,
      ver_VerificationAfterLastEdit value \<noteq> None, ver_NoRepeatFailure value \<noteq> None,
      ver_UserCorrectionAbsent value \<noteq> None, ver_ObservationOnly value \<noteq> None])"

definition require_spec :: "('s \<Rightarrow> check) \<Rightarrow> 's option \<Rightarrow> string \<Rightarrow> check" where
  "require_spec f spec msg = (case spec of None \<Rightarrow> Some (Err msg) | Some s \<Rightarrow> f s)"

fun Verifier_spec_check :: "VerifierKind \<Rightarrow> Verifier \<Rightarrow> check" where
  "Verifier_spec_check VerifierCommandObserved value =
     require_spec CommandVerifierSpec_Validate (ver_Command value)
       ''command verifier requires command specification''"
| "Verifier_spec_check VerifierCommandSucceeded value =
     require_spec CommandVerifierSpec_Validate (ver_Command value)
       ''command verifier requires command specification''"
| "Verifier_spec_check VerifierFileNotModified value =
     require_spec FileVerifierSpec_Validate (ver_File value)
       ''file verifier requires file specification''"
| "Verifier_spec_check VerifierFileModified value =
     require_spec FileVerifierSpec_Validate (ver_File value)
       ''file verifier requires file specification''"
| "Verifier_spec_check VerifierPathPatternNotModified value =
     require_spec PathPatternVerifierSpec_Validate (ver_PathPattern value)
       ''path-pattern verifier requires path-pattern specification''"
| "Verifier_spec_check VerifierVerificationAfterLastEdit value =
     require_spec VerificationAfterLastEditSpec_Validate (ver_VerificationAfterLastEdit value)
       ''verification-after-edit verifier requires its typed specification''"
| "Verifier_spec_check VerifierNoRepeatFailure value =
     require_spec NoRepeatFailureSpec_Validate (ver_NoRepeatFailure value)
       ''no-repeat-failure verifier requires its typed specification''"
| "Verifier_spec_check VerifierUserCorrectionAbsent value =
     require_spec UserCorrectionAbsentSpec_Validate (ver_UserCorrectionAbsent value)
       ''user-correction-absent verifier requires its typed specification''"
| "Verifier_spec_check VerifierObservationOnly value =
     require_spec ObservationOnlySpec_Validate (ver_ObservationOnly value)
       ''observation-only verifier requires its typed specification''"
| "Verifier_spec_check (VerifierKind_other s) value = Some (Err ''verifier kind is invalid'')"

definition Verifier_Validate :: "Verifier \<Rightarrow> check" where
  "Verifier_Validate value = first_error
     [reject_if (\<not> VerifierKind_Valid (ver_Kind value)) ''verifier kind is invalid'',
      reject_if (maxListItems < length (ver_CoverageRequirements value))
        ''verifier coverage requirements exceed item limit'',
      check_each (\<lambda>requirement. reject_if (\<not> CoverageRequirement_Valid requirement)
        ''verifier coverage requirement is invalid'') (ver_CoverageRequirements value),
      reject_if (absenceBased (ver_Kind value) \<and> ver_CoverageRequirements value = [])
        ''absence-based verifier requires explicit coverage requirements'',
      reject_if (spec_count value \<noteq> 1) ''verifier must declare exactly one typed specification'',
      Verifier_spec_check (ver_Kind value) value]"

section \<open>Scope, applicability, guidance\<close>

definition Scope_Validate :: "Scope \<Rightarrow> check" where
  "Scope_Validate value = first_error
     [reject_if (\<not> ScopeKind_Valid (scope_Kind value)) ''scope kind is invalid'',
      validateIdentifier ''scope project identity'' (scope_ProjectIdentity value),
      if scope_Kind value = ScopeSession
      then validateIdentifier ''session scope key'' (scope_SessionKey value)
      else reject_if (scope_SessionKey value \<noteq> []) ''project scope cannot include a session key'',
      reject_if (maxListItems < length (scope_RepositoryPaths value) \<or>
          maxListItems < length (scope_TaskFamilies value) \<or>
          maxListItems < length (scope_Harnesses value) \<or>
          maxListItems < length (scope_Models value)) ''scope list exceeds item limit'',
      check_each (\<lambda>item. wrap_error ''scope repository path'' (validateRelativePattern item))
        (scope_RepositoryPaths value),
      check_each (validateIdentifier ''scope task family'') (scope_TaskFamilies value),
      check_each (\<lambda>item. reject_if (\<not> Harness_Valid item) ''scope harness is invalid'')
        (scope_Harnesses value),
      check_each (validateIdentifier ''scope model'') (scope_Models value)]"

definition DeterministicCondition_Validate :: "DeterministicCondition \<Rightarrow> check" where
  "DeterministicCondition_Validate value = first_error
     [reject_if (\<not> DeterministicConditionKind_Valid (cond_Kind value))
        ''deterministic condition kind is invalid'',
      reject_if (cond_Values value = [] \<or> maxListItems < length (cond_Values value))
        ''deterministic condition values are required and bounded'',
      check_each (\<lambda>item.
          if cond_Kind value = ConditionPathPattern
          then wrap_error ''deterministic path condition'' (validateRelativePattern item)
          else validateIdentifier ''deterministic condition value'' item)
        (cond_Values value)]"

definition Applicability_Validate :: "Applicability \<Rightarrow> check" where
  "Applicability_Validate value = first_error
     [validateText ''applicability semantic description'' (appl_SemanticDescription value)
        maxRationaleBytes True,
      reject_if (maxListItems < length (appl_DeterministicConditions value) \<or>
          maxListItems < length (appl_Exclusions value)) ''applicability list exceeds item limit'',
      check_each DeterministicCondition_Validate (appl_DeterministicConditions value),
      check_each (\<lambda>exclusion. validateText ''applicability exclusion'' exclusion maxRationaleBytes True)
        (appl_Exclusions value),
      optional_zero (appl_ExpiresAt value) ''applicability expiration cannot be zero'']"

definition Guidance_Validate :: "Guidance \<Rightarrow> check" where
  "Guidance_Validate value = first_error
     [validateOneLine ''guidance instruction'' (guid_Instruction value) maxGuidanceBytes True,
      validateText ''guidance rationale'' (guid_Rationale value) maxRationaleBytes True,
      reject_if (\<not> InterventionStrength_Valid (guid_InterventionStrength value))
        ''intervention strength is invalid'',
      reject_if (guid_InterventionStrength value = InterventionDeny)
        ''learned experience cannot use deny intervention'',
      reject_if (maxListItems < length (guid_Exceptions value)) ''guidance exceptions exceed item limit'',
      check_each (\<lambda>item. validateOneLine ''guidance exception'' item maxGuidanceBytes True)
        (guid_Exceptions value)]"

section \<open>Evidence\<close>

definition ExperienceRef_Validate :: "ExperienceRef \<Rightarrow> check" where
  "ExperienceRef_Validate value = first_error
     [validateIdentifier ''experience reference ID'' (xref_ExperienceID value),
      reject_if (xref_Version value < 1) ''experience reference version must be positive'']"

definition support_group_check :: "string list \<Rightarrow> check" where
  "support_group_check refs = first_error
     [reject_if (refs = [] \<or> maxListItems < length refs)
        ''proposal evidence support group is empty or exceeds limit'',
      check_unique (validateIdentifier ''proposal evidence support reference'')
        ''proposal evidence support contains duplicate references'' {} refs]"

definition EvidenceSupport_Validate :: "nat \<Rightarrow> EvidenceSupport \<Rightarrow> check" where
  "EvidenceSupport_Validate exceptionCount value = first_error
     [reject_if (sup_GuidanceRefs value = [] \<or> maxListItems < length (sup_GuidanceRefs value) \<or>
          sup_VerifierRefs value = [] \<or> maxListItems < length (sup_VerifierRefs value) \<or>
          length (sup_ExceptionRefs value) \<noteq> exceptionCount)
        ''proposal evidence support is incomplete or exceeds limit'',
      check_each support_group_check
        (sup_GuidanceRefs value # sup_VerifierRefs value # sup_ExceptionRefs value)]"

text \<open>The fields of \<open>EvidenceRef\<close> other than kind, occurrence and excerpt that must be empty.\<close>

definition eref_no_turn :: "EvidenceRef \<Rightarrow> bool" where
  "eref_no_turn v \<longleftrightarrow> eref_SessionKey v = [] \<and> eref_TurnIndex v = None \<and>
     EvidenceTurnRole_text (eref_TurnRole v) = [] \<and> eref_ToolName v = []"

fun EvidenceRef_kind_check :: "EvidenceSourceKind \<Rightarrow> EvidenceRef \<Rightarrow> check" where
  "EvidenceRef_kind_check EvidenceTranscriptTurn v = first_error
     [validateIdentifier ''evidence session key'' (eref_SessionKey v),
      reject_if (case eref_TurnIndex v of None \<Rightarrow> True | Some i \<Rightarrow> i < 0)
        ''transcript evidence requires a non-negative turn index'',
      reject_if (EvidenceTurnRole_text (eref_TurnRole v) \<noteq> [] \<and>
          \<not> EvidenceTurnRole_Valid (eref_TurnRole v)) ''transcript evidence turn role is invalid'',
      if eref_ToolName v \<noteq> [] then first_error
        [reject_if (eref_TurnRole v \<noteq> EvidenceTurnToolCall \<and> eref_TurnRole v \<noteq> EvidenceTurnToolResult)
           ''evidence tool name requires a tool turn role'',
         validateText ''evidence tool name'' (eref_ToolName v) 256 False]
      else None,
      reject_if (eref_EventID v \<noteq> [] \<or> eref_OutcomeID v \<noteq> [] \<or> eref_Path v \<noteq> [] \<or>
          eref_SHA256 v \<noteq> [] \<or> eref_RecordedBy v \<noteq> [])
        ''transcript evidence contains fields for another source kind'']"
| "EvidenceRef_kind_check EvidenceCanonicalEvent v = first_error
     [validateIdentifier ''evidence event ID'' (eref_EventID v),
      reject_if (\<not> eref_no_turn v \<or> eref_OutcomeID v \<noteq> [] \<or> eref_Path v \<noteq> [] \<or> eref_SHA256 v \<noteq> [] \<or>
          eref_RecordedBy v \<noteq> []) ''canonical event evidence contains fields for another source kind'']"
| "EvidenceRef_kind_check EvidenceOutcomeObservation v = first_error
     [validateIdentifier ''evidence outcome ID'' (eref_OutcomeID v),
      reject_if (\<not> eref_no_turn v \<or> eref_EventID v \<noteq> [] \<or> eref_Path v \<noteq> [] \<or> eref_SHA256 v \<noteq> [] \<or>
          eref_RecordedBy v \<noteq> []) ''outcome evidence contains fields for another source kind'']"
| "EvidenceRef_kind_check EvidenceWorkspaceHash v = first_error
     [wrap_error ''workspace evidence path'' (validateRelativePath (eref_Path v)),
      reject_if (\<not> validSHA256 (eref_SHA256 v)) ''workspace evidence requires a sha256 digest'',
      reject_if (\<not> eref_no_turn v \<or> eref_EventID v \<noteq> [] \<or> eref_OutcomeID v \<noteq> [] \<or>
          eref_RecordedBy v \<noteq> []) ''workspace evidence contains fields for another source kind'']"
| "EvidenceRef_kind_check EvidenceUserRecorded v = first_error
     [validateIdentifier ''user-recorded evidence actor'' (eref_RecordedBy v),
      reject_if (\<not> eref_no_turn v \<or> eref_EventID v \<noteq> [] \<or> eref_OutcomeID v \<noteq> [] \<or> eref_Path v \<noteq> [] \<or>
          eref_SHA256 v \<noteq> []) ''user-recorded evidence contains fields for another source kind'']"
| "EvidenceRef_kind_check (EvidenceSourceKind_other s) v = None"

definition EvidenceRef_Validate :: "EvidenceRef \<Rightarrow> check" where
  "EvidenceRef_Validate value = first_error
     [reject_if (\<not> EvidenceSourceKind_Valid (eref_Kind value)) ''evidence source kind is invalid'',
      if eref_Excerpt value \<noteq> []
      then validateText ''evidence excerpt'' (eref_Excerpt value) maxExcerptBytes False else None,
      optional_zero (eref_OccurredAt value) ''evidence occurred_at cannot be zero'',
      EvidenceRef_kind_check (eref_Kind value) value]"

definition EvidenceSet_Validate :: "EvidenceSet \<Rightarrow> check" where
  "EvidenceSet_Validate value = first_error
     [reject_if (\<not> EvidenceAvailability_Valid (evs_Availability value))
        ''evidence availability is invalid'',
      reject_if (evs_Refs value = [] \<or> maxListItems < length (evs_Refs value))
        ''evidence references are required and bounded'',
      check_each EvidenceRef_Validate (evs_Refs value),
      id_mismatch (evs_EvidenceSetID value) (EvidenceSet_DeterministicID value)
        ''evidence set ID does not match deterministic references'']"

section \<open>Provenance and governance\<close>

definition Provenance_Validate :: "Provenance \<Rightarrow> check" where
  "Provenance_Validate value = first_error
     [validateIdentifier ''provenance extractor version'' (prov_ExtractorVersion value),
      reject_if (\<not> validSHA256 (prov_InputHash value)) ''provenance input hash must be sha256'',
      reject_if (IsZero (prov_GeneratedAt value)) ''provenance generated_at is required'',
      reject_if (Harness_text (prov_Harness value) \<noteq> [] \<and> \<not> Harness_Valid (prov_Harness value))
        ''provenance harness is invalid'',
      reject_if ((prov_Model value \<noteq> [] \<or> prov_PromptVersion value \<noteq> []) \<and>
          \<not> Harness_Valid (prov_Harness value))
        ''model or prompt provenance requires a supported harness'',
      if prov_PromptVersion value \<noteq> []
      then validateIdentifier ''provenance prompt version'' (prov_PromptVersion value) else None,
      if prov_Model value \<noteq> []
      then validateIdentifier ''provenance model'' (prov_Model value) else None,
      if prov_SourceCandidateID value \<noteq> []
      then validateIdentifier ''provenance source candidate ID'' (prov_SourceCandidateID value)
      else None]"

definition ApprovalProvenance_Validate :: "string \<Rightarrow> ApprovalProvenance \<Rightarrow> check" where
  "ApprovalProvenance_Validate content value = first_error
     [validateIdentifier ''approval actor'' (apr_ApprovedBy value),
      reject_if (IsZero (apr_ApprovedAt value)) ''approval timestamp is required'',
      reject_if (\<not> ApprovalMode_Valid (apr_Mode value)) ''approval mode is invalid'',
      validateIdentifier ''approval candidate ID'' (apr_CandidateID value),
      reject_if (\<not> validSHA256 (apr_ProposedContentHash value) \<or>
          \<not> validSHA256 (apr_ApprovedContentHash value)) ''approval content hashes must be sha256'',
      reject_if (apr_ApprovedContentHash value \<noteq> content)
        ''approval hash does not match experience content'']"

fun immutable_state :: "LifecycleState \<Rightarrow> bool" where
  "immutable_state LifecycleApproved = True"
| "immutable_state LifecycleActive = True"
| "immutable_state LifecyclePaused = True"
| "immutable_state LifecycleContradicted = True"
| "immutable_state LifecycleSuperseded = True"
| "immutable_state LifecycleExpired = True"
| "immutable_state _ = False"

definition Governance_Validate :: "string \<Rightarrow> Governance \<Rightarrow> check" where
  "Governance_Validate content value = first_error
     [reject_if (\<not> immutable_state (gov_LifecycleState value))
        ''lifecycle state is invalid for immutable experience'',
      reject_if (gov_Authority value \<noteq> AuthorityUserApproved)
        ''immutable experience requires user-approved authority'',
      case gov_Approval value of
        None \<Rightarrow> Some (Err ''immutable experience requires approval provenance'')
      | Some approval \<Rightarrow> ApprovalProvenance_Validate content approval]"

section \<open>Proposals, candidates and semantic results\<close>

text \<open>NaN and the infinities are outside the unit interval, and -0 is inside.\<close>

fun validUnitInterval :: "float64 \<Rightarrow> bool" where
  "validUnitInterval NaN = False"
| "validUnitInterval PosInf = False"
| "validUnitInterval NegInf = False"
| "validUnitInterval NegZero = True"
| "validUnitInterval (Finite v) = (0 \<le> v \<and> v \<le> 1)"

definition ExperienceProposal_Validate :: "ExperienceProposal \<Rightarrow> check" where
  "ExperienceProposal_Validate value = first_error
     [reject_if (\<not> ExperienceType_Valid (prop_Type value)) ''experience type is invalid'',
      Scope_Validate (prop_Scope value),
      Applicability_Validate (prop_Applicability value),
      Guidance_Validate (prop_Guidance value),
      Verifier_Validate (prop_Verifier value),
      case prop_EvidenceSupport value of None \<Rightarrow> None
      | Some s \<Rightarrow> EvidenceSupport_Validate (length (guid_Exceptions (prop_Guidance value))) s,
      reject_if (case prop_Confidence value of None \<Rightarrow> False | Some c \<Rightarrow> \<not> validUnitInterval c)
        ''proposal confidence must be between zero and one'']"

definition Candidate_Validate :: "Candidate \<Rightarrow> check" where
  "Candidate_Validate value = first_error
     [reject_if (cand_SchemaVersion value \<noteq> CandidateSchemaVersion)
        ''candidate schema version is invalid'',
      reject_if (\<not> CandidateFamily_Valid (cand_Family value)) ''candidate family is invalid'',
      validateIdentifier ''candidate project identity'' (cand_ProjectIdentity value),
      reject_if (cand_Authority value \<noteq> AuthorityNone)
        ''candidate instruction authority must be none'',
      reject_if (cand_LifecycleState value \<noteq> LifecycleCandidate)
        ''candidate lifecycle state must be candidate'',
      reject_if (IsZero (cand_CreatedAt value)) ''candidate created_at is required'',
      validateText ''candidate observed behavior'' (cand_ObservedBehavior value) maxRationaleBytes True,
      reject_if (cand_Family value = CandidateCorrection \<and> TrimSpace (cand_UserFeedback value) = [])
        ''correction candidate user feedback is required'',
      validateText ''candidate user feedback'' (cand_UserFeedback value) maxExcerptBytes False,
      wrap_error ''candidate evidence'' (EvidenceSet_Validate (cand_Evidence value)),
      check_each (validateIdentifier ''candidate outcome reference'') (cand_OutcomeRefs value),
      reject_if (maxListItems < length (cand_EpisodeRefs value))
        ''candidate episode references exceed item limit'',
      check_each (validateIdentifier ''candidate episode reference'') (cand_EpisodeRefs value),
      check_each (\<lambda>ref. wrap_error ''candidate existing experience reference''
        (ExperienceRef_Validate ref)) (cand_ExistingRefs value),
      wrap_error ''candidate proposal'' (ExperienceProposal_Validate (cand_Proposal value)),
      reject_if (scope_ProjectIdentity (prop_Scope (cand_Proposal value)) \<noteq> cand_ProjectIdentity value)
        ''candidate proposal scope must match candidate project'',
      wrap_error ''candidate provenance'' (Provenance_Validate (cand_Provenance value)),
      if prop_SemanticCompilationPending (cand_Proposal value) then first_error
        [reject_if (prop_Confidence (cand_Proposal value) \<noteq> None)
           ''semantic-pending candidate cannot claim proposal confidence'',
         reject_if (guid_InterventionStrength (prop_Guidance (cand_Proposal value)) \<noteq>
             InterventionObserve) ''semantic-pending candidate must remain observe-only'',
         reject_if (Harness_text (prov_Harness (cand_Provenance value)) \<noteq> [] \<or>
             TrimSpace (prov_Model (cand_Provenance value)) \<noteq> [] \<or>
             TrimSpace (prov_PromptVersion (cand_Provenance value)) \<noteq> [])
           ''semantic-pending candidate cannot claim harness or prompt provenance'']
      else reject_if (\<not> Harness_Valid (prov_Harness (cand_Provenance value)) \<or>
          TrimSpace (prov_PromptVersion (cand_Provenance value)) = [])
        ''candidate proposal requires harness and prompt provenance'',
      id_mismatch (cand_CandidateID value) (Candidate_DeterministicID value)
        ''candidate ID does not match deterministic content'']"

definition SemanticProposalProvenance_Validate :: "SemanticProposalProvenance \<Rightarrow> check" where
  "SemanticProposalProvenance_Validate value = first_error
     [reject_if (\<not> Harness_Valid (sprov_Harness value)) ''semantic proposal harness is invalid'',
      validateIdentifier ''semantic proposal model'' (sprov_Model value),
      validateIdentifier ''semantic proposal prompt version'' (sprov_PromptVersion value),
      reject_if (sprov_PromptVersion value \<notin> set SemanticProposalPromptVersions)
        ''semantic proposal prompt version is unsupported'',
      reject_if (\<not> validSHA256 (sprov_InputHash value) \<or> \<not> validSHA256 (sprov_OutputHash value))
        ''semantic proposal input and output hashes must be sha256'',
      reject_if (IsZero (sprov_GeneratedAt value)) ''semantic proposal generated_at is required'']"

definition SemanticProposal_Validate :: "SemanticProposal \<Rightarrow> check" where
  "SemanticProposal_Validate value = first_error
     [reject_if (semp_SchemaVersion value \<noteq> SemanticProposalSchemaVersion)
        ''semantic proposal schema version is invalid'',
      validateIdentifier ''semantic proposal candidate ID'' (semp_CandidateID value),
      validateIdentifier ''semantic proposal project identity'' (semp_ProjectIdentity value),
      reject_if (semp_Authority value \<noteq> AuthorityNone)
        ''semantic proposal instruction authority must be none'',
      wrap_error ''semantic proposal content'' (ExperienceProposal_Validate (semp_Proposal value)),
      reject_if (prop_SemanticCompilationPending (semp_Proposal value))
        ''semantic proposal cannot remain pending compilation'',
      reject_if (prop_Confidence (semp_Proposal value) = None)
        ''semantic proposal confidence is required'',
      reject_if (scope_ProjectIdentity (prop_Scope (semp_Proposal value)) \<noteq> semp_ProjectIdentity value)
        ''semantic proposal scope must match proposal project'',
      wrap_error ''semantic proposal provenance''
        (SemanticProposalProvenance_Validate (semp_Provenance value)),
      id_mismatch (semp_ProposalID value) (SemanticProposal_DeterministicID value)
        ''semantic proposal ID does not match deterministic content'']"

fun SemanticDecision_disposition_check :: "SemanticDisposition \<Rightarrow> SemanticDecision \<Rightarrow> check" where
  "SemanticDecision_disposition_check SemanticDispositionPropose value = first_error
     [reject_if (semd_ReasonCode value \<noteq> SemanticReasonReusableSupported)
        ''propose decision requires reusable-supported reason'',
      validateIdentifier ''semantic decision proposal ID'' (semd_ProposalID value)]"
| "SemanticDecision_disposition_check SemanticDispositionReject value = first_error
     [reject_if (semd_ProposalID value \<noteq> []) ''reject decision cannot reference a proposal'',
      reject_if (semd_ReasonCode value \<noteq> SemanticReasonTemporaryOrTaskSpecific \<and>
          semd_ReasonCode value \<noteq> SemanticReasonUnsafeOrOverbroad \<and>
          semd_ReasonCode value \<noteq> SemanticReasonNotReusable)
        ''reject decision reason is incompatible'']"
| "SemanticDecision_disposition_check SemanticDispositionDefer value = first_error
     [reject_if (semd_ProposalID value \<noteq> []) ''defer decision cannot reference a proposal'',
      reject_if (semd_ReasonCode value \<noteq> SemanticReasonInsufficientContext)
        ''defer decision requires insufficient-context reason'']"
| "SemanticDecision_disposition_check (SemanticDisposition_other s) value = None"

definition SemanticDecision_Validate :: "SemanticDecision \<Rightarrow> check" where
  "SemanticDecision_Validate value = first_error
     [reject_if (semd_SchemaVersion value \<noteq> SemanticDecisionSchemaVersion)
        ''semantic decision schema version is invalid'',
      validateIdentifier ''semantic decision candidate ID'' (semd_CandidateID value),
      validateIdentifier ''semantic decision project identity'' (semd_ProjectIdentity value),
      reject_if (\<not> SemanticDisposition_Valid (semd_Disposition value))
        ''semantic decision disposition is invalid'',
      reject_if (\<not> SemanticDecisionReasonCode_Valid (semd_ReasonCode value))
        ''semantic decision reason code is invalid'',
      validateOneLine ''semantic decision explanation'' (semd_Explanation value) maxDecisionBytes True,
      reject_if (\<not> validUnitInterval (semd_Confidence value))
        ''semantic decision confidence must be between zero and one'',
      SemanticDecision_disposition_check (semd_Disposition value) value,
      wrap_error ''semantic decision provenance''
        (SemanticProposalProvenance_Validate (semd_Provenance value)),
      id_mismatch (semd_DecisionID value) (SemanticDecision_DeterministicID value)
        ''semantic decision ID does not match deterministic content'']"

text \<open>The comparison of the two provenances is Go's struct equality, times included.\<close>

definition SemanticResult_Validate :: "SemanticResult \<Rightarrow> check" where
  "SemanticResult_Validate value = first_error
     [SemanticDecision_Validate (semr_Decision value),
      if semd_Disposition (semr_Decision value) \<noteq> SemanticDispositionPropose
      then reject_if (semr_Proposal value \<noteq> None)
        ''non-propose semantic result cannot contain a proposal''
      else (case semr_Proposal value of
          None \<Rightarrow> Some (Err ''propose semantic result requires a proposal'')
        | Some p \<Rightarrow> first_error
            [SemanticProposal_Validate p,
             reject_if (semp_CandidateID p \<noteq> semd_CandidateID (semr_Decision value) \<or>
                 semp_ProjectIdentity p \<noteq> semd_ProjectIdentity (semr_Decision value) \<or>
                 semp_ProposalID p \<noteq> semd_ProposalID (semr_Decision value) \<or>
                 semp_Provenance p \<noteq> semd_Provenance (semr_Decision value))
               ''semantic result proposal does not match decision''])]"

section \<open>Experiences\<close>

definition previous_version_check :: "Experience \<Rightarrow> check" where
  "previous_version_check value = first_error
     [reject_if (xp_Version value = 1 \<and> xp_PreviousVersion value \<noteq> None)
        ''experience version one cannot have a previous version reference'',
      if 1 < xp_Version value then
        (case xp_PreviousVersion value of
           None \<Rightarrow> Some (Err ''later experience version requires a previous version reference'')
         | Some prev \<Rightarrow> first_error
             [wrap_error ''experience previous version'' (ExperienceRef_Validate prev),
              reject_if (xref_ExperienceID prev \<noteq> xp_ExperienceID value)
                ''previous version reference must use the same experience ID'',
              reject_if (xref_Version prev \<noteq> sub64 (xp_Version value) 1)
                ''previous version reference must identify exactly version-1''])
      else None]"

definition Experience_Validate :: "Experience \<Rightarrow> check" where
  "Experience_Validate value = first_error
     [reject_if (xp_SchemaVersion value \<noteq> ExperienceSchemaVersion)
        ''experience schema version is invalid'',
      validateIdentifier ''experience ID'' (xp_ExperienceID value),
      validateIdentifier ''experience origin candidate ID'' (xp_OriginCandidateID value),
      reject_if (xp_Version value < 1) ''experience version must be positive'',
      reject_if (\<not> ExperienceType_Valid (xp_Type value)) ''experience type is invalid'',
      Scope_Validate (xp_Scope value),
      Applicability_Validate (xp_Applicability value),
      Guidance_Validate (xp_Guidance value),
      Verifier_Validate (xp_Verifier value),
      wrap_error ''experience evidence'' (EvidenceSet_Validate (xp_Evidence value)),
      reject_if (maxListItems < length (xp_EpisodeRefs value))
        ''experience episode references exceed item limit'',
      check_each (validateIdentifier ''experience episode reference'') (xp_EpisodeRefs value),
      wrap_error ''experience provenance'' (Provenance_Validate (xp_Provenance value)),
      Governance_Validate (xp_ContentHash value) (xp_Governance value),
      reject_if (IsZero (xp_CreatedAt value)) ''experience created_at is required'',
      previous_version_check value,
      id_mismatch (xp_ContentHash value) (Experience_CanonicalContentHash value)
        ''experience content hash does not match canonical content'',
      reject_if (TrimSpace (prov_SourceCandidateID (xp_Provenance value)) = [])
        ''experience provenance requires a source candidate ID'',
      reject_if (xp_Version value = 1 \<and>
          prov_SourceCandidateID (xp_Provenance value) \<noteq> xp_OriginCandidateID value)
        ''experience version one source candidate must match origin candidate'',
      (case DeriveExperienceID (scope_ProjectIdentity (xp_Scope value)) (xp_OriginCandidateID value) of
         None \<Rightarrow> Some (Panic ''json.Marshal failed'')
       | Some wantID \<Rightarrow> reject_if (xp_ExperienceID value \<noteq> wantID)
           ''experience ID does not match origin candidate''),
      (case gov_Approval (xp_Governance value) of
         None \<Rightarrow> Some (Panic ''nil pointer dereference'')
       | Some approval \<Rightarrow> reject_if
           (apr_CandidateID approval \<noteq> prov_SourceCandidateID (xp_Provenance value))
           ''approval candidate must match version provenance source candidate'')]"

section \<open>Measurements, transitions, applications, evaluations\<close>

definition ExperienceMeasurement_Validate :: "ExperienceMeasurement \<Rightarrow> check" where
  "ExperienceMeasurement_Validate value = first_error
     [ExperienceRef_Validate (meas_Experience value),
      reject_if (meas_Opportunities value < 0 \<or> meas_Deliveries value < 0 \<or> meas_Satisfied value < 0 \<or>
          meas_Violated value < 0 \<or> meas_Unknown value < 0 \<or> meas_ExplicitCorrections value < 0)
        ''experience measurements cannot be negative'',
      optional_zero (meas_LastAppliedAt value) ''measurement last_applied_at cannot be zero'',
      optional_zero (meas_LastValidatedAt value) ''measurement last_validated_at cannot be zero'']"

fun ValidLifecycleTransition :: "LifecycleState \<Rightarrow> LifecycleState \<Rightarrow> bool" where
  "ValidLifecycleTransition LifecycleApproved to \<longleftrightarrow>
     to = LifecycleActive \<or> to = LifecyclePaused \<or> to = LifecycleSuperseded \<or> to = LifecycleExpired"
| "ValidLifecycleTransition LifecycleActive to \<longleftrightarrow>
     to = LifecyclePaused \<or> to = LifecycleContradicted \<or> to = LifecycleSuperseded \<or> to = LifecycleExpired"
| "ValidLifecycleTransition LifecyclePaused to \<longleftrightarrow>
     to = LifecycleActive \<or> to = LifecycleContradicted \<or> to = LifecycleSuperseded \<or> to = LifecycleExpired"
| "ValidLifecycleTransition LifecycleContradicted to \<longleftrightarrow>
     to = LifecycleActive \<or> to = LifecyclePaused \<or> to = LifecycleSuperseded"
| "ValidLifecycleTransition _ to = False"

text \<open>The states in the message are quoted without the escapes of \<open>%q\<close>.\<close>

definition LifecycleTransition_Validate :: "LifecycleTransition \<Rightarrow> check" where
  "LifecycleTransition_Validate value = first_error
     [ExperienceRef_Validate (lt_Experience value),
      reject_if (\<not> ValidLifecycleTransition (lt_FromState value) (lt_ToState value))
        (''lifecycle transition '' @ [CHR 0x22] @ LifecycleState_text (lt_FromState value) @
         [CHR 0x22] @ '' to '' @ [CHR 0x22] @ LifecycleState_text (lt_ToState value) @ [CHR 0x22] @
         '' is invalid''),
      validateIdentifier ''transition reason code'' (lt_ReasonCode value),
      reject_if (\<not> TransitionActorKind_Valid (lt_ActorKind value)) ''transition actor kind is invalid'',
      validateIdentifier ''transition actor ID'' (lt_ActorID value),
      reject_if (IsZero (lt_OccurredAt value)) ''transition occurred_at is required'',
      check_each EvidenceRef_Validate (lt_SourceEvidence value),
      id_mismatch (lt_TransitionID value) (LifecycleTransition_DeterministicID value)
        ''transition ID does not match deterministic content'']"

definition Application_Validate :: "Application \<Rightarrow> check" where
  "Application_Validate value = first_error
     [reject_if (app_SchemaVersion value \<noteq> ApplicationSchemaVersion)
        ''application schema version is invalid'',
      ExperienceRef_Validate (app_Experience value),
      validateIdentifier ''application project identity'' (app_ProjectIdentity value),
      reject_if (\<not> DeliveryKind_Valid (app_DeliveryKind value) \<or>
          \<not> DeliveryState_Valid (app_DeliveryState value))
        ''application delivery kind or state is invalid'',
      reject_if (\<not> OpportunityState_Valid (app_OpportunityState value) \<or>
          \<not> ApplicabilityState_Valid (app_ApplicabilityState value) \<or>
          \<not> VerifierState_Valid (app_VerifierState value) \<or>
          \<not> TaskOutcomeState_Valid (app_TaskOutcomeState value))
        ''application evaluation state is invalid'',
      if app_DeliveryState value = DeliveryDelivered then first_error
        [reject_if (case app_DeliveredAt value of None \<Rightarrow> True | Some t \<Rightarrow> IsZero t)
           ''delivered application requires delivered_at'',
         validateIdentifier ''application session key'' (app_SessionKey value)]
      else reject_if (app_DeliveredAt value \<noteq> None)
        ''non-delivered application cannot include delivered_at'',
      check_each EvidenceRef_Validate (app_SourceEvidence value),
      id_mismatch (app_ApplicationID value) (Application_DeterministicID value)
        ''application ID does not match deterministic content'']"

definition Evaluation_Validate :: "Evaluation \<Rightarrow> check" where
  "Evaluation_Validate value = first_error
     [reject_if (evl_SchemaVersion value \<noteq> EvaluationSchemaVersion)
        ''evaluation schema version is invalid'',
      validateIdentifier ''evaluation application ID'' (evl_ApplicationID value),
      ExperienceRef_Validate (evl_Experience value),
      reject_if (IsZero (evl_EvaluatedAt value)) ''evaluation evaluated_at is required'',
      reject_if (\<not> OpportunityState_Valid (evl_OpportunityState value) \<or>
          \<not> ApplicabilityState_Valid (evl_ApplicabilityState value) \<or>
          \<not> VerifierState_Valid (evl_VerifierState value) \<or>
          \<not> TaskOutcomeState_Valid (evl_TaskOutcomeState value)) ''evaluation state is invalid'',
      reject_if (maxListItems < length (evl_Coverage value) \<or>
          evl_Coverage value = [] \<and> evl_VerifierState value \<noteq> VerifierUnknown)
        ''evaluation coverage is required unless verifier state is unknown, and is bounded'',
      check_each (\<lambda>requirement. reject_if (\<not> CoverageRequirement_Valid requirement)
        ''evaluation coverage requirement is invalid'') (evl_Coverage value),
      reject_if (evl_SourceEvidence value = [] \<or> maxListItems < length (evl_SourceEvidence value))
        ''evaluation source evidence is required and bounded'',
      check_each EvidenceRef_Validate (evl_SourceEvidence value),
      validateIdentifier ''evaluation derivation version'' (evl_DerivationVersion value),
      id_mismatch (evl_EvaluationID value) (Evaluation_DeterministicID value)
        ''evaluation ID does not match deterministic content'']"

end
