(* ===== verification/Lifecycle.thy ===== *)
theory Lifecycle
  imports Validate
begin

text \<open>
  The lifecycle of an approved experience: \<open>internal/experience/lifecycle.go\<close> (user actions and the
  claims of an action token) over the transition table \<open>ValidLifecycleTransition\<close> of \<open>validate.go\<close>.
\<close>

section \<open>Actions\<close>

text \<open>The zero state \<open>""\<close> that the methods return beside \<open>false\<close>.\<close>

definition no_state :: LifecycleState where
  "no_state = LifecycleState_other []"

fun LifecycleAction_States :: "LifecycleAction \<Rightarrow> LifecycleState \<times> LifecycleState \<times> bool" where
  "LifecycleAction_States LifecycleActionActivate = (LifecycleApproved, LifecycleActive, True)"
| "LifecycleAction_States LifecycleActionPause = (LifecycleActive, LifecyclePaused, True)"
| "LifecycleAction_States _ = (no_state, no_state, False)"

fun TransitionFrom :: "LifecycleAction \<Rightarrow> LifecycleState \<Rightarrow> LifecycleState \<times> bool" where
  "TransitionFrom LifecycleActionActivate current = (LifecycleActive, current = LifecycleApproved)"
| "TransitionFrom LifecycleActionPause current = (LifecyclePaused, current = LifecycleActive)"
| "TransitionFrom LifecycleActionSupersede current =
     (LifecycleSuperseded, ValidLifecycleTransition current LifecycleSuperseded)"
| "TransitionFrom LifecycleActionExpire current =
     (LifecycleExpired, ValidLifecycleTransition current LifecycleExpired)"
| "TransitionFrom (LifecycleAction_other s) current = (no_state, False)"

fun_cases TransitionFromE: "TransitionFrom a s = (t, True)"

section \<open>Action tokens\<close>

definition LifecycleActionTokenVersion :: string where
  "LifecycleActionTokenVersion = ''belay.experience-lifecycle-token.v1''"

record LifecycleActionTokenClaims =
  ltc_Version :: string
  ltc_Action :: LifecycleAction
  ltc_Experience :: ExperienceRef
  ltc_ProjectIdentity :: string
  ltc_CurrentLifecycle :: LifecycleState
  ltc_ContentHash :: string
  ltc_IssuedAt :: gotime
  ltc_ExpiresAt :: gotime

definition LifecycleActionTokenClaims_Validate :: "LifecycleActionTokenClaims \<Rightarrow> check" where
  "LifecycleActionTokenClaims_Validate value = first_error
     [reject_if (ltc_Version value \<noteq> LifecycleActionTokenVersion)
        ''experience lifecycle token version is invalid'',
      ExperienceRef_Validate (ltc_Experience value),
      validateIdentifier ''experience lifecycle project identity'' (ltc_ProjectIdentity value),
      reject_if (\<not> LifecycleAction_Valid (ltc_Action value)) ''experience lifecycle action is invalid'',
      reject_if (\<not> snd (TransitionFrom (ltc_Action value) (ltc_CurrentLifecycle value)))
        ''experience lifecycle action does not match current state'',
      reject_if (\<not> validSHA256 (ltc_ContentHash value))
        ''experience lifecycle content hash must be sha256'',
      reject_if (IsZero (ltc_IssuedAt value) \<or> IsZero (ltc_ExpiresAt value) \<or>
          \<not> After (ltc_ExpiresAt value) (ltc_IssuedAt value))
        ''experience lifecycle token time window is invalid'']"

section \<open>The state machine\<close>

inductive lifecycle_step :: "LifecycleState \<Rightarrow> LifecycleState \<Rightarrow> bool" where
  step: "ValidLifecycleTransition s t \<Longrightarrow> lifecycle_step s t"

inductive user_step :: "LifecycleState \<Rightarrow> LifecycleState \<Rightarrow> bool" where
  act: "TransitionFrom a s = (t, True) \<Longrightarrow> user_step s t"

inductive_simps lifecycle_step_iff: "lifecycle_step s t"

inductive_cases user_stepE: "user_step s t"

text \<open>
  A machine with a start state and an invariant its steps keep: the invariant holds in every
  reachable state, and a state without steps is final.
\<close>

locale guarded_machine =
  fixes start :: 's
    and step :: "'s \<Rightarrow> 's \<Rightarrow> bool"
    and inv :: "'s \<Rightarrow> bool"
  assumes inv_start: "inv start"
    and inv_step: "inv s \<Longrightarrow> step s t \<Longrightarrow> inv t"
begin

lemma inv_run: "step\<^sup>*\<^sup>* s t \<Longrightarrow> inv s \<Longrightarrow> inv t"
  by (induction rule: rtranclp_induct) (auto intro: inv_step)

lemma inv_reachable: "step\<^sup>*\<^sup>* start t \<Longrightarrow> inv t"
  using inv_run inv_start by blast

lemma final_run:
  assumes "step\<^sup>*\<^sup>* s t" and "\<And>u. \<not> step s u"
  shows "t = s"
  using assms by (metis converse_rtranclpE)

end

lemma valid_transition_immutable: "ValidLifecycleTransition s t \<Longrightarrow> immutable_state s \<and> immutable_state t"
  by (cases s) auto

lemma user_step_valid: "user_step s t \<Longrightarrow> lifecycle_step s t"
  by (auto elim!: user_stepE TransitionFromE intro: lifecycle_step.intros)

interpretation lifecycle: guarded_machine LifecycleApproved lifecycle_step immutable_state
  by unfold_locales (auto simp: lifecycle_step_iff dest: valid_transition_immutable)

text \<open>Once paused, contradicted or ended, an experience is never active again by user actions alone.\<close>

fun left_active :: "LifecycleState \<Rightarrow> bool" where
  "left_active LifecyclePaused = True"
| "left_active LifecycleContradicted = True"
| "left_active LifecycleSuperseded = True"
| "left_active LifecycleExpired = True"
| "left_active _ = False"

interpretation retired: guarded_machine LifecyclePaused user_step left_active
proof unfold_locales
  fix s t
  assume "left_active s" "user_step s t"
  then show "left_active t" by (cases s) (auto elim!: user_stepE TransitionFromE)
qed simp

text \<open>Every action a user can take on an experience is a legal lifecycle transition: when
  \<open>TransitionFrom\<close> accepts an action in a state, the state it leads to is one that
  \<open>ValidLifecycleTransition\<close> allows from there, and the action moves the experience to a different
  state.\<close>

theorem action_transition_legal:
  assumes "TransitionFrom action current = (target, True)"
  shows "ValidLifecycleTransition current target \<and> target \<noteq> current"
  using assms by (cases action; cases current) auto

theorem action_transition_legal_witness:
  "TransitionFrom LifecycleActionExpire LifecyclePaused = (LifecycleExpired, True) \<and>
   ValidLifecycleTransition LifecyclePaused LifecycleExpired"
  using action_transition_legal [of LifecycleActionExpire LifecyclePaused LifecycleExpired] by simp

text \<open>The states that \<open>Governance.Validate\<close> accepts for a persisted experience are exactly those
  the transition table can reach from \<open>approved\<close>: no other state is ever stored, and none of the
  accepted ones is dead.\<close>

theorem governed_states_are_reachable_states:
  "immutable_state s \<longleftrightarrow> lifecycle_step\<^sup>*\<^sup>* LifecycleApproved s"
proof
  assume "immutable_state s"
  then consider "s = LifecycleApproved" | "lifecycle_step LifecycleApproved s"
    | "s = LifecycleContradicted"
    by (cases s) (auto simp: lifecycle_step_iff)
  then show "lifecycle_step\<^sup>*\<^sup>* LifecycleApproved s"
  proof cases
    case 3
    have "lifecycle_step LifecycleApproved LifecycleActive" "lifecycle_step LifecycleActive s"
      using 3 by (simp_all add: lifecycle_step_iff)
    then show ?thesis by (meson r_into_rtranclp rtranclp.rtrancl_into_rtrancl)
  qed auto
qed (rule lifecycle.inv_reachable)

text \<open>Supersession and expiry are final and everything else can still be ended: a superseded or
  expired experience never changes state again, every other reachable state can be superseded, and
  no run ever returns to \<open>approved\<close>.\<close>

theorem ended_experiences_stay_ended:
  assumes "lifecycle_step\<^sup>*\<^sup>* LifecycleApproved s"
  shows "(s \<in> {LifecycleSuperseded, LifecycleExpired} \<longrightarrow> (\<forall>t. lifecycle_step\<^sup>*\<^sup>* s t \<longrightarrow> t = s)) \<and>
    (s \<notin> {LifecycleSuperseded, LifecycleExpired} \<longrightarrow> ValidLifecycleTransition s LifecycleSuperseded) \<and>
    \<not> lifecycle_step s LifecycleApproved"
proof (intro conjI impI allI)
  fix t
  assume "s \<in> {LifecycleSuperseded, LifecycleExpired}" "lifecycle_step\<^sup>*\<^sup>* s t"
  then show "t = s"
    by (intro lifecycle.final_run) (auto simp: lifecycle_step_iff)
next
  have "immutable_state s" using assms by (rule lifecycle.inv_reachable)
  moreover assume "s \<notin> {LifecycleSuperseded, LifecycleExpired}"
  ultimately show "ValidLifecycleTransition s LifecycleSuperseded" by (cases s) auto
next
  show "\<not> lifecycle_step s LifecycleApproved" by (cases s) (auto simp: lifecycle_step_iff)
qed

theorem ended_experiences_stay_ended_witness:
  "ValidLifecycleTransition LifecycleApproved LifecycleSuperseded \<and>
   \<not> lifecycle_step LifecycleApproved LifecycleApproved"
  using ended_experiences_stay_ended [of LifecycleApproved] by simp

text \<open>C40: User actions cannot revive an experience: although the transition table lets a paused
  experience become active again, no sequence of user actions (activate, pause, supersede, expire)
  takes a paused experience back to active.\<close>

theorem user_actions_never_reactivate:
  "ValidLifecycleTransition LifecyclePaused LifecycleActive \<and>
   \<not> user_step\<^sup>*\<^sup>* LifecyclePaused LifecycleActive"
proof
  show "\<not> user_step\<^sup>*\<^sup>* LifecyclePaused LifecycleActive"
    using retired.inv_reachable by fastforce
qed simp

lemma States_agree:
  "LifecycleAction_States action = (from, target, True) \<Longrightarrow>
     TransitionFrom action current = (target, current = from)"
  by (cases action) auto

lemma token_claims_action:
  assumes "LifecycleActionTokenClaims_Validate claims = None"
  shows "TransitionFrom (ltc_Action claims) (ltc_CurrentLifecycle claims) =
      (fst (TransitionFrom (ltc_Action claims) (ltc_CurrentLifecycle claims)), True)"
  using assms by (simp add: LifecycleActionTokenClaims_Validate_def check_simps prod_eq_iff)

end
