(* ===== verification/Samples.thy ===== *)
theory Samples
  imports Validate
begin

text \<open>
  Concrete contracts that validate, for the witnesses of the properties. Their identifiers and content
  hashes are defined as what the code computes for them.
\<close>

section \<open>Parts\<close>

definition day :: "int \<Rightarrow> gotime" where
  "day n = utc_at ((738000 + n) * 86400000000000)"

definition scope0 :: Scope where
  "scope0 = \<lparr>scope_Kind = ScopeProject, scope_ProjectIdentity = ''p'', scope_SessionKey = [],
     scope_RepositoryPaths = [], scope_TaskFamilies = [''api'', ''ui''], scope_Harnesses = [],
     scope_Models = []\<rparr>"

definition applicability0 :: Applicability where
  "applicability0 = \<lparr>appl_SemanticDescription = ''edits'', appl_DeterministicConditions = [],
     appl_Exclusions = [], appl_ExpiresAt = None\<rparr>"

definition guidance0 :: Guidance where
  "guidance0 = \<lparr>guid_Instruction = ''test'', guid_Rationale = ''why'', guid_Exceptions = [],
     guid_InterventionStrength = InterventionObserve\<rparr>"

definition no_verifier :: "VerifierKind \<Rightarrow> CoverageRequirement list \<Rightarrow> Verifier" where
  "no_verifier k cs = \<lparr>ver_Kind = k, ver_CoverageRequirements = cs, ver_Command = None, ver_File = None,
     ver_PathPattern = None, ver_VerificationAfterLastEdit = None, ver_NoRepeatFailure = None,
     ver_UserCorrectionAbsent = None, ver_ObservationOnly = None\<rparr>"

definition verifier_modified :: Verifier where
  "verifier_modified = (no_verifier VerifierFileModified [])\<lparr>ver_File := Some \<lparr>fvs_Path = ''a.go''\<rparr>\<rparr>"

definition verifier_untouched :: Verifier where
  "verifier_untouched = (no_verifier VerifierFileNotModified [CoverageCanonicalComplete])
     \<lparr>ver_File := Some \<lparr>fvs_Path = ''a.go''\<rparr>\<rparr>"

definition empty_ref :: "EvidenceSourceKind \<Rightarrow> EvidenceRef" where
  "empty_ref k = \<lparr>eref_Kind = k, eref_SessionKey = [], eref_TurnIndex = None,
     eref_TurnRole = EvidenceTurnRole_other [], eref_ToolName = [], eref_EventID = [],
     eref_OutcomeID = [], eref_Path = [], eref_SHA256 = [], eref_RecordedBy = [],
     eref_OccurredAt = None, eref_Excerpt = []\<rparr>"

definition event_ref :: "string \<Rightarrow> EvidenceRef" where
  "event_ref i = (empty_ref EvidenceCanonicalEvent)\<lparr>eref_EventID := i\<rparr>"

definition evidence0 :: EvidenceSet where
  "evidence0 =
     (let s = \<lparr>evs_EvidenceSetID = [], evs_Availability = EvidenceAvailable,
               evs_Refs = [event_ref ''e1'']\<rparr>
      in s\<lparr>evs_EvidenceSetID := the (EvidenceSet_DeterministicID s)\<rparr>)"

definition digest0 :: string where
  "digest0 = ''sha256:'' @ hex_encode (sha256 [])"

definition provenance0 :: Provenance where
  "provenance0 = \<lparr>prov_ExtractorVersion = ''x1'', prov_Harness = HarnessClaude, prov_Model = ''m'',
     prov_PromptVersion = ''belay.experience-prompt.v1'', prov_InputHash = digest0,
     prov_SourceCandidateID = ''exc_a'', prov_GeneratedAt = day 0\<rparr>"

definition proposal0 :: "Verifier \<Rightarrow> ExperienceProposal" where
  "proposal0 v = \<lparr>prop_Type = ExperiencePreference, prop_Scope = scope0,
     prop_Applicability = applicability0, prop_Guidance = guidance0, prop_Verifier = v,
     prop_EvidenceSupport = None, prop_Confidence = Some (Finite 1),
     prop_SemanticCompilationPending = False\<rparr>"

section \<open>Whole contracts\<close>

definition sprovenance0 :: SemanticProposalProvenance where
  "sprovenance0 = \<lparr>sprov_Harness = HarnessClaude, sprov_Model = ''m'',
     sprov_PromptVersion = ''belay.experience-prompt.v1'', sprov_InputHash = digest0,
     sprov_OutputHash = digest0, sprov_GeneratedAt = day 0\<rparr>"

definition semantic0 :: "Verifier \<Rightarrow> SemanticProposal" where
  "semantic0 v =
     (let s = \<lparr>semp_SchemaVersion = SemanticProposalSchemaVersion, semp_ProposalID = [],
               semp_CandidateID = ''exc_a'', semp_ProjectIdentity = ''p'', semp_Proposal = proposal0 v,
               semp_Provenance = sprovenance0, semp_Authority = AuthorityNone\<rparr>
      in s\<lparr>semp_ProposalID := the (SemanticProposal_DeterministicID s)\<rparr>)"

definition content0 :: "Verifier \<Rightarrow> string" where
  "content0 v = the (ExperienceProposal_CanonicalContentHash (proposal0 v))"

definition candidate0 :: "EvidenceRef list \<Rightarrow> Candidate" where
  "candidate0 refs =
     (let s = \<lparr>evs_EvidenceSetID = [], evs_Availability = EvidenceAvailable, evs_Refs = refs\<rparr>;
          c = \<lparr>cand_SchemaVersion = CandidateSchemaVersion, cand_CandidateID = [],
               cand_Family = CandidateCorrection, cand_ProjectIdentity = ''p'',
               cand_ObservedBehavior = ''b'', cand_UserFeedback = ''f'',
               cand_Evidence = s\<lparr>evs_EvidenceSetID := the (EvidenceSet_DeterministicID s)\<rparr>,
               cand_OutcomeRefs = [], cand_EpisodeRefs = [], cand_ExistingRefs = [],
               cand_Proposal = (proposal0 verifier_modified)\<lparr>prop_Confidence := None,
                 prop_SemanticCompilationPending := True\<rparr>,
               cand_Provenance = provenance0\<lparr>prov_Harness := Harness_other [], prov_Model := [],
                 prov_PromptVersion := []\<rparr>,
               cand_Authority = AuthorityNone, cand_LifecycleState = LifecycleCandidate,
               cand_CreatedAt = day 0\<rparr>
      in c\<lparr>cand_CandidateID := the (Candidate_DeterministicID c)\<rparr>)"

text \<open>The candidate the sample experience comes from.\<close>

definition origin0 :: string where
  "origin0 = cand_CandidateID (candidate0 [event_ref ''e1''])"

definition approval0 :: "Verifier \<Rightarrow> ApprovalProvenance" where
  "approval0 v = \<lparr>apr_ApprovedBy = ''u'', apr_ApprovedAt = day 1, apr_Mode = ApprovalAsProposed,
     apr_CandidateID = origin0, apr_ProposedContentHash = content0 v,
     apr_ApprovedContentHash = content0 v\<rparr>"

definition experience0 :: "Verifier \<Rightarrow> Experience" where
  "experience0 v = \<lparr>xp_SchemaVersion = ExperienceSchemaVersion,
     xp_ExperienceID = the (DeriveExperienceID ''p'' origin0), xp_OriginCandidateID = origin0,
     xp_Version = 1, xp_Type = ExperiencePreference, xp_Scope = scope0,
     xp_Applicability = applicability0, xp_Guidance = guidance0, xp_Verifier = v,
     xp_Evidence = evidence0, xp_EpisodeRefs = [], xp_Provenance = provenance0\<lparr>prov_SourceCandidateID := origin0\<rparr>,
     xp_Governance = \<lparr>gov_LifecycleState = LifecycleApproved, gov_Authority = AuthorityUserApproved,
       gov_Approval = Some (approval0 v), gov_StateReason = []\<rparr>,
     xp_ContentHash = content0 v, xp_PreviousVersion = None, xp_CreatedAt = day 1\<rparr>"

definition transition0 ::
  "ExperienceRef \<Rightarrow> LifecycleState \<Rightarrow> LifecycleState \<Rightarrow> gotime \<Rightarrow> LifecycleTransition" where
  "transition0 ref old new time =
     (let t = \<lparr>lt_TransitionID = [], lt_Experience = ref, lt_FromState = old, lt_ToState = new,
               lt_ReasonCode = ''user_action'', lt_ActorKind = ActorUser, lt_ActorID = ''u'',
               lt_OccurredAt = time, lt_SourceEvidence = []\<rparr>
      in t\<lparr>lt_TransitionID := the (LifecycleTransition_DeterministicID t)\<rparr>)"

section \<open>They validate\<close>

lemma day_nonzero [simp]: "IsZero (day n) \<longleftrightarrow> n = - 738000"
  by (auto simp: day_def IsZero_def utc_at_def)

lemma day_json [simp]: "json_time_ok (day 0)" "json_time_ok (day 1)" "json_time_ok (day 2)"
  by code_simp+

lemma visible_small [simp]:
  "visible ''p''" "visible ''api''" "visible ''ui''" "visible ''edits''" "visible ''test''"
  "visible ''why''" "visible ''a.go''" "visible ''e1''" "visible ''e2''" "visible ''x1''" "visible ''m''"
  "visible ''belay.experience-prompt.v1''" "visible ''exc_a''" "visible ''u''" "visible ''b''"
  "visible ''f''" "visible ''user_action''" "visible ''exs_''" "visible ''exp_''" "visible ''evs_''"
  "visible ''exc_''" "visible ''ext_''"
  by code_simp+

lemma computed_id:
  assumes "json_ok j"
  shows "deterministicID pre j = Some (the (deterministicID pre j))"
    and "is_identifier_of pre (the (deterministicID pre j))"
    and "the (deterministicID pre j) \<noteq> []"
proof -
  obtain i where i: "deterministicID pre j = Some i" using deterministicID_exists [of pre j] assms by blast
  then have s: "is_identifier_of pre i" by (rule deterministicID_shape)
  then have "i \<noteq> []" by (auto simp: is_identifier_of_def)
  with i s show "deterministicID pre j = Some (the (deterministicID pre j))"
    "is_identifier_of pre (the (deterministicID pre j))" "the (deterministicID pre j) \<noteq> []"
    by simp_all
qed

lemma scope0_valid [simp]: "Scope_Validate scope0 = None"
  by (simp add: Scope_Validate_def scope0_def check_simps limit_defs check_each_def)


lemma parts_valid [simp]:
  "Applicability_Validate applicability0 = None" "Guidance_Validate guidance0 = None"
  by (simp_all add: Applicability_Validate_def applicability0_def check_simps limit_defs check_each_def
      Guidance_Validate_def guidance0_def)

lemma small_path [simp]: "validateRelativePath ''a.go'' = None"
proof -
  have "path_Clean ''a.go'' = ''a.go''" "\<not> ContainsAny ''a.go'' ''*?[]{}''" by code_simp+
  then show ?thesis by (simp add: validateRelativePath_def check_simps limit_defs)
qed

lemma verifiers_valid [simp]:
  "Verifier_Validate verifier_modified = None" "Verifier_Validate verifier_untouched = None"
  by (simp_all add: Verifier_Validate_def verifier_modified_def verifier_untouched_def no_verifier_def
      check_simps limit_defs check_each_def spec_count_def require_spec_def FileVerifierSpec_Validate_def)

lemma digest0_valid [simp]: "validSHA256 digest0"
  unfolding validSHA256_iff digest0_def by (rule exI [of _ "sha256 []"]) simp

lemma event_ref_valid [simp]:
  "visible i \<Longrightarrow> i \<noteq> [] \<Longrightarrow> length i \<le> 256 \<Longrightarrow> EvidenceRef_Validate (event_ref i) = None"
  by (simp add: EvidenceRef_Validate_def event_ref_def empty_ref_def check_simps eref_no_turn_def)

lemma times_ok_no_time: "\<forall>r \<in> set rs. eref_OccurredAt r = None \<Longrightarrow> times_ok rs"
  by (simp add: times_ok_def)

lemma event_ref_time [simp]: "eref_OccurredAt (event_ref i) = None"
  by (simp add: event_ref_def empty_ref_def)

lemma json_ok_evidence:
  "times_ok rs \<Longrightarrow> json_ok (nil_array (map EvidenceRef_json (normalizedEvidenceRefs rs)))"
  using json_ok_normalizedEvidenceRefs [of rs] by (auto simp: nil_array_def)

definition evidence_set :: "EvidenceRef list \<Rightarrow> EvidenceSet" where
  "evidence_set refs =
     (let s = \<lparr>evs_EvidenceSetID = [], evs_Availability = EvidenceAvailable, evs_Refs = refs\<rparr>
      in s\<lparr>evs_EvidenceSetID := the (EvidenceSet_DeterministicID s)\<rparr>)"

lemma evidence_set_valid:
  assumes "times_ok refs" "refs \<noteq> []" "length refs \<le> 128" "\<forall>r \<in> set refs. EvidenceRef_Validate r = None"
  shows "EvidenceSet_Validate (evidence_set refs) = None"
proof -
  let ?j = "JObj [(''Availability'', JStr (EvidenceAvailability_text EvidenceAvailable)),
      (''Refs'', nil_array (map EvidenceRef_json (normalizedEvidenceRefs refs)))]"
  have "json_ok ?j" using json_ok_evidence [OF assms(1)] by simp
  note id = computed_id [OF this, of "''evs_''"]
  have "EvidenceSet_DeterministicID (evidence_set refs) = deterministicID ''evs_'' ?j"
    "evs_EvidenceSetID (evidence_set refs) = the (deterministicID ''evs_'' ?j)"
    by (simp_all add: evidence_set_def Let_def EvidenceSet_DeterministicID_def)
  with assms id show ?thesis
    by (simp add: EvidenceSet_Validate_def check_simps limit_defs)
      (simp add: evidence_set_def Let_def)
qed

lemma evidence0_valid [simp]: "EvidenceSet_Validate evidence0 = None"
proof -
  have e: "evidence0 = evidence_set [event_ref ''e1'']"
    by (simp add: evidence0_def evidence_set_def)
  show ?thesis unfolding e by (rule evidence_set_valid) (simp_all add: times_ok_no_time)
qed

lemma provenance0_valid [simp]: "Provenance_Validate provenance0 = None"
  by (simp add: Provenance_Validate_def provenance0_def check_simps)

lemma proposal0_valid [simp]:
  "Verifier_Validate v = None \<Longrightarrow> ExperienceProposal_Validate (proposal0 v) = None"
  by (simp add: ExperienceProposal_Validate_def proposal0_def check_simps)

lemma sprovenance0_valid [simp]: "SemanticProposalProvenance_Validate sprovenance0 = None"
  by (simp add: SemanticProposalProvenance_Validate_def sprovenance0_def check_simps
      SemanticProposalPromptVersions_def)

lemma proposal_json_ok [simp]:
  "json_ok (proposal_json p) \<longleftrightarrow> (\<forall>t. appl_ExpiresAt (prop_Applicability p) = Some t \<longrightarrow> json_time_ok t) \<and>
     (\<forall>c. prop_Confidence p = Some c \<longrightarrow> json_ok (JFloat c))"
  by (auto simp: proposal_json_def ball_Un normalizedApplicability_def)

lemma proposal0_selects [simp]:
  "prop_Scope (proposal0 v) = scope0" "prop_Verifier (proposal0 v) = v"
  "prop_Applicability (proposal0 v) = applicability0" "prop_Confidence (proposal0 v) = Some (Finite 1)"
  "prop_SemanticCompilationPending (proposal0 v) = False" "prop_Guidance (proposal0 v) = guidance0"
  "appl_ExpiresAt applicability0 = None" "scope_ProjectIdentity scope0 = ''p''"
  "prop_Type (proposal0 v) = ExperiencePreference" "prop_EvidenceSupport (proposal0 v) = None"
  by (simp_all add: proposal0_def applicability0_def scope0_def)

lemma semantic0_valid [simp]:
  assumes "Verifier_Validate v = None"
  shows "SemanticProposal_Validate (semantic0 v) = None"
proof -
  obtain j where j: "SemanticProposal_DeterministicID (semantic0 v) = deterministicID ''exs_'' j"
    "semp_ProposalID (semantic0 v) = the (deterministicID ''exs_'' j)" "json_ok j"
    by (simp add: semantic0_def Let_def SemanticProposal_DeterministicID_def)
  with assms computed_id [OF j(3), of "''exs_''"] show ?thesis
    by (simp add: SemanticProposal_Validate_def check_simps)
      (simp add: semantic0_def Let_def)
qed


lemma content0_hash:
  "ExperienceProposal_CanonicalContentHash (proposal0 v) = Some (content0 v)"
  "validSHA256 (content0 v)" "content0 v \<noteq> []"
proof -
  have "json_ok (content_payload ExperiencePreference scope0 applicability0 guidance0 v)" by simp
  then obtain h where h: "contentHash (content_payload ExperiencePreference scope0 applicability0 guidance0 v) = Some h"
    using contentHash_exists by blast
  then show "ExperienceProposal_CanonicalContentHash (proposal0 v) = Some (content0 v)"
    by (simp add: content0_def ExperienceProposal_CanonicalContentHash_def)
  from h show "validSHA256 (content0 v)"
    by (simp add: content0_def ExperienceProposal_CanonicalContentHash_def contentHash_valid)
  then show "content0 v \<noteq> []" by (rule validSHA256_not_Nil)
qed

lemma experience_id_ok: "is_identifier_of ''exp_'' (the (DeriveExperienceID p c))"
  "DeriveExperienceID p c = Some (the (DeriveExperienceID p c))"
  unfolding DeriveExperienceID_def by (rule computed_id, simp)+

lemma experience_id_valid [simp]:
  "validateIdentifier name (the (DeriveExperienceID p c)) = None"
  by (rule identifier_valid [OF experience_id_ok(1)]) simp_all

lemma pending_proposal_valid:
  "ExperienceProposal_Validate ((proposal0 verifier_modified)
     \<lparr>prop_Confidence := None, prop_SemanticCompilationPending := True\<rparr>) = None"
  by (simp add: ExperienceProposal_Validate_def check_simps)

lemma pending_provenance_valid:
  "Provenance_Validate (provenance0\<lparr>prov_Harness := Harness_other [], prov_Model := [],
     prov_PromptVersion := []\<rparr>) = None"
  by (simp add: Provenance_Validate_def provenance0_def check_simps)

lemma guidance0_observe [simp]: "guid_InterventionStrength guidance0 = InterventionObserve"
  by (simp add: guidance0_def)

lemma candidate0_valid [simp]:
  assumes "times_ok refs" "refs \<noteq> []" "length refs \<le> 128" "\<forall>r \<in> set refs. EvidenceRef_Validate r = None"
  shows "Candidate_Validate (candidate0 refs) = None"
proof -
  obtain j where j: "Candidate_DeterministicID (candidate0 refs) = deterministicID ''exc_'' j"
    "cand_CandidateID (candidate0 refs) = the (deterministicID ''exc_'' j)" "json_ok j"
    using json_ok_evidence [OF assms(1)]
    by (simp add: candidate0_def Let_def Candidate_DeterministicID_def Candidate_payload_def)
  have e: "cand_Evidence (candidate0 refs) = evidence_set refs"
    by (simp add: candidate0_def Let_def evidence_set_def)
  show ?thesis
    using evidence_set_valid [OF assms] j computed_id [OF j(3), of "''exc_''"]
    by (simp add: Candidate_Validate_def check_simps limit_defs e)
      (simp add: candidate0_def Let_def pending_proposal_valid pending_provenance_valid)
qed

lemma candidate0_id:
  assumes "times_ok refs"
  shows "is_identifier_of ''exc_'' (cand_CandidateID (candidate0 refs))"
proof -
  obtain j where "cand_CandidateID (candidate0 refs) = the (deterministicID ''exc_'' j)" "json_ok j"
    using json_ok_evidence [OF assms]
    by (simp add: candidate0_def Let_def Candidate_DeterministicID_def Candidate_payload_def)
  then show ?thesis by (simp add: computed_id(2))
qed

lemma origin0_valid [simp]: "validateIdentifier name origin0 = None"
  unfolding origin0_def
  by (rule identifier_valid [OF candidate0_id]) (simp_all add: times_ok_no_time)

lemma origin0_text [simp]: "TrimSpace origin0 \<noteq> []" "origin0 \<noteq> []"
  using origin0_valid [of "[]"] by (auto simp: validateIdentifier_def check_simps simp del: origin0_valid)

lemma origin_provenance_valid [simp]:
  "Provenance_Validate (provenance0\<lparr>prov_SourceCandidateID := origin0\<rparr>) = None"
  by (simp add: Provenance_Validate_def provenance0_def check_simps)

lemma experience0_selects [simp]:
  "xp_SchemaVersion (experience0 v) = ExperienceSchemaVersion"
  "xp_OriginCandidateID (experience0 v) = origin0" "xp_Version (experience0 v) = 1"
  "xp_ExperienceID (experience0 v) = the (DeriveExperienceID ''p'' origin0)"
  "xp_Type (experience0 v) = ExperiencePreference" "xp_Scope (experience0 v) = scope0"
  "xp_Applicability (experience0 v) = applicability0" "xp_Guidance (experience0 v) = guidance0"
  "xp_Verifier (experience0 v) = v" "xp_Evidence (experience0 v) = evidence0"
  "xp_EpisodeRefs (experience0 v) = []" "xp_Provenance (experience0 v) = provenance0\<lparr>prov_SourceCandidateID := origin0\<rparr>"
  "gov_LifecycleState (xp_Governance (experience0 v)) = LifecycleApproved"
  "gov_Authority (xp_Governance (experience0 v)) = AuthorityUserApproved"
  "gov_Approval (xp_Governance (experience0 v)) = Some (approval0 v)"
  "xp_ContentHash (experience0 v) = content0 v" "xp_PreviousVersion (experience0 v) = None"
  "xp_CreatedAt (experience0 v) = day 1"
  "apr_CandidateID (approval0 v) = origin0"
  by (simp_all add: experience0_def provenance0_def approval0_def)

lemma approval0_valid [simp]: "ApprovalProvenance_Validate (content0 v) (approval0 v) = None"
  by (simp add: approval0_def ApprovalProvenance_Validate_def check_simps content0_hash(2))

lemma experience0_valid [simp]:
  assumes "Verifier_Validate v = None"
  shows "Experience_Validate (experience0 v) = None"
proof -
  have "Experience_CanonicalContentHash (experience0 v) = Some (content0 v)"
    using content0_hash(1) [of v]
    by (simp add: Experience_CanonicalContentHash_def proposal0_def
        ExperienceProposal_CanonicalContentHash_def)
  moreover have "Governance_Validate (content0 v) (xp_Governance (experience0 v)) = None"
    by (simp add: Governance_Validate_def check_simps)
  moreover have "previous_version_check (experience0 v) = None"
    by (simp add: previous_version_check_def check_simps)
  moreover have "DeriveExperienceID ''p'' origin0 = Some (the (DeriveExperienceID ''p'' origin0))"
    by (rule experience_id_ok(2))
  ultimately show ?thesis
    unfolding Experience_Validate_def
    using assms content0_hash(3) [of v]
    by (auto simp: check_simps limit_defs split: option.splits)
qed

lemma transition0_valid [simp]:
  assumes "ExperienceRef_Validate r = None" "ValidLifecycleTransition s t" "\<not> IsZero u" "json_time_ok u"
  shows "LifecycleTransition_Validate (transition0 r s t u) = None"
proof -
  obtain j where j: "LifecycleTransition_DeterministicID (transition0 r s t u) = deterministicID ''ext_'' j"
    "lt_TransitionID (transition0 r s t u) = the (deterministicID ''ext_'' j)" "json_ok j"
    using assms(4) json_ok_evidence [of "[]"]
    by (simp add: transition0_def Let_def LifecycleTransition_DeterministicID_def times_ok_def)
  with assms computed_id [OF j(3), of "''ext_''"] show ?thesis
    by (simp add: LifecycleTransition_Validate_def check_simps)
      (simp add: transition0_def Let_def)
qed

end
