(* ===== verification/Contracts.thy ===== *)
theory Contracts
  imports Samples
begin

text \<open>
  What acceptance by a \<open>Validate\<close> method guarantees to the code that runs after it.
\<close>

section \<open>Verifiers\<close>

text \<open>Which of the seven specifications are present, and the only ones a kind allows.\<close>

definition specs_present :: "Verifier \<Rightarrow> bool list" where
  "specs_present v =
     [ver_Command v \<noteq> None, ver_File v \<noteq> None, ver_PathPattern v \<noteq> None,
      ver_VerificationAfterLastEdit v \<noteq> None, ver_NoRepeatFailure v \<noteq> None,
      ver_UserCorrectionAbsent v \<noteq> None, ver_ObservationOnly v \<noteq> None]"

fun spec_slot :: "VerifierKind \<Rightarrow> nat" where
  "spec_slot VerifierCommandObserved = 0"
| "spec_slot VerifierCommandSucceeded = 0"
| "spec_slot VerifierFileNotModified = 1"
| "spec_slot VerifierFileModified = 1"
| "spec_slot VerifierPathPatternNotModified = 2"
| "spec_slot VerifierVerificationAfterLastEdit = 3"
| "spec_slot VerifierNoRepeatFailure = 4"
| "spec_slot VerifierUserCorrectionAbsent = 5"
| "spec_slot VerifierObservationOnly = 6"
| "spec_slot (VerifierKind_other s) = 7"

definition has_its_spec :: "Verifier \<Rightarrow> bool" where
  "has_its_spec v \<longleftrightarrow> VerifierKind_Valid (ver_Kind v) \<and>
     specs_present v = (replicate 7 False)[spec_slot (ver_Kind v) := True]"

lemma one_present:
  "length (filter (\<lambda>b. b) bs) = 1 \<Longrightarrow> i < length bs \<Longrightarrow> bs ! i \<Longrightarrow>
     bs = (replicate (length bs) False)[i := True]"
proof (induction bs arbitrary: i)
  case (Cons b bs)
  show ?case
  proof (cases i)
    case 0
    with Cons.prems have "b" "filter (\<lambda>b. b) bs = []" by auto
    then have "\<forall>c \<in> set bs. \<not> c" by (simp add: filter_empty_conv)
    then have "bs = replicate (length bs) False" by (induction bs) auto
    with 0 \<open>b\<close> show ?thesis by simp
  next
    case (Suc k)
    with Cons.prems have k: "k < length bs" "bs ! k" by simp_all
    then have "filter (\<lambda>b. b) bs \<noteq> []" by (metis filter_empty_conv nth_mem)
    with Cons.prems(1) have "\<not> b" "length (filter (\<lambda>b. b) bs) = 1"
      by (cases b; cases "filter (\<lambda>b. b) bs"; simp)+
    with Cons.IH [of k] k Suc show ?thesis by simp
  qed
qed simp

lemma verifier_valid_spec:
  assumes "Verifier_Validate v = None"
  shows "has_its_spec v"
proof -
  from assms have k: "VerifierKind_Valid (ver_Kind v)"
    and one: "length (filter (\<lambda>b. b) (specs_present v)) = 1"
    and sc: "Verifier_spec_check (ver_Kind v) v = None"
    by (simp_all only: Verifier_Validate_def check_simps spec_count_def specs_present_def not_not)
  have "spec_slot (ver_Kind v) < length (specs_present v) \<and> specs_present v ! spec_slot (ver_Kind v)"
    using k sc by (cases "ver_Kind v")
      (auto simp: specs_present_def require_spec_def split: option.splits)
  with one have "specs_present v = (replicate (length (specs_present v)) False)
      [spec_slot (ver_Kind v) := True]"
    by (intro one_present) simp_all
  moreover have "length (specs_present v) = 7" by (simp add: specs_present_def)
  ultimately show ?thesis using k by (simp add: has_its_spec_def)
qed

lemma has_its_spec_cases:
  assumes "has_its_spec v"
  shows "ver_Kind v \<in> {VerifierCommandObserved, VerifierCommandSucceeded} \<Longrightarrow> ver_Command v \<noteq> None"
    "ver_Kind v \<in> {VerifierFileNotModified, VerifierFileModified} \<Longrightarrow> ver_File v \<noteq> None"
    "ver_Kind v = VerifierPathPatternNotModified \<Longrightarrow> ver_PathPattern v \<noteq> None"
    "ver_Kind v = VerifierVerificationAfterLastEdit \<Longrightarrow> ver_VerificationAfterLastEdit v \<noteq> None"
    "ver_Kind v = VerifierNoRepeatFailure \<Longrightarrow> ver_NoRepeatFailure v \<noteq> None"
    "ver_Kind v = VerifierUserCorrectionAbsent \<Longrightarrow> ver_UserCorrectionAbsent v \<noteq> None"
    "ver_Kind v = VerifierObservationOnly \<Longrightarrow> ver_ObservationOnly v \<noteq> None"
  using assms by (auto simp: has_its_spec_def specs_present_def eval_nat_numeral)

text \<open>C39: A verifier that validates carries exactly one typed specification, the one its kind needs,
  and a verifier that infers from the absence of facts declares the coverage it depends on. (The
  evaluator and the conflict preflight dereference that specification without a check.)\<close>

theorem valid_verifier_has_its_spec:
  assumes "Verifier_Validate v = None"
  shows "has_its_spec v \<and> (absenceBased (ver_Kind v) \<longrightarrow> ver_CoverageRequirements v \<noteq> [])"
  using verifier_valid_spec [OF assms] assms by (auto simp: Verifier_Validate_def check_simps)

theorem valid_verifier_has_its_spec_witness: "has_its_spec verifier_untouched"
  using valid_verifier_has_its_spec [of verifier_untouched] by simp

section \<open>Experiences\<close>

lemma experience_valid_parts:
  assumes "Experience_Validate x = None"
  shows "ExperienceRef_Validate (ExperienceRef (xp_ExperienceID x) (xp_Version x)) = None"
    and "Verifier_Validate (xp_Verifier x) = None"
    and "Scope_Validate (xp_Scope x) = None"
    and "immutable_state (gov_LifecycleState (xp_Governance x))"
    and "gov_Authority (xp_Governance x) = AuthorityUserApproved"
    and "\<exists>a. gov_Approval (xp_Governance x) = Some a \<and> apr_ApprovedContentHash a = xp_ContentHash x \<and>
      apr_CandidateID a = prov_SourceCandidateID (xp_Provenance x) \<and> \<not> IsZero (apr_ApprovedAt a)"
    and "Experience_CanonicalContentHash x = Some (xp_ContentHash x)"
    and "DeriveExperienceID (scope_ProjectIdentity (xp_Scope x)) (xp_OriginCandidateID x) =
      Some (xp_ExperienceID x)"
    and "previous_version_check x = None" and "1 \<le> xp_Version x"
  using assms
  by (auto simp: Experience_Validate_def check_simps ExperienceRef_Validate_def Governance_Validate_def
      ApprovalProvenance_Validate_def split: option.splits)

text \<open>C27: No experience without the user's approval of exactly this content. An experience that
  validates is user-approved, its content hash is the canonical hash of its own content, the approval
  record names that hash and the candidate the version came from, its ID is the one derived from the
  project and the origin candidate, and its version chain is version 1 without predecessor or version n
  with the reference (same ID, n - 1).\<close>

theorem valid_experience_is_bound_to_approval:
  assumes "Experience_Validate x = None" and "is_int64 (xp_Version x)"
  shows "gov_Authority (xp_Governance x) = AuthorityUserApproved \<and>
    Experience_CanonicalContentHash x = Some (xp_ContentHash x) \<and>
    (\<exists>a. gov_Approval (xp_Governance x) = Some a \<and> apr_ApprovedContentHash a = xp_ContentHash x \<and>
       apr_CandidateID a = prov_SourceCandidateID (xp_Provenance x)) \<and>
    DeriveExperienceID (scope_ProjectIdentity (xp_Scope x)) (xp_OriginCandidateID x) =
      Some (xp_ExperienceID x) \<and>
    xp_PreviousVersion x = (if xp_Version x = 1 then None
      else Some (ExperienceRef (xp_ExperienceID x) (xp_Version x - 1)))"
proof -
  note parts = experience_valid_parts [OF assms(1)]
  have "xp_PreviousVersion x = (if xp_Version x = 1 then None
      else Some (ExperienceRef (xp_ExperienceID x) (xp_Version x - 1)))"
  proof (cases "xp_Version x = 1")
    case True
    with parts(9) show ?thesis by (simp add: previous_version_check_def check_simps)
  next
    case False
    with parts(10) have "1 < xp_Version x" by simp
    moreover have "sub64 (xp_Version x) 1 = xp_Version x - 1"
      using parts(10) assms(2) by (intro sub64_exact) (simp_all add: is_int64_def)
    ultimately obtain r where "xp_PreviousVersion x = Some r" "xref_ExperienceID r = xp_ExperienceID x"
      "xref_Version r = xp_Version x - 1"
      using parts(9) by (auto simp: previous_version_check_def check_simps split: option.splits)
    with False show ?thesis by (cases r) simp
  qed
  with parts(5-8) show ?thesis by blast
qed

theorem valid_experience_is_bound_to_approval_witness:
  "Experience_CanonicalContentHash (experience0 verifier_modified) = Some (content0 verifier_modified)"
  using valid_experience_is_bound_to_approval [of "experience0 verifier_modified"]
  by (simp add: is_int64_def)

text \<open>The content hash is about the content alone: two experiences (or an experience and the
  proposal it was approved from) whose type, scope, applicability, guidance and verifier have the same
  normal forms have the same hash, whatever their identity, evidence, provenance or governance; the
  lifecycle can move on without invalidating the hash that was approved.\<close>

theorem content_hash_ignores_metadata:
  assumes "xp_Type x = xp_Type y" and "normalizedScope (xp_Scope x) = normalizedScope (xp_Scope y)"
    and "normalizedApplicability (xp_Applicability x) = normalizedApplicability (xp_Applicability y)"
    and "normalizedGuidance (xp_Guidance x) = normalizedGuidance (xp_Guidance y)"
    and "normalizedVerifier (xp_Verifier x) = normalizedVerifier (xp_Verifier y)"
  shows "Experience_CanonicalContentHash x = Experience_CanonicalContentHash y"
  using assms
  by (simp add: Experience_CanonicalContentHash_def ExperienceProposal_CanonicalContentHash_def
      content_payload_def)

theorem content_hash_ignores_metadata_witness:
  "Experience_CanonicalContentHash ((experience0 verifier_modified)
      \<lparr>xp_Scope := scope0\<lparr>scope_TaskFamilies := [''ui'', ''api'', ''ui'', []]\<rparr>,
       xp_Version := 7, xp_EpisodeRefs := [''z'']\<rparr>) =
    Experience_CanonicalContentHash (experience0 verifier_modified)"
proof (rule content_hash_ignores_metadata)
  have "normalizedStrings [''ui'', ''api'', ''ui'', []] = normalizedStrings [''api'', ''ui'']"
    by (auto simp: normalizedStrings_eq_iff)
  then show "normalizedScope (xp_Scope ((experience0 verifier_modified)
      \<lparr>xp_Scope := scope0\<lparr>scope_TaskFamilies := [''ui'', ''api'', ''ui'', []]\<rparr>,
       xp_Version := 7, xp_EpisodeRefs := [''z'']\<rparr>)) =
    normalizedScope (xp_Scope (experience0 verifier_modified))"
    by (simp add: normalizedScope_def scope0_def)
qed simp_all


section \<open>Candidates and semantic results carry no authority\<close>

text \<open>A learned candidate is never an instruction. A candidate that validates has authority
  \<open>none\<close> and a lifecycle state that no experience can have or reach; its guidance is never
  \<open>deny\<close>; while its semantic compilation is pending it can only observe, claims no confidence and no
  model or prompt; and once compiled it names a supported harness and a prompt version.\<close>

theorem candidate_is_never_an_instruction:
  assumes "Candidate_Validate c = None"
  shows "cand_Authority c = AuthorityNone \<and> \<not> immutable_state (cand_LifecycleState c) \<and>
    (\<forall>s. \<not> ValidLifecycleTransition s (cand_LifecycleState c) \<and>
         \<not> ValidLifecycleTransition (cand_LifecycleState c) s) \<and>
    guid_InterventionStrength (prop_Guidance (cand_Proposal c)) \<noteq> InterventionDeny \<and>
    (if prop_SemanticCompilationPending (cand_Proposal c)
     then guid_InterventionStrength (prop_Guidance (cand_Proposal c)) = InterventionObserve \<and>
       prop_Confidence (cand_Proposal c) = None \<and> Harness_text (prov_Harness (cand_Provenance c)) = [] \<and>
       prov_Model (cand_Provenance c) = [] \<and> prov_PromptVersion (cand_Provenance c) = []
     else Harness_Valid (prov_Harness (cand_Provenance c)) \<and> prov_PromptVersion (cand_Provenance c) \<noteq> [])"
proof -
  from assms have state: "cand_LifecycleState c = LifecycleCandidate"
    and parts: "cand_Authority c = AuthorityNone" "Provenance_Validate (cand_Provenance c) = None"
      "guid_InterventionStrength (prop_Guidance (cand_Proposal c)) \<noteq> InterventionDeny"
    by (simp_all add: Candidate_Validate_def check_simps ExperienceProposal_Validate_def
        Guidance_Validate_def)
  have trimmed: "TrimSpace (prov_Model (cand_Provenance c)) = prov_Model (cand_Provenance c)"
    "TrimSpace (prov_PromptVersion (cand_Provenance c)) = prov_PromptVersion (cand_Provenance c)"
    using parts(2) by (auto simp: Provenance_Validate_def check_simps split: if_splits)
  have "ValidLifecycleTransition s LifecycleCandidate = False" for s by (cases s) auto
  with assms state parts trimmed show ?thesis
    by (auto simp: Candidate_Validate_def check_simps split: if_splits)
qed

theorem candidate_is_never_an_instruction_witness:
  "cand_Authority (candidate0 [event_ref ''e1'']) = AuthorityNone"
  using candidate_is_never_an_instruction [of "candidate0 [event_ref ''e1'']"]
  by (simp add: times_ok_no_time)

text \<open>A semantic result is consistent: it carries a proposal exactly when its decision is to
  propose, with the reason \<open>reusable_supported\<close>; the proposal has no authority, is fully compiled with a
  confidence in the unit interval, and agrees with the decision on candidate, project, proposal ID and
  provenance; rejections and deferrals carry the reasons allowed for them and no proposal ID.\<close>

theorem semantic_result_consistent:
  assumes "SemanticResult_Validate r = None"
  shows "(semr_Proposal r \<noteq> None \<longleftrightarrow> semd_Disposition (semr_Decision r) = SemanticDispositionPropose) \<and>
    (case semr_Proposal r of
       None \<Rightarrow> semd_ProposalID (semr_Decision r) = [] \<and>
         semd_ReasonCode (semr_Decision r) \<noteq> SemanticReasonReusableSupported
     | Some p \<Rightarrow> semd_ReasonCode (semr_Decision r) = SemanticReasonReusableSupported \<and>
         semp_Authority p = AuthorityNone \<and> \<not> prop_SemanticCompilationPending (semp_Proposal p) \<and>
         (\<exists>c. prop_Confidence (semp_Proposal p) = Some c \<and> validUnitInterval c) \<and>
         semp_CandidateID p = semd_CandidateID (semr_Decision r) \<and>
         semp_ProjectIdentity p = semd_ProjectIdentity (semr_Decision r) \<and>
         SemanticProposal_DeterministicID p = Some (semd_ProposalID (semr_Decision r)) \<and>
         semp_Provenance p = semd_Provenance (semr_Decision r))"
proof -
  let ?d = "semr_Decision r"
  from assms have d: "SemanticDecision_Validate ?d = None"
    by (simp add: SemanticResult_Validate_def check_simps)
  then have dc: "SemanticDisposition_Valid (semd_Disposition ?d)"
    "SemanticDecision_disposition_check (semd_Disposition ?d) ?d = None"
    by (simp_all add: SemanticDecision_Validate_def check_simps)
  show ?thesis
  proof (cases "semd_Disposition ?d = SemanticDispositionPropose")
    case True
    with assms obtain p where p: "semr_Proposal r = Some p" "SemanticProposal_Validate p = None"
      "semp_CandidateID p = semd_CandidateID ?d" "semp_ProjectIdentity p = semd_ProjectIdentity ?d"
      "semp_ProposalID p = semd_ProposalID ?d" "semp_Provenance p = semd_Provenance ?d"
      by (auto simp: SemanticResult_Validate_def check_simps split: option.splits)
    from p(2) have "semp_Authority p = AuthorityNone" "\<not> prop_SemanticCompilationPending (semp_Proposal p)"
      "\<exists>c. prop_Confidence (semp_Proposal p) = Some c \<and> validUnitInterval c"
      "SemanticProposal_DeterministicID p = Some (semp_ProposalID p)"
      by (auto simp: SemanticProposal_Validate_def ExperienceProposal_Validate_def check_simps
          split: option.splits)
    with True dc p show ?thesis by (simp add: check_simps)
  next
    case False
    with assms have none: "semr_Proposal r = None"
      by (simp add: SemanticResult_Validate_def check_simps)
    with False dc show ?thesis by (cases "semd_Disposition ?d") (auto simp: check_simps)
  qed
qed

definition decision0 :: SemanticDecision where
  "decision0 =
     (let d = \<lparr>semd_SchemaVersion = SemanticDecisionSchemaVersion, semd_DecisionID = [],
               semd_CandidateID = ''exc_a'', semd_ProjectIdentity = ''p'',
               semd_Disposition = SemanticDispositionPropose,
               semd_ReasonCode = SemanticReasonReusableSupported, semd_Explanation = ''why'',
               semd_Confidence = Finite 1, semd_ProposalID = semp_ProposalID (semantic0 verifier_modified),
               semd_Provenance = sprovenance0\<rparr>
      in d\<lparr>semd_DecisionID := the (SemanticDecision_DeterministicID d)\<rparr>)"

lemma semantic0_selects [simp]:
  "semp_CandidateID (semantic0 v) = ''exc_a''" "semp_ProjectIdentity (semantic0 v) = ''p''"
  "semp_Provenance (semantic0 v) = sprovenance0" "semp_Proposal (semantic0 v) = proposal0 v"
  "semp_Authority (semantic0 v) = AuthorityNone"
  by (simp_all add: semantic0_def Let_def)

lemma semantic0_id [simp]: "validateIdentifier name (semp_ProposalID (semantic0 v)) = None"
  unfolding semantic0_def Let_def SemanticProposal_DeterministicID_def
  by simp (rule identifier_valid [OF computed_id(2)]; simp)

lemma decision0_valid: "SemanticDecision_Validate decision0 = None"
proof -
  obtain j where j: "SemanticDecision_DeterministicID decision0 = deterministicID ''exd_'' j"
    "semd_DecisionID decision0 = the (deterministicID ''exd_'' j)" "json_ok j"
    by (simp add: decision0_def Let_def SemanticDecision_DeterministicID_def)
  with computed_id [OF j(3), of "''exd_''"] show ?thesis
    by (simp add: SemanticDecision_Validate_def check_simps)
      (simp add: decision0_def Let_def check_simps limit_defs)
qed

theorem semantic_result_consistent_witness:
  "SemanticProposal_DeterministicID (semantic0 verifier_modified) =
     Some (semp_ProposalID (semantic0 verifier_modified))"
proof -
  have d: "semd_Disposition decision0 = SemanticDispositionPropose"
    "semd_CandidateID decision0 = ''exc_a''" "semd_ProjectIdentity decision0 = ''p''"
    "semd_ProposalID decision0 = semp_ProposalID (semantic0 verifier_modified)"
    "semd_Provenance decision0 = sprovenance0"
    by (simp_all add: decision0_def Let_def)
  let ?r = "\<lparr>semr_Proposal = Some (semantic0 verifier_modified), semr_Decision = decision0\<rparr>"
  have "SemanticResult_Validate ?r = None"
    by (simp add: SemanticResult_Validate_def check_simps decision0_valid d)
  from semantic_result_consistent [OF this] show ?thesis by (simp add: d)
qed


section \<open>Evidence points to one place\<close>

fun locator_slot :: "EvidenceSourceKind \<Rightarrow> nat" where
  "locator_slot EvidenceTranscriptTurn = 0"
| "locator_slot EvidenceCanonicalEvent = 1"
| "locator_slot EvidenceOutcomeObservation = 2"
| "locator_slot EvidenceWorkspaceHash = 3"
| "locator_slot EvidenceUserRecorded = 4"
| "locator_slot (EvidenceSourceKind_other s) = 5"

definition locators :: "EvidenceRef \<Rightarrow> bool list" where
  "locators r = [eref_SessionKey r \<noteq> [], eref_EventID r \<noteq> [], eref_OutcomeID r \<noteq> [], eref_Path r \<noteq> [],
     eref_RecordedBy r \<noteq> []]"

lemma validateRelativePath_nonempty: "validateRelativePath v = None \<Longrightarrow> v \<noteq> []"
  by (auto simp: validateRelativePath_def check_simps)

text \<open>An evidence reference that validates points to exactly one place, the one of its kind: a turn
  of a session (with a non-negative index), an event, an outcome, a file of the workspace (with the
  digest of its bytes) or a person. The file is inside the workspace: a clean relative path no segment
  of which is empty, \<open>.\<close> or \<open>..\<close>.\<close>

theorem evidence_points_to_one_place:
  assumes "EvidenceRef_Validate r = None"
  shows "locators r = (replicate 5 False)[locator_slot (eref_Kind r) := True] \<and>
    (eref_TurnIndex r \<noteq> None \<longleftrightarrow> eref_Kind r = EvidenceTranscriptTurn) \<and>
    (\<forall>i. eref_TurnIndex r = Some i \<longrightarrow> 0 \<le> i) \<and>
    (validSHA256 (eref_SHA256 r) \<longleftrightarrow> eref_Kind r = EvidenceWorkspaceHash) \<and>
    (eref_Path r \<noteq> [] \<longrightarrow> (\<forall>seg \<in> set (split_on (CHR ''/'') (eref_Path r)). seg \<notin> {[], ''.'', ''..''}))"
proof -
  from assms have k: "EvidenceSourceKind_Valid (eref_Kind r)"
    and kc: "EvidenceRef_kind_check (eref_Kind r) r = None"
    by (simp_all add: EvidenceRef_Validate_def check_simps)
  have empty: "\<not> validSHA256 []" by (simp add: validSHA256_def)
  show ?thesis
  proof (cases "eref_Kind r")
    case EvidenceTranscriptTurn
    with kc empty show ?thesis
      by (auto simp: check_simps locators_def eval_nat_numeral split: option.splits)
  next
    case EvidenceWorkspaceHash
    with kc have "validateRelativePath (eref_Path r) = None" by (simp add: check_simps)
    with EvidenceWorkspaceHash kc show ?thesis
      by (auto simp: check_simps locators_def eval_nat_numeral eref_no_turn_def
          dest: validateRelativePath_nonempty validateRelativePath_segments)
  qed (use k kc empty in \<open>auto simp: check_simps locators_def eval_nat_numeral eref_no_turn_def\<close>)
qed

theorem evidence_points_to_one_place_witness:
  "locators (event_ref ''e1'') = [False, True, False, False, False]"
proof -
  have "eref_Kind (event_ref ''e1'') = EvidenceCanonicalEvent"
    by (simp add: event_ref_def empty_ref_def)
  with evidence_points_to_one_place [of "event_ref ''e1''"] show ?thesis
    by (simp add: eval_nat_numeral)
qed

section \<open>Candidate identity\<close>

lemma render_fields_cong:
  "list_all2 (\<lambda>f g. fst f = fst g \<and> render (snd f) = render (snd g)) fs gs \<Longrightarrow>
     render_fields fs = render_fields gs"
  by (induction fs gs rule: list_all2_induct) (auto split: option.splits)

text \<open>The identity of a candidate is its content. Two candidates that differ only in the order of
  their evidence, in the order or repetition of their outcome and episode references, in the order of
  the experience references, in surrounding white space, or in fields outside the identity (proposal,
  provenance, state, creation time) have the same deterministic ID, so learning the same lesson twice is
  recognised as the same candidate.\<close>

theorem candidate_identity_is_content:
  assumes "cand_Family a = cand_Family b"
    and "TrimSpace (cand_ProjectIdentity a) = TrimSpace (cand_ProjectIdentity b)"
    and "TrimSpace (cand_ObservedBehavior a) = TrimSpace (cand_ObservedBehavior b)"
    and "TrimSpace (cand_UserFeedback a) = TrimSpace (cand_UserFeedback b)"
    and "mset (map normalizedEvidenceRef (evs_Refs (cand_Evidence a))) =
      mset (map normalizedEvidenceRef (evs_Refs (cand_Evidence b)))"
    and "TrimSpace ` set (cand_OutcomeRefs a) - {[]} = TrimSpace ` set (cand_OutcomeRefs b) - {[]}"
    and "TrimSpace ` set (cand_EpisodeRefs a) - {[]} = TrimSpace ` set (cand_EpisodeRefs b) - {[]}"
    and "mset (cand_ExistingRefs a) = mset (cand_ExistingRefs b)"
  shows "Candidate_DeterministicID a = Candidate_DeterministicID b"
proof -
  have "normalizedStrings (cand_OutcomeRefs a) = normalizedStrings (cand_OutcomeRefs b)"
    "normalizedStrings (cand_EpisodeRefs a) = normalizedStrings (cand_EpisodeRefs b)"
    using assms(6,7) by (simp_all add: normalizedStrings_eq_iff)
  moreover have "sort (cand_ExistingRefs a) = sort (cand_ExistingRefs b)"
    using assms(8) by (metis properties_for_sort mset_sort sorted_sort)
  moreover note render_evidence_cong [OF assms(5)]
  ultimately have "render (Candidate_payload a) = render (Candidate_payload b)"
    using assms(1-4) unfolding Candidate_payload_def render.simps
    by (intro arg_cong [of _ _ "map_option _"] render_fields_cong) simp
  then show ?thesis by (simp add: Candidate_DeterministicID_def deterministicID_def)
qed

theorem candidate_identity_is_content_witness:
  "Candidate_DeterministicID ((candidate0 [event_ref ''e1'', event_ref ''e2''])
     \<lparr>cand_OutcomeRefs := [''u'', ''b'', ''u'']\<rparr>) =
   Candidate_DeterministicID ((candidate0 [event_ref ''e2'', event_ref ''e1''])
     \<lparr>cand_OutcomeRefs := [''b'', ''u''], cand_CreatedAt := day 2\<rparr>)"
  by (rule candidate_identity_is_content) (auto simp: candidate0_def Let_def)

section \<open>Panics\<close>

lemma panic_first_error_Cons:
  "is_panic (first_error (c # cs)) \<longleftrightarrow> is_panic c \<or> c = None \<and> is_panic (first_error cs)"
  by (cases c) auto

lemmas panic_simps = panic_first_error_Cons id_mismatch_panic

lemma no_panic_each [simp]:
  "\<forall>x \<in> set xs. \<not> is_panic (f x) \<Longrightarrow> \<not> is_panic (check_each f xs)"
  by (rule not_panic_check_each) simp

lemma no_panic_unique [simp]:
  "\<forall>x \<in> set xs. \<not> is_panic (f x) \<Longrightarrow> \<not> is_panic (check_unique f dup seen xs)"
  by (rule not_panic_check_unique) simp

lemma no_panic_evidence [simp]: "\<not> is_panic (EvidenceRef_Validate r)"
  by (cases "eref_Kind r") (auto simp: EvidenceRef_Validate_def panic_simps)

lemma no_panic_condition [simp]: "\<not> is_panic (DeterministicCondition_Validate c)"
  by (simp add: DeterministicCondition_Validate_def panic_simps)

lemma no_panic_ref [simp]: "\<not> is_panic (ExperienceRef_Validate er)"
  by (simp add: ExperienceRef_Validate_def panic_simps)

lemma no_panic_scope [simp]: "\<not> is_panic (Scope_Validate s)"
  by (simp add: Scope_Validate_def panic_simps)

lemma no_panic_applicability [simp]: "\<not> is_panic (Applicability_Validate a)"
  by (simp add: Applicability_Validate_def panic_simps)

lemma no_panic_guidance [simp]: "\<not> is_panic (Guidance_Validate g)"
  by (simp add: Guidance_Validate_def panic_simps)

lemma no_panic_provenance [simp]: "\<not> is_panic (Provenance_Validate p)"
  by (simp add: Provenance_Validate_def panic_simps)

lemma no_panic_governance [simp]: "\<not> is_panic (Governance_Validate h gov)"
  by (simp add: Governance_Validate_def ApprovalProvenance_Validate_def panic_simps split: option.splits)

lemma no_panic_sprovenance [simp]: "\<not> is_panic (SemanticProposalProvenance_Validate sp)"
  by (simp add: SemanticProposalProvenance_Validate_def panic_simps)

lemma no_panic_specs [simp]: "\<not> is_panic (Verifier_spec_check k v)"
  by (cases k) (auto simp: require_spec_def CommandVerifierSpec_Validate_def FileVerifierSpec_Validate_def
      PathPatternVerifierSpec_Validate_def VerificationAfterLastEditSpec_Validate_def
      NoRepeatFailureSpec_Validate_def UserCorrectionAbsentSpec_Validate_def
      ObservationOnlySpec_Validate_def panic_simps split: option.splits)

lemma no_panic_verifier [simp]: "\<not> is_panic (Verifier_Validate v)"
  by (simp add: Verifier_Validate_def panic_simps)

lemma no_panic_support [simp]: "\<not> is_panic (EvidenceSupport_Validate n s)"
  by (simp add: EvidenceSupport_Validate_def support_group_check_def panic_simps)

lemma no_panic_proposal [simp]: "\<not> is_panic (ExperienceProposal_Validate p)"
  by (simp add: ExperienceProposal_Validate_def panic_simps split: option.splits)

lemma no_panic_previous [simp]: "\<not> is_panic (previous_version_check x)"
  by (simp add: previous_version_check_def panic_simps split: option.splits)

lemma id_computed: "json_ok j \<Longrightarrow> deterministicID pre j \<noteq> None"
  using deterministicID_exists [of pre j] by auto

lemma no_panic_evidence_set [simp]:
  "times_ok (evs_Refs s) \<Longrightarrow> \<not> is_panic (EvidenceSet_Validate s)"
  using json_ok_evidence [of "evs_Refs s"]
  by (simp add: EvidenceSet_Validate_def panic_simps EvidenceSet_DeterministicID_def id_computed)

lemma governance_approval: "Governance_Validate h g = None \<Longrightarrow> gov_Approval g \<noteq> None"
  by (auto simp: Governance_Validate_def check_simps split: option.splits)

definition optional_time_ok :: "gotime option \<Rightarrow> bool" where
  "optional_time_ok t \<longleftrightarrow> (\<forall>u. t = Some u \<longrightarrow> json_time_ok u)"

lemma no_panic_candidate:
  assumes "times_ok (evs_Refs (cand_Evidence c))"
  shows "\<not> is_panic (Candidate_Validate c)"
  using assms json_ok_evidence [OF assms]
  by (simp add: Candidate_Validate_def panic_simps Candidate_DeterministicID_def Candidate_payload_def
      id_computed)

lemma no_panic_transition:
  assumes "times_ok (lt_SourceEvidence t)" "json_time_ok (lt_OccurredAt t)"
  shows "\<not> is_panic (LifecycleTransition_Validate t)"
  using assms json_ok_evidence [OF assms(1)]
  by (simp add: LifecycleTransition_Validate_def panic_simps LifecycleTransition_DeterministicID_def
      id_computed)

lemma no_panic_application:
  assumes "optional_time_ok (app_DeliveredAt a)"
  shows "\<not> is_panic (Application_Validate a)"
  using assms
  by (auto simp: Application_Validate_def panic_simps Application_DeterministicID_def
      optional_time_ok_def normalizedTimePointer_def id_computed split: option.splits)

lemma no_panic_evaluation:
  assumes "times_ok (evl_SourceEvidence e)" "json_time_ok (evl_EvaluatedAt e)"
  shows "\<not> is_panic (Evaluation_Validate e)"
  using assms json_ok_evidence [OF assms(1)]
  by (simp add: Evaluation_Validate_def panic_simps Evaluation_DeterministicID_def id_computed nil_array_def)

lemma no_panic_experience:
  assumes "times_ok (evs_Refs (xp_Evidence x))" "optional_time_ok (appl_ExpiresAt (xp_Applicability x))"
  shows "\<not> is_panic (Experience_Validate x)"
proof -
  have h: "Experience_CanonicalContentHash x \<noteq> None"
    using assms(2) contentHash_exists
    by (fastforce simp: Experience_CanonicalContentHash_def ExperienceProposal_CanonicalContentHash_def
        optional_time_ok_def)
  have d: "DeriveExperienceID p c \<noteq> None" for p c
    by (simp add: DeriveExperienceID_def id_computed)
  obtain i where i: "DeriveExperienceID (scope_ProjectIdentity (xp_Scope x)) (xp_OriginCandidateID x) = Some i"
    using d by blast
  show ?thesis
  proof (cases "Governance_Validate (xp_ContentHash x) (xp_Governance x)")
    case None
    then obtain a where "gov_Approval (xp_Governance x) = Some a"
      using governance_approval by blast
    with None assms(1) h i show ?thesis by (simp add: Experience_Validate_def panic_simps)
  next
    case (Some e)
    with no_panic_governance [of "xp_ContentHash x" "xp_Governance x"] assms(1) show ?thesis
      by (simp add: Experience_Validate_def panic_simps)
  qed
qed

text \<open>C37: Validation never panics on contracts whose times fall in the years 0 to 9999 of UTC: for such
  values the \<open>panic(err)\<close> of the hash functions and every nil dereference behind the checks are
  unreachable, whatever else the value contains.\<close>

theorem validation_never_panics:
  assumes "times_ok (evs_Refs (cand_Evidence c))"
    and "times_ok (evs_Refs (xp_Evidence x))" and "optional_time_ok (appl_ExpiresAt (xp_Applicability x))"
    and "times_ok (lt_SourceEvidence t)" and "json_time_ok (lt_OccurredAt t)"
    and "optional_time_ok (app_DeliveredAt a)"
    and "times_ok (evl_SourceEvidence e)" and "json_time_ok (evl_EvaluatedAt e)"
  shows "\<not> is_panic (Candidate_Validate c) \<and> \<not> is_panic (Experience_Validate x) \<and>
    \<not> is_panic (LifecycleTransition_Validate t) \<and> \<not> is_panic (Application_Validate a) \<and>
    \<not> is_panic (Evaluation_Validate e)"
  using assms no_panic_candidate no_panic_experience no_panic_transition no_panic_application
    no_panic_evaluation by blast

definition application0 :: Application where
  "application0 = \<lparr>app_SchemaVersion = ApplicationSchemaVersion, app_ApplicationID = ''x1'',
     app_Experience = ExperienceRef ''x1'' 1, app_ProjectIdentity = ''p'', app_SessionKey = ''x1'',
     app_DeliveryKind = DeliveryHook, app_DeliveryState = DeliveryDelivered,
     app_DeliveredAt = Some (day 0), app_OpportunityState = OpportunityUnknown,
     app_ApplicabilityState = ApplicabilityUnknown, app_VerifierState = VerifierUnknown,
     app_TaskOutcomeState = TaskOutcomeUnknown, app_SourceEvidence = []\<rparr>"

definition evaluation0 :: "gotime \<Rightarrow> Evaluation" where
  "evaluation0 t = \<lparr>evl_SchemaVersion = EvaluationSchemaVersion, evl_EvaluationID = ''x1'',
     evl_ApplicationID = ''x1'', evl_Experience = ExperienceRef ''x1'' 1, evl_EvaluatedAt = t,
     evl_OpportunityState = OpportunityUnknown, evl_ApplicabilityState = ApplicabilityUnknown,
     evl_VerifierState = VerifierUnknown, evl_TaskOutcomeState = TaskOutcomeUnknown,
     evl_Coverage = [], evl_SourceEvidence = [event_ref ''e1''], evl_DerivationVersion = ''x1''\<rparr>"

theorem validation_never_panics_witness:
  "\<not> is_panic (Candidate_Validate (candidate0 [event_ref ''e1''])) \<and>
   \<not> is_panic (Evaluation_Validate (evaluation0 (day 0)))"
proof -
  have "times_ok (evs_Refs (cand_Evidence (candidate0 [event_ref ''e1''])))"
    "times_ok (evs_Refs (xp_Evidence (experience0 verifier_modified)))"
    "optional_time_ok (appl_ExpiresAt (xp_Applicability (experience0 verifier_modified)))"
    "times_ok (lt_SourceEvidence (transition0 (ExperienceRef ''x1'' 1) LifecycleApproved
       LifecycleActive (day 1)))"
    "json_time_ok (lt_OccurredAt (transition0 (ExperienceRef ''x1'' 1) LifecycleApproved
       LifecycleActive (day 1)))"
    "optional_time_ok (app_DeliveredAt application0)"
    "times_ok (evl_SourceEvidence (evaluation0 (day 0)))" "json_time_ok (evl_EvaluatedAt (evaluation0 (day 0)))"
    by (simp_all add: times_ok_def optional_time_ok_def candidate0_def Let_def evidence0_def
        transition0_def application0_def evaluation0_def)
  from validation_never_panics [OF this] show ?thesis by blast
qed

lemma not_computed: "\<not> json_ok j \<Longrightarrow> deterministicID pre j = None"
  using deterministicID_exists [of pre j] by (cases "deterministicID pre j") auto

text \<open>04:59:59 UTC on 1 January 10000, which JSON can carry as \<open>9999-12-31T23:59:59-05:00\<close>.\<close>

definition after_9999 :: gotime where
  "after_9999 = \<lparr>wall_ns = (3652059 * 86400 + 17999) * 1000000000, mono = None, loc = -18000\<rparr>"

text \<open>C38: Outside those years validation does panic: an evaluation that passes every check, dated
  9999-12-31T23:59:59-05:00 (a time that JSON can carry), makes \<open>Evaluation.Validate\<close> panic instead of
  returning an error, because the hash is computed from the time in UTC, in the year 10000.\<close>

theorem year_10000_panics:
  "is_panic (Evaluation_Validate (evaluation0 after_9999)) \<and> \<not> IsZero after_9999 \<and>
    json_local_ok after_9999 \<and> local_rfc3339 after_9999 = ''9999-12-31T23:59:59-05:00''"
proof -
  have "\<not> json_time_ok after_9999" by code_simp
  then have "Evaluation_DeterministicID (evaluation0 after_9999) = None"
    using json_time_ok_utcTime [of after_9999]
    by (simp add: Evaluation_DeterministicID_def evaluation0_def not_computed)
  moreover have "\<not> IsZero after_9999" "json_local_ok after_9999"
    "local_rfc3339 after_9999 = ''9999-12-31T23:59:59-05:00''"
    by code_simp+
  ultimately show ?thesis
    by (simp add: Evaluation_Validate_def panic_simps evaluation0_def check_simps
        ExperienceRef_Validate_def limit_defs)
qed

end
