(* ===== verification/RegistryStore.thy ===== *)
theory RegistryStore
  imports Lifecycle Contracts "HOL-Library.Product_Lexorder"
begin

text \<open>
  The experience registry of \<open>internal/storage/local\<close> (\<open>experience_repository.go\<close>,
  \<open>experience_lifecycle_repository.go\<close> and the claims check of \<open>experience_lifecycle_token.go\<close>):
  immutable experience versions, the append-only log of lifecycle transitions, and the lifecycle
  column that is a projection of the log.

  A table is the list of its rows in the order of insertion. A time column holds the instant (its text
  is fixed-width UTC with nine fractional digits, so the order of the texts is the order of the
  instants). The sealed payload column is the JSON text (sealing is inverted by opening, and the size
  check on reading repeats the one on writing); \<open>row_Value\<close> and its like are what decoding that text
  gives, the value that was encoded. \<open>json.Marshal\<close> of the sealed records is the parameter \<open>js\<close>. The
  CHECK constraints of the schema repeat what \<open>Validate\<close> has established and are left out, as are I/O
  failures; an operation that returns an error leaves the registry as it was (the transaction is rolled
  back).
\<close>

section \<open>Tables\<close>

datatype reg_error =
    ErrCandidateConflict | ErrVersionConflict | ErrTransitionConflict | ErrLifecycleConflict | ErrActionStale
  | ErrTokenInvalid | ErrTokenExpired | ErrNoRows | ErrStore string | ErrContract go_error

type_synonym 'a result = "reg_error + 'a"

record experience_row =
  row_ID :: string
  row_Version :: int
  row_OriginCandidateID :: string
  row_ProjectIdentity :: string
  row_Type :: ExperienceType
  row_Initial :: LifecycleState
  row_State :: LifecycleState
  row_Intervention :: InterventionStrength
  row_ContentHash :: string
  row_Previous :: "ExperienceRef option"
  row_ApprovedAt :: int
  row_ActivatedAt :: "int option"
  row_ExpiresAt :: "int option"
  row_CreatedAt :: int
  row_UpdatedAt :: int
  row_Plaintext :: string
  row_Value :: Experience

record transition_row =
  tr_ID :: string
  tr_Experience :: ExperienceRef
  tr_From :: LifecycleState
  tr_To :: LifecycleState
  tr_ReasonCode :: string
  tr_ActorKind :: TransitionActorKind
  tr_OccurredAt :: int
  tr_Plaintext :: string
  tr_Value :: LifecycleTransition

record candidate_row =
  crow_ID :: string
  crow_ProjectIdentity :: string
  crow_Family :: CandidateFamily
  crow_LifecycleState :: LifecycleState
  crow_Authority :: InstructionAuthority
  crow_CreatedAt :: int
  crow_Plaintext :: string
  crow_Value :: Candidate

text \<open>What an evidence row seals (\<open>storedEvidencePayload\<close>) and the row with its index columns.\<close>

record storedEvidencePayload =
  sep_EvidenceSetID :: string
  sep_EvidenceIndex :: nat
  sep_Experience :: ExperienceRef
  sep_Ref :: EvidenceRef

record evidence_row =
  ev_EvidenceSetID :: string
  ev_Index :: nat
  ev_Experience :: ExperienceRef
  ev_Kind :: EvidenceSourceKind
  ev_SessionKey :: "string option"
  ev_TurnIndex :: "int option"
  ev_EventID :: "string option"
  ev_OutcomeID :: "string option"
  ev_OccurredAt :: "int option"
  ev_Value :: storedEvidencePayload

record registry =
  reg_Candidates :: "candidate_row list"
  reg_Experiences :: "experience_row list"
  reg_Evidence :: "evidence_row list"
  reg_Transitions :: "transition_row list"

text \<open>\<open>json.Marshal\<close> of the four records that are sealed whole; \<open>None\<close> is its error.\<close>

record json_codec =
  js_Candidate :: "Candidate \<Rightarrow> string option"
  js_Experience :: "Experience \<Rightarrow> string option"
  js_Evidence :: "storedEvidencePayload \<Rightarrow> string option"
  js_Transition :: "LifecycleTransition \<Rightarrow> string option"

record StoredExperience =
  st_Experience :: Experience
  st_CurrentLifecycle :: LifecycleState
  st_ActivatedAt :: "int option"
  st_ExpiresAt :: "int option"

definition maxExperiencePayloadBytes :: nat where "maxExperiencePayloadBytes = 2 * 1024 * 1024"
definition maxEvidencePayloadBytes :: nat where "maxEvidencePayloadBytes = 64 * 1024"

definition row_key :: "experience_row \<Rightarrow> ExperienceRef" where
  "row_key row = ExperienceRef (row_ID row) (row_Version row)"

definition find_row :: "registry \<Rightarrow> ExperienceRef \<Rightarrow> experience_row option" where
  "find_row reg ref = find (\<lambda>row. row_key row = ref) (reg_Experiences reg)"

definition transitions_of :: "registry \<Rightarrow> ExperienceRef \<Rightarrow> transition_row list" where
  "transitions_of reg ref = filter (\<lambda>t. tr_Experience t = ref) (reg_Transitions reg)"

text \<open>\<open>ORDER BY occurred_at DESC, transition_id DESC LIMIT 1\<close>\<close>

definition latest_transition :: "registry \<Rightarrow> ExperienceRef \<Rightarrow> transition_row option" where
  "latest_transition reg ref =
     (case rev (sort_key (\<lambda>t. (tr_OccurredAt t, tr_ID t)) (transitions_of reg ref)) of
        [] \<Rightarrow> None | t # _ \<Rightarrow> Some t)"

definition rebuilt_state :: "registry \<Rightarrow> experience_row \<Rightarrow> LifecycleState" where
  "rebuilt_state reg row =
     (case latest_transition reg (row_key row) of None \<Rightarrow> row_Initial row | Some t \<Rightarrow> tr_To t)"

definition latest_occurred :: "registry \<Rightarrow> ExperienceRef \<Rightarrow> int option" where
  "latest_occurred reg ref =
     (if transitions_of reg ref = [] then None
      else Some (Max (set (map tr_OccurredAt (transitions_of reg ref)))))"

section \<open>Writing experiences\<close>

definition sealDomainJSON :: "string \<Rightarrow> ('a \<Rightarrow> string option) \<Rightarrow> nat \<Rightarrow> 'a \<Rightarrow> string result" where
  "sealDomainJSON recordType marshal limit v =
     (case marshal v of
        None \<Rightarrow> Inl (ErrStore (''encode '' @ recordType @ '' payload''))
      | Some plaintext \<Rightarrow>
          if limit < length plaintext
          then Inl (ErrStore (recordType @ '' payload exceeds safety limit'')) else Inr plaintext)"

section \<open>Candidates\<close>

definition candidate_row_of :: "Candidate \<Rightarrow> string \<Rightarrow> candidate_row" where
  "candidate_row_of v plaintext =
     \<lparr>crow_ID = cand_CandidateID v, crow_ProjectIdentity = cand_ProjectIdentity v,
      crow_Family = cand_Family v, crow_LifecycleState = cand_LifecycleState v,
      crow_Authority = cand_Authority v, crow_CreatedAt = wall_ns (cand_CreatedAt v),
      crow_Plaintext = plaintext, crow_Value = v\<rparr>"

definition find_candidate :: "registry \<Rightarrow> string \<Rightarrow> candidate_row option" where
  "find_candidate reg i = find (\<lambda>row. crow_ID row = i) (reg_Candidates reg)"

definition InsertExperienceCandidate ::
  "json_codec \<Rightarrow> registry \<Rightarrow> Candidate \<Rightarrow> (bool \<times> registry) result" where
  "InsertExperienceCandidate js reg candidate =
     (case Candidate_Validate candidate of
        Some e \<Rightarrow> Inl (ErrContract e)
      | None \<Rightarrow>
        (case sealDomainJSON ''experience_candidate'' (js_Candidate js) maxExperiencePayloadBytes candidate of
           Inl e \<Rightarrow> Inl e
         | Inr plaintext \<Rightarrow>
           (case find_candidate reg (cand_CandidateID candidate) of
              None \<Rightarrow> Inr (True, reg\<lparr>reg_Candidates := reg_Candidates reg @ [candidate_row_of candidate plaintext]\<rparr>)
            | Some old \<Rightarrow>
              if crow_Plaintext old \<noteq> plaintext then Inl ErrCandidateConflict else Inr (False, reg))))"

definition scanExperienceCandidate :: "candidate_row \<Rightarrow> Candidate result" where
  "scanExperienceCandidate row =
     (let candidate = crow_Value row in
      if cand_CandidateID candidate \<noteq> crow_ID row \<or>
         cand_ProjectIdentity candidate \<noteq> crow_ProjectIdentity row \<or>
         cand_Family candidate \<noteq> crow_Family row \<or>
         cand_LifecycleState candidate \<noteq> crow_LifecycleState row \<or>
         cand_Authority candidate \<noteq> crow_Authority row \<or>
         wall_ns (cand_CreatedAt candidate) \<noteq> crow_CreatedAt row
      then Inl (ErrStore ''experience candidate index does not match payload'')
      else case Candidate_Validate candidate of
          Some (Panic m) \<Rightarrow> Inl (ErrContract (Panic m))
        | Some (Err m) \<Rightarrow> Inl (ErrStore ''invalid persisted experience candidate'')
        | None \<Rightarrow> Inr candidate)"

definition validateStorageIdentifier :: "string \<Rightarrow> string \<Rightarrow> reg_error option" where
  "validateStorageIdentifier name v =
     (if TrimSpace v = [] \<or> v \<noteq> TrimSpace v \<or> 512 < length v
      then Some (ErrStore (''invalid '' @ name)) else None)"

definition validateProjectIdentity :: "string \<Rightarrow> reg_error option" where
  "validateProjectIdentity v =
     (if TrimSpace v = [] \<or> v \<noteq> TrimSpace v \<or> 4096 < length v
      then Some (ErrStore ''invalid project identity'') else None)"

definition defaultExperienceQueryLimit :: int where "defaultExperienceQueryLimit = 100"
definition maxExperienceQueryLimit :: int where "maxExperienceQueryLimit = 500"

definition boundedRepositoryLimit :: "int \<Rightarrow> int result" where
  "boundedRepositoryLimit limit =
     (if limit \<le> 0 then Inr defaultExperienceQueryLimit
      else if maxExperienceQueryLimit < limit
      then Inl (ErrStore ''repository query limit exceeds safety limit'') else Inr limit)"

definition GetExperienceCandidate :: "registry \<Rightarrow> string \<Rightarrow> Candidate result" where
  "GetExperienceCandidate reg candidateID =
     (case validateStorageIdentifier ''experience candidate ID'' candidateID of
        Some e \<Rightarrow> Inl e
      | None \<Rightarrow>
        (case find_candidate reg candidateID of
           None \<Rightarrow> Inl ErrNoRows | Some row \<Rightarrow> scanExperienceCandidate row))"

text \<open>Reading the rows of a query one by one; the first error ends it.\<close>

fun scan_rows :: "('a \<Rightarrow> 'b result) \<Rightarrow> 'a list \<Rightarrow> 'b list result" where
  "scan_rows scan [] = Inr []"
| "scan_rows scan (row # rows) =
     (case scan row of
        Inl e \<Rightarrow> Inl e
      | Inr v \<Rightarrow> (case scan_rows scan rows of Inl e \<Rightarrow> Inl e | Inr vs \<Rightarrow> Inr (v # vs)))"

text \<open>The checks every project query starts with, then the rows up to the limit.\<close>

definition project_query ::
  "string \<Rightarrow> int \<Rightarrow> (string \<Rightarrow> 'a list) \<Rightarrow> ('a \<Rightarrow> 'b result) \<Rightarrow> 'b list result" where
  "project_query projectIdentity limit rows scan =
     (case validateProjectIdentity projectIdentity of
        Some e \<Rightarrow> Inl e
      | None \<Rightarrow>
        (case boundedRepositoryLimit limit of
           Inl e \<Rightarrow> Inl e
         | Inr n \<Rightarrow> scan_rows scan (take (nat n) (rows projectIdentity))))"

text \<open>\<open>ORDER BY created_at DESC, candidate_id\<close>\<close>

definition candidate_rows :: "registry \<Rightarrow> string \<Rightarrow> candidate_row list" where
  "candidate_rows reg project = sort_key (\<lambda>row. (- crow_CreatedAt row, crow_ID row))
     (filter (\<lambda>row. crow_ProjectIdentity row = project) (reg_Candidates reg))"

definition QueryExperienceCandidates :: "registry \<Rightarrow> string \<Rightarrow> int \<Rightarrow> Candidate list result" where
  "QueryExperienceCandidates reg project limit =
     project_query project limit (candidate_rows reg) scanExperienceCandidate"

section \<open>Writing experiences\<close>

record preparedExperiencePersistence =
  prep_Value :: Experience
  prep_Plaintext :: string
  prep_EvidenceRows :: "storedEvidencePayload list"

fun seal_evidence ::
  "json_codec \<Rightarrow> Experience \<Rightarrow> nat \<Rightarrow> EvidenceRef list \<Rightarrow> storedEvidencePayload list result" where
  "seal_evidence js v index [] = Inr []"
| "seal_evidence js v index (ref # refs) =
     (let envelope = \<lparr>sep_EvidenceSetID = evs_EvidenceSetID (xp_Evidence v), sep_EvidenceIndex = index,
        sep_Experience = ExperienceRef (xp_ExperienceID v) (xp_Version v), sep_Ref = ref\<rparr>
      in case sealDomainJSON ''experience_evidence'' (js_Evidence js) maxEvidencePayloadBytes envelope of
           Inl e \<Rightarrow> Inl e
         | Inr plaintext \<Rightarrow>
           (case seal_evidence js v (index + 1) refs of
              Inl e \<Rightarrow> Inl e | Inr rows \<Rightarrow> Inr (envelope # rows)))"

definition prepareExperiencePersistence ::
  "json_codec \<Rightarrow> Experience \<Rightarrow> preparedExperiencePersistence result" where
  "prepareExperiencePersistence js v =
     (case Experience_Validate v of
        Some e \<Rightarrow> Inl (ErrContract e)
      | None \<Rightarrow>
        (case sealDomainJSON ''experience'' (js_Experience js) maxExperiencePayloadBytes v of
           Inl e \<Rightarrow> Inl e
         | Inr plaintext \<Rightarrow>
           (case seal_evidence js v 0 (evs_Refs (xp_Evidence v)) of
              Inl e \<Rightarrow> Inl e
            | Inr rows \<Rightarrow> Inr \<lparr>prep_Value = v, prep_Plaintext = plaintext, prep_EvidenceRows = rows\<rparr>)))"

definition row_of :: "Experience \<Rightarrow> string \<Rightarrow> ApprovalProvenance \<Rightarrow> experience_row" where
  "row_of v plaintext approval =
     \<lparr>row_ID = xp_ExperienceID v, row_Version = xp_Version v,
      row_OriginCandidateID = xp_OriginCandidateID v,
      row_ProjectIdentity = scope_ProjectIdentity (xp_Scope v), row_Type = xp_Type v,
      row_Initial = gov_LifecycleState (xp_Governance v),
      row_State = gov_LifecycleState (xp_Governance v),
      row_Intervention = guid_InterventionStrength (xp_Guidance v),
      row_ContentHash = xp_ContentHash v, row_Previous = xp_PreviousVersion v,
      row_ApprovedAt = wall_ns (apr_ApprovedAt approval),
      row_ActivatedAt = (if gov_LifecycleState (xp_Governance v) = LifecycleActive
        then Some (wall_ns (apr_ApprovedAt approval)) else None),
      row_ExpiresAt = map_option wall_ns (appl_ExpiresAt (xp_Applicability v)),
      row_CreatedAt = wall_ns (xp_CreatedAt v), row_UpdatedAt = wall_ns (xp_CreatedAt v),
      row_Plaintext = plaintext, row_Value = v\<rparr>"

text \<open>The index columns of a reference; the empty text is NULL.\<close>

definition evidenceIndexValues ::
  "EvidenceRef \<Rightarrow> string option \<times> int option \<times> string option \<times> string option \<times> int option" where
  "evidenceIndexValues ref =
     (let text = (\<lambda>s. if s = [] then None else Some s) in
      (text (eref_SessionKey ref), eref_TurnIndex ref, text (eref_EventID ref), text (eref_OutcomeID ref),
       map_option wall_ns (eref_OccurredAt ref)))"

definition evidence_row_of :: "storedEvidencePayload \<Rightarrow> evidence_row" where
  "evidence_row_of envelope =
     (let (sessionKey, turnIndex, eventID, outcomeID, occurredAt) = evidenceIndexValues (sep_Ref envelope) in
      \<lparr>ev_EvidenceSetID = sep_EvidenceSetID envelope, ev_Index = sep_EvidenceIndex envelope,
       ev_Experience = sep_Experience envelope, ev_Kind = eref_Kind (sep_Ref envelope),
       ev_SessionKey = sessionKey, ev_TurnIndex = turnIndex, ev_EventID = eventID,
       ev_OutcomeID = outcomeID, ev_OccurredAt = occurredAt, ev_Value = envelope\<rparr>)"

text \<open>The primary key of the evidence table is the experience, the evidence set and the index.\<close>

definition same_evidence_key :: "evidence_row \<Rightarrow> evidence_row \<Rightarrow> bool" where
  "same_evidence_key a b \<longleftrightarrow> ev_Experience a = ev_Experience b \<and>
     ev_EvidenceSetID a = ev_EvidenceSetID b \<and> ev_Index a = ev_Index b"

fun insert_evidence :: "evidence_row list \<Rightarrow> storedEvidencePayload list \<Rightarrow> evidence_row list result" where
  "insert_evidence table [] = Inr table"
| "insert_evidence table (envelope # envelopes) =
     (let row = evidence_row_of envelope in
      if list_ex (same_evidence_key row) table then Inl (ErrStore ''insert experience evidence'')
      else insert_evidence (table @ [row]) envelopes)"

text \<open>
  The insert: a row with the key is left alone (\<open>ON CONFLICT DO NOTHING\<close>) and compared; otherwise the
  unique index on (project, origin, version) and the foreign keys to the candidate and to the previous
  version must hold, and the evidence rows follow. A nil approval would be a nil dereference.
\<close>

definition insertPreparedExperienceTx ::
  "registry \<Rightarrow> preparedExperiencePersistence \<Rightarrow> (bool \<times> registry) result" where
  "insertPreparedExperienceTx reg prepared =
     (case gov_Approval (xp_Governance (prep_Value prepared)) of
        None \<Rightarrow> Inl (ErrContract (Panic ''nil pointer dereference''))
      | Some approval \<Rightarrow>
        (let row = row_of (prep_Value prepared) (prep_Plaintext prepared) approval in
         case find_row reg (row_key row) of
           Some old \<Rightarrow>
             if row_Plaintext old \<noteq> prep_Plaintext prepared then Inl ErrVersionConflict else Inr (False, reg)
         | None \<Rightarrow>
           if list_ex (\<lambda>other. row_ProjectIdentity other = row_ProjectIdentity row \<and>
                row_OriginCandidateID other = row_OriginCandidateID row \<and>
                row_Version other = row_Version row) (reg_Experiences reg) \<or>
              find_candidate reg (row_OriginCandidateID row) = None \<or>
              (case row_Previous row of None \<Rightarrow> False | Some prev \<Rightarrow> find_row reg prev = None)
           then Inl (ErrStore ''insert experience version'')
           else case insert_evidence (reg_Evidence reg) (prep_EvidenceRows prepared) of
               Inl e \<Rightarrow> Inl e
             | Inr evidence \<Rightarrow> Inr (True, reg\<lparr>reg_Experiences := reg_Experiences reg @ [row],
                 reg_Evidence := evidence\<rparr>)))"

definition InsertExperience ::
  "json_codec \<Rightarrow> registry \<Rightarrow> Experience \<Rightarrow> (bool \<times> registry) result" where
  "InsertExperience js reg v =
     (case prepareExperiencePersistence js v of
        Inl e \<Rightarrow> Inl e
      | Inr prepared \<Rightarrow> insertPreparedExperienceTx reg prepared)"

section \<open>Writing transitions\<close>

definition prepareExperienceTransition ::
  "json_codec \<Rightarrow> LifecycleTransition \<Rightarrow> string result" where
  "prepareExperienceTransition js t =
     (case LifecycleTransition_Validate t of
        Some e \<Rightarrow> Inl (ErrContract e)
      | None \<Rightarrow> sealDomainJSON ''experience_transition'' (js_Transition js) maxEvidencePayloadBytes t)"

definition activationTimeForTransition :: "LifecycleTransition \<Rightarrow> int option" where
  "activationTimeForTransition t =
     (if lt_ToState t = LifecycleActive then Some (wall_ns (lt_OccurredAt t)) else None)"

definition transition_row_of :: "LifecycleTransition \<Rightarrow> string \<Rightarrow> transition_row" where
  "transition_row_of t plaintext =
     \<lparr>tr_ID = lt_TransitionID t, tr_Experience = lt_Experience t, tr_From = lt_FromState t,
      tr_To = lt_ToState t, tr_ReasonCode = lt_ReasonCode t, tr_ActorKind = lt_ActorKind t,
      tr_OccurredAt = wall_ns (lt_OccurredAt t), tr_Plaintext = plaintext, tr_Value = t\<rparr>"

text \<open>\<open>UPDATE experiences SET ... WHERE experience_id = ? AND version = ? AND lifecycle_state = ?\<close>\<close>

definition update_hits :: "LifecycleTransition \<Rightarrow> experience_row \<Rightarrow> bool" where
  "update_hits t row \<longleftrightarrow> row_key row = lt_Experience t \<and> row_State row = lt_FromState t"

definition moved_row :: "LifecycleTransition \<Rightarrow> int \<Rightarrow> experience_row \<Rightarrow> experience_row" where
  "moved_row t now row =
     (if update_hits t row
      then row\<lparr>row_State := lt_ToState t, row_ActivatedAt := activationTimeForTransition t,
               row_UpdatedAt := now\<rparr>
      else row)"

definition appendExperienceTransitionTx ::
  "int \<Rightarrow> registry \<Rightarrow> LifecycleTransition \<Rightarrow> string \<Rightarrow> (bool \<times> registry) result" where
  "appendExperienceTransitionTx now reg t plaintext =
     (case find (\<lambda>old. tr_ID old = lt_TransitionID t) (reg_Transitions reg) of
        Some old \<Rightarrow> if tr_Plaintext old \<noteq> plaintext then Inl ErrTransitionConflict else Inr (False, reg)
      | None \<Rightarrow>
        (case find_row reg (lt_Experience t) of
           None \<Rightarrow> Inl (ErrStore ''read experience lifecycle projection'')
         | Some row \<Rightarrow>
           if row_State row \<noteq> rebuilt_state reg row then Inl ErrLifecycleConflict
           else if row_State row \<noteq> lt_FromState t then Inl ErrLifecycleConflict
           else if (case latest_occurred reg (lt_Experience t) of None \<Rightarrow> False
               | Some latest \<Rightarrow> \<not> latest < wall_ns (lt_OccurredAt t))
           then Inl (ErrStore ''experience transition time must follow prior transition'')
           else if length (filter (update_hits t) (reg_Experiences reg)) \<noteq> 1
           then Inl ErrLifecycleConflict
           else Inr (True, reg\<lparr>
             reg_Transitions := reg_Transitions reg @ [transition_row_of t plaintext],
             reg_Experiences := map (moved_row t now) (reg_Experiences reg)\<rparr>)))"

definition AppendExperienceTransition ::
  "json_codec \<Rightarrow> int \<Rightarrow> registry \<Rightarrow> LifecycleTransition \<Rightarrow>
     (bool \<times> registry) result" where
  "AppendExperienceTransition js now reg t =
     (case prepareExperienceTransition js t of
        Inl e \<Rightarrow> Inl e
      | Inr plaintext \<Rightarrow> appendExperienceTransitionTx now reg t plaintext)"

section \<open>Reading\<close>

definition rebuilt_activated :: "registry \<Rightarrow> experience_row \<Rightarrow> int option" where
  "rebuilt_activated reg row =
     (if row_State row = LifecycleActive
      then Some (case latest_transition reg (row_key row) of
          None \<Rightarrow> row_ApprovedAt row | Some t \<Rightarrow> tr_OccurredAt t)
      else None)"

definition index_matches :: "registry \<Rightarrow> experience_row \<Rightarrow> ApprovalProvenance \<Rightarrow> bool" where
  "index_matches reg row approval \<longleftrightarrow>
     (let v = row_Value row in
      xp_ExperienceID v = row_ID row \<and> xp_Version v = row_Version row \<and>
      xp_OriginCandidateID v = row_OriginCandidateID row \<and>
      scope_ProjectIdentity (xp_Scope v) = row_ProjectIdentity row \<and> xp_Type v = row_Type row \<and>
      gov_LifecycleState (xp_Governance v) = row_Initial row \<and>
      guid_InterventionStrength (xp_Guidance v) = row_Intervention row \<and>
      xp_ContentHash v = row_ContentHash row \<and> wall_ns (apr_ApprovedAt approval) = row_ApprovedAt row \<and>
      wall_ns (xp_CreatedAt v) = row_CreatedAt row \<and>
      map_option wall_ns (appl_ExpiresAt (xp_Applicability v)) = row_ExpiresAt row \<and>
      row_ActivatedAt row = rebuilt_activated reg row \<and> xp_PreviousVersion v = row_Previous row)"

definition scanStoredExperience :: "registry \<Rightarrow> experience_row \<Rightarrow> StoredExperience result" where
  "scanStoredExperience reg row =
     (if row_State row \<noteq> rebuilt_state reg row then Inl ErrLifecycleConflict
      else case gov_Approval (xp_Governance (row_Value row)) of
          None \<Rightarrow> Inl (ErrStore ''invalid persisted experience'')
        | Some approval \<Rightarrow>
          if \<not> index_matches reg row approval
          then Inl (ErrStore ''experience index does not match payload'')
          else case Experience_Validate (row_Value row) of
              Some (Panic m) \<Rightarrow> Inl (ErrContract (Panic m))
            | Some (Err m) \<Rightarrow> Inl (ErrStore ''invalid persisted experience'')
            | None \<Rightarrow> Inr \<lparr>st_Experience = row_Value row, st_CurrentLifecycle = row_State row,
                st_ActivatedAt = row_ActivatedAt row, st_ExpiresAt = row_ExpiresAt row\<rparr>)"

definition select_experience :: "registry \<Rightarrow> ExperienceRef \<Rightarrow> StoredExperience result" where
  "select_experience reg ref =
     (case find_row reg ref of None \<Rightarrow> Inl ErrNoRows | Some row \<Rightarrow> scanStoredExperience reg row)"

definition GetExperience :: "registry \<Rightarrow> ExperienceRef \<Rightarrow> StoredExperience result" where
  "GetExperience reg ref =
     (case ExperienceRef_Validate ref of
        Some e \<Rightarrow> Inl (ErrContract e) | None \<Rightarrow> select_experience reg ref)"

definition active_rows :: "registry \<Rightarrow> string \<Rightarrow> experience_row list" where
  "active_rows reg project = sort_key row_key
     (filter (\<lambda>row. row_ProjectIdentity row = project \<and> rebuilt_state reg row = LifecycleActive)
       (reg_Experiences reg))"

definition scan_active :: "registry \<Rightarrow> experience_row \<Rightarrow> StoredExperience result" where
  "scan_active reg row =
     (case scanStoredExperience reg row of
        Inl e \<Rightarrow> Inl e
      | Inr v \<Rightarrow> if st_CurrentLifecycle v \<noteq> LifecycleActive then Inl ErrLifecycleConflict else Inr v)"

definition QueryActiveExperiences :: "registry \<Rightarrow> string \<Rightarrow> int \<Rightarrow> StoredExperience list result" where
  "QueryActiveExperiences reg project limit =
     project_query project limit (active_rows reg) (scan_active reg)"

text \<open>\<open>ORDER BY updated_at DESC, experience_id, version DESC\<close>\<close>

definition project_rows :: "registry \<Rightarrow> string \<Rightarrow> experience_row list" where
  "project_rows reg project = sort_key (\<lambda>row. (- row_UpdatedAt row, row_ID row, - row_Version row))
     (filter (\<lambda>row. row_ProjectIdentity row = project) (reg_Experiences reg))"

definition QueryExperiences :: "registry \<Rightarrow> string \<Rightarrow> int \<Rightarrow> StoredExperience list result" where
  "QueryExperiences reg project limit =
     project_query project limit (project_rows reg) (scanStoredExperience reg)"

text \<open>The log of one version, oldest first.\<close>

definition scan_transition :: "transition_row \<Rightarrow> LifecycleTransition result" where
  "scan_transition row =
     (let t = tr_Value row in
      if lt_TransitionID t \<noteq> tr_ID row \<or> lt_Experience t \<noteq> tr_Experience row \<or>
         lt_FromState t \<noteq> tr_From row \<or> lt_ToState t \<noteq> tr_To row \<or>
         lt_ReasonCode t \<noteq> tr_ReasonCode row \<or> lt_ActorKind t \<noteq> tr_ActorKind row \<or>
         wall_ns (lt_OccurredAt t) \<noteq> tr_OccurredAt row
      then Inl (ErrStore ''experience transition index does not match payload'')
      else case LifecycleTransition_Validate t of
          Some (Panic m) \<Rightarrow> Inl (ErrContract (Panic m))
        | Some (Err m) \<Rightarrow> Inl (ErrStore ''invalid persisted experience transition'')
        | None \<Rightarrow> Inr t)"

definition ListExperienceTransitions ::
  "registry \<Rightarrow> ExperienceRef \<Rightarrow> int \<Rightarrow> LifecycleTransition list result" where
  "ListExperienceTransitions reg ref limit =
     (case ExperienceRef_Validate ref of
        Some e \<Rightarrow> Inl (ErrContract e)
      | None \<Rightarrow>
        (case boundedRepositoryLimit limit of
           Inl e \<Rightarrow> Inl e
         | Inr n \<Rightarrow> scan_rows scan_transition (take (nat n)
             (sort_key (\<lambda>t. (tr_OccurredAt t, tr_ID t)) (transitions_of reg ref)))))"

section \<open>Reading evidence\<close>

definition evidenceIndexesMatch :: "EvidenceRef \<Rightarrow> evidence_row \<Rightarrow> bool" where
  "evidenceIndexesMatch ref row \<longleftrightarrow>
     (let same_text = (\<lambda>s column. case column of None \<Rightarrow> s = [] | Some c \<Rightarrow> s \<noteq> [] \<and> s = c) in
      same_text (eref_SessionKey ref) (ev_SessionKey row) \<and> eref_TurnIndex ref = ev_TurnIndex row \<and>
      same_text (eref_EventID ref) (ev_EventID row) \<and> same_text (eref_OutcomeID ref) (ev_OutcomeID row) \<and>
      map_option wall_ns (eref_OccurredAt ref) = ev_OccurredAt row)"

text \<open>The rows one by one, with the index that is expected next and the set found so far.\<close>

fun read_evidence ::
  "ExperienceRef \<Rightarrow> evidence_row list \<Rightarrow> nat \<Rightarrow> EvidenceSet \<Rightarrow> EvidenceSet result" where
  "read_evidence ref [] index acc = Inr acc"
| "read_evidence ref (row # rows) index acc =
     (let envelope = ev_Value row in
      if ev_Index row \<noteq> index then Inl (ErrStore ''experience evidence index is not contiguous'')
      else if sep_EvidenceSetID envelope \<noteq> ev_EvidenceSetID row \<or>
         sep_EvidenceIndex envelope \<noteq> ev_Index row \<or> sep_Experience envelope \<noteq> ev_Experience row \<or>
         sep_Experience envelope \<noteq> ref \<or> eref_Kind (sep_Ref envelope) \<noteq> ev_Kind row \<or>
         \<not> evidenceIndexesMatch (sep_Ref envelope) row
      then Inl (ErrStore ''experience evidence index does not match payload'')
      else if evs_EvidenceSetID acc \<noteq> [] \<and> evs_EvidenceSetID acc \<noteq> ev_EvidenceSetID row
      then Inl (ErrStore ''experience evidence set is inconsistent'')
      else read_evidence ref rows (index + 1)
        (acc\<lparr>evs_EvidenceSetID := ev_EvidenceSetID row, evs_Refs := evs_Refs acc @ [sep_Ref envelope]\<rparr>))"

definition evidence_rows :: "registry \<Rightarrow> ExperienceRef \<Rightarrow> evidence_row list" where
  "evidence_rows reg ref = sort_key ev_Index (filter (\<lambda>row. ev_Experience row = ref) (reg_Evidence reg))"

definition GetExperienceEvidence :: "registry \<Rightarrow> ExperienceRef \<Rightarrow> EvidenceSet result" where
  "GetExperienceEvidence reg ref =
     (case ExperienceRef_Validate ref of
        Some e \<Rightarrow> Inl (ErrContract e)
      | None \<Rightarrow>
        (case read_evidence ref (evidence_rows reg ref) 0
             \<lparr>evs_EvidenceSetID = [], evs_Availability = EvidenceAvailable, evs_Refs = []\<rparr> of
           Inl e \<Rightarrow> Inl e
         | Inr found \<Rightarrow>
           if evs_Refs found = [] then Inl ErrNoRows
           else (case GetExperience reg ref of
               Inl e \<Rightarrow> Inl e
             | Inr stored \<Rightarrow>
               (let evidence = xp_Evidence (st_Experience stored);
                    set' = found\<lparr>evs_Availability := evs_Availability evidence\<rparr>
                in if evs_EvidenceSetID set' \<noteq> evs_EvidenceSetID evidence \<or>
                      length (evs_Refs set') \<noteq> length (evs_Refs evidence)
                   then Inl (ErrStore ''experience evidence does not match experience payload'')
                   else case EvidenceSet_Validate set' of
                       Some (Panic m) \<Rightarrow> Inl (ErrContract (Panic m))
                     | Some (Err m) \<Rightarrow> Inl (ErrStore ''invalid persisted experience evidence'')
                     | None \<Rightarrow> Inr set'))))"

section \<open>User actions\<close>

record ExperienceLifecycleActionInput =
  lai_Claims :: LifecycleActionTokenClaims
  lai_ActorID :: string
  lai_OccurredAt :: gotime

text \<open>\<open>Time.UTC\<close> (the monotonic reading stays) and \<open>Time.Sub\<close>, which saturates at 64 bits.\<close>

definition time_UTC :: "gotime \<Rightarrow> gotime" where
  "time_UTC t = t\<lparr>loc := 0\<rparr>"

definition time_Sub :: "gotime \<Rightarrow> gotime \<Rightarrow> int" where
  "time_Sub t u = max (- (2 ^ 63)) (min (2 ^ 63 - 1) (fst (time_cmp_key t u) - snd (time_cmp_key t u)))"

definition experienceLifecycleTokenLifetime :: int where
  "experienceLifecycleTokenLifetime = 15 * 60 * 1000000000"

definition validExperienceLifecycleClaims :: "LifecycleActionTokenClaims \<Rightarrow> bool" where
  "validExperienceLifecycleClaims claims \<longleftrightarrow>
     LifecycleActionTokenClaims_Validate claims = None \<and>
     time_Sub (ltc_ExpiresAt claims) (ltc_IssuedAt claims) \<le> experienceLifecycleTokenLifetime"

fun experienceLifecycleReasonCode :: "LifecycleAction \<Rightarrow> string \<times> bool" where
  "experienceLifecycleReasonCode LifecycleActionActivate = (''user_activated'', True)"
| "experienceLifecycleReasonCode LifecycleActionPause = (''user_paused'', True)"
| "experienceLifecycleReasonCode LifecycleActionSupersede = (''user_superseded'', True)"
| "experienceLifecycleReasonCode LifecycleActionExpire = (''user_expired'', True)"
| "experienceLifecycleReasonCode (LifecycleAction_other s) = ([], False)"

definition normalized_input :: "ExperienceLifecycleActionInput \<Rightarrow> ExperienceLifecycleActionInput" where
  "normalized_input input = input\<lparr>
     lai_ActorID := TrimSpace (lai_ActorID input),
     lai_Claims := (lai_Claims input)\<lparr>
       ltc_IssuedAt := time_UTC (ltc_IssuedAt (lai_Claims input)),
       ltc_ExpiresAt := time_UTC (ltc_ExpiresAt (lai_Claims input))\<rparr>,
     lai_OccurredAt := time_UTC (lai_OccurredAt input)\<rparr>"

text \<open>The transition the action stands for; \<open>None\<close> when hashing it panics.\<close>

definition action_transition ::
  "ExperienceLifecycleActionInput \<Rightarrow> LifecycleState \<Rightarrow> string \<Rightarrow> LifecycleTransition option" where
  "action_transition input toState reasonCode =
     (let t = \<lparr>lt_TransitionID = [], lt_Experience = ltc_Experience (lai_Claims input),
               lt_FromState = ltc_CurrentLifecycle (lai_Claims input), lt_ToState = toState,
               lt_ReasonCode = reasonCode, lt_ActorKind = ActorUser, lt_ActorID = lai_ActorID input,
               lt_OccurredAt = lai_OccurredAt input, lt_SourceEvidence = []\<rparr>
      in map_option (\<lambda>i. t\<lparr>lt_TransitionID := i\<rparr>) (LifecycleTransition_DeterministicID t))"

text \<open>Inside the transaction; \<open>now\<close> is the time it reads there.\<close>

definition apply_in_transaction ::
  "json_codec \<Rightarrow> gotime \<Rightarrow> registry \<Rightarrow> ExperienceLifecycleActionInput \<Rightarrow>
     LifecycleState \<Rightarrow> (LifecycleTransition \<times> registry) result" where
  "apply_in_transaction js now reg input toState =
     (let claims = lai_Claims input in
      if After now (ltc_ExpiresAt claims) then Inl ErrTokenExpired
      else if After (lai_OccurredAt input) now then Inl ErrTokenInvalid
      else case select_experience reg (ltc_Experience claims) of
          Inl ErrNoRows \<Rightarrow> Inl ErrActionStale
        | Inl e \<Rightarrow> Inl e
        | Inr stored \<Rightarrow>
          if xp_ExperienceID (st_Experience stored) \<noteq> xref_ExperienceID (ltc_Experience claims) \<or>
             xp_Version (st_Experience stored) \<noteq> xref_Version (ltc_Experience claims) \<or>
             scope_ProjectIdentity (xp_Scope (st_Experience stored)) \<noteq> ltc_ProjectIdentity claims \<or>
             xp_ContentHash (st_Experience stored) \<noteq> ltc_ContentHash claims \<or>
             st_CurrentLifecycle stored \<noteq> ltc_CurrentLifecycle claims
          then Inl ErrActionStale
          else case experienceLifecycleReasonCode (ltc_Action claims) of
              (_, False) \<Rightarrow> Inl ErrTokenInvalid
            | (reasonCode, True) \<Rightarrow>
              (case action_transition input toState reasonCode of
                 None \<Rightarrow> Inl (ErrContract (Panic ''json.Marshal failed''))
               | Some t \<Rightarrow>
                 (case prepareExperienceTransition js t of
                    Inl e \<Rightarrow> Inl e
                  | Inr plaintext \<Rightarrow>
                    (case appendExperienceTransitionTx (wall_ns now) reg t plaintext of
                       Inl e \<Rightarrow> Inl e
                     | Inr (inserted, reg') \<Rightarrow>
                       if inserted then Inr (t, reg') else Inl ErrActionStale))))"

text \<open>\<open>now\<close> is read before the transaction, \<open>transactionNow\<close> inside it.\<close>

definition ApplyExperienceLifecycleAction ::
  "json_codec \<Rightarrow> gotime \<Rightarrow> gotime \<Rightarrow> registry \<Rightarrow>
     ExperienceLifecycleActionInput \<Rightarrow> (LifecycleTransition \<times> registry) result" where
  "ApplyExperienceLifecycleAction js now transactionNow reg input0 =
     (let input = normalized_input input0; claims = lai_Claims input in
      if \<not> validExperienceLifecycleClaims claims \<or> lai_ActorID input = [] \<or>
         256 < length (lai_ActorID input) \<or> IsZero (lai_OccurredAt input) \<or>
         Before (lai_OccurredAt input) (ltc_IssuedAt claims) \<or>
         After (lai_OccurredAt input) (ltc_ExpiresAt claims)
      then Inl ErrTokenInvalid
      else if After now (ltc_ExpiresAt claims) then Inl ErrTokenExpired
      else if After (lai_OccurredAt input) now then Inl ErrTokenInvalid
      else case TransitionFrom (ltc_Action claims) (ltc_CurrentLifecycle claims) of
          (_, False) \<Rightarrow> Inl ErrTokenInvalid
        | (toState, True) \<Rightarrow> apply_in_transaction js transactionNow reg input toState)"

section \<open>What a registry can be\<close>

inductive registry_step :: "json_codec \<Rightarrow> registry \<Rightarrow> registry \<Rightarrow> bool" for js where
  candidate: "InsertExperienceCandidate js reg c = Inr (b, reg') \<Longrightarrow> registry_step js reg reg'"
| insert: "InsertExperience js reg v = Inr (b, reg') \<Longrightarrow> registry_step js reg reg'"
| append: "AppendExperienceTransition js now reg t = Inr (b, reg') \<Longrightarrow> registry_step js reg reg'"
| act: "ApplyExperienceLifecycleAction js now now' reg input = Inr (t, reg') \<Longrightarrow> registry_step js reg reg'"

definition empty_registry :: registry where
  "empty_registry = \<lparr>reg_Candidates = [], reg_Experiences = [], reg_Evidence = [], reg_Transitions = []\<rparr>"

end
