(* ===== verification/PathMatch.thy ===== *)
theory PathMatch
  imports Validators
begin

text \<open>
  \<open>internal/experience/pathmatch.go\<close>: path patterns with \<open>**\<close>, over a model of \<open>path.Match\<close> of the
  Go standard library as it is implemented (chunks between stars, leftmost match of a chunk after a
  star). The relation \<open>seg_match\<close> says what a pattern segment matches.
\<close>

section \<open>\<open>path.Match\<close>\<close>

fun strip_stars :: "string \<Rightarrow> string" where
  "strip_stars [] = []"
| "strip_stars (c # cs) = (if c = CHR ''*'' then strip_stars cs else c # cs)"

fun scan_body :: "bool \<Rightarrow> string \<Rightarrow> string \<times> string" where
  "scan_body inrange [] = ([], [])"
| "scan_body inrange [c] = (if c = CHR ''*'' \<and> \<not> inrange then ([], [c]) else ([c], []))"
| "scan_body inrange (c # d # cs) =
     (if c = CHR 0x5C then (let (a, b) = scan_body inrange cs in (c # d # a, b))
      else if c = CHR ''*'' \<and> \<not> inrange then ([], c # d # cs)
      else (let (a, b) = scan_body
              (if c = CHR ''['' then True else if c = CHR '']'' then False else inrange) (d # cs)
            in (c # a, b)))"

text \<open>\<open>scanChunk\<close>: is there a leading star, the chunk up to the next star, the rest.\<close>

definition scanChunk :: "string \<Rightarrow> bool \<times> string \<times> string" where
  "scanChunk pattern =
     (prefix ''*'' pattern, scan_body False (strip_stars pattern))"

text \<open>\<open>getEsc\<close>: one possibly escaped character of a class and what follows; \<open>None\<close> is ErrBadPattern.\<close>

definition getEsc :: "string \<Rightarrow> (nat \<times> string) option" where
  "getEsc chunk =
     (case chunk of [] \<Rightarrow> None
      | c # cs \<Rightarrow>
        (if c = CHR ''-'' \<or> c = CHR '']'' then None
         else
           let body = (if c = CHR 0x5C then cs else c # cs); (r, n) = DecodeRune body
           in if body = [] \<or> r = rune_error \<and> n = 1 \<or> drop n body = [] then None
              else Some (r, drop n body)))"

lemma getEsc_length: "getEsc chunk = Some (r, rest) \<Longrightarrow> length rest < length chunk"
proof -
  assume "getEsc chunk = Some (r, rest)"
  then obtain body n where b: "rest = drop n body" "body \<noteq> []" "snd (DecodeRune body) = n"
    "length body \<le> length chunk"
    by (auto simp: getEsc_def Let_def split: list.splits if_splits prod.splits)
  then have "0 < n" by (auto simp: DecodeRune_def split: list.splits)
  with b(2) have "length (drop n body) < length body" by (simp add: diff_less)
  then show ?thesis unfolding b(1) using b(4) by linarith
qed

text \<open>The ranges of a class, after \<open>[\<close> and \<open>^\<close>: was the rune in one of them, and what follows \<open>]\<close>.\<close>

function class_ranges :: "nat \<Rightarrow> bool \<Rightarrow> bool \<Rightarrow> string \<Rightarrow> (bool \<times> string) option" where
  "class_ranges r found matched chunk =
     (if chunk \<noteq> [] \<and> hd chunk = CHR '']'' \<and> found then Some (matched, tl chunk)
      else case getEsc chunk of None \<Rightarrow> None
        | Some (lo, rest) \<Rightarrow>
          (if hd rest = CHR ''-'' then
             (case getEsc (tl rest) of None \<Rightarrow> None
              | Some (hi, rest2) \<Rightarrow> class_ranges r True (matched \<or> lo \<le> r \<and> r \<le> hi) rest2)
           else class_ranges r True (matched \<or> lo \<le> r \<and> r \<le> lo) rest))"
  by pat_completeness auto
termination
  by (relation "measure (\<lambda>(r, found, matched, chunk). length chunk)")
    (auto dest!: getEsc_length)

declare class_ranges.simps [simp del]

lemma class_ranges_length:
  "class_ranges r found matched chunk = Some (m, rest) \<Longrightarrow> length rest < length chunk"
proof (induction r found matched chunk rule: class_ranges.induct)
  case (1 r found matched chunk)
  show ?case
  proof (cases "chunk \<noteq> [] \<and> hd chunk = CHR '']'' \<and> found")
    case True
    with "1.prems" show ?thesis
      by (cases chunk) (auto simp: class_ranges.simps [of r found] class_ranges.simps [of r True])
  next
    case False
    then obtain lo rest1 where e: "getEsc chunk = Some (lo, rest1)"
      using "1.prems" by (auto simp: class_ranges.simps [of r found] split: option.splits)
    note l = getEsc_length [OF e]
    show ?thesis
    proof (cases "hd rest1 = CHR ''-''")
      case True
      then obtain hi rest2 where h: "getEsc (tl rest1) = Some (hi, rest2)"
        using "1.prems" False e by (auto simp: class_ranges.simps [of r found] split: option.splits)
      with True "1.prems" False e have "length rest < length rest2"
        by (intro "1.IH"(1) [OF False e refl True h refl])
          (simp add: class_ranges.simps [of r found])
      with getEsc_length [OF h] l show ?thesis by simp
    next
      case no_range: False
      with "1.prems" False e have "length rest < length rest1"
        by (intro "1.IH"(2) [OF False e refl no_range])
          (simp add: class_ranges.simps [of r found])
      with l show ?thesis by simp
    qed
  qed
qed

datatype chunk_result = BadPattern | NoMatch | Matched string

text \<open>\<open>matchChunk\<close>: after a failure the pattern is still read to the end, to find it malformed.\<close>

function matchChunk :: "bool \<Rightarrow> string \<Rightarrow> string \<Rightarrow> chunk_result" where
  "matchChunk failed chunk s =
     (case chunk of
        [] \<Rightarrow> if failed then NoMatch else Matched s
      | c # cs \<Rightarrow>
        (let failed = (failed \<or> s = []) in
         if c = CHR ''['' then
           (let (r, n) = (if failed then (0, 0) else DecodeRune s);
                negated = (cs \<noteq> [] \<and> hd cs = CHR ''^'')
            in case class_ranges r False False (if negated then tl cs else cs) of
                 None \<Rightarrow> BadPattern
               | Some (m, rest) \<Rightarrow> matchChunk (failed \<or> m = negated) rest (drop n s))
         else if c = CHR ''?'' then
           (if failed then matchChunk True cs s
            else matchChunk (hd s = CHR ''/'') cs (drop (snd (DecodeRune s)) s))
         else if c = CHR 0x5C then
           (case cs of [] \<Rightarrow> BadPattern
            | d # ds \<Rightarrow> if failed then matchChunk True ds s
                       else matchChunk (d \<noteq> hd s) ds (tl s))
         else (if failed then matchChunk True cs s
               else matchChunk (c \<noteq> hd s) cs (tl s))))"
  by pat_completeness auto
termination
proof (relation "measure (\<lambda>(failed, chunk, s). length chunk)", goal_cases)
  case (2 failed chunk s c cs failed' x r n neg a m rest)
  then have "length rest < length (if neg then tl cs else cs)" by (auto dest!: class_ranges_length)
  also have "\<dots> \<le> length cs" by simp
  finally show ?case using 2 by simp
qed auto

declare matchChunk.simps [simp del]

text \<open>The loop that skips one byte after another for the star; \<open>final\<close>: no pattern is left.\<close>

fun star_scan :: "string \<Rightarrow> bool \<Rightarrow> string \<Rightarrow> chunk_result" where
  "star_scan chunk final [] = NoMatch"
| "star_scan chunk final (c # name) =
     (if c = CHR ''/'' then NoMatch
      else case matchChunk False chunk name of
          Matched t \<Rightarrow> if final \<and> t \<noteq> [] then star_scan chunk final name else Matched t
        | BadPattern \<Rightarrow> BadPattern
        | NoMatch \<Rightarrow> star_scan chunk final name)"

lemma strip_stars_length: "length (strip_stars p) \<le> length p"
  by (induction p) auto

lemma scan_body_append: "scan_body inrange p = (a, b) \<Longrightarrow> p = a @ b"
  by (induction inrange p arbitrary: a b rule: scan_body.induct)
    (auto split: if_splits prod.splits)

lemma scan_body_progress:
  "scan_body False p = (a, b) \<Longrightarrow> p \<noteq> [] \<Longrightarrow> hd p \<noteq> CHR ''*'' \<Longrightarrow> a \<noteq> []"
  by (cases "(False, p)" rule: scan_body.cases) (auto split: if_splits prod.splits)

lemma strip_stars_hd: "strip_stars p = [] \<or> hd (strip_stars p) \<noteq> CHR ''*''"
  by (induction p) auto

lemma scanChunk_length:
  assumes "scanChunk p = (star, chunk, rest)" "p \<noteq> []"
  shows "length rest < length p"
proof (cases "prefix ''*'' p")
  case True
  then have "length (strip_stars p) < length p"
    using strip_stars_length [of "tl p"] by (cases p) auto
  moreover have "length rest \<le> length (strip_stars p)"
    using assms scan_body_append [of False "strip_stars p" chunk rest] by (auto simp: scanChunk_def)
  ultimately show ?thesis by simp
next
  case False
  then have s: "strip_stars p = p" using assms(2) by (cases p) auto
  with assms have "chunk \<noteq> []" "p = chunk @ rest"
    using scan_body_progress [of p chunk rest] strip_stars_hd [of p] scan_body_append
    by (auto simp: scanChunk_def)
  then show ?thesis by simp
qed

text \<open>Before failing, the rest of the pattern is checked for syntax.\<close>

function rest_wellformed :: "string \<Rightarrow> bool" where
  "rest_wellformed pattern =
     (if pattern = [] then True
      else case scanChunk pattern of (star, chunk, rest) \<Rightarrow>
        (if matchChunk False chunk [] = BadPattern then False else rest_wellformed rest))"
  by pat_completeness auto
termination
  by (relation "measure length") (use scanChunk_length in \<open>auto, metis\<close>)

text \<open>\<open>path.Match\<close>; \<open>None\<close> is ErrBadPattern.\<close>

function path_Match :: "string \<Rightarrow> string \<Rightarrow> bool option" where
  "path_Match pattern name =
     (if pattern = [] then Some (name = [])
      else case scanChunk pattern of (star, chunk, rest) \<Rightarrow>
        (if star \<and> chunk = [] then Some (CHR ''/'' \<notin> set name)
         else
           let fail = (if rest_wellformed rest then Some False else None);
               retry = (if star then
                   (case star_scan chunk (rest = []) name of
                      Matched t \<Rightarrow> path_Match rest t
                    | BadPattern \<Rightarrow> None
                    | NoMatch \<Rightarrow> fail)
                 else fail)
           in case matchChunk False chunk name of
                Matched t \<Rightarrow> if t = [] \<or> rest \<noteq> [] then path_Match rest t else retry
              | BadPattern \<Rightarrow> None
              | NoMatch \<Rightarrow> retry))"
  by pat_completeness auto
termination
  by (relation "measure (\<lambda>(pattern, name). length pattern)") (use scanChunk_length in \<open>auto, metis+\<close>)

declare rest_wellformed.simps [simp del] path_Match.simps [simp del]

section \<open>Patterns over path segments\<close>

fun match_parts :: "string list \<Rightarrow> string list \<Rightarrow> bool" where
  "match_parts [] fs \<longleftrightarrow> fs = []"
| "match_parts (p # ps) [] \<longleftrightarrow> p = ''**'' \<and> match_parts ps []"
| "match_parts (p # ps) (f # fs) \<longleftrightarrow>
     (if p = ''**'' then match_parts ps (f # fs) \<or> match_parts (p # ps) fs
      else path_Match p f = Some True \<and> match_parts ps fs)"

definition RelativePathPatternMatches :: "string \<Rightarrow> string \<Rightarrow> bool" where
  "RelativePathPatternMatches pattern file =
     match_parts (split_on (CHR ''/'') pattern) (split_on (CHR ''/'') file)"

definition fileMatchesAnyRelativePathPattern :: "string \<Rightarrow> string list \<Rightarrow> bool" where
  "fileMatchesAnyRelativePathPattern file patterns =
     list_ex (\<lambda>pattern. RelativePathPatternMatches pattern file) patterns"

section \<open>What a segment pattern matches\<close>

text \<open>The specification, for patterns without classes and escapes (all that the validators accept).\<close>

inductive seg_match :: "string \<Rightarrow> string \<Rightarrow> bool" where
  seg_nil: "seg_match [] []"
| seg_star: "seg_match p s \<Longrightarrow> seg_match (CHR ''*'' # p) s"
| seg_more: "seg_match (CHR ''*'' # p) s \<Longrightarrow> c \<noteq> CHR ''/'' \<Longrightarrow> seg_match (CHR ''*'' # p) (c # s)"
| seg_any: "seg_match p (drop (snd (DecodeRune s)) s) \<Longrightarrow> s \<noteq> [] \<Longrightarrow> hd s \<noteq> CHR ''/'' \<Longrightarrow>
    seg_match (CHR ''?'' # p) s"
| seg_char: "seg_match p s \<Longrightarrow> c \<noteq> CHR ''*'' \<Longrightarrow> c \<noteq> CHR ''?'' \<Longrightarrow> seg_match (c # p) (c # s)"

inductive_cases seg_nilE: "seg_match [] s"
inductive_cases seg_starE: "seg_match (CHR ''*'' # p) s"
inductive_cases seg_consE: "seg_match (c # p) s"

definition simple_pattern :: "string \<Rightarrow> bool" where
  "simple_pattern p \<longleftrightarrow> CHR ''['' \<notin> set p \<and> CHR 0x5C \<notin> set p"

lemma simple_pattern_simps [simp]:
  "simple_pattern []"
  "simple_pattern (c # p) \<longleftrightarrow> c \<noteq> CHR ''['' \<and> c \<noteq> CHR 0x5C \<and> simple_pattern p"
  "simple_pattern (p @ q) \<longleftrightarrow> simple_pattern p \<and> simple_pattern q"
  by (auto simp: simple_pattern_def)

lemma pattern_character_simple: "list_all pattern_character p \<Longrightarrow> simple_pattern p"
  by (induction p) (auto simp: pattern_character_def Let_def byte_def)

lemma seg_match_nil [simp]: "seg_match [] s \<longleftrightarrow> s = []"
  by (auto intro: seg_nil elim: seg_nilE)

lemma seg_match_star:
  "seg_match (CHR ''*'' # p) s \<longleftrightarrow>
     (\<exists>i \<le> length s. CHR ''/'' \<notin> set (take i s) \<and> seg_match p (drop i s))"
proof
  assume "seg_match (CHR ''*'' # p) s"
  then show "\<exists>i \<le> length s. CHR ''/'' \<notin> set (take i s) \<and> seg_match p (drop i s)"
  proof (induction "CHR ''*'' # p" s rule: seg_match.induct)
    case (seg_star s)
    then show ?case by (intro exI [of _ 0]) simp
  next
    case (seg_more s c)
    then obtain i where "i \<le> length s" "CHR ''/'' \<notin> set (take i s)" "seg_match p (drop i s)"
      by blast
    with seg_more show ?case by (intro exI [of _ "Suc i"]) auto
  qed auto
next
  assume "\<exists>i \<le> length s. CHR ''/'' \<notin> set (take i s) \<and> seg_match p (drop i s)"
  then obtain i where "i \<le> length s" "CHR ''/'' \<notin> set (take i s)" "seg_match p (drop i s)" by blast
  then show "seg_match (CHR ''*'' # p) s"
  proof (induction i arbitrary: s)
    case 0
    then show ?case by (simp add: seg_star)
  next
    case (Suc i)
    then obtain c t where "s = c # t" by (cases s) auto
    with Suc show ?case by (auto intro: seg_more)
  qed
qed

section \<open>The chunks of a simple pattern\<close>

lemma scan_body_simple:
  "simple_pattern p \<Longrightarrow> CHR '']'' \<in> set p \<or> True \<Longrightarrow>
     scan_body False p = (takeWhile (\<lambda>c. c \<noteq> CHR ''*'') p, dropWhile (\<lambda>c. c \<noteq> CHR ''*'') p)"
  by (induction False p rule: scan_body.induct) (auto split: prod.splits)

definition star_free :: "string \<Rightarrow> bool" where
  "star_free p \<longleftrightarrow> CHR ''*'' \<notin> set p"

lemma star_free_simps [simp]:
  "star_free []" "star_free (c # p) \<longleftrightarrow> c \<noteq> CHR ''*'' \<and> star_free p"
  by (auto simp: star_free_def)

lemma strip_stars_suffix: "\<exists>n. p = replicate n (CHR ''*'') @ strip_stars p \<and> (0 < n \<longleftrightarrow> prefix ''*'' p)"
proof (induction p)
  case (Cons c p)
  then obtain n where n: "p = replicate n (CHR ''*'') @ strip_stars p" by blast
  show ?case
  proof (cases "c = CHR ''*''")
    case True
    with n show ?thesis by (intro exI [of _ "Suc n"]) simp
  next
    case False
    then show ?thesis by (intro exI [of _ 0]) auto
  qed
qed simp

lemma scanChunk_simple:
  assumes "scanChunk p = (star, chunk, rest)" "simple_pattern p"
  shows "\<exists>n. p = replicate n (CHR ''*'') @ chunk @ rest \<and> (0 < n \<longleftrightarrow> star)" "star_free chunk"
    "rest = [] \<or> hd rest = CHR ''*''" "simple_pattern chunk" "simple_pattern rest"
proof -
  obtain n where n: "p = replicate n (CHR ''*'') @ strip_stars p" "0 < n \<longleftrightarrow> prefix ''*'' p"
    using strip_stars_suffix [of p] by blast
  have sp: "simple_pattern (strip_stars p)" using n(1) assms(2) by (metis simple_pattern_simps(3))
  have b: "chunk = takeWhile (\<lambda>c. c \<noteq> CHR ''*'') (strip_stars p)"
    "rest = dropWhile (\<lambda>c. c \<noteq> CHR ''*'') (strip_stars p)" "star = prefix ''*'' p"
    using assms(1) scan_body_simple [OF sp] by (auto simp: scanChunk_def)
  then have cr: "strip_stars p = chunk @ rest" by simp
  with n b(3) show "\<exists>n. p = replicate n (CHR ''*'') @ chunk @ rest \<and> (0 < n \<longleftrightarrow> star)" by metis
  show "star_free chunk" unfolding b(1) star_free_def by (auto dest: set_takeWhileD)
  show "rest = [] \<or> hd rest = CHR ''*''" unfolding b(2) using hd_dropWhile by blast
  show "simple_pattern chunk" "simple_pattern rest" using sp cr by simp_all
qed

lemma seg_match_stars:
  "0 < n \<Longrightarrow> seg_match (replicate n (CHR ''*'') @ p) s \<longleftrightarrow> seg_match (CHR ''*'' # p) s"
proof (induction n arbitrary: s)
  case (Suc n)
  show ?case
  proof (cases "n = 0")
    case False
    with Suc.IH have IH: "seg_match (replicate n (CHR ''*'') @ p) t \<longleftrightarrow> seg_match (CHR ''*'' # p) t"
      for t by simp
    have "seg_match (CHR ''*'' # CHR ''*'' # p) s \<longleftrightarrow> seg_match (CHR ''*'' # p) s"
    proof
      assume "seg_match (CHR ''*'' # CHR ''*'' # p) s"
      then obtain i where i: "i \<le> length s" "CHR ''/'' \<notin> set (take i s)"
        "seg_match (CHR ''*'' # p) (drop i s)"
        by (auto simp: seg_match_star [of "CHR ''*'' # p"])
      from i show "seg_match (CHR ''*'' # p) s"
      proof (induction i arbitrary: s)
        case (Suc i)
        then obtain c t where "s = c # t" by (cases s) auto
        with Suc show ?case by (auto intro: seg_more)
      qed simp
    qed (rule seg_star)
    moreover have "seg_match (CHR ''*'' # replicate n (CHR ''*'') @ p) s \<longleftrightarrow>
        seg_match (CHR ''*'' # CHR ''*'' # p) s"
      by (simp add: seg_match_star [of "replicate n (CHR ''*'') @ p"]
          seg_match_star [of "CHR ''*'' # p"] IH)
    ultimately show ?thesis by simp
  qed simp
qed simp

lemma matchChunk_failed: "simple_pattern c \<Longrightarrow> matchChunk True c s = NoMatch"
  by (induction c arbitrary: s) (simp_all add: matchChunk.simps [of True])

lemma matchChunk_simple:
  assumes "simple_pattern (a # c)"
  shows "matchChunk False (a # c) s =
    (if s = [] then NoMatch
     else if a = CHR ''?'' then
       (if hd s = CHR ''/'' then NoMatch else matchChunk False c (drop (snd (DecodeRune s)) s))
     else if a \<noteq> hd s then NoMatch else matchChunk False c (tl s))"
  using assms by (simp add: matchChunk.simps [of False "a # c"] Let_def matchChunk_failed)

lemma matchChunk_Nil [simp]: "matchChunk False [] s = Matched s"
  by (simp add: matchChunk.simps)

lemma matchChunk_not_bad: "simple_pattern c \<Longrightarrow> matchChunk False c s \<noteq> BadPattern"
  by (induction c arbitrary: s) (simp_all add: matchChunk_simple)

lemma matchChunk_sound:
  "simple_pattern c \<Longrightarrow> star_free c \<Longrightarrow> matchChunk False c s = Matched t \<Longrightarrow> seg_match p t \<Longrightarrow>
     seg_match (c @ p) s"
proof (induction c arbitrary: s)
  case (Cons a c)
  then show ?case
  proof (cases s)
    case s: (Cons b s')
    show ?thesis
    proof (cases "a = CHR ''?''")
      case True
      with Cons s show ?thesis
        by (auto simp: matchChunk_simple split: if_splits intro!: seg_any)
    next
      case False
      with Cons s show ?thesis
        by (auto simp: matchChunk_simple split: if_splits intro!: seg_char)
    qed
  qed (simp add: matchChunk_simple)
qed simp

lemma star_scan_simple:
  assumes "simple_pattern c"
  shows "star_scan c final s \<noteq> BadPattern"
    and "star_scan c final s = Matched t \<Longrightarrow>
      \<exists>i \<le> length s. CHR ''/'' \<notin> set (take i s) \<and> matchChunk False c (drop i s) = Matched t \<and>
        (final \<longrightarrow> t = [])"
proof -
  show "star_scan c final s \<noteq> BadPattern"
    using matchChunk_not_bad [OF assms] by (induction s) (auto split: chunk_result.splits)
  show "star_scan c final s = Matched t \<Longrightarrow>
      \<exists>i \<le> length s. CHR ''/'' \<notin> set (take i s) \<and> matchChunk False c (drop i s) = Matched t \<and>
        (final \<longrightarrow> t = [])"
  proof (induction s)
    case (Cons a s)
    from Cons.prems have a: "a \<noteq> CHR ''/''" by (auto split: if_splits)
    show ?case
    proof (cases "star_scan c final s = Matched t")
      case True
      then obtain i where "i \<le> length s" "CHR ''/'' \<notin> set (take i s)"
        "matchChunk False c (drop i s) = Matched t" "final \<longrightarrow> t = []"
        using Cons.IH by blast
      with a show ?thesis by (intro exI [of _ "Suc i"]) auto
    next
      case False
      with Cons.prems a have "matchChunk False c s = Matched t" "final \<longrightarrow> t = []"
        by (auto split: chunk_result.splits if_splits)
      with a show ?thesis by (intro exI [of _ "Suc 0"]) auto
    qed
  qed simp
qed

lemma scan_sound:
  assumes "scanChunk p = (star, chunk, rest)" "simple_pattern p"
    and "matchChunk False chunk (drop i s) = Matched t" "seg_match rest t"
    and "i \<le> length s" "CHR ''/'' \<notin> set (take i s)" "i = 0 \<or> star"
  shows "seg_match p s"
proof -
  note sc = scanChunk_simple [OF assms(1,2)]
  obtain n where n: "p = replicate n (CHR ''*'') @ chunk @ rest" "0 < n \<longleftrightarrow> star" using sc(1) by blast
  have m: "seg_match (chunk @ rest) (drop i s)"
    using matchChunk_sound [OF sc(4,2) assms(3,4)] .
  show ?thesis
  proof (cases star)
    case True
    with n m assms(5,6) show ?thesis
      by (auto simp: seg_match_stars seg_match_star [of "chunk @ rest"])
  next
    case False
    with n m assms(7) show ?thesis by simp
  qed
qed

lemma path_Match_step:
  assumes "pattern \<noteq> []" "scanChunk pattern = (star, chunk, rest)" "\<not> (star \<and> chunk = [])"
    and "simple_pattern pattern" "path_Match pattern name = Some True"
  shows "\<exists>i t. i \<le> length name \<and> CHR ''/'' \<notin> set (take i name) \<and> (i = 0 \<or> star) \<and>
    matchChunk False chunk (drop i name) = Matched t \<and> path_Match rest t = Some True"
proof -
  note sc = scanChunk_simple [OF assms(2,4)]
  have retry: "\<exists>i t. i \<le> length name \<and> CHR ''/'' \<notin> set (take i name) \<and> (i = 0 \<or> star) \<and>
      matchChunk False chunk (drop i name) = Matched t \<and> path_Match rest t = Some True"
    if r: "(if star then (case star_scan chunk (rest = []) name of
             Matched t \<Rightarrow> path_Match rest t | BadPattern \<Rightarrow> None
           | NoMatch \<Rightarrow> (if rest_wellformed rest then Some False else None))
         else (if rest_wellformed rest then Some False else None)) = Some True"
  proof -
    from r have star by (auto split: if_splits)
    with r obtain t where "star_scan chunk (rest = []) name = Matched t" "path_Match rest t = Some True"
      by (auto split: chunk_result.splits if_splits)
    with \<open>star\<close> star_scan_simple(2) [OF sc(4), of "rest = []" name t] show ?thesis by blast
  qed
  show ?thesis
  proof (cases "\<exists>t. matchChunk False chunk name = Matched t \<and> (t = [] \<or> rest \<noteq> [])")
    case True
    then obtain t where "matchChunk False chunk name = Matched t" "t = [] \<or> rest \<noteq> []" by blast
    with assms show ?thesis
      by (intro exI [of _ 0] exI [of _ t]) (auto simp: path_Match.simps [of pattern])
  next
    case False
    with assms show ?thesis
      by (intro retry)
        (simp add: path_Match.simps [of pattern] Let_def split: chunk_result.splits if_splits)
  qed
qed

lemma path_Match_sound:
  "simple_pattern p \<Longrightarrow> path_Match p s = Some True \<Longrightarrow> seg_match p s"
proof (induction "length p" arbitrary: p s rule: less_induct)
  case less
  show ?case
  proof (cases "p = []")
    case True
    with less.prems show ?thesis by (simp add: path_Match.simps)
  next
    case False
    obtain star chunk rest where sc: "scanChunk p = (star, chunk, rest)" by (cases "scanChunk p")
    note simple = scanChunk_simple [OF sc less.prems(1)]
    show ?thesis
    proof (cases "star \<and> chunk = []")
      case True
      then have "rest = []"
        using simple(1,3) scan_body_progress [of "strip_stars p" chunk rest] strip_stars_hd [of p] sc
          scan_body_append [of False "strip_stars p" chunk rest]
        by (cases "strip_stars p = []") (auto simp: scanChunk_def)
      moreover have "CHR ''/'' \<notin> set s"
        using less.prems(2) sc True False by (simp add: path_Match.simps [of p])
      ultimately show ?thesis
        using True by (intro scan_sound [OF sc less.prems(1), of "length s" s "[]"]) auto
    next
      case c: False
      obtain i t where "i \<le> length s" "CHR ''/'' \<notin> set (take i s)" "i = 0 \<or> star"
        "matchChunk False chunk (drop i s) = Matched t" "path_Match rest t = Some True"
        using path_Match_step [OF False sc c less.prems] by blast
      moreover from this have "seg_match rest t"
        using less.hyps [of rest] scanChunk_length [OF sc False] simple(5) by blast
      ultimately show ?thesis using scan_sound [OF sc less.prems(1)] by blast
    qed
  qed
qed

section \<open>Nothing is missed on ASCII names\<close>

text \<open>
  On a name with bytes above 0x7F the star may stop inside a rune for the specification while the code
  takes the leftmost match of the next chunk, so completeness is stated for ASCII names.
\<close>

definition ascii_segment :: "string \<Rightarrow> bool" where
  "ascii_segment s \<longleftrightarrow> is_ascii s \<and> CHR ''/'' \<notin> set s"

fun fits :: "string \<Rightarrow> string \<Rightarrow> bool" where
  "fits [] s = True"
| "fits (c # cs) [] = False"
| "fits (c # cs) (d # ds) = ((c = CHR ''?'' \<or> c = d) \<and> fits cs ds)"

lemma ascii_segment_simps [simp]:
  "ascii_segment []" "ascii_segment (c # s) \<longleftrightarrow> byte c < 128 \<and> c \<noteq> CHR ''/'' \<and> ascii_segment s"
  by (auto simp: ascii_segment_def is_ascii_def)

lemma ascii_segment_drop [simp]: "ascii_segment s \<Longrightarrow> ascii_segment (drop i s)"
  by (auto simp: ascii_segment_def is_ascii_def list_all_iff dest: in_set_dropD)

lemma ascii_segment_take: "ascii_segment s \<Longrightarrow> CHR ''/'' \<notin> set (take i s)"
  by (auto simp: ascii_segment_def dest: in_set_takeD)

lemma DecodeRune_ascii: "byte c < 128 \<Longrightarrow> DecodeRune (c # s) = (byte c, 1)"
  by (simp add: DecodeRune_def)

lemma matchChunk_fits:
  "simple_pattern c \<Longrightarrow> ascii_segment s \<Longrightarrow>
     matchChunk False c s = (if fits c s then Matched (drop (length c) s) else NoMatch)"
proof (induction c s rule: fits.induct)
  case (3 c cs d ds)
  then show ?case by (auto simp: matchChunk_simple DecodeRune_ascii)
qed (auto simp: matchChunk_simple)

lemma seg_match_chunk:
  "star_free c \<Longrightarrow> ascii_segment s \<Longrightarrow> seg_match (c @ p) s \<Longrightarrow>
     fits c s \<and> seg_match p (drop (length c) s)"
proof (induction c s rule: fits.induct)
  case (2 c cs)
  then show ?case by (auto elim: seg_consE)
next
  case (3 c cs d ds)
  from "3.prems"(3) have "(c = CHR ''?'' \<or> c = d) \<and> seg_match (cs @ p) ds"
    using "3.prems"(1,2) by (auto elim!: seg_consE simp: DecodeRune_ascii)
  with 3 show ?case by auto
qed simp

lemma seg_match_star_mono:
  assumes "hd p = CHR ''*''" "p \<noteq> []" "seg_match p (drop j s)" "i \<le> j" "ascii_segment s"
  shows "seg_match p (drop i s)"
proof -
  from assms(1,2) obtain q where p: "p = CHR ''*'' # q" by (cases p) auto
  with assms(3) obtain k where k: "k \<le> length (drop j s)" "seg_match q (drop k (drop j s))"
    by (auto simp: seg_match_star)
  show ?thesis
  proof (cases "j \<le> length s")
    case True
    with k assms(4) have "k + (j - i) \<le> length (drop i s)" "seg_match q (drop (k + (j - i)) (drop i s))"
      by (simp_all add: add.commute add.left_commute)
    with assms(5) show ?thesis unfolding p seg_match_star
      by (meson ascii_segment_drop ascii_segment_take)
  next
    case False
    with k have "seg_match q (drop (length (drop i s)) (drop i s))" by simp
    with assms(5) show ?thesis unfolding p seg_match_star
      by (meson ascii_segment_drop ascii_segment_take order_refl)
  qed
qed

text \<open>A place where the chunk fits and the rest can still be matched.\<close>

definition good_place :: "string \<Rightarrow> bool \<Rightarrow> string \<Rightarrow> nat \<Rightarrow> bool" where
  "good_place c final s i \<longleftrightarrow>
     i \<le> length s \<and> fits c (drop i s) \<and> (final \<longrightarrow> drop (i + length c) s = [])"

lemma star_scan_place:
  assumes "simple_pattern c" "ascii_segment s"
  shows "star_scan c final s =
    (if \<exists>i \<ge> 1. good_place c final s i
     then Matched (drop ((LEAST i. 1 \<le> i \<and> good_place c final s i) + length c) s) else NoMatch)"
  using assms(2)
proof (induction s)
  case Nil
  then show ?case by (auto simp: good_place_def)
next
  case (Cons a s)
  have shift: "good_place c final (a # s) (Suc i) \<longleftrightarrow> good_place c final s i" for i
    by (simp add: good_place_def)
  show ?case
  proof (cases "good_place c final s 0")
    case True
    then have "(LEAST i. 1 \<le> i \<and> good_place c final (a # s) i) = 1"
      using shift [of 0] by (intro Least_equality) auto
    moreover have "\<exists>i \<ge> 1. good_place c final (a # s) i" using True shift [of 0] by auto
    moreover have "star_scan c final (a # s) = Matched (drop (length c) s)"
      using True Cons.prems matchChunk_fits [OF assms(1), of s] by (auto simp: good_place_def)
    ultimately show ?thesis by simp
  next
    case False
    then have step: "star_scan c final (a # s) = star_scan c final s"
      using Cons.prems matchChunk_fits [OF assms(1), of s] by (auto simp: good_place_def)
    have iff: "(\<exists>i \<ge> 1. good_place c final (a # s) i) \<longleftrightarrow> (\<exists>i \<ge> 1. good_place c final s i)"
    proof
      assume "\<exists>i \<ge> 1. good_place c final (a # s) i"
      then obtain i where "good_place c final s i" using shift by (metis One_nat_def Suc_le_D)
      with False show "\<exists>i \<ge> 1. good_place c final s i" by (cases i) auto
    next
      assume "\<exists>i \<ge> 1. good_place c final s i"
      then show "\<exists>i \<ge> 1. good_place c final (a # s) i" using shift by (metis One_nat_def Suc_le_mono le0)
    qed
    show ?thesis
    proof (cases "\<exists>i \<ge> 1. good_place c final s i")
      case True
      let ?P = "\<lambda>i. 1 \<le> i \<and> good_place c final s i"
      let ?Q = "\<lambda>i. 1 \<le> i \<and> good_place c final (a # s) i"
      from True obtain i where "?P i" by blast
      then have "?Q (Suc (LEAST i. ?P i))" using shift by (metis (mono_tags, lifting) LeastI Suc_le_mono le_Suc_eq)
      moreover have "Suc (LEAST i. ?P i) \<le> j" if "?Q j" for j
      proof (cases j)
        case (Suc k)
        with that shift have "good_place c final s k" by simp
        with False have "?P k" by (cases k) auto
        then have "(LEAST i. ?P i) \<le> k" by (rule Least_le)
        with Suc show ?thesis by simp
      qed (use that in simp)
      ultimately have "(LEAST i. ?Q i) = Suc (LEAST i. ?P i)" by (rule Least_equality)
      with step iff True Cons show ?thesis by simp
    next
      case none: False
      with Cons have "star_scan c final s = NoMatch" by simp
      with step have "star_scan c final (a # s) = NoMatch" by (simp only:)
      moreover have "\<not> (\<exists>i \<ge> 1. good_place c final (a # s) i)" using none iff by blast
      ultimately show ?thesis by (simp only: if_False)
    qed
  qed
qed

lemma good_place_rest:
  assumes "star_free c" "ascii_segment s" "i \<le> length s" "seg_match (c @ rest) (drop i s)"
    and "rest = [] \<or> hd rest = CHR ''*''"
  shows "good_place c (rest = []) s i"
    and "j \<le> i \<Longrightarrow> good_place c (rest = []) s j \<Longrightarrow> seg_match rest (drop (j + length c) s)"
proof -
  have m: "fits c (drop i s)" "seg_match rest (drop (length c) (drop i s))"
    using seg_match_chunk [OF assms(1) _ assms(4)] assms(2) by simp_all
  with assms(3) show "good_place c (rest = []) s i"
    by (auto simp: good_place_def add.commute)
  assume j: "j \<le> i" "good_place c (rest = []) s j"
  show "seg_match rest (drop (j + length c) s)"
  proof (cases "rest = []")
    case True
    with j(2) show ?thesis by (simp add: good_place_def)
  next
    case False
    have "seg_match rest (drop (i + length c) s)" using m(2) by (simp add: add.commute)
    moreover have "hd rest = CHR ''*''" using False assms(5) by simp
    ultimately show ?thesis
      using False assms(2) j(1) by (intro seg_match_star_mono [of rest "i + length c" s "j + length c"]) simp_all
  qed
qed

lemma path_Match_complete:
  "simple_pattern p \<Longrightarrow> ascii_segment s \<Longrightarrow> seg_match p s \<Longrightarrow> path_Match p s = Some True"
proof (induction "length p" arbitrary: p s rule: less_induct)
  case less
  show ?case
  proof (cases "p = []")
    case True
    with less.prems show ?thesis by (simp add: path_Match.simps)
  next
    case False
    obtain star c rest where sc: "scanChunk p = (star, c, rest)" by (cases "scanChunk p")
    note simple = scanChunk_simple [OF sc less.prems(1)]
    have IH: "seg_match rest (drop i s) \<Longrightarrow> path_Match rest (drop i s) = Some True" for i
      using less.hyps [of rest "drop i s"] scanChunk_length [OF sc False] simple(5) less.prems(2) by simp
    obtain n where n: "p = replicate n (CHR ''*'') @ c @ rest" "0 < n \<longleftrightarrow> star" using simple(1) by blast
    obtain i where i: "i \<le> length s" "seg_match (c @ rest) (drop i s)" "i = 0 \<or> star"
    proof (cases star)
      case True
      with n less.prems(3) have "seg_match (CHR ''*'' # c @ rest) s" by (simp add: seg_match_stars)
      with True that show ?thesis by (auto simp: seg_match_star)
    next
      case False
      with n less.prems(3) that [of 0] show ?thesis by simp
    qed
    note place = good_place_rest [OF simple(2) less.prems(2) i(1,2) simple(3)]
    have first: "matchChunk False c s = (if fits c s then Matched (drop (length c) s) else NoMatch)"
      by (rule matchChunk_fits [OF simple(4) less.prems(2)])
    show ?thesis
    proof (cases "star \<and> c = []")
      case True
      with sc False less.prems(2) show ?thesis
        by (simp add: path_Match.simps [of p] ascii_segment_def)
    next
      case c: False
      show ?thesis
      proof (cases "good_place c (rest = []) s 0")
        case True
        then have "path_Match rest (drop (length c) s) = Some True"
          using place(2) [of 0] IH [of "length c"] by simp
        with True first c sc False show ?thesis
          by (auto simp: path_Match.simps [of p] good_place_def)
      next
        case no0: False
        with place(1) have "1 \<le> i" by (cases i) auto
        with i(3) have star by simp
        let ?P = "\<lambda>j. 1 \<le> j \<and> good_place c (rest = []) s j"
        have P: "?P i" using \<open>1 \<le> i\<close> place(1) by simp
        then have least: "?P (LEAST j. ?P j)" "(LEAST j. ?P j) \<le> i"
          by (rule LeastI, rule Least_le)
        then have "path_Match rest (drop ((LEAST j. ?P j) + length c) s) = Some True"
          using place(2) IH by blast
        moreover have "star_scan c (rest = []) s = Matched (drop ((LEAST j. ?P j) + length c) s)"
          using P star_scan_place [OF simple(4) less.prems(2), of "rest = []"] by auto
        moreover have "\<not> (fits c s \<and> (drop (length c) s = [] \<or> rest \<noteq> []))"
          using no0 by (auto simp: good_place_def)
        ultimately show ?thesis
          using first c sc False \<open>star\<close> by (auto simp: path_Match.simps [of p] Let_def)
      qed
    qed
  qed
qed

section \<open>Patterns over paths\<close>

text \<open>The specification: \<open>**\<close> stands for any number of segments.\<close>

inductive parts_match :: "string list \<Rightarrow> string list \<Rightarrow> bool" where
  parts_nil: "parts_match [] []"
| parts_any: "parts_match ps (drop n fs) \<Longrightarrow> n \<le> length fs \<Longrightarrow> parts_match (''**'' # ps) fs"
| parts_seg: "seg_match p f \<Longrightarrow> p \<noteq> ''**'' \<Longrightarrow> parts_match ps fs \<Longrightarrow> parts_match (p # ps) (f # fs)"

inductive_cases parts_nilE: "parts_match [] fs"
inductive_cases parts_consE: "parts_match (p # ps) fs"

lemma match_parts_any: "match_parts (''**'' # ps) fs \<longleftrightarrow> (\<exists>n \<le> length fs. match_parts ps (drop n fs))"
proof (induction fs)
  case (Cons f fs)
  have "match_parts (''**'' # ps) (f # fs) \<longleftrightarrow>
      match_parts ps (f # fs) \<or> (\<exists>n \<le> length fs. match_parts ps (drop n fs))"
    using Cons by simp
  also have "\<dots> \<longleftrightarrow> (\<exists>n \<le> length (f # fs). match_parts ps (drop n (f # fs)))"
  proof
    assume "match_parts ps (f # fs) \<or> (\<exists>n \<le> length fs. match_parts ps (drop n fs))"
    then show "\<exists>n \<le> length (f # fs). match_parts ps (drop n (f # fs))"
      by (metis Suc_le_mono drop0 drop_Suc_Cons le0 length_Cons)
  next
    assume "\<exists>n \<le> length (f # fs). match_parts ps (drop n (f # fs))"
    then obtain n where n: "n \<le> length (f # fs)" "match_parts ps (drop n (f # fs))" by blast
    then show "match_parts ps (f # fs) \<or> (\<exists>n \<le> length fs. match_parts ps (drop n fs))"
      by (cases n) auto
  qed
  finally show ?case .
qed simp

lemma match_parts_sound:
  "\<forall>p \<in> set ps. simple_pattern p \<Longrightarrow> match_parts ps fs \<Longrightarrow> parts_match ps fs"
proof (induction ps arbitrary: fs)
  case Nil
  then show ?case by (simp add: parts_nil)
next
  case (Cons p ps)
  show ?case
  proof (cases "p = ''**''")
    case True
    with Cons show ?thesis by (auto simp: match_parts_any intro: parts_any)
  next
    case False
    with Cons show ?thesis by (cases fs) (auto intro: parts_seg path_Match_sound)
  qed
qed

lemma match_parts_complete:
  assumes "\<forall>p \<in> set ps. simple_pattern p" "\<forall>f \<in> set fs. ascii_segment f" "parts_match ps fs"
  shows "match_parts ps fs"
  using assms
proof (induction ps arbitrary: fs)
  case Nil
  then show ?case by (auto elim: parts_nilE)
next
  case (Cons p ps)
  show ?case
  proof (cases "p = ''**''")
    case True
    with Cons.prems(3) obtain n where n: "n \<le> length fs" "parts_match ps (drop n fs)"
      by (auto elim: parts_consE)
    moreover have "\<forall>f \<in> set (drop n fs). ascii_segment f" using Cons.prems(2) by (auto dest: in_set_dropD)
    ultimately have "match_parts ps (drop n fs)" using Cons by simp
    with n(1) True show ?thesis by (auto simp: match_parts_any)
  next
    case False
    with Cons.prems(3) obtain f fs' where f: "fs = f # fs'" "seg_match p f" "parts_match ps fs'"
      by (auto elim: parts_consE)
    with False Cons show ?thesis by (simp add: path_Match_complete)
  qed
qed

lemma validated_pattern_simple:
  "validateRelativePattern pattern = None \<Longrightarrow> p \<in> set (split_on (CHR ''/'') pattern) \<Longrightarrow> simple_pattern p"
  by (auto simp: validateRelativePattern_def validatePatternSegment_def check_simps
      intro: pattern_character_simple)

lemma set_join_with: "f \<in> set xs \<Longrightarrow> set f \<subseteq> set (join_with d xs)"
  by (induction d xs rule: join_with.induct) auto

lemma join_with_set: "c \<in> set (join_with d xs) \<Longrightarrow> c = d \<or> (\<exists>f \<in> set xs. c \<in> set f)"
  by (induction d xs rule: join_with.induct) auto

lemma set_split_on: "f \<in> set (split_on d s) \<Longrightarrow> set f \<subseteq> set s"
  using set_join_with [of f "split_on d s" d] by simp

lemma split_on_set: "c \<in> set s \<Longrightarrow> c = d \<or> (\<exists>f \<in> set (split_on d s). c \<in> set f)"
  using join_with_set [of c d "split_on d s"] by simp

lemma ascii_file_segments:
  "is_ascii file \<Longrightarrow> f \<in> set (split_on (CHR ''/'') file) \<Longrightarrow> ascii_segment f"
  using set_split_on [of f "CHR ''/''" "file"] split_on_segments
  unfolding ascii_segment_def is_ascii_def list_all_iff by blast

lemma validateRelativePattern_visible:
  assumes "visible v" "v \<noteq> []" "length v \<le> 512"
    and segs: "list_all (\<lambda>s. s \<noteq> [] \<and> s \<noteq> ''.'' \<and> s \<noteq> ''..'' \<and> list_all pattern_character s)
      (split_on (CHR ''/'') v)"
  shows "validateRelativePattern v = None"
proof -
  have "CHR 0x5C \<notin> set v"
  proof
    assume "CHR 0x5C \<in> set v"
    then obtain f where "f \<in> set (split_on (CHR ''/'') v)" "CHR 0x5C \<in> set f"
      using split_on_set [of "CHR 0x5C" v "CHR ''/''"] by auto
    with segs have "pattern_character (CHR 0x5C)" by (auto simp: list_all_iff)
    then show False by (simp add: pattern_character_def byte_def)
  qed
  moreover have "CHR 0x00 \<notin> set v"
    using assms(1) unfolding visible_def list_all_iff by (force simp: byte_def)
  moreover have "\<not> prefix ''/'' v"
  proof
    assume "prefix ''/'' v"
    then obtain t where "v = CHR ''/'' # t" by (auto simp: prefix_def)
    with segs show False by simp
  qed
  ultimately show ?thesis
    using assms by (auto simp: validateRelativePattern_def validatePatternSegment_def check_simps
        limit_defs list_all_iff)
qed



end
