(* ===== verification/Conflict.thy ===== *)
theory Conflict
  imports Lifecycle PathMatch Contracts
begin

text \<open>
  \<open>internal/experience/conflict.go\<close>: the preflight that compares a semantic proposal with the active
  experiences of its project. A Go \<open>map[T]bool\<close> used as a set is the list of the keys in the order of
  insertion; it is only read through the sorted, duplicate-free list of its keys.
\<close>

section \<open>Advisories\<close>

definition maxConflictExperienceRefs :: nat where "maxConflictExperienceRefs = 64"
definition maxConflictReasonCodes :: nat where "maxConflictReasonCodes = 16"

record ConflictAdvisory =
  adv_ProposalID :: string
  adv_State :: ConflictState
  adv_ConflictingExperienceRefs :: "ExperienceRef list"
  adv_ReasonCodes :: "ConflictReasonCode list"

definition no_advisory :: ConflictAdvisory where
  "no_advisory = \<lparr>adv_ProposalID = [], adv_State = ConflictState_other [],
     adv_ConflictingExperienceRefs = [], adv_ReasonCodes = []\<rparr>"

definition hasQueryCapReason :: "ConflictAdvisory \<Rightarrow> bool" where
  "hasQueryCapReason value \<longleftrightarrow> ConflictReasonActiveQueryCapReached \<in> set (adv_ReasonCodes value)"

definition ConflictAdvisory_Validate :: "ConflictAdvisory \<Rightarrow> check" where
  "ConflictAdvisory_Validate value = first_error
     [validateIdentifier ''conflict proposal ID'' (adv_ProposalID value),
      reject_if (\<not> ConflictState_Valid (adv_State value)) ''conflict state is invalid'',
      reject_if (maxConflictExperienceRefs < length (adv_ConflictingExperienceRefs value))
        ''conflicting experience references exceed item limit'',
      reject_if (adv_ReasonCodes value = [] \<or> maxConflictReasonCodes < length (adv_ReasonCodes value))
        ''conflict reason codes are required and bounded'',
      reject_if (adv_State value = ConflictNoConflict \<and> adv_ConflictingExperienceRefs value \<noteq> [])
        ''no-conflict advisory cannot cite conflicting experiences'',
      check_unique ExperienceRef_Validate ''conflicting experience references must be unique'' {}
        (adv_ConflictingExperienceRefs value),
      check_unique (\<lambda>reason. reject_if (\<not> ConflictReasonCode_Valid reason)
          ''conflict reason code is invalid'')
        ''conflict reason codes must be unique'' {} (adv_ReasonCodes value),
      reject_if (adv_State value = ConflictNoConflict \<and> hasQueryCapReason value)
        ''query-capped advisory cannot claim no conflict'',
      reject_if (adv_State value = ConflictPossibleOverlap \<and>
          adv_ConflictingExperienceRefs value = [] \<and> \<not> hasQueryCapReason value)
        ''reference-free possible overlap requires query-cap uncertainty'',
      reject_if (adv_State value = ConflictPossibleContradiction \<and>
          adv_ConflictingExperienceRefs value = [])
        ''possible contradiction requires a conflicting experience reference'']"

section \<open>Scopes\<close>

definition exactSetsDisjoint :: "'a list \<Rightarrow> 'a list \<Rightarrow> bool" where
  "exactSetsDisjoint left right =
     (if left = [] \<or> right = [] then False
      else list_all (\<lambda>value. value \<notin> set left) right)"

definition no_reason :: ConflictReasonCode where
  "no_reason = ConflictReasonCode_other []"

definition scopesProvenDisjoint :: "Scope \<Rightarrow> Scope \<Rightarrow> bool \<times> ConflictReasonCode" where
  "scopesProvenDisjoint left right =
     (if scope_ProjectIdentity left \<noteq> scope_ProjectIdentity right
      then (True, ConflictReasonDifferentProject)
      else if scope_Kind left = ScopeSession \<and> scope_Kind right = ScopeSession \<and>
          scope_SessionKey left \<noteq> scope_SessionKey right
      then (True, ConflictReasonDisjointSession)
      else if exactSetsDisjoint (scope_Harnesses left) (scope_Harnesses right)
      then (True, ConflictReasonDisjointHarnesses)
      else if exactSetsDisjoint (scope_Models left) (scope_Models right)
      then (True, ConflictReasonDisjointModels)
      else if exactSetsDisjoint (scope_TaskFamilies left) (scope_TaskFamilies right)
      then (True, ConflictReasonDisjointTaskFamilies)
      else (False, no_reason))"

section \<open>Opposed verifiers\<close>

text \<open>
  \<open>&&\<close> with a right operand that may dereference nil: \<open>None\<close> is the panic.
\<close>

definition and_then :: "bool \<Rightarrow> bool option \<Rightarrow> bool option" where
  "and_then b rest = (if b then rest else Some False)"

definition same_file :: "Verifier \<Rightarrow> Verifier \<Rightarrow> bool option" where
  "same_file a b = (case (ver_File a, ver_File b) of
      (Some f, Some g) \<Rightarrow> Some (fvs_Path f = fvs_Path g) | _ \<Rightarrow> None)"

definition file_in_patterns :: "Verifier \<Rightarrow> Verifier \<Rightarrow> bool option" where
  "file_in_patterns a b = (case (ver_File a, ver_PathPattern b) of
      (Some f, Some p) \<Rightarrow> Some (fileMatchesAnyRelativePathPattern (fvs_Path f) (pps_Patterns p))
    | _ \<Rightarrow> None)"

definition or_else :: "bool option \<Rightarrow> 'a \<Rightarrow> 'a option \<Rightarrow> 'a option" where
  "or_else test result rest =
     (case test of None \<Rightarrow> None | Some True \<Rightarrow> Some result | Some False \<Rightarrow> rest)"

definition verifierOpposition :: "Verifier \<Rightarrow> Verifier \<Rightarrow> (ConflictReasonCode \<times> bool) option" where
  "verifierOpposition left right =
     or_else (and_then (ver_Kind left = VerifierFileModified \<and> ver_Kind right = VerifierFileNotModified)
         (same_file left right)) (ConflictReasonFileVerifierOpposition, True)
     (or_else (and_then (ver_Kind right = VerifierFileModified \<and> ver_Kind left = VerifierFileNotModified)
         (same_file right left)) (ConflictReasonFileVerifierOpposition, True)
     (or_else (and_then (ver_Kind left = VerifierFileModified \<and>
           ver_Kind right = VerifierPathPatternNotModified) (file_in_patterns left right))
         (ConflictReasonPatternVerifierOpposition, True)
     (or_else (and_then (ver_Kind right = VerifierFileModified \<and>
           ver_Kind left = VerifierPathPatternNotModified) (file_in_patterns right left))
         (ConflictReasonPatternVerifierOpposition, True)
     (Some (no_reason, False)))))"

section \<open>The preflight\<close>

definition sortedConflictRefs :: "ExperienceRef list \<Rightarrow> ExperienceRef list" where
  "sortedConflictRefs values = sort_compact (\<lambda>r. r) values"

definition sortedConflictReasons :: "ConflictReasonCode list \<Rightarrow> ConflictReasonCode list" where
  "sortedConflictReasons values = sort_compact ConflictReasonCode_text values"

text \<open>The four variables the loop over the active experiences updates.\<close>

record preflight =
  pf_disjointReasons :: "ConflictReasonCode list"
  pf_conflictReasons :: "ConflictReasonCode list"
  pf_refs :: "ExperienceRef list"
  pf_contradiction :: bool

definition preflight_step :: "SemanticProposal \<Rightarrow> Experience \<Rightarrow> preflight \<Rightarrow> go_error + preflight" where
  "preflight_step proposal active p =
     (case wrap_error ''validate active experience for conflict preflight'' (Experience_Validate active) of
        Some e \<Rightarrow> Inl e
      | None \<Rightarrow>
        (case scopesProvenDisjoint (prop_Scope (semp_Proposal proposal)) (xp_Scope active) of
           (True, reason) \<Rightarrow> Inr (p\<lparr>pf_disjointReasons := pf_disjointReasons p @ [reason]\<rparr>)
         | (False, _) \<Rightarrow>
           (let p = p\<lparr>pf_refs := pf_refs p @ [ExperienceRef (xp_ExperienceID active) (xp_Version active)]\<rparr>
            in case verifierOpposition (prop_Verifier (semp_Proposal proposal)) (xp_Verifier active) of
                 None \<Rightarrow> Inl (Panic ''nil pointer dereference'')
               | Some (reason, True) \<Rightarrow> Inr (p\<lparr>pf_contradiction := True,
                   pf_conflictReasons := pf_conflictReasons p @ [reason]\<rparr>)
               | Some (_, False) \<Rightarrow> Inr (p\<lparr>pf_conflictReasons :=
                   pf_conflictReasons p @ [ConflictReasonOverlappingScope]\<rparr>))))"

fun preflight_loop ::
  "SemanticProposal \<Rightarrow> Experience list \<Rightarrow> preflight \<Rightarrow> go_error + preflight" where
  "preflight_loop proposal [] p = Inr p"
| "preflight_loop proposal (active # rest) p =
     (case preflight_step proposal active p of
        Inl e \<Rightarrow> Inl e
      | Inr p' \<Rightarrow> preflight_loop proposal rest p')"

text \<open>The result after the loop; \<open>result, result.Validate()\<close> is the pair of the two.\<close>

definition preflight_result :: "SemanticProposal \<Rightarrow> preflight \<Rightarrow> ConflictAdvisory" where
  "preflight_result proposal p =
     (if pf_refs p = [] then
        \<lparr>adv_ProposalID = semp_ProposalID proposal, adv_State = ConflictNoConflict,
         adv_ConflictingExperienceRefs = [], adv_ReasonCodes = sortedConflictReasons (pf_disjointReasons p)\<rparr>
      else
        let refs = sortedConflictRefs (pf_refs p); capped = (maxConflictExperienceRefs < length refs)
        in \<lparr>adv_ProposalID = semp_ProposalID proposal,
            adv_State = (if pf_contradiction p then ConflictPossibleContradiction
                         else ConflictPossibleOverlap),
            adv_ConflictingExperienceRefs = (if capped then take maxConflictExperienceRefs refs else refs),
            adv_ReasonCodes = sortedConflictReasons (pf_conflictReasons p @
              (if capped then [ConflictReasonExperienceRefsTruncated] else []))\<rparr>)"

definition PreflightSemanticProposalConflict ::
  "SemanticProposal \<Rightarrow> Experience list \<Rightarrow> ConflictAdvisory \<times> check" where
  "PreflightSemanticProposalConflict proposal activeExperiences =
     (case wrap_error ''validate semantic proposal for conflict preflight''
         (SemanticProposal_Validate proposal) of
        Some e \<Rightarrow> (no_advisory, Some e)
      | None \<Rightarrow>
        if activeExperiences = [] then
          (let result = \<lparr>adv_ProposalID = semp_ProposalID proposal, adv_State = ConflictNoConflict,
             adv_ConflictingExperienceRefs = [], adv_ReasonCodes = [ConflictReasonNoActiveExperiences]\<rparr>
           in (result, ConflictAdvisory_Validate result))
        else
          (case preflight_loop proposal activeExperiences
               \<lparr>pf_disjointReasons = [], pf_conflictReasons = [], pf_refs = [], pf_contradiction = False\<rparr> of
             Inl e \<Rightarrow> (no_advisory, Some e)
           | Inr p \<Rightarrow> (preflight_result proposal p,
               ConflictAdvisory_Validate (preflight_result proposal p))))"

definition MarkConflictActiveQueryCapReached :: "ConflictAdvisory \<Rightarrow> ConflictAdvisory \<times> check" where
  "MarkConflictActiveQueryCapReached value =
     (case ConflictAdvisory_Validate value of
        Some e \<Rightarrow> (no_advisory, Some e)
      | None \<Rightarrow>
        (let v1 = (if adv_State value = ConflictNoConflict
                   then value\<lparr>adv_State := ConflictPossibleOverlap\<rparr> else value);
             v2 = (if hasQueryCapReason value then v1
                   else v1\<lparr>adv_ReasonCodes := sort_key ConflictReasonCode_text
                     (adv_ReasonCodes value @ [ConflictReasonActiveQueryCapReached])\<rparr>)
         in (v2, ConflictAdvisory_Validate v2)))"

section \<open>Disjoint scopes\<close>

text \<open>The contexts a scope admits: an empty list of a scope does not restrict.\<close>

record task_context =
  tc_project :: string
  tc_session :: string
  tc_harness :: Harness
  tc_model :: string
  tc_family :: string

definition admits :: "Scope \<Rightarrow> task_context \<Rightarrow> bool" where
  "admits s c \<longleftrightarrow> tc_project c = scope_ProjectIdentity s \<and>
     (scope_Kind s = ScopeSession \<longrightarrow> tc_session c = scope_SessionKey s) \<and>
     (scope_Harnesses s = [] \<or> tc_harness c \<in> set (scope_Harnesses s)) \<and>
     (scope_Models s = [] \<or> tc_model c \<in> set (scope_Models s)) \<and>
     (scope_TaskFamilies s = [] \<or> tc_family c \<in> set (scope_TaskFamilies s))"

lemma exactSetsDisjoint_iff:
  "exactSetsDisjoint left right \<longleftrightarrow>
     \<not> (\<exists>x. (left = [] \<or> x \<in> set left) \<and> (right = [] \<or> x \<in> set right))"
proof (cases "left = [] \<or> right = []")
  case True
  then have "\<exists>x. (left = [] \<or> x \<in> set left) \<and> (right = [] \<or> x \<in> set right)"
    using list.set_sel(1) [of left] list.set_sel(1) [of right] by blast
  with True show ?thesis by (simp add: exactSetsDisjoint_def)
next
  case False
  then show ?thesis by (auto simp: exactSetsDisjoint_def list_all_iff)
qed

lemma scopesProvenDisjoint_fst:
  "fst (scopesProvenDisjoint l r) \<longleftrightarrow>
     scope_ProjectIdentity l \<noteq> scope_ProjectIdentity r \<or>
     scope_Kind l = ScopeSession \<and> scope_Kind r = ScopeSession \<and> scope_SessionKey l \<noteq> scope_SessionKey r \<or>
     exactSetsDisjoint (scope_Harnesses l) (scope_Harnesses r) \<or>
     exactSetsDisjoint (scope_Models l) (scope_Models r) \<or>
     exactSetsDisjoint (scope_TaskFamilies l) (scope_TaskFamilies r)"
  by (simp add: scopesProvenDisjoint_def)

lemma disjoint_iff_no_context:
  "fst (scopesProvenDisjoint l r) \<longleftrightarrow> \<not> (\<exists>c. admits l c \<and> admits r c)"
proof
  assume d: "fst (scopesProvenDisjoint l r)"
  show "\<not> (\<exists>c. admits l c \<and> admits r c)"
  proof
    assume "\<exists>c. admits l c \<and> admits r c"
    then obtain c where c: "admits l c" "admits r c" by blast
    then have "\<not> exactSetsDisjoint (scope_Harnesses l) (scope_Harnesses r)"
      "\<not> exactSetsDisjoint (scope_Models l) (scope_Models r)"
      "\<not> exactSetsDisjoint (scope_TaskFamilies l) (scope_TaskFamilies r)"
      unfolding exactSetsDisjoint_iff admits_def by blast+
    moreover have "scope_ProjectIdentity l = scope_ProjectIdentity r"
      "scope_Kind l = ScopeSession \<Longrightarrow> scope_Kind r = ScopeSession \<Longrightarrow>
         scope_SessionKey l = scope_SessionKey r"
      using c by (simp_all add: admits_def)
    ultimately show False using d unfolding scopesProvenDisjoint_fst by blast
  qed
next
  assume none: "\<not> (\<exists>c. admits l c \<and> admits r c)"
  show "fst (scopesProvenDisjoint l r)"
  proof (rule ccontr)
    assume n: "\<not> fst (scopesProvenDisjoint l r)"
    then have same: "scope_ProjectIdentity r = scope_ProjectIdentity l"
        "scope_Kind l = ScopeSession \<Longrightarrow> scope_Kind r = ScopeSession \<Longrightarrow>
           scope_SessionKey l = scope_SessionKey r"
      and sets: "\<not> exactSetsDisjoint (scope_Harnesses l) (scope_Harnesses r)"
        "\<not> exactSetsDisjoint (scope_Models l) (scope_Models r)"
        "\<not> exactSetsDisjoint (scope_TaskFamilies l) (scope_TaskFamilies r)"
      unfolding scopesProvenDisjoint_fst by simp_all
    from sets(1) obtain h where h: "scope_Harnesses l = [] \<or> h \<in> set (scope_Harnesses l)"
      "scope_Harnesses r = [] \<or> h \<in> set (scope_Harnesses r)"
      unfolding exactSetsDisjoint_iff by blast
    from sets(2) obtain m where m: "scope_Models l = [] \<or> m \<in> set (scope_Models l)"
      "scope_Models r = [] \<or> m \<in> set (scope_Models r)"
      unfolding exactSetsDisjoint_iff by blast
    from sets(3) obtain f where f: "scope_TaskFamilies l = [] \<or> f \<in> set (scope_TaskFamilies l)"
      "scope_TaskFamilies r = [] \<or> f \<in> set (scope_TaskFamilies r)"
      unfolding exactSetsDisjoint_iff by blast
    let ?c = "\<lparr>tc_project = scope_ProjectIdentity l,
        tc_session = (if scope_Kind l = ScopeSession then scope_SessionKey l else scope_SessionKey r),
        tc_harness = h, tc_model = m, tc_family = f\<rparr>"
    have "admits l ?c" using h(1) m(1) f(1) by (simp add: admits_def)
    moreover have "admits r ?c" using h(2) m(2) f(2) same by (simp add: admits_def)
    ultimately have "\<exists>c. admits l c \<and> admits r c" by blast
    with none show False by blast
  qed
qed

section \<open>The loop\<close>

definition overlaps :: "SemanticProposal \<Rightarrow> Experience \<Rightarrow> bool" where
  "overlaps p x \<longleftrightarrow> \<not> fst (scopesProvenDisjoint (prop_Scope (semp_Proposal p)) (xp_Scope x))"

definition opposed :: "SemanticProposal \<Rightarrow> Experience \<Rightarrow> bool" where
  "opposed p x \<longleftrightarrow>
     (\<exists>r. verifierOpposition (prop_Verifier (semp_Proposal p)) (xp_Verifier x) = Some (r, True))"

definition xp_ref :: "Experience \<Rightarrow> ExperienceRef" where
  "xp_ref x = ExperienceRef (xp_ExperienceID x) (xp_Version x)"

definition disjoint_reasons :: "ConflictReasonCode set" where
  "disjoint_reasons = {ConflictReasonDifferentProject, ConflictReasonDisjointSession,
     ConflictReasonDisjointHarnesses, ConflictReasonDisjointModels, ConflictReasonDisjointTaskFamilies}"

definition conflict_reasons :: "ConflictReasonCode set" where
  "conflict_reasons = {ConflictReasonOverlappingScope, ConflictReasonFileVerifierOpposition,
     ConflictReasonPatternVerifierOpposition}"

lemma disjoint_reason:
  "scopesProvenDisjoint l r = (True, reason) \<Longrightarrow> reason \<in> disjoint_reasons"
  by (auto simp: scopesProvenDisjoint_def disjoint_reasons_def split: if_splits)

lemma opposition_reason:
  "verifierOpposition l r = Some (reason, True) \<Longrightarrow> reason \<in> conflict_reasons"
  by (auto simp: verifierOpposition_def or_else_def conflict_reasons_def
      split: option.splits bool.splits)

lemma opposition_total:
  assumes "has_its_spec l" "has_its_spec r"
  shows "verifierOpposition l r \<noteq> None"
  using has_its_spec_cases(2,3) [OF assms(1)] has_its_spec_cases(2,3) [OF assms(2)]
  by (auto simp: verifierOpposition_def or_else_def and_then_def same_file_def file_in_patterns_def
      split: option.splits bool.splits)

text \<open>What the loop has computed after a list of valid experiences.\<close>

definition preflight_inv :: "SemanticProposal \<Rightarrow> Experience list \<Rightarrow> preflight \<Rightarrow> bool" where
  "preflight_inv proposal done p \<longleftrightarrow>
     set (pf_refs p) = xp_ref ` {x \<in> set done. overlaps proposal x} \<and>
     (pf_contradiction p \<longleftrightarrow> (\<exists>x \<in> set done. overlaps proposal x \<and> opposed proposal x)) \<and>
     set (pf_disjointReasons p) \<subseteq> disjoint_reasons \<and>
     (pf_disjointReasons p = [] \<longleftrightarrow> (\<forall>x \<in> set done. overlaps proposal x)) \<and>
     set (pf_conflictReasons p) \<subseteq> conflict_reasons \<and>
     (pf_conflictReasons p = [] \<longleftrightarrow> pf_refs p = [])"

lemma preflight_step_inv:
  assumes inv: "preflight_inv proposal xs p"
    and valid: "Experience_Validate active = None" "has_its_spec (prop_Verifier (semp_Proposal proposal))"
  shows "\<exists>p'. preflight_step proposal active p = Inr p' \<and> preflight_inv proposal (xs @ [active]) p'"
proof -
  obtain d reason where sd:
    "scopesProvenDisjoint (prop_Scope (semp_Proposal proposal)) (xp_Scope active) = (d, reason)"
    by (cases "scopesProvenDisjoint (prop_Scope (semp_Proposal proposal)) (xp_Scope active)") auto
  show ?thesis
  proof (cases d)
    case True
    with sd have "\<not> overlaps proposal active" "reason \<in> disjoint_reasons"
      by (auto simp: overlaps_def dest: disjoint_reason)
    with inv sd True valid(1) show ?thesis
      by (auto simp: preflight_step_def preflight_inv_def)
  next
    case False
    with sd have ov: "overlaps proposal active" by (simp add: overlaps_def)
    have "has_its_spec (xp_Verifier active)"
      using experience_valid_parts(2) [OF valid(1)] by (rule verifier_valid_spec)
    then obtain r b where vo:
      "verifierOpposition (prop_Verifier (semp_Proposal proposal)) (xp_Verifier active) = Some (r, b)"
      using opposition_total [OF valid(2)] by fastforce
    then have ob: "opposed proposal active \<longleftrightarrow> b" "b \<Longrightarrow> r \<in> conflict_reasons"
      by (auto simp: opposed_def dest: opposition_reason)
    let ?p = "p\<lparr>pf_refs := pf_refs p @ [xp_ref active]\<rparr>"
    let ?q = "if b then ?p\<lparr>pf_contradiction := True, pf_conflictReasons := pf_conflictReasons p @ [r]\<rparr>
      else ?p\<lparr>pf_conflictReasons := pf_conflictReasons p @ [ConflictReasonOverlappingScope]\<rparr>"
    have "preflight_step proposal active p = Inr ?q"
      using sd False valid(1) vo
      by (cases b) (simp_all add: preflight_step_def xp_ref_def)
    moreover have "preflight_inv proposal (xs @ [active]) ?q"
    proof -
      have refs: "xp_ref ` {x \<in> set (xs @ [active]). overlaps proposal x} =
          insert (xp_ref active) (xp_ref ` {x \<in> set xs. overlaps proposal x})"
        using ov by auto
      have con: "(\<exists>x \<in> set (xs @ [active]). overlaps proposal x \<and> opposed proposal x) \<longleftrightarrow>
          (\<exists>x \<in> set xs. overlaps proposal x \<and> opposed proposal x) \<or> b"
        using ov ob(1) by auto
      have all: "(\<forall>x \<in> set (xs @ [active]). overlaps proposal x) \<longleftrightarrow> (\<forall>x \<in> set xs. overlaps proposal x)"
        using ov by auto
      from inv ob(2) show ?thesis
        unfolding preflight_inv_def refs con all
        by (cases b) (simp_all add: conflict_reasons_def)
    qed
    ultimately show ?thesis by blast
  qed
qed

lemma preflight_loop_inv:
  assumes "preflight_inv proposal xs p" "\<forall>x \<in> set ys. Experience_Validate x = None"
    and "has_its_spec (prop_Verifier (semp_Proposal proposal))"
  shows "\<exists>p'. preflight_loop proposal ys p = Inr p' \<and> preflight_inv proposal (xs @ ys) p'"
  using assms(1,2)
proof (induction ys arbitrary: xs p)
  case (Cons y ys)
  have y: "Experience_Validate y = None" using Cons.prems(2) by simp
  obtain p1 where p1: "preflight_step proposal y p = Inr p1" "preflight_inv proposal (xs @ [y]) p1"
    using preflight_step_inv [OF Cons.prems(1) y assms(3)] by blast
  obtain p' where "preflight_loop proposal ys p1 = Inr p'" "preflight_inv proposal ((xs @ [y]) @ ys) p'"
    using Cons.IH [OF p1(2)] Cons.prems(2) by auto
  with p1 show ?case by simp
qed simp

lemma preflight_start:
  "preflight_inv proposal []
     \<lparr>pf_disjointReasons = [], pf_conflictReasons = [], pf_refs = [], pf_contradiction = False\<rparr>"
  by (simp add: preflight_inv_def)

section \<open>Results\<close>

lemma reason_list_bounded:
  assumes "distinct rs" "\<forall>r \<in> set rs. ConflictReasonCode_Valid r"
  shows "length rs \<le> 11"
proof -
  let ?all = "[ConflictReasonNoActiveExperiences, ConflictReasonDifferentProject,
    ConflictReasonDisjointSession, ConflictReasonDisjointHarnesses, ConflictReasonDisjointModels,
    ConflictReasonDisjointTaskFamilies, ConflictReasonOverlappingScope,
    ConflictReasonFileVerifierOpposition, ConflictReasonPatternVerifierOpposition,
    ConflictReasonExperienceRefsTruncated, ConflictReasonActiveQueryCapReached]"
  have "set rs \<subseteq> set ?all"
    using assms(2) by (auto elim: ConflictReasonCode_Valid.elims)
  then have "card (set rs) \<le> card (set ?all)" by (rule card_mono [rotated]) simp
  also have "\<dots> \<le> length ?all" by (rule card_length)
  finally show ?thesis using assms(1) by (simp add: distinct_card)
qed

lemma valid_text_inj:
  assumes "\<forall>r \<in> R. ConflictReasonCode_Valid r"
  shows "inj_on ConflictReasonCode_text R"
  using assms ConflictReasonCode_enum.of_text by (metis inj_onI)

lemma sorted_reasons:
  assumes "\<forall>r \<in> set rs. ConflictReasonCode_Valid r"
  shows "set (sortedConflictReasons rs) = set rs" "distinct (sortedConflictReasons rs)"
    "sortedConflictReasons rs = [] \<longleftrightarrow> rs = []"
proof -
  have sub: "set (sortedConflictReasons rs) \<subseteq> set rs"
    unfolding sortedConflictReasons_def by (rule sort_compact_subset)
  have "ConflictReasonCode_text ` set (sortedConflictReasons rs) = ConflictReasonCode_text ` set rs"
    unfolding sortedConflictReasons_def by (rule sort_compact_keys)
  with sub show "set (sortedConflictReasons rs) = set rs"
    using inj_on_image_eq_iff [OF valid_text_inj [OF assms], of "set (sortedConflictReasons rs)" "set rs"]
    by simp
  show "distinct (sortedConflictReasons rs)"
    using sort_compact_sorted [of ConflictReasonCode_text rs] strict_sorted_iff
    unfolding sortedConflictReasons_def by (metis distinct_map sorted_wrt_map)
  show "sortedConflictReasons rs = [] \<longleftrightarrow> rs = []" by (simp add: sortedConflictReasons_def)
qed

lemma sorted_refs:
  "set (sortedConflictRefs rs) = set rs" "distinct (sortedConflictRefs rs)" "sorted (sortedConflictRefs rs)"
  "sortedConflictRefs rs = [] \<longleftrightarrow> rs = []"
  unfolding sortedConflictRefs_def
  using sort_compact_id_set sort_compact_id_distinct sorted_wrt_less_sorted [OF sort_compact_sorted [of "\<lambda>r. r" rs]]
  by auto

lemma reasons_valid: "r \<in> disjoint_reasons \<union> conflict_reasons \<Longrightarrow> ConflictReasonCode_Valid r"
  "r \<in> disjoint_reasons \<union> conflict_reasons \<Longrightarrow> r \<noteq> ConflictReasonActiveQueryCapReached"
  by (auto simp: disjoint_reasons_def conflict_reasons_def)

lemma proposal_id_valid:
  assumes "SemanticProposal_Validate p = None"
  shows "validateIdentifier name (semp_ProposalID p) = None"
proof -
  from assms have "SemanticProposal_DeterministicID p = Some (semp_ProposalID p)"
    by (simp add: SemanticProposal_Validate_def check_simps)
  then have "is_identifier_of ''exs_'' (semp_ProposalID p)"
    unfolding SemanticProposal_DeterministicID_def by (rule deterministicID_shape)
  then show ?thesis by (rule identifier_valid) simp_all
qed

lemma proposal_verifier_spec:
  "SemanticProposal_Validate p = None \<Longrightarrow> has_its_spec (prop_Verifier (semp_Proposal p))"
  by (rule verifier_valid_spec) (simp add: SemanticProposal_Validate_def ExperienceProposal_Validate_def check_simps)

lemma preflight_run:
  assumes "SemanticProposal_Validate p = None" "\<forall>x \<in> set xs. Experience_Validate x = None" "xs \<noteq> []"
  obtains pf where "preflight_inv p xs pf"
    "PreflightSemanticProposalConflict p xs =
       (preflight_result p pf, ConflictAdvisory_Validate (preflight_result p pf))"
proof -
  obtain pf where "preflight_loop p xs \<lparr>pf_disjointReasons = [], pf_conflictReasons = [], pf_refs = [],
      pf_contradiction = False\<rparr> = Inr pf" "preflight_inv p ([] @ xs) pf"
    using preflight_loop_inv [OF preflight_start assms(2) proposal_verifier_spec [OF assms(1)]] by blast
  with assms that show ?thesis by (simp add: PreflightSemanticProposalConflict_def)
qed

lemma preflight_result_valid:
  assumes p: "SemanticProposal_Validate p = None" and xs: "\<forall>x \<in> set xs. Experience_Validate x = None"
    and inv: "preflight_inv p xs pf" and ne: "xs \<noteq> []"
  shows "ConflictAdvisory_Validate (preflight_result p pf) = None"
proof (cases "pf_refs pf = []")
  case True
  with inv ne have d: "set (pf_disjointReasons pf) \<subseteq> disjoint_reasons" "pf_disjointReasons pf \<noteq> []"
    by (auto simp: preflight_inv_def)
  then have v: "\<forall>r \<in> set (pf_disjointReasons pf). ConflictReasonCode_Valid r"
    using reasons_valid(1) by blast
  note s = sorted_reasons [OF v]
  have "length (sortedConflictReasons (pf_disjointReasons pf)) \<le> 11"
    using reason_list_bounded s v by blast
  moreover have "ConflictReasonActiveQueryCapReached \<notin> set (pf_disjointReasons pf)"
    using d reasons_valid(2) by blast
  ultimately show ?thesis
    using True s v d(2) proposal_id_valid [OF p]
    by (simp add: ConflictAdvisory_Validate_def check_simps preflight_result_def hasQueryCapReason_def
        maxConflictReasonCodes_def)
next
  case False
  let ?refs = "sortedConflictRefs (pf_refs pf)"
  let ?cited = "if maxConflictExperienceRefs < length ?refs then take maxConflictExperienceRefs ?refs else ?refs"
  let ?rs = "pf_conflictReasons pf @
    (if maxConflictExperienceRefs < length ?refs then [ConflictReasonExperienceRefsTruncated] else [])"
  from inv False have c: "set (pf_conflictReasons pf) \<subseteq> conflict_reasons" "pf_conflictReasons pf \<noteq> []"
    by (auto simp: preflight_inv_def)
  then have v: "\<forall>r \<in> set ?rs. ConflictReasonCode_Valid r"
    using reasons_valid(1) by auto
  note s = sorted_reasons [OF v]
  have b: "length (sortedConflictReasons ?rs) \<le> 11" using reason_list_bounded s v by blast
  have "\<forall>r \<in> set ?refs. ExperienceRef_Validate r = None"
    using inv xs experience_valid_parts(1) by (auto simp: preflight_inv_def sorted_refs xp_ref_def)
  then have cited: "\<forall>r \<in> set ?cited. ExperienceRef_Validate r = None" "distinct ?cited" "?cited \<noteq> []"
    "length ?cited \<le> maxConflictExperienceRefs"
    using sorted_refs [of "pf_refs pf"] False
    by (auto dest: in_set_takeD simp: maxConflictExperienceRefs_def)
  have res: "preflight_result p pf = \<lparr>adv_ProposalID = semp_ProposalID p,
      adv_State = (if pf_contradiction pf then ConflictPossibleContradiction else ConflictPossibleOverlap),
      adv_ConflictingExperienceRefs = ?cited, adv_ReasonCodes = sortedConflictReasons ?rs\<rparr>"
    using False by (simp add: preflight_result_def Let_def)
  show ?thesis
    unfolding res ConflictAdvisory_Validate_def
    using cited b s(2) c(2) v proposal_id_valid [OF p]
    by (simp add: check_simps maxConflictReasonCodes_def s(1,3) del: length_take)
qed

lemma overlaps_iff: "overlaps p x \<longleftrightarrow>
    (\<exists>c. admits (prop_Scope (semp_Proposal p)) c \<and> admits (xp_Scope x) c)"
  by (simp add: overlaps_def disjoint_iff_no_context)

text \<open>Scopes are called disjoint exactly when they cannot meet. The pairwise test of the code
  (project, session, harnesses, models, task families; an empty list does not restrict) answers
  disjoint if and only if no task context is admitted by both scopes, so a preflight never clears a
  proposal that could apply together with an active experience, and never blames one that could not.
  Repository paths are not compared, which can only add overlaps.\<close>

theorem disjoint_scopes_never_meet:
  "fst (scopesProvenDisjoint l r) \<longleftrightarrow> \<not> (\<exists>c. admits l c \<and> admits r c)"
  by (rule disjoint_iff_no_context)


lemma opposed_samples: "overlaps (semantic0 verifier_modified) (experience0 verifier_untouched)"
  "opposed (semantic0 verifier_modified) (experience0 verifier_untouched)"
  by (simp_all add: overlaps_def scopesProvenDisjoint_def exactSetsDisjoint_def scope0_def opposed_def
      verifierOpposition_def or_else_def and_then_def same_file_def verifier_modified_def
      verifier_untouched_def no_verifier_def)


text \<open>Opposition is symmetric and harmless to evaluate: for verifiers that validate, comparing them
  never dereferences a missing specification, and the answer does not depend on which of the two belongs
  to the proposal.\<close>

theorem opposition_total_and_symmetric:
  assumes "Verifier_Validate l = None" and "Verifier_Validate r = None"
  shows "verifierOpposition l r \<noteq> None \<and> verifierOpposition l r = verifierOpposition r l"
proof -
  have s: "has_its_spec l" "has_its_spec r" using assms verifier_valid_spec by blast+
  show ?thesis
    using opposition_total [OF s] has_its_spec_cases(2,3) [OF s(1)] has_its_spec_cases(2,3) [OF s(2)]
    by (cases "ver_Kind l"; cases "ver_Kind r")
      (auto simp: verifierOpposition_def or_else_def and_then_def same_file_def)
qed

theorem opposition_total_and_symmetric_witness:
  "verifierOpposition verifier_modified verifier_untouched =
     verifierOpposition verifier_untouched verifier_modified"
  using opposition_total_and_symmetric [of verifier_modified verifier_untouched] by simp

text \<open>Marking an advisory as cut off by the query cap is safe: the marked advisory validates, keeps
  every cited experience and every reason, names the cap, never says no conflict, keeps a contradiction
  a contradiction, and marking it again changes nothing.\<close>

theorem query_cap_mark_sound:
  assumes "ConflictAdvisory_Validate v = None"
  shows "\<exists>w. MarkConflictActiveQueryCapReached v = (w, None) \<and> ConflictAdvisory_Validate w = None \<and>
    adv_State w \<noteq> ConflictNoConflict \<and>
    (adv_State w = ConflictPossibleContradiction \<longleftrightarrow> adv_State v = ConflictPossibleContradiction) \<and>
    adv_ConflictingExperienceRefs w = adv_ConflictingExperienceRefs v \<and>
    set (adv_ReasonCodes w) = insert ConflictReasonActiveQueryCapReached (set (adv_ReasonCodes v)) \<and>
    MarkConflictActiveQueryCapReached w = (w, None)"
proof -
  define u where "u = (if adv_State v = ConflictNoConflict then v\<lparr>adv_State := ConflictPossibleOverlap\<rparr> else v)"
  define w where "w = (if hasQueryCapReason v then u
    else u\<lparr>adv_ReasonCodes := sort_key ConflictReasonCode_text
      (adv_ReasonCodes v @ [ConflictReasonActiveQueryCapReached])\<rparr>)"
  have fields: "adv_ProposalID w = adv_ProposalID v"
    "adv_ConflictingExperienceRefs w = adv_ConflictingExperienceRefs v"
    "adv_State w = (if adv_State v = ConflictNoConflict then ConflictPossibleOverlap else adv_State v)"
    "mset (adv_ReasonCodes w) = mset (adv_ReasonCodes v @
       (if hasQueryCapReason v then [] else [ConflictReasonActiveQueryCapReached]))"
    by (simp_all add: w_def u_def)
  have rs: "set (adv_ReasonCodes w) = insert ConflictReasonActiveQueryCapReached (set (adv_ReasonCodes v))"
    by (auto simp: w_def u_def hasQueryCapReason_def)
  have "distinct (adv_ReasonCodes v @ (if hasQueryCapReason v then [] else [ConflictReasonActiveQueryCapReached]))"
    using assms by (auto simp: ConflictAdvisory_Validate_def check_simps hasQueryCapReason_def)
  then have d: "distinct (adv_ReasonCodes w)" using fields(4) by (metis mset_eq_imp_distinct_iff)
  have valid: "\<forall>r \<in> set (adv_ReasonCodes w). ConflictReasonCode_Valid r"
    using assms rs by (auto simp: ConflictAdvisory_Validate_def check_simps)
  have cap: "hasQueryCapReason w" using rs by (simp add: hasQueryCapReason_def)
  have v: "ConflictAdvisory_Validate w = None"
    using assms d valid cap reason_list_bounded [OF d valid] rs
    by (auto simp: ConflictAdvisory_Validate_def check_simps fields(1-3) maxConflictReasonCodes_def)
  have mark: "MarkConflictActiveQueryCapReached v = (w, None)"
    using assms v unfolding MarkConflictActiveQueryCapReached_def Let_def u_def [symmetric]
      w_def [symmetric] by simp
  have "MarkConflictActiveQueryCapReached w = (w, None)"
    using v cap fields(3) by (simp add: MarkConflictActiveQueryCapReached_def Let_def)
  with mark v fields rs show ?thesis by (intro exI [of _ w]) auto
qed

theorem query_cap_mark_sound_witness:
  "\<exists>w. MarkConflictActiveQueryCapReached \<lparr>adv_ProposalID = ''p'', adv_State = ConflictNoConflict,
      adv_ConflictingExperienceRefs = [], adv_ReasonCodes = [ConflictReasonNoActiveExperiences]\<rparr> = (w, None) \<and>
    adv_State w \<noteq> ConflictNoConflict"
proof -
  have "ConflictAdvisory_Validate \<lparr>adv_ProposalID = ''p'', adv_State = ConflictNoConflict,
      adv_ConflictingExperienceRefs = [], adv_ReasonCodes = [ConflictReasonNoActiveExperiences]\<rparr> = None"
    by (simp add: ConflictAdvisory_Validate_def check_simps maxConflictReasonCodes_def hasQueryCapReason_def)
  from query_cap_mark_sound [OF this] show ?thesis by blast
qed

end
