(* ===== verification/Approval.thy ===== *)
theory Approval
  imports Conflict
begin

text \<open>
  \<open>internal/experience/approval.go\<close>: the claims of an approval token and the rules for approving an
  edited proposal. \<open>reflect.DeepEqual\<close> on normal forms is equality: each side is built by the same
  normalisation, so empty slices are nil on both sides or on neither.
\<close>

section \<open>Approval tokens\<close>

definition ApprovalTokenVersion :: string where
  "ApprovalTokenVersion = ''belay.experience-approval-token.v1''"

record ApprovalTokenClaims =
  atc_Version :: string
  atc_CandidateID :: string
  atc_ProposalID :: string
  atc_ProjectIdentity :: string
  atc_SemanticInputHash :: string
  atc_ProposedContentHash :: string
  atc_EvidenceGeneration :: string
  atc_IssuedAt :: gotime
  atc_ExpiresAt :: gotime

text \<open>
  The code ranges over a map of three identifiers, in an unspecified order; which error is reported
  when several are invalid depends on it, whether the claims are accepted does not.
\<close>

definition ApprovalTokenClaims_Validate :: "ApprovalTokenClaims \<Rightarrow> check" where
  "ApprovalTokenClaims_Validate value = first_error
     [reject_if (atc_Version value \<noteq> ApprovalTokenVersion) ''experience approval token version is invalid'',
      check_each (\<lambda>(name, identifier). validateIdentifier (''experience approval '' @ name) identifier)
        [(''candidate ID'', atc_CandidateID value), (''proposal ID'', atc_ProposalID value),
         (''project identity'', atc_ProjectIdentity value)],
      reject_if (\<not> validSHA256 (atc_SemanticInputHash value) \<or>
          \<not> validSHA256 (atc_ProposedContentHash value) \<or> \<not> validSHA256 (atc_EvidenceGeneration value))
        ''experience approval token hashes must be sha256'',
      reject_if (IsZero (atc_IssuedAt value) \<or> IsZero (atc_ExpiresAt value) \<or>
          \<not> After (atc_ExpiresAt value) (atc_IssuedAt value))
        ''experience approval token time window is invalid'']"

section \<open>Narrowing\<close>

definition narrowedComparableSet :: "'a list \<Rightarrow> 'a list \<Rightarrow> bool \<times> bool" where
  "narrowedComparableSet original approved =
     (if original = [] then (True, approved \<noteq> [])
      else if approved = [] then (False, False)
      else if \<not> list_all (\<lambda>value. value \<in> set original) approved then (False, False)
      else (True, length approved < length original))"

definition narrowedExpiry :: "gotime option \<Rightarrow> gotime option \<Rightarrow> bool" where
  "narrowedExpiry original approved =
     (case original of None \<Rightarrow> True
      | Some limit \<Rightarrow> (case approved of None \<Rightarrow> False | Some a \<Rightarrow> \<not> After a limit))"

text \<open>The loop over the comparisons: an error at the first invalid one, else was one of them strict.\<close>

fun narrow_lists :: "(bool \<times> bool) list \<Rightarrow> bool option" where
  "narrow_lists [] = Some False"
| "narrow_lists ((valid, strict) # rest) =
     (if \<not> valid then None else map_option (\<lambda>s. strict \<or> s) (narrow_lists rest))"

definition non_scope_edit :: "ExperienceProposal \<Rightarrow> ExperienceProposal \<Rightarrow> bool" where
  "non_scope_edit original approved =
     (let originalScope = normalizedScope (prop_Scope original);
          approvedScope = normalizedScope (prop_Scope approved);
          originalApplicability = normalizedApplicability (prop_Applicability original);
          approvedApplicability = normalizedApplicability (prop_Applicability approved)
      in prop_Type approved \<noteq> prop_Type original \<or>
         scope_Kind approvedScope \<noteq> scope_Kind originalScope \<or>
         scope_ProjectIdentity approvedScope \<noteq> scope_ProjectIdentity originalScope \<or>
         scope_SessionKey approvedScope \<noteq> scope_SessionKey originalScope \<or>
         normalizedGuidance (prop_Guidance approved) \<noteq> normalizedGuidance (prop_Guidance original) \<or>
         normalizedVerifier (prop_Verifier approved) \<noteq> normalizedVerifier (prop_Verifier original) \<or>
         appl_SemanticDescription approvedApplicability \<noteq> appl_SemanticDescription originalApplicability \<or>
         appl_DeterministicConditions approvedApplicability \<noteq>
           appl_DeterministicConditions originalApplicability \<or>
         appl_Exclusions approvedApplicability \<noteq> appl_Exclusions originalApplicability)"

definition scope_comparisons :: "Scope \<Rightarrow> Scope \<Rightarrow> (bool \<times> bool) list" where
  "scope_comparisons original approved =
     [narrowedComparableSet (scope_RepositoryPaths original) (scope_RepositoryPaths approved),
      narrowedComparableSet (scope_TaskFamilies original) (scope_TaskFamilies approved),
      narrowedComparableSet (scope_Models original) (scope_Models approved),
      narrowedComparableSet (scope_Harnesses original) (scope_Harnesses approved)]"

definition validateNarrowedProposal :: "ExperienceProposal \<Rightarrow> ExperienceProposal \<Rightarrow> check" where
  "validateNarrowedProposal original approved =
     (if non_scope_edit original approved
      then Some (Err ''narrowed approval contains a non-scope edit'')
      else case narrow_lists (scope_comparisons (normalizedScope (prop_Scope original))
             (normalizedScope (prop_Scope approved))) of
          None \<Rightarrow> Some (Err ''narrowed approval broadens a scope list'')
        | Some strictlyNarrower \<Rightarrow> first_error
            [reject_if (\<not> narrowedExpiry
                 (appl_ExpiresAt (normalizedApplicability (prop_Applicability original)))
                 (appl_ExpiresAt (normalizedApplicability (prop_Applicability approved))))
               ''narrowed approval broadens applicability expiration'',
             reject_if (\<not> strictlyNarrower)
               ''narrowed approval must restrict at least one scope list''])"

text \<open>The two hashes are compared; computing either one may panic.\<close>

definition ValidateApprovedProposal ::
  "ExperienceProposal \<Rightarrow> ExperienceProposal \<Rightarrow> ApprovalMode \<Rightarrow> check" where
  "ValidateApprovedProposal original approved mode = first_error
     [reject_if (mode \<noteq> ApprovalNarrowed \<and> mode \<noteq> ApprovalUserEdited)
        ''edited experience approval mode is invalid'',
      ExperienceProposal_Validate approved,
      reject_if (prop_SemanticCompilationPending approved)
        ''approved experience cannot remain pending compilation'',
      reject_if (scope_ProjectIdentity (prop_Scope approved) \<noteq> scope_ProjectIdentity (prop_Scope original))
        ''approved experience project identity must remain unchanged'',
      if mode = ApprovalUserEdited then
        (case (ExperienceProposal_CanonicalContentHash approved,
               ExperienceProposal_CanonicalContentHash original) of
           (Some new, Some old) \<Rightarrow> reject_if (new = old) ''user-edited approval must change experience content''
         | _ \<Rightarrow> Some (Panic ''json.Marshal failed''))
      else validateNarrowedProposal original approved]"

section \<open>Lists\<close>

text \<open>What a list restricts: an empty one nothing.\<close>

definition allowed :: "'a list \<Rightarrow> 'a set" where
  "allowed xs = (if xs = [] then UNIV else set xs)"

lemma narrowed_set_valid:
  "fst (narrowedComparableSet original approved) \<longleftrightarrow>
     allowed approved \<subseteq> allowed original \<and> (original \<noteq> [] \<longrightarrow> approved \<noteq> [])"
  by (auto simp: narrowedComparableSet_def allowed_def list_all_iff)

lemma narrowed_set_trans:
  assumes "fst (narrowedComparableSet a b)" "fst (narrowedComparableSet b c)" "distinct b" "distinct c"
  shows "fst (narrowedComparableSet a c)"
    and "snd (narrowedComparableSet a b) \<or> snd (narrowedComparableSet b c) \<Longrightarrow>
      snd (narrowedComparableSet a c)"
proof -
  have sub: "b \<noteq> [] \<Longrightarrow> set c \<subseteq> set b \<and> c \<noteq> []"
    using assms(2) by (auto simp: narrowedComparableSet_def list_all_iff split: if_splits)
  have len: "b \<noteq> [] \<Longrightarrow> length c \<le> length b"
    using sub assms(3,4) by (metis card_mono distinct_card finite_set)
  have "a \<noteq> [] \<Longrightarrow> set b \<subseteq> set a"
    using assms(1) by (auto simp: narrowedComparableSet_def list_all_iff split: if_splits)
  then have len2: "a \<noteq> [] \<Longrightarrow> length b \<le> length a"
    using assms(3) card_mono [of "set a" "set b"] card_length [of a] distinct_card [of b] by simp
  show "fst (narrowedComparableSet a c)"
    using assms(1,2) by (auto simp: narrowedComparableSet_def list_all_iff split: if_splits)
  show "snd (narrowedComparableSet a b) \<or> snd (narrowedComparableSet b c) \<Longrightarrow>
      snd (narrowedComparableSet a c)"
    using assms(1,2) sub len len2
    by (cases "a = []"; cases "b = []"; cases "c = []")
      (auto simp: narrowedComparableSet_def list_all_iff split: if_splits)
qed

section \<open>What an accepted edit can be\<close>

lemma normalized_scope_distinct:
  "distinct (scope_RepositoryPaths (normalizedScope s))" "distinct (scope_TaskFamilies (normalizedScope s))"
  "distinct (scope_Models (normalizedScope s))" "distinct (scope_Harnesses (normalizedScope s))"
proof -
  have "distinct (map Harness_text (sort_compact Harness_text (scope_Harnesses s)))"
    using sort_compact_sorted [of Harness_text "scope_Harnesses s"] strict_sorted_iff sorted_wrt_map by metis
  then have "distinct (sort_compact Harness_text (scope_Harnesses s))" using distinct_map by blast
  then show "distinct (scope_RepositoryPaths (normalizedScope s))"
    "distinct (scope_TaskFamilies (normalizedScope s))" "distinct (scope_Models (normalizedScope s))"
    "distinct (scope_Harnesses (normalizedScope s))"
    by (simp_all add: normalizedScope_def normalizedStrings_distinct)
qed

definition admits_path :: "Scope \<Rightarrow> string \<Rightarrow> bool" where
  "admits_path s f \<longleftrightarrow> scope_RepositoryPaths s = [] \<or>
     fileMatchesAnyRelativePathPattern f (scope_RepositoryPaths s)"

definition narrows :: "ExperienceProposal \<Rightarrow> ExperienceProposal \<Rightarrow> bool" where
  "narrows original approved \<longleftrightarrow> validateNarrowedProposal original approved = None"

definition lists_narrowed :: "ExperienceProposal \<Rightarrow> ExperienceProposal \<Rightarrow> bool \<times> bool" where
  "lists_narrowed original approved =
     (let cs = scope_comparisons (normalizedScope (prop_Scope original))
          (normalizedScope (prop_Scope approved))
      in (list_all fst cs, list_ex snd cs))"

lemma narrow_lists_eq:
  "narrow_lists cs = (if list_all fst cs then Some (list_ex snd cs) else None)"
  by (induction cs rule: narrow_lists.induct) auto

lemma narrows_iff:
  "narrows original approved \<longleftrightarrow> \<not> non_scope_edit original approved \<and>
     lists_narrowed original approved = (True, True) \<and>
     narrowedExpiry (appl_ExpiresAt (normalizedApplicability (prop_Applicability original)))
       (appl_ExpiresAt (normalizedApplicability (prop_Applicability approved)))"
  unfolding narrows_def validateNarrowedProposal_def narrow_lists_eq lists_narrowed_def Let_def
  by (simp add: check_simps conj_ac)

lemma in_allowed: "xs = [] \<or> x \<in> set xs \<longleftrightarrow> x \<in> allowed xs"
  by (simp add: allowed_def)

lemma narrows_contexts:
  assumes "narrows original approved"
  shows "admits (normalizedScope (prop_Scope approved)) c \<Longrightarrow> admits (normalizedScope (prop_Scope original)) c"
    and "admits_path (normalizedScope (prop_Scope approved)) f \<Longrightarrow>
      admits_path (normalizedScope (prop_Scope original)) f"
proof -
  let ?o = "normalizedScope (prop_Scope original)" and ?a = "normalizedScope (prop_Scope approved)"
  have sub: "allowed (scope_RepositoryPaths ?a) \<subseteq> allowed (scope_RepositoryPaths ?o)"
    "scope_RepositoryPaths ?o \<noteq> [] \<Longrightarrow> scope_RepositoryPaths ?a \<noteq> []"
    "allowed (scope_TaskFamilies ?a) \<subseteq> allowed (scope_TaskFamilies ?o)"
    "allowed (scope_Models ?a) \<subseteq> allowed (scope_Models ?o)"
    "allowed (scope_Harnesses ?a) \<subseteq> allowed (scope_Harnesses ?o)"
    using assms unfolding narrows_iff lists_narrowed_def scope_comparisons_def Let_def
    by (simp_all add: narrowed_set_valid)
  have same: "scope_Kind ?a = scope_Kind ?o" "scope_ProjectIdentity ?a = scope_ProjectIdentity ?o"
    "scope_SessionKey ?a = scope_SessionKey ?o"
    using assms unfolding narrows_iff non_scope_edit_def Let_def by simp_all
  show "admits ?a c \<Longrightarrow> admits ?o c"
    unfolding admits_def same in_allowed using sub(3-5) by blast
  show "admits_path ?a f \<Longrightarrow> admits_path ?o f"
    using sub(1,2)
    by (auto simp: admits_path_def fileMatchesAnyRelativePathPattern_def list_ex_iff allowed_def
        split: if_splits)
qed


definition narrower0 :: ExperienceProposal where
  "narrower0 = (proposal0 verifier_modified)\<lparr>prop_Scope := scope0\<lparr>scope_TaskFamilies := [''ui'']\<rparr>\<rparr>"

lemma singletons [simp]: "sort_compact key [] = []" "sort_compact key [x] = [x]"
  by (simp_all add: sort_compact_def)

lemma narrower0_accepted:
  "ValidateApprovedProposal (proposal0 verifier_modified) narrower0 ApprovalNarrowed = None"
proof -
  have n: "normalizedStrings [] = []" "normalizedStrings [''ui''] = [''ui'']"
    by (simp_all add: normalizedStrings_def)
  have two: "normalizedStrings [''api'', ''ui''] \<noteq> []" "set (normalizedStrings [''api'', ''ui'']) = {''api'', ''ui''}"
    "length (normalizedStrings [''api'', ''ui'']) = 2"
  proof -
    show s: "set (normalizedStrings [''api'', ''ui'']) = {''api'', ''ui''}"
      by (simp add: normalizedStrings_set)
    then show "normalizedStrings [''api'', ''ui''] \<noteq> []" by (metis empty_not_insert set_empty)
    show "length (normalizedStrings [''api'', ''ui'']) = 2"
      using s distinct_card [OF normalizedStrings_distinct [of "[''api'', ''ui'']"]] by simp
  qed
  have sc: "Scope_Validate (scope0\<lparr>scope_TaskFamilies := [''ui'']\<rparr>) = None"
    by (simp add: Scope_Validate_def scope0_def check_simps limit_defs check_each_def)
  have "ExperienceProposal_Validate narrower0 = None"
    using sc by (simp add: ExperienceProposal_Validate_def narrower0_def check_simps)
  moreover have "narrows (proposal0 verifier_modified) narrower0"
    unfolding narrows_iff
    using n two
    by (simp add: non_scope_edit_def narrower0_def lists_narrowed_def scope_comparisons_def
        normalizedScope_def scope0_def narrowedComparableSet_def narrowedExpiry_def normalizedApplicability_def)
  moreover have "scope_ProjectIdentity (prop_Scope narrower0) = ''p''"
    "\<not> prop_SemanticCompilationPending narrower0"
    by (simp_all add: narrower0_def scope0_def)
  ultimately show ?thesis by (simp add: ValidateApprovedProposal_def check_simps narrows_def)
qed


lemma lists_narrowed_trans:
  assumes "lists_narrowed p q = (True, True)" "lists_narrowed q r = (True, True)"
  shows "lists_narrowed p r = (True, True)"
proof -
  let ?n = "\<lambda>x. normalizedScope (prop_Scope x)"
  note d = normalized_scope_distinct [of "prop_Scope q"] normalized_scope_distinct [of "prop_Scope r"]
  have all: "fst (narrowedComparableSet (scope_RepositoryPaths (?n p)) (scope_RepositoryPaths (?n q)))"
    "fst (narrowedComparableSet (scope_TaskFamilies (?n p)) (scope_TaskFamilies (?n q)))"
    "fst (narrowedComparableSet (scope_Models (?n p)) (scope_Models (?n q)))"
    "fst (narrowedComparableSet (scope_Harnesses (?n p)) (scope_Harnesses (?n q)))"
    "fst (narrowedComparableSet (scope_RepositoryPaths (?n q)) (scope_RepositoryPaths (?n r)))"
    "fst (narrowedComparableSet (scope_TaskFamilies (?n q)) (scope_TaskFamilies (?n r)))"
    "fst (narrowedComparableSet (scope_Models (?n q)) (scope_Models (?n r)))"
    "fst (narrowedComparableSet (scope_Harnesses (?n q)) (scope_Harnesses (?n r)))"
    using assms by (simp_all add: lists_narrowed_def Let_def scope_comparisons_def)
  note t = narrowed_set_trans [OF all(1,5) d(1,5)] narrowed_set_trans [OF all(2,6) d(2,6)]
    narrowed_set_trans [OF all(3,7) d(3,7)] narrowed_set_trans [OF all(4,8) d(4,8)]
  have "list_ex snd (scope_comparisons (?n p) (?n q))"
    using assms by (simp add: lists_narrowed_def Let_def)
  then have "list_ex snd (scope_comparisons (?n p) (?n r))"
    using t(2,4,6,8) unfolding scope_comparisons_def by auto
  then show ?thesis
    using t(1,3,5,7) by (simp add: lists_narrowed_def Let_def scope_comparisons_def)
qed

text \<open>Narrowing is a strict partial order: no proposal narrows itself, and narrowing a narrowed
  proposal once more narrows the original; repeated approvals can only shrink where an experience
  applies.\<close>

theorem narrowing_strict_order:
  "\<not> narrows p p \<and> (narrows p q \<longrightarrow> narrows q r \<longrightarrow> narrows p r)"
proof (intro conjI impI)
  show "\<not> narrows p p"
    by (auto simp: narrows_iff lists_narrowed_def scope_comparisons_def narrowedComparableSet_def)
next
  assume n: "narrows p q" "narrows q r"
  have "\<not> non_scope_edit p r"
    using n unfolding narrows_iff non_scope_edit_def Let_def by simp
  moreover have "narrowedExpiry (appl_ExpiresAt (normalizedApplicability (prop_Applicability p)))
      (appl_ExpiresAt (normalizedApplicability (prop_Applicability r)))"
    using n unfolding narrows_iff
    by (auto simp: narrowedExpiry_def normalizedApplicability_def After_def time_cmp_key_def utcTime_def
        split: option.splits)
  moreover have "lists_narrowed p r = (True, True)"
    using lists_narrowed_trans n unfolding narrows_iff by blast
  ultimately show "narrows p r" unfolding narrows_iff by blast
qed

theorem narrowing_strict_order_witness: "narrows (proposal0 verifier_modified) narrower0 \<and>
    \<not> narrows (proposal0 verifier_modified) (proposal0 verifier_modified)"
  using narrowing_strict_order [of "proposal0 verifier_modified"] narrower0_accepted
  by (simp add: ValidateApprovedProposal_def check_simps narrows_def)

text \<open>A user edit must change what is hashed: an edited proposal whose type and whose normal forms of
  scope, applicability, guidance and verifier are the original's (so that only white space, the order or
  the repetition of list items, or fields outside the content differ) is never accepted as user-edited.\<close>

theorem user_edit_must_change_content:
  assumes "prop_Type approved = prop_Type original"
    and "normalizedScope (prop_Scope approved) = normalizedScope (prop_Scope original)"
    and "normalizedApplicability (prop_Applicability approved) =
      normalizedApplicability (prop_Applicability original)"
    and "normalizedGuidance (prop_Guidance approved) = normalizedGuidance (prop_Guidance original)"
    and "normalizedVerifier (prop_Verifier approved) = normalizedVerifier (prop_Verifier original)"
  shows "ValidateApprovedProposal original approved ApprovalUserEdited \<noteq> None"
  using assms
  by (auto simp: ValidateApprovedProposal_def check_simps ExperienceProposal_CanonicalContentHash_def
      content_payload_def split: option.splits)

theorem user_edit_must_change_content_witness:
  "ValidateApprovedProposal (proposal0 verifier_modified)
     ((proposal0 verifier_modified)\<lparr>prop_Scope := scope0\<lparr>scope_TaskFamilies := [''ui'', ''api'', ''ui'']\<rparr>,
        prop_Confidence := None\<rparr>) ApprovalUserEdited \<noteq> None"
proof (rule user_edit_must_change_content)
  have "normalizedStrings [''ui'', ''api'', ''ui''] = normalizedStrings [''api'', ''ui'']"
    by (auto simp: normalizedStrings_eq_iff)
  then show "normalizedScope (prop_Scope ((proposal0 verifier_modified)
     \<lparr>prop_Scope := scope0\<lparr>scope_TaskFamilies := [''ui'', ''api'', ''ui'']\<rparr>, prop_Confidence := None\<rparr>)) =
     normalizedScope (prop_Scope (proposal0 verifier_modified))"
    by (simp add: normalizedScope_def scope0_def)
qed simp_all

end
