(* ===== verification/SemanticStore.thy ===== *)
theory SemanticStore
  imports RegistryStore Approval
begin

text \<open>
  The semantic proposals and decisions beside the registry
  (\<open>internal/storage/local/experience_semantic_repository.go\<close>), and the review actions table they share a
  store with. As in \<open>RegistryStore\<close> a table is the list of its rows, sealing is inverted by opening, and an
  operation that fails leaves the store as it was. \<open>INSERT ... ON CONFLICT(source) DO NOTHING\<close> evaluates the
  CHECKs first, then looks for the source and then for the primary key; the CHECK on the length of the
  sealed payload is modelled because the size limit of the code does not imply it.
\<close>

section \<open>Tables\<close>

datatype store_error =
    ErrRegistry reg_error | ErrSemanticProposalConflict | ErrSemanticResultConflict
  | ErrApprovalStale | ErrApprovalConflict | ErrApprovalInvalidContent go_error
  | ErrApprovalTokenInvalid | ErrApprovalTokenExpired
  | ErrReviewActionInvalid | ErrReviewActionStale | ErrReviewActionConflict

type_synonym 'a stored = "store_error + 'a"

definition from_registry :: "'a result \<Rightarrow> 'a stored" where
  "from_registry r = (case r of Inl e \<Rightarrow> Inl (ErrRegistry e) | Inr v \<Rightarrow> Inr v)"

definition store_failed :: "string \<Rightarrow> 'a stored" where
  "store_failed msg = Inl (ErrRegistry (ErrStore msg))"

text \<open>\<open>if err != nil { return err }\<close>\<close>

definition and_then :: "('e + 'a) \<Rightarrow> ('a \<Rightarrow> 'e + 'b) \<Rightarrow> 'e + 'b" where
  "and_then r f = (case r of Inl e \<Rightarrow> Inl e | Inr v \<Rightarrow> f v)"

definition checked_by :: "check \<Rightarrow> 'a stored \<Rightarrow> 'a stored" where
  "checked_by c r = (case c of None \<Rightarrow> r | Some e \<Rightarrow> Inl (ErrRegistry (ErrContract e)))"

record proposal_row =
  prow_ID :: string
  prow_CandidateID :: string
  prow_ProjectIdentity :: string
  prow_Type :: ExperienceType
  prow_ScopeKind :: ScopeKind
  prow_Harness :: Harness
  prow_PromptVersion :: string
  prow_InputHash :: string
  prow_OutputHash :: string
  prow_GeneratedAt :: int
  prow_Plaintext :: string
  prow_Value :: SemanticProposal

record decision_row =
  drow_ID :: string
  drow_CandidateID :: string
  drow_ProjectIdentity :: string
  drow_Disposition :: SemanticDisposition
  drow_ReasonCode :: SemanticDecisionReasonCode
  drow_ProposalID :: "string option"
  drow_Harness :: Harness
  drow_PromptVersion :: string
  drow_InputHash :: string
  drow_OutputHash :: string
  drow_GeneratedAt :: int
  drow_Plaintext :: string
  drow_Value :: SemanticDecision

datatype ExperienceReviewDisposition =
    ExperienceReviewDefer | ExperienceReviewReject | ExperienceReviewDisposition_other string

record ExperienceReviewAction =
  era_ActionID :: string
  era_ProposalID :: string
  era_CandidateID :: string
  era_ProjectIdentity :: string
  era_Disposition :: ExperienceReviewDisposition
  era_OccurredAt :: gotime
  era_AvailableAfter :: "gotime option"
  era_ApprovalTokenIssuedAt :: gotime
  era_Actor :: string
  era_Claims :: ApprovalTokenClaims

record action_row =
  arow_ID :: string
  arow_ProposalID :: string
  arow_CandidateID :: string
  arow_ProjectIdentity :: string
  arow_Disposition :: ExperienceReviewDisposition
  arow_OccurredAt :: int
  arow_AvailableAfter :: "int option"
  arow_IssuedAt :: int
  arow_Plaintext :: string
  arow_Value :: ExperienceReviewAction

record review_store =
  rs_Registry :: registry
  rs_Proposals :: "proposal_row list"
  rs_Decisions :: "decision_row list"
  rs_Actions :: "action_row list"

text \<open>\<open>json.Marshal\<close> of everything that is sealed.\<close>

record store_codec =
  sc_Registry :: json_codec
  sc_Proposal :: "SemanticProposal \<Rightarrow> string option"
  sc_Decision :: "SemanticDecision \<Rightarrow> string option"
  sc_Action :: "ExperienceReviewAction \<Rightarrow> string option"

definition maxExperienceSemanticProposalBatch :: nat where "maxExperienceSemanticProposalBatch = 32"
definition maxExperienceSemanticPayloadBytes :: nat where
  "maxExperienceSemanticPayloadBytes = 2 * 1024 * 1024"

text \<open>
  The sealed envelope: magic (8), version (1), nonce length (2), nonce (12), ciphertext, tag (16). The
  tables bound it by \<open>CHECK (length(payload) <= 2097152)\<close>.
\<close>

definition sealed_length :: "string \<Rightarrow> nat" where
  "sealed_length plaintext = 8 + 1 + 2 + 12 + length plaintext + 16"

definition semantic_payload_check :: "string \<Rightarrow> bool" where
  "semantic_payload_check plaintext \<longleftrightarrow> sealed_length plaintext \<le> 2097152"

section \<open>Sources\<close>

text \<open>\<open>semanticProposalSource\<close>: the unique index of both tables.\<close>

type_synonym semanticProposalSource = "string \<times> Harness \<times> string"

definition proposal_source :: "SemanticProposal \<Rightarrow> semanticProposalSource" where
  "proposal_source p = (semp_CandidateID p, sprov_Harness (semp_Provenance p),
     sprov_PromptVersion (semp_Provenance p))"

definition decision_source :: "SemanticDecision \<Rightarrow> semanticProposalSource" where
  "decision_source d = (semd_CandidateID d, sprov_Harness (semd_Provenance d),
     sprov_PromptVersion (semd_Provenance d))"

definition prow_source :: "proposal_row \<Rightarrow> semanticProposalSource" where
  "prow_source row = (prow_CandidateID row, prow_Harness row, prow_PromptVersion row)"

definition drow_source :: "decision_row \<Rightarrow> semanticProposalSource" where
  "drow_source row = (drow_CandidateID row, drow_Harness row, drow_PromptVersion row)"

definition proposal_row_of :: "SemanticProposal \<Rightarrow> string \<Rightarrow> proposal_row" where
  "proposal_row_of p plaintext =
     \<lparr>prow_ID = semp_ProposalID p, prow_CandidateID = semp_CandidateID p,
      prow_ProjectIdentity = semp_ProjectIdentity p, prow_Type = prop_Type (semp_Proposal p),
      prow_ScopeKind = scope_Kind (prop_Scope (semp_Proposal p)),
      prow_Harness = sprov_Harness (semp_Provenance p),
      prow_PromptVersion = sprov_PromptVersion (semp_Provenance p),
      prow_InputHash = sprov_InputHash (semp_Provenance p),
      prow_OutputHash = sprov_OutputHash (semp_Provenance p),
      prow_GeneratedAt = wall_ns (sprov_GeneratedAt (semp_Provenance p)),
      prow_Plaintext = plaintext, prow_Value = p\<rparr>"

definition decision_row_of :: "SemanticDecision \<Rightarrow> string \<Rightarrow> decision_row" where
  "decision_row_of d plaintext =
     \<lparr>drow_ID = semd_DecisionID d, drow_CandidateID = semd_CandidateID d,
      drow_ProjectIdentity = semd_ProjectIdentity d, drow_Disposition = semd_Disposition d,
      drow_ReasonCode = semd_ReasonCode d,
      drow_ProposalID = (if semd_ProposalID d = [] then None else Some (semd_ProposalID d)),
      drow_Harness = sprov_Harness (semd_Provenance d),
      drow_PromptVersion = sprov_PromptVersion (semd_Provenance d),
      drow_InputHash = sprov_InputHash (semd_Provenance d),
      drow_OutputHash = sprov_OutputHash (semd_Provenance d),
      drow_GeneratedAt = wall_ns (sprov_GeneratedAt (semd_Provenance d)),
      drow_Plaintext = plaintext, drow_Value = d\<rparr>"

section \<open>Writing proposals\<close>

text \<open>The insert of one proposal; the flag says whether a row was added.\<close>

definition storeExperienceSemanticProposalTx ::
  "review_store \<Rightarrow> SemanticProposal \<Rightarrow> string \<Rightarrow> (bool \<times> review_store) stored" where
  "storeExperienceSemanticProposalTx st p plaintext =
     (if \<not> semantic_payload_check plaintext then store_failed ''insert experience semantic proposal''
      else case find (\<lambda>row. prow_source row = proposal_source p) (rs_Proposals st) of
        Some old \<Rightarrow>
          if prow_Plaintext old \<noteq> plaintext then Inl ErrSemanticProposalConflict else Inr (False, st)
      | None \<Rightarrow>
        if list_ex (\<lambda>row. prow_ID row = semp_ProposalID p) (rs_Proposals st) \<or>
           find_candidate (rs_Registry st) (semp_CandidateID p) = None
        then store_failed ''insert experience semantic proposal''
        else Inr (True, st\<lparr>rs_Proposals := rs_Proposals st @ [proposal_row_of p plaintext]\<rparr>))"

text \<open>The candidate of a proposal or decision must exist in its project.\<close>

definition candidate_project_check :: "string \<Rightarrow> review_store \<Rightarrow> string \<Rightarrow> string \<Rightarrow> unit stored" where
  "candidate_project_check what st candidateID projectIdentity =
     (case find_candidate (rs_Registry st) candidateID of
        None \<Rightarrow> store_failed (what @ '' candidate does not exist'')
      | Some row \<Rightarrow>
        if crow_ProjectIdentity row \<noteq> projectIdentity
        then store_failed (what @ '' candidate project mismatch'') else Inr ())"

fun seal_proposals ::
  "store_codec \<Rightarrow> string set \<Rightarrow> semanticProposalSource set \<Rightarrow> SemanticProposal list \<Rightarrow>
     (SemanticProposal \<times> string) list stored" where
  "seal_proposals sc ids sources [] = Inr []"
| "seal_proposals sc ids sources (p # ps) = checked_by (SemanticProposal_Validate p)
     (if semp_ProposalID p \<in> ids \<or> proposal_source p \<in> sources
      then store_failed ''experience semantic proposal batch contains duplicate identity''
      else and_then (from_registry (sealDomainJSON ''experience_semantic_proposal'' (sc_Proposal sc)
             maxExperienceSemanticPayloadBytes p)) (\<lambda>plaintext.
           and_then (seal_proposals sc (insert (semp_ProposalID p) ids) (insert (proposal_source p) sources) ps)
             (\<lambda>rest. Inr ((p, plaintext) # rest))))"

fun insert_proposals ::
  "review_store \<Rightarrow> int \<times> int \<Rightarrow> (SemanticProposal \<times> string) list \<Rightarrow> ((int \<times> int) \<times> review_store) stored"
where
  "insert_proposals st counts [] = Inr (counts, st)"
| "insert_proposals st (inserted, replayed) ((p, plaintext) # rest) =
     and_then (candidate_project_check ''experience semantic proposal'' st (semp_CandidateID p)
         (semp_ProjectIdentity p)) (\<lambda>_.
       and_then (storeExperienceSemanticProposalTx st p plaintext) (\<lambda>(new, st').
         insert_proposals st' (if new then (inserted + 1, replayed) else (inserted, replayed + 1)) rest))"

definition InsertExperienceSemanticProposals ::
  "store_codec \<Rightarrow> review_store \<Rightarrow> SemanticProposal list \<Rightarrow> ((int \<times> int) \<times> review_store) stored" where
  "InsertExperienceSemanticProposals sc st proposals =
     (if proposals = [] \<or> maxExperienceSemanticProposalBatch < length proposals
      then store_failed ''experience semantic proposal batch is required and bounded''
      else and_then (seal_proposals sc {} {} proposals) (insert_proposals st (0, 0)))"

section \<open>Writing results\<close>

record SemanticDispositionCounts =
  sdc_Proposed :: int
  sdc_Rejected :: int
  sdc_Deferred :: int

definition no_counts :: SemanticDispositionCounts where
  "no_counts = \<lparr>sdc_Proposed = 0, sdc_Rejected = 0, sdc_Deferred = 0\<rparr>"

fun incrementSemanticDispositionCount ::
  "SemanticDisposition \<Rightarrow> SemanticDispositionCounts \<Rightarrow> SemanticDispositionCounts" where
  "incrementSemanticDispositionCount SemanticDispositionPropose c = c\<lparr>sdc_Proposed := sdc_Proposed c + 1\<rparr>"
| "incrementSemanticDispositionCount SemanticDispositionReject c = c\<lparr>sdc_Rejected := sdc_Rejected c + 1\<rparr>"
| "incrementSemanticDispositionCount SemanticDispositionDefer c = c\<lparr>sdc_Deferred := sdc_Deferred c + 1\<rparr>"
| "incrementSemanticDispositionCount (SemanticDisposition_other s) c = c"

record sealedSemanticResult =
  ssr_value :: SemanticResult
  ssr_proposalPlaintext :: string
  ssr_decisionPlaintext :: string

text \<open>The proposal of a result; it is sealed only when there is one.\<close>

definition seal_result_proposal ::
  "store_codec \<Rightarrow> string set \<Rightarrow> SemanticProposal option \<Rightarrow> (string set \<times> string) stored" where
  "seal_result_proposal sc proposals p =
     (case p of
        None \<Rightarrow> Inr (proposals, [])
      | Some p \<Rightarrow>
        if semp_ProposalID p \<in> proposals
        then store_failed ''experience semantic result batch contains duplicate proposal''
        else and_then (from_registry (sealDomainJSON ''experience_semantic_proposal'' (sc_Proposal sc)
               maxExperienceSemanticPayloadBytes p)) (\<lambda>plaintext.
             Inr (insert (semp_ProposalID p) proposals, plaintext)))"

fun seal_results ::
  "store_codec \<Rightarrow> string set \<Rightarrow> string set \<Rightarrow> semanticProposalSource set \<Rightarrow> SemanticResult list \<Rightarrow>
     sealedSemanticResult list stored" where
  "seal_results sc decisions proposals sources [] = Inr []"
| "seal_results sc decisions proposals sources (r # rs) = checked_by (SemanticResult_Validate r)
     (let d = semr_Decision r in
      if semd_DecisionID d \<in> decisions \<or> decision_source d \<in> sources
      then store_failed ''experience semantic result batch contains duplicate identity''
      else and_then (seal_result_proposal sc proposals (semr_Proposal r)) (\<lambda>(proposals', proposalText).
           and_then (from_registry (sealDomainJSON ''experience_semantic_decision'' (sc_Decision sc)
             maxExperienceSemanticPayloadBytes d)) (\<lambda>decisionText.
           and_then (seal_results sc (insert (semd_DecisionID d) decisions) proposals'
             (insert (decision_source d) sources) rs) (\<lambda>rest.
           Inr (\<lparr>ssr_value = r, ssr_proposalPlaintext = proposalText,
             ssr_decisionPlaintext = decisionText\<rparr> # rest)))))"

text \<open>A result without a proposal conflicts with a proposal of its source; one with a proposal stores it.\<close>

definition store_result_proposal :: "review_store \<Rightarrow> sealedSemanticResult \<Rightarrow> review_store stored" where
  "store_result_proposal st item =
     (let d = semr_Decision (ssr_value item) in
      case semr_Proposal (ssr_value item) of
        None \<Rightarrow>
          if list_ex (\<lambda>row. prow_source row = decision_source d) (rs_Proposals st)
          then Inl ErrSemanticResultConflict else Inr st
      | Some p \<Rightarrow>
          if semd_ProjectIdentity d \<noteq> semp_ProjectIdentity p
          then store_failed ''experience semantic result candidate project mismatch''
          else and_then (storeExperienceSemanticProposalTx st p (ssr_proposalPlaintext item))
            (\<lambda>(_, st'). Inr st'))"

definition store_decision :: "review_store \<Rightarrow> SemanticDecision \<Rightarrow> string \<Rightarrow> (bool \<times> review_store) stored" where
  "store_decision st d plaintext =
     (if \<not> semantic_payload_check plaintext then store_failed ''insert experience semantic decision''
      else case find (\<lambda>row. drow_source row = decision_source d) (rs_Decisions st) of
        Some old \<Rightarrow> if drow_Plaintext old \<noteq> plaintext then Inl ErrSemanticResultConflict else Inr (False, st)
      | None \<Rightarrow>
        if list_ex (\<lambda>row. drow_ID row = semd_DecisionID d) (rs_Decisions st) \<or>
           find_candidate (rs_Registry st) (semd_CandidateID d) = None \<or>
           semd_ProposalID d \<noteq> [] \<and> \<not> list_ex (\<lambda>row. prow_ID row = semd_ProposalID d) (rs_Proposals st)
        then store_failed ''insert experience semantic decision''
        else Inr (True, st\<lparr>rs_Decisions := rs_Decisions st @ [decision_row_of d plaintext]\<rparr>))"

fun store_results ::
  "review_store \<Rightarrow> SemanticDispositionCounts \<times> SemanticDispositionCounts \<Rightarrow> sealedSemanticResult list \<Rightarrow>
     ((SemanticDispositionCounts \<times> SemanticDispositionCounts) \<times> review_store) stored" where
  "store_results st counts [] = Inr (counts, st)"
| "store_results st (inserted, replayed) (item # rest) =
     (let d = semr_Decision (ssr_value item) in
      and_then (candidate_project_check ''experience semantic result'' st (semd_CandidateID d)
        (semd_ProjectIdentity d)) (\<lambda>_.
      and_then (store_result_proposal st item) (\<lambda>st1.
      and_then (store_decision st1 d (ssr_decisionPlaintext item)) (\<lambda>(new, st2).
      store_results st2
        (if new then (incrementSemanticDispositionCount (semd_Disposition d) inserted, replayed)
         else (inserted, incrementSemanticDispositionCount (semd_Disposition d) replayed)) rest))))"

definition StoreExperienceSemanticResults ::
  "store_codec \<Rightarrow> review_store \<Rightarrow> SemanticResult list \<Rightarrow>
     ((SemanticDispositionCounts \<times> SemanticDispositionCounts) \<times> review_store) stored" where
  "StoreExperienceSemanticResults sc st results =
     (if results = [] \<or> maxExperienceSemanticProposalBatch < length results
      then store_failed ''experience semantic result batch is required and bounded''
      else and_then (seal_results sc {} {} {} results) (store_results st (no_counts, no_counts)))"

section \<open>Reading\<close>

definition scanExperienceSemanticProposal :: "proposal_row \<Rightarrow> SemanticProposal stored" where
  "scanExperienceSemanticProposal row =
     (let p = prow_Value row in
      if semp_ProposalID p \<noteq> prow_ID row \<or> semp_CandidateID p \<noteq> prow_CandidateID row \<or>
         semp_ProjectIdentity p \<noteq> prow_ProjectIdentity row \<or>
         prop_Type (semp_Proposal p) \<noteq> prow_Type row \<or>
         scope_Kind (prop_Scope (semp_Proposal p)) \<noteq> prow_ScopeKind row \<or>
         sprov_Harness (semp_Provenance p) \<noteq> prow_Harness row \<or>
         sprov_PromptVersion (semp_Provenance p) \<noteq> prow_PromptVersion row \<or>
         sprov_InputHash (semp_Provenance p) \<noteq> prow_InputHash row \<or>
         sprov_OutputHash (semp_Provenance p) \<noteq> prow_OutputHash row \<or>
         wall_ns (sprov_GeneratedAt (semp_Provenance p)) \<noteq> prow_GeneratedAt row
      then store_failed ''experience semantic proposal index does not match payload''
      else case SemanticProposal_Validate p of
          Some (Panic m) \<Rightarrow> Inl (ErrRegistry (ErrContract (Panic m)))
        | Some (Err m) \<Rightarrow> store_failed ''invalid persisted experience semantic proposal''
        | None \<Rightarrow> Inr p)"

definition scanExperienceSemanticDecision :: "decision_row \<Rightarrow> SemanticDecision stored" where
  "scanExperienceSemanticDecision row =
     (let d = drow_Value row in
      if semd_DecisionID d \<noteq> drow_ID row \<or> semd_CandidateID d \<noteq> drow_CandidateID row \<or>
         semd_ProjectIdentity d \<noteq> drow_ProjectIdentity row \<or>
         semd_Disposition d \<noteq> drow_Disposition row \<or> semd_ReasonCode d \<noteq> drow_ReasonCode row \<or>
         semd_ProposalID d \<noteq> (case drow_ProposalID row of None \<Rightarrow> [] | Some i \<Rightarrow> i) \<or>
         sprov_Harness (semd_Provenance d) \<noteq> drow_Harness row \<or>
         sprov_PromptVersion (semd_Provenance d) \<noteq> drow_PromptVersion row \<or>
         sprov_InputHash (semd_Provenance d) \<noteq> drow_InputHash row \<or>
         sprov_OutputHash (semd_Provenance d) \<noteq> drow_OutputHash row \<or>
         wall_ns (sprov_GeneratedAt (semd_Provenance d)) \<noteq> drow_GeneratedAt row
      then store_failed ''experience semantic decision index does not match payload''
      else case SemanticDecision_Validate d of
          Some (Panic m) \<Rightarrow> Inl (ErrRegistry (ErrContract (Panic m)))
        | Some (Err m) \<Rightarrow> store_failed ''invalid persisted experience semantic decision''
        | None \<Rightarrow> Inr d)"

definition storage_identifier :: "string \<Rightarrow> string \<Rightarrow> 'a stored \<Rightarrow> 'a stored" where
  "storage_identifier name value r =
     (case validateStorageIdentifier name value of Some e \<Rightarrow> Inl (ErrRegistry e) | None \<Rightarrow> r)"

text \<open>\<open>QueryRow ... WHERE proposal_id = ?\<close>\<close>

definition select_proposal :: "review_store \<Rightarrow> string \<Rightarrow> SemanticProposal stored" where
  "select_proposal st proposalID =
     (case find (\<lambda>row. prow_ID row = proposalID) (rs_Proposals st) of
        None \<Rightarrow> Inl (ErrRegistry ErrNoRows) | Some row \<Rightarrow> scanExperienceSemanticProposal row)"

definition GetExperienceSemanticProposal :: "review_store \<Rightarrow> string \<Rightarrow> SemanticProposal stored" where
  "GetExperienceSemanticProposal st proposalID =
     storage_identifier ''experience semantic proposal ID'' proposalID (select_proposal st proposalID)"

definition GetExperienceSemanticDecision :: "review_store \<Rightarrow> string \<Rightarrow> SemanticDecision stored" where
  "GetExperienceSemanticDecision st decisionID =
     storage_identifier ''experience semantic decision ID'' decisionID
       (case find (\<lambda>row. drow_ID row = decisionID) (rs_Decisions st) of
          None \<Rightarrow> Inl (ErrRegistry ErrNoRows) | Some row \<Rightarrow> scanExperienceSemanticDecision row)"

definition source_query ::
  "string \<Rightarrow> string \<Rightarrow> Harness \<Rightarrow> string \<Rightarrow> bool \<Rightarrow> bool stored" where
  "source_query what candidateID harness promptVersion found =
     storage_identifier (what @ '' candidate ID'') candidateID
       (if \<not> Harness_Valid harness then store_failed (what @ '' harness is invalid'')
        else storage_identifier (what @ '' prompt version'') promptVersion (Inr found))"

definition HasExperienceSemanticProposal :: "review_store \<Rightarrow> string \<Rightarrow> Harness \<Rightarrow> string \<Rightarrow> bool stored" where
  "HasExperienceSemanticProposal st candidateID harness promptVersion =
     source_query ''experience semantic proposal'' candidateID harness promptVersion
       (list_ex (\<lambda>row. prow_source row = (candidateID, harness, promptVersion)) (rs_Proposals st))"

definition HasExperienceSemanticResult :: "review_store \<Rightarrow> string \<Rightarrow> Harness \<Rightarrow> string \<Rightarrow> bool stored" where
  "HasExperienceSemanticResult st candidateID harness promptVersion =
     source_query ''experience semantic result'' candidateID harness promptVersion
       (list_ex (\<lambda>row. drow_source row = (candidateID, harness, promptVersion)) (rs_Decisions st) \<or>
        list_ex (\<lambda>row. prow_source row = (candidateID, harness, promptVersion)) (rs_Proposals st))"

fun scan_proposals :: "proposal_row list \<Rightarrow> SemanticProposal list stored" where
  "scan_proposals [] = Inr []"
| "scan_proposals (row # rows) =
     and_then (scanExperienceSemanticProposal row) (\<lambda>p. and_then (scan_proposals rows) (\<lambda>ps. Inr (p # ps)))"

text \<open>\<open>ORDER BY generated_at DESC, proposal_id\<close>\<close>

definition newest_first :: "proposal_row list \<Rightarrow> proposal_row list" where
  "newest_first rows = sort_key (\<lambda>row. (- prow_GeneratedAt row, prow_ID row)) rows"

definition limited_proposals :: "int \<Rightarrow> proposal_row list \<Rightarrow> SemanticProposal list stored" where
  "limited_proposals limit rows =
     and_then (from_registry (boundedRepositoryLimit limit)) (\<lambda>n.
       scan_proposals (take (nat n) (newest_first rows)))"

definition QueryExperienceSemanticProposals ::
  "review_store \<Rightarrow> string \<Rightarrow> int \<Rightarrow> SemanticProposal list stored" where
  "QueryExperienceSemanticProposals st projectIdentity limit =
     (case validateProjectIdentity projectIdentity of
        Some e \<Rightarrow> Inl (ErrRegistry e)
      | None \<Rightarrow> limited_proposals limit
          (filter (\<lambda>row. prow_ProjectIdentity row = projectIdentity) (rs_Proposals st)))"

end
