(* ===== verification/GoCodec.thy ===== *)
theory GoCodec
  imports GoJson
begin

text \<open>
  \<open>crypto/hmac\<close> and \<open>crypto/hkdf\<close> over SHA-256 (FIPS 198-1, RFC 5869 for one block of output), and
  \<open>encoding/base64.RawURLEncoding\<close>, whose decoder skips line breaks and does not look at the bits left
  over at the end. As with the digest, no theorem depends on a code being hard to forge.
\<close>

section \<open>Keyed hashing\<close>

definition xor_pad :: "string \<Rightarrow> nat \<Rightarrow> string" where
  "xor_pad key n = map (\<lambda>c. char_of (byte c XOR n)) (key @ replicate (64 - length key) (CHR 0x00))"

definition hmac_sha256 :: "string \<Rightarrow> string \<Rightarrow> string" where
  "hmac_sha256 key msg =
     (let k = (if 64 < length key then sha256 key else key)
      in sha256 (xor_pad k 92 @ sha256 (xor_pad k 54 @ msg)))"

lemma length_hmac_sha256 [simp]: "length (hmac_sha256 key msg) = 32"
  by (simp add: hmac_sha256_def Let_def)

text \<open>
  \<open>hkdf.Key(sha256.New, secret, salt, info, 32)\<close>: extract, then the first block of the expansion.
\<close>

definition hkdf_sha256 :: "string \<Rightarrow> string \<Rightarrow> string \<Rightarrow> string" where
  "hkdf_sha256 secret salt info = hmac_sha256 (hmac_sha256 salt secret) (info @ [CHR 0x01])"

section \<open>Base 64\<close>

definition base64_alphabet :: string where
  "base64_alphabet = ''ABCDEFGHIJKLMNOPQRSTUVWXYZabcdefghijklmnopqrstuvwxyz0123456789-_''"

text \<open>Bits, most significant first; the last group of an encoding is filled with zeros.\<close>

definition value_bits :: "nat \<Rightarrow> nat \<Rightarrow> bool list" where
  "value_bits n v = map (\<lambda>i. bit v i) (rev [0..<n])"

definition bits_number :: "bool list \<Rightarrow> nat" where
  "bits_number bs = foldl (\<lambda>n b. 2 * n + of_bool b) 0 bs"

definition fill6 :: "bool list \<Rightarrow> bool list" where
  "fill6 bs = bs @ replicate (6 - length bs) False"

definition base64_encode :: "string \<Rightarrow> string" where
  "base64_encode s =
     map (\<lambda>bs. base64_alphabet ! bits_number (fill6 bs)) (chunks 6 (concat (map byte_bits s)))"

definition base64_value :: "char \<Rightarrow> nat option" where
  "base64_value c =
     (let n = byte c in
      if 65 \<le> n \<and> n \<le> 90 then Some (n - 65)
      else if 97 \<le> n \<and> n \<le> 122 then Some (n - 71)
      else if 48 \<le> n \<and> n \<le> 57 then Some (n + 4)
      else if n = 45 then Some 62
      else if n = 95 then Some 63
      else None)"

fun base64_values :: "string \<Rightarrow> nat list option" where
  "base64_values [] = Some []"
| "base64_values (c # cs) =
     (if c = CHR 0x0A \<or> c = CHR 0x0D then base64_values cs
      else case (base64_value c, base64_values cs) of
        (Some v, Some vs) \<Rightarrow> Some (v # vs)
      | _ \<Rightarrow> None)"

definition base64_decode :: "string \<Rightarrow> string option" where
  "base64_decode s =
     (case base64_values s of
        None \<Rightarrow> None
      | Some vs \<Rightarrow>
          if length vs mod 4 = 1 then None
          else Some (map (\<lambda>bs. char_of (bits_number bs))
            (chunks 8 (take (8 * (6 * length vs div 8)) (concat (map (value_bits 6) vs))))))"

lemma base64_known:
  "base64_encode ''{}'' = ''e30''" "base64_encode ''Man'' = ''TWFu''"
  "base64_encode (bytes [251, 255, 254]) = ''-__-''"
  "base64_decode ''e30'' = Some ''{}''" "base64_decode ''e31'' = Some ''{}''"
  "base64_decode (''TW'' @ [CHR 0x0A] @ ''Fu'') = Some ''Man''" "base64_decode ''TWFuA'' = None"
  "base64_decode ''e30='' = None"
  by code_simp+

section \<open>Reading back what was written\<close>

lemma foldl_bits_append:
  "foldl (\<lambda>n b. 2 * n + of_bool b) a bs = a * 2 ^ length bs + bits_number bs" for a :: nat
proof (induction bs arbitrary: a rule: rev_induct)
  case (snoc b bs)
  have "bits_number (bs @ [b]) = 2 * bits_number bs + of_bool b" by (simp add: bits_number_def)
  then show ?case using snoc [of a] by (simp add: algebra_simps)
qed (simp add: bits_number_def)

lemma bits_number_Nil [simp]: "bits_number [] = 0"
  by (simp add: bits_number_def)

lemma bits_number_Cons: "bits_number (b # bs) = of_bool b * 2 ^ length bs + bits_number bs"
proof -
  have "bits_number (b # bs) = foldl (\<lambda>n b. 2 * n + of_bool b) (of_bool b) bs"
    by (simp add: bits_number_def)
  then show ?thesis by (simp only: foldl_bits_append)
qed

lemma bits_number_less: "bits_number bs < 2 ^ length bs"
  by (induction bs) (simp_all add: bits_number_Cons)

lemma value_bits_Suc: "value_bits (Suc n) v = bit v n # value_bits n v"
  by (simp add: value_bits_def)

lemma length_value_bits [simp]: "length (value_bits n v) = n"
  by (simp add: value_bits_def)

lemma bits_number_value_bits: "bits_number (value_bits n v) = v mod 2 ^ n"
proof (induction n)
  case 0
  then show ?case by (simp add: value_bits_def)
next
  case (Suc n)
  have "v mod 2 ^ Suc n = of_bool (bit v n) * 2 ^ n + v mod 2 ^ n"
    using take_bit_Suc_from_most [of n v] by (simp add: take_bit_eq_mod)
  with Suc show ?case by (simp add: value_bits_Suc bits_number_Cons)
qed

lemma value_bits_mod: "value_bits n (v mod 2 ^ n) = value_bits n v"
proof -
  have "bit (v mod 2 ^ n) i = bit v i" if "i < n" for i
    using that by (simp add: bit_take_bit_iff flip: take_bit_eq_mod)
  then show ?thesis by (simp add: value_bits_def)
qed

lemma value_bits_number: "value_bits (length bs) (bits_number bs) = bs"
proof (induction bs)
  case (Cons b bs)
  let ?v = "bits_number (b # bs)"
  have m: "?v mod 2 ^ length bs = bits_number bs"
    using bits_number_less [of bs] by (simp add: bits_number_Cons)
  have "bit ?v (length bs) = b"
    using bits_number_less [of bs] by (simp add: bits_number_Cons bit_iff_odd)
  moreover have "value_bits (length bs) ?v = bs"
    using Cons value_bits_mod [of "length bs" ?v] by (simp add: m)
  ultimately show ?case by (simp add: value_bits_Suc)
qed (simp add: value_bits_def)

lemma byte_bits_eq: "byte_bits c = value_bits 8 (byte c)"
  by (simp add: byte_bits_def value_bits_def)

lemma length_byte_bits [simp]: "length (byte_bits c) = 8"
  by (simp add: byte_bits_eq)

lemma char_of_byte_bits: "char_of (bits_number (byte_bits c)) = c"
  using byte_less [of c] by (simp add: byte_bits_eq bits_number_value_bits)

lemma chunks_step: "xs \<noteq> [] \<Longrightarrow> 0 < n \<Longrightarrow> chunks n xs = take n xs # chunks n (drop n xs)"
  and chunks_Nil [simp]: "chunks n [] = []"
  by (simp_all add: chunks.simps)

lemma chunks_append: "0 < n \<Longrightarrow> length xs = n \<Longrightarrow> chunks n (xs @ ys) = xs # chunks n ys"
  by (subst chunks_step) auto

lemma chunks_bytes: "chunks 8 (concat (map byte_bits s)) = map byte_bits s"
  by (induction s) (simp_all add: chunks_append)

lemma length_fill6: "length bs \<le> 6 \<Longrightarrow> length (fill6 bs) = 6"
  by (simp add: fill6_def)

lemma chunk_bounds: "0 < n \<Longrightarrow> bs \<in> set (chunks n xs) \<Longrightarrow> length bs \<le> n"
proof (induction n xs rule: chunks.induct)
  case (1 n xs)
  then show ?case by (cases "xs = []") (auto simp: chunks_step)
qed

lemma concat_fill6: "\<exists>k. concat (map fill6 (chunks 6 xs)) = xs @ replicate k False"
proof (induction "6 :: nat" xs rule: chunks.induct)
  case (1 xs)
  show ?case
  proof (cases "length xs \<le> 6")
    case True
    then have "chunks 6 xs = (if xs = [] then [] else [xs])" by (simp add: chunks_step)
    then show ?thesis by (auto simp: fill6_def intro: exI [of _ 0])
  next
    case False
    then have "xs \<noteq> []" "fill6 (take 6 xs) = take 6 xs" by (auto simp: fill6_def)
    with 1 show ?thesis by (auto simp: chunks_step append_assoc [symmetric] simp del: append_assoc)
  qed
qed

definition alphabet_ok :: "nat \<Rightarrow> bool" where
  "alphabet_ok v \<longleftrightarrow> base64_value (base64_alphabet ! v) = Some v \<and>
     byte (base64_alphabet ! v) \<noteq> 10 \<and> byte (base64_alphabet ! v) \<noteq> 13 \<and> byte (base64_alphabet ! v) \<noteq> 46"

lemma base64_alphabet_table: "list_all alphabet_ok [0..<64]"
  by code_simp

lemma base64_value_alphabet: "v < 64 \<Longrightarrow> base64_value (base64_alphabet ! v) = Some v"
  and base64_alphabet_plain: "v < 64 \<Longrightarrow> base64_alphabet ! v \<notin> {CHR 0x0A, CHR 0x0D, CHR ''.''}"
proof -
  assume "v < 64"
  then have "alphabet_ok v" using base64_alphabet_table by (simp add: list_all_iff)
  then show "base64_value (base64_alphabet ! v) = Some v"
    and "base64_alphabet ! v \<notin> {CHR 0x0A, CHR 0x0D, CHR ''.''}"
    by (auto simp: alphabet_ok_def byte_def)
qed

lemma base64_values_map:
  "\<forall>v \<in> set vs. v < 64 \<Longrightarrow> base64_values (map (\<lambda>v. base64_alphabet ! v) vs) = Some vs"
proof (induction vs)
  case (Cons v vs)
  then have "base64_values (map (\<lambda>v. base64_alphabet ! v) vs) = Some vs" by simp
  moreover have "base64_alphabet ! v \<noteq> CHR 0x0A" "base64_alphabet ! v \<noteq> CHR 0x0D"
    "base64_value (base64_alphabet ! v) = Some v"
    using Cons.prems base64_alphabet_plain [of v] by (simp_all add: base64_value_alphabet)
  ultimately show ?case by simp
qed simp

definition sextets :: "string \<Rightarrow> nat list" where
  "sextets s = map (\<lambda>bs. bits_number (fill6 bs)) (chunks 6 (concat (map byte_bits s)))"

lemma base64_encode_sextets: "base64_encode s = map (\<lambda>v. base64_alphabet ! v) (sextets s)"
  by (simp add: base64_encode_def sextets_def)

lemma fill6_of_chunk: "bs \<in> set (chunks 6 xs) \<Longrightarrow> length (fill6 bs) = 6"
  using chunk_bounds [of 6 bs xs] by (simp add: length_fill6)

lemma sextets_less: "v \<in> set (sextets s) \<Longrightarrow> v < 64"
proof -
  assume "v \<in> set (sextets s)"
  then obtain bs where "bs \<in> set (chunks 6 (concat (map byte_bits s)))" "v = bits_number (fill6 bs)"
    by (auto simp: sextets_def)
  then show ?thesis using bits_number_less [of "fill6 bs"] by (simp add: fill6_of_chunk)
qed

lemma sextets_bits: "concat (map (value_bits 6) (sextets s)) =
    concat (map fill6 (chunks 6 (concat (map byte_bits s))))"
proof -
  have "value_bits 6 (bits_number (fill6 bs)) = fill6 bs"
    if "bs \<in> set (chunks 6 (concat (map byte_bits s)))" for bs
    using value_bits_number [of "fill6 bs"] fill6_of_chunk [OF that] by simp
  then show ?thesis by (simp add: sextets_def comp_def cong: map_cong)
qed

lemma length_sextets: "length (sextets s) = (8 * length s + 5) div 6"
  by (simp add: sextets_def length_chunks length_concat comp_def sum_list_triv mult.commute)

lemma length_base64: "length (base64_encode s) = (8 * length s + 5) div 6"
  by (simp add: base64_encode_sextets length_sextets)

theorem base64_decode_encode [simp]: "base64_decode (base64_encode s) = Some s"
proof -
  let ?B = "concat (map byte_bits s)" and ?n = "(8 * length s + 5) div 6"
  obtain k where k: "concat (map (value_bits 6) (sextets s)) = ?B @ replicate k False"
    using concat_fill6 [of ?B] by (auto simp: sextets_bits)
  have lB: "length ?B = 8 * length s"
    by (simp add: length_concat comp_def sum_list_triv mult.commute)
  have n: "6 * ?n div 8 = length s" "?n mod 4 \<noteq> 1" by presburger+
  have "base64_values (base64_encode s) = Some (sextets s)"
    by (simp add: base64_encode_sextets base64_values_map sextets_less)
  moreover have "take (8 * length s) (?B @ replicate k False) = ?B" using lB by simp
  ultimately show ?thesis
    by (simp add: base64_decode_def length_sextets n [simplified] k chunks_bytes char_of_byte_bits comp_def)
qed

lemma base64_no_dot: "CHR ''.'' \<notin> set (base64_encode s)"
proof
  assume "CHR ''.'' \<in> set (base64_encode s)"
  then obtain v where "v \<in> set (sextets s)" "base64_alphabet ! v = CHR ''.''"
    by (auto simp: base64_encode_sextets)
  then show False using base64_alphabet_plain [of v] by (simp add: sextets_less)
qed

lemma base64_encode_Nil: "base64_encode s = [] \<longleftrightarrow> s = []"
  using base64_decode_encode [of s] base64_decode_encode [of "[]"]
  by (metis base64_encode_def chunks_Nil concat.simps(1) list.map(1) option.inject)

lemma base64_encode_inject: "base64_encode s = base64_encode t \<longleftrightarrow> s = t"
  by (metis base64_decode_encode option.inject)

end
