(* ===== verification/GoStrict.thy ===== *)
theory GoStrict
  imports GoJson
begin

text \<open>
  \<open>json.Decoder\<close> with \<open>DisallowUnknownFields\<close>, as the token decoders use it: one object whose members are
  strings and integers, then only white space. A name matches a field when it is equal up to case folding,
  a \<open>null\<close> leaves a field alone, the last value of a repeated name counts, invalid UTF-8 and lone surrogates
  read as U+FFFD. Any other text is rejected: an array, an object, a number with fraction or exponent or a
  Boolean fits no field of these payloads, whether it stands in the place of a member or of the whole
  (where \<open>null\<close> would leave the payload empty, which the checks that follow reject).
\<close>

section \<open>String literals\<close>

definition encode_rune :: "nat \<Rightarrow> string" where
  "encode_rune n =
     (if n < 128 then bytes [n]
      else if n < 2048 then bytes [192 + n div 64, 128 + n mod 64]
      else if n < 65536 then bytes [224 + n div 4096, 128 + n div 64 mod 64, 128 + n mod 64]
      else bytes [240 + n div 262144, 128 + n div 4096 mod 64, 128 + n div 64 mod 64, 128 + n mod 64])"

definition simple_escape :: "char \<Rightarrow> char option" where
  "simple_escape c =
     (if c = CHR 0x22 \<or> c = CHR 0x5C \<or> c = CHR ''/'' then Some c
      else if c = CHR ''b'' then Some (CHR 0x08)
      else if c = CHR ''f'' then Some (CHR 0x0C)
      else if c = CHR ''n'' then Some (CHR 0x0A)
      else if c = CHR ''r'' then Some (CHR 0x0D)
      else if c = CHR ''t'' then Some (CHR 0x09)
      else None)"

definition hex4 :: "string \<Rightarrow> nat option" where
  "hex4 s =
     (if length s < 4 then None
      else (case (hex_value (s ! 0), hex_value (s ! 1), hex_value (s ! 2), hex_value (s ! 3)) of
          (Some a, Some b, Some c, Some d) \<Rightarrow> Some (4096 * a + 256 * b + 16 * c + d)
        | _ \<Rightarrow> None))"

text \<open>The code unit of an escape \<open>\uXXXX\<close> at the front of the text.\<close>

definition unit_escape :: "string \<Rightarrow> nat option" where
  "unit_escape s =
     (case s of a # b # r \<Rightarrow> if a = CHR 0x5C \<and> b = CHR ''u'' then hex4 r else None | _ \<Rightarrow> None)"

text \<open>What follows \<open>\u\<close>: the bytes it stands for and the number of characters read.\<close>

definition read_unit :: "string \<Rightarrow> (string \<times> nat) option" where
  "read_unit s =
     (case hex4 s of
        None \<Rightarrow> None
      | Some u \<Rightarrow>
          if u < 55296 \<or> 57343 < u then Some (encode_rune u, 4)
          else (case unit_escape (drop 4 s) of
              Some v \<Rightarrow>
                if u < 56320 \<and> 56320 \<le> v \<and> v \<le> 57343
                then Some (encode_rune (65536 + (u - 55296) * 1024 + (v - 56320)), 10)
                else Some (encode_rune rune_error, 4)
            | None \<Rightarrow> Some (encode_rune rune_error, 4)))"

text \<open>The text after the opening quote: the string read and the text after the closing quote.\<close>

function unquote :: "string \<Rightarrow> (string \<times> string) option" where
  "unquote s =
     (case s of
        [] \<Rightarrow> None
      | c # r \<Rightarrow>
          if c = CHR 0x22 then Some ([], r)
          else if c = CHR 0x5C then
            (case r of
               [] \<Rightarrow> None
             | e # q \<Rightarrow>
                 if e = CHR ''u'' then
                   (case read_unit q of
                      None \<Rightarrow> None
                    | Some (bs, n) \<Rightarrow> map_option (apfst ((@) bs)) (unquote (drop n q)))
                 else (case simple_escape e of
                      None \<Rightarrow> None
                    | Some b \<Rightarrow> map_option (apfst ((#) b)) (unquote q)))
          else if byte c < 32 then None
          else if utf8_len s = 0 then map_option (apfst ((@) (encode_rune rune_error))) (unquote r)
          else map_option (apfst ((@) (take (utf8_len s) s))) (unquote (drop (utf8_len s) s)))"
  by pat_completeness auto
termination
  by (relation "measure length") auto

declare unquote.simps [simp del]

section \<open>Objects\<close>

datatype member = JText string | JWhole int | JNothing

definition json_space :: "char \<Rightarrow> bool" where
  "json_space c \<longleftrightarrow> byte c = 32 \<or> byte c = 9 \<or> byte c = 10 \<or> byte c = 13"

definition skip_space :: "string \<Rightarrow> string" where
  "skip_space s = dropWhile json_space s"

definition is_digit :: "char \<Rightarrow> bool" where
  "is_digit c \<longleftrightarrow> 48 \<le> byte c \<and> byte c \<le> 57"

definition digits_number :: "string \<Rightarrow> int" where
  "digits_number s = foldl (\<lambda>n c. 10 * n + int (byte c - 48)) 0 s"

text \<open>An integer literal: no leading zeros; what follows it is not looked at.\<close>

definition read_whole :: "string \<Rightarrow> (int \<times> string) option" where
  "read_whole s =
     (let neg = (s \<noteq> [] \<and> hd s = CHR ''-''); t = (if neg then tl s else s); ds = takeWhile is_digit t
      in if ds = [] \<or> (1 < length ds \<and> hd ds = CHR ''0'') then None
         else Some ((if neg then - digits_number ds else digits_number ds), dropWhile is_digit t))"

definition read_value :: "string \<Rightarrow> (member \<times> string) option" where
  "read_value s =
     (if s \<noteq> [] \<and> hd s = CHR 0x22 then map_option (apfst JText) (unquote (tl s))
      else if take 4 s = ''null'' then Some (JNothing, drop 4 s)
      else map_option (apfst JWhole) (read_whole s))"

text \<open>One member \<open>"name": value\<close> with the white space around it.\<close>

definition read_member :: "string \<Rightarrow> ((string \<times> member) \<times> string) option" where
  "read_member s =
     (case skip_space s of
        [] \<Rightarrow> None
      | c # r \<Rightarrow>
          if c \<noteq> CHR 0x22 then None
          else (case unquote r of
              None \<Rightarrow> None
            | Some (name, q) \<Rightarrow>
                (case skip_space q of
                   [] \<Rightarrow> None
                 | d # u \<Rightarrow>
                     if d \<noteq> CHR '':'' then None
                     else (case read_value (skip_space u) of
                         None \<Rightarrow> None
                       | Some (v, w) \<Rightarrow> Some ((name, v), skip_space w)))))"

lemma unquote_Nil [simp]: "unquote [] = None"
  and unquote_end [simp]: "unquote (CHR 0x22 # r) = Some ([], r)"
  and unquote_stop [simp]: "unquote [CHR 0x5C] = None"
  and unquote_unit [simp]: "unquote (CHR 0x5C # CHR ''u'' # q) =
    (case read_unit q of None \<Rightarrow> None | Some (bs, n) \<Rightarrow> map_option (apfst ((@) bs)) (unquote (drop n q)))"
  and unquote_simple: "e \<noteq> CHR ''u'' \<Longrightarrow> unquote (CHR 0x5C # e # q) =
    (case simple_escape e of None \<Rightarrow> None | Some b \<Rightarrow> map_option (apfst ((#) b)) (unquote q))"
  by (simp_all add: unquote.simps)

lemma unquote_char: "c \<noteq> CHR 0x22 \<Longrightarrow> c \<noteq> CHR 0x5C \<Longrightarrow> unquote (c # r) =
    (if byte c < 32 then None
     else if utf8_len (c # r) = 0 then map_option (apfst ((@) (encode_rune rune_error))) (unquote r)
     else map_option (apfst ((@) (take (utf8_len (c # r)) (c # r)))) (unquote (drop (utf8_len (c # r)) (c # r))))"
  by (subst unquote.simps) simp

lemma unquote_shorter: "unquote s = Some (x, r) \<Longrightarrow> length r < length s"
proof (induction "length s" arbitrary: s x r rule: less_induct)
  case less
  have sub: "length r < length s" if "unquote t = Some (y, r)" "length t < length s" for t y
    using less.hyps [OF that(2,1)] that(2) by simp
  obtain c q where s: "s = c # q" using less.prems by (cases s) auto
  consider "c = CHR 0x22" | "c = CHR 0x5C" | "c \<noteq> CHR 0x22" "c \<noteq> CHR 0x5C" by blast
  then show ?case
  proof cases
    case 1
    then show ?thesis using less.prems s by simp
  next
    case 2
    with less.prems s obtain e q' where q: "q = e # q'" by (cases q) auto
    show ?thesis
    proof (cases "e = CHR ''u''")
      case True
      with less.prems s 2 q obtain bs m y where "unquote (drop m q') = Some (y, r)"
        by (auto split: option.splits)
      then show ?thesis by (rule sub) (simp add: s q)
    next
      case False
      with less.prems s 2 q obtain y where "unquote q' = Some (y, r)"
        by (auto simp: unquote_simple split: option.splits)
      then show ?thesis by (rule sub) (simp add: s q)
    qed
  next
    case 3
    let ?n = "utf8_len s"
    show ?thesis
    proof (cases "?n = 0")
      case True
      with less.prems 3 s obtain y where "unquote q = Some (y, r)"
        by (auto simp: unquote_char simp del: utf8_len.simps split: if_splits)
      then show ?thesis by (rule sub) (simp add: s)
    next
      case False
      with less.prems 3 s obtain y where "unquote (drop ?n s) = Some (y, r)"
        by (auto simp: unquote_char simp del: utf8_len.simps split: if_splits)
      then show ?thesis by (rule sub) (use False s in simp)
    qed
  qed
qed

lemma length_skip_space: "length (skip_space s) \<le> length s"
  by (simp add: skip_space_def length_dropWhile_le)

lemma read_whole_le: "read_whole s = Some (v, r) \<Longrightarrow> length r \<le> length s"
  using length_dropWhile_le [of is_digit "tl s"] length_dropWhile_le [of is_digit s]
  by (auto simp: read_whole_def Let_def split: if_splits)

lemma read_value_le: "read_value s = Some (v, r) \<Longrightarrow> length r \<le> length s"
  using unquote_shorter [of "tl s"] read_whole_le [of s]
  by (fastforce simp: read_value_def split: if_splits)

lemma read_member_shorter:
  assumes "read_member s = Some (m, r)"
  shows "length r < length s"
proof -
  obtain c q name q1 d u v w where s: "skip_space s = c # q" and n: "unquote q = Some (name, q1)"
    and q1: "skip_space q1 = d # u" and v: "read_value (skip_space u) = Some (v, w)"
    and r: "r = skip_space w"
    using assms by (auto simp: read_member_def split: list.splits option.splits prod.splits if_splits)
  have "length r \<le> length w" "length w \<le> length (skip_space u)" "length (skip_space u) \<le> length u"
    "length (skip_space q1) \<le> length q1" "length q1 < length q" "length (skip_space s) \<le> length s"
    using r read_value_le [OF v] unquote_shorter [OF n] by (simp_all add: length_skip_space)
  then show ?thesis using s q1 by simp
qed

text \<open>The members after the opening brace, up to the closing one.\<close>

function read_members :: "string \<Rightarrow> ((string \<times> member) list \<times> string) option" where
  "read_members s =
     (case read_member s of
        None \<Rightarrow> None
      | Some (m, r) \<Rightarrow>
          (case r of
             [] \<Rightarrow> None
           | c # q \<Rightarrow>
               if c = CHR '','' then map_option (apfst ((#) m)) (read_members q)
               else if c = CHR ''}'' then Some ([m], q)
               else None))"
  by pat_completeness auto
termination
  by (relation "measure length") (auto dest: read_member_shorter)

declare read_members.simps [simp del]

definition read_object :: "string \<Rightarrow> ((string \<times> member) list \<times> string) option" where
  "read_object s =
     (case skip_space s of
        [] \<Rightarrow> None
      | c # r \<Rightarrow>
          if c \<noteq> CHR ''{'' then None
          else if skip_space r \<noteq> [] \<and> hd (skip_space r) = CHR ''}'' then Some ([], tl (skip_space r))
          else read_members r)"

section \<open>Fields\<close>

text \<open>
  Names are compared after case folding, which takes the long s and the Kelvin sign to \<open>s\<close> and \<open>k\<close>.
\<close>

definition fold_name :: "string \<Rightarrow> string" where
  "fold_name name =
     (if name = bytes [197, 191] then ''s''
      else if name = bytes [226, 132, 170] then ''k''
      else ascii_lower name)"

datatype field_kind = TextField | Int64Field

fun fits :: "field_kind \<Rightarrow> member \<Rightarrow> bool" where
  "fits k JNothing = True"
| "fits TextField (JText s) = True"
| "fits Int64Field (JWhole i) = (- 9223372036854775808 \<le> i \<and> i < 9223372036854775808)"
| "fits k m = False"

definition strict_decode ::
  "(string \<times> field_kind) list \<Rightarrow> string \<Rightarrow> (string \<times> member) list option" where
  "strict_decode spec s =
     (case read_object s of
        None \<Rightarrow> None
      | Some (ms, rest) \<Rightarrow>
          if list_all (\<lambda>(name, m). \<exists>k \<in> set spec. fst k = fold_name name \<and> fits (snd k) m) ms \<and>
             skip_space rest = []
          then Some (map (apfst fold_name) ms) else None)"

text \<open>The value of a field after the decoding: the last one that is not \<open>null\<close>, else the zero value.\<close>

definition field_text :: "(string \<times> member) list \<Rightarrow> string \<Rightarrow> string" where
  "field_text ms name = foldl (\<lambda>v m. case m of (n, JText s) \<Rightarrow> if n = name then s else v | _ \<Rightarrow> v) [] ms"

definition field_int :: "(string \<times> member) list \<Rightarrow> string \<Rightarrow> int" where
  "field_int ms name = foldl (\<lambda>v m. case m of (n, JWhole i) \<Rightarrow> if n = name then i else v | _ \<Rightarrow> v) 0 ms"

lemma strict_decode_known:
  "strict_decode [(''v'', TextField), (''n'', Int64Field)]
     (''{\"v\":\"a'' @ CHR 0x5C # ''n\",\"n\":-12}'') =
     Some [(''v'', JText (''a'' @ [CHR 0x0A])), (''n'', JWhole (- 12))]"
  by code_simp

lemma read_unit_known: "read_unit ''003c'' = Some (''<'', 4)"
proof -
  have "encode_rune 60 = ''<''" by code_simp
  then show ?thesis by (simp add: read_unit_def hex4_def hex_value_def Let_def byte_def)
qed

lemma strict_decode_lenient:
  "strict_decode [(''v'', TextField)] ''{ \"V\" : null,\"v\":\"x\"} '' =
     Some [(''v'', JNothing), (''v'', JText ''x'')]"
  by code_simp

lemma strict_decode_rejects:
  "strict_decode [(''v'', TextField)] ''{\"w\":\"x\"}'' = None"
  "strict_decode [(''v'', TextField)] ''{\"v\":1}'' = None"
  "strict_decode [(''v'', TextField)] ''{\"v\":\"x\"} {}'' = None"
  "strict_decode [(''n'', Int64Field)] ''{\"n\":1.0}'' = None"
  by code_simp+

lemma strict_decode_range:
  "strict_decode [(''n'', Int64Field)] ''{\"n\":9223372036854775808}'' = None"
  by code_simp
end
