(* ===== verification/GoStrictRound.thy ===== *)
theory GoStrictRound
  imports GoStrict
begin

text \<open>
  The strict decoder reads what \<open>json.Marshal\<close> writes: string literals of valid UTF-8, integers and objects
  of them come back as they were.
\<close>

section \<open>String literals\<close>

lemma byte_inject: "byte c = byte d \<longleftrightarrow> c = d"
  by (metis char_of_byte)

lemma append_one: "(@) [x] = (#) x"
  by (rule ext) simp

lemma encode_rune_byte: "byte c < 128 \<Longrightarrow> encode_rune (byte c) = [c]"
  by (simp add: encode_rune_def bytes_def)

lemma encode_rune_separators:
  "encode_rune 8232 = bytes [226, 128, 168]" "encode_rune 8233 = bytes [226, 128, 169]"
  by (simp_all add: encode_rune_def)

lemma hex_value_consts: "hex_value (CHR ''0'') = Some 0" "hex_value (CHR ''2'') = Some 2"
  "hex_value (CHR ''8'') = Some 8" "hex_value (CHR ''9'') = Some 9"
  by (simp_all add: hex_value_def byte_def)

lemma read_unit_byte:
  assumes "byte c < 128"
  shows "read_unit (''00'' @ hex_encode [c] @ t) = Some ([c], 4)"
proof -
  let ?a = "byte c div 16" and ?b = "byte c mod 16"
  have ab: "?a < 16" "?b < 16" "16 * ?a + ?b = byte c" using assms by simp_all
  then have "hex4 (''00'' @ hex_encode [c] @ t) = Some (byte c)"
    by (simp add: hex4_def hex_encode_def hex_value_digit hex_value_consts)
  with assms show ?thesis by (simp add: read_unit_def encode_rune_byte)
qed

lemma read_unit_separators:
  "read_unit (''2028'' @ t) = Some (bytes [226, 128, 168], 4)"
  "read_unit (''2029'' @ t) = Some (bytes [226, 128, 169], 4)"
  by (simp_all add: read_unit_def hex4_def hex_value_consts encode_rune_separators)

lemma unquote_escape_ascii:
  assumes "byte c < 128"
  shows "unquote (escape_ascii c @ t) = map_option (apfst ((#) c)) (unquote t)"
proof -
  consider "c = CHR 0x22 \<or> c = CHR 0x5C" | "byte c \<in> {8, 12, 10, 13, 9}"
    | "c \<noteq> CHR 0x22" "c \<noteq> CHR 0x5C" "byte c \<notin> {8, 12, 10, 13, 9}"
      "byte c < 32 \<or> c = CHR ''<'' \<or> c = CHR ''>'' \<or> c = CHR ''&''"
    | "c \<noteq> CHR 0x22" "c \<noteq> CHR 0x5C" "\<not> byte c < 32" "c \<noteq> CHR ''<''" "c \<noteq> CHR ''>''" "c \<noteq> CHR ''&''"
    by fastforce
  then show ?thesis
  proof cases
    case 1
    then show ?thesis by (auto simp: escape_ascii_def Let_def unquote_simple simple_escape_def)
  next
    case 2
    then have "byte c \<in> byte ` {CHR 0x08, CHR 0x0C, CHR 0x0A, CHR 0x0D, CHR 0x09}"
      by (simp add: byte_def)
    then have "c = CHR 0x08 \<or> c = CHR 0x0C \<or> c = CHR 0x0A \<or> c = CHR 0x0D \<or> c = CHR 0x09"
      by (auto simp: byte_inject)
    moreover have "escape_ascii (CHR 0x08) = CHR 0x5C # ''b''" "escape_ascii (CHR 0x0C) = CHR 0x5C # ''f''"
      "escape_ascii (CHR 0x0A) = CHR 0x5C # ''n''" "escape_ascii (CHR 0x0D) = CHR 0x5C # ''r''"
      "escape_ascii (CHR 0x09) = CHR 0x5C # ''t''"
      by (simp_all add: escape_ascii_def byte_def)
    ultimately show ?thesis by (elim disjE) (simp_all add: unquote_simple simple_escape_def)
  next
    case 3
    let ?u = "''00'' @ hex_encode [c] @ t"
    have "escape_ascii c @ t = CHR 0x5C # CHR ''u'' # ?u"
      using 3 by (auto simp: escape_ascii_def Let_def)
    moreover have "drop 4 ?u = t" by (simp add: hex_encode_def)
    ultimately show ?thesis using read_unit_byte [OF assms, of t] by (simp add: append_one)
  next
    case 4
    then have "escape_ascii c = [c]" by (auto simp: escape_ascii_def Let_def)
    with 4 assms show ?thesis by (simp add: unquote_char Let_def append_one)
  qed
qed

lemma utf8_len_take: "utf8_len s \<noteq> 0 \<Longrightarrow> utf8_len (take (utf8_len s) s @ t) = utf8_len s"
  by (induction s rule: utf8_len.induct) (auto simp: Let_def split: list.splits if_splits)

lemma utf8_len_one: "utf8_len (c # q) = 1 \<longleftrightarrow> byte c < 128"
  by (auto simp: Let_def split: list.splits if_splits)

lemma utf8_len_separators:
  assumes "take 3 s = bytes [226, 128, n]" "128 \<le> n" "n \<le> 191"
  shows "utf8_len s = 3"
proof -
  have "3 \<le> length s" using arg_cong [OF assms(1), of length] by (simp add: bytes_def)
  then obtain a b c r where "s = a # b # c # r" by (auto simp: numeral_3_eq_3 Suc_le_length_iff)
  with assms show ?thesis by (auto simp: bytes_def byte_def second_ok_def is_cont_def)
qed

lemma unquote_long:
  assumes "utf8_len s \<noteq> 0" "utf8_len s \<noteq> 1"
  shows "unquote (take (utf8_len s) s @ t) = map_option (apfst ((@) (take (utf8_len s) s))) (unquote t)"
proof -
  let ?u = "take (utf8_len s) s @ t"
  obtain c q where s: "s = c # q" using assms by (cases s) auto
  then obtain q' where u: "?u = c # q'" using assms(1) by (cases "utf8_len s") auto
  have "\<not> byte c < 128" using assms(2) s by (simp only: utf8_len_one) simp
  then have c: "c \<noteq> CHR 0x22" "c \<noteq> CHR 0x5C" "\<not> byte c < 32" by (auto simp: byte_def)
  have n: "utf8_len (c # q') = utf8_len s" using utf8_len_take [OF assms(1), of t] u by simp
  have "take (utf8_len s) (c # q') = take (utf8_len s) s" "drop (utf8_len s) (c # q') = t"
    using utf8_len_le [of s] unfolding u [symmetric] by simp_all
  with unquote_char [OF c(1,2), of q'] c(3) n assms(1) u show ?thesis by simp
qed

lemma unquote_escape_text:
  "ValidString s \<Longrightarrow> unquote (escape_text s @ CHR 0x22 # r) = Some (s, r)"
proof (induction "length s" arbitrary: s rule: less_induct)
  case less
  let ?n = "utf8_len s" and ?r = "CHR 0x22 # r"
  show ?case
  proof (cases s)
    case Nil
    then show ?thesis by (simp add: escape_text.simps [of "[]"])
  next
    case (Cons c q)
    then have s: "s \<noteq> []" by simp
    have n0: "?n \<noteq> 0" and v: "ValidString (drop ?n s)"
      using less.prems ValidString.simps [of s] s by (auto split: if_splits)
    have IH: "unquote (escape_text (drop ?n s) @ ?r) = Some (drop ?n s, r)"
      using less.hyps v n0 s by simp
    have sep: "unquote (escape_text s @ ?r) = Some (s, r)"
      if e: "escape_text s = CHR 0x5C # CHR ''u'' # u @ escape_text (drop 3 s)" and l: "length u = 4"
        and t: "take 3 s = bytes [226, 128, x]" and x: "128 \<le> x" "x \<le> 191"
        and m: "\<And>t. read_unit (u @ t) = Some (take 3 s, 4)" for u x
    proof -
      have "?n = 3" using utf8_len_separators [OF t x] .
      with IH have "unquote (escape_text (drop 3 s) @ ?r) = Some (drop 3 s, r)" by simp
      with m l show ?thesis unfolding e by simp
    qed
    consider "?n = 1" | "take 3 s = bytes [226, 128, 168]" "?n \<noteq> 1"
      | "take 3 s = bytes [226, 128, 169]" "?n \<noteq> 1" "take 3 s \<noteq> bytes [226, 128, 168]"
      | "?n \<noteq> 1" "take 3 s \<noteq> bytes [226, 128, 168]" "take 3 s \<noteq> bytes [226, 128, 169]" by blast
    then show ?thesis
    proof cases
      case 1
      then have "byte c < 128" using Cons by (simp only: utf8_len_one)
      moreover have "escape_text s = escape_ascii c @ escape_text q"
        using escape_text.simps [of s] 1 Cons by (simp del: utf8_len.simps)
      ultimately show ?thesis using IH 1 Cons by (simp add: unquote_escape_ascii del: utf8_len.simps)
    next
      case 2
      with n0 s have "escape_text s = CHR 0x5C # CHR ''u'' # ''2028'' @ escape_text (drop 3 s)"
        using escape_text.simps [of s] by simp
      from sep [OF this _ 2(1)] show ?thesis using read_unit_separators(1) 2(1) by simp
    next
      case 3
      with n0 s have "escape_text s = CHR 0x5C # CHR ''u'' # ''2029'' @ escape_text (drop 3 s)"
        using escape_text.simps [of s] by simp
      from sep [OF this _ 3(1)] show ?thesis using read_unit_separators(2) 3(1) by simp
    next
      case 4
      with n0 s have "escape_text s = take ?n s @ escape_text (drop ?n s)"
        using escape_text.simps [of s] by simp
      then show ?thesis using unquote_long [OF n0 4(1)] IH by simp
    qed
  qed
qed

section \<open>Integers\<close>

lemma digits_number_append: "digits_number (s @ [c]) = 10 * digits_number s + int (byte c - 48)"
  by (simp add: digits_number_def)

lemma digit_char_table: "list_all (\<lambda>d. byte (digit_char d) = nat (48 + d)) [0..9]"
  by code_simp

lemma digit_char_byte: "0 \<le> d \<Longrightarrow> d < 10 \<Longrightarrow> byte (digit_char d) = nat (48 + d)"
proof -
  assume "0 \<le> d" "d < 10"
  then show ?thesis using digit_char_table by (simp add: list_all_iff)
qed

lemma is_digit_char: "0 \<le> d \<Longrightarrow> d < 10 \<Longrightarrow> is_digit (digit_char d)"
  by (simp add: is_digit_def digit_char_byte) linarith

lemma digits_text_snoc: "\<not> n < 10 \<Longrightarrow> digits_text n = digits_text (n div 10) @ [digit_char (n mod 10)]"
  and digits_text_one: "n < 10 \<Longrightarrow> digits_text n = [digit_char n]"
  by (simp_all add: digits_text.simps [of n])

lemma digits_text_digits: "0 \<le> n \<Longrightarrow> list_all is_digit (digits_text n)"
proof (induction n rule: digits_text.induct)
  case (1 n)
  show ?case
    using 1 by (cases "n < 10")
      (simp_all add: digits_text_one digits_text_snoc is_digit_char)
qed

lemma digits_number_text: "0 \<le> n \<Longrightarrow> digits_number (digits_text n) = n"
proof (induction n rule: digits_text.induct)
  case (1 n)
  show ?case
  proof (cases "n < 10")
    case True
    with 1 show ?thesis by (simp add: digits_text_one digits_number_def digit_char_byte)
  next
    case False
    with 1 show ?thesis
      by (simp add: digits_text_snoc digits_number_append digit_char_byte)
  qed
qed

lemma digits_text_not_Nil [simp]: "digits_text n \<noteq> []"
  by (simp add: digits_text.simps [of n])

lemma digits_text_first: "10 \<le> n \<Longrightarrow> hd (digits_text n) \<noteq> CHR ''0''"
proof (induction n rule: digits_text.induct)
  case (1 n)
  have "hd (digits_text (n div 10)) \<noteq> CHR ''0''"
  proof (cases "n div 10 < 10")
    case True
    have "byte (digit_char (n div 10)) \<noteq> byte (CHR ''0'')"
      using True "1.prems" by (simp add: digit_char_byte) (simp add: byte_def)
    with True show ?thesis by (auto simp: digits_text_one)
  qed (use 1 in simp)
  with "1.prems" show ?case by (simp add: digits_text_snoc)
qed

lemma length_digits_text: "1 < length (digits_text n) \<Longrightarrow> 10 \<le> n"
  by (cases "n < 10") (simp_all add: digits_text_one)

lemma read_whole_int_text:
  assumes "r = [] \<or> \<not> is_digit (hd r)"
  shows "read_whole (int_text i @ r) = Some (i, r)"
proof -
  have m: "\<not> is_digit (CHR ''-'')" by (simp add: is_digit_def byte_def)
  have r: "takeWhile is_digit r = []" "dropWhile is_digit r = r"
    using assms by (cases r; simp)+
  have d: "\<forall>c \<in> set (digits_text n). is_digit c" if "0 \<le> n" for n
    using digits_text_digits [OF that] by (simp add: list_all_iff)
  have h: "hd (digits_text n) \<noteq> CHR ''-''" if "0 \<le> n" for n
    using d [OF that] m hd_in_set [OF digits_text_not_Nil [of n]] by metis
  have *: "takeWhile is_digit (digits_text n @ r) = digits_text n"
    "dropWhile is_digit (digits_text n @ r) = r"
    "hd (digits_text n @ r) \<noteq> CHR ''-''" if "0 \<le> n" for n
    using d [OF that] h [OF that] r by (auto simp: takeWhile_append2 dropWhile_append2)
  have z: "\<not> (1 < length (digits_text n) \<and> hd (digits_text n) = CHR ''0'')" for n
    using digits_text_first length_digits_text by blast
  show ?thesis
    using * [of i] * [of "- i"] z [of i] z [of "- i"]
    by (cases "i < 0") (simp_all add: int_text_def read_whole_def Let_def digits_number_text)
qed

section \<open>Objects\<close>

text \<open>A struct of strings and integers, as \<open>json.Marshal\<close> and the decoder see it.\<close>

fun member_json :: "member \<Rightarrow> json" where
  "member_json (JText s) = JStr s"
| "member_json (JWhole i) = JInt i"
| "member_json JNothing = JNull"

fun plain_member :: "member \<Rightarrow> bool" where
  "plain_member (JText s) = ValidString s"
| "plain_member (JWhole i) = True"
| "plain_member JNothing = False"

definition member_text :: "string \<times> member \<Rightarrow> string" where
  "member_text f = string_text (fst f) @ '':'' @
     (case snd f of JText s \<Rightarrow> string_text s | JWhole i \<Rightarrow> int_text i | JNothing \<Rightarrow> ''null'')"

definition object_text :: "(string \<times> member) list \<Rightarrow> string" where
  "object_text fs = ''{'' @ commas (map member_text fs) @ ''}''"

lemma render_fields_members:
  "render_fields (map (apsnd member_json) fs) = Some (map member_text fs)"
proof (induction fs)
  case (Cons f fs)
  then show ?case by (cases f; cases "snd f") (simp_all add: member_text_def)
qed simp

lemma render_object: "render (JObj (map (apsnd member_json) fs)) = Some (object_text fs)"
  by (simp add: render_fields_members object_text_def)

lemma skip_space_stay: "c # s \<noteq> [] \<Longrightarrow> \<not> json_space c \<Longrightarrow> skip_space (c # s) = c # s"
  by (simp add: skip_space_def)

lemma not_json_space [simp]:
  "\<not> json_space (CHR 0x22)" "\<not> json_space (CHR '':'')" "\<not> json_space (CHR '','')"
  "\<not> json_space (CHR ''{'')" "\<not> json_space (CHR ''}'')" "\<not> json_space (CHR ''-'')"
  by (simp_all add: json_space_def byte_def)

lemma digit_not_space: "is_digit c \<Longrightarrow> \<not> json_space c"
  by (simp add: is_digit_def json_space_def)

lemma skip_space_Cons [simp]: "\<not> json_space c \<Longrightarrow> skip_space (c # s) = c # s"
  by (simp add: skip_space_def)

lemma int_text_head:
  obtains c s where "int_text i = c # s" "c = CHR ''-'' \<or> is_digit c"
proof (cases "i < 0")
  case True
  then show thesis by (intro that [of "CHR ''-''" "digits_text (- i)"] disjI1) (simp_all add: int_text_def)
next
  case False
  then obtain c s where "digits_text i = c # s" by (meson digits_text_not_Nil neq_Nil_conv)
  moreover have "is_digit c" using digits_text_digits [of i] False calculation by simp
  ultimately show thesis using False by (intro that [of c s]) (simp_all add: int_text_def)
qed

definition closes :: "string \<Rightarrow> bool" where
  "closes r \<longleftrightarrow> r \<noteq> [] \<and> (hd r = CHR '','' \<or> hd r = CHR ''}'')"

lemma closes_not_digit: "closes r \<Longrightarrow> \<not> is_digit (hd r)"
  by (auto simp: closes_def is_digit_def byte_def)

lemma closes_skip: "closes r \<Longrightarrow> skip_space r = r"
  by (cases r) (auto simp: closes_def)

lemma read_value_text:
  "ValidString s \<Longrightarrow> read_value (skip_space (string_text s @ r)) = Some (JText s, r)"
  by (simp add: read_value_def string_text_def unquote_escape_text)

lemma read_value_int:
  assumes "closes r"
  shows "read_value (skip_space (int_text i @ r)) = Some (JWhole i, r)"
proof -
  obtain c s where i: "int_text i = c # s" and c: "c = CHR ''-'' \<or> is_digit c" by (rule int_text_head)
  from c have n: "\<not> json_space c" "c \<noteq> CHR 0x22" "c \<noteq> CHR ''n''"
    by (auto simp: digit_not_space) (auto simp: is_digit_def byte_def)
  have "read_whole (c # s @ r) = Some (i, r)"
    using read_whole_int_text [of r i] closes_not_digit [OF assms] i by simp
  with n show ?thesis by (simp add: i read_value_def)
qed

lemma read_member_text:
  assumes "ValidString (fst f)" "plain_member (snd f)" "closes r"
  shows "read_member (member_text f @ r) = Some (f, r)"
proof -
  obtain n m where f: "f = (n, m)" by force
  obtain v where t: "member_text f = string_text n @ CHR '':'' # v"
    and v: "read_value (skip_space (v @ r)) = Some (m, r)"
    using assms f by (cases m) (auto simp: member_text_def read_value_text read_value_int)
  have "unquote (escape_text n @ CHR 0x22 # CHR '':'' # v @ r) = Some (n, CHR '':'' # v @ r)"
    using assms(1) f by (simp add: unquote_escape_text)
  with v f show ?thesis
    unfolding read_member_def t by (simp add: string_text_def closes_skip [OF assms(3)])
qed

lemma read_members_text:
  assumes "fs \<noteq> []" "\<forall>f \<in> set fs. ValidString (fst f) \<and> plain_member (snd f)"
  shows "read_members (commas (map member_text fs) @ CHR ''}'' # r) = Some (fs, r)"
  using assms
proof (induction fs rule: induct_list012)
  case (2 f)
  have "read_member (member_text f @ CHR ''}'' # r) = Some (f, CHR ''}'' # r)"
    using 2 by (intro read_member_text) (auto simp: closes_def)
  then show ?case by (simp add: read_members.simps [of "member_text f @ CHR ''}'' # r"])
next
  case (3 f g fs)
  let ?t = "commas (map member_text (g # fs)) @ CHR ''}'' # r"
  have "read_member (member_text f @ CHR '','' # ?t) = Some (f, CHR '','' # ?t)"
    using 3 by (intro read_member_text) (auto simp: closes_def)
  moreover have "read_members ?t = Some (g # fs, r)" using 3 by simp
  ultimately have "read_members (member_text f @ CHR '','' # ?t) = Some (f # g # fs, r)"
    by (subst read_members.simps) simp
  then show ?case by simp
qed simp

theorem read_object_text:
  assumes "\<forall>f \<in> set fs. ValidString (fst f) \<and> plain_member (snd f)"
  shows "read_object (object_text fs @ r) = Some (fs, r)"
proof (cases fs)
  case Nil
  then show ?thesis by (simp add: read_object_def object_text_def)
next
  case (Cons f gs)
  have m: "read_members (commas (map member_text fs) @ CHR ''}'' # r) = Some (fs, r)"
    using read_members_text [of fs] assms Cons by simp
  obtain t where t: "commas (map member_text fs) = CHR 0x22 # t"
    using Cons by (cases gs) (simp_all add: member_text_def string_text_def)
  with m show ?thesis by (simp add: read_object_def object_text_def)
qed

text \<open>The strict decoder on a marshalled struct whose fields are those of the payload.\<close>

theorem strict_decode_text:
  assumes "\<forall>f \<in> set fs. ValidString (fst f) \<and> plain_member (snd f) \<and> fold_name (fst f) = fst f \<and>
      (\<exists>k \<in> set spec. fst k = fst f \<and> fits (snd k) (snd f))"
  shows "strict_decode spec (object_text fs) = Some fs"
proof -
  have "read_object (object_text fs) = Some (fs, [])"
    using read_object_text [of fs "[]"] assms by simp
  moreover have "map (apfst fold_name) fs = fs"
    using assms by (intro map_idI) (auto simp: apfst_def map_prod_def split: prod.splits)
  moreover have "list_all (\<lambda>(name, m). \<exists>k \<in> set spec. fst k = fold_name name \<and> fits (snd k) m) fs"
    unfolding list_all_iff
  proof safe
    fix n m
    assume "(n, m) \<in> set fs"
    with assms show "\<exists>k \<in> set spec. fst k = fold_name n \<and> fits (snd k) m" by force
  qed
  ultimately show ?thesis by (simp add: strict_decode_def skip_space_def)
qed

end
