(* ===== verification/ProjectionTime.thy ===== *)
theory ProjectionTime
  imports GoStrictRound "HOL-Library.Monad_Syntax"
begin

text \<open>
  Times as the store writes them (\<open>internal/storage/local/projection_time.go\<close>): the layout
  \<open>2006-01-02T15:04:05.000000000Z\<close>, of fixed width, so that the order of the texts is the order of the
  times; \<open>time.Parse\<close> with this layout, as the tokens use it, and that it reads what was written.
\<close>

definition formatProjectionTime :: "gotime \<Rightarrow> string" where
  "formatProjectionTime t =
     (let ns = wall_ns t;
          (y, yd) = year_day (day_number ns);
          (m, d) = month_day (month_lengths y) 1 yd;
          s = (ns div 1000000000) mod 86400;
          two = (\<lambda>i. pad_left 2 (digits_text i));
          year = (if y < 0 then CHR ''-'' # pad_left 4 (digits_text (- y)) else pad_left 4 (digits_text y))
      in year @ ''-'' @ two m @ ''-'' @ two d @ ''T'' @ two (s div 3600) @ '':'' @ two (s div 60 mod 60) @
         '':'' @ two (s mod 60) @ ''.'' @ pad_left 9 (digits_text (ns mod 1000000000)) @ ''Z'')"

section \<open>\<open>time.Parse\<close> with the projection layout\<close>

definition literal :: "char \<Rightarrow> string \<Rightarrow> string option" where
  "literal c s = (case s of [] \<Rightarrow> None | x # r \<Rightarrow> if x = c then Some r else None)"

definition digit_at :: "string \<Rightarrow> nat \<Rightarrow> bool" where
  "digit_at s i \<longleftrightarrow> i < length s \<and> is_digit (s ! i)"

text \<open>\<open>atoi\<close> takes a sign; \<open>getnum\<close> reads two digits, or one when the field need not be fixed.\<close>

definition atoi :: "string \<Rightarrow> int option" where
  "atoi s =
     (let neg = (s \<noteq> [] \<and> hd s = CHR ''-'');
          t = (if s \<noteq> [] \<and> (hd s = CHR ''-'' \<or> hd s = CHR ''+'') then tl s else s)
      in if list_all is_digit t then Some (if neg then - digits_number t else digits_number t) else None)"

definition getnum :: "bool \<Rightarrow> string \<Rightarrow> (int \<times> string) option" where
  "getnum fixed s =
     (if \<not> digit_at s 0 then None
      else if \<not> digit_at s 1 then (if fixed then None else Some (digits_number (take 1 s), drop 1 s))
      else Some (digits_number (take 2 s), drop 2 s))"

definition in_range :: "int \<Rightarrow> int \<Rightarrow> int \<times> string \<Rightarrow> (int \<times> string) option" where
  "in_range lo hi p = (if lo \<le> fst p \<and> fst p \<le> hi then Some p else None)"

definition parse_year :: "string \<Rightarrow> (int \<times> string) option" where
  "parse_year s =
     (if length s < 4 \<or> \<not> digit_at s 0 then None else map_option (\<lambda>y. (y, drop 4 s)) (atoi (take 4 s)))"

definition parse_nanoseconds :: "string \<Rightarrow> (int \<times> string) option" where
  "parse_nanoseconds s =
     (if length s < 10 \<or> (hd s \<noteq> CHR ''.'' \<and> hd s \<noteq> CHR '','') then None
      else case atoi (take 9 (tl s)) of
          None \<Rightarrow> None
        | Some n \<Rightarrow> if n < 0 then None else Some (n, drop 10 s))"

text \<open>\<open>time.Date\<close> on a valid date: the instant in nanoseconds since the year 1.\<close>

definition days_before_year :: "int \<Rightarrow> int" where
  "days_before_year y = 365 * (y - 1) + (y - 1) div 4 - (y - 1) div 100 + (y - 1) div 400"

definition days_before_month :: "int list \<Rightarrow> int \<Rightarrow> int" where
  "days_before_month lengths m = sum_list (take (nat (m - 1)) lengths)"

definition date_ns :: "int \<Rightarrow> int \<Rightarrow> int \<Rightarrow> int \<Rightarrow> int \<Rightarrow> int \<Rightarrow> int \<Rightarrow> int" where
  "date_ns y m d hour mins sec nsec =
     (((days_before_year y + days_before_month (month_lengths y) m + d - 1) * 24 + hour) * 60 + mins) * 60000000000
       + sec * 1000000000 + nsec"

definition days_in :: "int \<Rightarrow> int \<Rightarrow> int" where
  "days_in m y = (month_lengths y @ [31]) ! nat (m - 1)"

definition parse_projection :: "string \<Rightarrow> gotime option" where
  "parse_projection s0 = do {
     (y, s) \<leftarrow> parse_year s0;
     s \<leftarrow> literal (CHR ''-'') s;
     (m, s) \<leftarrow> Option.bind (getnum True s) (in_range 1 12);
     s \<leftarrow> literal (CHR ''-'') s;
     (d, s) \<leftarrow> getnum True s;
     s \<leftarrow> literal (CHR ''T'') s;
     (hour, s) \<leftarrow> Option.bind (getnum False s) (in_range 0 23);
     s \<leftarrow> literal (CHR '':'') s;
     (mins, s) \<leftarrow> Option.bind (getnum True s) (in_range 0 59);
     s \<leftarrow> literal (CHR '':'') s;
     (sec, s) \<leftarrow> Option.bind (getnum True s) (in_range 0 59);
     (nsec, s) \<leftarrow> parse_nanoseconds s;
     s \<leftarrow> literal (CHR ''Z'') s;
     if s = [] \<and> 1 \<le> d \<and> d \<le> days_in m y then Some (utc_at (date_ns y m d hour mins sec nsec)) else None
   }"

section \<open>The calendar\<close>

lemma div_known: "x = k * q + r \<Longrightarrow> 0 \<le> r \<Longrightarrow> r < k \<Longrightarrow> x div k = q" for x k q r :: int
  by simp

lemma mod_known: "x = k * q + r \<Longrightarrow> 0 < r \<Longrightarrow> r \<le> k \<Longrightarrow> x mod k = 0 \<longleftrightarrow> r = k" for x k q r :: int
  by (cases "r = k") simp_all

lemma year_day_inverse:
  assumes "year_day d = (y, yd)"
  shows "days_before_year y + yd = d" "0 \<le> yd" "yd < (if leap_year y then 366 else 365)"
proof -
  define n400 d1 where "n400 = d div 146097" and "d1 = d mod 146097"
  define n100 d2 where "n100 = min 3 (d1 div 36524)" and "d2 = d1 - n100 * 36524"
  define n4 d3 where "n4 = d2 div 1461" and "d3 = d2 mod 1461"
  define n1 where "n1 = min 3 (d3 div 365)"
  note defs = n400_def d1_def n100_def d2_def n4_def d3_def n1_def
  have y: "y = 400 * n400 + 100 * n100 + 4 * n4 + n1 + 1" and yd: "yd = d3 - n1 * 365"
    using assms by (simp_all add: year_day_def Let_def flip: defs)
  have d: "d = 146097 * n400 + d1" "0 \<le> d1" "d1 < 146097" by (simp_all add: n400_def d1_def)
  have h: "0 \<le> n100" "n100 \<le> 3" "0 \<le> d2" "n100 < 3 \<Longrightarrow> d2 < 36524" "d2 \<le> 36524"
    using d unfolding n100_def d2_def by linarith+
  have q: "d2 = 1461 * n4 + d3" "0 \<le> d3" "d3 < 1461" by (simp_all add: n4_def d3_def)
  have n4: "0 \<le> n4" "n4 \<le> 24" using h q by linarith+
  have o: "0 \<le> n1" "n1 \<le> 3" "0 \<le> yd" "n1 < 3 \<Longrightarrow> yd < 365" "yd \<le> 365"
    using q unfolding yd n1_def by linarith+
  have y4: "y - 1 = 4 * (100 * n400 + 25 * n100 + n4) + n1" by (simp add: y)
  have y100: "y - 1 = 100 * (4 * n400 + n100) + (4 * n4 + n1)" by (simp add: y)
  have y400: "y - 1 = 400 * n400 + (100 * n100 + 4 * n4 + n1)" by (simp add: y)
  have div4: "(y - 1) div 4 = 100 * n400 + 25 * n100 + n4" using o by (intro div_known [OF y4]) auto
  have div100: "(y - 1) div 100 = 4 * n400 + n100" using o n4 by (intro div_known [OF y100]) auto
  have div400: "(y - 1) div 400 = n400" using o n4 h by (intro div_known [OF y400]) auto
  show "days_before_year y + yd = d"
    unfolding days_before_year_def div4 div100 div400 using y yd d(1) q(1) d2_def by (simp add: algebra_simps)
  show "0 \<le> yd" by (rule o)
  have "y mod 4 = 0 \<longleftrightarrow> n1 + 1 = 4"
    by (rule mod_known [of y 4 "100 * n400 + 25 * n100 + n4"]) (use y4 o in linarith)+
  moreover have "y mod 100 = 0 \<longleftrightarrow> 4 * n4 + n1 + 1 = 100"
    by (rule mod_known [of y 100 "4 * n400 + n100"]) (use y100 o n4 in linarith)+
  moreover have "y mod 400 = 0 \<longleftrightarrow> 100 * n100 + 4 * n4 + n1 + 1 = 400"
    by (rule mod_known [of y 400 n400]) (use y400 o n4 h in linarith)+
  ultimately have leap: "leap_year y \<longleftrightarrow> n1 = 3 \<and> (n4 \<noteq> 24 \<or> n100 = 3)"
    unfolding leap_year_def using o n4 h by auto
  show "yd < (if leap_year y then 366 else 365)"
  proof (cases "n1 = 3 \<and> n4 = 24 \<and> n100 < 3")
    case True
    then show ?thesis using h(4) q yd by simp
  next
    case False
    then show ?thesis using leap o h by auto
  qed
qed

definition month_day_ok :: "int list \<Rightarrow> int \<Rightarrow> bool" where
  "month_day_ok ls yd =
     (case month_day ls 1 yd of (m, d) \<Rightarrow>
        1 \<le> m \<and> m \<le> 12 \<and> 1 \<le> d \<and> d \<le> (ls @ [31]) ! nat (m - 1) \<and> days_before_month ls m + d - 1 = yd)"

lemma month_day_table:
  "list_all (month_day_ok [31, 28, 31, 30, 31, 30, 31, 31, 30, 31, 30]) [0..364]"
  "list_all (month_day_ok [31, 29, 31, 30, 31, 30, 31, 31, 30, 31, 30]) [0..365]"
  by code_simp+

lemma month_day_inverse:
  assumes "0 \<le> yd" "yd < (if leap_year y then 366 else 365)" "month_day (month_lengths y) 1 yd = (m, d)"
  shows "1 \<le> m" "m \<le> 12" "1 \<le> d" "d \<le> days_in m y"
    "days_before_month (month_lengths y) m + d - 1 = yd"
proof -
  have "month_day_ok (month_lengths y) yd"
    using assms(1,2) month_day_table by (auto simp: month_lengths_def list_all_iff split: if_splits)
  then show "1 \<le> m" "m \<le> 12" "1 \<le> d" "d \<le> days_in m y"
    "days_before_month (month_lengths y) m + d - 1 = yd"
    using assms(3) by (simp_all add: month_day_ok_def days_in_def)
qed

section \<open>Reading what was written\<close>

definition fixed_digits :: "nat \<Rightarrow> int \<Rightarrow> string" where
  "fixed_digits k n = pad_left k (digits_text n)"

lemma length_digits_le: "0 \<le> n \<Longrightarrow> n < 10 ^ Suc k \<Longrightarrow> length (digits_text n) \<le> Suc k"
proof (induction k arbitrary: n)
  case 0
  then show ?case by (simp add: digits_text_one)
next
  case (Suc k)
  show ?case
  proof (cases "n < 10")
    case False
    have "n div 10 < 10 ^ Suc k" using Suc.prems by (simp add: div_less_iff_less_mult)
    with Suc False show ?thesis by (simp add: digits_text_snoc pos_imp_zdiv_nonneg_iff)
  qed (simp add: digits_text_one)
qed

lemma digits_number_zeros: "digits_number (replicate k (CHR ''0'') @ s) = digits_number s"
  by (induction k) (simp_all add: digits_number_def byte_def)

lemma fixed_digits:
  assumes "0 \<le> n" "n < 10 ^ Suc k"
  shows "length (fixed_digits (Suc k) n) = Suc k" "list_all is_digit (fixed_digits (Suc k) n)"
    "digits_number (fixed_digits (Suc k) n) = n"
proof -
  have z: "is_digit (CHR ''0'')" by (simp add: is_digit_def byte_def)
  show "length (fixed_digits (Suc k) n) = Suc k"
    using length_digits_le [OF assms] by (simp add: fixed_digits_def pad_left_def)
  show "list_all is_digit (fixed_digits (Suc k) n)"
    using digits_text_digits [OF assms(1)] z by (auto simp: fixed_digits_def pad_left_def list_all_iff)
  show "digits_number (fixed_digits (Suc k) n) = n"
    using assms(1) by (simp add: fixed_digits_def pad_left_def digits_number_zeros digits_number_text)
qed

lemma digit_at_append:
  assumes "list_all is_digit ds" "i < length ds"
  shows "digit_at (ds @ r) i"
  using assms by (simp add: digit_at_def nth_append list_all_length)

lemma atoi_digits: "list_all is_digit ds \<Longrightarrow> atoi ds = Some (digits_number ds)"
proof -
  have "\<not> is_digit (CHR ''-'')" "\<not> is_digit (CHR ''+'')" by (simp_all add: is_digit_def byte_def)
  then show "list_all is_digit ds \<Longrightarrow> atoi ds = Some (digits_number ds)"
    by (cases ds) (auto simp: atoi_def Let_def)
qed

lemma getnum_fixed_digits:
  assumes "0 \<le> n" "n \<le> 99"
  shows "getnum fixed (fixed_digits 2 n @ r) = Some (n, r)"
proof -
  let ?d = "fixed_digits 2 n"
  have d: "length ?d = 2" "list_all is_digit ?d" "digits_number ?d = n"
    using fixed_digits [of n 1] assms by (simp_all add: numeral_2_eq_2)
  then show ?thesis by (simp add: getnum_def digit_at_append)
qed

lemma parse_year_digits:
  assumes "0 \<le> y" "y \<le> 9999"
  shows "parse_year (fixed_digits 4 y @ r) = Some (y, r)"
proof -
  let ?d = "fixed_digits 4 y"
  have d: "length ?d = 4" "list_all is_digit ?d" "digits_number ?d = y"
    using fixed_digits [of y 3] assms by (simp_all add: eval_nat_numeral)
  then show ?thesis by (simp add: parse_year_def digit_at_append atoi_digits)
qed

lemma parse_nanoseconds_digits:
  assumes "0 \<le> n" "n < 1000000000"
  shows "parse_nanoseconds (CHR ''.'' # fixed_digits 9 n @ r) = Some (n, r)"
proof -
  let ?d = "fixed_digits 9 n"
  have d: "length ?d = 9" "list_all is_digit ?d" "digits_number ?d = n"
    using fixed_digits [of n 8] assms by (simp_all add: eval_nat_numeral)
  then show ?thesis using assms by (simp add: parse_nanoseconds_def atoi_digits)
qed

lemma literal_match [simp]: "literal c (c # r) = Some r"
  by (simp add: literal_def)

lemma days_in_le: "1 \<le> m \<Longrightarrow> m \<le> 12 \<Longrightarrow> days_in m y \<le> 31"
proof -
  assume "1 \<le> m" "m \<le> 12"
  then have "nat (m - 1) < 12" by linarith
  moreover have "list_all (\<lambda>n. n \<le> 31) (month_lengths y @ [31])" by (simp add: month_lengths_def)
  ultimately show ?thesis by (simp add: list_all_length days_in_def month_lengths_def)
qed

lemma clock_sum: "s = (a * 60 + b) * 60 + c \<Longrightarrow> ns = (D * 86400 + s) * 1000000000 + r \<Longrightarrow>
    ((D * 24 + a) * 60 + b) * 60000000000 + c * 1000000000 + r = ns" for s a b c ns D r :: int
  by simp

lemma clock_parts: "s = 60 * q + c \<Longrightarrow> q = 60 * h + b \<Longrightarrow> s = (h * 60 + b) * 60 + c" for s q c h b :: int
  by simp

lemma day_clock:
  fixes ns :: int
  defines "s \<equiv> (ns div 1000000000) mod 86400"
  shows "0 \<le> s div 3600" "s div 3600 \<le> 23" "0 \<le> s div 60 mod 60" "s div 60 mod 60 \<le> 59"
    "0 \<le> s mod 60" "s mod 60 \<le> 59"
    "((day_number ns * 24 + s div 3600) * 60 + s div 60 mod 60) * 60000000000
       + s mod 60 * 1000000000 + ns mod 1000000000 = ns"
proof -
  have s: "0 \<le> s" "s < 86400" by (simp_all add: s_def)
  then show "0 \<le> s div 3600" "s div 3600 \<le> 23" "0 \<le> s div 60 mod 60" "s div 60 mod 60 \<le> 59"
    "0 \<le> s mod 60" "s mod 60 \<le> 59"
    by (simp_all add: pos_imp_zdiv_nonneg_iff)
  have "ns div 86400000000000 = ns div 1000000000 div 86400" by (simp add: zdiv_zmult2_eq [symmetric])
  then have ns: "ns = (day_number ns * 86400 + s) * 1000000000 + ns mod 1000000000"
    by (simp add: day_number_def s_def)
  have "s div 60 div 60 = s div 3600" by (simp add: zdiv_zmult2_eq [symmetric])
  moreover have "s = (s div 60 div 60 * 60 + s div 60 mod 60) * 60 + s mod 60"
    by (rule clock_parts) (rule mult_div_mod_eq [symmetric])+
  ultimately have "s = (s div 3600 * 60 + s div 60 mod 60) * 60 + s mod 60" by (simp only:)
  then show "((day_number ns * 24 + s div 3600) * 60 + s div 60 mod 60) * 60000000000
       + s mod 60 * 1000000000 + ns mod 1000000000 = ns"
    using ns by (rule clock_sum)
qed

lemma parse_projection_digits:
  assumes "0 \<le> y" "y \<le> 9999" "1 \<le> m" "m \<le> 12" "1 \<le> d" "d \<le> days_in m y"
    and "0 \<le> hour" "hour \<le> 23" "0 \<le> mins" "mins \<le> 59" "0 \<le> sec" "sec \<le> 59"
    and "0 \<le> nsec" "nsec < 1000000000"
  shows "parse_projection (fixed_digits 4 y @ CHR ''-'' # fixed_digits 2 m @ CHR ''-'' #
      fixed_digits 2 d @ CHR ''T'' # fixed_digits 2 hour @ CHR '':'' #
      fixed_digits 2 mins @ CHR '':'' # fixed_digits 2 sec @ CHR ''.'' #
      fixed_digits 9 nsec @ [CHR ''Z'']) = Some (utc_at (date_ns y m d hour mins sec nsec))"
proof -
  have "0 \<le> d" "d \<le> 99" "m \<le> 99" "0 \<le> m" "hour \<le> 99" "mins \<le> 99" "sec \<le> 99"
    using assms days_in_le [of m y] by linarith+
  then show ?thesis
    unfolding parse_projection_def using assms
    by (simp add: parse_year_digits getnum_fixed_digits parse_nanoseconds_digits in_range_def)
qed

definition clock_text :: "int \<Rightarrow> int \<Rightarrow> int \<Rightarrow> int \<Rightarrow> int \<Rightarrow> int \<Rightarrow> int \<Rightarrow> string" where
  "clock_text y m d hour mins sec nsec = fixed_digits 4 y @ CHR ''-'' # fixed_digits 2 m @ CHR ''-'' #
      fixed_digits 2 d @ CHR ''T'' # fixed_digits 2 hour @ CHR '':'' #
      fixed_digits 2 mins @ CHR '':'' # fixed_digits 2 sec @ CHR ''.'' #
      fixed_digits 9 nsec @ [CHR ''Z'']"

definition clock_ok :: "int \<Rightarrow> int \<Rightarrow> int \<Rightarrow> int \<Rightarrow> int \<Rightarrow> int \<Rightarrow> int \<Rightarrow> bool" where
  "clock_ok y m d hour mins sec nsec \<longleftrightarrow> 0 \<le> y \<and> y \<le> 9999 \<and> 1 \<le> m \<and> m \<le> 12 \<and> 1 \<le> d \<and> d \<le> days_in m y \<and>
     0 \<le> hour \<and> hour \<le> 23 \<and> 0 \<le> mins \<and> mins \<le> 59 \<and> 0 \<le> sec \<and> sec \<le> 59 \<and> 0 \<le> nsec \<and> nsec < 1000000000"

lemma formatted_clock:
  assumes "json_time_ok t"
  obtains y m d hour mins sec nsec where "clock_ok y m d hour mins sec nsec"
    "formatProjectionTime t = clock_text y m d hour mins sec nsec"
    "date_ns y m d hour mins sec nsec = wall_ns t"
proof -
  let ?ns = "wall_ns t"
  obtain y yd where y: "year_day (day_number ?ns) = (y, yd)" by force
  obtain m d where m: "month_day (month_lengths y) 1 yd = (m, d)" by force
  note yday = year_day_inverse [OF y]
  note mday = month_day_inverse [OF yday(2,3) m]
  have yr: "0 \<le> y" "y \<le> 9999" using assms y by (simp_all add: json_time_ok_def utc_year_def)
  define s where "s = (?ns div 1000000000) mod 86400"
  note clock = day_clock [of ?ns, folded s_def]
  have n: "0 \<le> ?ns mod 1000000000" "?ns mod 1000000000 < 1000000000" by simp_all
  have days: "days_before_year y + days_before_month (month_lengths y) m + d - 1 = day_number ?ns"
    using yday(1) mday(5) by linarith
  show thesis
  proof (rule that)
    show "clock_ok y m d (s div 3600) (s div 60 mod 60) (s mod 60) (?ns mod 1000000000)"
      unfolding clock_ok_def by (intro conjI; fact yr mday clock n)
    show "formatProjectionTime t = clock_text y m d (s div 3600) (s div 60 mod 60) (s mod 60) (?ns mod 1000000000)"
      using yr by (simp add: formatProjectionTime_def clock_text_def y m s_def fixed_digits_def Let_def)
    show "date_ns y m d (s div 3600) (s div 60 mod 60) (s mod 60) (?ns mod 1000000000) = ?ns"
      unfolding date_ns_def days using clock(7) by simp
  qed
qed

theorem parse_formatted_time:
  assumes "json_time_ok t"
  shows "parse_projection (formatProjectionTime t) = Some (utc_at (wall_ns t))"
  using assms
proof (rule formatted_clock)
  fix y m d hour mins sec nsec
  assume "clock_ok y m d hour mins sec nsec" and f: "formatProjectionTime t = clock_text y m d hour mins sec nsec"
    and n: "date_ns y m d hour mins sec nsec = wall_ns t"
  then show ?thesis unfolding f clock_text_def n [symmetric] clock_ok_def
    by (intro parse_projection_digits) simp_all
qed

lemma fixed_digits_ascii:
  "0 \<le> n \<Longrightarrow> list_all (\<lambda>c. byte c < 128) (fixed_digits k n)"
  using digits_text_digits [of n]
  by (auto simp: fixed_digits_def pad_left_def list_all_iff is_digit_def byte_def)

lemma formatted_shape:
  assumes "json_time_ok t"
  shows "ValidString (formatProjectionTime t)" "length (formatProjectionTime t) = 30"
proof -
  obtain y m d hour mins sec nsec where c: "clock_ok y m d hour mins sec nsec"
    and f: "formatProjectionTime t = clock_text y m d hour mins sec nsec"
    by (rule formatted_clock [OF assms])
  then have "is_ascii (formatProjectionTime t)"
    by (simp add: is_ascii_def clock_text_def clock_ok_def fixed_digits_ascii) (simp add: byte_def)
  then show "ValidString (formatProjectionTime t)" by (rule ValidString_ascii)
  have "d \<le> 31" using c days_in_le [of m y] by (simp add: clock_ok_def)
  with c have "length (fixed_digits 4 y) = 4" "length (fixed_digits 2 m) = 2" "length (fixed_digits 2 d) = 2"
    "length (fixed_digits 2 hour) = 2" "length (fixed_digits 2 mins) = 2" "length (fixed_digits 2 sec) = 2"
    "length (fixed_digits 9 nsec) = 9"
    using fixed_digits(1) [of y 3] fixed_digits(1) [of m 1] fixed_digits(1) [of d 1] fixed_digits(1) [of hour 1]
      fixed_digits(1) [of mins 1] fixed_digits(1) [of sec 1] fixed_digits(1) [of nsec 8]
    by (simp_all add: clock_ok_def eval_nat_numeral)
  then show "length (formatProjectionTime t) = 30" by (simp add: f clock_text_def)
qed

end
