(* ===== verification/StoreKeys.thy ===== *)
theory StoreKeys
  imports GoCodec ProjectionTime
begin

text \<open>
  The keyed identities of the store (\<open>internal/storage/local/identity.go\<close>): every purpose has a key of its
  own, derived from the store's key and ID, and an identifier is the keyed digest of length-prefixed
  values. \<open>EvalSymlinks\<close> and whether the system is macOS are parameters of the path normalisation.
\<close>

section \<open>Keys\<close>

record store_keys =
  sk_Cipher :: "string option"
  sk_StoreID :: string

definition projectScopeNormalizationVersion :: string where
  "projectScopeNormalizationVersion = ''project-path.v1''"
definition numbatProjectScopeHashVersion :: string where
  "numbatProjectScopeHashVersion = ''numbat-project-sha256.v1''"
definition projectScopeKeyDomain :: string where
  "projectScopeKeyDomain = ''belay.local.project-scope.v1''"
definition numbatProjectScopeHashKeyDomain :: string where
  "numbatProjectScopeHashKeyDomain = ''belay.local.numbat-project-scope-hash.v1''"
definition commandSignatureKeyDomain :: string where
  "commandSignatureKeyDomain = ''belay.local.command-signature.v1''"
definition issueFingerprintKeyDomain :: string where
  "issueFingerprintKeyDomain = ''belay.local.issue-fingerprint.v1''"
definition attentionFamilyKeyDomain :: string where
  "attentionFamilyKeyDomain = ''belay.local.attention-family.v1''"
definition issueCursorKeyDomain :: string where
  "issueCursorKeyDomain = ''belay.local.issue-cursor.v2''"
definition fixActionTokenKeyDomain :: string where
  "fixActionTokenKeyDomain = ''belay.local.fix-action-token.v1''"
definition experienceApprovalTokenKeyDomain :: string where
  "experienceApprovalTokenKeyDomain = ''belay.local.experience-approval-token.v1''"
definition experienceLifecycleTokenKeyDomain :: string where
  "experienceLifecycleTokenKeyDomain = ''belay.local.experience-lifecycle-token.v1''"

text \<open>\<open>None\<close>: the local store key is unavailable.\<close>

definition derivedKey :: "store_keys \<Rightarrow> string \<Rightarrow> string option" where
  "derivedKey keys domain =
     (case sk_Cipher keys of
        None \<Rightarrow> None
      | Some k \<Rightarrow> if length k \<noteq> 32 then None else Some (hkdf_sha256 k (sk_StoreID keys) domain))"

definition opaqueDigest :: "string \<Rightarrow> string \<Rightarrow> string" where
  "opaqueDigest key material = hmac_sha256 key material"

definition opaqueID :: "string \<Rightarrow> string \<Rightarrow> string \<Rightarrow> string" where
  "opaqueID pre key material = pre @ ascii_lower (base32_encode (opaqueDigest key material))"

definition deriveOpaqueID :: "store_keys \<Rightarrow> string \<Rightarrow> string \<Rightarrow> string \<Rightarrow> string option" where
  "deriveOpaqueID keys domain pre material =
     map_option (\<lambda>key. opaqueID pre key material) (derivedKey keys domain)"

definition lengthPrefixed :: "string list \<Rightarrow> string" where
  "lengthPrefixed values =
     concat (map (\<lambda>v. be_bytes 4 (word_of_nat (length v) :: 32 word) @ v) values)"

section \<open>Identities\<close>

datatype ScopeQuality = ScopeResolved | ScopeLexical | ScopeUnscoped | ScopeConflict

record ProjectScope =
  psc_ID :: string
  psc_Quality :: ScopeQuality
  psc_NormalizationVersion :: string

text \<open>\<open>filepath.Clean\<close> of an absolute path (with \<open>/\<close> as the separator).\<close>

fun clean_segments :: "string list \<Rightarrow> string list \<Rightarrow> string list" where
  "clean_segments kept [] = rev kept"
| "clean_segments kept (seg # segs) =
     (if seg = [] \<or> seg = ''.'' then clean_segments kept segs
      else if seg = ''..'' then clean_segments (tl kept) segs
      else clean_segments (seg # kept) segs)"

definition clean_absolute :: "string \<Rightarrow> string" where
  "clean_absolute path = CHR ''/'' # join_with (CHR ''/'') (clean_segments [] (split_on (CHR ''/'') path))"

definition strip_private :: "string \<Rightarrow> string" where
  "strip_private path =
     (if path = ''/private/var'' \<or> prefix ''/private/var/'' path \<or>
         path = ''/private/tmp'' \<or> prefix ''/private/tmp/'' path
      then drop 8 path else path)"

definition normalizeProjectPath ::
  "(string \<Rightarrow> string option) \<Rightarrow> bool \<Rightarrow> string \<Rightarrow> (string \<times> ScopeQuality) option" where
  "normalizeProjectPath evalSymlinks darwin rawPath =
     (if rawPath = [] \<or> CHR 0x00 \<in> set rawPath \<or> \<not> ValidString rawPath \<or> hd rawPath \<noteq> CHR ''/'' then None
      else let cleaned = clean_absolute rawPath;
               (resolved, quality) = (case evalSymlinks cleaned of
                  Some r \<Rightarrow> (clean_absolute r, ScopeResolved) | None \<Rightarrow> (cleaned, ScopeLexical));
               stripped = (if darwin then strip_private resolved else resolved)
           in Some (if 1 < length stripped \<and> last stripped = CHR ''/'' then butlast stripped else stripped,
                quality))"

definition DeriveProjectScope ::
  "(string \<Rightarrow> string option) \<Rightarrow> bool \<Rightarrow> store_keys \<Rightarrow> string \<Rightarrow> ProjectScope option" where
  "DeriveProjectScope evalSymlinks darwin keys rawPath =
     (case normalizeProjectPath evalSymlinks darwin rawPath of
        None \<Rightarrow> None
      | Some (normalized, quality) \<Rightarrow>
          map_option (\<lambda>key. \<lparr>psc_ID = opaqueID ''psc_'' key normalized, psc_Quality = quality,
             psc_NormalizationVersion = projectScopeNormalizationVersion\<rparr>)
           (derivedKey keys projectScopeKeyDomain))"

definition validLowerHexSHA256 :: "string \<Rightarrow> bool" where
  "validLowerHexSHA256 v \<longleftrightarrow> length v = 64 \<and> list_all is_lower_hex v"

definition DeriveNumbatProjectScopeHash :: "store_keys \<Rightarrow> string \<Rightarrow> ProjectScope option" where
  "DeriveNumbatProjectScopeHash keys rawHash =
     (if \<not> validLowerHexSHA256 rawHash then None
      else map_option (\<lambda>key. \<lparr>psc_ID = opaqueID ''psc_'' key rawHash, psc_Quality = ScopeLexical,
             psc_NormalizationVersion = numbatProjectScopeHashVersion\<rparr>)
           (derivedKey keys numbatProjectScopeHashKeyDomain))"

definition normalizeExactCommand :: "string \<Rightarrow> string option" where
  "normalizeExactCommand rawCommand =
     (if CHR 0x00 \<in> set rawCommand \<or> \<not> ValidString rawCommand \<or> TrimSpace rawCommand = [] then None
      else Some (TrimSpace rawCommand))"

definition DeriveCommandSignature :: "store_keys \<Rightarrow> string \<Rightarrow> string option" where
  "DeriveCommandSignature keys rawCommand =
     (case normalizeExactCommand rawCommand of
        None \<Rightarrow> None
      | Some normalized \<Rightarrow> map_option (\<lambda>key. opaqueID ''cmd_'' key normalized)
          (derivedKey keys commandSignatureKeyDomain))"

definition DeriveIssueIdentity ::
  "store_keys \<Rightarrow> string \<Rightarrow> string \<Rightarrow> string \<Rightarrow> string list \<Rightarrow> (string \<times> string) option" where
  "DeriveIssueIdentity keys fingerprintVersion detectorID projectScopeOrSession dimensions =
     (if fingerprintVersion = [] \<or> detectorID = [] \<or> projectScopeOrSession = [] then None
      else if [] \<in> set dimensions then None
      else map_option (\<lambda>key.
          let encoded = ascii_lower (base32_encode (opaqueDigest key (lengthPrefixed
                ([fingerprintVersion, detectorID, projectScopeOrSession] @ dimensions))))
          in (''ifp_'' @ encoded, ''iss_'' @ encoded))
        (derivedKey keys issueFingerprintKeyDomain))"

definition DeriveAttentionFamilyID ::
  "store_keys \<Rightarrow> string \<Rightarrow> string \<Rightarrow> string \<Rightarrow> string option" where
  "DeriveAttentionFamilyID keys groupKey catalogVersion groupingVersion =
     (if groupKey = [] \<or> catalogVersion = [] \<or> groupingVersion = [] then None
      else deriveOpaqueID keys attentionFamilyKeyDomain ''atf_''
        (lengthPrefixed [catalogVersion, groupingVersion, groupKey]))"

section \<open>Shapes of identifiers\<close>

definition base32_body :: "string \<Rightarrow> bool" where
  "base32_body s \<longleftrightarrow> length s = 52 \<and> list_all is_base32_lower s"

text \<open>\<open>validIssueID\<close> of \<open>fix_repository.go\<close>: the prefix and the pattern of opaque identities.\<close>

definition validIssueID :: "string \<Rightarrow> bool" where
  "validIssueID s \<longleftrightarrow> prefix ''iss_'' s \<and> base32_body (drop 4 s)"

definition validProjectScopeHint :: "string \<Rightarrow> bool" where
  "validProjectScopeHint s \<longleftrightarrow> prefix ''psc_'' s \<and> base32_body (drop 4 s)"

end
