(* ===== verification/ReviewStore.thy ===== *)
theory ReviewStore
  imports SemanticStore StoreKeys
begin

text \<open>
  What the user does with a semantic proposal: defer or reject it
  (\<open>internal/storage/local/experience_review_action_repository.go\<close>), see what is pending, or approve it
  (\<open>experience_approval_repository.go\<close>, and the claims check of \<open>experience_approval_token.go\<close>), which creates
  the first version of an experience in the registry. \<open>now\<close> is \<open>s.nowUTC()\<close>.
\<close>

section \<open>Review actions\<close>

fun ExperienceReviewDisposition_text :: "ExperienceReviewDisposition \<Rightarrow> string" where
  "ExperienceReviewDisposition_text ExperienceReviewDefer = ''defer''"
| "ExperienceReviewDisposition_text ExperienceReviewReject = ''reject''"
| "ExperienceReviewDisposition_text (ExperienceReviewDisposition_other s) = s"

fun ExperienceReviewDisposition_Valid :: "ExperienceReviewDisposition \<Rightarrow> bool" where
  "ExperienceReviewDisposition_Valid ExperienceReviewDefer = True"
| "ExperienceReviewDisposition_Valid ExperienceReviewReject = True"
| "ExperienceReviewDisposition_Valid (ExperienceReviewDisposition_other s) = False"

interpretation ExperienceReviewDisposition_enum: string_enum
  "[ExperienceReviewDefer, ExperienceReviewReject]"
  ExperienceReviewDisposition_text ExperienceReviewDisposition_other ExperienceReviewDisposition_Valid
  by unfold_locales (auto elim: ExperienceReviewDisposition_Valid.elims)

definition maxExperienceReviewActionPayloadBytes :: nat where
  "maxExperienceReviewActionPayloadBytes = 64 * 1024"

definition experienceApprovalTokenLifetime :: int where
  "experienceApprovalTokenLifetime = 15 * 60 * 1000000000"

definition validExperienceApprovalClaims :: "ApprovalTokenClaims \<Rightarrow> bool" where
  "validExperienceApprovalClaims claims \<longleftrightarrow> ApprovalTokenClaims_Validate claims = None \<and>
     time_Sub (atc_ExpiresAt claims) (atc_IssuedAt claims) \<le> experienceApprovalTokenLifetime"

definition utc_claims :: "ApprovalTokenClaims \<Rightarrow> ApprovalTokenClaims" where
  "utc_claims claims = claims\<lparr>atc_IssuedAt := time_UTC (atc_IssuedAt claims),
     atc_ExpiresAt := time_UTC (atc_ExpiresAt claims)\<rparr>"

record ExperienceReviewActionInput =
  rai_Claims :: ApprovalTokenClaims
  rai_Actor :: string
  rai_Disposition :: ExperienceReviewDisposition
  rai_OccurredAt :: gotime
  rai_AvailableAfter :: "gotime option"

definition validExperienceReviewAvailability ::
  "ExperienceReviewDisposition \<Rightarrow> gotime \<Rightarrow> gotime option \<Rightarrow> bool" where
  "validExperienceReviewAvailability disposition occurredAt availableAfter =
     (case disposition of
        ExperienceReviewDefer \<Rightarrow> (case availableAfter of None \<Rightarrow> False | Some t \<Rightarrow> After t occurredAt)
      | ExperienceReviewReject \<Rightarrow> availableAfter = None
      | ExperienceReviewDisposition_other s \<Rightarrow> False)"

text \<open>\<open>stableLocalID\<close>: an identifier that depends on the values alone.\<close>

definition stableLocalID :: "string \<Rightarrow> string list \<Rightarrow> string" where
  "stableLocalID pre values = pre @ ascii_lower (base32_encode (sha256 (lengthPrefixed values)))"

definition experienceReviewActionID :: "string \<Rightarrow> ExperienceReviewDisposition \<Rightarrow> gotime \<Rightarrow> string" where
  "experienceReviewActionID proposalID disposition issuedAt = stableLocalID ''era_''
     [proposalID, ExperienceReviewDisposition_text disposition, formatProjectionTime issuedAt]"

definition action_row_of :: "ExperienceReviewAction \<Rightarrow> string \<Rightarrow> action_row" where
  "action_row_of a plaintext =
     \<lparr>arow_ID = era_ActionID a, arow_ProposalID = era_ProposalID a, arow_CandidateID = era_CandidateID a,
      arow_ProjectIdentity = era_ProjectIdentity a, arow_Disposition = era_Disposition a,
      arow_OccurredAt = wall_ns (era_OccurredAt a),
      arow_AvailableAfter = map_option wall_ns (era_AvailableAfter a),
      arow_IssuedAt = wall_ns (era_ApprovalTokenIssuedAt a), arow_Plaintext = plaintext, arow_Value = a\<rparr>"

definition replayExperienceReviewActionTx :: "review_store \<Rightarrow> string \<Rightarrow> string \<Rightarrow> bool stored" where
  "replayExperienceReviewActionTx st actionID plaintext =
     (case find (\<lambda>row. arow_ID row = actionID) (rs_Actions st) of
        None \<Rightarrow> Inr False
      | Some old \<Rightarrow> if arow_Plaintext old \<noteq> plaintext then Inl ErrReviewActionConflict else Inr True)"

text \<open>
  Do the claims name the candidate and the proposal as they are now? \<open>None\<close> when hashing the proposal
  panics; the conjuncts before it are evaluated first.
\<close>

definition SemanticProposalPromptVersion :: string where
  "SemanticProposalPromptVersion = last SemanticProposalPromptVersions"

definition approvalClaimsMatchCurrent ::
  "ApprovalTokenClaims \<Rightarrow> Candidate \<Rightarrow> SemanticProposal \<Rightarrow> bool option" where
  "approvalClaimsMatchCurrent claims candidate proposal =
     (if sprov_PromptVersion (semp_Provenance proposal) \<noteq> SemanticProposalPromptVersion \<or>
         atc_CandidateID claims \<noteq> cand_CandidateID candidate \<or>
         atc_CandidateID claims \<noteq> semp_CandidateID proposal \<or>
         atc_ProposalID claims \<noteq> semp_ProposalID proposal \<or>
         atc_ProjectIdentity claims \<noteq> cand_ProjectIdentity candidate \<or>
         atc_ProjectIdentity claims \<noteq> semp_ProjectIdentity proposal \<or>
         atc_SemanticInputHash claims \<noteq> sprov_InputHash (semp_Provenance proposal)
      then Some False
      else map_option (\<lambda>h. atc_ProposedContentHash claims = h \<and>
          atc_EvidenceGeneration claims = prov_InputHash (cand_Provenance candidate) \<and>
          cand_Authority candidate = AuthorityNone \<and> cand_LifecycleState candidate = LifecycleCandidate \<and>
          semp_Authority proposal = AuthorityNone)
        (ExperienceProposal_CanonicalContentHash (semp_Proposal proposal)))"

text \<open>The experience a candidate has been approved as, by the unique index on project, origin and version.\<close>

definition findApprovedCandidateExperienceTx ::
  "review_store \<Rightarrow> string \<Rightarrow> string \<Rightarrow> StoredExperience option stored" where
  "findApprovedCandidateExperienceTx st projectIdentity candidateID =
     (case find (\<lambda>row. row_ProjectIdentity row = projectIdentity \<and> row_OriginCandidateID row = candidateID \<and>
          row_Version row = 1) (reg_Experiences (rs_Registry st)) of
        None \<Rightarrow> Inr None
      | Some row \<Rightarrow> and_then (from_registry (scanStoredExperience (rs_Registry st) row)) (\<lambda>v. Inr (Some v)))"

definition select_candidate :: "review_store \<Rightarrow> string \<Rightarrow> Candidate stored" where
  "select_candidate st candidateID =
     (case find_candidate (rs_Registry st) candidateID of
        None \<Rightarrow> Inl (ErrRegistry ErrNoRows)
      | Some row \<Rightarrow> from_registry (scanExperienceCandidate row))"

definition no_rows_stale :: "'a stored \<Rightarrow> 'a stored" where
  "no_rows_stale r = (case r of Inl (ErrRegistry ErrNoRows) \<Rightarrow> Inl ErrReviewActionStale | _ \<Rightarrow> r)"

definition hash_panic :: "'a stored" where
  "hash_panic = Inl (ErrRegistry (ErrContract (Panic ''json.Marshal failed'')))"

definition normalized_action_input :: "ExperienceReviewActionInput \<Rightarrow> ExperienceReviewActionInput" where
  "normalized_action_input input = input\<lparr>
     rai_Actor := TrimSpace (rai_Actor input), rai_Claims := utc_claims (rai_Claims input),
     rai_OccurredAt := time_UTC (rai_OccurredAt input),
     rai_AvailableAfter := map_option time_UTC (rai_AvailableAfter input)\<rparr>"

definition review_action_of :: "ExperienceReviewActionInput \<Rightarrow> ExperienceReviewAction" where
  "review_action_of input =
     (let claims = rai_Claims input in
      \<lparr>era_ActionID = experienceReviewActionID (atc_ProposalID claims) (rai_Disposition input)
         (atc_IssuedAt claims),
       era_ProposalID = atc_ProposalID claims, era_CandidateID = atc_CandidateID claims,
       era_ProjectIdentity = atc_ProjectIdentity claims, era_Disposition = rai_Disposition input,
       era_OccurredAt = rai_OccurredAt input, era_AvailableAfter = rai_AvailableAfter input,
       era_ApprovalTokenIssuedAt = atc_IssuedAt claims, era_Actor = rai_Actor input,
       era_Claims = claims\<rparr>)"

text \<open>
  The CHECK of the table on disposition and availability. It repeats \<open>validExperienceReviewAvailability\<close> on
  the instants, which is not the same when the two times carry monotonic readings.
\<close>

definition review_action_check :: "action_row \<Rightarrow> bool" where
  "review_action_check row \<longleftrightarrow>
     (case arow_AvailableAfter row of
        None \<Rightarrow> arow_Disposition row = ExperienceReviewReject
      | Some t \<Rightarrow> arow_Disposition row = ExperienceReviewDefer \<and> arow_OccurredAt row < t)"

text \<open>
  In the transaction. The insert cannot find the key again (it was looked up in the same transaction); the
  other CHECKs of the table and its foreign keys hold by the checks before it.
\<close>

definition record_in_transaction ::
  "gotime \<Rightarrow> review_store \<Rightarrow> ApprovalTokenClaims \<Rightarrow> ExperienceReviewAction \<Rightarrow> string \<Rightarrow>
     (bool \<times> review_store) stored" where
  "record_in_transaction now st claims action plaintext =
     and_then (replayExperienceReviewActionTx st (era_ActionID action) plaintext) (\<lambda>replayed.
     if replayed then Inr (True, st)
     else if After now (atc_ExpiresAt claims) then Inl ErrReviewActionStale
     else and_then (no_rows_stale (select_proposal st (atc_ProposalID claims))) (\<lambda>proposal.
     and_then (no_rows_stale (select_candidate st (atc_CandidateID claims))) (\<lambda>candidate.
     (case approvalClaimsMatchCurrent claims candidate proposal of
        None \<Rightarrow> hash_panic
      | Some False \<Rightarrow> Inl ErrReviewActionStale
      | Some True \<Rightarrow>
        and_then (findApprovedCandidateExperienceTx st (cand_ProjectIdentity candidate)
          (cand_CandidateID candidate)) (\<lambda>approved.
        if approved \<noteq> None then Inl ErrReviewActionStale
        else if \<not> review_action_check (action_row_of action plaintext)
        then store_failed ''insert experience review action''
        else Inr (False, st\<lparr>rs_Actions := rs_Actions st @ [action_row_of action plaintext]\<rparr>))))))"

definition RecordExperienceReviewAction ::
  "store_codec \<Rightarrow> gotime \<Rightarrow> review_store \<Rightarrow> ExperienceReviewActionInput \<Rightarrow>
     ((ExperienceReviewAction \<times> bool) \<times> review_store) stored" where
  "RecordExperienceReviewAction sc now st input0 =
     (let input = normalized_action_input input0; claims = rai_Claims input; action = review_action_of input in
      if \<not> validExperienceApprovalClaims claims \<or>
         \<not> ExperienceReviewDisposition_Valid (rai_Disposition input) \<or> rai_Actor input = [] \<or>
         256 < length (rai_Actor input) \<or> IsZero (rai_OccurredAt input) \<or>
         Before (rai_OccurredAt input) (atc_IssuedAt claims) \<or>
         After (rai_OccurredAt input) (atc_ExpiresAt claims) \<or>
         \<not> validExperienceReviewAvailability (rai_Disposition input) (rai_OccurredAt input)
             (rai_AvailableAfter input)
      then Inl ErrReviewActionInvalid
      else if After (rai_OccurredAt input) now then Inl ErrReviewActionInvalid
      else and_then (from_registry (sealDomainJSON ''experience_review_action'' (sc_Action sc)
             maxExperienceReviewActionPayloadBytes action)) (\<lambda>plaintext.
           and_then (record_in_transaction now st claims action plaintext) (\<lambda>(replayed, st').
             Inr ((action, replayed), st'))))"

section \<open>Approval\<close>

text \<open>\<open>ORDER BY occurred_at DESC, action_id DESC LIMIT 1\<close>\<close>

definition latest_action :: "review_store \<Rightarrow> string \<Rightarrow> action_row option" where
  "latest_action st proposalID =
     (case rev (sort_key (\<lambda>a. (arow_OccurredAt a, arow_ID a))
         (filter (\<lambda>a. arow_ProposalID a = proposalID) (rs_Actions st))) of
        [] \<Rightarrow> None | a # _ \<Rightarrow> Some a)"

definition experienceReviewActionBlocksApprovalTx ::
  "review_store \<Rightarrow> string \<Rightarrow> gotime \<Rightarrow> gotime \<Rightarrow> bool stored" where
  "experienceReviewActionBlocksApprovalTx st proposalID tokenIssuedAt now =
     (case latest_action st proposalID of
        None \<Rightarrow> Inr False
      | Some a \<Rightarrow>
        if \<not> arow_OccurredAt a < wall_ns tokenIssuedAt \<or> arow_Disposition a = ExperienceReviewReject
        then Inr True
        else if arow_Disposition a \<noteq> ExperienceReviewDefer \<or> arow_AvailableAfter a = None
        then store_failed ''invalid experience approval review state''
        else if arow_OccurredAt a < wall_ns tokenIssuedAt then Inr False
        else Inr (wall_ns now < the (arow_AvailableAfter a)))"

record ExperienceApprovalInput =
  eai_Claims :: ApprovalTokenClaims
  eai_ApprovedBy :: string
  eai_ApprovedAt :: gotime
  eai_Mode :: ApprovalMode
  eai_ApprovedProposal :: ExperienceProposal

definition experienceApprovalExtractorVersion :: string where
  "experienceApprovalExtractorVersion = ''belay.experience-approval.v1''"

text \<open>The experience an approval creates; \<open>None\<close> when hashing panics.\<close>

definition approvedExperienceFromProposal ::
  "Candidate \<Rightarrow> SemanticProposal \<Rightarrow> ExperienceProposal \<Rightarrow> ApprovalMode \<Rightarrow> string \<Rightarrow> gotime \<Rightarrow> Experience option"
where
  "approvedExperienceFromProposal candidate proposal approvedProposal mode approvedBy approvedAt =
     (let project = scope_ProjectIdentity (prop_Scope approvedProposal);
          v = \<lparr>xp_SchemaVersion = ExperienceSchemaVersion, xp_ExperienceID = [],
            xp_OriginCandidateID = cand_CandidateID candidate, xp_Version = 1,
            xp_Type = prop_Type approvedProposal, xp_Scope = prop_Scope approvedProposal,
            xp_Applicability = prop_Applicability approvedProposal,
            xp_Guidance = prop_Guidance approvedProposal, xp_Verifier = prop_Verifier approvedProposal,
            xp_Evidence = cand_Evidence candidate, xp_EpisodeRefs = cand_EpisodeRefs candidate,
            xp_Provenance = \<lparr>prov_ExtractorVersion = experienceApprovalExtractorVersion,
              prov_Harness = sprov_Harness (semp_Provenance proposal),
              prov_Model = sprov_Model (semp_Provenance proposal),
              prov_PromptVersion = sprov_PromptVersion (semp_Provenance proposal),
              prov_InputHash = sprov_InputHash (semp_Provenance proposal),
              prov_SourceCandidateID = cand_CandidateID candidate, prov_GeneratedAt = approvedAt\<rparr>,
            xp_Governance = \<lparr>gov_LifecycleState = LifecycleApproved, gov_Authority = AuthorityUserApproved,
              gov_Approval = None, gov_StateReason = []\<rparr>,
            xp_ContentHash = [], xp_PreviousVersion = None, xp_CreatedAt = approvedAt\<rparr>
      in case (DeriveExperienceID project (cand_CandidateID candidate), Experience_CanonicalContentHash v,
               ExperienceProposal_CanonicalContentHash (semp_Proposal proposal)) of
           (Some i, Some h, Some proposedHash) \<Rightarrow> Some (v\<lparr>xp_ExperienceID := i, xp_ContentHash := h,
             xp_Governance := (xp_Governance v)\<lparr>gov_Approval := Some
               \<lparr>apr_ApprovedBy = approvedBy, apr_ApprovedAt = approvedAt, apr_Mode = mode,
                apr_CandidateID = cand_CandidateID candidate, apr_ProposedContentHash = proposedHash,
                apr_ApprovedContentHash = h\<rparr>\<rparr>\<rparr>)
         | _ \<Rightarrow> None)"

definition normalized_approval :: "ExperienceApprovalInput \<Rightarrow> ExperienceApprovalInput" where
  "normalized_approval input = input\<lparr>
     eai_ApprovedBy := TrimSpace (eai_ApprovedBy input),
     eai_Mode := (if eai_Mode input = ApprovalMode_other [] then ApprovalAsProposed else eai_Mode input),
     eai_Claims := utc_claims (eai_Claims input), eai_ApprovedAt := time_UTC (eai_ApprovedAt input)\<rparr>"

text \<open>What is approved: the proposal itself, or the edited one when it passes its checks.\<close>

definition approved_content :: "SemanticProposal \<Rightarrow> ExperienceApprovalInput \<Rightarrow> ExperienceProposal stored" where
  "approved_content proposal input =
     (if eai_Mode input = ApprovalAsProposed then Inr (semp_Proposal proposal)
      else case ValidateApprovedProposal (semp_Proposal proposal) (eai_ApprovedProposal input) (eai_Mode input) of
          Some (Panic m) \<Rightarrow> Inl (ErrRegistry (ErrContract (Panic m)))
        | Some (Err m) \<Rightarrow> Inl (ErrApprovalInvalidContent (Err m))
        | None \<Rightarrow> Inr (eai_ApprovedProposal input))"

definition replayed_approval ::
  "ExperienceApprovalInput \<Rightarrow> string \<Rightarrow> StoredExperience \<Rightarrow> Experience stored" where
  "replayed_approval input approvedContentHash existing =
     (let v = st_Experience existing in
      case gov_Approval (xp_Governance v) of
        None \<Rightarrow> Inl ErrApprovalConflict
      | Some approval \<Rightarrow>
        if xp_ContentHash v \<noteq> approvedContentHash \<or>
           prov_InputHash (xp_Provenance v) \<noteq> atc_SemanticInputHash (eai_Claims input) \<or>
           apr_Mode approval \<noteq> eai_Mode input \<or>
           apr_ProposedContentHash approval \<noteq> atc_ProposedContentHash (eai_Claims input) \<or>
           apr_ApprovedContentHash approval \<noteq> approvedContentHash
        then Inl ErrApprovalConflict else Inr v)"

definition create_approved ::
  "store_codec \<Rightarrow> review_store \<Rightarrow> Experience \<Rightarrow> ((Experience \<times> bool) \<times> review_store) stored" where
  "create_approved sc st v =
     and_then (from_registry (prepareExperiencePersistence (sc_Registry sc) v)) (\<lambda>prepared.
     and_then (from_registry (insertPreparedExperienceTx (rs_Registry st) prepared)) (\<lambda>(inserted, reg').
     if \<not> inserted then Inl ErrApprovalConflict
     else Inr ((v, False), st\<lparr>rs_Registry := reg'\<rparr>)))"

text \<open>After the claims were found current and no review action stands in the way.\<close>

definition approve_current ::
  "store_codec \<Rightarrow> review_store \<Rightarrow> ExperienceApprovalInput \<Rightarrow> Candidate \<Rightarrow> SemanticProposal \<Rightarrow>
     ((Experience \<times> bool) \<times> review_store) stored" where
  "approve_current sc st input candidate proposal =
     and_then (approved_content proposal input) (\<lambda>approvedProposal.
     (case ExperienceProposal_CanonicalContentHash approvedProposal of
        None \<Rightarrow> hash_panic
      | Some approvedContentHash \<Rightarrow>
        and_then (findApprovedCandidateExperienceTx st (cand_ProjectIdentity candidate)
          (cand_CandidateID candidate)) (\<lambda>existing.
        (case existing of
           Some existing \<Rightarrow> and_then (replayed_approval input approvedContentHash existing)
             (\<lambda>v. Inr ((v, True), st))
         | None \<Rightarrow>
           (case approvedExperienceFromProposal candidate proposal approvedProposal (eai_Mode input)
                (eai_ApprovedBy input) (eai_ApprovedAt input) of
              None \<Rightarrow> hash_panic
            | Some v \<Rightarrow> create_approved sc st v)))))"

definition approve_in_transaction ::
  "store_codec \<Rightarrow> gotime \<Rightarrow> review_store \<Rightarrow> ExperienceApprovalInput \<Rightarrow>
     ((Experience \<times> bool) \<times> review_store) stored" where
  "approve_in_transaction sc now st input =
     (let claims = eai_Claims input in
      and_then (select_proposal st (atc_ProposalID claims)) (\<lambda>proposal.
      and_then (select_candidate st (atc_CandidateID claims)) (\<lambda>candidate.
      (case approvalClaimsMatchCurrent claims candidate proposal of
         None \<Rightarrow> hash_panic
       | Some False \<Rightarrow> Inl ErrApprovalStale
       | Some True \<Rightarrow>
         and_then (experienceReviewActionBlocksApprovalTx st (atc_ProposalID claims) (atc_IssuedAt claims) now)
           (\<lambda>blocked. if blocked then Inl ErrApprovalStale
             else approve_current sc st input candidate proposal)))))"

definition ApproveExperienceProposal ::
  "store_codec \<Rightarrow> gotime \<Rightarrow> review_store \<Rightarrow> ExperienceApprovalInput \<Rightarrow>
     ((Experience \<times> bool) \<times> review_store) stored" where
  "ApproveExperienceProposal sc now st input0 =
     (let input = normalized_approval input0; claims = eai_Claims input in
      if \<not> validExperienceApprovalClaims claims \<or> \<not> ApprovalMode_Valid (eai_Mode input) \<or>
         eai_ApprovedBy input = [] \<or> 256 < length (eai_ApprovedBy input) \<or> IsZero (eai_ApprovedAt input) \<or>
         Before (eai_ApprovedAt input) (atc_IssuedAt claims) \<or>
         After (eai_ApprovedAt input) (atc_ExpiresAt claims)
      then Inl ErrApprovalTokenInvalid
      else if After now (atc_ExpiresAt claims) then Inl ErrApprovalTokenExpired
      else if After (eai_ApprovedAt input) now then Inl ErrApprovalTokenInvalid
      else approve_in_transaction sc now st input)"

section \<open>Pending proposals\<close>

text \<open>Hidden by the latest review action: rejected, or deferred past the time of the query.\<close>

definition hidden_by_review :: "gotime \<Rightarrow> bool \<Rightarrow> review_store \<Rightarrow> string \<Rightarrow> bool" where
  "hidden_by_review now includeDeferred st proposalID =
     (case latest_action st proposalID of
        None \<Rightarrow> False
      | Some a \<Rightarrow> arow_Disposition a = ExperienceReviewReject \<or>
          \<not> includeDeferred \<and> arow_Disposition a = ExperienceReviewDefer \<and>
          (case arow_AvailableAfter a of None \<Rightarrow> False | Some t \<Rightarrow> wall_ns now < t))"

definition pending_rows :: "gotime \<Rightarrow> bool \<Rightarrow> review_store \<Rightarrow> string \<Rightarrow> Harness \<Rightarrow> proposal_row list" where
  "pending_rows now includeDeferred st projectIdentity harness =
     filter (\<lambda>row. prow_ProjectIdentity row = projectIdentity \<and> prow_Harness row = harness \<and>
         prow_PromptVersion row = SemanticProposalPromptVersion \<and>
         \<not> list_ex (\<lambda>x. row_ProjectIdentity x = prow_ProjectIdentity row \<and>
             row_OriginCandidateID x = prow_CandidateID row) (reg_Experiences (rs_Registry st)) \<and>
         \<not> hidden_by_review now includeDeferred st (prow_ID row))
       (rs_Proposals st)"

definition QueryPendingCurrentExperienceSemanticProposals ::
  "gotime \<Rightarrow> review_store \<Rightarrow> string \<Rightarrow> Harness \<Rightarrow> int \<Rightarrow> bool \<Rightarrow> SemanticProposal list stored" where
  "QueryPendingCurrentExperienceSemanticProposals now st projectIdentity harness limit includeDeferred =
     (case validateProjectIdentity projectIdentity of
        Some e \<Rightarrow> Inl (ErrRegistry e)
      | None \<Rightarrow>
        if \<not> Harness_Valid harness
        then store_failed ''experience semantic proposal harness is invalid''
        else limited_proposals limit (pending_rows now includeDeferred st projectIdentity harness))"

section \<open>What a store can be\<close>

inductive review_step :: "store_codec \<Rightarrow> review_store \<Rightarrow> review_store \<Rightarrow> bool" for sc where
  registry: "registry_step (sc_Registry sc) (rs_Registry st) reg' \<Longrightarrow>
     review_step sc st (st\<lparr>rs_Registry := reg'\<rparr>)"
| proposals: "InsertExperienceSemanticProposals sc st ps = Inr (counts, st') \<Longrightarrow> review_step sc st st'"
| results: "StoreExperienceSemanticResults sc st rs = Inr (both, st') \<Longrightarrow> review_step sc st st'"
| review: "RecordExperienceReviewAction sc now st input = Inr (r, st') \<Longrightarrow> review_step sc st st'"
| approve: "ApproveExperienceProposal sc now st approval = Inr (x, st') \<Longrightarrow> review_step sc st st'"

definition empty_store :: review_store where
  "empty_store = \<lparr>rs_Registry = empty_registry, rs_Proposals = [], rs_Decisions = [], rs_Actions = []\<rparr>"

end
