(* ===== verification/Registry.thy ===== *)
theory Registry
  imports RegistryStore
begin

text \<open>
  The registry of experience versions is consistent: the invariant of the tables, kept by every
  operation, and what follows for readers and for user actions.
\<close>

section \<open>The invariant\<close>

text \<open>A log is a legal run of the lifecycle from one state to another.\<close>

fun linked :: "LifecycleState \<Rightarrow> transition_row list \<Rightarrow> LifecycleState \<Rightarrow> bool" where
  "linked s [] u \<longleftrightarrow> s = u"
| "linked s (t # ts) u \<longleftrightarrow> tr_From t = s \<and> ValidLifecycleTransition s (tr_To t) \<and> linked (tr_To t) ts u"

definition activation :: "experience_row \<Rightarrow> transition_row list \<Rightarrow> int option" where
  "activation row ts =
     (if row_State row = LifecycleActive
      then Some (if ts = [] then row_ApprovedAt row else tr_OccurredAt (last ts)) else None)"

definition row_consistent :: "registry \<Rightarrow> experience_row \<Rightarrow> bool" where
  "row_consistent reg row \<longleftrightarrow>
     (let ts = transitions_of reg (row_key row) in
      sorted_wrt (<) (map tr_OccurredAt ts) \<and> linked (row_Initial row) ts (row_State row) \<and>
      row_ActivatedAt row = activation row ts \<and>
      (\<exists>a. gov_Approval (xp_Governance (row_Value row)) = Some a \<and>
         row = (row_of (row_Value row) (row_Plaintext row) a)\<lparr>row_State := row_State row,
           row_ActivatedAt := row_ActivatedAt row, row_UpdatedAt := row_UpdatedAt row\<rparr>) \<and>
      Experience_Validate (row_Value row) = None)"

definition consistent :: "registry \<Rightarrow> bool" where
  "consistent reg \<longleftrightarrow> distinct (map row_key (reg_Experiences reg)) \<and>
     distinct (map tr_ID (reg_Transitions reg)) \<and>
     (\<forall>row \<in> set (reg_Experiences reg). row_consistent reg row) \<and>
     (\<forall>t \<in> set (reg_Transitions reg). \<exists>row \<in> set (reg_Experiences reg). row_key row = tr_Experience t) \<and>
     (\<forall>t \<in> set (reg_Transitions reg). t = transition_row_of (tr_Value t) (tr_Plaintext t) \<and>
        LifecycleTransition_Validate (tr_Value t) = None)"

section \<open>The log determines the projection\<close>

lemma linked_snoc:
  "linked s (ts @ [t]) u \<longleftrightarrow>
     linked s ts (tr_From t) \<and> ValidLifecycleTransition (tr_From t) (tr_To t) \<and> u = tr_To t"
  by (induction s ts u rule: linked.induct) auto

lemma linked_last: "linked s ts u \<Longrightarrow> u = (if ts = [] then s else tr_To (last ts))"
  by (induction s ts u rule: linked.induct) auto

lemma linked_run: "linked s ts u \<Longrightarrow> lifecycle_step\<^sup>*\<^sup>* s u"
  by (induction s ts u rule: linked.induct)
    (auto intro: converse_rtranclp_into_rtranclp lifecycle_step.intros)

lemma sorted_log:
  assumes "sorted_wrt (<) (map tr_OccurredAt ts)"
  shows "sort_key (\<lambda>t. (tr_OccurredAt t, tr_ID t)) ts = ts"
proof (rule sort_key_id_if_sorted)
  show "sorted (map (\<lambda>t. (tr_OccurredAt t, tr_ID t)) ts)"
    using assms by (induction ts) (auto simp: less_eq_prod_def)
qed

lemma latest_is_last:
  assumes "row_consistent reg row"
  shows "latest_transition reg (row_key row) =
    (let ts = transitions_of reg (row_key row) in if ts = [] then None else Some (last ts))"
proof -
  have "sorted_wrt (<) (map tr_OccurredAt (transitions_of reg (row_key row)))"
    using assms by (simp add: row_consistent_def Let_def)
  note s = sorted_log [OF this]
  show ?thesis
    unfolding latest_transition_def s Let_def
    by (cases "transitions_of reg (row_key row)" rule: rev_cases) auto
qed

lemma consistent_projection:
  assumes "row_consistent reg row"
  shows "rebuilt_state reg row = row_State row" "rebuilt_activated reg row = row_ActivatedAt row"
proof -
  let ?ts = "transitions_of reg (row_key row)"
  have l: "linked (row_Initial row) ?ts (row_State row)" and a: "row_ActivatedAt row = activation row ?ts"
    using assms by (simp_all add: row_consistent_def Let_def)
  show "rebuilt_state reg row = row_State row"
    using linked_last [OF l] by (simp add: rebuilt_state_def latest_is_last [OF assms] Let_def)
  show "rebuilt_activated reg row = row_ActivatedAt row"
    by (simp add: rebuilt_activated_def latest_is_last [OF assms] Let_def a activation_def)
qed

lemma latest_occurred_last:
  assumes "sorted_wrt (<) (map tr_OccurredAt (transitions_of reg ref))"
  shows "latest_occurred reg ref = (let ts = transitions_of reg ref in
    if ts = [] then None else Some (tr_OccurredAt (last ts)))"
proof (cases "transitions_of reg ref" rule: rev_cases)
  case Nil
  then show ?thesis by (simp add: latest_occurred_def)
next
  case (snoc ts t)
  with assms have "\<forall>u \<in> set ts. tr_OccurredAt u < tr_OccurredAt t"
    by (simp add: sorted_wrt_append)
  then have "Max (tr_OccurredAt ` set (ts @ [t])) = tr_OccurredAt t"
    by (intro Max_eqI) auto
  with snoc show ?thesis by (simp add: latest_occurred_def Let_def)
qed

lemma find_row_Some:
  "find_row reg ref = Some row \<Longrightarrow> row \<in> set (reg_Experiences reg) \<and> row_key row = ref"
  by (auto simp: find_row_def find_Some_iff)

lemma find_row_unique:
  assumes "distinct (map row_key (reg_Experiences reg))" "row \<in> set (reg_Experiences reg)"
  shows "find_row reg (row_key row) = Some row"
proof (cases "find_row reg (row_key row)")
  case None
  with assms(2) show ?thesis by (auto simp: find_row_def find_None_iff)
next
  case (Some other)
  then have "other \<in> set (reg_Experiences reg)" "row_key other = row_key row"
    using find_row_Some by blast+
  with assms have "other = row" by (auto simp: distinct_map dest: inj_onD)
  with Some show ?thesis by simp
qed

section \<open>Every operation keeps the registry consistent\<close>

definition appended :: "int \<Rightarrow> registry \<Rightarrow> LifecycleTransition \<Rightarrow> string \<Rightarrow> registry" where
  "appended now reg t plaintext = reg\<lparr>
     reg_Transitions := reg_Transitions reg @ [transition_row_of t plaintext],
     reg_Experiences := map (moved_row t now) (reg_Experiences reg)\<rparr>"

lemma row_key_moved [simp]: "row_key (moved_row t now row) = row_key row"
  by (simp add: moved_row_def row_key_def)

lemma moved_row_other: "row_key row \<noteq> lt_Experience t \<Longrightarrow> moved_row t now row = row"
  by (simp add: moved_row_def update_hits_def)

lemma transitions_of_appended:
  "transitions_of (appended now reg t plaintext) ref =
     transitions_of reg ref @ (if lt_Experience t = ref then [transition_row_of t plaintext] else [])"
  by (simp add: transitions_of_def appended_def transition_row_of_def)

lemma append_cases:
  assumes "appendExperienceTransitionTx now reg t plaintext = Inr (b, reg')"
  obtains (replay) old where "b = False" "reg' = reg" "old \<in> set (reg_Transitions reg)"
      "tr_ID old = lt_TransitionID t" "tr_Plaintext old = plaintext"
  | (new) row where "b = True" "reg' = appended now reg t plaintext"
      "find_row reg (lt_Experience t) = Some row" "row_State row = lt_FromState t"
      "rebuilt_state reg row = row_State row"
      "lt_TransitionID t \<notin> tr_ID ` set (reg_Transitions reg)"
      "\<forall>latest. latest_occurred reg (lt_Experience t) = Some latest \<longrightarrow> latest < wall_ns (lt_OccurredAt t)"
proof (cases "find (\<lambda>old. tr_ID old = lt_TransitionID t) (reg_Transitions reg)")
  case (Some old)
  moreover from this have "old \<in> set (reg_Transitions reg)" "tr_ID old = lt_TransitionID t"
    by (auto simp: find_Some_iff)
  ultimately show ?thesis
    using assms replay by (auto simp: appendExperienceTransitionTx_def split: if_splits)
next
  case None
  then have fresh: "lt_TransitionID t \<notin> tr_ID ` set (reg_Transitions reg)"
    by (auto simp: find_None_iff)
  from None assms obtain row where row: "find_row reg (lt_Experience t) = Some row"
    by (auto simp: appendExperienceTransitionTx_def split: option.splits)
  from None assms row have *: "rebuilt_state reg row = row_State row" "row_State row = lt_FromState t"
    "\<not> (case latest_occurred reg (lt_Experience t) of None \<Rightarrow> False
        | Some latest \<Rightarrow> \<not> latest < wall_ns (lt_OccurredAt t))"
    "b = True" "reg' = appended now reg t plaintext"
    by (auto simp: appendExperienceTransitionTx_def appended_def split: if_splits)
  then show ?thesis
    using new [of row] row fresh by (auto split: option.splits)
qed

lemma row_consistent_other:
  assumes "row_consistent reg row" "row_key row \<noteq> lt_Experience t"
  shows "row_consistent (appended now reg t plaintext) (moved_row t now row)"
  using assms by (simp add: moved_row_other row_consistent_def transitions_of_appended)

lemma row_consistent_moved:
  assumes row: "row_consistent reg row" "row_key row = lt_Experience t" "row_State row = lt_FromState t"
    and v: "ValidLifecycleTransition (lt_FromState t) (lt_ToState t)"
    and later: "\<forall>latest. latest_occurred reg (lt_Experience t) = Some latest \<longrightarrow>
      latest < wall_ns (lt_OccurredAt t)"
  shows "row_consistent (appended now reg t plaintext) (moved_row t now row)"
proof -
  let ?ts = "transitions_of reg (row_key row)"
  let ?new = "transition_row_of t plaintext"
  let ?row = "moved_row t now row"
  have s: "sorted_wrt (<) (map tr_OccurredAt ?ts)" and l: "linked (row_Initial row) ?ts (row_State row)"
    using row(1) by (simp_all add: row_consistent_def Let_def)
  have ts: "transitions_of (appended now reg t plaintext) (row_key ?row) = ?ts @ [?new]"
    using row(2) by (simp add: transitions_of_appended)
  have m: "?row = row\<lparr>row_State := lt_ToState t, row_ActivatedAt := activationTimeForTransition t,
      row_UpdatedAt := now\<rparr>"
    using row by (simp add: moved_row_def update_hits_def)
  have new: "tr_From ?new = row_State row" "tr_To ?new = lt_ToState t"
    "tr_OccurredAt ?new = wall_ns (lt_OccurredAt t)"
    using row(3) by (simp_all add: transition_row_of_def)
  have "\<forall>u \<in> set ?ts. tr_OccurredAt u < wall_ns (lt_OccurredAt t)"
  proof
    fix u
    assume u: "u \<in> set ?ts"
    then have "latest_occurred reg (lt_Experience t) = Some (Max (set (map tr_OccurredAt ?ts)))"
      using row(2) by (auto simp: latest_occurred_def)
    with later have "Max (set (map tr_OccurredAt ?ts)) < wall_ns (lt_OccurredAt t)" by blast
    moreover have "tr_OccurredAt u \<le> Max (set (map tr_OccurredAt ?ts))" using u by simp
    ultimately show "tr_OccurredAt u < wall_ns (lt_OccurredAt t)" by simp
  qed
  with s new have "sorted_wrt (<) (map tr_OccurredAt (?ts @ [?new]))"
    by (simp add: sorted_wrt_append)
  moreover have "linked (row_Initial ?row) (?ts @ [?new]) (row_State ?row)"
    using l v new row(3) by (simp add: linked_snoc m)
  moreover have "row_ActivatedAt ?row = activation ?row (?ts @ [?new])"
    using new by (simp add: m activation_def activationTimeForTransition_def)
  moreover have "row_Value ?row = row_Value row" "row_Plaintext ?row = row_Plaintext row"
    by (simp_all add: m)
  moreover obtain a where a: "gov_Approval (xp_Governance (row_Value row)) = Some a"
    "row = (row_of (row_Value row) (row_Plaintext row) a)\<lparr>row_State := row_State row,
       row_ActivatedAt := row_ActivatedAt row, row_UpdatedAt := row_UpdatedAt row\<rparr>"
    "Experience_Validate (row_Value row) = None"
    using row(1) unfolding row_consistent_def Let_def by blast
  moreover have "?row = (row_of (row_Value row) (row_Plaintext row) a)\<lparr>row_State := row_State ?row,
       row_ActivatedAt := row_ActivatedAt ?row, row_UpdatedAt := row_UpdatedAt ?row\<rparr>"
    unfolding m by (subst a(2)) simp
  ultimately show ?thesis unfolding row_consistent_def ts Let_def by simp
qed

lemma consistent_appended:
  assumes c: "consistent reg" and v: "LifecycleTransition_Validate t = None"
    and row: "find_row reg (lt_Experience t) = Some row" "row_State row = lt_FromState t"
    and fresh: "lt_TransitionID t \<notin> tr_ID ` set (reg_Transitions reg)"
    and later: "\<forall>latest. latest_occurred reg (lt_Experience t) = Some latest \<longrightarrow>
      latest < wall_ns (lt_OccurredAt t)"
  shows "consistent (appended now reg t plaintext)"
proof -
  have valid: "ValidLifecycleTransition (lt_FromState t) (lt_ToState t)"
    using v by (simp add: LifecycleTransition_Validate_def check_simps)
  have r: "row \<in> set (reg_Experiences reg)" "row_key row = lt_Experience t"
    using find_row_Some [OF row(1)] by blast+
  have keys: "map row_key (reg_Experiences (appended now reg t plaintext)) = map row_key (reg_Experiences reg)"
    by (simp add: appended_def comp_def)
  have rows: "row_consistent (appended now reg t plaintext) r'"
    if "r' \<in> set (reg_Experiences (appended now reg t plaintext))" for r'
  proof -
    from that obtain r0 where r0: "r0 \<in> set (reg_Experiences reg)" "r' = moved_row t now r0"
      by (auto simp: appended_def)
    have c0: "row_consistent reg r0" using c r0(1) by (simp add: consistent_def)
    show ?thesis
    proof (cases "row_key r0 = lt_Experience t")
      case True
      then have "r0 = row"
        using find_row_unique [of reg r0] r0(1) c row(1) by (simp add: consistent_def)
      with c0 True row(2) valid later r0(2) show ?thesis by (simp add: row_consistent_moved)
    next
      case False
      with c0 r0(2) show ?thesis by (simp add: row_consistent_other)
    qed
  qed
  have ids: "distinct (map tr_ID (reg_Transitions (appended now reg t plaintext)))"
    using c fresh by (simp add: consistent_def appended_def transition_row_of_def)
  have owners: "\<exists>r' \<in> set (reg_Experiences (appended now reg t plaintext)). row_key r' = tr_Experience u"
    if "u \<in> set (reg_Transitions (appended now reg t plaintext))" for u
  proof -
    have "tr_Experience u \<in> row_key ` set (reg_Experiences reg)"
    proof (cases "u \<in> set (reg_Transitions reg)")
      case True
      with c show ?thesis unfolding consistent_def by (metis imageI)
    next
      case False
      with that have "tr_Experience u = lt_Experience t" by (auto simp: appended_def transition_row_of_def)
      with r show ?thesis by (metis imageI)
    qed
    then show ?thesis by (auto simp: appended_def)
  qed
  have payloads: "u = transition_row_of (tr_Value u) (tr_Plaintext u) \<and>
      LifecycleTransition_Validate (tr_Value u) = None"
    if "u \<in> set (reg_Transitions (appended now reg t plaintext))" for u
    using that c v by (auto simp: appended_def transition_row_of_def consistent_def)
  show ?thesis
    unfolding consistent_def keys using c ids rows owners payloads by (simp add: consistent_def)
qed

lemma append_consistent:
  assumes "consistent reg" "LifecycleTransition_Validate t = None"
    and "appendExperienceTransitionTx now reg t plaintext = Inr (b, reg')"
  shows "consistent reg'"
  using assms(3)
proof (cases rule: append_cases)
  case replay
  with assms(1) show ?thesis by simp
next
  case (new row)
  with assms(1,2) show ?thesis by (simp add: consistent_appended)
qed

lemma prepare_transition_valid:
  "prepareExperienceTransition js t = Inr plaintext \<Longrightarrow> LifecycleTransition_Validate t = None"
  by (simp add: prepareExperienceTransition_def split: option.splits)

lemma prepare_experience_valid:
  "prepareExperiencePersistence js v = Inr p \<Longrightarrow> Experience_Validate v = None \<and> prep_Value p = v"
  by (auto simp: prepareExperiencePersistence_def split: option.splits sum.splits)

lemma insert_cases:
  assumes "insertPreparedExperienceTx reg p = Inr (b, reg')"
  obtains (replay) old a where "b = False" "reg' = reg"
      "gov_Approval (xp_Governance (prep_Value p)) = Some a"
      "find_row reg (row_key (row_of (prep_Value p) (prep_Plaintext p) a)) = Some old"
      "row_Plaintext old = prep_Plaintext p"
  | (new) a evidence where "b = True" "gov_Approval (xp_Governance (prep_Value p)) = Some a"
      "find_row reg (row_key (row_of (prep_Value p) (prep_Plaintext p) a)) = None"
      "insert_evidence (reg_Evidence reg) (prep_EvidenceRows p) = Inr evidence"
      "reg' = reg\<lparr>reg_Experiences := reg_Experiences reg @ [row_of (prep_Value p) (prep_Plaintext p) a],
         reg_Evidence := evidence\<rparr>"
proof (cases "gov_Approval (xp_Governance (prep_Value p))")
  case None
  with assms show ?thesis by (simp add: insertPreparedExperienceTx_def)
next
  case (Some a)
  let ?row = "row_of (prep_Value p) (prep_Plaintext p) a"
  show ?thesis
  proof (cases "find_row reg (row_key ?row)")
    case None
    with Some assms obtain evidence where "insert_evidence (reg_Evidence reg) (prep_EvidenceRows p) = Inr evidence"
      "(b, reg') = (True, reg\<lparr>reg_Experiences := reg_Experiences reg @ [?row], reg_Evidence := evidence\<rparr>)"
      by (auto simp: insertPreparedExperienceTx_def Let_def split: if_splits sum.splits)
    with new Some None show ?thesis by simp
  next
    case (Some old)
    with \<open>gov_Approval _ = Some a\<close> assms have "row_Plaintext old = prep_Plaintext p" "b = False" "reg' = reg"
      by (auto simp: insertPreparedExperienceTx_def Let_def split: if_splits)
    with Some replay \<open>gov_Approval _ = Some a\<close> show ?thesis by blast
  qed
qed

lemma row_of_key [simp]: "row_key (row_of v plaintext a) = ExperienceRef (xp_ExperienceID v) (xp_Version v)"
  by (simp add: row_key_def row_of_def)

lemma insert_consistent:
  assumes c: "consistent reg" and v: "Experience_Validate (prep_Value p) = None"
    and i: "insertPreparedExperienceTx reg p = Inr (b, reg')"
  shows "consistent reg'"
  using i
proof (cases rule: insert_cases)
  case replay
  with c show ?thesis by simp
next
  case (new a evidence)
  let ?row = "row_of (prep_Value p) (prep_Plaintext p) a"
  from new(3) have fresh: "\<forall>r \<in> set (reg_Experiences reg). row_key r \<noteq> row_key ?row"
    by (auto simp: find_row_def find_None_iff)
  with c have none: "transitions_of reg (row_key ?row) = []"
    unfolding transitions_of_def filter_empty_conv consistent_def by metis
  have tr: "transitions_of reg' ref = transitions_of reg ref" for ref
    by (simp add: new(5) transitions_of_def)
  have "row_consistent reg' ?row"
    unfolding row_consistent_def tr Let_def none
    using v new(2) by (auto simp: activation_def row_of_def)
  moreover have "row_consistent reg' r" if "r \<in> set (reg_Experiences reg)" for r
    using c that by (simp add: consistent_def row_consistent_def tr)
  ultimately show ?thesis
    using c fresh by (auto simp: consistent_def new(5))
qed

lemma candidate_cases:
  assumes "InsertExperienceCandidate js reg c = Inr (b, reg')"
  obtains (replay) old where "b = False" "reg' = reg" "find_candidate reg (cand_CandidateID c) = Some old"
      "js_Candidate js c = Some (crow_Plaintext old)"
  | (new) plaintext where "b = True" "Candidate_Validate c = None"
      "find_candidate reg (cand_CandidateID c) = None" "js_Candidate js c = Some plaintext"
      "reg' = reg\<lparr>reg_Candidates := reg_Candidates reg @ [candidate_row_of c plaintext]\<rparr>"
  using assms
  by (auto simp: InsertExperienceCandidate_def sealDomainJSON_def split: option.splits if_splits)

lemma apply_cases:
  assumes "ApplyExperienceLifecycleAction js now now' reg input0 = Inr (t, reg')"
  obtains stored plaintext where
    "TransitionFrom (ltc_Action (lai_Claims input0)) (ltc_CurrentLifecycle (lai_Claims input0)) =
       (lt_ToState t, True)"
    "lt_Experience t = ltc_Experience (lai_Claims input0)"
    "lt_FromState t = ltc_CurrentLifecycle (lai_Claims input0)" "lt_ActorKind t = ActorUser"
    "lt_OccurredAt t = time_UTC (lai_OccurredAt input0)"
    "select_experience reg (ltc_Experience (lai_Claims input0)) = Inr stored"
    "xp_ContentHash (st_Experience stored) = ltc_ContentHash (lai_Claims input0)"
    "st_CurrentLifecycle stored = ltc_CurrentLifecycle (lai_Claims input0)"
    "LifecycleTransition_Validate t = None"
    "appendExperienceTransitionTx (wall_ns now') reg t plaintext = Inr (True, reg')"
proof -
  let ?i = "normalized_input input0"
  have i: "ltc_Action (lai_Claims ?i) = ltc_Action (lai_Claims input0)"
    "ltc_CurrentLifecycle (lai_Claims ?i) = ltc_CurrentLifecycle (lai_Claims input0)"
    "ltc_Experience (lai_Claims ?i) = ltc_Experience (lai_Claims input0)"
    "ltc_ContentHash (lai_Claims ?i) = ltc_ContentHash (lai_Claims input0)"
    "lai_OccurredAt ?i = time_UTC (lai_OccurredAt input0)"
    by (simp_all add: normalized_input_def)
  from assms obtain toState where to:
    "TransitionFrom (ltc_Action (lai_Claims ?i)) (ltc_CurrentLifecycle (lai_Claims ?i)) = (toState, True)"
    "apply_in_transaction js now' reg ?i toState = Inr (t, reg')"
    unfolding ApplyExperienceLifecycleAction_def Let_def
    by (auto split: if_splits prod.splits bool.splits)
  from to(2) obtain stored where st:
    "select_experience reg (ltc_Experience (lai_Claims ?i)) = Inr stored"
    unfolding apply_in_transaction_def Let_def
    by (auto split: if_splits sum.splits reg_error.splits)
  with to(2) obtain reason where r:
    "xp_ContentHash (st_Experience stored) = ltc_ContentHash (lai_Claims ?i)"
    "st_CurrentLifecycle stored = ltc_CurrentLifecycle (lai_Claims ?i)"
    "action_transition ?i toState reason = Some t"
    "\<exists>plaintext. prepareExperienceTransition js t = Inr plaintext \<and>
       appendExperienceTransitionTx (wall_ns now') reg t plaintext = Inr (True, reg')"
    unfolding apply_in_transaction_def Let_def
    by (auto split: if_splits sum.splits option.splits prod.splits bool.splits)
  from r(3) have t: "lt_Experience t = ltc_Experience (lai_Claims ?i)"
    "lt_FromState t = ltc_CurrentLifecycle (lai_Claims ?i)" "lt_ToState t = toState"
    "lt_ActorKind t = ActorUser" "lt_OccurredAt t = lai_OccurredAt ?i"
    by (auto simp: action_transition_def Let_def)
  from r(4) obtain plaintext where "prepareExperienceTransition js t = Inr plaintext"
    "appendExperienceTransitionTx (wall_ns now') reg t plaintext = Inr (True, reg')" by blast
  with that [of stored plaintext] to(1) st r(1,2) t i show ?thesis
    by (simp add: prepare_transition_valid)
qed

lemma step_cases:
  assumes "registry_step js reg reg'"
  obtains (candidates) cs where "reg' = reg\<lparr>reg_Candidates := cs\<rparr>"
  | (same) "reg' = reg"
  | (inserted) row evidence where
      "reg' = reg\<lparr>reg_Experiences := reg_Experiences reg @ [row], reg_Evidence := evidence\<rparr>"
  | (moved) now t plaintext row where "reg' = appended now reg t plaintext"
      "LifecycleTransition_Validate t = None" "find_row reg (lt_Experience t) = Some row"
      "row_State row = lt_FromState t"
proof -
  have tx: ?thesis if "appendExperienceTransitionTx now reg t plaintext = Inr (b, reg')"
    "LifecycleTransition_Validate t = None" for now t plaintext b
    using that(1) by (cases rule: append_cases) (use same moved that(2) in blast)+
  from assms(1) show ?thesis
  proof (cases rule: registry_step.cases)
    case (candidate c b)
    then show ?thesis by (cases rule: candidate_cases) (use candidates same in blast)+
  next
    case (insert v b)
    then obtain p where "insertPreparedExperienceTx reg p = Inr (b, reg')"
      by (auto simp: InsertExperience_def split: sum.splits)
    then show ?thesis by (cases rule: insert_cases) (use inserted same in blast)+
  next
    case (append now t b)
    then obtain plaintext where "prepareExperienceTransition js t = Inr plaintext"
      "appendExperienceTransitionTx now reg t plaintext = Inr (b, reg')"
      by (auto simp: AppendExperienceTransition_def split: sum.splits)
    then show ?thesis by (auto intro: tx dest: prepare_transition_valid)
  next
    case (act now now' input t)
    show ?thesis by (rule apply_cases [OF act]) (rule tx)
  qed
qed

lemma step_consistent:
  assumes "registry_step js reg reg'" "consistent reg"
  shows "consistent reg'"
  using assms(1)
proof (cases rule: registry_step.cases)
  case (candidate c b)
  then show ?thesis
    by (cases rule: candidate_cases)
      (use assms(2) in \<open>simp_all add: consistent_def row_consistent_def transitions_of_def\<close>)
next
  case (insert v b)
  then obtain p where "Experience_Validate (prep_Value p) = None"
    "insertPreparedExperienceTx reg p = Inr (b, reg')"
    by (auto simp: InsertExperience_def dest: prepare_experience_valid split: sum.splits)
  with assms(2) show ?thesis by (rule insert_consistent)
next
  case (append now t b)
  then obtain plaintext where "LifecycleTransition_Validate t = None"
    "appendExperienceTransitionTx now reg t plaintext = Inr (b, reg')"
    by (auto simp: AppendExperienceTransition_def prepare_transition_valid split: sum.splits)
  with assms(2) show ?thesis by (rule append_consistent)
next
  case (act now now' input t)
  show ?thesis by (rule apply_cases [OF act]) (rule append_consistent [OF assms(2)])
qed

interpretation registry: guarded_machine empty_registry "registry_step js" consistent for js
proof unfold_locales
  show "consistent empty_registry" by (simp add: empty_registry_def consistent_def)
qed (rule step_consistent)

section \<open>What happens to one experience version\<close>

lemma find_row_append:
  "find_row reg ref = Some row \<Longrightarrow>
     find_row (reg\<lparr>reg_Experiences := reg_Experiences reg @ [new], reg_Evidence := evidence\<rparr>) ref = Some row"
proof -
  have "find P xs = Some x \<Longrightarrow> find P (xs @ ys) = Some x" for P xs ys and x :: experience_row
    by (induction xs) auto
  then show "find_row reg ref = Some row \<Longrightarrow>
     find_row (reg\<lparr>reg_Experiences := reg_Experiences reg @ [new], reg_Evidence := evidence\<rparr>) ref = Some row"
    by (simp add: find_row_def)
qed

lemma find_row_appended:
  "find_row (appended now reg t plaintext) ref = map_option (moved_row t now) (find_row reg ref)"
proof -
  have "find (\<lambda>r. row_key r = ref) (map (moved_row t now) rows) =
      map_option (moved_row t now) (find (\<lambda>r. row_key r = ref) rows)" for rows
    by (induction rows) auto
  then show ?thesis by (simp add: find_row_def appended_def)
qed

lemma step_row:
  assumes "registry_step js reg reg'" "consistent reg" "find_row reg ref = Some row"
  shows "\<exists>row'. find_row reg' ref = Some row' \<and> lifecycle_step\<^sup>*\<^sup>* (row_State row) (row_State row') \<and>
    row_Value row' = row_Value row \<and> row_Plaintext row' = row_Plaintext row"
  using assms(1)
proof (cases rule: step_cases)
  case (candidates cs)
  with assms(3) show ?thesis by (simp add: find_row_def)
next
  case same
  with assms(3) show ?thesis by simp
next
  case (inserted new evidence)
  with assms(3) show ?thesis by (simp add: find_row_append)
next
  case (moved now t plaintext hit)
  have "lifecycle_step\<^sup>*\<^sup>* (row_State row) (row_State (moved_row t now row))"
    using moved(2)
    by (auto simp: moved_row_def update_hits_def LifecycleTransition_Validate_def check_simps
        intro: lifecycle_step.intros)
  with moved(1) assms(3) show ?thesis
    by (auto simp: find_row_appended moved_row_def)
qed

lemma run_row:
  assumes "(registry_step js)\<^sup>*\<^sup>* reg reg'" "consistent reg" "find_row reg ref = Some row"
  shows "\<exists>row'. find_row reg' ref = Some row' \<and> lifecycle_step\<^sup>*\<^sup>* (row_State row) (row_State row') \<and>
    row_Value row' = row_Value row \<and> row_Plaintext row' = row_Plaintext row"
  using assms
proof (induction rule: rtranclp_induct)
  case (step y z)
  then obtain row1 where r1: "find_row y ref = Some row1" "lifecycle_step\<^sup>*\<^sup>* (row_State row) (row_State row1)"
    "row_Value row1 = row_Value row" "row_Plaintext row1 = row_Plaintext row" by blast
  have "consistent y" using registry.inv_run [OF step(1)] step by blast
  from step_row [OF step(2) this r1(1)] r1 show ?case
    by (metis rtranclp_trans)
qed simp

lemma step_log:
  assumes "registry_step js reg reg'" "consistent reg"
  shows "prefix (reg_Transitions reg) (reg_Transitions reg')"
  using assms(1) by (cases rule: step_cases) (auto simp: appended_def)

lemma run_log:
  assumes "(registry_step js)\<^sup>*\<^sup>* reg reg'" "consistent reg"
  shows "prefix (reg_Transitions reg) (reg_Transitions reg')"
  using assms
proof (induction rule: rtranclp_induct)
  case (step y z)
  have "consistent y" using registry.inv_run [OF step(1)] step by blast
  with step step_log show ?case by (meson prefix_order.order_trans)
qed simp

lemma row_shape_fields:
  assumes "row = (row_of v p a)\<lparr>row_State := s, row_ActivatedAt := b, row_UpdatedAt := u\<rparr>"
  shows "xp_ExperienceID v = row_ID row \<and> xp_Version v = row_Version row \<and>
      xp_OriginCandidateID v = row_OriginCandidateID row \<and>
      scope_ProjectIdentity (xp_Scope v) = row_ProjectIdentity row \<and> xp_Type v = row_Type row \<and>
      gov_LifecycleState (xp_Governance v) = row_Initial row \<and>
      guid_InterventionStrength (xp_Guidance v) = row_Intervention row \<and>
      xp_ContentHash v = row_ContentHash row \<and> wall_ns (apr_ApprovedAt a) = row_ApprovedAt row \<and>
      wall_ns (xp_CreatedAt v) = row_CreatedAt row \<and>
      map_option wall_ns (appl_ExpiresAt (xp_Applicability v)) = row_ExpiresAt row \<and>
      xp_PreviousVersion v = row_Previous row"
  using assms by (simp add: row_of_def)

lemma scan_consistent:
  assumes "row_consistent reg row"
  shows "scanStoredExperience reg row = Inr \<lparr>st_Experience = row_Value row,
    st_CurrentLifecycle = row_State row, st_ActivatedAt = row_ActivatedAt row,
    st_ExpiresAt = row_ExpiresAt row\<rparr>"
proof -
  obtain a where a: "gov_Approval (xp_Governance (row_Value row)) = Some a"
    "row = (row_of (row_Value row) (row_Plaintext row) a)\<lparr>row_State := row_State row,
       row_ActivatedAt := row_ActivatedAt row, row_UpdatedAt := row_UpdatedAt row\<rparr>"
    "Experience_Validate (row_Value row) = None"
    using assms unfolding row_consistent_def Let_def by blast
  have "index_matches reg row a"
    using row_shape_fields [OF a(2)]
    by (simp add: index_matches_def consistent_projection(2) [OF assms])
  with a(1,3) consistent_projection(1) [OF assms] show ?thesis
    by (simp add: scanStoredExperience_def)
qed

section \<open>A sample registry\<close>

definition some_text :: "'a \<Rightarrow> string option" where
  "some_text v = Some ''{}''"

definition js0 :: json_codec where
  "js0 = \<lparr>js_Candidate = some_text, js_Experience = some_text, js_Evidence = some_text,
     js_Transition = some_text\<rparr>"

definition ref0 :: ExperienceRef where
  "ref0 = ExperienceRef (xp_ExperienceID (experience0 verifier_modified)) 1"

definition envelope0 :: storedEvidencePayload where
  "envelope0 = \<lparr>sep_EvidenceSetID = evs_EvidenceSetID evidence0, sep_EvidenceIndex = 0,
     sep_Experience = ref0, sep_Ref = event_ref ''e1''\<rparr>"

definition registry_with_candidate :: registry where
  "registry_with_candidate = \<lparr>reg_Candidates = [candidate_row_of (candidate0 [event_ref ''e1'']) ''{}''],
     reg_Experiences = [], reg_Evidence = [], reg_Transitions = []\<rparr>"

definition registry0 :: registry where
  "registry0 = registry_with_candidate\<lparr>
     reg_Experiences := [row_of (experience0 verifier_modified) ''{}'' (approval0 verifier_modified)],
     reg_Evidence := [evidence_row_of envelope0]\<rparr>"

definition activation0 :: LifecycleTransition where
  "activation0 = transition0 ref0 LifecycleApproved LifecycleActive (day 2)"

definition registry1 :: registry where
  "registry1 = appended (wall_ns (day 2)) registry0 activation0 ''{}''"

abbreviation reachable_registry :: "registry \<Rightarrow> bool" where
  "reachable_registry reg \<equiv> (registry_step js0)\<^sup>*\<^sup>* empty_registry reg"

lemma seal0 [simp]:
  "2 \<le> limit \<Longrightarrow> sealDomainJSON name (js_Candidate js0) limit c = Inr ''{}''"
  "2 \<le> limit \<Longrightarrow> sealDomainJSON name (js_Experience js0) limit x = Inr ''{}''"
  "2 \<le> limit \<Longrightarrow> sealDomainJSON name (js_Evidence js0) limit e = Inr ''{}''"
  "2 \<le> limit \<Longrightarrow> sealDomainJSON name (js_Transition js0) limit t = Inr ''{}''"
  by (simp_all add: sealDomainJSON_def js0_def some_text_def)

lemma payload_limits [simp]: "2 \<le> maxExperiencePayloadBytes" "2 \<le> maxEvidencePayloadBytes"
  by (simp_all add: maxExperiencePayloadBytes_def maxEvidencePayloadBytes_def)

lemma registry0_tables [simp]:
  "reg_Experiences registry0 = [row_of (experience0 verifier_modified) ''{}'' (approval0 verifier_modified)]"
  "reg_Transitions registry0 = []" "transitions_of registry0 ref = []"
  by (simp_all add: registry0_def registry_with_candidate_def transitions_of_def)

lemma ref0_valid [simp]: "ExperienceRef_Validate ref0 = None"
  by (simp add: ref0_def ExperienceRef_Validate_def check_simps)

lemma row0_key [simp]: "ExperienceRef (the (DeriveExperienceID ''p'' origin0)) 1 = ref0"
  by (simp add: ref0_def)

lemma row0_state [simp]: "row_State (row_of (experience0 v) p a) = LifecycleApproved"
  "row_Initial (row_of (experience0 v) p a) = LifecycleApproved"
  "row_Value (row_of w p a) = w"
  by (simp_all add: row_of_def)

lemma find_row0: "find_row registry0 ref0 =
    Some (row_of (experience0 verifier_modified) ''{}'' (approval0 verifier_modified))"
  by (simp add: find_row_def)

lemma candidate0_stored:
  "InsertExperienceCandidate js0 empty_registry (candidate0 [event_ref ''e1'']) =
     Inr (True, registry_with_candidate)"
  by (simp add: InsertExperienceCandidate_def find_candidate_def empty_registry_def
      registry_with_candidate_def times_ok_no_time)

lemma experience0_prepared: "prepareExperiencePersistence js0 (experience0 verifier_modified) =
    Inr \<lparr>prep_Value = experience0 verifier_modified, prep_Plaintext = ''{}'',
      prep_EvidenceRows = [envelope0]\<rparr>"
proof -
  have "evs_Refs evidence0 = [event_ref ''e1'']" by (simp add: evidence0_def Let_def)
  then show ?thesis by (simp add: prepareExperiencePersistence_def envelope0_def)
qed

lemma experience0_stored: "InsertExperience js0 registry_with_candidate (experience0 verifier_modified) =
    Inr (True, registry0)"
proof -
  let ?row = "row_of (experience0 verifier_modified) ''{}'' (approval0 verifier_modified)"
  have r: "row_OriginCandidateID ?row = origin0" "row_Previous ?row = None"
    by (simp_all add: row_of_def)
  have "find_candidate registry_with_candidate origin0 \<noteq> None"
    by (simp add: find_candidate_def registry_with_candidate_def candidate_row_of_def origin0_def)
  then show ?thesis
    unfolding InsertExperience_def experience0_prepared
    by (simp add: insertPreparedExperienceTx_def r Let_def find_row_def)
      (simp add: registry0_def registry_with_candidate_def Let_def)
qed

lemma registry0_reachable: "reachable_registry registry0"
  using registry_step.candidate [OF candidate0_stored] registry_step.insert [OF experience0_stored]
  by (meson rtranclp.simps)

lemma activation0_valid: "LifecycleTransition_Validate activation0 = None"
  "lt_Experience activation0 = ref0" "lt_FromState activation0 = LifecycleApproved"
  "lt_ToState activation0 = LifecycleActive" "lt_OccurredAt activation0 = day 2"
  by (simp_all add: activation0_def) (simp_all add: transition0_def Let_def)

lemma activation0_append:
  "AppendExperienceTransition js0 (wall_ns (day 2)) registry0 activation0 = Inr (True, registry1)"
proof -
  have p: "prepareExperienceTransition js0 activation0 = Inr ''{}''"
    by (simp add: prepareExperienceTransition_def activation0_valid)
  have u: "length (filter (update_hits activation0) (reg_Experiences registry0)) = 1"
    by (simp add: update_hits_def activation0_valid)
  show ?thesis
    using u
    by (simp add: AppendExperienceTransition_def p appendExperienceTransitionTx_def activation0_valid
        find_row0 rebuilt_state_def latest_transition_def latest_occurred_def registry1_def appended_def)
qed

lemma registry1_reachable: "reachable_registry registry1"
  using registry0_reachable registry_step.append [OF activation0_append]
  by (rule rtranclp.rtrancl_into_rtrancl)

lemma find_row1: "\<exists>row. find_row registry1 ref0 = Some row \<and> row_State row = LifecycleActive \<and>
    row_Value row = experience0 verifier_modified \<and> row_key row = ref0 \<and>
    row \<in> set (reg_Experiences registry1)"
proof -
  let ?row = "moved_row activation0 (wall_ns (day 2))
    (row_of (experience0 verifier_modified) ''{}'' (approval0 verifier_modified))"
  have f: "find_row registry1 ref0 = Some ?row"
    by (simp add: registry1_def find_row_appended find_row0)
  have "row_State ?row = LifecycleActive" "row_Value ?row = experience0 verifier_modified"
    by (simp_all add: moved_row_def update_hits_def activation0_valid)
  with f find_row_Some [OF f] show ?thesis by blast
qed

section \<open>Properties\<close>



text \<open>C25: The transition log is the history of the experience: for every stored experience the logged
  transitions, in the order they were appended, form a run of the lifecycle that starts in the state the
  experience was inserted in, continues each time from the state the previous one ended in, takes only
  legal transitions, ends in the current state, and is strictly ordered by time of occurrence.\<close>

theorem transition_log_is_history:
  assumes "(registry_step js)\<^sup>*\<^sup>* empty_registry reg" and "row \<in> set (reg_Experiences reg)"
  shows "linked (row_Initial row) (transitions_of reg (row_key row)) (row_State row) \<and>
    sorted_wrt (<) (map tr_OccurredAt (transitions_of reg (row_key row))) \<and>
    distinct (map tr_ID (transitions_of reg (row_key row)))"
proof -
  have c: "consistent reg" by (rule registry.inv_reachable [OF assms(1)])
  then have "row_consistent reg row" using assms(2) by (simp add: consistent_def)
  moreover have "distinct (map tr_ID (transitions_of reg (row_key row)))"
    using c unfolding consistent_def transitions_of_def by (meson distinct_map_filter)
  ultimately show ?thesis by (simp add: row_consistent_def Let_def)
qed

theorem transition_log_is_history_witness:
  "\<exists>row. find_row registry1 ref0 = Some row \<and>
     linked (row_Initial row) (transitions_of registry1 ref0) LifecycleActive"
  using transition_log_is_history [OF registry1_reachable] find_row1 by metis

text \<open>C26: Experience versions are immutable and only their lifecycle moves on: whatever operations run
  after it was stored, an experience version is never removed, its content never changes, its state
  only advances by legal transitions, and the log only grows at its end. In particular a superseded or
  expired version stays so.\<close>

theorem experience_versions_are_immutable:
  assumes "(registry_step js)\<^sup>*\<^sup>* empty_registry reg" and "(registry_step js)\<^sup>*\<^sup>* reg reg'"
    and "find_row reg ref = Some row"
  shows "\<exists>row'. find_row reg' ref = Some row' \<and> row_Value row' = row_Value row \<and>
    lifecycle_step\<^sup>*\<^sup>* (row_State row) (row_State row') \<and>
    (row_State row \<in> {LifecycleSuperseded, LifecycleExpired} \<longrightarrow> row_State row' = row_State row) \<and>
    prefix (reg_Transitions reg) (reg_Transitions reg')"
proof -
  have c: "consistent reg" by (rule registry.inv_reachable [OF assms(1)])
  obtain row' where r: "find_row reg' ref = Some row'" "row_Value row' = row_Value row"
    "lifecycle_step\<^sup>*\<^sup>* (row_State row) (row_State row')"
    using run_row [OF assms(2) c assms(3)] by blast
  have "row_State row \<in> {LifecycleSuperseded, LifecycleExpired} \<longrightarrow> row_State row' = row_State row"
    using r(3) by (auto intro!: lifecycle.final_run simp: lifecycle_step_iff)
  with r run_log [OF assms(2) c] show ?thesis by blast
qed

theorem experience_versions_are_immutable_witness:
  "\<exists>row'. find_row registry1 ref0 = Some row' \<and> row_Value row' = experience0 verifier_modified"
  using experience_versions_are_immutable [OF registry0_reachable _ find_row0]
    registry_step.append [OF activation0_append] by (metis r_into_rtranclp row0_state(3))

lemma find_distinct:
  "distinct (map f xs) \<Longrightarrow> x \<in> set xs \<Longrightarrow> find (\<lambda>y. f y = f x) xs = Some x"
  by (induction xs) auto

lemma append_logged:
  assumes "appendExperienceTransitionTx now reg t plaintext = Inr (b, reg')"
  shows "\<exists>old \<in> set (reg_Transitions reg'). tr_ID old = lt_TransitionID t \<and> tr_Plaintext old = plaintext"
  using assms
proof (cases rule: append_cases)
  case (replay old)
  then show ?thesis by blast
next
  case (new row)
  then show ?thesis
    by (intro bexI [of _ "transition_row_of t plaintext"]) (simp_all add: appended_def transition_row_of_def)
qed

text \<open>Appending a transition is idempotent for good: once a transition has been appended (or found
  already there), appending the same transition again is accepted, reports that nothing was inserted
  and changes nothing, immediately and after any further operations, even when the experience has long
  left the state the transition starts from.\<close>

theorem append_is_idempotent:
  assumes "(registry_step js)\<^sup>*\<^sup>* empty_registry reg"
    and "AppendExperienceTransition js now reg t = Inr (b, reg')"
    and "(registry_step js)\<^sup>*\<^sup>* reg' reg''"
  shows "AppendExperienceTransition js now2 reg'' t = Inr (False, reg'')"
proof -
  have c: "consistent reg" by (rule registry.inv_reachable [OF assms(1)])
  have step: "registry_step js reg reg'" using assms(2) by (rule registry_step.append)
  have c': "consistent reg'" by (rule step_consistent [OF step c])
  have c'': "consistent reg''" by (rule registry.inv_run [OF assms(3) c'])
  obtain plaintext where p: "prepareExperienceTransition js t = Inr plaintext"
    "appendExperienceTransitionTx now reg t plaintext = Inr (b, reg')"
    using assms(2) by (auto simp: AppendExperienceTransition_def split: sum.splits)
  obtain old where old: "old \<in> set (reg_Transitions reg')" "tr_ID old = lt_TransitionID t"
    "tr_Plaintext old = plaintext"
    using append_logged [OF p(2)] by blast
  then have "old \<in> set (reg_Transitions reg'')"
    using run_log [OF assms(3) c'] set_mono_prefix by blast
  with c'' have "find (\<lambda>u. tr_ID u = tr_ID old) (reg_Transitions reg'') = Some old"
    by (simp add: consistent_def find_distinct)
  with old p(1) show ?thesis
    by (simp add: AppendExperienceTransition_def appendExperienceTransitionTx_def)
qed

theorem append_is_idempotent_witness:
  "AppendExperienceTransition js0 5 registry1 activation0 = Inr (False, registry1)"
  using append_is_idempotent [OF registry0_reachable activation0_append rtranclp.rtrancl_refl] .

section \<open>User actions\<close>

lemma apply_checks:
  assumes "ApplyExperienceLifecycleAction js now now' reg input = Inr (t, reg')"
  shows "validExperienceLifecycleClaims (lai_Claims (normalized_input input))"
    "\<not> Before (time_UTC (lai_OccurredAt input)) (time_UTC (ltc_IssuedAt (lai_Claims input)))"
    "\<not> After (time_UTC (lai_OccurredAt input)) (time_UTC (ltc_ExpiresAt (lai_Claims input)))"
    "\<not> After now (time_UTC (ltc_ExpiresAt (lai_Claims input)))"
    "\<not> After now' (time_UTC (ltc_ExpiresAt (lai_Claims input)))"
proof -
  let ?i = "normalized_input input"
  have i: "lai_OccurredAt ?i = time_UTC (lai_OccurredAt input)"
    "ltc_IssuedAt (lai_Claims ?i) = time_UTC (ltc_IssuedAt (lai_Claims input))"
    "ltc_ExpiresAt (lai_Claims ?i) = time_UTC (ltc_ExpiresAt (lai_Claims input))"
    by (simp_all add: normalized_input_def)
  have "\<not> (\<not> validExperienceLifecycleClaims (lai_Claims ?i) \<or> lai_ActorID ?i = [] \<or>
      256 < length (lai_ActorID ?i) \<or> IsZero (lai_OccurredAt ?i) \<or>
      Before (lai_OccurredAt ?i) (ltc_IssuedAt (lai_Claims ?i)) \<or>
      After (lai_OccurredAt ?i) (ltc_ExpiresAt (lai_Claims ?i)))"
    using assms unfolding ApplyExperienceLifecycleAction_def Let_def
    by (rule contrapos_pn) (simp only: if_True sum.distinct simp_thms)
  then show "validExperienceLifecycleClaims (lai_Claims ?i)"
    "\<not> Before (time_UTC (lai_OccurredAt input)) (time_UTC (ltc_IssuedAt (lai_Claims input)))"
    "\<not> After (time_UTC (lai_OccurredAt input)) (time_UTC (ltc_ExpiresAt (lai_Claims input)))"
    unfolding i by blast+
  then show "\<not> After now (time_UTC (ltc_ExpiresAt (lai_Claims input)))"
    using assms i unfolding ApplyExperienceLifecycleAction_def Let_def by (auto split: if_splits)
  have "After now' (ltc_ExpiresAt (lai_Claims ?i)) \<Longrightarrow> apply_in_transaction js now' reg ?i s = Inl ErrTokenExpired" for s
    by (simp add: apply_in_transaction_def)
  then show "\<not> After now' (time_UTC (ltc_ExpiresAt (lai_Claims input)))"
    using assms i unfolding ApplyExperienceLifecycleAction_def Let_def
    by (auto split: if_splits prod.splits bool.splits)
qed

lemma select_consistent:
  assumes "consistent reg" "find_row reg ref = Some row"
  shows "select_experience reg ref = Inr \<lparr>st_Experience = row_Value row,
    st_CurrentLifecycle = row_State row, st_ActivatedAt = row_ActivatedAt row,
    st_ExpiresAt = row_ExpiresAt row\<rparr>"
proof -
  have "row_consistent reg row"
    using assms find_row_Some [OF assms(2)] by (simp add: consistent_def)
  with assms(2) show ?thesis by (simp add: select_experience_def scan_consistent)
qed

lemma select_finds: "select_experience reg ref = Inr st \<Longrightarrow> \<exists>row. find_row reg ref = Some row"
  by (auto simp: select_experience_def split: option.splits)

definition claims0 :: LifecycleActionTokenClaims where
  "claims0 = \<lparr>ltc_Version = LifecycleActionTokenVersion, ltc_Action = LifecycleActionActivate,
     ltc_Experience = ref0, ltc_ProjectIdentity = ''p'', ltc_CurrentLifecycle = LifecycleApproved,
     ltc_ContentHash = content0 verifier_modified, ltc_IssuedAt = day 2,
     ltc_ExpiresAt = utc_at (wall_ns (day 2) + 600000000000)\<rparr>"

definition action0 :: ExperienceLifecycleActionInput where
  "action0 = \<lparr>lai_Claims = claims0, lai_ActorID = ''u'', lai_OccurredAt = day 2\<rparr>"

lemma day2_facts [simp]: "time_UTC (day 2) = day 2" "wall_ns (day 2) = 63763372800000000000"
  "mono (day 2) = None" "loc (day 2) = 0"
  by (simp_all add: day_def utc_at_def time_UTC_def)

lemma later0_facts: "time_UTC (ltc_ExpiresAt claims0) = ltc_ExpiresAt claims0"
  "After (ltc_ExpiresAt claims0) (day 2)" "\<not> After (day 2) (ltc_ExpiresAt claims0)"
  "\<not> IsZero (ltc_ExpiresAt claims0)" "time_Sub (ltc_ExpiresAt claims0) (day 2) = 600000000000"
  by (simp_all add: claims0_def time_UTC_def utc_at_def After_def time_cmp_key_def IsZero_def time_Sub_def)

lemma claims0_valid: "validExperienceLifecycleClaims claims0"
proof -
  have "LifecycleActionTokenClaims_Validate claims0 = None"
    using later0_facts(2,4) content0_hash(2) [of verifier_modified]
    by (simp add: LifecycleActionTokenClaims_Validate_def claims0_def check_simps)
  then show ?thesis
    using later0_facts(5)
    by (simp add: validExperienceLifecycleClaims_def experienceLifecycleTokenLifetime_def)
      (simp add: claims0_def)
qed

lemma user_activated_visible [simp]: "visible ''user_activated''"
  by code_simp

lemma action0_transition:
  "\<exists>t. action_transition action0 LifecycleActive ''user_activated'' = Some t \<and>
    LifecycleTransition_Validate t = None \<and> lt_Experience t = ref0 \<and> lt_FromState t = LifecycleApproved"
proof -
  let ?t = "\<lparr>lt_TransitionID = [], lt_Experience = ref0, lt_FromState = LifecycleApproved,
    lt_ToState = LifecycleActive, lt_ReasonCode = ''user_activated'', lt_ActorKind = ActorUser,
    lt_ActorID = ''u'', lt_OccurredAt = day 2, lt_SourceEvidence = []\<rparr>"
  obtain j where j: "\<And>i. LifecycleTransition_DeterministicID (?t\<lparr>lt_TransitionID := i\<rparr>) = deterministicID ''ext_'' j"
    "json_ok j"
    using json_ok_evidence [of "[]"] by (simp add: LifecycleTransition_DeterministicID_def times_ok_def)
  note id = computed_id [OF j(2), of "''ext_''"]
  let ?u = "?t\<lparr>lt_TransitionID := the (deterministicID ''ext_'' j)\<rparr>"
  have "action_transition action0 LifecycleActive ''user_activated'' = Some ?u"
    using j(1) [of "[]"] id(1)
    by (simp add: action_transition_def action0_def claims0_def)
  moreover have "LifecycleTransition_Validate ?u = None"
    using j(1) [of "the (deterministicID ''ext_'' j)"] id
    by (simp add: LifecycleTransition_Validate_def check_simps)
  ultimately show ?thesis by (intro exI [of _ ?u]) simp
qed

lemma action0_applies:
  "\<exists>t reg'. ApplyExperienceLifecycleAction js0 (day 2) (day 2) registry0 action0 = Inr (t, reg')"
proof -
  obtain t where t: "action_transition action0 LifecycleActive ''user_activated'' = Some t"
    "LifecycleTransition_Validate t = None" "lt_Experience t = ref0" "lt_FromState t = LifecycleApproved"
    using action0_transition by blast
  have n: "normalized_input action0 = action0"
    using later0_facts(1) by (simp add: normalized_input_def action0_def) (simp add: claims0_def)
  have c: "ltc_Experience claims0 = ref0" "ltc_ProjectIdentity claims0 = ''p''"
    "ltc_Action claims0 = LifecycleActionActivate" "ltc_CurrentLifecycle claims0 = LifecycleApproved"
    "ltc_ContentHash claims0 = content0 verifier_modified" "ltc_IssuedAt claims0 = day 2"
    by (simp_all add: claims0_def)
  have i: "lai_Claims action0 = claims0" "lai_ActorID action0 = ''u''" "lai_OccurredAt action0 = day 2"
    by (simp_all add: action0_def)
  have "consistent registry0" by (rule registry.inv_reachable [OF registry0_reachable])
  from select_consistent [OF this find_row0] obtain stored where stored:
    "select_experience registry0 ref0 = Inr stored" "st_Experience stored = experience0 verifier_modified"
    "st_CurrentLifecycle stored = LifecycleApproved" by auto
  have x: "xref_ExperienceID ref0 = the (DeriveExperienceID ''p'' origin0)" "xref_Version ref0 = 1"
    by (simp_all add: ref0_def del: row0_key)
  have p: "prepareExperienceTransition js0 t = Inr ''{}''"
    by (simp add: prepareExperienceTransition_def t)
  have u: "length (filter (update_hits t) (reg_Experiences registry0)) = 1"
    by (simp add: update_hits_def t)
  have "appendExperienceTransitionTx (wall_ns (day 2)) registry0 t ''{}'' =
      Inr (True, appended (wall_ns (day 2)) registry0 t ''{}'')"
    using u by (simp add: appendExperienceTransitionTx_def t find_row0 rebuilt_state_def
        latest_transition_def latest_occurred_def appended_def)
  then have "apply_in_transaction js0 (day 2) registry0 action0 LifecycleActive =
      Inr (t, appended (wall_ns (day 2)) registry0 t ''{}'')"
    using stored t(1) p
    by (simp add: apply_in_transaction_def i c later0_facts(3) x)
  then show ?thesis
    using claims0_valid later0_facts
    by (simp add: ApplyExperienceLifecycleAction_def n i c Before_After)
qed



lemma apply_wrong_state:
  assumes "consistent reg" "find_row reg (ltc_Experience (lai_Claims input)) = Some row"
    and "row_State row \<noteq> ltc_CurrentLifecycle (lai_Claims input)"
  shows "ApplyExperienceLifecycleAction js now now' reg input \<in>
    {Inl ErrActionStale, Inl ErrTokenInvalid, Inl ErrTokenExpired}"
proof -
  have "apply_in_transaction js now' reg (normalized_input input) s \<in>
      {Inl ErrActionStale, Inl ErrTokenInvalid, Inl ErrTokenExpired}" for s
    using assms(3) select_consistent [OF assms(1,2)]
    by (simp add: apply_in_transaction_def normalized_input_def Let_def)
  then show ?thesis
    unfolding ApplyExperienceLifecycleAction_def Let_def
    by (auto split: prod.splits bool.splits)
qed

lemma never_approved_again: "lifecycle_step\<^sup>*\<^sup>* s u \<Longrightarrow> s \<noteq> LifecycleApproved \<Longrightarrow> u \<noteq> LifecycleApproved"
proof (induction rule: rtranclp_induct)
  case (step y z)
  have "\<not> lifecycle_step y LifecycleApproved" by (cases y) (auto simp: lifecycle_step_iff)
  with step show ?case by blast
qed



end
