(* ===== verification/RegistryRecords.thy ===== *)
theory RegistryRecords
  imports Registry
begin

text \<open>
  The records around the experience versions: the candidates they come from, the evidence rows that
  belong to them, and the queries. A second invariant of the same machine says that the evidence table
  holds, for every stored version, exactly the references of its evidence set in their order.
\<close>

section \<open>What is sealed is what is inserted\<close>

definition envelopes :: "Experience \<Rightarrow> nat \<Rightarrow> EvidenceRef list \<Rightarrow> storedEvidencePayload list" where
  "envelopes v n refs = map (\<lambda>(i, ref).
     \<lparr>sep_EvidenceSetID = evs_EvidenceSetID (xp_Evidence v), sep_EvidenceIndex = i,
      sep_Experience = ExperienceRef (xp_ExperienceID v) (xp_Version v), sep_Ref = ref\<rparr>) (enumerate n refs)"

abbreviation evidence_of :: "Experience \<Rightarrow> evidence_row list" where
  "evidence_of v \<equiv> map evidence_row_of (envelopes v 0 (evs_Refs (xp_Evidence v)))"

lemma envelopes_simps [simp]:
  "envelopes v n [] = []"
  "envelopes v n (ref # refs) =
     \<lparr>sep_EvidenceSetID = evs_EvidenceSetID (xp_Evidence v), sep_EvidenceIndex = n,
      sep_Experience = ExperienceRef (xp_ExperienceID v) (xp_Version v), sep_Ref = ref\<rparr> #
     envelopes v (Suc n) refs"
  by (simp_all add: envelopes_def)

lemma evidence_row_of_fields [simp]:
  "ev_EvidenceSetID (evidence_row_of e) = sep_EvidenceSetID e" "ev_Index (evidence_row_of e) = sep_EvidenceIndex e"
  "ev_Experience (evidence_row_of e) = sep_Experience e" "ev_Kind (evidence_row_of e) = eref_Kind (sep_Ref e)"
  "ev_Value (evidence_row_of e) = e"
  by (simp_all add: evidence_row_of_def evidenceIndexValues_def Let_def)

lemma evidence_row_indexes [simp]: "evidenceIndexesMatch (sep_Ref e) (evidence_row_of e)"
  by (simp add: evidenceIndexesMatch_def evidence_row_of_def evidenceIndexValues_def Let_def)

lemma seal_evidence_envelopes: "seal_evidence js v n refs = Inr rows \<Longrightarrow> rows = envelopes v n refs"
  by (induction js v n refs arbitrary: rows rule: seal_evidence.induct)
    (auto simp: Let_def split: sum.splits)

lemma prepared_evidence:
  "prepareExperiencePersistence js v = Inr p \<Longrightarrow>
     prep_EvidenceRows p = envelopes v 0 (evs_Refs (xp_Evidence v)) \<and> prep_Value p = v"
  by (auto simp: prepareExperiencePersistence_def seal_evidence_envelopes split: option.splits sum.splits)

lemma insert_evidence_appends:
  "insert_evidence table es = Inr table' \<Longrightarrow> table' = table @ map evidence_row_of es"
  by (induction table es arbitrary: table' rule: insert_evidence.induct)
    (auto simp: Let_def split: if_splits)

lemma insert_evidence_fresh:
  assumes "\<forall>row \<in> set table. ev_Experience row \<noteq> ref" "\<forall>e \<in> set es. sep_Experience e = ref"
    and "distinct (map sep_EvidenceIndex es)"
  shows "insert_evidence table es = Inr (table @ map evidence_row_of es)"
proof -
  have "insert_evidence (table @ map evidence_row_of old) es = Inr (table @ map evidence_row_of (old @ es))"
    if "\<forall>e \<in> set es. sep_Experience e = ref" "distinct (map sep_EvidenceIndex (old @ es))" for old
    using that
  proof (induction es arbitrary: old)
    case (Cons e es)
    have "\<not> list_ex (same_evidence_key (evidence_row_of e)) (table @ map evidence_row_of old)"
      using Cons.prems assms(1) by (auto simp: list_ex_iff same_evidence_key_def)
    with Cons.IH [of "old @ [e]"] Cons.prems show ?case by (simp add: Let_def)
  qed simp
  from this [of "[]"] assms show ?thesis by simp
qed

lemma envelopes_index: "map sep_EvidenceIndex (envelopes v n refs) = [n..<n + length refs]"
proof -
  have "map sep_EvidenceIndex (envelopes v n refs) = map fst (enumerate n refs)"
    unfolding envelopes_def map_map by (rule map_cong) auto
  then show ?thesis by simp
qed

lemma envelopes_experience:
  "\<forall>e \<in> set (envelopes v n refs). sep_Experience e = ExperienceRef (xp_ExperienceID v) (xp_Version v)"
  by (auto simp: envelopes_def)

section \<open>The second invariant\<close>

definition candidate_consistent :: "candidate_row \<Rightarrow> bool" where
  "candidate_consistent row \<longleftrightarrow>
     row = candidate_row_of (crow_Value row) (crow_Plaintext row) \<and> Candidate_Validate (crow_Value row) = None"

definition attached :: "registry \<Rightarrow> bool" where
  "attached reg \<longleftrightarrow> distinct (map crow_ID (reg_Candidates reg)) \<and>
     (\<forall>row \<in> set (reg_Candidates reg). candidate_consistent row) \<and>
     (\<forall>e \<in> set (reg_Evidence reg). ev_Experience e \<in> row_key ` set (reg_Experiences reg)) \<and>
     (\<forall>row \<in> set (reg_Experiences reg).
        filter (\<lambda>e. ev_Experience e = row_key row) (reg_Evidence reg) = evidence_of (row_Value row))"

lemma moved_row_fields [simp]: "row_Value (moved_row t now row) = row_Value row"
  by (simp add: moved_row_def)

lemma attached_appended: "attached reg \<Longrightarrow> attached (appended now reg t plaintext)"
  by (auto simp: attached_def appended_def image_iff)

lemma attached_candidate:
  assumes "attached reg" "InsertExperienceCandidate js reg c = Inr (b, reg')"
  shows "attached reg'"
  using assms(2)
proof (cases rule: candidate_cases)
  case replay
  with assms(1) show ?thesis by simp
next
  case (new plaintext)
  have "cand_CandidateID c \<notin> crow_ID ` set (reg_Candidates reg)"
    using new(3) by (auto simp: find_candidate_def find_None_iff)
  then show ?thesis
    using assms(1) new(2) by (simp add: new(5) attached_def candidate_consistent_def candidate_row_of_def)
qed

lemma attached_insert:
  assumes "attached reg" "InsertExperience js reg v = Inr (b, reg')"
  shows "attached reg'"
proof -
  obtain p where p: "prepareExperiencePersistence js v = Inr p" "insertPreparedExperienceTx reg p = Inr (b, reg')"
    using assms(2) by (auto simp: InsertExperience_def split: sum.splits)
  note prep = prepared_evidence [OF p(1)]
  from p(2) show ?thesis
  proof (cases rule: insert_cases)
    case replay
    with assms(1) show ?thesis by simp
  next
    case (new a evidence)
    let ?row = "row_of v (prep_Plaintext p) a"
    have reg': "reg' = reg\<lparr>reg_Experiences := reg_Experiences reg @ [?row],
        reg_Evidence := reg_Evidence reg @ evidence_of v\<rparr>"
      using new(5) insert_evidence_appends [OF new(4)] prep by simp
    have fresh: "row_key ?row \<notin> row_key ` set (reg_Experiences reg)"
      using new(3) prep by (auto simp: find_row_def find_None_iff)
    then have none: "filter (\<lambda>e. ev_Experience e = row_key ?row) (reg_Evidence reg) = []"
      using assms(1) unfolding attached_def filter_empty_conv by metis
    have own: "ev_Experience e = row_key ?row" if "e \<in> set (evidence_of v)" for e
      using that envelopes_experience by fastforce
    then have all: "filter (\<lambda>e. ev_Experience e = row_key ?row) (evidence_of v) = evidence_of v"
      by (simp add: filter_id_conv)
    have old: "filter (\<lambda>e. ev_Experience e = row_key row) (evidence_of v) = []"
      if "row \<in> set (reg_Experiences reg)" for row
      unfolding filter_empty_conv using own fresh that by (metis imageI)
    have "\<forall>e \<in> set (reg_Evidence reg'). ev_Experience e \<in> row_key ` set (reg_Experiences reg')"
      using own assms(1) by (auto simp: reg' attached_def)
    moreover have "row_Value ?row = v" by (simp add: row_of_def)
    moreover have "filter (\<lambda>e. ev_Experience e = row_key row) (reg_Evidence reg') = evidence_of (row_Value row)"
      if "row \<in> set (reg_Experiences reg)" for row
      using assms(1) that old [OF that] unfolding attached_def reg' by simp
    ultimately show ?thesis
      using assms(1) none all unfolding attached_def by (simp add: reg')
  qed
qed

lemma step_attached:
  assumes "registry_step js reg reg'" "attached reg"
  shows "attached reg'"
proof -
  have tx: "attached reg'" if "appendExperienceTransitionTx now reg t plaintext = Inr (b, reg')" for now t plaintext b
    using that by (cases rule: append_cases) (use assms(2) in \<open>simp_all add: attached_appended\<close>)
  from assms(1) show ?thesis
  proof (cases rule: registry_step.cases)
    case (candidate c b)
    with assms(2) show ?thesis by (blast intro: attached_candidate)
  next
    case (insert v b)
    with assms(2) show ?thesis by (blast intro: attached_insert)
  next
    case (append now t b)
    then show ?thesis by (auto simp: AppendExperienceTransition_def intro: tx split: sum.splits)
  next
    case (act now now' input t)
    show ?thesis by (rule apply_cases [OF act]) (rule tx)
  qed
qed

interpretation records: guarded_machine empty_registry "registry_step js" attached for js
proof unfold_locales
  show "attached empty_registry" by (simp add: empty_registry_def attached_def)
qed (rule step_attached)

section \<open>Reading\<close>

lemma read_own_evidence:
  assumes "evs_EvidenceSetID acc \<in> {[], evs_EvidenceSetID (xp_Evidence v)}"
  shows "read_evidence (ExperienceRef (xp_ExperienceID v) (xp_Version v))
      (map evidence_row_of (envelopes v n refs)) n acc =
    Inr (if refs = [] then acc else acc\<lparr>evs_EvidenceSetID := evs_EvidenceSetID (xp_Evidence v),
      evs_Refs := evs_Refs acc @ refs\<rparr>)"
  using assms
proof (induction refs arbitrary: n acc)
  case (Cons ref refs)
  note IH = Cons.IH [of "acc\<lparr>evs_EvidenceSetID := evs_EvidenceSetID (xp_Evidence v),
      evs_Refs := evs_Refs acc @ [ref]\<rparr>" "Suc n"]
  have "evidenceIndexesMatch ref (evidence_row_of \<lparr>sep_EvidenceSetID = evs_EvidenceSetID (xp_Evidence v),
      sep_EvidenceIndex = n, sep_Experience = ExperienceRef (xp_ExperienceID v) (xp_Version v), sep_Ref = ref\<rparr>)"
    using evidence_row_indexes [of "\<lparr>sep_EvidenceSetID = evs_EvidenceSetID (xp_Evidence v),
      sep_EvidenceIndex = n, sep_Experience = ExperienceRef (xp_ExperienceID v) (xp_Version v), sep_Ref = ref\<rparr>"]
    by simp
  with IH Cons.prems show ?case by (auto simp: Let_def)
qed simp

lemma evidence_rows_attached:
  assumes "attached reg" "row \<in> set (reg_Experiences reg)"
  shows "evidence_rows reg (row_key row) = evidence_of (row_Value row)"
proof -
  let ?rows = "evidence_of (row_Value row)"
  have "filter (\<lambda>e. ev_Experience e = row_key row) (reg_Evidence reg) = ?rows"
    using assms by (simp add: attached_def)
  moreover have "map ev_Index ?rows = [0..<length (evs_Refs (xp_Evidence (row_Value row)))]"
    using envelopes_index [of "row_Value row" 0] by (simp add: comp_def)
  ultimately show ?thesis
    by (simp add: evidence_rows_def sort_key_id_if_sorted del: map_map)
qed

lemma find_candidate_unique:
  assumes "attached reg" "row \<in> set (reg_Candidates reg)"
  shows "find_candidate reg (crow_ID row) = Some row"
proof -
  have "distinct (map crow_ID rows) \<Longrightarrow> row \<in> set rows \<Longrightarrow>
      find (\<lambda>r. crow_ID r = crow_ID row) rows = Some row" for rows
    by (induction rows) auto
  with assms show ?thesis by (simp add: find_candidate_def attached_def)
qed

lemma scan_candidate: "candidate_consistent row \<Longrightarrow> scanExperienceCandidate row = Inr (crow_Value row)"
proof -
  assume c: "candidate_consistent row"
  then have "crow_ID row = cand_CandidateID (crow_Value row)"
    "crow_ProjectIdentity row = cand_ProjectIdentity (crow_Value row)"
    "crow_Family row = cand_Family (crow_Value row)"
    "crow_LifecycleState row = cand_LifecycleState (crow_Value row)"
    "crow_Authority row = cand_Authority (crow_Value row)"
    "crow_CreatedAt row = wall_ns (cand_CreatedAt (crow_Value row))"
    unfolding candidate_consistent_def candidate_row_of_def by (metis candidate_row.select_convs)+
  with c show ?thesis by (simp add: scanExperienceCandidate_def candidate_consistent_def)
qed

lemma step_candidates:
  assumes "registry_step js reg reg'"
  shows "prefix (reg_Candidates reg) (reg_Candidates reg')"
proof -
  have tx: ?thesis if "appendExperienceTransitionTx now reg t plaintext = Inr (b, reg')" for now t plaintext b
    using that by (cases rule: append_cases) (simp_all add: appended_def)
  from assms show ?thesis
  proof (cases rule: registry_step.cases)
    case (candidate c b)
    then show ?thesis by (cases rule: candidate_cases) auto
  next
    case (insert v b)
    then obtain p where "insertPreparedExperienceTx reg p = Inr (b, reg')"
      by (auto simp: InsertExperience_def split: sum.splits)
    then show ?thesis by (cases rule: insert_cases) auto
  next
    case (append now t b)
    then show ?thesis by (auto simp: AppendExperienceTransition_def intro: tx split: sum.splits)
  next
    case (act now now' input t)
    show ?thesis by (rule apply_cases [OF act]) (rule tx)
  qed
qed

lemma run_candidates:
  "(registry_step js)\<^sup>*\<^sup>* reg reg' \<Longrightarrow> prefix (reg_Candidates reg) (reg_Candidates reg')"
  by (induction rule: rtranclp_induct) (auto dest: step_candidates intro: prefix_order.order_trans)

lemma scan_rows_all:
  "\<forall>row \<in> set rows. scan row = Inr (f row) \<Longrightarrow> scan_rows scan rows = Inr (map f rows)"
  by (induction rows) auto

lemma scan_rows_take:
  assumes "\<forall>row \<in> set rows. scan row = Inr (f row)"
  shows "scan_rows scan (take n rows) = Inr (map f (take n rows))"
  using assms by (intro scan_rows_all) (auto dest: in_set_takeD)

definition query_limit :: "int \<Rightarrow> nat" where
  "query_limit limit = (if limit \<le> 0 then 100 else nat limit)"

lemma bounded_limit: "limit \<le> 500 \<Longrightarrow> boundedRepositoryLimit limit = Inr (int (query_limit limit))"
  by (simp add: boundedRepositoryLimit_def query_limit_def defaultExperienceQueryLimit_def
      maxExperienceQueryLimit_def)

lemma project_query_all:
  assumes "validateProjectIdentity project = None" "limit \<le> 500"
    and "\<forall>row \<in> set (rows project). scan row = Inr (f row)"
  shows "project_query project limit rows scan = Inr (map f (take (query_limit limit) (rows project)))"
  using assms by (simp add: project_query_def bounded_limit scan_rows_take)

definition stored_of :: "experience_row \<Rightarrow> StoredExperience" where
  "stored_of row = \<lparr>st_Experience = row_Value row, st_CurrentLifecycle = row_State row,
     st_ActivatedAt = row_ActivatedAt row, st_ExpiresAt = row_ExpiresAt row\<rparr>"

lemma scan_stored: "consistent reg \<Longrightarrow> row \<in> set (reg_Experiences reg) \<Longrightarrow>
    scanStoredExperience reg row = Inr (stored_of row)"
  by (simp add: consistent_def scan_consistent stored_of_def)

lemma active_rows_consistent:
  assumes "consistent reg"
  shows "active_rows reg project = sort_key row_key
    (filter (\<lambda>row. row_ProjectIdentity row = project \<and> row_State row = LifecycleActive) (reg_Experiences reg))"
proof -
  have "filter (\<lambda>row. row_ProjectIdentity row = project \<and> rebuilt_state reg row = LifecycleActive)
      (reg_Experiences reg) =
    filter (\<lambda>row. row_ProjectIdentity row = project \<and> row_State row = LifecycleActive) (reg_Experiences reg)"
    using assms by (intro filter_cong) (simp_all add: consistent_def consistent_projection(1))
  then show ?thesis by (simp add: active_rows_def)
qed

lemma log_times:
  assumes "consistent reg"
  shows "sorted_wrt (<) (map tr_OccurredAt (transitions_of reg ref))"
proof (cases "\<exists>row \<in> set (reg_Experiences reg). row_key row = ref")
  case True
  with assms show ?thesis by (auto simp: consistent_def row_consistent_def Let_def)
next
  case False
  with assms have "transitions_of reg ref = []"
    unfolding transitions_of_def filter_empty_conv consistent_def by metis
  then show ?thesis by simp
qed

lemma transitions_sorted:
  "consistent reg \<Longrightarrow>
     sort_key (\<lambda>t. (tr_OccurredAt t, tr_ID t)) (transitions_of reg ref) = transitions_of reg ref"
  by (rule sorted_log) (rule log_times)

lemma logged_fields:
  assumes "consistent reg" "t \<in> set (reg_Transitions reg)"
  shows "LifecycleTransition_Validate (tr_Value t) = None"
    and "tr_ID t = lt_TransitionID (tr_Value t)" "tr_Experience t = lt_Experience (tr_Value t)"
    "tr_From t = lt_FromState (tr_Value t)" "tr_To t = lt_ToState (tr_Value t)"
    "tr_ReasonCode t = lt_ReasonCode (tr_Value t)" "tr_ActorKind t = lt_ActorKind (tr_Value t)"
    "tr_OccurredAt t = wall_ns (lt_OccurredAt (tr_Value t))"
proof -
  have t: "t = transition_row_of (tr_Value t) (tr_Plaintext t)"
    using assms by (simp add: consistent_def)
  show "tr_ID t = lt_TransitionID (tr_Value t)" "tr_Experience t = lt_Experience (tr_Value t)"
    "tr_From t = lt_FromState (tr_Value t)" "tr_To t = lt_ToState (tr_Value t)"
    "tr_ReasonCode t = lt_ReasonCode (tr_Value t)" "tr_ActorKind t = lt_ActorKind (tr_Value t)"
    "tr_OccurredAt t = wall_ns (lt_OccurredAt (tr_Value t))"
    using t unfolding transition_row_of_def by (metis transition_row.select_convs)+
qed (use assms in \<open>simp add: consistent_def\<close>)

lemma scan_logged:
  "consistent reg \<Longrightarrow> t \<in> set (reg_Transitions reg) \<Longrightarrow> scan_transition t = Inr (tr_Value t)"
  using logged_fields [of reg t] by (simp add: scan_transition_def)

lemma candidate_id_valid: "Candidate_Validate c = None \<Longrightarrow> is_identifier_of ''exc_'' (cand_CandidateID c)"
  by (auto simp: Candidate_Validate_def check_simps Candidate_DeterministicID_def dest: deterministicID_shape)

lemma stored_identifier:
  "is_identifier_of ''exc_'' i \<Longrightarrow> validateStorageIdentifier name i = None"
  using identifier_valid [of "''exc_''" i "[]"] identifier_length [of "''exc_''" i]
  by (auto simp: validateStorageIdentifier_def validateIdentifier_def check_simps)

section \<open>Properties\<close>



text \<open>Candidates are stored once and for good: after a candidate has been inserted, whatever other
  operations follow, \<open>GetExperienceCandidate\<close> returns it, and inserting it again reports that it was
  already there and changes nothing.\<close>

theorem candidate_stored_once:
  assumes "(registry_step js)\<^sup>*\<^sup>* empty_registry reg"
    and "InsertExperienceCandidate js reg c = Inr (True, reg')"
    and "(registry_step js)\<^sup>*\<^sup>* reg' reg''"
  shows "GetExperienceCandidate reg'' (cand_CandidateID c) = Inr c \<and>
    InsertExperienceCandidate js reg'' c = Inr (False, reg'')"
proof -
  have a: "attached reg" by (rule records.inv_reachable [OF assms(1)])
  have a': "attached reg'" by (rule attached_candidate [OF a assms(2)])
  have a'': "attached reg''" by (rule records.inv_run [OF assms(3) a'])
  obtain plaintext where p: "Candidate_Validate c = None" "js_Candidate js c = Some plaintext"
    "candidate_row_of c plaintext \<in> set (reg_Candidates reg')"
    using assms(2) by (cases rule: candidate_cases) auto
  let ?row = "candidate_row_of c plaintext"
  have row: "crow_ID ?row = cand_CandidateID c" "crow_Value ?row = c" "crow_Plaintext ?row = plaintext"
    by (simp_all add: candidate_row_of_def)
  have mem: "?row \<in> set (reg_Candidates reg'')"
    using p(3) run_candidates [OF assms(3)] set_mono_prefix by blast
  have f: "find_candidate reg'' (cand_CandidateID c) = Some ?row"
    using find_candidate_unique [OF a'' mem] row(1) by simp
  have "scanExperienceCandidate ?row = Inr c"
    using scan_candidate [of ?row] mem a'' row(2) by (simp add: attached_def)
  moreover have "validateStorageIdentifier name (cand_CandidateID c) = None" for name
    using p(1) by (intro stored_identifier [OF candidate_id_valid])
  ultimately have "GetExperienceCandidate reg'' (cand_CandidateID c) = Inr c"
    using f by (simp add: GetExperienceCandidate_def)
  moreover have "sealDomainJSON ''experience_candidate'' (js_Candidate js) maxExperiencePayloadBytes c = Inr plaintext"
    using assms(2) p by (auto simp: InsertExperienceCandidate_def sealDomainJSON_def split: if_splits)
  ultimately show ?thesis
    using f p(1) row(3) by (simp add: InsertExperienceCandidate_def)
qed

theorem candidate_stored_once_witness:
  "GetExperienceCandidate registry0 (cand_CandidateID (candidate0 [event_ref ''e1''])) =
     Inr (candidate0 [event_ref ''e1''])"
proof -
  have "(registry_step js0)\<^sup>*\<^sup>* registry_with_candidate registry0"
    using registry_step.insert [OF experience0_stored] by (rule r_into_rtranclp)
  from candidate_stored_once [OF rtranclp.rtrancl_refl candidate0_stored this] show ?thesis by blast
qed



text \<open>The history can be read: for a valid reference and a limit of at most 500,
  \<open>ListExperienceTransitions\<close> succeeds in every registry the operations can build and returns the
  transitions of that version in the order in which they were appended, oldest first, up to the limit;
  the times of the returned transitions strictly increase.\<close>

theorem transition_list_is_log:
  assumes "(registry_step js)\<^sup>*\<^sup>* empty_registry reg"
    and "ExperienceRef_Validate ref = None" and "limit \<le> 500"
  shows "\<exists>ts. ListExperienceTransitions reg ref limit = Inr ts \<and>
    ts = take (query_limit limit) (map tr_Value (transitions_of reg ref)) \<and>
    sorted_wrt (\<lambda>t u. wall_ns (lt_OccurredAt t) < wall_ns (lt_OccurredAt u)) ts"
proof -
  have c: "consistent reg" by (rule registry.inv_reachable [OF assms(1)])
  have scan: "\<forall>t \<in> set (transitions_of reg ref). scan_transition t = Inr (tr_Value t)"
    using scan_logged [OF c] by (simp add: transitions_of_def)
  have "sorted_wrt (<) (map tr_OccurredAt (transitions_of reg ref))" by (rule log_times [OF c])
  moreover have "map tr_OccurredAt (transitions_of reg ref) =
      map (\<lambda>t. wall_ns (lt_OccurredAt (tr_Value t))) (transitions_of reg ref)"
    by (intro map_cong) (auto simp: transitions_of_def intro: logged_fields(8) [OF c])
  ultimately have "sorted_wrt (\<lambda>t u. wall_ns (lt_OccurredAt t) < wall_ns (lt_OccurredAt u))
      (map tr_Value (transitions_of reg ref))"
    by (simp add: sorted_wrt_map)
  then have "sorted_wrt (\<lambda>t u. wall_ns (lt_OccurredAt t) < wall_ns (lt_OccurredAt u))
      (take (query_limit limit) (map tr_Value (transitions_of reg ref)))"
    by (rule sorted_wrt_take)
  moreover have "ListExperienceTransitions reg ref limit =
      Inr (take (query_limit limit) (map tr_Value (transitions_of reg ref)))"
    using assms(2,3) by (simp add: ListExperienceTransitions_def bounded_limit transitions_sorted [OF c]
        scan_rows_take [OF scan] take_map)
  ultimately show ?thesis by blast
qed

theorem transition_list_is_log_witness:
  "ListExperienceTransitions registry1 ref0 10 = Inr [activation0]"
proof -
  have "transitions_of registry1 ref0 = [transition_row_of activation0 ''{}'']"
    by (simp add: registry1_def transitions_of_appended activation0_valid)
  with transition_list_is_log [OF registry1_reachable ref0_valid, of 10] show ?thesis
    by (simp add: query_limit_def transition_row_of_def)
qed

end
