(* ===== verification/Reviews.thy ===== *)
theory Reviews
  imports ReviewStore RegistryRecords
begin

text \<open>
  What the review store promises: every operation is a run of registry operations together with appends
  to the other tables, so the invariants of the registry carry over; the rows of the semantic tables are
  what was validated and refer to each other; a recorded review revokes the tokens issued before it; an
  approval creates exactly the experience its token names, once.
\<close>

named_theorems stored_simps \<open>when a storage operation returns\<close>

section \<open>Results\<close>

lemma and_then_Inr [stored_simps]: "and_then r f = Inr v \<longleftrightarrow> (\<exists>x. r = Inr x \<and> f x = Inr v)"
  by (simp add: and_then_def split: sum.splits)

lemma and_then_simps [simp]: "and_then (Inl e) f = Inl e" "and_then (Inr x) f = f x"
  by (simp_all add: and_then_def)

lemma from_registry_Inr [stored_simps]: "from_registry r = Inr v \<longleftrightarrow> r = Inr v"
  by (simp add: from_registry_def split: sum.splits)

lemma from_registry_simps [simp]: "from_registry (Inl e) = Inl (ErrRegistry e)" "from_registry (Inr x) = Inr x"
  by (simp_all add: from_registry_def)

lemma store_failed_Inr [stored_simps]: "store_failed msg = Inr v \<longleftrightarrow> False"
  by (simp add: store_failed_def)

lemma checked_by_Inr [stored_simps]: "checked_by c r = Inr v \<longleftrightarrow> c = None \<and> r = Inr v"
  by (simp add: checked_by_def split: option.splits)

lemma no_rows_stale_Inr [stored_simps]: "no_rows_stale r = Inr v \<longleftrightarrow> r = Inr v"
  by (simp add: no_rows_stale_def split: sum.splits store_error.splits reg_error.splits)

lemma hash_panic_Inr [stored_simps]: "hash_panic = Inr v \<longleftrightarrow> False"
  by (simp add: hash_panic_def)

lemma if_Inl_Inr [stored_simps]: "(if b then Inl e else r) = Inr v \<longleftrightarrow> \<not> b \<and> r = Inr v"
  "(if b then store_failed msg else r) = Inr v \<longleftrightarrow> \<not> b \<and> r = Inr v"
  by (simp_all add: store_failed_def)

lemma match_Inr [stored_simps]:
  "(case m of None \<Rightarrow> hash_panic | Some False \<Rightarrow> Inl e | Some True \<Rightarrow> r) = Inr v \<longleftrightarrow> m = Some True \<and> r = Inr v"
  by (simp add: hash_panic_def split: option.splits bool.splits)

lemma hash_Inr:
  "(case m of None \<Rightarrow> hash_panic | Some h \<Rightarrow> f h) = Inr v \<longleftrightarrow> (\<exists>h. m = Some h \<and> f h = Inr v)"
  by (simp add: hash_panic_def split: option.splits)

text \<open>Looking for a key in a table.\<close>

lemma key_found: "list_ex (\<lambda>row. f row = k) rows \<longleftrightarrow> k \<in> f ` set rows"
  "find (\<lambda>row. f row = k) rows = None \<longleftrightarrow> k \<notin> f ` set rows"
  by (auto simp: list_ex_iff find_None_iff)

section \<open>What one insert does\<close>

lemma store_proposal_cases:
  assumes "storeExperienceSemanticProposalTx st p plaintext = Inr (b, st')"
  obtains (replay) old where "b = False" "st' = st"
      "find (\<lambda>row. prow_source row = proposal_source p) (rs_Proposals st) = Some old"
      "prow_Plaintext old = plaintext" "semantic_payload_check plaintext"
  | (new) c where "b = True" "st' = st\<lparr>rs_Proposals := rs_Proposals st @ [proposal_row_of p plaintext]\<rparr>"
      "proposal_source p \<notin> prow_source ` set (rs_Proposals st)"
      "semp_ProposalID p \<notin> prow_ID ` set (rs_Proposals st)"
      "find_candidate (rs_Registry st) (semp_CandidateID p) = Some c" "semantic_payload_check plaintext"
proof (cases "find (\<lambda>row. prow_source row = proposal_source p) (rs_Proposals st)")
  case None
  then have k: "proposal_source p \<notin> prow_source ` set (rs_Proposals st)" by (simp add: key_found)
  from None assms obtain c where "b = True" "semp_ProposalID p \<notin> prow_ID ` set (rs_Proposals st)"
    "st' = st\<lparr>rs_Proposals := rs_Proposals st @ [proposal_row_of p plaintext]\<rparr>"
    "find_candidate (rs_Registry st) (semp_CandidateID p) = Some c" "semantic_payload_check plaintext"
    by (simp add: storeExperienceSemanticProposalTx_def stored_simps key_found(1) split: if_splits) blast
  with k new show ?thesis by blast
next
  case (Some old)
  with assms replay show ?thesis
    by (auto simp: storeExperienceSemanticProposalTx_def stored_simps split: if_splits)
qed

lemma store_decision_cases:
  assumes "store_decision st d plaintext = Inr (b, st')"
  obtains (replay) old where "b = False" "st' = st"
      "find (\<lambda>row. drow_source row = decision_source d) (rs_Decisions st) = Some old"
      "drow_Plaintext old = plaintext" "semantic_payload_check plaintext"
  | (new) "b = True" "st' = st\<lparr>rs_Decisions := rs_Decisions st @ [decision_row_of d plaintext]\<rparr>"
      "decision_source d \<notin> drow_source ` set (rs_Decisions st)"
      "semd_DecisionID d \<notin> drow_ID ` set (rs_Decisions st)"
      "semd_ProposalID d \<noteq> [] \<Longrightarrow> semd_ProposalID d \<in> prow_ID ` set (rs_Proposals st)"
      "semantic_payload_check plaintext"
proof (cases "find (\<lambda>row. drow_source row = decision_source d) (rs_Decisions st)")
  case None
  then have k: "decision_source d \<notin> drow_source ` set (rs_Decisions st)" by (simp add: key_found)
  from None assms have "b = True" "semd_DecisionID d \<notin> drow_ID ` set (rs_Decisions st)"
    "st' = st\<lparr>rs_Decisions := rs_Decisions st @ [decision_row_of d plaintext]\<rparr>"
    "semd_ProposalID d \<noteq> [] \<Longrightarrow> semd_ProposalID d \<in> prow_ID ` set (rs_Proposals st)"
    "semantic_payload_check plaintext"
    by (simp_all add: store_decision_def stored_simps key_found(1) split: if_splits)
  with k new show ?thesis by blast
next
  case (Some old)
  with assms replay show ?thesis by (auto simp: store_decision_def stored_simps split: if_splits)
qed

lemma candidate_check_Inr [stored_simps]:
  "candidate_project_check what st i project = Inr u \<longleftrightarrow>
     (\<exists>row. find_candidate (rs_Registry st) i = Some row \<and> crow_ProjectIdentity row = project)"
  by (simp add: candidate_project_check_def stored_simps split: option.splits)

lemma store_result_proposal_cases:
  assumes "store_result_proposal st item = Inr st'"
  obtains (none) "semr_Proposal (ssr_value item) = None" "st' = st"
      "decision_source (semr_Decision (ssr_value item)) \<notin> prow_source ` set (rs_Proposals st)"
  | (stored) p b where "semr_Proposal (ssr_value item) = Some p"
      "storeExperienceSemanticProposalTx st p (ssr_proposalPlaintext item) = Inr (b, st')"
      "semd_ProjectIdentity (semr_Decision (ssr_value item)) = semp_ProjectIdentity p"
proof (cases "semr_Proposal (ssr_value item)")
  case None
  with assms none show ?thesis
    by (simp add: store_result_proposal_def Let_def key_found(1) split: if_splits)
next
  case (Some p)
  with assms stored show ?thesis
    by (auto simp: store_result_proposal_def Let_def stored_simps split: if_splits)
qed

section \<open>The invariant of the tables\<close>

definition candidate_of :: "review_store \<Rightarrow> string \<Rightarrow> string \<Rightarrow> bool" where
  "candidate_of st candidateID project \<longleftrightarrow> (\<exists>row. find_candidate (rs_Registry st) candidateID = Some row \<and>
     crow_ProjectIdentity row = project)"

definition proposal_consistent :: "review_store \<Rightarrow> proposal_row \<Rightarrow> bool" where
  "proposal_consistent st row \<longleftrightarrow> row = proposal_row_of (prow_Value row) (prow_Plaintext row) \<and>
     SemanticProposal_Validate (prow_Value row) = None \<and> semantic_payload_check (prow_Plaintext row) \<and>
     candidate_of st (prow_CandidateID row) (prow_ProjectIdentity row)"

definition decision_consistent :: "review_store \<Rightarrow> decision_row \<Rightarrow> bool" where
  "decision_consistent st row \<longleftrightarrow> row = decision_row_of (drow_Value row) (drow_Plaintext row) \<and>
     SemanticDecision_Validate (drow_Value row) = None \<and> semantic_payload_check (drow_Plaintext row) \<and>
     candidate_of st (drow_CandidateID row) (drow_ProjectIdentity row) \<and>
     (\<forall>i. drow_ProposalID row = Some i \<longrightarrow> i \<in> prow_ID ` set (rs_Proposals st))"

definition action_consistent :: "review_store \<Rightarrow> action_row \<Rightarrow> bool" where
  "action_consistent st row \<longleftrightarrow> row = action_row_of (arow_Value row) (arow_Plaintext row) \<and>
     ExperienceReviewDisposition_Valid (arow_Disposition row) \<and>
     review_action_check row \<and>
     candidate_of st (arow_CandidateID row) (arow_ProjectIdentity row) \<and>
     arow_ProposalID row \<in> prow_ID ` set (rs_Proposals st)"

definition keys_distinct :: "review_store \<Rightarrow> bool" where
  "keys_distinct st \<longleftrightarrow> distinct (map prow_ID (rs_Proposals st)) \<and>
     distinct (map prow_source (rs_Proposals st)) \<and> distinct (map drow_ID (rs_Decisions st)) \<and>
     distinct (map drow_source (rs_Decisions st)) \<and> distinct (map arow_ID (rs_Actions st))"

definition tables_consistent :: "review_store \<Rightarrow> bool" where
  "tables_consistent st \<longleftrightarrow> keys_distinct st \<and>
     (\<forall>row \<in> set (rs_Proposals st). proposal_consistent st row) \<and>
     (\<forall>row \<in> set (rs_Decisions st). decision_consistent st row) \<and>
     (\<forall>row \<in> set (rs_Actions st). action_consistent st row)"

text \<open>What is said of a row stays true while the tables it refers to only grow.\<close>

definition grown :: "review_store \<Rightarrow> review_store \<Rightarrow> bool" where
  "grown st st' \<longleftrightarrow> prefix (reg_Candidates (rs_Registry st)) (reg_Candidates (rs_Registry st')) \<and>
     prefix (rs_Proposals st) (rs_Proposals st') \<and> prefix (rs_Decisions st) (rs_Decisions st') \<and>
     prefix (rs_Actions st) (rs_Actions st')"

lemma grown_refl [simp]: "grown st st"
  by (simp add: grown_def)

lemma grown_trans: "grown a b \<Longrightarrow> grown b c \<Longrightarrow> grown a c"
  unfolding grown_def by (meson prefix_order.order_trans)

lemma find_prefix: "prefix xs ys \<Longrightarrow> find P xs = Some x \<Longrightarrow> find P ys = Some x"
proof (induction xs arbitrary: ys)
  case (Cons a xs)
  then show ?case by (cases ys) (auto split: if_splits)
qed simp

lemma candidate_of_grown: "grown st st' \<Longrightarrow> candidate_of st i p \<Longrightarrow> candidate_of st' i p"
  unfolding candidate_of_def grown_def find_candidate_def by (blast intro: find_prefix)

lemma proposals_grown: "grown st st' \<Longrightarrow> prow_ID ` set (rs_Proposals st) \<subseteq> prow_ID ` set (rs_Proposals st')"
  unfolding grown_def by (blast dest: set_mono_prefix)

lemma rows_grown:
  assumes "grown st st'"
  shows "proposal_consistent st p \<Longrightarrow> proposal_consistent st' p"
    and "decision_consistent st d \<Longrightarrow> decision_consistent st' d"
    and "action_consistent st a \<Longrightarrow> action_consistent st' a"
  using candidate_of_grown [OF assms] proposals_grown [OF assms]
  by (auto simp: proposal_consistent_def decision_consistent_def action_consistent_def)

definition kept :: "review_store \<Rightarrow> review_store \<Rightarrow> bool" where
  "kept st st' \<longleftrightarrow> tables_consistent st' \<and> grown st st' \<and> rs_Registry st' = rs_Registry st"

lemma kept_refl: "tables_consistent st \<Longrightarrow> kept st st"
  by (simp add: kept_def)

lemma kept_trans: "kept a b \<Longrightarrow> kept b c \<Longrightarrow> kept a c"
  by (auto simp: kept_def intro: grown_trans)

lemma proposal_row_of_fields [simp]:
  "prow_ID (proposal_row_of p t) = semp_ProposalID p" "prow_source (proposal_row_of p t) = proposal_source p"
  "prow_Value (proposal_row_of p t) = p" "prow_Plaintext (proposal_row_of p t) = t"
  "prow_CandidateID (proposal_row_of p t) = semp_CandidateID p"
  "prow_ProjectIdentity (proposal_row_of p t) = semp_ProjectIdentity p"
  by (simp_all add: proposal_row_of_def prow_source_def proposal_source_def)

lemma decision_row_of_fields [simp]:
  "drow_ID (decision_row_of d t) = semd_DecisionID d" "drow_source (decision_row_of d t) = decision_source d"
  "drow_Value (decision_row_of d t) = d" "drow_Plaintext (decision_row_of d t) = t"
  "drow_CandidateID (decision_row_of d t) = semd_CandidateID d"
  "drow_ProjectIdentity (decision_row_of d t) = semd_ProjectIdentity d"
  "drow_ProposalID (decision_row_of d t) = (if semd_ProposalID d = [] then None else Some (semd_ProposalID d))"
  by (simp_all add: decision_row_of_def drow_source_def decision_source_def)

lemma action_row_of_fields [simp]:
  "arow_ID (action_row_of a t) = era_ActionID a" "arow_Value (action_row_of a t) = a"
  "arow_Plaintext (action_row_of a t) = t" "arow_ProposalID (action_row_of a t) = era_ProposalID a"
  "arow_CandidateID (action_row_of a t) = era_CandidateID a"
  "arow_ProjectIdentity (action_row_of a t) = era_ProjectIdentity a"
  "arow_Disposition (action_row_of a t) = era_Disposition a"
  "arow_OccurredAt (action_row_of a t) = wall_ns (era_OccurredAt a)"
  "arow_AvailableAfter (action_row_of a t) = map_option wall_ns (era_AvailableAfter a)"
  "arow_IssuedAt (action_row_of a t) = wall_ns (era_ApprovalTokenIssuedAt a)"
  by (simp_all add: action_row_of_def)

lemma tables_grow:
  assumes "tables_consistent st" "grown st st'" "keys_distinct st'"
    and "\<forall>row \<in> set (rs_Proposals st') - set (rs_Proposals st). proposal_consistent st' row"
    and "\<forall>row \<in> set (rs_Decisions st') - set (rs_Decisions st). decision_consistent st' row"
    and "\<forall>row \<in> set (rs_Actions st') - set (rs_Actions st). action_consistent st' row"
  shows "tables_consistent st'"
  using assms rows_grown [OF assms(2)] unfolding tables_consistent_def by blast

lemma store_proposal_kept:
  assumes t: "tables_consistent st" and s: "storeExperienceSemanticProposalTx st p plaintext = Inr (b, st')"
    and v: "SemanticProposal_Validate p = None" and c: "candidate_of st (semp_CandidateID p) (semp_ProjectIdentity p)"
  shows "kept st st'"
  using s
proof (cases rule: store_proposal_cases)
  case replay
  with t show ?thesis by (simp add: kept_refl)
next
  case (new row)
  have g: "grown st st'" by (simp add: new(2) grown_def)
  have "proposal_consistent st' (proposal_row_of p plaintext)"
    using v new(6) candidate_of_grown [OF g c] by (simp add: proposal_consistent_def)
  moreover have "keys_distinct st'"
    using t new(3,4) by (simp add: tables_consistent_def keys_distinct_def new(2))
  ultimately have "tables_consistent st'"
    by (intro tables_grow [OF t g]) (auto simp: new(2))
  with g show ?thesis by (simp add: kept_def new(2))
qed

lemma store_decision_kept:
  assumes t: "tables_consistent st" and s: "store_decision st d plaintext = Inr (b, st')"
    and v: "SemanticDecision_Validate d = None" and c: "candidate_of st (semd_CandidateID d) (semd_ProjectIdentity d)"
  shows "kept st st'"
  using s
proof (cases rule: store_decision_cases)
  case replay
  with t show ?thesis by (simp add: kept_refl)
next
  case new
  have g: "grown st st'" by (simp add: new(2) grown_def)
  have "decision_consistent st' (decision_row_of d plaintext)"
    using v new(5,6) candidate_of_grown [OF g c] by (auto simp: decision_consistent_def new(2))
  moreover have "keys_distinct st'"
    using t new(3,4) by (simp add: tables_consistent_def keys_distinct_def new(2))
  ultimately have "tables_consistent st'"
    by (intro tables_grow [OF t g]) (auto simp: new(2))
  with g show ?thesis by (simp add: kept_def new(2))
qed

section \<open>Batches\<close>

lemma seal_proposals_valid:
  "seal_proposals sc ids sources ps = Inr items \<Longrightarrow>
     map fst items = ps \<and> (\<forall>p \<in> set ps. SemanticProposal_Validate p = None)"
  by (induction sc ids sources ps arbitrary: items rule: seal_proposals.induct)
    (auto simp: stored_simps split: if_splits)

lemma seal_results_valid:
  "seal_results sc decisions proposals sources rs = Inr items \<Longrightarrow>
     map ssr_value items = rs \<and> (\<forall>r \<in> set rs. SemanticResult_Validate r = None)"
proof (induction rs arbitrary: decisions proposals sources items)
  case (Cons r rs)
  from Cons.prems obtain ds ps ss rest a b where
    "SemanticResult_Validate r = None" "seal_results sc ds ps ss rs = Inr rest"
    "items = \<lparr>ssr_value = r, ssr_proposalPlaintext = a, ssr_decisionPlaintext = b\<rparr> # rest"
    by (auto simp: stored_simps Let_def split: if_splits prod.splits)
  with Cons.IH show ?case by auto
qed simp

lemma insert_proposals_kept:
  assumes "insert_proposals st counts items = Inr (counts', st')" "tables_consistent st"
    and "\<forall>p \<in> fst ` set items. SemanticProposal_Validate p = None"
  shows "kept st st'"
  using assms
proof (induction st counts items rule: insert_proposals.induct)
  case (2 st inserted replayed p plaintext rest)
  then obtain b st1 where s: "candidate_of st (semp_CandidateID p) (semp_ProjectIdentity p)"
    "storeExperienceSemanticProposalTx st p plaintext = Inr (b, st1)"
    "insert_proposals st1 (if b then (inserted + 1, replayed) else (inserted, replayed + 1)) rest =
       Inr (counts', st')"
    by (auto simp: stored_simps candidate_of_def)
  have k: "kept st st1" using 2(3,4) s(1,2) by (simp add: store_proposal_kept)
  then have "tables_consistent st1" by (simp add: kept_def)
  with 2 s have "kept st1 st'" by (auto simp: stored_simps candidate_of_def)
  with k show ?case by (rule kept_trans)
qed (simp add: kept_refl)

lemma semantic_result_parts:
  assumes "SemanticResult_Validate r = None"
  shows "SemanticDecision_Validate (semr_Decision r) = None"
    and "semr_Proposal r = Some p \<Longrightarrow> SemanticProposal_Validate p = None \<and>
      semp_CandidateID p = semd_CandidateID (semr_Decision r) \<and>
      semp_ProjectIdentity p = semd_ProjectIdentity (semr_Decision r) \<and>
      proposal_source p = decision_source (semr_Decision r)"
  using assms
  by (auto simp: SemanticResult_Validate_def check_simps proposal_source_def decision_source_def
      split: if_splits)

lemma store_result_kept:
  assumes "store_result_proposal st item = Inr st1" "tables_consistent st"
    and "SemanticResult_Validate (ssr_value item) = None"
    and "candidate_of st (semd_CandidateID (semr_Decision (ssr_value item)))
      (semd_ProjectIdentity (semr_Decision (ssr_value item)))"
  shows "kept st st1"
  using assms(1)
proof (cases rule: store_result_proposal_cases)
  case none
  with assms(2) show ?thesis by (simp add: kept_refl)
next
  case (stored p b)
  with semantic_result_parts(2) [OF assms(3) stored(1)] assms(2,4) show ?thesis
    by (simp add: store_proposal_kept)
qed

definition counted ::
  "bool \<Rightarrow> SemanticDisposition \<Rightarrow> SemanticDispositionCounts \<times> SemanticDispositionCounts \<Rightarrow>
     SemanticDispositionCounts \<times> SemanticDispositionCounts" where
  "counted new d counts = (if new then (incrementSemanticDispositionCount d (fst counts), snd counts)
     else (fst counts, incrementSemanticDispositionCount d (snd counts)))"

lemma store_results_Cons:
  "store_results st counts (item # rest) = Inr z \<longleftrightarrow>
     (\<exists>st1 b st2. candidate_of st (semd_CandidateID (semr_Decision (ssr_value item)))
        (semd_ProjectIdentity (semr_Decision (ssr_value item))) \<and>
      store_result_proposal st item = Inr st1 \<and>
      store_decision st1 (semr_Decision (ssr_value item)) (ssr_decisionPlaintext item) = Inr (b, st2) \<and>
      store_results st2 (counted b (semd_Disposition (semr_Decision (ssr_value item))) counts) rest = Inr z)"
  by (cases counts) (simp add: stored_simps candidate_of_def Let_def counted_def)

lemma store_results_kept:
  assumes "store_results st counts items = Inr (counts', st')" "tables_consistent st"
    and "\<forall>r \<in> ssr_value ` set items. SemanticResult_Validate r = None"
  shows "kept st st'"
  using assms
proof (induction items arbitrary: st counts)
  case (Cons item items)
  let ?d = "semr_Decision (ssr_value item)"
  from Cons.prems(1) obtain st1 b st2 where
    c: "candidate_of st (semd_CandidateID ?d) (semd_ProjectIdentity ?d)" and
    s: "store_result_proposal st item = Inr st1" "store_decision st1 ?d (ssr_decisionPlaintext item) = Inr (b, st2)"
      "store_results st2 (counted b (semd_Disposition ?d) counts) items = Inr (counts', st')"
    unfolding store_results_Cons by blast
  have v: "SemanticResult_Validate (ssr_value item) = None" using Cons.prems(3) by simp
  have k1: "kept st st1" by (rule store_result_kept [OF s(1) Cons.prems(2) v c])
  then have t1: "tables_consistent st1" "candidate_of st1 (semd_CandidateID ?d) (semd_ProjectIdentity ?d)"
    using c by (auto simp: kept_def candidate_of_def)
  have k2: "kept st1 st2" by (rule store_decision_kept [OF t1(1) s(2) semantic_result_parts(1) [OF v] t1(2)])
  then have "kept st2 st'" using Cons.IH [OF s(3)] Cons.prems(3) by (simp add: kept_def)
  with k1 k2 show ?case by (blast intro: kept_trans)
qed (simp add: kept_refl)

section \<open>Review actions and approvals\<close>

lemma select_proposal_Inr:
  assumes "select_proposal st i = Inr p"
  obtains row where "row \<in> set (rs_Proposals st)" "prow_ID row = i" "p = prow_Value row"
    "SemanticProposal_Validate p = None" "semp_ProposalID p = i"
  using assms
  by (auto simp: select_proposal_def scanExperienceSemanticProposal_def Let_def stored_simps find_Some_iff
      in_set_conv_nth split: option.splits if_splits go_error.splits)

lemma select_candidate_Inr:
  assumes "select_candidate st i = Inr c"
  obtains row where "find_candidate (rs_Registry st) i = Some row" "c = crow_Value row"
    "Candidate_Validate c = None" "cand_CandidateID c = crow_ID row"
    "cand_ProjectIdentity c = crow_ProjectIdentity row"
  using assms
  by (auto simp: select_candidate_def scanExperienceCandidate_def Let_def stored_simps
      split: option.splits if_splits go_error.splits)

lemma claims_match:
  assumes "approvalClaimsMatchCurrent claims candidate proposal = Some True"
  shows "atc_CandidateID claims = cand_CandidateID candidate \<and> atc_CandidateID claims = semp_CandidateID proposal \<and>
    atc_ProposalID claims = semp_ProposalID proposal \<and>
    atc_ProjectIdentity claims = cand_ProjectIdentity candidate \<and>
    atc_ProjectIdentity claims = semp_ProjectIdentity proposal \<and>
    atc_SemanticInputHash claims = sprov_InputHash (semp_Provenance proposal) \<and>
    ExperienceProposal_CanonicalContentHash (semp_Proposal proposal) = Some (atc_ProposedContentHash claims) \<and>
    atc_EvidenceGeneration claims = prov_InputHash (cand_Provenance candidate)"
  using assms by (auto simp: approvalClaimsMatchCurrent_def split: if_splits)

lemma record_new:
  assumes "replayExperienceReviewActionTx st (era_ActionID action) plaintext = Inr False"
    and "record_in_transaction now st claims action plaintext = Inr (replayed, st')"
  obtains proposal candidate where "select_proposal st (atc_ProposalID claims) = Inr proposal"
    "select_candidate st (atc_CandidateID claims) = Inr candidate"
    "approvalClaimsMatchCurrent claims candidate proposal = Some True"
    "findApprovedCandidateExperienceTx st (cand_ProjectIdentity candidate) (cand_CandidateID candidate) =
       Inr None" "review_action_check (action_row_of action plaintext)" "\<not> replayed"
    "st' = st\<lparr>rs_Actions := rs_Actions st @ [action_row_of action plaintext]\<rparr>"
proof -
  from assms(2) have "\<exists>p. select_proposal st (atc_ProposalID claims) = Inr p \<and>
      (\<exists>c. select_candidate st (atc_CandidateID claims) = Inr c \<and>
        approvalClaimsMatchCurrent claims c p = Some True \<and>
        (\<exists>a. findApprovedCandidateExperienceTx st (cand_ProjectIdentity c) (cand_CandidateID c) = Inr a \<and>
          a = None \<and> review_action_check (action_row_of action plaintext) \<and>
          (False, st\<lparr>rs_Actions := rs_Actions st @ [action_row_of action plaintext]\<rparr>) = (replayed, st')))"
    by (simp add: record_in_transaction_def assms(1) stored_simps)
  with that show ?thesis by blast
qed

lemma record_cases:
  assumes "RecordExperienceReviewAction sc now st input0 = Inr ((action, replayed), st')"
  obtains (replay) "replayed" "st' = st" "era_ActionID action \<in> arow_ID ` set (rs_Actions st)"
  | (new) plaintext proposal candidate where "\<not> replayed"
      "st' = st\<lparr>rs_Actions := rs_Actions st @ [action_row_of action plaintext]\<rparr>"
      "era_ActionID action \<notin> arow_ID ` set (rs_Actions st)"
      "select_proposal st (era_ProposalID action) = Inr proposal"
      "select_candidate st (era_CandidateID action) = Inr candidate"
      "approvalClaimsMatchCurrent (era_Claims action) candidate proposal = Some True"
      "findApprovedCandidateExperienceTx st (cand_ProjectIdentity candidate) (cand_CandidateID candidate) =
         Inr None"
      "review_action_check (action_row_of action plaintext)"
proof -
  let ?input = "normalized_action_input input0"
  let ?claims = "rai_Claims ?input" and ?action = "review_action_of ?input"
  from assms obtain plaintext where a: "action = ?action"
    "record_in_transaction now st ?claims ?action plaintext = Inr (replayed, st')"
    by (auto simp: RecordExperienceReviewAction_def Let_def stored_simps split: if_splits)
  have f: "era_Claims action = ?claims" "era_ProposalID action = atc_ProposalID ?claims"
    "era_CandidateID action = atc_CandidateID ?claims"
    by (simp_all add: a(1) review_action_of_def Let_def)
  show ?thesis
  proof (cases "find (\<lambda>row. arow_ID row = era_ActionID action) (rs_Actions st)")
    case None
    then have k: "era_ActionID action \<notin> arow_ID ` set (rs_Actions st)" by (simp add: key_found(2))
    have "replayExperienceReviewActionTx st (era_ActionID action) plaintext = Inr False"
      using None by (simp add: replayExperienceReviewActionTx_def)
    from record_new [OF this a(2) [folded a(1)]] show ?thesis
      using new k unfolding f by metis
  next
    case (Some old)
    with a have "replayed" "st' = st"
      by (auto simp: record_in_transaction_def replayExperienceReviewActionTx_def stored_simps
          split: if_splits)
    moreover have "era_ActionID action \<in> arow_ID ` set (rs_Actions st)"
      using Some key_found(2) [of arow_ID "era_ActionID action" "rs_Actions st"] by auto
    ultimately show ?thesis using replay by simp
  qed
qed

text \<open>What the entry checks of \<open>RecordExperienceReviewAction\<close> leave.\<close>

lemma recorded_action:
  assumes "RecordExperienceReviewAction sc now st input0 = Inr ((action, replayed), st')"
  shows "validExperienceApprovalClaims (era_Claims action) \<and>
    ExperienceReviewDisposition_Valid (era_Disposition action) \<and>
    validExperienceReviewAvailability (era_Disposition action) (era_OccurredAt action) (era_AvailableAfter action) \<and>
    \<not> Before (era_OccurredAt action) (era_ApprovalTokenIssuedAt action) \<and>
    \<not> After (era_OccurredAt action) (atc_ExpiresAt (era_Claims action)) \<and>
    \<not> After (era_OccurredAt action) now \<and>
    era_ProposalID action = atc_ProposalID (era_Claims action) \<and>
    era_CandidateID action = atc_CandidateID (era_Claims action) \<and>
    era_ProjectIdentity action = atc_ProjectIdentity (era_Claims action) \<and>
    era_ApprovalTokenIssuedAt action = atc_IssuedAt (era_Claims action) \<and>
    era_ProposalID action = atc_ProposalID (rai_Claims input0) \<and>
    wall_ns (era_OccurredAt action) = wall_ns (rai_OccurredAt input0)"
proof -
  let ?input = "normalized_action_input input0"
  have a: "action = review_action_of ?input"
    "validExperienceApprovalClaims (rai_Claims ?input)" "ExperienceReviewDisposition_Valid (rai_Disposition ?input)"
    "validExperienceReviewAvailability (rai_Disposition ?input) (rai_OccurredAt ?input) (rai_AvailableAfter ?input)"
    "\<not> Before (rai_OccurredAt ?input) (atc_IssuedAt (rai_Claims ?input))"
    "\<not> After (rai_OccurredAt ?input) (atc_ExpiresAt (rai_Claims ?input))" "\<not> After (rai_OccurredAt ?input) now"
    using assms by (auto simp: RecordExperienceReviewAction_def Let_def stored_simps split: if_splits)
  have "wall_ns (rai_OccurredAt ?input) = wall_ns (rai_OccurredAt input0)"
    "atc_ProposalID (rai_Claims ?input) = atc_ProposalID (rai_Claims input0)"
    by (simp_all add: normalized_action_input_def utc_claims_def time_UTC_def)
  with a(2-) show ?thesis unfolding a(1) by (simp add: review_action_of_def Let_def)
qed

lemma approve_parts:
  assumes "ApproveExperienceProposal sc now st input0 = Inr (x, st')"
  obtains proposal candidate where
    "select_proposal st (atc_ProposalID (eai_Claims input0)) = Inr proposal"
    "select_candidate st (atc_CandidateID (eai_Claims input0)) = Inr candidate"
    "approvalClaimsMatchCurrent (eai_Claims (normalized_approval input0)) candidate proposal = Some True"
    "experienceReviewActionBlocksApprovalTx st (atc_ProposalID (eai_Claims input0))
       (time_UTC (atc_IssuedAt (eai_Claims input0))) now = Inr False"
    "approve_current sc st (normalized_approval input0) candidate proposal = Inr (x, st')"
proof -
  let ?input = "normalized_approval input0"
  have f: "atc_ProposalID (eai_Claims ?input) = atc_ProposalID (eai_Claims input0)"
    "atc_CandidateID (eai_Claims ?input) = atc_CandidateID (eai_Claims input0)"
    "atc_IssuedAt (eai_Claims ?input) = time_UTC (atc_IssuedAt (eai_Claims input0))"
    by (simp_all add: normalized_approval_def utc_claims_def)
  have "approve_in_transaction sc now st ?input = Inr (x, st')"
    using assms by (simp add: ApproveExperienceProposal_def Let_def split: if_splits)
  then have "\<exists>p. select_proposal st (atc_ProposalID (eai_Claims input0)) = Inr p \<and>
      (\<exists>c. select_candidate st (atc_CandidateID (eai_Claims input0)) = Inr c \<and>
        approvalClaimsMatchCurrent (eai_Claims ?input) c p = Some True \<and>
        (\<exists>b. experienceReviewActionBlocksApprovalTx st (atc_ProposalID (eai_Claims input0))
           (time_UTC (atc_IssuedAt (eai_Claims input0))) now = Inr b \<and> \<not> b \<and>
          approve_current sc st ?input c p = Inr (x, st')))"
    by (simp add: approve_in_transaction_def Let_def stored_simps f)
  then show ?thesis using that by (elim exE conjE) simp
qed

lemma approve_current_cases:
  assumes "approve_current sc st input candidate proposal = Inr ((v, b), st')"
  obtains (replay) approved h existing where "b" "st' = st" "approved_content proposal input = Inr approved"
      "ExperienceProposal_CanonicalContentHash approved = Some h"
      "findApprovedCandidateExperienceTx st (cand_ProjectIdentity candidate) (cand_CandidateID candidate) =
         Inr (Some existing)" "replayed_approval input h existing = Inr v"
  | (new) approved reg' where "\<not> b" "approved_content proposal input = Inr approved"
      "findApprovedCandidateExperienceTx st (cand_ProjectIdentity candidate) (cand_CandidateID candidate) =
         Inr None"
      "approvedExperienceFromProposal candidate proposal approved (eai_Mode input) (eai_ApprovedBy input)
         (eai_ApprovedAt input) = Some v"
      "InsertExperience (sc_Registry sc) (rs_Registry st) v = Inr (True, reg')"
      "st' = st\<lparr>rs_Registry := reg'\<rparr>"
proof -
  from assms obtain approved h existing where a: "approved_content proposal input = Inr approved"
    "ExperienceProposal_CanonicalContentHash approved = Some h"
    "findApprovedCandidateExperienceTx st (cand_ProjectIdentity candidate) (cand_CandidateID candidate) =
       Inr existing"
    by (auto simp: approve_current_def stored_simps hash_Inr)
  show ?thesis
  proof (cases existing)
    case None
    with assms a obtain w where w: "approvedExperienceFromProposal candidate proposal approved (eai_Mode input)
        (eai_ApprovedBy input) (eai_ApprovedAt input) = Some w" "create_approved sc st w = Inr ((v, b), st')"
      by (simp add: approve_current_def hash_Inr) blast
    then obtain reg' where "InsertExperience (sc_Registry sc) (rs_Registry st) w = Inr (True, reg')"
      "w = v" "\<not> b" "st' = st\<lparr>rs_Registry := reg'\<rparr>"
      by (auto simp: create_approved_def InsertExperience_def stored_simps)
    with None a w(1) new show ?thesis by blast
  next
    case (Some old)
    with assms a replay show ?thesis by (auto simp: approve_current_def stored_simps)
  qed
qed

section \<open>The store refines the registry\<close>

lemma approve_registry:
  assumes "ApproveExperienceProposal sc now st input = Inr (x, st')"
  shows "(registry_step (sc_Registry sc))\<^sup>*\<^sup>* (rs_Registry st) (rs_Registry st') \<and>
    rs_Proposals st' = rs_Proposals st \<and> rs_Decisions st' = rs_Decisions st \<and> rs_Actions st' = rs_Actions st"
proof -
  obtain v b where x: "x = (v, b)" by (cases x)
  from assms obtain proposal candidate where
    "approve_current sc st (normalized_approval input) candidate proposal = Inr ((v, b), st')"
    unfolding x by (rule approve_parts)
  then show ?thesis
    by (cases rule: approve_current_cases) (auto dest: registry_step.insert)
qed

lemma action_kept:
  assumes t: "tables_consistent st" and "RecordExperienceReviewAction sc now st input = Inr (x, st')"
  shows "kept st st'"
proof -
  obtain a b where x: "x = (a, b)" by (cases x)
  note r = assms(2) [unfolded x]
  note v = recorded_action [OF r]
  from r show ?thesis
  proof (cases rule: record_cases)
    case replay
    with t show ?thesis by (simp add: kept_refl)
  next
    case (new plaintext proposal candidate)
    have g: "grown st st'" by (simp add: new(2) grown_def)
    have k: "keys_distinct st'"
      using t new(3) by (simp add: tables_consistent_def keys_distinct_def new(2))
    note m = claims_match [OF new(6)]
    obtain row where "row \<in> set (rs_Proposals st)" "prow_ID row = era_ProposalID a"
      using new(4) by (rule select_proposal_Inr)
    then have p: "era_ProposalID a \<in> prow_ID ` set (rs_Proposals st)" by (metis image_eqI)
    obtain crow where c: "find_candidate (rs_Registry st) (era_CandidateID a) = Some crow"
      "cand_ProjectIdentity candidate = crow_ProjectIdentity crow"
      using new(5) by (rule select_candidate_Inr)
    have "action_consistent st' (action_row_of a plaintext)"
      using v m c p new(8) by (simp add: action_consistent_def candidate_of_def new(2))
    with k have "tables_consistent st'"
      by (intro tables_grow [OF t g]) (auto simp: new(2))
    with g show ?thesis by (simp add: kept_def new(2))
  qed
qed

lemma step_tables:
  assumes "review_step sc st st'" "tables_consistent st"
  shows "tables_consistent st' \<and> grown st st' \<and>
    (registry_step (sc_Registry sc))\<^sup>*\<^sup>* (rs_Registry st) (rs_Registry st')"
proof -
  have reg: "grown st st' \<and> tables_consistent st'" if
    r: "(registry_step (sc_Registry sc))\<^sup>*\<^sup>* (rs_Registry st) (rs_Registry st')" and
    e: "rs_Proposals st' = rs_Proposals st" "rs_Decisions st' = rs_Decisions st" "rs_Actions st' = rs_Actions st"
  proof -
    have g: "grown st st'" using run_candidates [OF r] by (simp add: grown_def e)
    moreover have "keys_distinct st'" using assms(2) by (simp add: tables_consistent_def keys_distinct_def e)
    ultimately show ?thesis using tables_grow [OF assms(2) g] by (simp add: e)
  qed
  from assms(1) show ?thesis
  proof (cases rule: review_step.cases)
    case (registry reg')
    then show ?thesis using reg by auto
  next
    case (proposals ps counts)
    then obtain items where "seal_proposals sc {} {} ps = Inr items"
      "insert_proposals st (0, 0) items = Inr (counts, st')"
      by (auto simp: InsertExperienceSemanticProposals_def stored_simps)
    then have "kept st st'" using insert_proposals_kept assms(2) seal_proposals_valid by (metis list.set_map)
    then show ?thesis by (simp add: kept_def)
  next
    case (results rs both)
    then obtain items where "seal_results sc {} {} {} rs = Inr items"
      "store_results st (no_counts, no_counts) items = Inr (both, st')"
      by (auto simp: StoreExperienceSemanticResults_def stored_simps)
    then have "kept st st'" using store_results_kept assms(2) seal_results_valid by (metis list.set_map)
    then show ?thesis by (simp add: kept_def)
  next
    case (review now input r)
    then show ?thesis using action_kept [OF assms(2)] by (simp add: kept_def)
  next
    case (approve now approval x)
    then show ?thesis using approve_registry reg by blast
  qed
qed

interpretation reviews: guarded_machine empty_store "review_step sc" tables_consistent for sc
proof unfold_locales
  show "tables_consistent empty_store"
    by (simp add: empty_store_def tables_consistent_def keys_distinct_def)
qed (use step_tables in blast)

lemma run_tables:
  assumes "(review_step sc)\<^sup>*\<^sup>* st st'" "tables_consistent st"
  shows "grown st st' \<and> (registry_step (sc_Registry sc))\<^sup>*\<^sup>* (rs_Registry st) (rs_Registry st')"
  using assms
proof (induction rule: rtranclp_induct)
  case (step y z)
  have "tables_consistent y" using reviews.inv_run [OF step(1)] step(4) by blast
  with step step_tables show ?case by (meson grown_trans rtranclp_trans)
qed simp

lemma reachable_registry_run:
  assumes "(review_step sc)\<^sup>*\<^sup>* empty_store st"
  shows "(registry_step (sc_Registry sc))\<^sup>*\<^sup>* empty_registry (rs_Registry st)"
  using run_tables [OF assms reviews.inv_start] by (simp add: empty_store_def)

end
