(* ===== verification/ReviewSamples.thy ===== *)
theory ReviewSamples
  imports Reviews
begin

text \<open>
  A store with one candidate, a semantic proposal for it and the decision that goes with it, a token for
  the proposal, a rejection and an approval.
\<close>

definition sc0 :: store_codec where
  "sc0 = \<lparr>sc_Registry = js0, sc_Proposal = some_text, sc_Decision = some_text, sc_Action = some_text\<rparr>"

definition sprovenance1 :: SemanticProposalProvenance where
  "sprovenance1 = sprovenance0\<lparr>sprov_PromptVersion := SemanticProposalPromptVersion\<rparr>"

definition semantic1 :: SemanticProposal where
  "semantic1 =
     (let s = \<lparr>semp_SchemaVersion = SemanticProposalSchemaVersion, semp_ProposalID = [],
               semp_CandidateID = origin0, semp_ProjectIdentity = ''p'',
               semp_Proposal = proposal0 verifier_modified,
               semp_Provenance = sprovenance1, semp_Authority = AuthorityNone\<rparr>
      in s\<lparr>semp_ProposalID := the (SemanticProposal_DeterministicID s)\<rparr>)"

definition decision1 :: SemanticDecision where
  "decision1 =
     (let d = \<lparr>semd_SchemaVersion = SemanticDecisionSchemaVersion, semd_DecisionID = [],
               semd_CandidateID = origin0, semd_ProjectIdentity = ''p'',
               semd_Disposition = SemanticDispositionPropose, semd_ReasonCode = SemanticReasonReusableSupported,
               semd_Explanation = ''why'', semd_Confidence = Finite 1,
               semd_ProposalID = semp_ProposalID semantic1, semd_Provenance = sprovenance1\<rparr>
      in d\<lparr>semd_DecisionID := the (SemanticDecision_DeterministicID d)\<rparr>)"

definition result1 :: SemanticResult where
  "result1 = \<lparr>semr_Proposal = Some semantic1, semr_Decision = decision1\<rparr>"

definition store0 :: review_store where
  "store0 = empty_store\<lparr>rs_Registry := registry_with_candidate\<rparr>"

definition store1 :: review_store where
  "store1 = store0\<lparr>rs_Proposals := [proposal_row_of semantic1 ''{}''],
     rs_Decisions := [decision_row_of decision1 ''{}'']\<rparr>"

lemma prompt_version [simp]: "visible SemanticProposalPromptVersion"
  "SemanticProposalPromptVersion \<in> set SemanticProposalPromptVersions"
  "SemanticProposalPromptVersion \<noteq> []" "length SemanticProposalPromptVersion \<le> 256"
  by (simp_all add: SemanticProposalPromptVersion_def SemanticProposalPromptVersions_def visible_def byte_def)

lemma sprovenance1_valid [simp]: "SemanticProposalProvenance_Validate sprovenance1 = None"
  by (simp add: SemanticProposalProvenance_Validate_def sprovenance1_def sprovenance0_def check_simps)

lemma semantic1_fields [simp]:
  "semp_CandidateID semantic1 = origin0" "semp_ProjectIdentity semantic1 = ''p''"
  "semp_Proposal semantic1 = proposal0 verifier_modified" "semp_Provenance semantic1 = sprovenance1"
  "semp_Authority semantic1 = AuthorityNone" "semp_SchemaVersion semantic1 = SemanticProposalSchemaVersion"
  by (simp_all add: semantic1_def Let_def)

lemma semantic1_id: "is_identifier_of ''exs_'' (semp_ProposalID semantic1)"
  "SemanticProposal_DeterministicID semantic1 = Some (semp_ProposalID semantic1)"
proof -
  obtain j where j: "SemanticProposal_DeterministicID semantic1 = deterministicID ''exs_'' j"
    "semp_ProposalID semantic1 = the (deterministicID ''exs_'' j)" "json_ok j"
    by (simp add: semantic1_def Let_def SemanticProposal_DeterministicID_def)
  then show "is_identifier_of ''exs_'' (semp_ProposalID semantic1)"
    "SemanticProposal_DeterministicID semantic1 = Some (semp_ProposalID semantic1)"
    using computed_id [OF j(3), of "''exs_''"] by simp_all
qed

lemma decision1_fields [simp]:
  "semd_CandidateID decision1 = origin0" "semd_ProjectIdentity decision1 = ''p''"
  "semd_Disposition decision1 = SemanticDispositionPropose" "semd_Provenance decision1 = sprovenance1"
  "semd_ProposalID decision1 = semp_ProposalID semantic1" "semd_ReasonCode decision1 = SemanticReasonReusableSupported"
  "semd_SchemaVersion decision1 = SemanticDecisionSchemaVersion" "semd_Explanation decision1 = ''why''"
  "semd_Confidence decision1 = Finite 1"
  by (simp_all add: decision1_def Let_def)

lemma proposal_id1 [simp]: "validateIdentifier name (semp_ProposalID semantic1) = None"
  "semp_ProposalID semantic1 \<noteq> []"
  using identifier_valid [OF semantic1_id(1)] semantic1_id(1) by (auto simp: is_identifier_of_def)

lemma semantic1_valid [simp]: "SemanticProposal_Validate semantic1 = None"
  using semantic1_id(2) by (simp add: SemanticProposal_Validate_def check_simps)

lemma decision1_valid [simp]: "SemanticDecision_Validate decision1 = None"
proof -
  obtain j where j: "SemanticDecision_DeterministicID decision1 = deterministicID ''exd_'' j"
    "semd_DecisionID decision1 = the (deterministicID ''exd_'' j)" "json_ok j"
    by (simp add: decision1_def Let_def SemanticDecision_DeterministicID_def)
  show ?thesis
    using j computed_id [OF j(3), of "''exd_''"]
    by (simp add: SemanticDecision_Validate_def check_simps validateOneLine_def limit_defs ContainsAny_def)
qed

lemma result1_valid [simp]: "SemanticResult_Validate result1 = None"
  by (simp add: SemanticResult_Validate_def result1_def check_simps)

section \<open>Storing the result\<close>

lemma seal1 [simp]:
  "2 \<le> limit \<Longrightarrow> sealDomainJSON name (sc_Proposal sc0) limit p = Inr ''{}''"
  "2 \<le> limit \<Longrightarrow> sealDomainJSON name (sc_Decision sc0) limit d = Inr ''{}''"
  "2 \<le> limit \<Longrightarrow> sealDomainJSON name (sc_Action sc0) limit a = Inr ''{}''"
  "sc_Registry sc0 = js0"
  by (simp_all add: sealDomainJSON_def sc0_def some_text_def)

lemma store0_fields [simp]:
  "rs_Registry store0 = registry_with_candidate" "rs_Proposals store0 = []" "rs_Decisions store0 = []"
  "rs_Actions store0 = []" "rs_Registry store1 = registry_with_candidate"
  "rs_Proposals store1 = [proposal_row_of semantic1 ''{}'']"
  "rs_Decisions store1 = [decision_row_of decision1 ''{}'']" "rs_Actions store1 = []"
  by (simp_all add: store0_def store1_def empty_store_def)

lemma candidate_row1: "find_candidate registry_with_candidate origin0 =
    Some (candidate_row_of (candidate0 [event_ref ''e1'']) ''{}'')"
  "crow_ProjectIdentity (candidate_row_of (candidate0 [event_ref ''e1'']) ''{}'') = ''p''"
  by (simp_all add: find_candidate_def registry_with_candidate_def candidate_row_of_def origin0_def)
    (simp add: candidate0_def Let_def)

lemma check1: "candidate_project_check what st origin0 ''p'' = Inr ()"
  if "rs_Registry st = registry_with_candidate"
  using that candidate_row1 by (simp add: candidate_project_check_def)

lemma results1_stored: "StoreExperienceSemanticResults sc0 store0 [result1] =
    Inr ((\<lparr>sdc_Proposed = 1, sdc_Rejected = 0, sdc_Deferred = 0\<rparr>, no_counts), store1)"
proof -
  have seal: "seal_results sc0 {} {} {} [result1] = Inr [\<lparr>ssr_value = result1, ssr_proposalPlaintext = ''{}'',
      ssr_decisionPlaintext = ''{}''\<rparr>]"
    by (simp add: checked_by_def seal_result_proposal_def maxExperienceSemanticPayloadBytes_def Let_def)
      (simp add: result1_def maxExperienceSemanticPayloadBytes_def)
  have small: "semantic_payload_check ''{}''" by (simp add: semantic_payload_check_def sealed_length_def)
  have p: "store_result_proposal store0 \<lparr>ssr_value = result1, ssr_proposalPlaintext = ''{}'',
      ssr_decisionPlaintext = ''{}''\<rparr> = Inr (store0\<lparr>rs_Proposals := [proposal_row_of semantic1 ''{}'']\<rparr>)"
    by (simp add: store_result_proposal_def result1_def storeExperienceSemanticProposalTx_def candidate_row1 small)
  have d: "store_decision (store0\<lparr>rs_Proposals := [proposal_row_of semantic1 ''{}'']\<rparr>) decision1 ''{}'' =
      Inr (True, store1)"
    by (simp add: store_decision_def candidate_row1 small store1_def)
  have r: "semr_Decision result1 = decision1" by (simp add: result1_def)
  show ?thesis
    unfolding StoreExperienceSemanticResults_def seal
    by (simp add: Let_def p r d check1 maxExperienceSemanticProposalBatch_def)
      (simp add: no_counts_def)
qed

abbreviation reachable_store :: "review_store \<Rightarrow> bool" where
  "reachable_store st \<equiv> (review_step sc0)\<^sup>*\<^sup>* empty_store st"

lemma store0_reachable: "reachable_store store0"
proof -
  have "registry_step (sc_Registry sc0) (rs_Registry empty_store) registry_with_candidate"
    using registry_step.candidate [OF candidate0_stored] by (simp add: empty_store_def)
  from review_step.registry [OF this] show ?thesis by (simp add: store0_def r_into_rtranclp)
qed

lemma store1_reachable: "reachable_store store1"
  using store0_reachable review_step.results [OF results1_stored] by (rule rtranclp.rtrancl_into_rtrancl)

section \<open>A token, a rejection and an approval\<close>

definition token1 :: ApprovalTokenClaims where
  "token1 = \<lparr>atc_Version = ApprovalTokenVersion, atc_CandidateID = origin0,
     atc_ProposalID = semp_ProposalID semantic1, atc_ProjectIdentity = ''p'', atc_SemanticInputHash = digest0,
     atc_ProposedContentHash = content0 verifier_modified, atc_EvidenceGeneration = digest0,
     atc_IssuedAt = day 2, atc_ExpiresAt = ltc_ExpiresAt claims0\<rparr>"

definition reject1 :: ExperienceReviewActionInput where
  "reject1 = \<lparr>rai_Claims = token1, rai_Actor = ''u'', rai_Disposition = ExperienceReviewReject,
     rai_OccurredAt = day 2, rai_AvailableAfter = None\<rparr>"

definition approval1 :: ExperienceApprovalInput where
  "approval1 = \<lparr>eai_Claims = token1, eai_ApprovedBy = ''u'', eai_ApprovedAt = day 2,
     eai_Mode = ApprovalAsProposed, eai_ApprovedProposal = proposal0 verifier_modified\<rparr>"

lemma token1_fields [simp]:
  "atc_Version token1 = ApprovalTokenVersion" "atc_CandidateID token1 = origin0"
  "atc_ProposalID token1 = semp_ProposalID semantic1" "atc_ProjectIdentity token1 = ''p''"
  "atc_SemanticInputHash token1 = digest0" "atc_ProposedContentHash token1 = content0 verifier_modified"
  "atc_EvidenceGeneration token1 = digest0" "atc_IssuedAt token1 = day 2"
  "atc_ExpiresAt token1 = ltc_ExpiresAt claims0"
  by (simp_all add: token1_def)

lemma token1_valid: "validExperienceApprovalClaims token1" "utc_claims token1 = token1"
proof -
  show "validExperienceApprovalClaims token1"
    using later0_facts content0_hash(2) [of verifier_modified]
    by (simp add: validExperienceApprovalClaims_def ApprovalTokenClaims_Validate_def check_simps
        experienceApprovalTokenLifetime_def)
  show "utc_claims token1 = token1"
    using later0_facts(1) by (simp add: utc_claims_def token1_def)
qed

lemma candidate1_selected: "rs_Registry st = registry_with_candidate \<Longrightarrow>
    select_candidate st origin0 = Inr (candidate0 [event_ref ''e1''])"
proof -
  assume "rs_Registry st = registry_with_candidate"
  moreover have "Candidate_Validate (candidate0 [event_ref ''e1'']) = None"
    by (simp add: times_ok_no_time)
  ultimately show ?thesis
    by (simp add: select_candidate_def candidate_row1 scan_candidate candidate_consistent_def candidate_row_of_def)
qed

lemma proposal1_selected: "select_proposal store1 (semp_ProposalID semantic1) = Inr semantic1"
  using semantic1_valid
  by (simp add: select_proposal_def scanExperienceSemanticProposal_def Let_def)
    (simp add: proposal_row_of_def)

lemma token1_current:
  "approvalClaimsMatchCurrent token1 (candidate0 [event_ref ''e1'']) semantic1 = Some True"
proof -
  have c: "cand_CandidateID (candidate0 [event_ref ''e1'']) = origin0" by (simp add: origin0_def)
  have o: "cand_ProjectIdentity (candidate0 [event_ref ''e1'']) = ''p''"
    "prov_InputHash (cand_Provenance (candidate0 [event_ref ''e1''])) = digest0"
    "cand_Authority (candidate0 [event_ref ''e1'']) = AuthorityNone"
    "cand_LifecycleState (candidate0 [event_ref ''e1'']) = LifecycleCandidate"
    by (simp_all add: candidate0_def Let_def provenance0_def)
  have s: "sprov_PromptVersion sprovenance1 = SemanticProposalPromptVersion" "sprov_InputHash sprovenance1 = digest0"
    by (simp_all add: sprovenance1_def sprovenance0_def)
  show ?thesis
    by (simp add: approvalClaimsMatchCurrent_def c o s content0_hash(1))
qed

lemma candidate1_fields [simp]:
  "cand_CandidateID (candidate0 [event_ref ''e1'']) = origin0"
  "cand_ProjectIdentity (candidate0 [event_ref ''e1'']) = ''p''"
  "cand_Evidence (candidate0 [event_ref ''e1'']) = evidence0"
  "cand_EpisodeRefs (candidate0 [event_ref ''e1'']) = []"
  by (simp_all add: origin0_def) (simp_all add: candidate0_def Let_def evidence0_def)

definition rejected1 :: ExperienceReviewAction where
  "rejected1 = review_action_of reject1"

definition store2 :: review_store where
  "store2 = store1\<lparr>rs_Actions := [action_row_of rejected1 ''{}'']\<rparr>"

lemma no_approval1: "findApprovedCandidateExperienceTx store1 p i = Inr None"
  by (simp add: findApprovedCandidateExperienceTx_def registry_with_candidate_def)

lemma reject1_recorded: "RecordExperienceReviewAction sc0 (day 2) store1 reject1 = Inr ((rejected1, False), store2)"
proof -
  have n: "normalized_action_input reject1 = reject1"
    using token1_valid(2) by (simp add: normalized_action_input_def reject1_def)
  have f: "rai_Claims reject1 = token1" "rai_Actor reject1 = ''u''" "rai_Disposition reject1 = ExperienceReviewReject"
    "rai_OccurredAt reject1 = day 2" "rai_AvailableAfter reject1 = None"
    by (simp_all add: reject1_def)
  have c: "review_action_check (action_row_of rejected1 ''{}'')"
    by (simp add: review_action_check_def rejected1_def review_action_of_def f Let_def)
  have "record_in_transaction (day 2) store1 token1 rejected1 ''{}'' = Inr (False, store2)"
    using later0_facts(3) c
    by (simp add: record_in_transaction_def replayExperienceReviewActionTx_def proposal1_selected no_rows_stale_def
        candidate1_selected token1_current no_approval1 store2_def)
  then show ?thesis
    using token1_valid(1) later0_facts(3)
    by (simp add: RecordExperienceReviewAction_def n f rejected1_def [symmetric] Before_After
        validExperienceReviewAvailability_def maxExperienceReviewActionPayloadBytes_def)
qed

definition experience1 :: Experience where
  "experience1 = the (approvedExperienceFromProposal (candidate0 [event_ref ''e1'']) semantic1
     (proposal0 verifier_modified) ApprovalAsProposed ''u'' (day 2))"

definition approval1_provenance :: ApprovalProvenance where
  "approval1_provenance = \<lparr>apr_ApprovedBy = ''u'', apr_ApprovedAt = day 2, apr_Mode = ApprovalAsProposed,
     apr_CandidateID = origin0, apr_ProposedContentHash = content0 verifier_modified,
     apr_ApprovedContentHash = content0 verifier_modified\<rparr>"

lemma experience1_created:
  "approvedExperienceFromProposal (candidate0 [event_ref ''e1'']) semantic1 (proposal0 verifier_modified)
     ApprovalAsProposed ''u'' (day 2) = Some experience1"
  "experience1 = (experience0 verifier_modified)\<lparr>
     xp_Provenance := \<lparr>prov_ExtractorVersion = experienceApprovalExtractorVersion,
       prov_Harness = sprov_Harness sprovenance1, prov_Model = sprov_Model sprovenance1,
       prov_PromptVersion = SemanticProposalPromptVersion, prov_InputHash = digest0,
       prov_SourceCandidateID = origin0, prov_GeneratedAt = day 2\<rparr>,
     xp_Governance := \<lparr>gov_LifecycleState = LifecycleApproved, gov_Authority = AuthorityUserApproved,
       gov_Approval = Some approval1_provenance, gov_StateReason = []\<rparr>,
     xp_CreatedAt := day 2\<rparr>"
proof -
  have h: "ExperienceProposal_CanonicalContentHash (proposal0 verifier_modified) = Some (content0 verifier_modified)"
    by (rule content0_hash(1))
  have x: "Experience_CanonicalContentHash v = Some (content0 verifier_modified)"
    if "xp_Type v = ExperiencePreference" "xp_Scope v = scope0" "xp_Applicability v = applicability0"
      "xp_Guidance v = guidance0" "xp_Verifier v = verifier_modified" for v :: Experience
    using h that by (simp add: Experience_CanonicalContentHash_def ExperienceProposal_CanonicalContentHash_def)
  obtain i where i: "DeriveExperienceID ''p'' origin0 = Some i" using experience_id_ok(2) by blast
  show "approvedExperienceFromProposal (candidate0 [event_ref ''e1'']) semantic1 (proposal0 verifier_modified)
     ApprovalAsProposed ''u'' (day 2) = Some experience1"
    "experience1 = (experience0 verifier_modified)\<lparr>
     xp_Provenance := \<lparr>prov_ExtractorVersion = experienceApprovalExtractorVersion,
       prov_Harness = sprov_Harness sprovenance1, prov_Model = sprov_Model sprovenance1,
       prov_PromptVersion = SemanticProposalPromptVersion, prov_InputHash = digest0,
       prov_SourceCandidateID = origin0, prov_GeneratedAt = day 2\<rparr>,
     xp_Governance := \<lparr>gov_LifecycleState = LifecycleApproved, gov_Authority = AuthorityUserApproved,
       gov_Approval = Some approval1_provenance, gov_StateReason = []\<rparr>,
     xp_CreatedAt := day 2\<rparr>"
    using i
    by (simp_all add: experience1_def approvedExperienceFromProposal_def x h Let_def experience0_def
        approval1_provenance_def sprovenance1_def sprovenance0_def)
qed

lemma experience1_valid: "Experience_Validate experience1 = None"
proof -
  have h: "Experience_CanonicalContentHash experience1 = Some (content0 verifier_modified)"
    using content0_hash(1) [of verifier_modified]
    by (simp add: experience1_created(2) Experience_CanonicalContentHash_def
        ExperienceProposal_CanonicalContentHash_def)
  have a: "ApprovalProvenance_Validate (content0 verifier_modified) approval1_provenance = None"
    by (simp add: approval1_provenance_def ApprovalProvenance_Validate_def check_simps content0_hash(2))
  have g: "Governance_Validate (content0 verifier_modified) (xp_Governance experience1) = None"
    using a by (simp add: Governance_Validate_def check_simps experience1_created(2))
  have e: "visible experienceApprovalExtractorVersion" "experienceApprovalExtractorVersion \<noteq> []"
    "length experienceApprovalExtractorVersion \<le> 256"
    by (simp_all add: experienceApprovalExtractorVersion_def visible_def byte_def)
  have p: "Provenance_Validate (xp_Provenance experience1) = None"
    using e by (simp add: Provenance_Validate_def experience1_created(2) sprovenance1_def sprovenance0_def check_simps)
  have v: "previous_version_check experience1 = None"
    by (simp add: previous_version_check_def check_simps experience1_created(2))
  have d: "DeriveExperienceID ''p'' origin0 = Some (the (DeriveExperienceID ''p'' origin0))"
    by (rule experience_id_ok(2))
  show ?thesis
    unfolding Experience_Validate_def
    using h g p v d content0_hash(3) [of verifier_modified]
    by (auto simp: check_simps limit_defs experience1_created(2) approval1_provenance_def split: option.splits)
qed

definition store3 :: review_store where
  "store3 = store1\<lparr>rs_Registry := registry_with_candidate\<lparr>
     reg_Experiences := [row_of experience1 ''{}'' approval1_provenance],
     reg_Evidence := [evidence_row_of envelope0]\<rparr>\<rparr>"

lemma experience1_inserted: "InsertExperience js0 registry_with_candidate experience1 = Inr (True, rs_Registry store3)"
proof -
  have "evs_Refs evidence0 = [event_ref ''e1'']" by (simp add: evidence0_def Let_def)
  then have p: "prepareExperiencePersistence js0 experience1 =
      Inr \<lparr>prep_Value = experience1, prep_Plaintext = ''{}'', prep_EvidenceRows = [envelope0]\<rparr>"
    using experience1_valid by (simp add: prepareExperiencePersistence_def envelope0_def)
      (simp add: experience1_created(2))
  let ?row = "row_of experience1 ''{}'' approval1_provenance"
  have r: "row_OriginCandidateID ?row = origin0" "row_Previous ?row = None"
    "gov_Approval (xp_Governance experience1) = Some approval1_provenance"
    by (simp_all add: row_of_def experience1_created(2))
  show ?thesis
    unfolding InsertExperience_def p
    by (simp add: insertPreparedExperienceTx_def r Let_def find_row_def candidate_row1)
      (simp add: registry_with_candidate_def store3_def)
qed

lemma approval1_fields [simp]:
  "eai_Claims approval1 = token1" "eai_ApprovedBy approval1 = ''u''" "eai_ApprovedAt approval1 = day 2"
  "eai_Mode approval1 = ApprovalAsProposed" "normalized_approval approval1 = approval1"
  using token1_valid(2) by (simp_all add: normalized_approval_def approval1_def)

lemma approval1_runs:
  assumes "approve_in_transaction sc0 (day 2) st approval1 = Inr x"
  shows "ApproveExperienceProposal sc0 (day 2) st approval1 = Inr x"
  using assms token1_valid(1) later0_facts(3) by (simp add: ApproveExperienceProposal_def Before_After)

lemma not_blocked1: "experienceReviewActionBlocksApprovalTx store1 i t now = Inr False"
  by (simp add: experienceReviewActionBlocksApprovalTx_def latest_action_def)

lemma approval1_current:
  "approve_current sc0 store1 approval1 (candidate0 [event_ref ''e1'']) semantic1 = Inr ((experience1, False), store3)"
proof -
  obtain prepared where p: "prepareExperiencePersistence js0 experience1 = Inr prepared"
    "insertPreparedExperienceTx registry_with_candidate prepared = Inr (True, rs_Registry store3)"
    using experience1_inserted by (auto simp: InsertExperience_def split: sum.splits)
  have "create_approved sc0 store1 experience1 = Inr ((experience1, False), store3)"
    using p by (simp add: create_approved_def) (simp add: store3_def)
  then show ?thesis
    by (simp add: approve_current_def approved_content_def content0_hash(1) no_approval1 experience1_created(1))
qed

lemma approval1_approves:
  "ApproveExperienceProposal sc0 (day 2) store1 approval1 = Inr ((experience1, False), store3)"
  using approval1_current
  by (intro approval1_runs) (simp add: approve_in_transaction_def proposal1_selected candidate1_selected
      token1_current not_blocked1)

text \<open>The same approval again is a replay.\<close>

lemma approval1_replays:
  "ApproveExperienceProposal sc0 (day 2) store3 approval1 = Inr ((experience1, True), store3)"
proof -
  have s: "rs_Proposals store3 = rs_Proposals store1" "rs_Actions store3 = []"
    "reg_Candidates (rs_Registry store3) = reg_Candidates registry_with_candidate"
    by (simp_all add: store3_def)
  have b: "experienceReviewActionBlocksApprovalTx store3 i t now = Inr False" for i t now
    by (simp add: experienceReviewActionBlocksApprovalTx_def latest_action_def s)
  have p: "select_proposal store3 (semp_ProposalID semantic1) = Inr semantic1"
    using proposal1_selected by (simp add: select_proposal_def s)
  have c: "select_candidate store3 origin0 = Inr (candidate0 [event_ref ''e1''])"
    using candidate1_selected [of store1] by (simp add: select_candidate_def find_candidate_def s)
  have cons: "consistent (rs_Registry store3)"
  proof (rule registry.inv_run [OF _ registry.inv_reachable])
    show "reachable_registry registry_with_candidate"
      using registry_step.candidate [OF candidate0_stored] by blast
    show "(registry_step js0)\<^sup>*\<^sup>* registry_with_candidate (rs_Registry store3)"
      using registry_step.insert [OF experience1_inserted] by blast
  qed
  let ?row = "row_of experience1 ''{}'' approval1_provenance"
  have "findApprovedCandidateExperienceTx store3 ''p'' origin0 =
      and_then (from_registry (scanStoredExperience (rs_Registry store3) ?row)) (\<lambda>v. Inr (Some v))"
    by (simp add: findApprovedCandidateExperienceTx_def store3_def row_of_def experience1_created(2))
  then have "findApprovedCandidateExperienceTx store3 ''p'' origin0 = Inr (Some (stored_of ?row))"
    using scan_stored [OF cons, of ?row] by (simp add: store3_def)
  moreover have "replayed_approval approval1 (content0 verifier_modified) (stored_of ?row) = Inr experience1"
    by (simp add: replayed_approval_def stored_of_def experience1_created(2) approval1_provenance_def)
  ultimately have "approve_current sc0 store3 approval1 (candidate0 [event_ref ''e1'']) semantic1 =
      Inr ((experience1, True), store3)"
    by (simp add: approve_current_def approved_content_def content0_hash(1))
  then have "approve_in_transaction sc0 (day 2) store3 approval1 = Inr ((experience1, True), store3)"
    by (simp add: approve_in_transaction_def p c token1_current b)
  then show ?thesis by (rule approval1_runs)
qed

end
