(* ===== verification/ReviewRules.thy ===== *)
theory ReviewRules
  imports ReviewSamples
begin

text \<open>
  The properties of the review store: what is stored reads back, batches can be repeated, a review revokes
  the tokens before it, an approval does what its token says and happens once.
\<close>

section \<open>Reading back\<close>

lemma decision_prefix [simp]: "visible ''exd_''"
  by (simp add: visible_def byte_def)

lemma scan_proposal: "proposal_consistent st row \<Longrightarrow> scanExperienceSemanticProposal row = Inr (prow_Value row)"
proof -
  assume c: "proposal_consistent st row"
  define p where "p = prow_Value row"
  define t where "t = prow_Plaintext row"
  have "row = proposal_row_of p t" "SemanticProposal_Validate p = None"
    using c by (simp_all add: proposal_consistent_def p_def t_def)
  then show ?thesis
    by (simp add: scanExperienceSemanticProposal_def Let_def) (simp add: proposal_row_of_def)
qed

lemma scan_decision: "decision_consistent st row \<Longrightarrow> scanExperienceSemanticDecision row = Inr (drow_Value row)"
proof -
  assume c: "decision_consistent st row"
  define d where "d = drow_Value row"
  define t where "t = drow_Plaintext row"
  have "row = decision_row_of d t" "SemanticDecision_Validate d = None"
    using c by (simp_all add: decision_consistent_def d_def t_def)
  then show ?thesis
    by (simp add: scanExperienceSemanticDecision_def Let_def) (simp add: decision_row_of_def)
qed

lemma storage_identifier_valid:
  "validateIdentifier n i = None \<Longrightarrow> validateStorageIdentifier name i = None"
  by (auto simp: validateStorageIdentifier_def validateIdentifier_def check_simps limit_defs)

lemma semantic_ids_stored:
  "SemanticProposal_Validate p = None \<Longrightarrow> validateStorageIdentifier name (semp_ProposalID p) = None"
  "SemanticDecision_Validate d = None \<Longrightarrow> validateStorageIdentifier name (semd_DecisionID d) = None"
proof -
  show "validateStorageIdentifier name (semp_ProposalID p) = None" if "SemanticProposal_Validate p = None"
  proof -
    have "is_identifier_of ''exs_'' (semp_ProposalID p)"
      using that by (auto simp: SemanticProposal_Validate_def check_simps SemanticProposal_DeterministicID_def
          dest: deterministicID_shape)
    from identifier_valid [OF this, of "[]"] show ?thesis by (simp add: storage_identifier_valid)
  qed
  show "validateStorageIdentifier name (semd_DecisionID d) = None" if "SemanticDecision_Validate d = None"
  proof -
    have "is_identifier_of ''exd_'' (semd_DecisionID d)"
      using that by (auto simp: SemanticDecision_Validate_def check_simps SemanticDecision_DeterministicID_def
          dest: deterministicID_shape)
    from identifier_valid [OF this, of "[]"] show ?thesis by (simp add: storage_identifier_valid)
  qed
qed

lemma get_proposal:
  assumes "tables_consistent st" "row \<in> set (rs_Proposals st)"
  shows "GetExperienceSemanticProposal st (prow_ID row) = Inr (prow_Value row)"
proof -
  have c: "proposal_consistent st row" using assms by (simp add: tables_consistent_def)
  have "prow_ID row = semp_ProposalID (prow_Value row)"
    using c unfolding proposal_consistent_def by (metis proposal_row_of_fields(1))
  then have i: "validateStorageIdentifier name (prow_ID row) = None" for name
    using c semantic_ids_stored(1) by (simp add: proposal_consistent_def)
  have "find (\<lambda>r. prow_ID r = prow_ID row) (rs_Proposals st) = Some row"
    using assms by (simp add: tables_consistent_def keys_distinct_def find_distinct)
  with i scan_proposal [OF c] show ?thesis
    by (simp add: GetExperienceSemanticProposal_def storage_identifier_def select_proposal_def)
qed

lemma get_decision:
  assumes "tables_consistent st" "row \<in> set (rs_Decisions st)"
  shows "GetExperienceSemanticDecision st (drow_ID row) = Inr (drow_Value row)"
proof -
  have c: "decision_consistent st row" using assms by (simp add: tables_consistent_def)
  have "drow_ID row = semd_DecisionID (drow_Value row)"
    using c unfolding decision_consistent_def by (metis decision_row_of_fields(1))
  then have i: "validateStorageIdentifier name (drow_ID row) = None" for name
    using c semantic_ids_stored(2) by (simp add: decision_consistent_def)
  have "find (\<lambda>r. drow_ID r = drow_ID row) (rs_Decisions st) = Some row"
    using assms by (simp add: tables_consistent_def keys_distinct_def find_distinct)
  with i scan_decision [OF c] show ?thesis
    by (simp add: GetExperienceSemanticDecision_def storage_identifier_def)
qed

lemma get_candidate:
  assumes "attached (rs_Registry st)" "candidate_of st i project"
  shows "\<exists>c. GetExperienceCandidate (rs_Registry st) i = Inr c \<and> cand_CandidateID c = i \<and>
    cand_ProjectIdentity c = project"
proof -
  obtain row where f: "find_candidate (rs_Registry st) i = Some row" and p: "crow_ProjectIdentity row = project"
    using assms(2) by (auto simp: candidate_of_def)
  then have r: "row \<in> set (reg_Candidates (rs_Registry st))" "crow_ID row = i"
    by (auto simp: find_candidate_def find_Some_iff)
  then have c: "candidate_consistent row" using assms(1) by (simp add: attached_def)
  then have e: "crow_ID row = cand_CandidateID (crow_Value row)"
    "crow_ProjectIdentity row = cand_ProjectIdentity (crow_Value row)"
    unfolding candidate_consistent_def candidate_row_of_def by (metis candidate_row.select_convs)+
  have "validateStorageIdentifier name i = None" for name
    using c r(2) e(1) stored_identifier [OF candidate_id_valid] unfolding candidate_consistent_def by metis
  then show ?thesis
    using f p r(2) e scan_candidate [OF c] by (simp add: GetExperienceCandidate_def)
qed

section \<open>The latest review action\<close>

lemma latest_action_after:
  assumes "a \<in> set (rs_Actions st)" "arow_ProposalID a = i"
  shows "\<exists>b. latest_action st i = Some b \<and> arow_OccurredAt a \<le> arow_OccurredAt b"
proof -
  let ?key = "\<lambda>a. (arow_OccurredAt a, arow_ID a)"
  let ?xs = "sort_key ?key (filter (\<lambda>a. arow_ProposalID a = i) (rs_Actions st))"
  have m: "a \<in> set ?xs" using assms by simp
  have s: "sorted (map ?key ?xs)" by simp
  from m obtain ys b where xs: "?xs = ys @ [b]" by (cases ?xs rule: rev_cases) auto
  have "?key a \<le> ?key b" using m s unfolding xs by (auto simp: sorted_append)
  moreover have "latest_action st i = Some b" by (simp add: latest_action_def xs)
  ultimately show ?thesis by (auto simp: less_eq_prod_def)
qed

lemma action_blocks:
  assumes "a \<in> set (rs_Actions st)" "arow_ProposalID a = i" "wall_ns issued \<le> arow_OccurredAt a"
  shows "experienceReviewActionBlocksApprovalTx st i issued now = Inr True"
  using latest_action_after [OF assms(1,2)] assms(3)
  by (auto simp: experienceReviewActionBlocksApprovalTx_def)

section \<open>The experience a candidate has been approved as\<close>

definition approves :: "string \<Rightarrow> string \<Rightarrow> experience_row \<Rightarrow> bool" where
  "approves project candidateID row \<longleftrightarrow> row_ProjectIdentity row = project \<and>
     row_OriginCandidateID row = candidateID \<and> row_Version row = 1"

lemma find_map: "(\<And>x. P (f x) = P x) \<Longrightarrow> find P (map f xs) = map_option f (find P xs)"
  by (induction xs) auto

lemma approves_moved [simp]: "approves p i (moved_row t now row) = approves p i row"
  by (simp add: approves_def moved_row_def)

lemma approved_step:
  assumes "registry_step js reg reg'" "find (approves p i) (reg_Experiences reg) = Some row"
  shows "\<exists>row'. find (approves p i) (reg_Experiences reg') = Some row' \<and> row_Value row' = row_Value row"
  using assms(1)
proof (cases rule: step_cases)
  case (inserted new evidence)
  then show ?thesis using find_prefix [OF _ assms(2), of "reg_Experiences reg @ [new]"] by simp
next
  case (moved now t plaintext hit)
  then show ?thesis using assms(2) by (simp add: appended_def find_map)
qed (use assms(2) in simp_all)

lemma approved_run:
  assumes "(registry_step js)\<^sup>*\<^sup>* reg reg'" "find (approves p i) (reg_Experiences reg) = Some row"
  shows "\<exists>row'. find (approves p i) (reg_Experiences reg') = Some row' \<and> row_Value row' = row_Value row"
  using assms by (induction rule: rtranclp_induct) (use approved_step in fastforce)+

lemma approved_found:
  assumes "consistent (rs_Registry st)"
  shows "findApprovedCandidateExperienceTx st p i =
    (case find (approves p i) (reg_Experiences (rs_Registry st)) of
       None \<Rightarrow> Inr None | Some row \<Rightarrow> Inr (Some (stored_of row)))"
proof -
  have "findApprovedCandidateExperienceTx st p i =
      (case find (approves p i) (reg_Experiences (rs_Registry st)) of
         None \<Rightarrow> Inr None
       | Some row \<Rightarrow> and_then (from_registry (scanStoredExperience (rs_Registry st) row)) (\<lambda>v. Inr (Some v)))"
    unfolding findApprovedCandidateExperienceTx_def approves_def by simp
  moreover have "scanStoredExperience (rs_Registry st) row = Inr (stored_of row)"
    if "find (approves p i) (reg_Experiences (rs_Registry st)) = Some row" for row
    using that by (intro scan_stored [OF assms]) (auto simp: find_Some_iff)
  ultimately show ?thesis by (simp split: option.splits)
qed

lemma approved_content_project:
  assumes "approved_content proposal input = Inr approved" "SemanticProposal_Validate proposal = None"
  shows "scope_ProjectIdentity (prop_Scope approved) = semp_ProjectIdentity proposal"
proof -
  have "scope_ProjectIdentity (prop_Scope (semp_Proposal proposal)) = semp_ProjectIdentity proposal"
    using assms(2) by (simp add: SemanticProposal_Validate_def check_simps)
  then show ?thesis
    using assms(1) by (auto simp: approved_content_def ValidateApprovedProposal_def check_simps
        split: if_splits option.splits go_error.splits)
qed

section \<open>Batches can be repeated\<close>

text \<open>Everything a result would store is there already.\<close>

definition already :: "review_store \<Rightarrow> sealedSemanticResult \<Rightarrow> bool" where
  "already st item \<longleftrightarrow> (let d = semr_Decision (ssr_value item) in
     candidate_of st (semd_CandidateID d) (semd_ProjectIdentity d) \<and>
     (\<exists>old. find (\<lambda>row. drow_source row = decision_source d) (rs_Decisions st) = Some old \<and>
        drow_Plaintext old = ssr_decisionPlaintext item) \<and>
     semantic_payload_check (ssr_decisionPlaintext item) \<and>
     (case semr_Proposal (ssr_value item) of
        None \<Rightarrow> decision_source d \<notin> prow_source ` set (rs_Proposals st)
      | Some p \<Rightarrow> semd_ProjectIdentity d = semp_ProjectIdentity p \<and>
          semantic_payload_check (ssr_proposalPlaintext item) \<and>
          (\<exists>old. find (\<lambda>row. prow_source row = proposal_source p) (rs_Proposals st) = Some old \<and>
             prow_Plaintext old = ssr_proposalPlaintext item)))"

lemma already_replays:
  assumes "already st item"
  shows "store_results st counts (item # rest) =
    store_results st (counted False (semd_Disposition (semr_Decision (ssr_value item))) counts) rest"
proof -
  let ?d = "semr_Decision (ssr_value item)"
  have c: "candidate_project_check what st (semd_CandidateID ?d) (semd_ProjectIdentity ?d) = Inr ()" for what
    using assms by (auto simp: already_def Let_def candidate_of_def candidate_project_check_def)
  have d: "store_decision st ?d (ssr_decisionPlaintext item) = Inr (False, st)"
    using assms by (auto simp: already_def Let_def store_decision_def)
  have p: "store_result_proposal st item = Inr st"
    using assms by (auto simp: already_def Let_def store_result_proposal_def key_found(1)
        storeExperienceSemanticProposalTx_def split: option.splits)
  show ?thesis by (cases counts) (simp add: Let_def c d p counted_def)
qed

lemma all_already:
  "\<forall>item \<in> set items. already st item \<Longrightarrow> \<exists>r. store_results st (a, b) items = Inr ((a, r), st)"
proof (induction items arbitrary: b)
  case (Cons item items)
  then show ?case by (simp add: already_replays counted_def del: store_results.simps(2))
qed simp

lemma find_snoc: "find P xs = None \<Longrightarrow> P x \<Longrightarrow> find P (xs @ [x]) = Some x"
  by (induction xs) (auto split: if_splits)

lemma stored_proposal_found:
  assumes "storeExperienceSemanticProposalTx st p plaintext = Inr (b, st')"
  shows "\<exists>old. find (\<lambda>row. prow_source row = proposal_source p) (rs_Proposals st') = Some old \<and>
    prow_Plaintext old = plaintext" "semantic_payload_check plaintext"
  using assms by (cases rule: store_proposal_cases, simp_all add: find_snoc key_found(2))+

lemma stored_decision_found:
  assumes "store_decision st d plaintext = Inr (b, st')"
  shows "\<exists>old. find (\<lambda>row. drow_source row = decision_source d) (rs_Decisions st') = Some old \<and>
    drow_Plaintext old = plaintext" "semantic_payload_check plaintext"
  using assms by (cases rule: store_decision_cases, simp_all add: find_snoc key_found(2))+

lemma stored_decision_proposals: "store_decision st d plaintext = Inr (b, st') \<Longrightarrow>
    rs_Proposals st' = rs_Proposals st \<and> rs_Registry st' = rs_Registry st"
  by (erule store_decision_cases) simp_all

lemma stored_already:
  assumes "candidate_of st (semd_CandidateID (semr_Decision (ssr_value item)))
      (semd_ProjectIdentity (semr_Decision (ssr_value item)))"
    and p: "store_result_proposal st item = Inr st1"
    and d: "store_decision st1 (semr_Decision (ssr_value item)) (ssr_decisionPlaintext item) = Inr (b, st2)"
    and k: "kept st st1"
  shows "already st2 item"
proof -
  note d2 = stored_decision_proposals [OF d]
  have "candidate_of st2 (semd_CandidateID (semr_Decision (ssr_value item)))
      (semd_ProjectIdentity (semr_Decision (ssr_value item)))"
    using assms(1) k d2 by (simp add: candidate_of_def kept_def)
  moreover note stored_decision_found [OF d]
  moreover from p have "case semr_Proposal (ssr_value item) of
        None \<Rightarrow> decision_source (semr_Decision (ssr_value item)) \<notin> prow_source ` set (rs_Proposals st2)
      | Some p \<Rightarrow> semd_ProjectIdentity (semr_Decision (ssr_value item)) = semp_ProjectIdentity p \<and>
          semantic_payload_check (ssr_proposalPlaintext item) \<and>
          (\<exists>old. find (\<lambda>row. prow_source row = proposal_source p) (rs_Proposals st2) = Some old \<and>
             prow_Plaintext old = ssr_proposalPlaintext item)"
    by (cases rule: store_result_proposal_cases) (use d2 stored_proposal_found in force)+
  ultimately show ?thesis by (simp add: already_def Let_def)
qed

lemma store_results_sources:
  assumes "store_results st counts items = Inr (counts', st')"
    and "\<forall>r \<in> ssr_value ` set items. SemanticResult_Validate r = None"
  shows "prow_source ` set (rs_Proposals st') \<subseteq> prow_source ` set (rs_Proposals st) \<union>
    (\<lambda>item. decision_source (semr_Decision (ssr_value item))) ` set items"
  using assms
proof (induction items arbitrary: st counts)
  case (Cons item items)
  let ?d = "semr_Decision (ssr_value item)"
  from Cons.prems(1) obtain st1 b st2 where
    s: "store_result_proposal st item = Inr st1" "store_decision st1 ?d (ssr_decisionPlaintext item) = Inr (b, st2)"
      "store_results st2 (counted b (semd_Disposition ?d) counts) items = Inr (counts', st')"
    unfolding store_results_Cons by blast
  have v: "SemanticResult_Validate (ssr_value item) = None" using Cons.prems(2) by simp
  have "prow_source ` set (rs_Proposals st1) \<subseteq> insert (decision_source ?d) (prow_source ` set (rs_Proposals st))"
    using s(1)
  proof (cases rule: store_result_proposal_cases)
    case (stored p b)
    from stored(2) show ?thesis
      by (cases rule: store_proposal_cases) (use semantic_result_parts(2) [OF v stored(1)] in auto)
  qed auto
  with Cons.IH [OF s(3)] Cons.prems(2) stored_decision_proposals [OF s(2)] show ?case by auto
qed simp

lemma already_later:
  assumes a: "already st item" and s: "store_results st counts items = Inr (counts', st')"
    and t: "tables_consistent st" and v: "\<forall>r \<in> ssr_value ` set items. SemanticResult_Validate r = None"
    and n: "decision_source (semr_Decision (ssr_value item)) \<notin>
      (\<lambda>item. decision_source (semr_Decision (ssr_value item))) ` set items"
  shows "already st' item"
proof -
  have k: "kept st st'" by (rule store_results_kept [OF s t v])
  then have g: "prefix (rs_Proposals st) (rs_Proposals st')" "prefix (rs_Decisions st) (rs_Decisions st')"
    "rs_Registry st' = rs_Registry st"
    by (simp_all add: kept_def grown_def)
  note f = find_prefix [OF g(1)] find_prefix [OF g(2)]
  show ?thesis
    using a n store_results_sources [OF s v] f
    unfolding already_def Let_def candidate_of_def g(3) by (auto split: option.splits)
qed

lemma store_results_already:
  assumes "store_results st counts items = Inr (counts', st')" "tables_consistent st"
    and "\<forall>r \<in> ssr_value ` set items. SemanticResult_Validate r = None"
    and "distinct (map (\<lambda>item. decision_source (semr_Decision (ssr_value item))) items)"
  shows "\<forall>item \<in> set items. already st' item"
  using assms
proof (induction items arbitrary: st counts)
  case (Cons item items)
  let ?d = "semr_Decision (ssr_value item)"
  from Cons.prems(1) obtain st1 b st2 where
    c: "candidate_of st (semd_CandidateID ?d) (semd_ProjectIdentity ?d)" and
    s: "store_result_proposal st item = Inr st1" "store_decision st1 ?d (ssr_decisionPlaintext item) = Inr (b, st2)"
      "store_results st2 (counted b (semd_Disposition ?d) counts) items = Inr (counts', st')"
    unfolding store_results_Cons by blast
  have v: "SemanticResult_Validate (ssr_value item) = None" using Cons.prems(3) by simp
  have k1: "kept st st1" by (rule store_result_kept [OF s(1) Cons.prems(2) v c])
  then have t1: "tables_consistent st1" "candidate_of st1 (semd_CandidateID ?d) (semd_ProjectIdentity ?d)"
    using c by (auto simp: kept_def candidate_of_def)
  have t2: "tables_consistent st2"
    using store_decision_kept [OF t1(1) s(2) semantic_result_parts(1) [OF v] t1(2)] by (simp add: kept_def)
  have "already st2 item" by (rule stored_already [OF c s(1,2) k1])
  then have "already st' item"
    by (rule already_later [OF _ s(3) t2]) (use Cons.prems(3,4) in auto)
  with Cons.IH [OF s(3) t2] Cons.prems(3,4) show ?case by simp
qed simp

lemma seal_results_sources:
  "seal_results sc decisions proposals sources rs = Inr items \<Longrightarrow>
     distinct (map (\<lambda>item. decision_source (semr_Decision (ssr_value item))) items) \<and>
     (\<forall>item \<in> set items. decision_source (semr_Decision (ssr_value item)) \<notin> sources)"
proof (induction rs arbitrary: decisions proposals sources items)
  case (Cons r rs)
  from Cons.prems obtain proposals' rest a b where
    "seal_results sc (insert (semd_DecisionID (semr_Decision r)) decisions) proposals'
       (insert (decision_source (semr_Decision r)) sources) rs = Inr rest"
    "decision_source (semr_Decision r) \<notin> sources"
    "items = \<lparr>ssr_value = r, ssr_proposalPlaintext = a, ssr_decisionPlaintext = b\<rparr> # rest"
    by (auto simp: stored_simps Let_def split: if_splits prod.splits)
  with Cons.IH show ?case by fastforce
qed simp

text \<open>What a batch counted, whether inserted or replayed.\<close>

definition both_counts :: "SemanticDispositionCounts \<times> SemanticDispositionCounts \<Rightarrow> SemanticDispositionCounts" where
  "both_counts c = \<lparr>sdc_Proposed = sdc_Proposed (fst c) + sdc_Proposed (snd c),
     sdc_Rejected = sdc_Rejected (fst c) + sdc_Rejected (snd c),
     sdc_Deferred = sdc_Deferred (fst c) + sdc_Deferred (snd c)\<rparr>"

lemma both_counted: "both_counts (counted b d c) = incrementSemanticDispositionCount d (both_counts c)"
  by (cases d) (simp_all add: counted_def both_counts_def)

lemma store_results_total:
  "store_results st counts items = Inr (counts', st') \<Longrightarrow>
     both_counts counts' = fold (\<lambda>item. incrementSemanticDispositionCount
       (semd_Disposition (semr_Decision (ssr_value item)))) items (both_counts counts)"
proof (induction items arbitrary: st counts)
  case (Cons item items)
  then show ?case unfolding store_results_Cons by (fastforce simp: both_counted)
qed simp

lemma select_candidate_grown:
  assumes "grown st st'" "select_candidate st i = Inr c"
  shows "select_candidate st' i = Inr c"
proof -
  obtain row where r: "find_candidate (rs_Registry st) i = Some row" "scanExperienceCandidate row = Inr c"
    using assms(2) by (auto simp: select_candidate_def stored_simps split: option.splits)
  then have "find_candidate (rs_Registry st') i = Some row"
    using assms(1) unfolding find_candidate_def grown_def by (blast intro: find_prefix)
  with r(2) show ?thesis by (simp add: select_candidate_def)
qed

lemma reachable_facts:
  assumes "(review_step sc)\<^sup>*\<^sup>* empty_store st"
  shows "tables_consistent st" "consistent (rs_Registry st)" "attached (rs_Registry st)"
  using reviews.inv_reachable [OF assms] registry.inv_reachable [OF reachable_registry_run [OF assms]]
    records.inv_reachable [OF reachable_registry_run [OF assms]] by blast+

lemma approve_consistent:
  assumes "ApproveExperienceProposal sc now st input = Inr (x, st')" "consistent (rs_Registry st)"
  shows "consistent (rs_Registry st')"
  using registry.inv_run approve_registry [OF assms(1)] assms(2) by blast

lemma created_experience:
  assumes "approvedExperienceFromProposal candidate proposal approved mode by t = Some v"
  shows "xp_OriginCandidateID v = cand_CandidateID candidate \<and> xp_Version v = 1 \<and>
    xp_Type v = prop_Type approved \<and> xp_Scope v = prop_Scope approved \<and>
    xp_Applicability v = prop_Applicability approved \<and> xp_Guidance v = prop_Guidance approved \<and>
    xp_Verifier v = prop_Verifier approved \<and> gov_LifecycleState (xp_Governance v) = LifecycleApproved \<and>
    (\<exists>a. gov_Approval (xp_Governance v) = Some a \<and> apr_ApprovedBy a = by \<and> apr_ApprovedAt a = t \<and>
       apr_Mode a = mode \<and> Some (apr_ProposedContentHash a) =
         ExperienceProposal_CanonicalContentHash (semp_Proposal proposal))"
  using assms by (auto simp: approvedExperienceFromProposal_def Let_def split: option.splits)

lemma inserted_row:
  assumes "InsertExperience js reg v = Inr (True, reg')"
  obtains plaintext a where "Experience_Validate v = None" "gov_Approval (xp_Governance v) = Some a"
    "reg_Experiences reg' = reg_Experiences reg @ [row_of v plaintext a]"
    "find_row reg (ExperienceRef (xp_ExperienceID v) (xp_Version v)) = None"
proof -
  from assms obtain p where p: "prepareExperiencePersistence js v = Inr p"
    "insertPreparedExperienceTx reg p = Inr (True, reg')"
    by (auto simp: InsertExperience_def split: sum.splits)
  note v = prepare_experience_valid [OF p(1)]
  from p(2) show ?thesis
    by (cases rule: insert_cases) (use that v in auto)
qed

text \<open>After a successful approval the candidate has been approved as the experience returned.\<close>

lemma approved_as:
  assumes "ApproveExperienceProposal sc now st input = Inr ((v, b), st')" "consistent (rs_Registry st)"
  obtains candidate row where "select_candidate st (atc_CandidateID (eai_Claims input)) = Inr candidate"
    "find (approves (cand_ProjectIdentity candidate) (cand_CandidateID candidate))
       (reg_Experiences (rs_Registry st')) = Some row" "row_Value row = v"
proof -
  let ?input = "normalized_approval input"
  from assms(1) obtain proposal candidate where
    p: "select_proposal st (atc_ProposalID (eai_Claims input)) = Inr proposal" and
    c: "select_candidate st (atc_CandidateID (eai_Claims input)) = Inr candidate" and
    m: "approvalClaimsMatchCurrent (eai_Claims ?input) candidate proposal = Some True" and
    x: "approve_current sc st ?input candidate proposal = Inr ((v, b), st')"
    by (rule approve_parts)
  let ?P = "approves (cand_ProjectIdentity candidate) (cand_CandidateID candidate)"
  from x have "\<exists>row. find ?P (reg_Experiences (rs_Registry st')) = Some row \<and> row_Value row = v"
  proof (cases rule: approve_current_cases)
    case (replay approved h existing)
    have "st_Experience existing = v"
      using replay(6) by (auto simp: replayed_approval_def Let_def split: option.splits if_splits)
    with replay(2,5) show ?thesis
      by (auto simp: approved_found [OF assms(2)] stored_of_def split: option.splits)
  next
    case (new approved reg')
    have none: "find ?P (reg_Experiences (rs_Registry st)) = None"
      using new(3) by (auto simp: approved_found [OF assms(2)] split: option.splits)
    obtain plaintext a where r: "reg_Experiences reg' = reg_Experiences (rs_Registry st) @ [row_of v plaintext a]"
      using new(5) by (rule inserted_row)
    have "SemanticProposal_Validate proposal = None" using p by (rule select_proposal_Inr)
    then have "scope_ProjectIdentity (xp_Scope v) = cand_ProjectIdentity candidate"
      using approved_content_project [OF new(2)] claims_match [OF m] created_experience [OF new(4)] by metis
    then have "?P (row_of v plaintext a)"
      using created_experience [OF new(4)] by (simp add: approves_def row_of_def)
    with none show ?thesis by (simp add: new(6) r find_snoc)
  qed
  with that c show ?thesis by blast
qed

section \<open>Properties\<close>

text \<open>C3: A review takes back the tokens issued before it. Once a defer or reject of a proposal has been
  recorded, then in every store the operations can build afterwards, every approval of that proposal
  whose token was issued at or before the time of the review fails, whatever other reviews, approvals
  and registry operations happened in between.\<close>

theorem review_revokes_tokens:
  assumes "(review_step sc)\<^sup>*\<^sup>* empty_store st"
    and "RecordExperienceReviewAction sc now st input = Inr ((action, False), st1)"
    and "(review_step sc)\<^sup>*\<^sup>* st1 st2"
    and "atc_ProposalID (eai_Claims approval) = atc_ProposalID (rai_Claims input)"
    and "wall_ns (atc_IssuedAt (eai_Claims approval)) \<le> wall_ns (rai_OccurredAt input)"
  shows "\<exists>e. ApproveExperienceProposal sc now' st2 approval = Inl e"
proof (cases "ApproveExperienceProposal sc now' st2 approval")
  case (Inr y)
  obtain x st3 where y: "ApproveExperienceProposal sc now' st2 approval = Inr (x, st3)"
    using Inr by (cases y) simp
  have t: "tables_consistent st1"
    using action_kept [OF reachable_facts(1) [OF assms(1)] assms(2)] by (simp add: kept_def)
  have r: "era_ProposalID action = atc_ProposalID (rai_Claims input)"
    "wall_ns (era_OccurredAt action) = wall_ns (rai_OccurredAt input)"
    using recorded_action [OF assms(2)] by blast+
  from assms(2) obtain plaintext where "action_row_of action plaintext \<in> set (rs_Actions st1)"
    by (cases rule: record_cases) auto
  moreover have "prefix (rs_Actions st1) (rs_Actions st2)"
    using run_tables [OF assms(3) t] by (simp add: grown_def)
  ultimately have "action_row_of action plaintext \<in> set (rs_Actions st2)"
    using set_mono_prefix by blast
  then have "experienceReviewActionBlocksApprovalTx st2 (atc_ProposalID (eai_Claims approval))
      (time_UTC (atc_IssuedAt (eai_Claims approval))) now' = Inr True"
    by (rule action_blocks) (use r assms(4,5) in \<open>simp_all add: time_UTC_def\<close>)
  moreover from y have "experienceReviewActionBlocksApprovalTx st2 (atc_ProposalID (eai_Claims approval))
      (time_UTC (atc_IssuedAt (eai_Claims approval))) now' = Inr False"
    by (rule approve_parts)
  ultimately show ?thesis by simp
qed simp

theorem review_revokes_tokens_witness:
  "\<exists>e. ApproveExperienceProposal sc0 (day 2) store2 approval1 = Inl e"
  using review_revokes_tokens [OF store1_reachable reject1_recorded rtranclp.rtrancl_refl,
      of approval1 "day 2"]
  by (simp add: reject1_def)

text \<open>C5: A candidate becomes an experience once. After an approval of a candidate has succeeded, every
  later approval of the same candidate - another token, another proposal of it, another mode - either
  fails or replays: it returns the very experience of the first approval and leaves the store as it is.\<close>

theorem approval_happens_once:
  assumes "(review_step sc)\<^sup>*\<^sup>* empty_store st"
    and "ApproveExperienceProposal sc now st input = Inr ((v, b), st1)"
    and "(review_step sc)\<^sup>*\<^sup>* st1 st2"
    and "ApproveExperienceProposal sc now' st2 input' = Inr ((v', b'), st3)"
    and "atc_CandidateID (eai_Claims input') = atc_CandidateID (eai_Claims input)"
  shows "v' = v \<and> b' \<and> st3 = st2"
proof -
  have c: "consistent (rs_Registry st)" "tables_consistent st" "attached (rs_Registry st)"
    using reachable_facts [OF assms(1)] by blast+
  have t1: "tables_consistent st1" using step_tables [OF review_step.approve [OF assms(2)] c(2)] by blast
  note run = run_tables [OF assms(3) t1]
  have c2: "consistent (rs_Registry st2)"
    using registry.inv_run run approve_consistent [OF assms(2) c(1)] by blast
  obtain candidate row where f: "select_candidate st (atc_CandidateID (eai_Claims input)) = Inr candidate"
    "find (approves (cand_ProjectIdentity candidate) (cand_CandidateID candidate))
       (reg_Experiences (rs_Registry st1)) = Some row" "row_Value row = v"
    using assms(2) c(1) by (rule approved_as)
  obtain row2 where row2: "find (approves (cand_ProjectIdentity candidate) (cand_CandidateID candidate))
      (reg_Experiences (rs_Registry st2)) = Some row2" "row_Value row2 = v"
    using approved_run [OF conjunct2 [OF run] f(2)] f(3) by auto
  have "grown st st2"
    using step_tables [OF review_step.approve [OF assms(2)] c(2)] run grown_trans by blast
  then have same: "select_candidate st2 (atc_CandidateID (eai_Claims input')) = Inr candidate"
    using select_candidate_grown f(1) unfolding assms(5) by blast
  let ?input = "normalized_approval input'"
  from assms(4) obtain proposal where
    x: "approve_current sc st2 ?input candidate proposal = Inr ((v', b'), st3)"
    by (rule approve_parts) (use same in auto)
  from x show ?thesis
  proof (cases rule: approve_current_cases)
    case (replay approved h existing)
    then have "existing = stored_of row2" using row2(1) by (simp add: approved_found [OF c2])
    then have "st_Experience existing = v" using row2(2) by (simp add: stored_of_def)
    with replay show ?thesis
      by (auto simp: replayed_approval_def Let_def split: option.splits if_splits)
  next
    case (new approved reg')
    then show ?thesis using row2(1) by (simp add: approved_found [OF c2])
  qed
qed

theorem approval_happens_once_witness:
  "\<exists>v b st. ApproveExperienceProposal sc0 (day 2) store3 approval1 = Inr ((v, b), st) \<and>
     v = experience1 \<and> b \<and> st = store3"
proof -
  obtain v b st where x: "ApproveExperienceProposal sc0 (day 2) store3 approval1 = Inr ((v, b), st)"
    using approval1_replays by blast
  from approval_happens_once [OF store1_reachable approval1_approves rtranclp.rtrancl_refl this] x
  show ?thesis by blast
qed







end
