(* ===== verification/EvaluateTypes.thy ===== *)
theory EvaluateTypes
  imports Lifecycle PathMatch
begin

text \<open>
  The data of \<open>internal/experience/evaluate/types.go\<close>: what the deterministic evaluation of one
  delivered application reads and returns. An embedded \<open>FactMeta\<close> is a field of that name.
\<close>

section \<open>Enumerations\<close>

datatype Component =
    ComponentOpportunity | ComponentApplicability | ComponentVerifier | ComponentTaskOutcome
    | Component_other string

fun Component_text :: "Component \<Rightarrow> string" where
  "Component_text ComponentOpportunity = ''opportunity''"
| "Component_text ComponentApplicability = ''applicability''"
| "Component_text ComponentVerifier = ''verifier''"
| "Component_text ComponentTaskOutcome = ''task_outcome''"
| "Component_text (Component_other s) = s"

datatype GapCode =
    GapCoverageMissing | GapCoverageNotDeclared | GapFactsIncomplete | GapAmbiguousMatch
    | GapUnsupportedMatch | GapNoOpportunityObservation | GapNoApplicableObservation
    | GapSemanticExclusion | GapNoEditObserved | GapNoTaskOutcomeObservation
    | GapObservationOnly | GapEvidenceTruncated | GapCode_other string

fun GapCode_text :: "GapCode \<Rightarrow> string" where
  "GapCode_text GapCoverageMissing = ''coverage_missing''"
| "GapCode_text GapCoverageNotDeclared = ''coverage_not_declared''"
| "GapCode_text GapFactsIncomplete = ''facts_incomplete''"
| "GapCode_text GapAmbiguousMatch = ''ambiguous_match''"
| "GapCode_text GapUnsupportedMatch = ''unsupported_match''"
| "GapCode_text GapNoOpportunityObservation = ''no_opportunity_observation''"
| "GapCode_text GapNoApplicableObservation = ''no_applicability_observation''"
| "GapCode_text GapSemanticExclusion = ''semantic_exclusion_not_deterministic''"
| "GapCode_text GapNoEditObserved = ''no_edit_observed''"
| "GapCode_text GapNoTaskOutcomeObservation = ''no_task_outcome_observation''"
| "GapCode_text GapObservationOnly = ''observation_only''"
| "GapCode_text GapEvidenceTruncated = ''evidence_truncated''"
| "GapCode_text (GapCode_other s) = s"

datatype FactResult =
    FactResultUnknown | FactResultSucceeded | FactResultFailed | FactResult_other string

fun FactResult_text :: "FactResult \<Rightarrow> string" where
  "FactResult_text FactResultUnknown = ''unknown''"
| "FactResult_text FactResultSucceeded = ''succeeded''"
| "FactResult_text FactResultFailed = ''failed''"
| "FactResult_text (FactResult_other s) = s"

fun FactResult_Valid :: "FactResult \<Rightarrow> bool" where
  "FactResult_Valid FactResultUnknown = True"
| "FactResult_Valid FactResultSucceeded = True"
| "FactResult_Valid FactResultFailed = True"
| "FactResult_Valid (FactResult_other s) = False"

interpretation FactResult_enum: string_enum
  "[FactResultUnknown, FactResultSucceeded, FactResultFailed]"
  FactResult_text FactResult_other FactResult_Valid
  by unfold_locales (auto elim: FactResult_Valid.elims)

section \<open>Facts, coverage and results\<close>

record Gap =
  gap_Component :: Component
  gap_Code :: GapCode
  gap_Coverage :: CoverageRequirement
  gap_ConditionKind :: DeterministicConditionKind

record CoverageEvidence =
  cove_Requirement :: CoverageRequirement
  cove_Evidence :: "EvidenceRef list"

record Coverage =
  cov_TranscriptComplete :: bool
  cov_CanonicalEventsComplete :: bool
  cov_WorkspaceStateCaptured :: bool
  cov_OutcomeObservationsComplete :: bool
  cov_Evidence :: "CoverageEvidence list"

record CoverageStatus =
  covs_Requirement :: CoverageRequirement
  covs_Complete :: bool

record Context =
  ctx_ProjectIdentity :: string
  ctx_SessionKey :: string
  ctx_Harness :: Harness
  ctx_Model :: string
  ctx_TaskFamilies :: "string list"
  ctx_RepositoryPaths :: "string list"
  ctx_CompleteConditionKinds :: "DeterministicConditionKind list"
  ctx_LastTurnIndex :: "int option"
  ctx_AsOf :: gotime
  ctx_Evidence :: "EvidenceRef list"

record NormalizedVerifier =
  nv_DeclaredCommand :: string
  nv_CommandSignature :: string
  nv_CommandScrubbingVersion :: string

record FactMeta =
  fm_Order :: int
  fm_Ambiguous :: bool
  fm_Evidence :: "EvidenceRef list"

record OpportunityFact =
  opf_FactMeta :: FactMeta
  opf_State :: OpportunityState

record ConditionFact =
  cf_FactMeta :: FactMeta
  cf_Kind :: DeterministicConditionKind
  cf_Values :: "string list"

record CommandFact =
  cmf_FactMeta :: FactMeta
  cmf_Signature :: string
  cmf_Class :: string
  cmf_Result :: FactResult

record FileChangeFact =
  fc_FactMeta :: FactMeta
  fc_Path :: string

record VerificationFact =
  vf_FactMeta :: FactMeta
  vf_CommandClass :: string
  vf_Result :: FactResult

record FailureFact =
  ff_FactMeta :: FactMeta
  ff_CommandClass :: string
  ff_NormalizedPattern :: string

record CorrectionFact =
  crf_FactMeta :: FactMeta
  crf_MarkerFamily :: string

record TaskOutcomeFact =
  tof_FactMeta :: FactMeta
  tof_State :: TaskOutcomeState

record Facts =
  facts_Opportunities :: "OpportunityFact list"
  facts_Conditions :: "ConditionFact list"
  facts_Commands :: "CommandFact list"
  facts_FileChanges :: "FileChangeFact list"
  facts_Verifications :: "VerificationFact list"
  facts_Failures :: "FailureFact list"
  facts_Corrections :: "CorrectionFact list"
  facts_TaskOutcomes :: "TaskOutcomeFact list"

record Input =
  inp_Application :: Application
  inp_Experience :: Experience
  inp_Context :: Context
  inp_Coverage :: Coverage
  inp_NormalizedVerifier :: NormalizedVerifier
  inp_Facts :: Facts

record CitedEvidence =
  cite_Component :: Component
  cite_Ref :: EvidenceRef

record Result =
  res_DerivationVersion :: string
  res_OpportunityState :: OpportunityState
  res_ApplicabilityState :: ApplicabilityState
  res_VerifierState :: VerifierState
  res_TaskOutcomeState :: TaskOutcomeState
  res_Coverage :: "CoverageStatus list"
  res_Gaps :: "Gap list"
  res_Evidence :: "CitedEvidence list"

section \<open>Limits\<close>

definition Version :: string where "Version = ''belay.experience-evaluate.v1''"
definition MaxFacts :: nat where "MaxFacts = 4096"
definition MaxEvidencePerFact :: nat where "MaxEvidencePerFact = 8"
definition MaxResultEvidence :: nat where "MaxResultEvidence = 64"
definition MaxResultGaps :: nat where "MaxResultGaps = 32"

fun Coverage_Complete :: "Coverage \<Rightarrow> CoverageRequirement \<Rightarrow> bool" where
  "Coverage_Complete value CoverageTranscriptComplete = cov_TranscriptComplete value"
| "Coverage_Complete value CoverageCanonicalComplete = cov_CanonicalEventsComplete value"
| "Coverage_Complete value CoverageWorkspaceCaptured = cov_WorkspaceStateCaptured value"
| "Coverage_Complete value CoverageOutcomesComplete = cov_OutcomeObservationsComplete value"
| "Coverage_Complete value (CoverageRequirement_other s) = False"

section \<open>JSON text\<close>

definition Gap_json :: "Gap \<Rightarrow> json" where
  "Gap_json g = JObj ([(''component'', JStr (Component_text (gap_Component g))),
       (''code'', JStr (GapCode_text (gap_Code g)))] @
     str_field ''coverage'' (CoverageRequirement_text (gap_Coverage g)) @
     str_field ''condition_kind'' (DeterministicConditionKind_text (gap_ConditionKind g)))"

definition CitedEvidence_json :: "CitedEvidence \<Rightarrow> json" where
  "CitedEvidence_json c = JObj [(''component'', JStr (Component_text (cite_Component c))),
     (''ref'', EvidenceRef_json (cite_Ref c))]"

end
