(* ===== verification/EvaluateInput.thy ===== *)
theory EvaluateInput
  imports EvaluateTypes
begin

text \<open>
  The checks of \<open>internal/experience/evaluate/evaluate.go\<close> on its input (\<open>validateInput\<close> and below)
  and its matchers. \<open>strings.ToLower\<close> is the parameter \<open>lower\<close> (it needs the case tables of Unicode).
\<close>

section \<open>Input checks\<close>

definition validateNormalizedString :: "string \<Rightarrow> string \<Rightarrow> bool \<Rightarrow> check" where
  "validateNormalizedString name value required =
     (if required \<and> value = [] then Some (Err (name @ '' is required''))
      else if value = [] then None
      else if value \<noteq> TrimSpace value \<or> 16 * 1024 < length value \<or> \<not> ValidString value
      then Some (Err (name @ '' is not normalized''))
      else reject_if (list_ex (\<lambda>c. byte c < 32 \<or> byte c = 127) value)
        (name @ '' contains control characters''))"

definition validateEvidence :: "Context \<Rightarrow> EvidenceRef list \<Rightarrow> nat \<Rightarrow> bool \<Rightarrow> check" where
  "validateEvidence context refs limit required =
     (if required \<and> refs = [] \<or> limit < length refs then Some (Err ''evidence is required and bounded'')
      else check_each (\<lambda>ref. first_error
        [wrap_error ''evidence reference'' (EvidenceRef_Validate ref),
         reject_if (eref_Kind ref = EvidenceTranscriptTurn \<and> eref_SessionKey ref \<noteq> ctx_SessionKey context)
           ''transcript evidence is outside the bound session'']) refs)"

definition validateFactMeta :: "Context \<Rightarrow> FactMeta \<Rightarrow> check" where
  "validateFactMeta context value = first_error
     [reject_if (fm_Order value < 0 \<or>
          (case ctx_LastTurnIndex context of None \<Rightarrow> False | Some l \<Rightarrow> l < fm_Order value))
        ''fact order is outside the bounded session'',
      validateEvidence context (fm_Evidence value) MaxEvidencePerFact True]"

definition file_path_check :: "string \<Rightarrow> check" where
  "file_path_check value = FileVerifierSpec_Validate \<lparr>fvs_Path = value\<rparr>"

definition opportunity_check :: "Context \<Rightarrow> OpportunityFact \<Rightarrow> check" where
  "opportunity_check context item = first_error
     [reject_if (\<not> OpportunityState_Valid (opf_State item)) ''opportunity fact state is invalid'',
      validateFactMeta context (opf_FactMeta item)]"

definition condition_check :: "Context \<Rightarrow> ConditionFact \<Rightarrow> check" where
  "condition_check context item = first_error
     [reject_if (\<not> DeterministicConditionKind_Valid (cf_Kind item) \<or> cf_Values item = [])
        ''condition fact is invalid'',
      validateFactMeta context (cf_FactMeta item),
      check_each (\<lambda>value. if cf_Kind item = ConditionPathPattern
        then wrap_error ''condition path fact'' (file_path_check value)
        else validateNormalizedString ''condition fact value'' value True) (cf_Values item)]"

definition command_check :: "(string \<Rightarrow> string) \<Rightarrow> Context \<Rightarrow> CommandFact \<Rightarrow> check" where
  "command_check lower context item = first_error
     [validateFactMeta context (cmf_FactMeta item),
      validateNormalizedString ''command signature'' (cmf_Signature item) True,
      reject_if (lower (cmf_Signature item) \<noteq> cmf_Signature item) ''command signature must be lowercase'',
      validateNormalizedString ''command class'' (cmf_Class item) False,
      reject_if (\<not> FactResult_Valid (cmf_Result item)) ''command fact result is invalid'']"

definition file_change_check :: "Context \<Rightarrow> FileChangeFact \<Rightarrow> check" where
  "file_change_check context item = first_error
     [validateFactMeta context (fc_FactMeta item),
      wrap_error ''file change path'' (file_path_check (fc_Path item))]"

definition verification_check :: "Context \<Rightarrow> VerificationFact \<Rightarrow> check" where
  "verification_check context item = first_error
     [validateFactMeta context (vf_FactMeta item),
      validateNormalizedString ''verification command class'' (vf_CommandClass item) True,
      reject_if (\<not> FactResult_Valid (vf_Result item)) ''verification fact result is invalid'']"

definition failure_check :: "Context \<Rightarrow> FailureFact \<Rightarrow> check" where
  "failure_check context item = first_error
     [validateFactMeta context (ff_FactMeta item),
      validateNormalizedString ''failure command class'' (ff_CommandClass item) True,
      validateNormalizedString ''normalized failure pattern'' (ff_NormalizedPattern item) True]"

definition correction_check :: "Context \<Rightarrow> CorrectionFact \<Rightarrow> check" where
  "correction_check context item = first_error
     [validateFactMeta context (crf_FactMeta item),
      validateNormalizedString ''correction marker family'' (crf_MarkerFamily item) True]"

definition task_outcome_check :: "Context \<Rightarrow> TaskOutcomeFact \<Rightarrow> check" where
  "task_outcome_check context item = first_error
     [reject_if (\<not> TaskOutcomeState_Valid (tof_State item)) ''task outcome fact state is invalid'',
      validateFactMeta context (tof_FactMeta item)]"

definition validateFacts :: "(string \<Rightarrow> string) \<Rightarrow> Context \<Rightarrow> Facts \<Rightarrow> check" where
  "validateFacts lower context facts = first_error
     [reject_if (MaxFacts < length (facts_Opportunities facts) + length (facts_Conditions facts) +
          length (facts_Commands facts) + length (facts_FileChanges facts) +
          length (facts_Verifications facts) + length (facts_Failures facts) +
          length (facts_Corrections facts) + length (facts_TaskOutcomes facts))
        ''fact count exceeds bound'',
      check_each (opportunity_check context) (facts_Opportunities facts),
      check_each (condition_check context) (facts_Conditions facts),
      check_each (command_check lower context) (facts_Commands facts),
      check_each (file_change_check context) (facts_FileChanges facts),
      check_each (verification_check context) (facts_Verifications facts),
      check_each (failure_check context) (facts_Failures facts),
      check_each (correction_check context) (facts_Corrections facts),
      check_each (task_outcome_check context) (facts_TaskOutcomes facts)]"

fun check_coverage_evidence ::
  "Context \<Rightarrow> CoverageRequirement set \<Rightarrow> CoverageEvidence list \<Rightarrow> check" where
  "check_coverage_evidence context seen [] = None"
| "check_coverage_evidence context seen (item # items) = first_error
     [reject_if (\<not> CoverageRequirement_Valid (cove_Requirement item) \<or> cove_Requirement item \<in> seen)
        ''coverage evidence requirement is invalid or duplicated'',
      wrap_error ''coverage evidence''
        (validateEvidence context (cove_Evidence item) MaxEvidencePerFact True),
      check_coverage_evidence context (insert (cove_Requirement item) seen) items]"

definition validateCoverageEvidence :: "Context \<Rightarrow> Coverage \<Rightarrow> check" where
  "validateCoverageEvidence context value = check_coverage_evidence context {} (cov_Evidence value)"

definition validateNormalizedVerifier :: "(string \<Rightarrow> string) \<Rightarrow> Verifier \<Rightarrow> NormalizedVerifier \<Rightarrow> check" where
  "validateNormalizedVerifier lower verifier normalized =
     (if ver_Kind verifier \<noteq> VerifierCommandObserved \<and> ver_Kind verifier \<noteq> VerifierCommandSucceeded
      then reject_if (nv_DeclaredCommand normalized \<noteq> [] \<or> nv_CommandSignature normalized \<noteq> [] \<or>
          nv_CommandScrubbingVersion normalized \<noteq> []) ''non-command verifier has command matcher''
      else if nv_DeclaredCommand normalized = [] \<and> nv_CommandSignature normalized = [] \<and>
          nv_CommandScrubbingVersion normalized = [] then None
      else case ver_Command verifier of
          None \<Rightarrow> Some (Panic ''nil pointer dereference'')
        | Some command \<Rightarrow> first_error
            [reject_if (nv_DeclaredCommand normalized \<noteq> cvs_Command command)
               ''normalized command matcher is not bound to declared command'',
             validateNormalizedString ''declared command'' (nv_DeclaredCommand normalized) True,
             validateNormalizedString ''normalized command signature'' (nv_CommandSignature normalized) True,
             reject_if (lower (nv_CommandSignature normalized) \<noteq> nv_CommandSignature normalized)
               ''normalized command signature must be lowercase'',
             validateNormalizedString ''command scrubbing version''
               (nv_CommandScrubbingVersion normalized) True])"

fun check_condition_kinds ::
  "DeterministicConditionKind set \<Rightarrow> DeterministicConditionKind list \<Rightarrow> check" where
  "check_condition_kinds seen [] = None"
| "check_condition_kinds seen (kind # kinds) =
     (if \<not> DeterministicConditionKind_Valid kind \<or> kind \<in> seen
      then Some (Err ''complete condition kinds are invalid or duplicated'')
      else check_condition_kinds (insert kind seen) kinds)"

definition binding_check :: "Input \<Rightarrow> check" where
  "binding_check input =
     (let application = inp_Application input; experience = inp_Experience input; context = inp_Context input
      in first_error
       [reject_if (app_DeliveryState application \<noteq> DeliveryDelivered) ''application is not delivered'',
        reject_if (xref_ExperienceID (app_Experience application) \<noteq> xp_ExperienceID experience \<or>
            xref_Version (app_Experience application) \<noteq> xp_Version experience)
          ''application experience version is not exact'',
        reject_if (app_ProjectIdentity application \<noteq> scope_ProjectIdentity (xp_Scope experience) \<or>
            ctx_ProjectIdentity context \<noteq> app_ProjectIdentity application)
          ''project binding does not match'',
        reject_if (ctx_SessionKey context \<noteq> app_SessionKey application) ''session binding does not match'',
        reject_if (scope_Kind (xp_Scope experience) = ScopeSession \<and>
            scope_SessionKey (xp_Scope experience) \<noteq> app_SessionKey application)
          ''session-scoped experience does not match application'',
        if IsZero (ctx_AsOf context) then Some (Err ''evaluation time is invalid'')
        else case app_DeliveredAt application of
            None \<Rightarrow> Some (Panic ''nil pointer dereference'')
          | Some delivered \<Rightarrow> reject_if (Before (ctx_AsOf context) delivered) ''evaluation time is invalid''])"

definition context_check :: "Context \<Rightarrow> check" where
  "context_check context = first_error
     [reject_if (Harness_text (ctx_Harness context) \<noteq> [] \<and> \<not> Harness_Valid (ctx_Harness context))
        ''context harness is invalid'',
      validateNormalizedString ''context model'' (ctx_Model context) False,
      check_each (\<lambda>value. validateNormalizedString ''context task family'' value True)
        (ctx_TaskFamilies context),
      check_each (\<lambda>value. wrap_error ''context repository path'' (file_path_check value))
        (ctx_RepositoryPaths context),
      check_condition_kinds {} (ctx_CompleteConditionKinds context),
      reject_if (case ctx_LastTurnIndex context of None \<Rightarrow> False | Some l \<Rightarrow> l < 0)
        ''last turn index is invalid'',
      wrap_error ''context evidence''
        (validateEvidence context (ctx_Evidence context) MaxEvidencePerFact False)]"

definition validateInput :: "(string \<Rightarrow> string) \<Rightarrow> Input \<Rightarrow> check" where
  "validateInput lower input = first_error
     [wrap_error ''application'' (Application_Validate (inp_Application input)),
      wrap_error ''experience'' (Experience_Validate (inp_Experience input)),
      binding_check input,
      context_check (inp_Context input),
      validateCoverageEvidence (inp_Context input) (inp_Coverage input),
      validateNormalizedVerifier lower (xp_Verifier (inp_Experience input)) (inp_NormalizedVerifier input),
      validateFacts lower (inp_Context input) (inp_Facts input)]"

section \<open>Matchers\<close>

definition safeRelativePath :: "string \<Rightarrow> bool" where
  "safeRelativePath value \<longleftrightarrow> file_path_check value = None"

definition safePattern :: "string \<Rightarrow> bool" where
  "safePattern value \<longleftrightarrow> PathPatternVerifierSpec_Validate \<lparr>pps_Patterns = [value]\<rparr> = None \<and>
     path_Clean value = value"

text \<open>The inner loop: \<open>None\<close> when no path of the list matches, \<open>Some b\<close> when it returns \<open>b\<close>.\<close>

fun match_paths :: "string \<Rightarrow> string list \<Rightarrow> bool option" where
  "match_paths pattern [] = None"
| "match_paths pattern (value # rest) =
     (if \<not> safeRelativePath value then Some False
      else if RelativePathPatternMatches pattern value then Some True else match_paths pattern rest)"

fun matchAnyPath :: "string list \<Rightarrow> string list \<Rightarrow> bool" where
  "matchAnyPath [] paths = False"
| "matchAnyPath (pattern # patterns) paths =
     (if \<not> safePattern pattern then False
      else case match_paths pattern paths of Some b \<Rightarrow> b | None \<Rightarrow> matchAnyPath patterns paths)"

definition overlap :: "'a list \<Rightarrow> 'a list \<Rightarrow> bool" where
  "overlap left right = list_ex (\<lambda>value. value \<in> set right) left"

definition conditionValuesMatch :: "DeterministicCondition \<Rightarrow> string list \<Rightarrow> bool" where
  "conditionValuesMatch condition factValues =
     (case cond_Kind condition of
        ConditionPathPattern \<Rightarrow> matchAnyPath (cond_Values condition) factValues
      | ConditionPriorEventSequence \<Rightarrow> cond_Values condition = factValues
      | _ \<Rightarrow> overlap (cond_Values condition) factValues)"

text \<open>
  The loop over facts that several evaluators share: the evidence of the matching facts that are not
  ambiguous, and whether a matching one is.
\<close>

fun collect :: "('f \<Rightarrow> bool) \<Rightarrow> ('f \<Rightarrow> FactMeta) \<Rightarrow> 'f list \<Rightarrow> bool \<times> EvidenceRef list" where
  "collect matches meta [] = (False, [])"
| "collect matches meta (item # facts) =
     (let (ambiguous, evidence) = collect matches meta facts
      in if \<not> matches item then (ambiguous, evidence)
         else if fm_Ambiguous (meta item) then (True, evidence)
         else (ambiguous, fm_Evidence (meta item) @ evidence))"

definition matchCondition ::
  "DeterministicCondition \<Rightarrow> ConditionFact list \<Rightarrow> bool \<times> bool \<times> EvidenceRef list" where
  "matchCondition condition facts =
     (let (ambiguous, evidence) = collect (\<lambda>item. cf_Kind item = cond_Kind condition \<and>
        conditionValuesMatch condition (cf_Values item)) cf_FactMeta facts
      in (evidence \<noteq> [], ambiguous, evidence))"

section \<open>Coverage\<close>

definition declaredCoverage :: "Verifier \<Rightarrow> CoverageRequirement \<Rightarrow> bool" where
  "declaredCoverage verifier requirement \<longleftrightarrow> requirement \<in> set (ver_CoverageRequirements verifier)"

definition coverageEvidence :: "Coverage \<Rightarrow> CoverageRequirement \<Rightarrow> EvidenceRef list" where
  "coverageEvidence coverage requirement =
     (case find (\<lambda>item. cove_Requirement item = requirement) (cov_Evidence coverage) of
        None \<Rightarrow> [] | Some item \<Rightarrow> cove_Evidence item)"

definition fileAbsenceEvidence :: "Input \<Rightarrow> EvidenceRef list" where
  "fileAbsenceEvidence input = concat (map
     (\<lambda>requirement. if declaredCoverage (xp_Verifier (inp_Experience input)) requirement
        then coverageEvidence (inp_Coverage input) requirement else [])
     [CoverageWorkspaceCaptured, CoverageCanonicalComplete])"

definition fileAbsenceCoverageDeclared :: "Verifier \<Rightarrow> bool" where
  "fileAbsenceCoverageDeclared verifier \<longleftrightarrow>
     declaredCoverage verifier CoverageWorkspaceCaptured \<or>
     declaredCoverage verifier CoverageCanonicalComplete"

definition normalizedCoverageRequirements :: "CoverageRequirement list \<Rightarrow> CoverageRequirement list" where
  "normalizedCoverageRequirements values = sort_compact CoverageRequirement_text values"

definition verifierCoverageEvidence :: "Input \<Rightarrow> EvidenceRef list" where
  "verifierCoverageEvidence input = concat (map (coverageEvidence (inp_Coverage input))
     (normalizedCoverageRequirements (ver_CoverageRequirements (xp_Verifier (inp_Experience input)))))"

end
