(* ===== verification/Evaluate.thy ===== *)
theory Evaluate
  imports EvaluateInput
begin

text \<open>
  The deterministic evaluation of \<open>internal/experience/evaluate/evaluate.go\<close>. The builder is the
  result under construction and is passed along; an evaluator returns its verdict with the new builder,
  \<open>None\<close> stands for a nil dereference.
\<close>

section \<open>The builder\<close>

definition no_coverage :: CoverageRequirement where "no_coverage = CoverageRequirement_other []"
definition no_kind :: DeterministicConditionKind where "no_kind = DeterministicConditionKind_other []"

definition gap :: "Component \<Rightarrow> GapCode \<Rightarrow> Gap" where
  "gap c code = \<lparr>gap_Component = c, gap_Code = code, gap_Coverage = no_coverage,
     gap_ConditionKind = no_kind\<rparr>"

definition addGap :: "Gap \<Rightarrow> Result \<Rightarrow> Result" where
  "addGap value builder = builder\<lparr>res_Gaps := res_Gaps builder @ [value]\<rparr>"

definition addEvidence :: "Component \<Rightarrow> EvidenceRef list \<Rightarrow> Result \<Rightarrow> Result" where
  "addEvidence c refs builder = builder\<lparr>res_Evidence := res_Evidence builder @
     map (\<lambda>ref. \<lparr>cite_Component = c, cite_Ref = ref\<rparr>) refs\<rparr>"

definition verifier_unknown :: "GapCode \<Rightarrow> Result \<Rightarrow> VerifierState \<times> Result" where
  "verifier_unknown code builder = (VerifierUnknown, addGap (gap ComponentVerifier code) builder)"

definition verifier_decided :: "VerifierState \<Rightarrow> EvidenceRef list \<Rightarrow> Result \<Rightarrow> VerifierState \<times> Result" where
  "verifier_decided state evidence builder = (state, addEvidence ComponentVerifier evidence builder)"

definition transcript_undeclared :: "Result \<Rightarrow> VerifierState \<times> Result" where
  "transcript_undeclared builder = (VerifierUnknown, addGap
     ((gap ComponentVerifier GapCoverageNotDeclared)\<lparr>gap_Coverage := CoverageTranscriptComplete\<rparr>) builder)"

section \<open>Opportunity and task outcome\<close>

text \<open>The state all facts agree on; none when one is ambiguous or two differ.\<close>

definition agreed :: "('f \<Rightarrow> FactMeta) \<Rightarrow> ('f \<Rightarrow> 's) \<Rightarrow> 'f list \<Rightarrow> 's option" where
  "agreed meta state facts =
     (if list_ex (\<lambda>f. fm_Ambiguous (meta f)) facts then None
      else case remdups (map state facts) of [s] \<Rightarrow> Some s | _ \<Rightarrow> None)"

definition all_evidence :: "('f \<Rightarrow> FactMeta) \<Rightarrow> 'f list \<Rightarrow> EvidenceRef list" where
  "all_evidence meta facts = concat (map (\<lambda>f. fm_Evidence (meta f)) facts)"

definition evaluateOpportunity :: "OpportunityFact list \<Rightarrow> Result \<Rightarrow> OpportunityState \<times> Result" where
  "evaluateOpportunity facts builder =
     (if facts = [] then
        (OpportunityUnknown, addGap (gap ComponentOpportunity GapNoOpportunityObservation) builder)
      else case agreed opf_FactMeta opf_State facts of
          None \<Rightarrow> (OpportunityUnknown, addGap (gap ComponentOpportunity GapAmbiguousMatch) builder)
        | Some state \<Rightarrow>
            (state, addEvidence ComponentOpportunity (all_evidence opf_FactMeta facts) builder))"

definition evaluateTaskOutcome :: "Input \<Rightarrow> Result \<Rightarrow> TaskOutcomeState \<times> Result" where
  "evaluateTaskOutcome input builder =
     (let facts = facts_TaskOutcomes (inp_Facts input) in
      if facts = [] then
        (TaskOutcomeUnknown, addGap (gap ComponentTaskOutcome GapNoTaskOutcomeObservation) builder)
      else case agreed tof_FactMeta tof_State facts of
          None \<Rightarrow> (TaskOutcomeUnknown, addGap (gap ComponentTaskOutcome GapAmbiguousMatch) builder)
        | Some state \<Rightarrow>
            (state, addEvidence ComponentTaskOutcome (all_evidence tof_FactMeta facts) builder))"

section \<open>Applicability\<close>

definition applicabilityDecision ::
  "ApplicabilityState \<Rightarrow> EvidenceRef list \<Rightarrow> Result \<Rightarrow> ApplicabilityState \<times> Result" where
  "applicabilityDecision state evidence builder =
     (if evidence = []
      then (ApplicabilityUnknown, addGap (gap ComponentApplicability GapFactsIncomplete) builder)
      else (state, addEvidence ComponentApplicability evidence builder))"

definition kind_gap :: "GapCode \<Rightarrow> DeterministicConditionKind \<Rightarrow> Gap" where
  "kind_gap code kind = (gap ComponentApplicability code)\<lparr>gap_ConditionKind := kind\<rparr>"

text \<open>
  The loop over the conditions: \<open>Inl\<close> when a condition rules the experience out, otherwise whether
  something stayed unknown.
\<close>

fun evaluate_conditions ::
  "Input \<Rightarrow> DeterministicCondition list \<Rightarrow> bool \<Rightarrow> Result \<Rightarrow> Result + (bool \<times> Result)" where
  "evaluate_conditions input [] unknown builder = Inr (unknown, builder)"
| "evaluate_conditions input (condition # rest) unknown builder =
     (case matchCondition condition (facts_Conditions (inp_Facts input)) of
        (_, True, _) \<Rightarrow> evaluate_conditions input rest True
          (addGap (kind_gap GapAmbiguousMatch (cond_Kind condition)) builder)
      | (True, False, evidence) \<Rightarrow> evaluate_conditions input rest unknown
          (addEvidence ComponentApplicability evidence builder)
      | (False, False, _) \<Rightarrow>
          if cond_Kind condition \<in> set (ctx_CompleteConditionKinds (inp_Context input)) then Inl builder
          else evaluate_conditions input rest True
            (addGap (kind_gap GapFactsIncomplete (cond_Kind condition)) builder))"

text \<open>A scope list that does not contain the value of the context; an absent value is no mismatch.\<close>

definition context_evidence :: "Input \<Rightarrow> EvidenceRef list" where
  "context_evidence input =
     (if ctx_Evidence (inp_Context input) = [] then app_SourceEvidence (inp_Application input)
      else ctx_Evidence (inp_Context input))"

definition ruled_out :: "Input \<Rightarrow> bool" where
  "ruled_out input \<longleftrightarrow>
     (let value = inp_Experience input; scope = xp_Scope value; context = inp_Context input in
      (case appl_ExpiresAt (xp_Applicability value) of None \<Rightarrow> False
       | Some expiry \<Rightarrow> \<not> Before (ctx_AsOf context) expiry) \<or>
      scope_Harnesses scope \<noteq> [] \<and> Harness_text (ctx_Harness context) \<noteq> [] \<and>
        ctx_Harness context \<notin> set (scope_Harnesses scope) \<or>
      scope_Models scope \<noteq> [] \<and> ctx_Model context \<noteq> [] \<and> ctx_Model context \<notin> set (scope_Models scope) \<or>
      scope_TaskFamilies scope \<noteq> [] \<and> ctx_TaskFamilies context \<noteq> [] \<and>
        \<not> overlap (scope_TaskFamilies scope) (ctx_TaskFamilies context))"

definition scope_unknown :: "Input \<Rightarrow> bool" where
  "scope_unknown input \<longleftrightarrow>
     (let scope = xp_Scope (inp_Experience input); context = inp_Context input in
      scope_Harnesses scope \<noteq> [] \<and> Harness_text (ctx_Harness context) = [] \<or>
      scope_Models scope \<noteq> [] \<and> ctx_Model context = [] \<or>
      scope_TaskFamilies scope \<noteq> [] \<and> ctx_TaskFamilies context = [])"

definition paths_unmatched :: "Input \<Rightarrow> bool" where
  "paths_unmatched input \<longleftrightarrow>
     scope_RepositoryPaths (xp_Scope (inp_Experience input)) \<noteq> [] \<and>
     \<not> matchAnyPath (scope_RepositoryPaths (xp_Scope (inp_Experience input)))
       (ctx_RepositoryPaths (inp_Context input))"

definition evaluateApplicability :: "Input \<Rightarrow> Result \<Rightarrow> ApplicabilityState \<times> Result" where
  "evaluateApplicability input builder =
     (let value = inp_Experience input; evidence = context_evidence input;
          not_applicable = applicabilityDecision ApplicabilityNotApplicable evidence
      in if ruled_out input then not_applicable builder
         else if paths_unmatched input \<and>
            ConditionPathPattern \<in> set (ctx_CompleteConditionKinds (inp_Context input))
         then not_applicable builder
         else
           let b1 = (if paths_unmatched input
                     then addGap (kind_gap GapFactsIncomplete ConditionPathPattern) builder else builder)
           in case evaluate_conditions input (appl_DeterministicConditions (xp_Applicability value))
                  (scope_unknown input \<or> paths_unmatched input) b1 of
               Inl b2 \<Rightarrow> not_applicable b2
             | Inr (unknown, b2) \<Rightarrow>
                 let excluded = (appl_Exclusions (xp_Applicability value) \<noteq> []);
                     b3 = (if excluded then addGap (gap ComponentApplicability GapSemanticExclusion) b2 else b2)
                 in if unknown \<or> excluded
                    then (ApplicabilityUnknown,
                      addGap (gap ComponentApplicability GapNoApplicableObservation) b3)
                    else applicabilityDecision ApplicabilityApplicable evidence b3)"

section \<open>Verifiers\<close>

text \<open>The loop over results: an early success, else whether a failure and whether an unknown was seen.\<close>

fun scan_results :: "FactResult list \<Rightarrow> bool \<Rightarrow> bool \<Rightarrow> bool \<times> bool \<times> bool" where
  "scan_results [] hasFailure hasUnknown = (False, hasFailure, hasUnknown)"
| "scan_results (r # rs) hasFailure hasUnknown =
     (case r of
        FactResultSucceeded \<Rightarrow> (True, hasFailure, hasUnknown)
      | FactResultFailed \<Rightarrow> scan_results rs True hasUnknown
      | _ \<Rightarrow> scan_results rs hasFailure True)"

definition judge_results :: "FactResult list \<Rightarrow> EvidenceRef list \<Rightarrow> Result \<Rightarrow> VerifierState \<times> Result" where
  "judge_results results evidence builder =
     (case scan_results results False False of
        (True, _, _) \<Rightarrow> verifier_decided VerifierSatisfied evidence builder
      | (False, _, True) \<Rightarrow> verifier_unknown GapFactsIncomplete builder
      | (False, True, False) \<Rightarrow> verifier_decided VerifierViolated evidence builder
      | (False, False, False) \<Rightarrow> (VerifierUnknown, builder))"

text \<open>Nothing matched: a violation only when the transcript is known to be complete.\<close>

definition nothing_matched :: "Input \<Rightarrow> EvidenceRef list \<Rightarrow> Result \<Rightarrow> VerifierState \<times> Result" where
  "nothing_matched input lead builder =
     (if declaredCoverage (xp_Verifier (inp_Experience input)) CoverageTranscriptComplete then
        (let evidence = coverageEvidence (inp_Coverage input) CoverageTranscriptComplete in
         if evidence \<noteq> [] then verifier_decided VerifierViolated (lead @ evidence) builder
         else verifier_unknown GapFactsIncomplete builder)
      else transcript_undeclared builder)"

fun conflicting :: "('f \<Rightarrow> 'f \<Rightarrow> bool) \<Rightarrow> 'f list \<Rightarrow> bool" where
  "conflicting clash [] = False"
| "conflicting clash (x # xs) = (list_ex (clash x) xs \<or> conflicting clash xs)"

definition commandFactsConflict :: "CommandFact list \<Rightarrow> bool" where
  "commandFactsConflict values = conflicting (\<lambda>a b.
     fm_Order (cmf_FactMeta a) = fm_Order (cmf_FactMeta b) \<and> cmf_Result a \<noteq> cmf_Result b) values"

definition verificationFactsConflict :: "VerificationFact list \<Rightarrow> bool" where
  "verificationFactsConflict values = conflicting (\<lambda>a b.
     fm_Order (vf_FactMeta a) = fm_Order (vf_FactMeta b) \<and> vf_CommandClass a = vf_CommandClass b \<and>
     vf_Result a \<noteq> vf_Result b) values"

text \<open>The matching commands, and whether a command with the signature could not be used.\<close>

fun matching_commands :: "string \<Rightarrow> string \<Rightarrow> CommandFact list \<Rightarrow> bool \<times> CommandFact list" where
  "matching_commands signature class [] = (False, [])"
| "matching_commands signature class (f # fs) =
     (let (ambiguous, matches) = matching_commands signature class fs
      in if cmf_Signature f \<noteq> signature then (ambiguous, matches)
         else if class \<noteq> [] \<and> cmf_Class f \<noteq> class then (True, matches)
         else if fm_Ambiguous (cmf_FactMeta f) then (True, matches)
         else (ambiguous, f # matches))"

definition evaluateCommand :: "bool \<Rightarrow> Input \<Rightarrow> Result \<Rightarrow> (VerifierState \<times> Result) option" where
  "evaluateCommand requireSuccess input builder =
     (let normalized = inp_NormalizedVerifier input in
      if nv_CommandSignature normalized = [] then Some (verifier_unknown GapUnsupportedMatch builder)
      else case ver_Command (xp_Verifier (inp_Experience input)) of
          None \<Rightarrow> None
        | Some spec \<Rightarrow> Some
            (if nv_CommandScrubbingVersion normalized \<noteq> cvs_ScrubbingVersion spec
             then verifier_unknown GapUnsupportedMatch builder
             else
               let (ambiguous, matches) = matching_commands (nv_CommandSignature normalized)
                     (cvs_CommandClass spec) (facts_Commands (inp_Facts input))
               in if ambiguous \<or> commandFactsConflict matches then verifier_unknown GapAmbiguousMatch builder
                  else if matches = [] then nothing_matched input [] builder
                  else if \<not> requireSuccess
                  then verifier_decided VerifierSatisfied (all_evidence cmf_FactMeta matches) builder
                  else judge_results (map cmf_Result matches) (all_evidence cmf_FactMeta matches) builder))"

text \<open>What the absence of a change to a file means, for both file verifiers and the path patterns.\<close>

definition file_absence :: "Input \<Rightarrow> VerifierState \<Rightarrow> Result \<Rightarrow> VerifierState \<times> Result" where
  "file_absence input verdict builder =
     (if \<not> fileAbsenceCoverageDeclared (xp_Verifier (inp_Experience input))
      then verifier_unknown GapCoverageNotDeclared builder
      else if fileAbsenceEvidence input = [] then verifier_unknown GapFactsIncomplete builder
      else verifier_decided verdict (fileAbsenceEvidence input) builder)"

definition evaluateFile :: "bool \<Rightarrow> Input \<Rightarrow> Result \<Rightarrow> (VerifierState \<times> Result) option" where
  "evaluateFile wantModified input builder =
     (case ver_File (xp_Verifier (inp_Experience input)) of
        None \<Rightarrow> None
      | Some spec \<Rightarrow> Some
          (let (ambiguous, evidence) = collect (\<lambda>f. fc_Path f = fvs_Path spec) fc_FactMeta
                 (facts_FileChanges (inp_Facts input))
           in if ambiguous then verifier_unknown GapAmbiguousMatch builder
              else if evidence \<noteq> [] then verifier_decided
                (if wantModified then VerifierSatisfied else VerifierViolated) evidence builder
              else file_absence input (if wantModified then VerifierViolated else VerifierSatisfied) builder))"

text \<open>The patterns are read only when there is a file change to compare.\<close>

definition evaluatePathPattern :: "Input \<Rightarrow> Result \<Rightarrow> (VerifierState \<times> Result) option" where
  "evaluatePathPattern input builder =
     (let changes = facts_FileChanges (inp_Facts input);
          patterns = (case ver_PathPattern (xp_Verifier (inp_Experience input)) of
            None \<Rightarrow> if changes = [] then Some [] else None | Some spec \<Rightarrow> Some (pps_Patterns spec))
      in map_option (\<lambda>patterns.
          let (ambiguous, evidence) = collect (\<lambda>f. matchAnyPath patterns [fc_Path f]) fc_FactMeta changes
          in if ambiguous then verifier_unknown GapAmbiguousMatch builder
             else if evidence \<noteq> [] then verifier_decided VerifierViolated evidence builder
             else file_absence input VerifierSatisfied builder) patterns)"

text \<open>The order of the last edit and the evidence of the edits there; \<open>None\<close> at an ambiguous edit.\<close>

fun last_edit :: "FileChangeFact list \<Rightarrow> int \<Rightarrow> EvidenceRef list \<Rightarrow> (int \<times> EvidenceRef list) option" where
  "last_edit [] latest evidence = Some (latest, evidence)"
| "last_edit (f # fs) latest evidence =
     (let meta = fc_FactMeta f in
      if fm_Ambiguous meta then None
      else if latest < fm_Order meta then last_edit fs (fm_Order meta) (fm_Evidence meta)
      else if fm_Order meta = latest then last_edit fs latest (evidence @ fm_Evidence meta)
      else last_edit fs latest evidence)"

text \<open>The verifications after it; \<open>None\<close> at an ambiguous one.\<close>

fun later_verifications ::
  "string list \<Rightarrow> int \<Rightarrow> VerificationFact list \<Rightarrow> VerificationFact list option" where
  "later_verifications classes latest [] = Some []"
| "later_verifications classes latest (f # fs) =
     (if fm_Order (vf_FactMeta f) \<le> latest \<or> classes \<noteq> [] \<and> vf_CommandClass f \<notin> set classes
      then later_verifications classes latest fs
      else if fm_Ambiguous (vf_FactMeta f) then None
      else map_option (\<lambda>ms. f # ms) (later_verifications classes latest fs))"

definition evaluateVerificationAfterLastEdit ::
  "Input \<Rightarrow> Result \<Rightarrow> (VerifierState \<times> Result) option" where
  "evaluateVerificationAfterLastEdit input builder =
     (case last_edit (facts_FileChanges (inp_Facts input)) (- 1) [] of
        None \<Rightarrow> Some (verifier_unknown GapAmbiguousMatch builder)
      | Some (latest, editEvidence) \<Rightarrow>
        if latest < 0 then Some (verifier_unknown GapNoEditObserved builder)
        else case ver_VerificationAfterLastEdit (xp_Verifier (inp_Experience input)) of
            None \<Rightarrow>
              if list_ex (\<lambda>f. latest < fm_Order (vf_FactMeta f)) (facts_Verifications (inp_Facts input))
              then None else Some (nothing_matched input editEvidence builder)
          | Some spec \<Rightarrow> Some
              (case later_verifications (vle_CommandClasses spec) latest
                  (facts_Verifications (inp_Facts input)) of
                 None \<Rightarrow> verifier_unknown GapAmbiguousMatch builder
               | Some matches \<Rightarrow>
                 let evidence = editEvidence @ all_evidence vf_FactMeta matches
                 in if verificationFactsConflict matches then verifier_unknown GapAmbiguousMatch builder
                    else if matches = [] then nothing_matched input editEvidence builder
                    else if \<not> vle_RequireSuccess spec
                    then verifier_decided VerifierSatisfied evidence builder
                    else judge_results (map vf_Result matches) evidence builder))"

text \<open>Two neighbours in the sorted orders that are at most the window apart (64-bit subtraction).\<close>

fun repeat_within :: "int \<Rightarrow> int list \<Rightarrow> bool" where
  "repeat_within window (a # b # rest) =
     (if window < sub64 b a then repeat_within window (b # rest) else True)"
| "repeat_within window _ = False"

definition same_failure :: "NoRepeatFailureSpec \<Rightarrow> FailureFact \<Rightarrow> bool" where
  "same_failure spec f \<longleftrightarrow> ff_CommandClass f = nrf_CommandClass spec \<and>
     ff_NormalizedPattern f = nrf_NormalizedPattern spec"

definition judge_failures :: "Input \<Rightarrow> int \<Rightarrow> FailureFact list \<Rightarrow> Result \<Rightarrow> VerifierState \<times> Result" where
  "judge_failures input window matches builder =
     (let evidence = all_evidence ff_FactMeta matches;
          b1 = addEvidence ComponentVerifier evidence builder
      in if list_ex (\<lambda>f. fm_Ambiguous (ff_FactMeta f)) matches then verifier_unknown GapAmbiguousMatch b1
         else if repeat_within window (sort (map (\<lambda>f. fm_Order (ff_FactMeta f)) matches))
         then (VerifierViolated, b1)
         else if \<not> declaredCoverage (xp_Verifier (inp_Experience input)) CoverageTranscriptComplete
         then transcript_undeclared b1
         else if \<not> Coverage_Complete (inp_Coverage input) CoverageTranscriptComplete
         then verifier_unknown GapFactsIncomplete b1
         else
           let coverage = coverageEvidence (inp_Coverage input) CoverageTranscriptComplete
           in if coverage = [] then verifier_unknown GapFactsIncomplete b1
              else verifier_decided VerifierSatisfied coverage b1)"

definition evaluateNoRepeatFailure :: "Input \<Rightarrow> Result \<Rightarrow> (VerifierState \<times> Result) option" where
  "evaluateNoRepeatFailure input builder =
     (if ctx_LastTurnIndex (inp_Context input) = None
      then Some (verifier_unknown GapFactsIncomplete builder)
      else case ver_NoRepeatFailure (xp_Verifier (inp_Experience input)) of
          None \<Rightarrow> if facts_Failures (inp_Facts input) \<noteq> [] then None
            else Some (judge_failures input 0 [] builder)
        | Some spec \<Rightarrow> Some (judge_failures input (nrf_WindowTurns spec)
            (filter (same_failure spec) (facts_Failures (inp_Facts input))) builder))"

definition evaluateUserCorrectionAbsent :: "Input \<Rightarrow> Result \<Rightarrow> (VerifierState \<times> Result) option" where
  "evaluateUserCorrectionAbsent input builder =
     (let corrections = facts_Corrections (inp_Facts input);
          families = (case ver_UserCorrectionAbsent (xp_Verifier (inp_Experience input)) of
            None \<Rightarrow> if corrections = [] then Some [] else None | Some spec \<Rightarrow> Some (uca_MarkerFamilies spec))
      in map_option (\<lambda>families.
          let (ambiguous, evidence) = collect (\<lambda>f. families = [] \<or> crf_MarkerFamily f \<in> set families)
                crf_FactMeta corrections;
              coverage = coverageEvidence (inp_Coverage input) CoverageTranscriptComplete
          in if ambiguous then verifier_unknown GapAmbiguousMatch builder
             else if evidence \<noteq> [] then verifier_decided VerifierViolated evidence builder
             else if \<not> declaredCoverage (xp_Verifier (inp_Experience input)) CoverageTranscriptComplete
             then transcript_undeclared builder
             else if coverage = [] then verifier_unknown GapFactsIncomplete builder
             else verifier_decided VerifierSatisfied coverage builder) families)"

fun verifier_for :: "VerifierKind \<Rightarrow> Input \<Rightarrow> Result \<Rightarrow> (VerifierState \<times> Result) option" where
  "verifier_for VerifierCommandObserved = evaluateCommand False"
| "verifier_for VerifierCommandSucceeded = evaluateCommand True"
| "verifier_for VerifierFileNotModified = evaluateFile False"
| "verifier_for VerifierFileModified = evaluateFile True"
| "verifier_for VerifierPathPatternNotModified = evaluatePathPattern"
| "verifier_for VerifierVerificationAfterLastEdit = evaluateVerificationAfterLastEdit"
| "verifier_for VerifierNoRepeatFailure = evaluateNoRepeatFailure"
| "verifier_for VerifierUserCorrectionAbsent = evaluateUserCorrectionAbsent"
| "verifier_for VerifierObservationOnly = (\<lambda>input builder. Some (verifier_unknown GapObservationOnly builder))"
| "verifier_for (VerifierKind_other s) = (\<lambda>input builder. Some (verifier_unknown GapUnsupportedMatch builder))"

definition evaluateVerifier :: "Input \<Rightarrow> Result \<Rightarrow> (VerifierState \<times> Result) option" where
  "evaluateVerifier input = verifier_for (ver_Kind (xp_Verifier (inp_Experience input))) input"

section \<open>The result\<close>

definition gap_key :: "Gap \<Rightarrow> string" where "gap_key g = marshal_text (Gap_json g)"
definition cite_key :: "CitedEvidence \<Rightarrow> string" where "cite_key c = marshal_text (CitedEvidence_json c)"

definition compactGaps :: "Gap list \<Rightarrow> Gap list" where
  "compactGaps values = compact_by gap_key values"

definition compactEvidence :: "CitedEvidence list \<Rightarrow> CitedEvidence list" where
  "compactEvidence values = compact_by cite_key values"

text \<open>The components whose verdict must keep a citation.\<close>

definition required :: "Result \<Rightarrow> Component \<Rightarrow> bool" where
  "required result c = (case c of
      ComponentOpportunity \<Rightarrow> res_OpportunityState result \<noteq> OpportunityUnknown
    | ComponentApplicability \<Rightarrow> res_ApplicabilityState result \<noteq> ApplicabilityUnknown
    | ComponentVerifier \<Rightarrow> res_VerifierState result = VerifierSatisfied \<or>
        res_VerifierState result = VerifierViolated
    | ComponentTaskOutcome \<Rightarrow> res_TaskOutcomeState result \<noteq> TaskOutcomeUnknown
    | Component_other s \<Rightarrow> False)"

text \<open>First pass: the first citation of every required component is kept.\<close>

fun anchors :: "Result \<Rightarrow> Component set \<Rightarrow> CitedEvidence list \<Rightarrow> bool list" where
  "anchors result anchored [] = []"
| "anchors result anchored (c # cs) =
     (if \<not> required result (cite_Component c) \<or> cite_Component c \<in> anchored
      then False # anchors result anchored cs
      else True # anchors result (insert (cite_Component c) anchored) cs)"

text \<open>Second pass: the rest is kept from the front until the limit is reached.\<close>

fun fill :: "nat \<Rightarrow> nat \<Rightarrow> bool list \<Rightarrow> bool list" where
  "fill limit kept [] = []"
| "fill limit kept (k # ks) =
     (if kept = limit then k # ks
      else if k then k # fill limit kept ks else True # fill limit (kept + 1) ks)"

definition boundedEvidence :: "Result \<Rightarrow> nat \<Rightarrow> CitedEvidence list" where
  "boundedEvidence result limit =
     (let anchor = anchors result {} (res_Evidence result);
          keep = fill limit (length (filter id anchor)) anchor
      in map fst (filter snd (zip (res_Evidence result) keep)))"

definition sorted_gaps :: "Gap list \<Rightarrow> Gap list" where
  "sorted_gaps gaps = take MaxResultGaps (compactGaps (sort_key gap_key gaps))"

definition finish :: "Result \<Rightarrow> Result" where
  "finish builder =
     (let b1 = builder\<lparr>res_Gaps := sorted_gaps (res_Gaps builder)\<rparr>;
          b2 = b1\<lparr>res_Evidence := compactEvidence (sort_key cite_key (res_Evidence b1))\<rparr>
      in if MaxResultEvidence < length (res_Evidence b2) then
           let b3 = addGap (gap ComponentVerifier GapEvidenceTruncated)
                 (b2\<lparr>res_Evidence := boundedEvidence b2 MaxResultEvidence\<rparr>)
           in b3\<lparr>res_Gaps := sorted_gaps (res_Gaps b3)\<rparr>
         else b2)"

section \<open>The evaluation\<close>

text \<open>The loop over the required coverage: its status, and whether some is missing.\<close>

fun check_coverage :: "Input \<Rightarrow> CoverageRequirement list \<Rightarrow> bool \<Rightarrow> Result \<Rightarrow> bool \<times> Result" where
  "check_coverage input [] missing builder = (missing, builder)"
| "check_coverage input (requirement # rest) missing builder =
     (let complete = Coverage_Complete (inp_Coverage input) requirement;
          b1 = builder\<lparr>res_Coverage := res_Coverage builder @
            [\<lparr>covs_Requirement = requirement, covs_Complete = complete\<rparr>]\<rparr>
      in if complete then check_coverage input rest missing b1
         else check_coverage input rest True (addGap
           ((gap ComponentVerifier GapCoverageMissing)\<lparr>gap_Coverage := requirement\<rparr>) b1))"

definition new_builder :: Result where
  "new_builder = \<lparr>res_DerivationVersion = Version, res_OpportunityState = OpportunityUnknown,
     res_ApplicabilityState = ApplicabilityUnknown, res_VerifierState = VerifierUnknown,
     res_TaskOutcomeState = TaskOutcomeUnknown, res_Coverage = [], res_Gaps = [], res_Evidence = []\<rparr>"

definition evaluate_verdicts :: "Input \<Rightarrow> Result option" where
  "evaluate_verdicts input =
     (let (opportunity, b1) = evaluateOpportunity (facts_Opportunities (inp_Facts input)) new_builder;
          (applicability, b2) = evaluateApplicability input (b1\<lparr>res_OpportunityState := opportunity\<rparr>);
          (outcome, b3) = evaluateTaskOutcome input (b2\<lparr>res_ApplicabilityState := applicability\<rparr>);
          (missing, b4) = check_coverage input (normalizedCoverageRequirements
            (ver_CoverageRequirements (xp_Verifier (inp_Experience input)))) False
            (b3\<lparr>res_TaskOutcomeState := outcome\<rparr>);
          judged = (if missing then Some b4
            else map_option (\<lambda>(state, b). b\<lparr>res_VerifierState := state\<rparr>) (evaluateVerifier input b4))
      in map_option (\<lambda>b5. if res_VerifierState b5 = VerifierUnknown
           then addEvidence ComponentVerifier (verifierCoverageEvidence input) b5 else b5) judged)"

definition Evaluate :: "(string \<Rightarrow> string) \<Rightarrow> Input \<Rightarrow> go_error + Result" where
  "Evaluate lower input =
     (case wrap_error ''invalid deterministic evaluation input'' (validateInput lower input) of
        Some e \<Rightarrow> Inl e
      | None \<Rightarrow>
        (case evaluate_verdicts input of
           None \<Rightarrow> Inl (Panic ''nil pointer dereference'') | Some b \<Rightarrow> Inr (finish b)))"

end
