(* ===== verification/EvaluateRules.thy ===== *)
theory EvaluateRules
  imports Evaluate Contracts
begin

text \<open>
  What every evaluator does to the builder, as one interface: it answers on checked input, it only
  appends, a verdict cites evidence of the input, and an unknown verdict names a gap. Each evaluator of
  \<open>Evaluate\<close> is an instance.
\<close>

section \<open>Checked input\<close>

definition fact_metas :: "Facts \<Rightarrow> FactMeta list" where
  "fact_metas facts = map opf_FactMeta (facts_Opportunities facts) @ map cf_FactMeta (facts_Conditions facts) @
     map cmf_FactMeta (facts_Commands facts) @ map fc_FactMeta (facts_FileChanges facts) @
     map vf_FactMeta (facts_Verifications facts) @ map ff_FactMeta (facts_Failures facts) @
     map crf_FactMeta (facts_Corrections facts) @ map tof_FactMeta (facts_TaskOutcomes facts)"

text \<open>All evidence the input offers.\<close>

definition offered :: "Input \<Rightarrow> EvidenceRef set" where
  "offered input = set (ctx_Evidence (inp_Context input)) \<union>
     set (app_SourceEvidence (inp_Application input)) \<union>
     (\<Union>item \<in> set (cov_Evidence (inp_Coverage input)). set (cove_Evidence item)) \<union>
     (\<Union>m \<in> set (fact_metas (inp_Facts input)). set (fm_Evidence m))"

definition checked :: "Input \<Rightarrow> bool" where
  "checked input \<longleftrightarrow> Verifier_Validate (xp_Verifier (inp_Experience input)) = None \<and>
     (\<forall>m \<in> set (fact_metas (inp_Facts input)). fm_Evidence m \<noteq> [] \<and> 0 \<le> fm_Order m) \<and>
     (\<forall>c \<in> set (appl_DeterministicConditions (xp_Applicability (inp_Experience input))).
        DeterministicConditionKind_Valid (cond_Kind c)) \<and>
     list_all OpportunityState_Valid (map opf_State (facts_Opportunities (inp_Facts input))) \<and>
     list_all TaskOutcomeState_Valid (map tof_State (facts_TaskOutcomes (inp_Facts input)))"

lemma fact_meta_checked:
  "validateFactMeta context m = None \<Longrightarrow> fm_Evidence m \<noteq> [] \<and> 0 \<le> fm_Order m"
  by (auto simp: validateFactMeta_def validateEvidence_def check_simps split: if_splits)

lemma facts_checked:
  assumes "validateFacts lower context facts = None" "m \<in> set (fact_metas facts)"
  shows "validateFactMeta context m = None"
  using assms
  by (auto simp: validateFacts_def fact_metas_def check_simps opportunity_check_def condition_check_def
      command_check_def file_change_check_def verification_check_def failure_check_def
      correction_check_def task_outcome_check_def)

lemma validated_checked:
  assumes "validateInput lower input = None"
  shows "checked input"
proof -
  have x: "Experience_Validate (inp_Experience input) = None"
    and f: "validateFacts lower (inp_Context input) (inp_Facts input) = None"
    using assms by (simp_all add: validateInput_def check_simps)
  have "\<forall>c \<in> set (appl_DeterministicConditions (xp_Applicability (inp_Experience input))).
        DeterministicConditionKind_Valid (cond_Kind c)"
    using x by (auto simp: Experience_Validate_def Applicability_Validate_def check_simps
        DeterministicCondition_Validate_def)
  moreover have "list_all OpportunityState_Valid (map opf_State (facts_Opportunities (inp_Facts input)))"
    "list_all TaskOutcomeState_Valid (map tof_State (facts_TaskOutcomes (inp_Facts input)))"
    using f by (simp_all add: validateFacts_def check_simps opportunity_check_def task_outcome_check_def
        list_all_iff)
  ultimately show ?thesis
    using experience_valid_parts(2) [OF x] facts_checked [OF f] fact_meta_checked
    unfolding checked_def by blast
qed

lemma meta_offered:
  "m \<in> set (fact_metas (inp_Facts input)) \<Longrightarrow> set (fm_Evidence m) \<subseteq> offered input"
  by (auto simp: offered_def)

lemma coverage_offered: "set (coverageEvidence (inp_Coverage input) r) \<subseteq> offered input"
proof (cases "find (\<lambda>item. cove_Requirement item = r) (cov_Evidence (inp_Coverage input))")
  case (Some item)
  then have "item \<in> set (cov_Evidence (inp_Coverage input))" by (auto simp: find_Some_iff)
  with Some show ?thesis by (auto simp: coverageEvidence_def offered_def)
qed (simp add: coverageEvidence_def)

lemma absence_offered: "set (fileAbsenceEvidence input) \<subseteq> offered input"
  using coverage_offered by (auto simp: fileAbsenceEvidence_def split: if_splits)

lemma metas_simps [simp]:
  "f \<in> set (facts_Opportunities facts) \<Longrightarrow> opf_FactMeta f \<in> set (fact_metas facts)"
  "c \<in> set (facts_Conditions facts) \<Longrightarrow> cf_FactMeta c \<in> set (fact_metas facts)"
  "m \<in> set (facts_Commands facts) \<Longrightarrow> cmf_FactMeta m \<in> set (fact_metas facts)"
  "g \<in> set (facts_FileChanges facts) \<Longrightarrow> fc_FactMeta g \<in> set (fact_metas facts)"
  "v \<in> set (facts_Verifications facts) \<Longrightarrow> vf_FactMeta v \<in> set (fact_metas facts)"
  "l \<in> set (facts_Failures facts) \<Longrightarrow> ff_FactMeta l \<in> set (fact_metas facts)"
  "r \<in> set (facts_Corrections facts) \<Longrightarrow> crf_FactMeta r \<in> set (fact_metas facts)"
  "t \<in> set (facts_TaskOutcomes facts) \<Longrightarrow> tof_FactMeta t \<in> set (fact_metas facts)"
  by (simp_all add: fact_metas_def)

section \<open>Loops\<close>

lemma collect_ambiguous:
  "fst (collect matches meta facts) \<longleftrightarrow> (\<exists>f \<in> set facts. matches f \<and> fm_Ambiguous (meta f))"
  by (induction facts) (auto simp: case_prod_unfold Let_def)

lemma collect_evidence:
  "snd (collect matches meta facts) =
     all_evidence meta (filter (\<lambda>f. matches f \<and> \<not> fm_Ambiguous (meta f)) facts)"
  by (induction facts) (auto simp: case_prod_unfold Let_def all_evidence_def)

lemma collect_Pair:
  "collect matches meta facts = (\<exists>f \<in> set facts. matches f \<and> fm_Ambiguous (meta f),
     all_evidence meta (filter (\<lambda>f. matches f \<and> \<not> fm_Ambiguous (meta f)) facts))"
  by (simp add: prod_eq_iff collect_ambiguous collect_evidence)

lemma all_evidence_simps [simp]: "all_evidence meta [] = []"
  by (simp add: all_evidence_def)

lemma all_evidence_offered:
  assumes "\<And>f. f \<in> set facts \<Longrightarrow> meta f \<in> set (fact_metas (inp_Facts input))"
  shows "set (all_evidence meta facts) \<subseteq> offered input"
  using assms meta_offered by (fastforce simp: all_evidence_def)

lemma all_evidence_empty:
  assumes "checked input" "\<And>f. f \<in> set facts \<Longrightarrow> meta f \<in> set (fact_metas (inp_Facts input))"
  shows "all_evidence meta facts = [] \<longleftrightarrow> facts = []"
proof -
  have "fm_Evidence (meta f) \<noteq> []" if "f \<in> set facts" for f
    using assms(1) assms(2) [OF that] by (simp add: checked_def)
  then show ?thesis by (cases facts) (simp_all add: all_evidence_def)
qed

lemma scan_results_success: "fst (scan_results rs f u) \<longleftrightarrow> FactResultSucceeded \<in> set rs"
proof (induction rs arbitrary: f u)
  case (Cons r rs)
  then show ?case by (cases r) simp_all
qed simp

lemma scan_results_failure:
  "FactResultSucceeded \<notin> set rs \<Longrightarrow> scan_results rs f u =
     (False, f \<or> FactResultFailed \<in> set rs, u \<or> (\<exists>r \<in> set rs. r \<noteq> FactResultFailed))"
proof (induction rs arbitrary: f u)
  case (Cons r rs)
  then show ?case by (cases r) simp_all
qed simp

lemma matching_commands_eq:
  "snd (matching_commands signature class facts) =
     filter (\<lambda>f. cmf_Signature f = signature \<and> (class = [] \<or> cmf_Class f = class) \<and>
       \<not> fm_Ambiguous (cmf_FactMeta f)) facts"
  by (induction facts) (auto simp: case_prod_unfold Let_def)

lemma last_edit_offered:
  "last_edit facts latest evidence = Some (latest', evidence') \<Longrightarrow>
     set evidence' \<subseteq> set evidence \<union> (\<Union>f \<in> set facts. set (fm_Evidence (fc_FactMeta f)))"
proof (induction facts latest evidence rule: last_edit.induct)
  case (2 f fs latest evidence)
  show ?case
  proof (cases "latest < fm_Order (fc_FactMeta f)")
    case True
    with 2 show ?thesis by (auto simp: Let_def split: if_splits)
  next
    case False
    with 2 show ?thesis by (cases "fm_Order (fc_FactMeta f) = latest") (auto simp: Let_def split: if_splits)
  qed
qed simp

lemma last_edit_found:
  "last_edit facts latest evidence = Some (latest', evidence') \<Longrightarrow>
     \<forall>f \<in> set facts. fm_Evidence (fc_FactMeta f) \<noteq> [] \<Longrightarrow>
     evidence' = evidence \<and> latest' = latest \<or> evidence' \<noteq> []"
proof (induction facts latest evidence rule: last_edit.induct)
  case (2 f fs latest evidence)
  show ?case
  proof (cases "latest < fm_Order (fc_FactMeta f)")
    case True
    with 2 show ?thesis by (auto simp: Let_def split: if_splits)
  next
    case False
    with 2 show ?thesis by (cases "fm_Order (fc_FactMeta f) = latest") (auto simp: Let_def split: if_splits)
  qed
qed simp

lemma later_verifications_subset:
  "later_verifications classes latest facts = Some ms \<Longrightarrow> set ms \<subseteq> set facts"
  by (induction facts arbitrary: ms) (auto split: if_splits)

section \<open>One step of the builder\<close>

definition cited :: "Component \<Rightarrow> EvidenceRef list \<Rightarrow> CitedEvidence list" where
  "cited c refs = map (\<lambda>ref. \<lparr>cite_Component = c, cite_Ref = ref\<rparr>) refs"

text \<open>The gaps an evaluator can name.\<close>

definition verifier_gaps :: "Gap list" where
  "verifier_gaps = map (gap ComponentVerifier) [GapUnsupportedMatch, GapAmbiguousMatch, GapFactsIncomplete,
       GapCoverageNotDeclared, GapNoEditObserved, GapObservationOnly] @
     [(gap ComponentVerifier GapCoverageNotDeclared)\<lparr>gap_Coverage := CoverageTranscriptComplete\<rparr>]"

definition sound_verdict :: "Input \<Rightarrow> Result \<Rightarrow> VerifierState \<times> Result \<Rightarrow> bool" where
  "sound_verdict input b r \<longleftrightarrow> (\<exists>gs es. snd r = b\<lparr>res_Gaps := res_Gaps b @ gs,
       res_Evidence := res_Evidence b @ cited ComponentVerifier es\<rparr> \<and>
     set es \<subseteq> offered input \<and> set gs \<subseteq> set verifier_gaps \<and>
     (fst r \<in> {VerifierSatisfied, VerifierViolated} \<and> es \<noteq> [] \<or> fst r = VerifierUnknown \<and> gs \<noteq> []))"

lemma addEvidence_cited: "addEvidence c refs b = b\<lparr>res_Evidence := res_Evidence b @ cited c refs\<rparr>"
  by (simp add: addEvidence_def cited_def)

lemma cited_simps [simp]: "cited c [] = []" "cited c xs = [] \<longleftrightarrow> xs = []"
  "cited c xs @ cited c ys = cited c (xs @ ys)"
  by (simp_all add: cited_def)

lemma sound_unknown [intro!]:
  "gap ComponentVerifier code \<in> set verifier_gaps \<Longrightarrow> sound_verdict input b (verifier_unknown code b)"
  unfolding sound_verdict_def verifier_unknown_def addGap_def
  by (intro exI [of _ "[gap ComponentVerifier code]"] exI [of _ "[]"]) simp

lemma sound_undeclared [intro!]: "sound_verdict input b (transcript_undeclared b)"
  unfolding sound_verdict_def transcript_undeclared_def addGap_def
  by (intro exI [of _ "[(gap ComponentVerifier GapCoverageNotDeclared)\<lparr>gap_Coverage := CoverageTranscriptComplete\<rparr>]"]
      exI [of _ "[]"]) (simp add: verifier_gaps_def)

lemma sound_decided [intro!]:
  "es \<noteq> [] \<Longrightarrow> set es \<subseteq> offered input \<Longrightarrow> s \<in> {VerifierSatisfied, VerifierViolated} \<Longrightarrow>
     sound_verdict input b (verifier_decided s es b)"
  unfolding sound_verdict_def verifier_decided_def addEvidence_cited
  by (intro exI [of _ "[]"] exI [of _ es]) simp

lemma sound_after:
  assumes "sound_verdict input (addEvidence ComponentVerifier es b) r" "set es \<subseteq> offered input"
  shows "sound_verdict input b r"
proof -
  obtain gs es' where "snd r = (addEvidence ComponentVerifier es b)\<lparr>
       res_Gaps := res_Gaps (addEvidence ComponentVerifier es b) @ gs,
       res_Evidence := res_Evidence (addEvidence ComponentVerifier es b) @ cited ComponentVerifier es'\<rparr>"
    "set es' \<subseteq> offered input" "set gs \<subseteq> set verifier_gaps"
    "fst r \<in> {VerifierSatisfied, VerifierViolated} \<and> es' \<noteq> [] \<or> fst r = VerifierUnknown \<and> gs \<noteq> []"
    using assms(1) unfolding sound_verdict_def by blast
  then show ?thesis
    using assms(2) unfolding sound_verdict_def addEvidence_cited
    by (intro exI [of _ gs] exI [of _ "es @ es'"]) auto
qed

lemma verifier_gaps_codes [simp]:
  "gap ComponentVerifier GapUnsupportedMatch \<in> set verifier_gaps"
  "gap ComponentVerifier GapAmbiguousMatch \<in> set verifier_gaps"
  "gap ComponentVerifier GapFactsIncomplete \<in> set verifier_gaps"
  "gap ComponentVerifier GapCoverageNotDeclared \<in> set verifier_gaps"
  "gap ComponentVerifier GapNoEditObserved \<in> set verifier_gaps"
  "gap ComponentVerifier GapObservationOnly \<in> set verifier_gaps"
  by (simp_all add: verifier_gaps_def)

lemma sound_absence:
  "s \<in> {VerifierSatisfied, VerifierViolated} \<Longrightarrow> sound_verdict input b (file_absence input s b)"
  using absence_offered [of input] unfolding file_absence_def by auto

lemma sound_nothing_matched:
  "set lead \<subseteq> offered input \<Longrightarrow> sound_verdict input b (nothing_matched input lead b)"
  using coverage_offered [of input CoverageTranscriptComplete] unfolding nothing_matched_def Let_def
  by (auto intro!: sound_decided)

lemma sound_judge:
  assumes "results \<noteq> []" "es \<noteq> []" "set es \<subseteq> offered input"
  shows "sound_verdict input b (judge_results results es b)"
proof (cases "FactResultSucceeded \<in> set results")
  case True
  then obtain f u where "scan_results results False False = (True, f, u)"
    using scan_results_success [of results False False] by (metis prod.collapse)
  with assms(2,3) show ?thesis by (auto simp: judge_results_def)
next
  case False
  then have "scan_results results False False = (False, FactResultFailed \<in> set results,
      \<exists>r \<in> set results. r \<noteq> FactResultFailed)"
    by (simp add: scan_results_failure)
  moreover have "FactResultFailed \<in> set results \<or> (\<exists>r \<in> set results. r \<noteq> FactResultFailed)"
    using assms(1) by (cases results) auto
  ultimately show ?thesis
    using assms(2,3) by (auto simp: judge_results_def split: bool.splits)
qed

section \<open>The interface of an evaluator\<close>

locale verifier_rule =
  fixes applies :: "Verifier \<Rightarrow> bool"
    and rule :: "Input \<Rightarrow> Result \<Rightarrow> (VerifierState \<times> Result) option"
  assumes answers: "checked input \<Longrightarrow> applies (xp_Verifier (inp_Experience input)) \<Longrightarrow>
      (case rule input b of None \<Rightarrow> False | Some r \<Rightarrow> sound_verdict input b r)"
begin

lemma decisive_cites:
  assumes "checked input" "applies (xp_Verifier (inp_Experience input))" "rule input b = Some (s, b')"
    and "s \<noteq> VerifierUnknown"
  shows "\<exists>c \<in> set (res_Evidence b'). cite_Component c = ComponentVerifier"
proof -
  have "sound_verdict input b (s, b')" using answers [OF assms(1,2), of b] assms(3) by auto
  with assms(4) obtain gs es where "res_Evidence b' = res_Evidence b @ cited ComponentVerifier es" "es \<noteq> []"
    by (auto simp: sound_verdict_def)
  then show ?thesis by (cases es) (auto simp: cited_def)
qed

lemma undecided_names_gap:
  assumes "checked input" "applies (xp_Verifier (inp_Experience input))" "rule input b = Some (VerifierUnknown, b')"
  shows "\<exists>g \<in> set (res_Gaps b'). g \<in> set verifier_gaps"
proof -
  have "sound_verdict input b (VerifierUnknown, b')" using answers [OF assms(1,2), of b] assms(3) by auto
  then obtain gs es where "b' = b\<lparr>res_Gaps := res_Gaps b @ gs,
      res_Evidence := res_Evidence b @ cited ComponentVerifier es\<rparr>" "gs \<noteq> []" "set gs \<subseteq> set verifier_gaps"
    by (auto simp: sound_verdict_def)
  then show ?thesis by (cases gs) auto
qed

end

section \<open>The evaluators\<close>

interpretation command_rule: verifier_rule "\<lambda>v. ver_Command v \<noteq> None" "evaluateCommand requireSuccess"
  for requireSuccess
proof
  fix input :: Input and b :: Result
  assume c: "checked input" and "ver_Command (xp_Verifier (inp_Experience input)) \<noteq> None"
  then obtain spec where spec: "ver_Command (xp_Verifier (inp_Experience input)) = Some spec" by blast
  let ?n = "inp_NormalizedVerifier input"
  obtain ambiguous matches where m: "matching_commands (nv_CommandSignature ?n) (cvs_CommandClass spec)
      (facts_Commands (inp_Facts input)) = (ambiguous, matches)" by (cases "matching_commands
      (nv_CommandSignature ?n) (cvs_CommandClass spec) (facts_Commands (inp_Facts input))")
  have sub: "set matches \<subseteq> set (facts_Commands (inp_Facts input))"
    using matching_commands_eq [of "nv_CommandSignature ?n" "cvs_CommandClass spec" "facts_Commands (inp_Facts input)"]
    by (auto simp: m)
  then have meta: "cmf_FactMeta f \<in> set (fact_metas (inp_Facts input))" if "f \<in> set matches" for f
    using that by (auto intro: metas_simps(3))
  have e: "set (all_evidence cmf_FactMeta matches) \<subseteq> offered input"
    by (rule all_evidence_offered) (rule meta)
  have n: "all_evidence cmf_FactMeta matches = [] \<longleftrightarrow> matches = []"
    by (rule all_evidence_empty [OF c]) (rule meta)
  show "case evaluateCommand requireSuccess input b of None \<Rightarrow> False | Some r \<Rightarrow> sound_verdict input b r"
    using spec e n by (auto simp: evaluateCommand_def Let_def m
        intro!: sound_nothing_matched sound_judge)
qed

lemma changes_offered:
  "set (all_evidence fc_FactMeta (filter P (facts_FileChanges (inp_Facts input)))) \<subseteq> offered input"
  by (rule all_evidence_offered) simp

interpretation file_rule: verifier_rule "\<lambda>v. ver_File v \<noteq> None" "evaluateFile wantModified" for wantModified
  by standard
    (auto simp: evaluateFile_def collect_Pair intro!: sound_absence intro: changes_offered [THEN subsetD])

interpretation pattern_rule: verifier_rule "\<lambda>v. ver_PathPattern v \<noteq> None" evaluatePathPattern
  by standard
    (auto simp: evaluatePathPattern_def collect_Pair Let_def intro!: sound_absence
      intro: changes_offered [THEN subsetD])

interpretation after_edit_rule: verifier_rule "\<lambda>v. ver_VerificationAfterLastEdit v \<noteq> None"
  evaluateVerificationAfterLastEdit
proof
  fix input :: Input and b :: Result
  assume c: "checked input" and "ver_VerificationAfterLastEdit (xp_Verifier (inp_Experience input)) \<noteq> None"
  then obtain spec where spec: "ver_VerificationAfterLastEdit (xp_Verifier (inp_Experience input)) = Some spec"
    by blast
  let ?changes = "facts_FileChanges (inp_Facts input)"
  let ?later = "later_verifications (vle_CommandClasses spec)"
  have edits: "set es \<subseteq> offered input \<and> (0 \<le> latest \<longrightarrow> es \<noteq> [])"
    if "last_edit ?changes (- 1) [] = Some (latest, es)" for latest es
  proof -
    have "\<forall>f \<in> set ?changes. fm_Evidence (fc_FactMeta f) \<noteq> []" using c by (simp add: checked_def)
    from last_edit_found [OF that this] last_edit_offered [OF that] show ?thesis
      by (auto dest: meta_offered [THEN subsetD, rotated] simp: offered_def)
  qed
  have later: "set (all_evidence vf_FactMeta ms) \<subseteq> offered input"
    if "?later latest (facts_Verifications (inp_Facts input)) = Some ms" for latest ms
    using later_verifications_subset [OF that] by (intro all_evidence_offered) auto
  show "case evaluateVerificationAfterLastEdit input b of None \<Rightarrow> False | Some r \<Rightarrow> sound_verdict input b r"
  proof (cases "last_edit ?changes (- 1) []")
    case None
    then show ?thesis by (simp add: evaluateVerificationAfterLastEdit_def sound_unknown)
  next
    case (Some e)
    obtain latest es where e: "e = (latest, es)" by (cases e)
    from edits [of latest es] Some e have es: "set es \<subseteq> offered input" "0 \<le> latest \<Longrightarrow> es \<noteq> []" by simp_all
    show ?thesis
    proof (cases "?later latest (facts_Verifications (inp_Facts input))")
      case None
      with Some e spec show ?thesis by (simp add: evaluateVerificationAfterLastEdit_def sound_unknown)
    next
      case (Some ms)
      with later have "set (es @ all_evidence vf_FactMeta ms) \<subseteq> offered input" using es by auto
      with es have "0 \<le> latest \<Longrightarrow> ms \<noteq> [] \<Longrightarrow> s \<in> {VerifierSatisfied, VerifierViolated} \<Longrightarrow> sound_verdict input b
          (verifier_decided s (es @ all_evidence vf_FactMeta ms) b)" for s
        by (intro sound_decided) simp_all
      with \<open>last_edit _ _ _ = _\<close> Some e spec es \<open>set (es @ _) \<subseteq> _\<close> show ?thesis
        by (simp add: evaluateVerificationAfterLastEdit_def Let_def sound_unknown sound_nothing_matched
            sound_judge del: set_append)
    qed
  qed
qed

lemma failures_offered:
  "set (all_evidence ff_FactMeta (filter P (facts_Failures (inp_Facts input)))) \<subseteq> offered input"
  by (rule all_evidence_offered) simp

lemma sound_failures:
  assumes "checked input" "set matches \<subseteq> set (facts_Failures (inp_Facts input))"
  shows "sound_verdict input b (judge_failures input window matches b)"
proof -
  let ?es = "all_evidence ff_FactMeta matches"
  have es: "set ?es \<subseteq> offered input" using assms(2) by (intro all_evidence_offered) auto
  let ?b = "addEvidence ComponentVerifier ?es b"
  have rest: "sound_verdict input ?b (judge_failures input window matches b)"
    if "\<not> (\<not> list_ex (\<lambda>f. fm_Ambiguous (ff_FactMeta f)) matches \<and>
        repeat_within window (sort (map (\<lambda>f. fm_Order (ff_FactMeta f)) matches)))"
    using that coverage_offered [of input CoverageTranscriptComplete]
    by (auto simp: judge_failures_def Let_def)
  show ?thesis
  proof (cases "\<not> list_ex (\<lambda>f. fm_Ambiguous (ff_FactMeta f)) matches \<and>
        repeat_within window (sort (map (\<lambda>f. fm_Order (ff_FactMeta f)) matches))")
    case True
    then have "matches \<noteq> []" by (cases matches) simp_all
    moreover have "?es = [] \<longleftrightarrow> matches = []"
      using assms(2) by (intro all_evidence_empty [OF assms(1)]) auto
    ultimately have "?es \<noteq> []" by simp
    moreover from True have "judge_failures input window matches b = verifier_decided VerifierViolated ?es b"
      by (simp add: judge_failures_def verifier_decided_def)
    ultimately show ?thesis using es by auto
  next
    case False
    from rest [OF this] es show ?thesis by (rule sound_after)
  qed
qed

interpretation failure_rule: verifier_rule "\<lambda>v. ver_NoRepeatFailure v \<noteq> None" evaluateNoRepeatFailure
  by standard (auto simp: evaluateNoRepeatFailure_def intro!: sound_failures)

lemma corrections_offered:
  "set (all_evidence crf_FactMeta (filter P (facts_Corrections (inp_Facts input)))) \<subseteq> offered input"
  by (rule all_evidence_offered) simp

interpretation correction_rule: verifier_rule "\<lambda>v. ver_UserCorrectionAbsent v \<noteq> None"
  evaluateUserCorrectionAbsent
proof
  fix input :: Input and b :: Result
  assume "ver_UserCorrectionAbsent (xp_Verifier (inp_Experience input)) \<noteq> None"
  then show "case evaluateUserCorrectionAbsent input b of None \<Rightarrow> False | Some r \<Rightarrow> sound_verdict input b r"
    by (auto simp: evaluateUserCorrectionAbsent_def collect_Pair Let_def
        intro: corrections_offered [THEN subsetD] coverage_offered [THEN subsetD])
qed

text \<open>The dispatcher answers for every verifier that validates.\<close>

interpretation dispatch: verifier_rule "\<lambda>v. True" evaluateVerifier
proof
  fix input :: Input and b :: Result
  assume c: "checked input"
  let ?v = "xp_Verifier (inp_Experience input)"
  have "Verifier_Validate ?v = None" using c by (simp add: checked_def)
  note spec = has_its_spec_cases [OF verifier_valid_spec [OF this]]
  show "case evaluateVerifier input b of None \<Rightarrow> False | Some r \<Rightarrow> sound_verdict input b r"
    unfolding evaluateVerifier_def
    using spec command_rule.answers [OF c] file_rule.answers [OF c] pattern_rule.answers [OF c]
      after_edit_rule.answers [OF c] failure_rule.answers [OF c] correction_rule.answers [OF c]
    by (cases "ver_Kind ?v") auto
qed

end
