(* ===== verification/EvaluateResult.thy ===== *)
theory EvaluateResult
  imports EvaluateRules
begin

text \<open>
  What \<open>finish\<close> does to a result: the JSON keys it sorts by, compaction, and the two passes of
  \<open>boundedEvidence\<close>; then what all evaluators together put into the result.
\<close>

section \<open>JSON keys of plain text\<close>

text \<open>The labels of the enumerations are written in lower case letters and underscores.\<close>

definition plain :: "string \<Rightarrow> bool" where
  "plain s \<longleftrightarrow> set s \<subseteq> set ''abcdefghijklmnopqrstuvwxyz_''"

lemma plain_char:
  assumes "c \<in> set ''abcdefghijklmnopqrstuvwxyz_''"
  shows "byte c < 128" "escape_ascii c = [c]" "c \<noteq> CHR 0x22"
proof -
  have "list_all (\<lambda>c. byte c < 128 \<and> escape_ascii c = [c] \<and> c \<noteq> CHR 0x22) ''abcdefghijklmnopqrstuvwxyz_''"
    by code_simp
  with assms show "byte c < 128" "escape_ascii c = [c]" "c \<noteq> CHR 0x22"
    by (auto simp: list_all_iff)
qed

lemma escape_plain: "plain s \<Longrightarrow> escape_text s = s"
proof (induction s)
  case (Cons c s)
  then have c: "c \<in> set ''abcdefghijklmnopqrstuvwxyz_''" and s: "plain s" by (auto simp: plain_def)
  with Cons plain_char [OF c] show ?case by (subst escape_text.simps) simp
qed (simp add: escape_text.simps)

lemma string_text_plain: "plain s \<Longrightarrow> string_text s = CHR 0x22 # s @ [CHR 0x22]"
  by (simp add: string_text_def escape_plain)

lemma plain_quote: "plain s \<Longrightarrow> CHR 0x22 \<notin> set s"
  by (auto simp: plain_def dest: plain_char(3) subsetD)

lemma quoted_eq:
  "CHR 0x22 \<notin> set a \<Longrightarrow> CHR 0x22 \<notin> set b \<Longrightarrow>
     a @ CHR 0x22 # x = b @ CHR 0x22 # y \<longleftrightarrow> a = b \<and> x = y"
  by (induction a arbitrary: b) (case_tac b; auto)+

lemma quoted_split:
  assumes "a @ CHR 0x22 # x = b @ CHR 0x22 # y" "plain a" "plain b"
  shows "a = b" "x = y"
  using assms quoted_eq [of a b x y] plain_quote by blast+

lemma plain_names: "plain ''component''" "plain ''code''" "plain ''coverage''" "plain ''condition_kind''"
  "plain ''ref''" "plain []"
  by (simp_all add: plain_def)

definition plain_gap :: "Gap \<Rightarrow> bool" where
  "plain_gap g \<longleftrightarrow> plain (Component_text (gap_Component g)) \<and> plain (GapCode_text (gap_Code g)) \<and>
     plain (CoverageRequirement_text (gap_Coverage g)) \<and>
     plain (DeterministicConditionKind_text (gap_ConditionKind g))"

text \<open>The pieces of the text of a gap and of a citation.\<close>

definition quoted_name :: "string \<Rightarrow> string" where
  "quoted_name name = CHR 0x22 # name @ [CHR 0x22, CHR '':'', CHR 0x22]"

definition optional_text :: "string \<Rightarrow> string \<Rightarrow> string" where
  "optional_text name s = (if s = [] then [] else CHR '','' # quoted_name name @ s @ [CHR 0x22])"

definition tail_text :: "string \<Rightarrow> string \<Rightarrow> string" where
  "tail_text coverage kind = optional_text ''coverage'' coverage @ optional_text ''condition_kind'' kind @ ''}''"

lemma gap_key_plain:
  assumes "plain_gap g"
  shows "gap_key g = (CHR ''{'' # quoted_name ''component'') @ Component_text (gap_Component g) @ CHR 0x22 #
     (CHR '','' # quoted_name ''code'') @ GapCode_text (gap_Code g) @ CHR 0x22 #
     tail_text (CoverageRequirement_text (gap_Coverage g))
       (DeterministicConditionKind_text (gap_ConditionKind g))"
  using assms
  by (auto simp: gap_key_def marshal_text_def Gap_json_def plain_gap_def str_field_def
      string_text_plain plain_names optional_text_def quoted_name_def tail_text_def)

text \<open>The text of a gap determines what it says.\<close>

lemma tail_text_eq:
  assumes "plain a" "plain b" "plain c" "plain d"
  shows "tail_text a b = tail_text c d \<longleftrightarrow> a = c \<and> b = d"
  using assms [THEN plain_quote]
  by (cases "a = []"; cases "b = []"; cases "c = []"; cases "d = []")
    (auto simp: tail_text_def optional_text_def quoted_name_def quoted_eq)

lemma gap_key_texts:
  assumes "plain_gap g" "plain_gap h" "gap_key g = gap_key h"
  shows "Component_text (gap_Component g) = Component_text (gap_Component h) \<and>
    GapCode_text (gap_Code g) = GapCode_text (gap_Code h) \<and>
    CoverageRequirement_text (gap_Coverage g) = CoverageRequirement_text (gap_Coverage h) \<and>
    DeterministicConditionKind_text (gap_ConditionKind g) =
      DeterministicConditionKind_text (gap_ConditionKind h)"
proof -
  have g: "plain (Component_text (gap_Component g))" "plain (GapCode_text (gap_Code g))"
    "plain (CoverageRequirement_text (gap_Coverage g))"
    "plain (DeterministicConditionKind_text (gap_ConditionKind g))"
    and h: "plain (Component_text (gap_Component h))" "plain (GapCode_text (gap_Code h))"
    "plain (CoverageRequirement_text (gap_Coverage h))"
    "plain (DeterministicConditionKind_text (gap_ConditionKind h))"
    using assms(1,2) by (simp_all add: plain_gap_def)
  from assms(3) have
    "Component_text (gap_Component g) @ CHR 0x22 # (CHR '','' # quoted_name ''code'') @
       GapCode_text (gap_Code g) @ CHR 0x22 # tail_text (CoverageRequirement_text (gap_Coverage g))
         (DeterministicConditionKind_text (gap_ConditionKind g)) =
     Component_text (gap_Component h) @ CHR 0x22 # (CHR '','' # quoted_name ''code'') @
       GapCode_text (gap_Code h) @ CHR 0x22 # tail_text (CoverageRequirement_text (gap_Coverage h))
         (DeterministicConditionKind_text (gap_ConditionKind h))"
    unfolding gap_key_plain [OF assms(1)] gap_key_plain [OF assms(2)] by (simp only: same_append_eq)
  note outer = quoted_split [OF this g(1) h(1)]
  note inner = quoted_split [OF outer(2) [unfolded same_append_eq] g(2) h(2)]
  show ?thesis
    using outer(1) inner(1) tail_text_eq [OF g(3,4) h(3,4)] inner(2) by blast
qed

lemma cite_key_component:
  assumes "json_ok (EvidenceRef_json (cite_Ref c))" "json_ok (EvidenceRef_json (cite_Ref d))"
    and "plain (Component_text (cite_Component c))" "plain (Component_text (cite_Component d))"
    and "cite_key c = cite_key d"
  shows "Component_text (cite_Component c) = Component_text (cite_Component d)"
proof -
  have shape: "\<exists>rest. cite_key e = (CHR ''{'' # quoted_name ''component'') @
      Component_text (cite_Component e) @ CHR 0x22 # rest"
    if "json_ok (EvidenceRef_json (cite_Ref e))" "plain (Component_text (cite_Component e))" for e
  proof -
    from that(1) obtain r where r: "render (EvidenceRef_json (cite_Ref e)) = Some r"
      unfolding render_ok [symmetric] ..
    with that(2) have "cite_key e = (CHR ''{'' # quoted_name ''component'') @ Component_text (cite_Component e) @
        CHR 0x22 # CHR '','' # CHR 0x22 # ''ref'' @ CHR 0x22 # CHR '':'' # r @ ''}''"
      by (simp add: cite_key_def marshal_text_def CitedEvidence_json_def string_text_plain plain_names
          quoted_name_def)
    then show ?thesis by blast
  qed
  obtain x y where "cite_key c = (CHR ''{'' # quoted_name ''component'') @ Component_text (cite_Component c) @
      CHR 0x22 # x" and "cite_key d = (CHR ''{'' # quoted_name ''component'') @
      Component_text (cite_Component d) @ CHR 0x22 # y"
    using shape [OF assms(1,3)] shape [OF assms(2,4)] by blast
  with assms(5) have "Component_text (cite_Component c) @ CHR 0x22 # x =
      Component_text (cite_Component d) @ CHR 0x22 # y" by (simp only: same_append_eq)
  from quoted_split(1) [OF this assms(3,4)] show ?thesis .
qed

section \<open>Bounded evidence\<close>

text \<open>What a keep mask selects.\<close>

definition kept :: "bool list \<Rightarrow> 'a list \<Rightarrow> 'a list" where
  "kept keep xs = map fst (filter snd (zip xs keep))"

lemma kept_simps [simp]: "kept (k # ks) (x # xs) = (if k then x # kept ks xs else kept ks xs)"
  "kept ks [] = []" "kept [] xs = []"
  by (simp_all add: kept_def)

lemma kept_subset: "set (kept ks xs) \<subseteq> set xs"
  by (auto simp: kept_def dest: set_zip_leftD)

lemma kept_member: "i < length xs \<Longrightarrow> i < length ks \<Longrightarrow> ks ! i \<Longrightarrow> xs ! i \<in> set (kept ks xs)"
  by (force simp: kept_def set_zip)

lemma kept_sorted: "sorted_wrt P xs \<Longrightarrow> sorted_wrt P (kept ks xs)"
proof (induction xs arbitrary: ks)
  case (Cons x xs)
  show ?case
  proof (cases ks)
    case (Cons k ks')
    have "\<forall>y \<in> set (kept ks' xs). P x y" using Cons.prems kept_subset [of ks' xs] by auto
    with Cons Cons.IH [of ks'] Cons.prems show ?thesis by simp
  qed simp
qed simp

lemma length_kept: "length ks = length xs \<Longrightarrow> length (kept ks xs) = length (filter id ks)"
  by (induction ks xs rule: list_induct2) simp_all

lemma length_anchors [simp]: "length (anchors result A cs) = length cs"
  by (induction cs arbitrary: A) simp_all

lemma length_fill [simp]: "length (fill limit n ks) = length ks"
  by (induction ks arbitrary: n) simp_all

lemma fill_keeps: "i < length ks \<Longrightarrow> ks ! i \<Longrightarrow> fill limit n ks ! i"
proof (induction ks arbitrary: i n)
  case (Cons k ks)
  then show ?case by (cases i) auto
qed simp

lemma fill_count:
  "n \<le> limit \<Longrightarrow> length (filter id (fill limit n ks)) =
     min (length ks) (length (filter id ks) + (limit - n))"
proof (induction ks arbitrary: n)
  case (Cons k ks)
  show ?case
  proof (cases "n = limit")
    case True
    then show ?thesis by (simp add: min_absorb2 le_SucI)
  next
    case False
    with Cons.prems Cons.IH [of n] Cons.IH [of "n + 1"] show ?thesis by auto
  qed
qed simp

lemma required_four: "{c. required result c} \<subseteq>
    {ComponentOpportunity, ComponentApplicability, ComponentVerifier, ComponentTaskOutcome}"
proof
  fix c assume "c \<in> {c. required result c}"
  then show "c \<in> {ComponentOpportunity, ComponentApplicability, ComponentVerifier, ComponentTaskOutcome}"
    by (cases c) (simp_all add: required_def)
qed

lemma anchors_count:
  "length (filter id (anchors result A cs)) \<le> card ({c. required result c} - A)"
proof (induction cs arbitrary: A)
  case (Cons c cs)
  have fin: "finite {c. required result c}" by (rule finite_subset [OF required_four]) simp
  show ?case
  proof (cases "\<not> required result (cite_Component c) \<or> cite_Component c \<in> A")
    case False
    let ?S = "{c. required result c} - A"
    have "card ?S = Suc (card (?S - {cite_Component c}))"
      by (rule card_Suc_Diff1 [symmetric]) (rule finite_Diff [OF fin], use False in blast)
    then have "card ?S = Suc (card ({c. required result c} - insert (cite_Component c) A))"
      unfolding Diff_insert [of _ "cite_Component c" A] .
    moreover have "length (filter id (anchors result A (c # cs))) =
        Suc (length (filter id (anchors result (insert (cite_Component c) A) cs)))"
      using False by simp
    ultimately show ?thesis using Cons.IH [of "insert (cite_Component c) A"] by linarith
  qed (use Cons.IH [of A] in auto)
qed simp

lemma required_count: "card {c. required result c} \<le> 4"
  using card_mono [OF _ required_four, of result] by simp

lemma anchors_hit:
  "required result c \<Longrightarrow> c \<notin> A \<Longrightarrow> c \<in> cite_Component ` set cs \<Longrightarrow>
     \<exists>i < length cs. anchors result A cs ! i \<and> cite_Component (cs ! i) = c"
proof (induction cs arbitrary: A)
  case (Cons d cs)
  show ?case
  proof (cases "cite_Component d = c")
    case True
    with Cons.prems show ?thesis by (intro exI [of _ 0]) simp
  next
    case False
    with Cons.prems have "c \<in> cite_Component ` set cs" by auto
    with Cons.prems False Cons.IH [of A] Cons.IH [of "insert (cite_Component d) A"]
    obtain i where "i < length cs" "anchors result A (d # cs) ! Suc i" "cite_Component (cs ! i) = c"
      by (cases "\<not> required result (cite_Component d) \<or> cite_Component d \<in> A") auto
    then show ?thesis by (intro exI [of _ "Suc i"]) simp
  qed
qed simp

lemma bounded_kept:
  "boundedEvidence result limit = kept (fill limit (length (filter id (anchors result {} (res_Evidence result))))
     (anchors result {} (res_Evidence result))) (res_Evidence result)"
  by (simp add: boundedEvidence_def kept_def Let_def)

lemma bounded_subset: "set (boundedEvidence result limit) \<subseteq> set (res_Evidence result)"
  by (simp add: bounded_kept kept_subset)

lemma bounded_sorted: "sorted_wrt P (res_Evidence result) \<Longrightarrow> sorted_wrt P (boundedEvidence result limit)"
  by (simp add: bounded_kept kept_sorted)

lemma bounded_length:
  assumes "4 \<le> limit" "limit \<le> length (res_Evidence result)"
  shows "length (boundedEvidence result limit) = limit"
proof -
  have "length (filter id (anchors result {} (res_Evidence result))) \<le> limit"
    using anchors_count [of result "{}"] required_count [of result] assms(1) by simp (meson le_trans)
  with assms(2) show ?thesis by (simp add: bounded_kept length_kept fill_count)
qed

lemma bounded_anchor:
  assumes "required result c" "c \<in> cite_Component ` set (res_Evidence result)"
  shows "c \<in> cite_Component ` set (boundedEvidence result limit)"
proof -
  obtain i where i: "i < length (res_Evidence result)" "anchors result {} (res_Evidence result) ! i"
    "cite_Component (res_Evidence result ! i) = c"
    using anchors_hit [OF assms(1) _ assms(2), of "{}"] by auto
  then have "res_Evidence result ! i \<in> set (boundedEvidence result limit)"
    unfolding bounded_kept by (intro kept_member fill_keeps) simp_all
  with i(3) show ?thesis by auto
qed

section \<open>All gaps\<close>

definition components :: "Component list" where
  "components = [ComponentOpportunity, ComponentApplicability, ComponentVerifier, ComponentTaskOutcome]"

definition gap_codes :: "GapCode list" where
  "gap_codes = [GapCoverageMissing, GapCoverageNotDeclared, GapFactsIncomplete, GapAmbiguousMatch,
     GapUnsupportedMatch, GapNoOpportunityObservation, GapNoApplicableObservation, GapSemanticExclusion,
     GapNoEditObserved, GapNoTaskOutcomeObservation, GapObservationOnly, GapEvidenceTruncated]"

definition requirements :: "CoverageRequirement list" where
  "requirements = [CoverageTranscriptComplete, CoverageCanonicalComplete, CoverageWorkspaceCaptured,
     CoverageOutcomesComplete]"

definition condition_kinds :: "DeterministicConditionKind list" where
  "condition_kinds = [ConditionEventType, ConditionToolName, ConditionCommandClass, ConditionPathPattern,
     ConditionLifecyclePhase, ConditionPriorEventSequence]"

definition missing_gap :: "CoverageRequirement \<Rightarrow> Gap" where
  "missing_gap requirement = (gap ComponentVerifier GapCoverageMissing)\<lparr>gap_Coverage := requirement\<rparr>"

definition truncated_gap :: Gap where
  "truncated_gap = gap ComponentVerifier GapEvidenceTruncated"

definition opportunity_gaps :: "Gap list" where
  "opportunity_gaps = map (gap ComponentOpportunity) [GapNoOpportunityObservation, GapAmbiguousMatch]"

definition outcome_gaps :: "Gap list" where
  "outcome_gaps = map (gap ComponentTaskOutcome) [GapNoTaskOutcomeObservation, GapAmbiguousMatch]"

definition applicability_gaps :: "Gap list" where
  "applicability_gaps = map (gap ComponentApplicability) [GapFactsIncomplete, GapSemanticExclusion,
       GapNoApplicableObservation] @ map (kind_gap GapAmbiguousMatch) condition_kinds @
     map (kind_gap GapFactsIncomplete) condition_kinds"

definition evaluator_gaps :: "Gap list" where
  "evaluator_gaps = opportunity_gaps @ outcome_gaps @ applicability_gaps @ map missing_gap requirements @
     verifier_gaps"

definition all_gaps :: "Gap list" where "all_gaps = evaluator_gaps @ [truncated_gap]"

lemmas gap_lists = opportunity_gaps_def outcome_gaps_def applicability_gaps_def missing_gap_def
  verifier_gaps_def truncated_gap_def kind_gap_def gap_def

definition canonical_gap :: "Gap \<Rightarrow> bool" where
  "canonical_gap g \<longleftrightarrow> gap_Component g \<in> set components \<and> gap_Code g \<in> set gap_codes \<and>
     gap_Coverage g \<in> set (no_coverage # requirements) \<and>
     gap_ConditionKind g \<in> set (no_kind # condition_kinds)"

lemma all_gaps_canonical: "g \<in> set all_gaps \<Longrightarrow> canonical_gap g"
  by (auto simp: all_gaps_def evaluator_gaps_def gap_lists canonical_gap_def components_def gap_codes_def requirements_def
      condition_kinds_def)

lemma texts_plain: "list_all plain (map Component_text components)"
  "list_all plain (map GapCode_text gap_codes)"
  "list_all plain (map CoverageRequirement_text (no_coverage # requirements))"
  "list_all plain (map DeterministicConditionKind_text (no_kind # condition_kinds))"
  by (simp_all add: plain_def components_def gap_codes_def requirements_def condition_kinds_def
      no_coverage_def no_kind_def)

lemma texts_inj: "inj_on Component_text (set components)" "inj_on GapCode_text (set gap_codes)"
  "inj_on CoverageRequirement_text (set (no_coverage # requirements))"
  "inj_on DeterministicConditionKind_text (set (no_kind # condition_kinds))"
  by (simp_all add: components_def gap_codes_def requirements_def condition_kinds_def no_coverage_def
      no_kind_def)

lemma canonical_plain: "canonical_gap g \<Longrightarrow> plain_gap g"
  using texts_plain by (auto simp: canonical_gap_def plain_gap_def list_all_iff)

lemma gap_key_inj: "inj_on gap_key {g. canonical_gap g}"
proof (rule inj_onI)
  fix g h assume "g \<in> {g. canonical_gap g}" "h \<in> {g. canonical_gap g}" "gap_key g = gap_key h"
  then have c: "canonical_gap g" "canonical_gap h"
    and "Component_text (gap_Component g) = Component_text (gap_Component h) \<and>
      GapCode_text (gap_Code g) = GapCode_text (gap_Code h) \<and>
      CoverageRequirement_text (gap_Coverage g) = CoverageRequirement_text (gap_Coverage h) \<and>
      DeterministicConditionKind_text (gap_ConditionKind g) =
        DeterministicConditionKind_text (gap_ConditionKind h)"
    using gap_key_texts [of g h] canonical_plain by simp_all
  with texts_inj [THEN inj_onD] have "gap_Component g = gap_Component h" "gap_Code g = gap_Code h"
    "gap_Coverage g = gap_Coverage h" "gap_ConditionKind g = gap_ConditionKind h"
    unfolding canonical_gap_def by blast+
  then show "g = h" by simp
qed

lemma length_all_gaps: "length all_gaps = 31"
  by (simp add: all_gaps_def evaluator_gaps_def gap_lists requirements_def condition_kinds_def)

lemma truncated_gap_new: "truncated_gap \<notin> set evaluator_gaps"
  by (auto simp: evaluator_gaps_def gap_lists)

lemma evaluator_gaps_all: "set evaluator_gaps \<subseteq> set all_gaps"
  by (auto simp: all_gaps_def)

text \<open>There are fewer gaps than the limit: cutting the sorted gaps never loses one.\<close>

lemma sorted_gaps_facts:
  assumes "set gs \<subseteq> set all_gaps"
  shows "set (sorted_gaps gs) = set gs" "length (sorted_gaps gs) \<le> 31"
    "sorted_wrt (\<lambda>a b. gap_key a < gap_key b) (sorted_gaps gs)"
proof -
  let ?s = "sort_compact gap_key gs"
  have sorted: "sorted_wrt (\<lambda>a b. gap_key a < gap_key b) ?s" by (rule sort_compact_sorted)
  have sub: "set ?s \<subseteq> set gs" by (rule sort_compact_subset)
  have inj: "inj_on gap_key (set gs)"
    using assms all_gaps_canonical by (intro inj_on_subset [OF gap_key_inj]) blast
  have set: "set ?s = set gs"
    using sub sort_compact_keys [of gap_key gs] inj by (simp add: inj_on_image_eq_iff)
  have "distinct (map gap_key ?s)"
    using sorted strict_sorted_iff [of "map gap_key ?s"] by (simp add: sorted_wrt_map)
  then have "length ?s = card (set ?s)" by (simp add: distinct_map distinct_card)
  also have "\<dots> \<le> card (set all_gaps)" using sub assms by (intro card_mono) auto
  also have "\<dots> \<le> 31" using card_length [of all_gaps] by (simp add: length_all_gaps)
  finally have len: "length ?s \<le> 31" .
  then have "sorted_gaps gs = ?s"
    by (simp add: sorted_gaps_def compactGaps_def sort_compact_def MaxResultGaps_def)
  with set len sorted show "set (sorted_gaps gs) = set gs" "length (sorted_gaps gs) \<le> 31"
    "sorted_wrt (\<lambda>a b. gap_key a < gap_key b) (sorted_gaps gs)" by simp_all
qed

section \<open>The finished result\<close>

text \<open>What the evaluators together leave in the builder.\<close>

definition shaped :: "Input \<Rightarrow> Result \<Rightarrow> bool" where
  "shaped input b \<longleftrightarrow> set (res_Gaps b) \<subseteq> set evaluator_gaps \<and>
     (\<forall>e \<in> set (res_Evidence b). cite_Component e \<in> set components \<and> cite_Ref e \<in> offered input) \<and>
     (\<forall>c. required b c \<longrightarrow> c \<in> cite_Component ` set (res_Evidence b))"

definition truncates :: "Result \<Rightarrow> bool" where
  "truncates b \<longleftrightarrow> MaxResultEvidence < length (sort_compact cite_key (res_Evidence b))"

definition finished_evidence :: "Result \<Rightarrow> CitedEvidence list" where
  "finished_evidence b =
     (let sorted = sort_compact cite_key (res_Evidence b)
      in if truncates b then boundedEvidence (b\<lparr>res_Evidence := sorted\<rparr>) MaxResultEvidence else sorted)"

definition finished_gaps :: "Result \<Rightarrow> Gap list" where
  "finished_gaps b = (if truncates b then sorted_gaps (sorted_gaps (res_Gaps b) @ [truncated_gap])
     else sorted_gaps (res_Gaps b))"

lemma bounded_gaps [simp]:
  "boundedEvidence (b\<lparr>res_Gaps := gs, res_Evidence := es\<rparr>) limit =
     boundedEvidence (b\<lparr>res_Evidence := es\<rparr>) limit"
proof -
  have "required (b\<lparr>res_Gaps := gs, res_Evidence := es\<rparr>) = required (b\<lparr>res_Evidence := es\<rparr>)"
    by (rule ext) (simp add: required_def split: Component.split)
  then have "anchors (b\<lparr>res_Gaps := gs, res_Evidence := es\<rparr>) A cs = anchors (b\<lparr>res_Evidence := es\<rparr>) A cs"
    for A cs by (induction cs arbitrary: A) simp_all
  then show ?thesis by (simp add: boundedEvidence_def)
qed

lemma finish_eq:
  "finish b = b\<lparr>res_Gaps := finished_gaps b, res_Evidence := finished_evidence b\<rparr>"
  by (simp add: finish_def Let_def finished_gaps_def finished_evidence_def truncates_def truncated_gap_def
      compactEvidence_def sort_compact_def [symmetric] addGap_def)

lemma finished_gaps_set:
  assumes "set (res_Gaps b) \<subseteq> set all_gaps"
  shows "set (finished_gaps b) = set (res_Gaps b) \<union> (if truncates b then {truncated_gap} else {})"
    "length (finished_gaps b) \<le> 31"
    "sorted_wrt (\<lambda>a b. gap_key a < gap_key b) (finished_gaps b)"
proof -
  have t: "truncated_gap \<in> set all_gaps" by (simp add: all_gaps_def)
  note first = sorted_gaps_facts [OF assms]
  have "set (sorted_gaps (res_Gaps b) @ [truncated_gap]) \<subseteq> set all_gaps" using first(1) assms t by simp
  note second = sorted_gaps_facts [OF this]
  show "set (finished_gaps b) = set (res_Gaps b) \<union> (if truncates b then {truncated_gap} else {})"
    "length (finished_gaps b) \<le> 31" "sorted_wrt (\<lambda>a b. gap_key a < gap_key b) (finished_gaps b)"
    using first second by (simp_all add: finished_gaps_def)
qed

lemma finished_evidence_facts:
  "set (finished_evidence b) \<subseteq> set (res_Evidence b)"
  "length (finished_evidence b) \<le> 64" "truncates b \<Longrightarrow> length (finished_evidence b) = 64"
  "sorted_wrt (\<lambda>a b. cite_key a < cite_key b) (finished_evidence b)"
  "\<not> truncates b \<Longrightarrow> cite_key ` set (finished_evidence b) = cite_key ` set (res_Evidence b)"
proof -
  let ?s = "sort_compact cite_key (res_Evidence b)" and ?b = "b\<lparr>res_Evidence := sort_compact cite_key (res_Evidence b)\<rparr>"
  show "set (finished_evidence b) \<subseteq> set (res_Evidence b)"
    using bounded_subset [of ?b MaxResultEvidence] sort_compact_subset [of cite_key "res_Evidence b"]
    by (auto simp: finished_evidence_def Let_def)
  have len: "truncates b \<longrightarrow> length (finished_evidence b) = 64" "length (finished_evidence b) \<le> 64"
    using bounded_length [of MaxResultEvidence ?b]
    by (simp_all add: finished_evidence_def Let_def truncates_def MaxResultEvidence_def)
  then show "length (finished_evidence b) \<le> 64" "truncates b \<Longrightarrow> length (finished_evidence b) = 64"
    by simp_all
  show "sorted_wrt (\<lambda>a b. cite_key a < cite_key b) (finished_evidence b)"
    using bounded_sorted [of _ ?b MaxResultEvidence] sort_compact_sorted [of cite_key "res_Evidence b"]
    by (simp add: finished_evidence_def Let_def)
  show "cite_key ` set (finished_evidence b) = cite_key ` set (res_Evidence b)" if "\<not> truncates b"
    using that sort_compact_keys [of cite_key "res_Evidence b"]
    by (simp add: finished_evidence_def Let_def)
qed

text \<open>A verdict keeps a citation, as long as all times can be rendered.\<close>

lemma component_plain: "c \<in> set components \<Longrightarrow> plain (Component_text c)"
  using texts_plain(1) by (auto simp: list_all_iff)

lemma finished_anchor:
  assumes "shaped input b" "required b c" "\<forall>r \<in> offered input. json_ok (EvidenceRef_json r)"
  shows "c \<in> cite_Component ` set (finished_evidence b)"
proof -
  let ?s = "sort_compact cite_key (res_Evidence b)"
  have shape: "cite_Component e \<in> set components" "json_ok (EvidenceRef_json (cite_Ref e))"
    if "e \<in> set (res_Evidence b)" for e
    using assms(1,3) that by (auto simp: shaped_def)
  obtain e where e: "e \<in> set (res_Evidence b)" "cite_Component e = c"
    using assms(1,2) unfolding shaped_def by blast
  have "cite_key e \<in> cite_key ` set ?s" using e(1) by (simp add: sort_compact_keys)
  then obtain d where d: "d \<in> set ?s" "cite_key d = cite_key e" by auto
  have d': "d \<in> set (res_Evidence b)" using d(1) sort_compact_subset [of cite_key "res_Evidence b"] by blast
  have "Component_text (cite_Component d) = Component_text (cite_Component e)"
    using shape [OF d'] shape [OF e(1)] d(2) by (intro cite_key_component component_plain)
  then have "cite_Component d = c"
    using texts_inj(1) shape(1) [OF d'] shape(1) [OF e(1)] e(2) by (auto dest: inj_onD)
  with d(1) have s: "c \<in> cite_Component ` set ?s" by force
  have "required (b\<lparr>res_Evidence := ?s\<rparr>) c"
    using assms(2) by (simp add: required_def split: Component.splits)
  with s bounded_anchor [of "b\<lparr>res_Evidence := ?s\<rparr>" c] show ?thesis
    by (simp add: finished_evidence_def Let_def)
qed

end
