(* ===== verification/EvaluateVerdicts.thy ===== *)
theory EvaluateVerdicts
  imports EvaluateResult
begin

text \<open>
  Every part of the evaluation as one step of the builder, and their composition: on checked input the
  evaluation answers, only appends, and leaves a builder of the shape \<open>shaped\<close>.
\<close>

section \<open>Steps\<close>

definition sound_step :: "Input \<Rightarrow> Component \<Rightarrow> Gap list \<Rightarrow> bool \<Rightarrow> Result \<Rightarrow> Result \<Rightarrow> bool" where
  "sound_step input c gaps decided b b' \<longleftrightarrow> (\<exists>gs es. b' = b\<lparr>res_Gaps := res_Gaps b @ gs,
       res_Evidence := res_Evidence b @ cited c es\<rparr> \<and>
     set es \<subseteq> offered input \<and> set gs \<subseteq> set gaps \<and> (decided \<longrightarrow> es \<noteq> []))"

lemma step_gap [intro!]: "g \<in> set gaps \<Longrightarrow> sound_step input c gaps False b (addGap g b)"
  unfolding sound_step_def addGap_def by (intro exI [of _ "[g]"] exI [of _ "[]"]) simp

lemma step_evidence [intro!]:
  "set es \<subseteq> offered input \<Longrightarrow> (decided \<longrightarrow> es \<noteq> []) \<Longrightarrow> sound_step input c gaps decided b (addEvidence c es b)"
  unfolding sound_step_def addEvidence_cited by (intro exI [of _ "[]"] exI [of _ es]) simp

lemma step_refl [intro!]: "sound_step input c gaps False b b"
  unfolding sound_step_def by (intro exI [of _ "[]"]) simp

lemma step_trans:
  assumes "sound_step input c gaps d b b'" "sound_step input c gaps d' b' b''"
  shows "sound_step input c gaps (d \<or> d') b b''"
proof -
  obtain gs es where 1: "b' = b\<lparr>res_Gaps := res_Gaps b @ gs, res_Evidence := res_Evidence b @ cited c es\<rparr>"
    "set es \<subseteq> offered input" "set gs \<subseteq> set gaps" "d \<longrightarrow> es \<noteq> []"
    using assms(1) unfolding sound_step_def by blast
  obtain gs' es' where 2: "b'' = b'\<lparr>res_Gaps := res_Gaps b' @ gs', res_Evidence := res_Evidence b' @ cited c es'\<rparr>"
    "set es' \<subseteq> offered input" "set gs' \<subseteq> set gaps" "d' \<longrightarrow> es' \<noteq> []"
    using assms(2) unfolding sound_step_def by blast
  from 1 2 show ?thesis unfolding sound_step_def
    by (intro exI [of _ "gs @ gs'"] exI [of _ "es @ es'"]) auto
qed

lemma step_then:
  "sound_step input c gaps False b b' \<Longrightarrow> sound_step input c gaps d b' b'' \<Longrightarrow> sound_step input c gaps d b b''"
  using step_trans [of input c gaps False b b' d b''] by simp

lemma verdict_step: "sound_verdict input b r \<Longrightarrow>
   sound_step input ComponentVerifier verifier_gaps (fst r \<in> {VerifierSatisfied, VerifierViolated}) b (snd r) \<and>
   fst r \<in> {VerifierSatisfied, VerifierViolated, VerifierUnknown}"
proof -
  assume "sound_verdict input b r"
  then obtain gs es where "snd r = b\<lparr>res_Gaps := res_Gaps b @ gs,
       res_Evidence := res_Evidence b @ cited ComponentVerifier es\<rparr>"
    "set es \<subseteq> offered input" "set gs \<subseteq> set verifier_gaps"
    and s: "fst r \<in> {VerifierSatisfied, VerifierViolated} \<and> es \<noteq> [] \<or> fst r = VerifierUnknown \<and> gs \<noteq> []"
    unfolding sound_verdict_def by blast
  then have "sound_step input ComponentVerifier verifier_gaps (fst r \<in> {VerifierSatisfied, VerifierViolated}) b (snd r)"
    unfolding sound_step_def by (intro exI [of _ gs] exI [of _ es]) auto
  with s show ?thesis by blast
qed

section \<open>Opportunity and task outcome\<close>

lemma opportunity_step:
  assumes "checked input" "evaluateOpportunity (facts_Opportunities (inp_Facts input)) b = (s, b')"
  shows "sound_step input ComponentOpportunity opportunity_gaps (s \<noteq> OpportunityUnknown) b b'"
proof -
  let ?facts = "facts_Opportunities (inp_Facts input)"
  have "set (all_evidence opf_FactMeta ?facts) \<subseteq> offered input" by (rule all_evidence_offered) simp
  moreover have "all_evidence opf_FactMeta ?facts = [] \<longleftrightarrow> ?facts = []"
    by (rule all_evidence_empty [OF assms(1)]) simp
  ultimately show ?thesis using assms(2)
    by (auto simp: evaluateOpportunity_def opportunity_gaps_def split: if_splits option.splits)
qed

lemma outcome_step:
  assumes "checked input" "evaluateTaskOutcome input b = (s, b')"
  shows "sound_step input ComponentTaskOutcome outcome_gaps (s \<noteq> TaskOutcomeUnknown) b b'"
proof -
  let ?facts = "facts_TaskOutcomes (inp_Facts input)"
  have "set (all_evidence tof_FactMeta ?facts) \<subseteq> offered input" by (rule all_evidence_offered) simp
  moreover have "all_evidence tof_FactMeta ?facts = [] \<longleftrightarrow> ?facts = []"
    by (rule all_evidence_empty [OF assms(1)]) simp
  ultimately show ?thesis using assms(2)
    by (auto simp: evaluateTaskOutcome_def outcome_gaps_def Let_def split: if_splits option.splits)
qed

section \<open>Applicability\<close>

lemma applicability_gaps_simps [simp]:
  "gap ComponentApplicability GapFactsIncomplete \<in> set applicability_gaps"
  "gap ComponentApplicability GapSemanticExclusion \<in> set applicability_gaps"
  "gap ComponentApplicability GapNoApplicableObservation \<in> set applicability_gaps"
  "kind_gap GapFactsIncomplete ConditionPathPattern \<in> set applicability_gaps"
  "DeterministicConditionKind_Valid k \<Longrightarrow> kind_gap GapAmbiguousMatch k \<in> set applicability_gaps"
  "DeterministicConditionKind_Valid k \<Longrightarrow> kind_gap GapFactsIncomplete k \<in> set applicability_gaps"
  by (simp_all add: applicability_gaps_def condition_kinds_def) (cases k; simp)+

abbreviation applicability_step :: "Input \<Rightarrow> bool \<Rightarrow> Result \<Rightarrow> Result \<Rightarrow> bool" where
  "applicability_step input \<equiv> sound_step input ComponentApplicability applicability_gaps"

lemma context_offered: "set (context_evidence input) \<subseteq> offered input"
  by (auto simp: context_evidence_def offered_def)

lemma decision_step:
  "applicabilityDecision s (context_evidence input) b = (s', b') \<Longrightarrow>
     applicability_step input (s' \<noteq> ApplicabilityUnknown) b b'"
  using context_offered [of input] by (auto simp: applicabilityDecision_def split: if_splits)

lemma match_offered:
  assumes "matchCondition condition (facts_Conditions (inp_Facts input)) = (m, a, es)"
  shows "set es \<subseteq> offered input"
proof -
  have "set (all_evidence cf_FactMeta (filter P (facts_Conditions (inp_Facts input)))) \<subseteq> offered input" for P
    by (rule all_evidence_offered) simp
  with assms show ?thesis by (auto simp: matchCondition_def collect_Pair)
qed

lemma conditions_step:
  "\<forall>c \<in> set conditions. DeterministicConditionKind_Valid (cond_Kind c) \<Longrightarrow>
     (case evaluate_conditions input conditions unknown b of
        Inl b' \<Rightarrow> applicability_step input False b b' | Inr (u, b') \<Rightarrow> applicability_step input False b b')"
proof (induction conditions arbitrary: unknown b)
  case (Cons c cs)
  then have k: "DeterministicConditionKind_Valid (cond_Kind c)" by simp
  obtain m a es where m: "matchCondition c (facts_Conditions (inp_Facts input)) = (m, a, es)"
    by (cases "matchCondition c (facts_Conditions (inp_Facts input))")
  define b1 where "b1 = (if a then addGap (kind_gap GapAmbiguousMatch (cond_Kind c)) b
    else if m then addEvidence ComponentApplicability es b
    else addGap (kind_gap GapFactsIncomplete (cond_Kind c)) b)"
  have 1: "applicability_step input False b b1"
    using k match_offered [OF m] by (auto simp: b1_def)
  have rest: "case evaluate_conditions input cs u b1 of
      Inl b' \<Rightarrow> applicability_step input False b b' | Inr (u, b') \<Rightarrow> applicability_step input False b b'" for u
    using Cons.IH [where unknown = u and b = b1] Cons.prems step_then [OF 1]
    by (cases "evaluate_conditions input cs u b1") auto
  show ?case
    using rest by (cases a; cases m) (auto simp: m b1_def)
qed auto

lemma applicability_sound:
  assumes "checked input" "evaluateApplicability input b = (s, b')"
  shows "applicability_step input (s \<noteq> ApplicabilityUnknown) b b'"
proof -
  let ?x = "inp_Experience input"
  define b1 where "b1 = (if paths_unmatched input
    then addGap (kind_gap GapFactsIncomplete ConditionPathPattern) b else b)"
  have 1: "applicability_step input False b b1" by (auto simp: b1_def)
  let ?r = "evaluate_conditions input (appl_DeterministicConditions (xp_Applicability ?x))
    (scope_unknown input \<or> paths_unmatched input) b1"
  have cs: "\<forall>c \<in> set (appl_DeterministicConditions (xp_Applicability ?x)).
      DeterministicConditionKind_Valid (cond_Kind c)"
    using assms(1) by (simp add: checked_def)
  note 2 = conditions_step [OF cs, where input = input and b = b1 and
      unknown = "scope_unknown input \<or> paths_unmatched input"]
  show ?thesis
  proof (cases "ruled_out input \<or> paths_unmatched input \<and>
      ConditionPathPattern \<in> set (ctx_CompleteConditionKinds (inp_Context input))")
    case True
    then have "applicabilityDecision ApplicabilityNotApplicable (context_evidence input) b = (s, b')"
      using assms(2) by (auto simp: evaluateApplicability_def Let_def split: if_splits)
    then show ?thesis by (rule decision_step)
  next
    case False
    then have r: "(case ?r of
         Inl b2 \<Rightarrow> applicabilityDecision ApplicabilityNotApplicable (context_evidence input) b2
       | Inr (unknown, b2) \<Rightarrow>
           let excluded = (appl_Exclusions (xp_Applicability ?x) \<noteq> []);
               b3 = (if excluded then addGap (gap ComponentApplicability GapSemanticExclusion) b2 else b2)
           in if unknown \<or> excluded
              then (ApplicabilityUnknown, addGap (gap ComponentApplicability GapNoApplicableObservation) b3)
              else applicabilityDecision ApplicabilityApplicable (context_evidence input) b3) = (s, b')"
      using assms(2) by (auto simp: evaluateApplicability_def Let_def b1_def)
    show ?thesis
    proof (cases ?r)
      case (Inl b2)
      with 2 have "applicability_step input False b1 b2" by simp
      moreover from r Inl decision_step have "applicability_step input (s \<noteq> ApplicabilityUnknown) b2 b'" by simp
      ultimately show ?thesis using 1 step_then by blast
    next
      case (Inr u)
      obtain unknown b2 where u: "u = (unknown, b2)" by (cases u)
      define b3 where "b3 = (if appl_Exclusions (xp_Applicability ?x) \<noteq> []
        then addGap (gap ComponentApplicability GapSemanticExclusion) b2 else b2)"
      from 2 Inr u have "applicability_step input False b1 b2" by simp
      moreover have "applicability_step input False b2 b3" by (auto simp: b3_def)
      moreover have "applicability_step input (s \<noteq> ApplicabilityUnknown) b3 b'"
        using r decision_step [of ApplicabilityApplicable input b3 s b']
        by (cases "appl_Exclusions (xp_Applicability ?x) = []")
          (auto simp: Inr u Let_def b3_def split: if_splits)
      ultimately show ?thesis using 1 step_then by blast
    qed
  qed
qed

section \<open>Coverage\<close>

definition coverage_status :: "Input \<Rightarrow> CoverageRequirement \<Rightarrow> CoverageStatus" where
  "coverage_status input requirement =
     \<lparr>covs_Requirement = requirement, covs_Complete = Coverage_Complete (inp_Coverage input) requirement\<rparr>"

definition incomplete :: "Input \<Rightarrow> CoverageRequirement list \<Rightarrow> CoverageRequirement list" where
  "incomplete input rs = filter (\<lambda>r. \<not> Coverage_Complete (inp_Coverage input) r) rs"

lemma check_coverage_eq:
  "check_coverage input rs missing b = (missing \<or> incomplete input rs \<noteq> [],
     b\<lparr>res_Coverage := res_Coverage b @ map (coverage_status input) rs,
       res_Gaps := res_Gaps b @ map missing_gap (incomplete input rs)\<rparr>)"
  by (induction rs arbitrary: missing b)
    (simp_all add: incomplete_def addGap_def coverage_status_def missing_gap_def Let_def)

definition required_coverage :: "Input \<Rightarrow> CoverageRequirement list" where
  "required_coverage input =
     normalizedCoverageRequirements (ver_CoverageRequirements (xp_Verifier (inp_Experience input)))"

lemma set_required_coverage:
  "checked input \<Longrightarrow> set (required_coverage input) \<subseteq> set requirements"
proof -
  assume "checked input"
  then have "Verifier_Validate (xp_Verifier (inp_Experience input)) = None" by (simp add: checked_def)
  then have valid: "\<forall>r \<in> set (ver_CoverageRequirements (xp_Verifier (inp_Experience input))).
      CoverageRequirement_Valid r"
    by (auto simp: Verifier_Validate_def check_simps)
  show ?thesis
  proof
    fix r assume "r \<in> set (required_coverage input)"
    with valid have "CoverageRequirement_Valid r"
      using sort_compact_subset [of CoverageRequirement_text]
      by (auto simp: required_coverage_def normalizedCoverageRequirements_def)
    then show "r \<in> set requirements" by (cases r) (simp_all add: requirements_def)
  qed
qed

section \<open>The whole evaluation\<close>

text \<open>The four verdicts, one after the other.\<close>

definition opportunity_part :: "Input \<Rightarrow> OpportunityState \<times> Result" where
  "opportunity_part input = evaluateOpportunity (facts_Opportunities (inp_Facts input)) new_builder"

definition applicability_part :: "Input \<Rightarrow> ApplicabilityState \<times> Result" where
  "applicability_part input = evaluateApplicability input
     ((snd (opportunity_part input))\<lparr>res_OpportunityState := fst (opportunity_part input)\<rparr>)"

definition outcome_part :: "Input \<Rightarrow> TaskOutcomeState \<times> Result" where
  "outcome_part input = evaluateTaskOutcome input
     ((snd (applicability_part input))\<lparr>res_ApplicabilityState := fst (applicability_part input)\<rparr>)"

definition coverage_part :: "Input \<Rightarrow> Result" where
  "coverage_part input = snd (check_coverage input (required_coverage input) False
     ((snd (outcome_part input))\<lparr>res_TaskOutcomeState := fst (outcome_part input)\<rparr>))"

lemma evaluate_verdicts_eq:
  "evaluate_verdicts input = map_option (\<lambda>b. if res_VerifierState b = VerifierUnknown
       then addEvidence ComponentVerifier (verifierCoverageEvidence input) b else b)
     (if incomplete input (required_coverage input) \<noteq> [] then Some (coverage_part input)
      else map_option (\<lambda>(state, b). b\<lparr>res_VerifierState := state\<rparr>)
        (evaluateVerifier input (coverage_part input)))"
  by (simp add: evaluate_verdicts_def opportunity_part_def applicability_part_def outcome_part_def
      coverage_part_def required_coverage_def check_coverage_eq case_prod_unfold Let_def)

lemma step_fields:
  assumes "sound_step input c gaps d b b'"
  shows "res_DerivationVersion b' = res_DerivationVersion b" "res_OpportunityState b' = res_OpportunityState b"
    "res_ApplicabilityState b' = res_ApplicabilityState b" "res_VerifierState b' = res_VerifierState b"
    "res_TaskOutcomeState b' = res_TaskOutcomeState b" "res_Coverage b' = res_Coverage b"
    "set (res_Gaps b) \<subseteq> set (res_Gaps b')" "required b' = required b"
  using assms by (auto simp: sound_step_def required_def fun_eq_iff split: Component.splits)

lemma shaped_step:
  assumes "shaped input b" "sound_step input c gaps d b b'"
    and "c \<in> set components" "set gaps \<subseteq> set evaluator_gaps"
    and "res_Gaps b'' = res_Gaps b'" "res_Evidence b'' = res_Evidence b'"
    and "\<And>c'. required b'' c' \<Longrightarrow> required b c' \<or> c' = c \<and> d"
  shows "shaped input b''"
proof -
  obtain gs es where step: "res_Gaps b' = res_Gaps b @ gs" "res_Evidence b' = res_Evidence b @ cited c es"
    "set es \<subseteq> offered input" "set gs \<subseteq> set gaps" "d \<Longrightarrow> es \<noteq> []"
    using assms(2) unfolding sound_step_def by auto
  have "c \<in> cite_Component ` set (cited c es)" if d
    using step(5) [OF that] by (cases es) (simp_all add: cited_def)
  moreover have "cite_Component e = c \<and> cite_Ref e \<in> set es" if "e \<in> set (cited c es)" for e
    using that by (auto simp: cited_def)
  ultimately show ?thesis
    using assms(1,3,4,7) step unfolding shaped_def assms(5,6) by (auto simp: image_Un) blast+
qed

lemma part_gaps [simp]: "set opportunity_gaps \<subseteq> set evaluator_gaps" "set applicability_gaps \<subseteq> set evaluator_gaps"
  "set outcome_gaps \<subseteq> set evaluator_gaps" "set verifier_gaps \<subseteq> set evaluator_gaps"
  "missing_gap ` set requirements \<subseteq> set evaluator_gaps"
  by (auto simp: evaluator_gaps_def)

lemma components_simps [simp]: "ComponentOpportunity \<in> set components"
  "ComponentApplicability \<in> set components" "ComponentVerifier \<in> set components"
  "ComponentTaskOutcome \<in> set components"
  by (simp_all add: components_def)

lemma new_shaped: "shaped input new_builder"
  by (auto simp: shaped_def new_builder_def required_def split: Component.splits)

lemma required_states:
  "required (b\<lparr>res_OpportunityState := o1\<rparr>) c \<Longrightarrow> required b c \<or> c = ComponentOpportunity \<and> o1 \<noteq> OpportunityUnknown"
  "required (b\<lparr>res_ApplicabilityState := a1\<rparr>) c \<Longrightarrow> required b c \<or> c = ComponentApplicability \<and> a1 \<noteq> ApplicabilityUnknown"
  "required (b\<lparr>res_TaskOutcomeState := t1\<rparr>) c \<Longrightarrow> required b c \<or> c = ComponentTaskOutcome \<and> t1 \<noteq> TaskOutcomeUnknown"
  "required (b\<lparr>res_VerifierState := v1\<rparr>) c \<Longrightarrow> required b c \<or>
     c = ComponentVerifier \<and> v1 \<in> {VerifierSatisfied, VerifierViolated}"
  by (cases c; simp add: required_def)+

text \<open>The builder before the verifier runs.\<close>

lemma parts_shaped:
  assumes "checked input"
  shows "shaped input ((snd (outcome_part input))\<lparr>res_TaskOutcomeState := fst (outcome_part input)\<rparr>)"
    "res_VerifierState (snd (outcome_part input)) = VerifierUnknown"
    "res_Coverage (snd (outcome_part input)) = []"
    "res_DerivationVersion (snd (outcome_part input)) = Version"
    "res_OpportunityState (snd (outcome_part input)) = fst (opportunity_part input)"
    "res_ApplicabilityState (snd (outcome_part input)) = fst (applicability_part input)"
proof -
  define b1 where "b1 = (snd (opportunity_part input))\<lparr>res_OpportunityState := fst (opportunity_part input)\<rparr>"
  define b2 where "b2 = (snd (applicability_part input))\<lparr>res_ApplicabilityState := fst (applicability_part input)\<rparr>"
  have 1: "sound_step input ComponentOpportunity opportunity_gaps
      (fst (opportunity_part input) \<noteq> OpportunityUnknown) new_builder (snd (opportunity_part input))"
    by (rule opportunity_step [OF assms]) (simp add: opportunity_part_def)
  have 2: "sound_step input ComponentApplicability applicability_gaps
      (fst (applicability_part input) \<noteq> ApplicabilityUnknown) b1 (snd (applicability_part input))"
    by (rule applicability_sound [OF assms]) (simp add: applicability_part_def b1_def)
  have 3: "sound_step input ComponentTaskOutcome outcome_gaps
      (fst (outcome_part input) \<noteq> TaskOutcomeUnknown) b2 (snd (outcome_part input))"
    by (rule outcome_step [OF assms]) (simp add: outcome_part_def b2_def)
  have s1: "shaped input b1"
    using step_fields(8) [OF 1]
    by (intro shaped_step [OF new_shaped 1]) (auto simp: b1_def dest: required_states)
  have s2: "shaped input b2"
    using step_fields(8) [OF 2]
    by (intro shaped_step [OF s1 2]) (auto simp: b2_def dest: required_states)
  show "shaped input ((snd (outcome_part input))\<lparr>res_TaskOutcomeState := fst (outcome_part input)\<rparr>)"
    using step_fields(8) [OF 3]
    by (intro shaped_step [OF s2 3]) (auto dest: required_states)
  show "res_VerifierState (snd (outcome_part input)) = VerifierUnknown"
    "res_Coverage (snd (outcome_part input)) = []"
    "res_DerivationVersion (snd (outcome_part input)) = Version"
    "res_OpportunityState (snd (outcome_part input)) = fst (opportunity_part input)"
    "res_ApplicabilityState (snd (outcome_part input)) = fst (applicability_part input)"
    using step_fields [OF 1] step_fields [OF 2] step_fields [OF 3]
    by (simp_all add: b1_def b2_def new_builder_def)
qed

lemma coverage_part_eq:
  "coverage_part input = ((snd (outcome_part input))\<lparr>res_TaskOutcomeState := fst (outcome_part input)\<rparr>)
     \<lparr>res_Coverage := res_Coverage (snd (outcome_part input)) @ map (coverage_status input) (required_coverage input),
      res_Gaps := res_Gaps (snd (outcome_part input)) @
        map missing_gap (incomplete input (required_coverage input))\<rparr>"
  by (simp add: coverage_part_def check_coverage_eq)

lemma coverage_part_facts:
  assumes "checked input"
  shows "shaped input (coverage_part input)" "res_VerifierState (coverage_part input) = VerifierUnknown"
    "res_Coverage (coverage_part input) = map (coverage_status input) (required_coverage input)"
    "res_DerivationVersion (coverage_part input) = Version"
    "missing_gap ` set (incomplete input (required_coverage input)) \<subseteq> set (res_Gaps (coverage_part input))"
proof -
  note p = parts_shaped [OF assms]
  have "set (incomplete input (required_coverage input)) \<subseteq> set requirements"
    using set_required_coverage [OF assms] by (auto simp: incomplete_def)
  then have g: "missing_gap ` set (incomplete input (required_coverage input)) \<subseteq> set evaluator_gaps"
    using part_gaps(5) by blast
  have "required (coverage_part input) =
      required ((snd (outcome_part input))\<lparr>res_TaskOutcomeState := fst (outcome_part input)\<rparr>)"
    by (auto simp: coverage_part_eq required_def fun_eq_iff split: Component.splits)
  with p(1) g show "shaped input (coverage_part input)"
    unfolding shaped_def by (simp add: coverage_part_eq)
  show "res_VerifierState (coverage_part input) = VerifierUnknown"
    "res_Coverage (coverage_part input) = map (coverage_status input) (required_coverage input)"
    "res_DerivationVersion (coverage_part input) = Version"
    "missing_gap ` set (incomplete input (required_coverage input)) \<subseteq> set (res_Gaps (coverage_part input))"
    using p by (simp_all add: coverage_part_eq)
qed

lemma verifier_coverage_offered: "set (verifierCoverageEvidence input) \<subseteq> offered input"
  using coverage_offered by (auto simp: verifierCoverageEvidence_def)

lemma judged_step:
  assumes "checked input" "shaped input b" "res_VerifierState b = VerifierUnknown"
  obtains v b' where "evaluateVerifier input b = Some (v, b')"
    "v \<in> {VerifierSatisfied, VerifierViolated, VerifierUnknown}"
    "sound_step input ComponentVerifier verifier_gaps (v \<noteq> VerifierUnknown) b b'"
    "shaped input (b'\<lparr>res_VerifierState := v\<rparr>)"
proof -
  have "case evaluateVerifier input b of None \<Rightarrow> False | Some r \<Rightarrow> sound_verdict input b r"
    using dispatch.answers [OF assms(1)] by simp
  then obtain v b' where r: "evaluateVerifier input b = Some (v, b')" "sound_verdict input b (v, b')"
    by (cases "evaluateVerifier input b") auto
  from verdict_step [OF r(2)] have v: "v \<in> {VerifierSatisfied, VerifierViolated, VerifierUnknown}"
    and "sound_step input ComponentVerifier verifier_gaps (v \<in> {VerifierSatisfied, VerifierViolated}) b b'"
    by simp_all
  moreover have "v \<in> {VerifierSatisfied, VerifierViolated} \<longleftrightarrow> v \<noteq> VerifierUnknown" using v by auto
  ultimately have step: "sound_step input ComponentVerifier verifier_gaps (v \<noteq> VerifierUnknown) b b'" by simp
  have "shaped input (b'\<lparr>res_VerifierState := v\<rparr>)"
    using step_fields(8) [OF step] by (intro shaped_step [OF assms(2) step]) (auto dest: required_states)
  with r(1) v step show ?thesis by (rule that)
qed

lemma unknown_cites_coverage:
  assumes "shaped input b"
  shows "shaped input (if res_VerifierState b = VerifierUnknown
    then addEvidence ComponentVerifier (verifierCoverageEvidence input) b else b)"
proof -
  let ?b = "addEvidence ComponentVerifier (verifierCoverageEvidence input) b"
  have step: "sound_step input ComponentVerifier [] False b ?b"
    using verifier_coverage_offered by (intro step_evidence) auto
  have "shaped input ?b" using step_fields(8) [OF step] by (intro shaped_step [OF assms step]) auto
  with assms show ?thesis by simp
qed

lemma evaluate_verdicts_facts:
  assumes "checked input"
  obtains b where "evaluate_verdicts input = Some b" "shaped input b"
    "res_DerivationVersion b = Version"
    "res_Coverage b = map (coverage_status input) (required_coverage input)"
    "missing_gap ` set (incomplete input (required_coverage input)) \<subseteq> set (res_Gaps b)"
    "res_VerifierState b \<in> {VerifierSatisfied, VerifierViolated, VerifierUnknown}"
    "incomplete input (required_coverage input) \<noteq> [] \<Longrightarrow> res_VerifierState b = VerifierUnknown"
    "incomplete input (required_coverage input) = [] \<Longrightarrow>
       \<exists>b'. evaluateVerifier input (coverage_part input) = Some (res_VerifierState b, b')"
    "res_OpportunityState b = fst (opportunity_part input)"
    "res_ApplicabilityState b = fst (applicability_part input)"
    "res_TaskOutcomeState b = fst (outcome_part input)"
proof -
  note c = coverage_part_facts [OF assms]
  have states: "res_OpportunityState (coverage_part input) = fst (opportunity_part input)"
    "res_ApplicabilityState (coverage_part input) = fst (applicability_part input)"
    "res_TaskOutcomeState (coverage_part input) = fst (outcome_part input)"
    using parts_shaped [OF assms] by (simp_all add: coverage_part_eq)
  show thesis
  proof (cases "incomplete input (required_coverage input) = []")
    case False
    then have "evaluate_verdicts input =
        Some (addEvidence ComponentVerifier (verifierCoverageEvidence input) (coverage_part input))"
      using c(2) by (simp add: evaluate_verdicts_eq)
    then show thesis
      using unknown_cites_coverage [OF c(1)] c False states
      by (intro that [of "addEvidence ComponentVerifier (verifierCoverageEvidence input) (coverage_part input)"])
        (simp_all add: addEvidence_cited)
  next
    case True
    obtain v b' where j: "evaluateVerifier input (coverage_part input) = Some (v, b')"
      "v \<in> {VerifierSatisfied, VerifierViolated, VerifierUnknown}"
      "sound_step input ComponentVerifier verifier_gaps (v \<noteq> VerifierUnknown) (coverage_part input) b'"
      "shaped input (b'\<lparr>res_VerifierState := v\<rparr>)"
      using judged_step [OF assms c(1,2)] .
    let ?b = "b'\<lparr>res_VerifierState := v\<rparr>"
    have "evaluate_verdicts input = Some (if res_VerifierState ?b = VerifierUnknown
        then addEvidence ComponentVerifier (verifierCoverageEvidence input) ?b else ?b)"
      using True j(1) by (simp add: evaluate_verdicts_eq)
    then show thesis
      using unknown_cites_coverage [OF j(4)] c True j states step_fields [OF j(3)]
      by (intro that [of "if res_VerifierState ?b = VerifierUnknown
          then addEvidence ComponentVerifier (verifierCoverageEvidence input) ?b else ?b"])
        (auto simp: addEvidence_cited)
  qed
qed

text \<open>The result of an evaluation of valid input.\<close>

lemma evaluated:
  assumes "validateInput lower input = None"
  obtains b where "checked input" "evaluate_verdicts input = Some b" "Evaluate lower input = Inr (finish b)"
proof -
  from assms have c: "checked input" by (rule validated_checked)
  then obtain b where "evaluate_verdicts input = Some b" by (rule evaluate_verdicts_facts)
  with c assms show thesis by (intro that) (simp_all add: Evaluate_def)
qed

lemma evaluated_result:
  assumes "Evaluate lower input = Inr result"
  obtains b where "checked input" "evaluate_verdicts input = Some b" "result = finish b"
proof -
  from assms have "validateInput lower input = None"
    by (auto simp: Evaluate_def wrap_error_None split: option.splits)
  with assms show thesis by (elim evaluated) (auto intro: that)
qed

end
