(* ===== verification/Evaluations.thy ===== *)
theory Evaluations
  imports EvaluateVerdicts
begin

text \<open>
  Properties of the deterministic evaluation: it answers exactly for valid input, its verdicts rest on
  retained evidence of the input, missing coverage leaves the verifier undecided, results are bounded
  and sorted, and the exact meaning of the verdicts.
\<close>

section \<open>Sample input\<close>

definition application0 :: Application where
  "application0 =
     (let a = \<lparr>app_SchemaVersion = ApplicationSchemaVersion, app_ApplicationID = [],
        app_Experience = ExperienceRef (the (DeriveExperienceID ''p'' origin0)) 1,
        app_ProjectIdentity = ''p'', app_SessionKey = ''u'', app_DeliveryKind = DeliveryHook,
        app_DeliveryState = DeliveryDelivered, app_DeliveredAt = Some (day 1),
        app_OpportunityState = OpportunityUnknown, app_ApplicabilityState = ApplicabilityUnknown,
        app_VerifierState = VerifierUnknown, app_TaskOutcomeState = TaskOutcomeUnknown,
        app_SourceEvidence = []\<rparr>
      in a\<lparr>app_ApplicationID := the (Application_DeterministicID a)\<rparr>)"

definition meta0 :: "int \<Rightarrow> FactMeta" where
  "meta0 order = \<lparr>fm_Order = order, fm_Ambiguous = False, fm_Evidence = [event_ref ''e1'']\<rparr>"

definition no_facts :: Facts where
  "no_facts = \<lparr>facts_Opportunities = [], facts_Conditions = [], facts_Commands = [], facts_FileChanges = [],
     facts_Verifications = [], facts_Failures = [], facts_Corrections = [], facts_TaskOutcomes = []\<rparr>"

definition coverage0 :: "bool \<Rightarrow> Coverage" where
  "coverage0 full = \<lparr>cov_TranscriptComplete = full, cov_CanonicalEventsComplete = full,
     cov_WorkspaceStateCaptured = full, cov_OutcomeObservationsComplete = full,
     cov_Evidence = [\<lparr>cove_Requirement = CoverageTranscriptComplete, cove_Evidence = [event_ref ''e2'']\<rparr>,
       \<lparr>cove_Requirement = CoverageCanonicalComplete, cove_Evidence = [event_ref ''e2'']\<rparr>]\<rparr>"

definition context0 :: Context where
  "context0 = \<lparr>ctx_ProjectIdentity = ''p'', ctx_SessionKey = ''u'', ctx_Harness = HarnessClaude,
     ctx_Model = [], ctx_TaskFamilies = [''ui''], ctx_RepositoryPaths = [], ctx_CompleteConditionKinds = [],
     ctx_LastTurnIndex = Some 9, ctx_AsOf = day 2, ctx_Evidence = [event_ref ''e2'']\<rparr>"

definition input0 :: "Verifier \<Rightarrow> bool \<Rightarrow> Facts \<Rightarrow> Input" where
  "input0 v full facts = \<lparr>inp_Application = application0, inp_Experience = experience0 v,
     inp_Context = context0, inp_Coverage = coverage0 full,
     inp_NormalizedVerifier = \<lparr>nv_DeclaredCommand = [], nv_CommandSignature = [],
       nv_CommandScrubbingVersion = []\<rparr>,
     inp_Facts = facts\<rparr>"

lemma application0_valid [simp]: "Application_Validate application0 = None"
proof -
  obtain j where j: "Application_DeterministicID application0 = deterministicID ''exa_'' j"
    "app_ApplicationID application0 = the (deterministicID ''exa_'' j)" "json_ok j"
    by (simp add: application0_def Let_def Application_DeterministicID_def normalizedTimePointer_def)
  with computed_id [OF j(3), of "''exa_''"] show ?thesis
    by (simp add: Application_Validate_def check_simps)
      (simp add: application0_def Let_def ExperienceRef_Validate_def check_simps)
qed

lemma later_day: "Before (day m) (day n) \<longleftrightarrow> m < n"
  by (simp add: day_def Before_def utc_at_def time_cmp_key_def)

lemma evidence0_ok: "validateEvidence context [event_ref ''e1''] MaxEvidencePerFact True = None"
  "validateEvidence context [event_ref ''e2''] MaxEvidencePerFact needed = None"
  by (simp_all add: validateEvidence_def MaxEvidencePerFact_def check_simps)
    (simp_all add: event_ref_def empty_ref_def)

lemma meta0_valid [simp]: "0 \<le> i \<Longrightarrow> i \<le> 9 \<Longrightarrow> validateFactMeta context0 (meta0 i) = None"
  by (simp add: validateFactMeta_def meta0_def context0_def check_simps evidence0_ok)

lemma family0_valid: "validateNormalizedString name ''ui'' True = None"
proof -
  have "TrimSpace ''ui'' = ''ui''" "ValidString ''ui''" "\<not> list_ex (\<lambda>c. byte c < 32 \<or> byte c = 127) ''ui''"
    by code_simp+
  then show ?thesis by (simp add: validateNormalizedString_def check_simps)
qed

lemma context0_valid [simp]: "context_check context0 = None"
proof -
  have "ctx_Evidence context0 = [event_ref ''e2'']" "ctx_TaskFamilies context0 = [''ui'']"
    by (simp_all add: context0_def)
  then show ?thesis
    by (simp add: context_check_def check_simps evidence0_ok family0_valid)
      (simp add: context0_def validateNormalizedString_def check_simps)
qed

lemma coverage0_valid [simp]: "validateCoverageEvidence context0 (coverage0 b) = None"
  by (simp add: validateCoverageEvidence_def coverage0_def check_simps evidence0_ok)

lemma input0_valid:
  assumes "Verifier_Validate v = None" "ver_Kind v \<notin> {VerifierCommandObserved, VerifierCommandSucceeded}"
    and "validateFacts lower context0 facts = None"
  shows "validateInput lower (input0 v full facts) = None"
proof -
  have "binding_check (input0 v full facts) = None"
    by (simp add: binding_check_def check_simps input0_def Let_def)
      (simp add: application0_def Let_def context0_def check_simps scope0_def later_day)
  with assms show ?thesis
    by (simp add: validateInput_def check_simps)
      (simp add: input0_def validateNormalizedVerifier_def check_simps)
qed

text \<open>A file that should be modified, and was.\<close>

definition edit0 :: FileChangeFact where
  "edit0 = \<lparr>fc_FactMeta = meta0 3, fc_Path = ''a.go''\<rparr>"

definition edited0 :: Facts where
  "edited0 = no_facts\<lparr>facts_FileChanges := [edit0]\<rparr>"

lemma edited0_valid: "validateFacts lower context0 edited0 = None"
  by (simp add: validateFacts_def edited0_def no_facts_def edit0_def check_simps MaxFacts_def
      file_change_check_def file_path_check_def FileVerifierSpec_Validate_def)

lemma verifier_modified_kind [simp]: "ver_Kind verifier_modified = VerifierFileModified"
  "ver_Kind verifier_untouched = VerifierFileNotModified"
  by (simp_all add: verifier_modified_def verifier_untouched_def no_verifier_def)

lemma edited_input_valid: "validateInput lower (input0 verifier_modified full edited0) = None"
  "validateInput lower (input0 verifier_untouched full edited0) = None"
  by (rule input0_valid; simp add: edited0_valid)+

lemma answered0: "validateInput lower input = None \<Longrightarrow> Evaluate lower input = Inr (finish (the (evaluate_verdicts input)))"
  by (erule evaluated) simp

lemma required_member:
  assumes "\<forall>r \<in> set (ver_CoverageRequirements (xp_Verifier (inp_Experience input))). CoverageRequirement_Valid r"
  shows "r \<in> set (required_coverage input) \<longleftrightarrow>
    r \<in> set (ver_CoverageRequirements (xp_Verifier (inp_Experience input)))"
proof -
  let ?rs = "ver_CoverageRequirements (xp_Verifier (inp_Experience input))"
  have "set ?rs \<subseteq> set requirements"
  proof
    fix r assume "r \<in> set ?rs"
    with assms have "CoverageRequirement_Valid r" by blast
    then show "r \<in> set requirements" by (cases r) (simp_all add: requirements_def)
  qed
  moreover have "inj_on CoverageRequirement_text (set requirements)"
    using texts_inj(3) by (rule inj_on_subset) auto
  ultimately have "inj_on CoverageRequirement_text (set ?rs)" by (blast intro: inj_on_subset)
  then have "set (sort_compact CoverageRequirement_text ?rs) = set ?rs"
    using sort_compact_keys [of CoverageRequirement_text ?rs] sort_compact_subset [of CoverageRequirement_text ?rs]
    by (simp add: inj_on_image_eq_iff)
  then show ?thesis by (simp add: required_coverage_def normalizedCoverageRequirements_def)
qed

text \<open>The verifier state of the result is the verdict of the verifier, or unknown when coverage is missing.\<close>

lemma verifier_state:
  assumes "validateInput lower input = None"
  obtains result where "Evaluate lower input = Inr result" "checked input"
    "res_VerifierState result =
       (if incomplete input (required_coverage input) \<noteq> [] then VerifierUnknown
        else fst (the (evaluateVerifier input (coverage_part input))))"
proof -
  from assms obtain b where b: "checked input" "evaluate_verdicts input = Some b"
    "Evaluate lower input = Inr (finish b)" by (rule evaluated)
  from evaluate_verdicts_facts [OF b(1)] b(2)
  have "res_VerifierState b = (if incomplete input (required_coverage input) \<noteq> [] then VerifierUnknown
        else fst (the (evaluateVerifier input (coverage_part input))))" by fastforce
  with b show thesis by (intro that [of "finish b"]) (simp_all add: finish_eq)
qed

lemma input0_selects [simp]: "inp_Experience (input0 v full facts) = experience0 v"
  "inp_Facts (input0 v full facts) = facts" "inp_Coverage (input0 v full facts) = coverage0 full"
  "inp_Context (input0 v full facts) = context0" "app_SourceEvidence (inp_Application (input0 v full facts)) = []"
  by (simp_all add: input0_def application0_def Let_def)

lemma verifier_selects [simp]: "ver_CoverageRequirements verifier_modified = []"
  "ver_CoverageRequirements verifier_untouched = [CoverageCanonicalComplete]"
  "ver_File verifier_modified = Some \<lparr>fvs_Path = ''a.go''\<rparr>"
  "ver_File verifier_untouched = Some \<lparr>fvs_Path = ''a.go''\<rparr>"
  by (simp_all add: verifier_modified_def verifier_untouched_def no_verifier_def)

lemma offered0:
  "offered (input0 v full edited0) = {event_ref ''e1'', event_ref ''e2''}"
  by (auto simp: offered_def context0_def coverage0_def fact_metas_def edited0_def no_facts_def edit0_def
      meta0_def)

lemma coverage0_simps [simp]: "cov_CanonicalEventsComplete (coverage0 full) = full"
  "cov_TranscriptComplete (coverage0 full) = full"
  by (simp_all add: coverage0_def)

lemma required_coverage0: "required_coverage (input0 verifier_modified full facts) = []"
  "required_coverage (input0 verifier_untouched full facts) = [CoverageCanonicalComplete]"
  by (simp_all add: required_coverage_def normalizedCoverageRequirements_def sort_compact_def)

lemma edited_satisfied:
  obtains result where "Evaluate (\<lambda>s. s) (input0 verifier_modified full edited0) = Inr result"
    "res_VerifierState result = VerifierSatisfied"
proof (rule verifier_state [OF edited_input_valid(1) [of "\<lambda>s. s" full]])
  fix result
  assume "Evaluate (\<lambda>s. s) (input0 verifier_modified full edited0) = Inr result"
    "res_VerifierState result = (if incomplete (input0 verifier_modified full edited0)
        (required_coverage (input0 verifier_modified full edited0)) \<noteq> [] then VerifierUnknown
      else fst (the (evaluateVerifier (input0 verifier_modified full edited0)
        (coverage_part (input0 verifier_modified full edited0)))))"
  then show thesis
    by (intro that) (simp_all add: required_coverage0 incomplete_def evaluateVerifier_def evaluateFile_def
      edited0_def no_facts_def edit0_def meta0_def verifier_decided_def)
qed

section \<open>The evaluation answers\<close>

text \<open>C36: The evaluation succeeds exactly on the input its validation accepts: past the validation no branch
  fails or dereferences a missing specification, and the result carries the derivation version.\<close>

theorem evaluation_answers:
  "(\<exists>result. Evaluate lower input = Inr result \<and> res_DerivationVersion result = Version) \<longleftrightarrow>
     validateInput lower input = None"
proof
  assume "\<exists>result. Evaluate lower input = Inr result \<and> res_DerivationVersion result = Version"
  then show "validateInput lower input = None"
    by (auto simp: Evaluate_def wrap_error_None split: option.splits)
next
  assume "validateInput lower input = None"
  then obtain b where b: "checked input" "evaluate_verdicts input = Some b" "Evaluate lower input = Inr (finish b)"
    by (rule evaluated)
  from evaluate_verdicts_facts [OF b(1)] b(2) have "res_DerivationVersion b = Version" by auto
  with b(3) show "\<exists>result. Evaluate lower input = Inr result \<and> res_DerivationVersion result = Version"
    by (simp add: finish_eq)
qed

section \<open>Verdicts rest on evidence\<close>

text \<open>C29: A verdict that decides something keeps a citation: when opportunity, applicability, verifier or
  task outcome is not unknown, the evidence of the result has an entry of that component, also after it was
  sorted, compacted and cut to the limit (as long as the times of the offered evidence can be rendered).\<close>

theorem decisive_verdict_cited:
  assumes "Evaluate lower input = Inr result"
    and "\<forall>r \<in> offered input. \<forall>t. eref_OccurredAt r = Some t \<longrightarrow> json_local_ok t"
  shows "(res_OpportunityState result = OpportunityUnknown \<or>
      ComponentOpportunity \<in> cite_Component ` set (res_Evidence result)) \<and>
    (res_ApplicabilityState result = ApplicabilityUnknown \<or>
      ComponentApplicability \<in> cite_Component ` set (res_Evidence result)) \<and>
    (res_VerifierState result = VerifierUnknown \<or>
      ComponentVerifier \<in> cite_Component ` set (res_Evidence result)) \<and>
    (res_TaskOutcomeState result = TaskOutcomeUnknown \<or>
      ComponentTaskOutcome \<in> cite_Component ` set (res_Evidence result))"
proof -
  obtain b where b: "checked input" "evaluate_verdicts input = Some b" "result = finish b"
    using evaluated_result [OF assms(1)] .
  from evaluate_verdicts_facts [OF b(1)] b(2)
  have shaped: "shaped input b" and v: "res_VerifierState b \<in> {VerifierSatisfied, VerifierViolated, VerifierUnknown}"
    by auto
  have "\<forall>r \<in> offered input. json_ok (EvidenceRef_json r)" using assms(2) by auto
  then have "required b c \<longrightarrow> c \<in> cite_Component ` set (res_Evidence result)" for c
    using finished_anchor [OF shaped] by (auto simp: b(3) finish_eq)
  from this [of ComponentOpportunity] this [of ComponentApplicability] this [of ComponentVerifier]
    this [of ComponentTaskOutcome] v show ?thesis
    by (auto simp: required_def b(3) finish_eq)
qed

theorem decisive_verdict_cited_witness:
  "\<exists>result. Evaluate (\<lambda>s. s) (input0 verifier_modified True edited0) = Inr result \<and>
     res_VerifierState result = VerifierSatisfied \<and>
     ComponentVerifier \<in> cite_Component ` set (res_Evidence result)"
proof (rule edited_satisfied)
  fix result
  assume r: "Evaluate (\<lambda>s. s) (input0 verifier_modified True edited0) = Inr result"
    "res_VerifierState result = VerifierSatisfied"
  from decisive_verdict_cited [OF r(1)] r show ?thesis by (simp add: offered0)
qed

text \<open>The verdict of the modified file cites the edit.\<close>

lemma some_citation:
  assumes "Evaluate (\<lambda>s. s) (input0 verifier_modified full edited0) = Inr result"
    "res_VerifierState result = VerifierSatisfied"
  shows "res_Evidence result \<noteq> []"
proof -
  obtain b where b: "checked (input0 verifier_modified full edited0)"
    "evaluate_verdicts (input0 verifier_modified full edited0) = Some b" "result = finish b"
    using evaluated_result [OF assms(1)] .
  from evaluate_verdicts_facts [OF b(1)] b(2) have "shaped (input0 verifier_modified full edited0) b" by auto
  moreover have "required b ComponentVerifier" using assms(2) by (simp add: b(3) finish_eq required_def)
  ultimately have "ComponentVerifier \<in> cite_Component ` set (finished_evidence b)"
    by (rule finished_anchor) (simp add: offered0)
  then show ?thesis by (auto simp: b(3) finish_eq)
qed

text \<open>Every citation of a result is evidence the input offers (of its facts, its coverage, its context or
  the application), under one of the four components.\<close>

theorem citations_come_from_input:
  assumes "Evaluate lower input = Inr result" "e \<in> set (res_Evidence result)"
  shows "cite_Ref e \<in> offered input \<and> cite_Component e \<in> {ComponentOpportunity, ComponentApplicability,
    ComponentVerifier, ComponentTaskOutcome}"
proof -
  obtain b where b: "checked input" "evaluate_verdicts input = Some b" "result = finish b"
    using evaluated_result [OF assms(1)] .
  from evaluate_verdicts_facts [OF b(1)] b(2) have "shaped input b" by auto
  moreover have "e \<in> set (res_Evidence b)"
    using assms(2) finished_evidence_facts(1) [of b] by (auto simp: b(3) finish_eq)
  ultimately show ?thesis by (auto simp: shaped_def components_def)
qed

theorem citations_come_from_input_witness:
  "\<exists>result e. Evaluate (\<lambda>s. s) (input0 verifier_modified True edited0) = Inr result \<and>
     e \<in> set (res_Evidence result) \<and> cite_Ref e \<in> {event_ref ''e1'', event_ref ''e2''}"
proof (rule edited_satisfied)
  fix result
  assume r: "Evaluate (\<lambda>s. s) (input0 verifier_modified True edited0) = Inr result"
    "res_VerifierState result = VerifierSatisfied"
  from some_citation [OF r] obtain e where "e \<in> set (res_Evidence result)"
    by (cases "res_Evidence result") auto
  with citations_come_from_input [OF r(1)] r(1) show ?thesis by (auto simp: offered0)
qed

section \<open>Missing coverage\<close>

text \<open>C30: When a coverage requirement of the verifier is not complete, the verifier stays undecided and the
  result names that coverage as missing; the coverage list is the sorted list of the requirements, each with
  its completeness.\<close>

theorem missing_coverage_undecided:
  assumes "Evaluate lower input = Inr result"
    and "requirement \<in> set (ver_CoverageRequirements (xp_Verifier (inp_Experience input)))"
    and "\<not> Coverage_Complete (inp_Coverage input) requirement"
  shows "res_VerifierState result = VerifierUnknown \<and>
    \<lparr>gap_Component = ComponentVerifier, gap_Code = GapCoverageMissing, gap_Coverage = requirement,
      gap_ConditionKind = no_kind\<rparr> \<in> set (res_Gaps result) \<and>
    \<lparr>covs_Requirement = requirement, covs_Complete = False\<rparr> \<in> set (res_Coverage result)"
proof -
  obtain b where b: "checked input" "evaluate_verdicts input = Some b" "result = finish b"
    using evaluated_result [OF assms(1)] .
  from b(1) have "Verifier_Validate (xp_Verifier (inp_Experience input)) = None" by (simp add: checked_def)
  then have "\<forall>r \<in> set (ver_CoverageRequirements (xp_Verifier (inp_Experience input))). CoverageRequirement_Valid r"
    by (auto simp: Verifier_Validate_def check_simps)
  then have m: "requirement \<in> set (incomplete input (required_coverage input))"
    using assms(2,3) required_member by (simp add: incomplete_def)
  then have "incomplete input (required_coverage input) \<noteq> []" by auto
  with evaluate_verdicts_facts [OF b(1)] b(2)
  have f: "res_VerifierState b = VerifierUnknown" "shaped input b"
    "missing_gap ` set (incomplete input (required_coverage input)) \<subseteq> set (res_Gaps b)"
    "res_Coverage b = map (coverage_status input) (required_coverage input)" by auto
  have "set (res_Gaps b) \<subseteq> set all_gaps" using f(2) evaluator_gaps_all by (auto simp: shaped_def)
  from finished_gaps_set(1) [OF this] f(3) m have "missing_gap requirement \<in> set (res_Gaps result)"
    by (auto simp: b(3) finish_eq)
  moreover have "coverage_status input requirement \<in> set (res_Coverage result)"
    using f(4) m by (auto simp: b(3) finish_eq incomplete_def)
  ultimately show ?thesis using f(1) assms(3)
    by (simp add: b(3) finish_eq missing_gap_def gap_def coverage_status_def)
qed

theorem missing_coverage_undecided_witness:
  "\<exists>result. Evaluate (\<lambda>s. s) (input0 verifier_untouched False edited0) = Inr result \<and>
     res_VerifierState result = VerifierUnknown"
proof (rule evaluated [OF edited_input_valid(2) [of "\<lambda>s. s" False]])
  fix b assume "Evaluate (\<lambda>s. s) (input0 verifier_untouched False edited0) = Inr (finish b)"
  with missing_coverage_undecided [OF this, of CoverageCanonicalComplete] show ?thesis by simp
qed

section \<open>Bounds\<close>

text \<open>A result is bounded and in canonical order: at most 64 citations and 31 gaps (below the limit of 32,
  so no gap is ever cut), both strictly sorted by their JSON text; only a result with exactly 64 citations
  says that evidence was truncated.\<close>

theorem result_bounded:
  assumes "Evaluate lower input = Inr result"
  shows "length (res_Evidence result) \<le> MaxResultEvidence \<and> length (res_Gaps result) < MaxResultGaps \<and>
    sorted_wrt (\<lambda>a b. cite_key a < cite_key b) (res_Evidence result) \<and>
    sorted_wrt (\<lambda>a b. gap_key a < gap_key b) (res_Gaps result) \<and>
    (gap ComponentVerifier GapEvidenceTruncated \<notin> set (res_Gaps result) \<or>
      length (res_Evidence result) = MaxResultEvidence)"
proof -
  obtain b where b: "checked input" "evaluate_verdicts input = Some b" "result = finish b"
    using evaluated_result [OF assms] .
  from evaluate_verdicts_facts [OF b(1)] b(2) have g: "set (res_Gaps b) \<subseteq> set evaluator_gaps"
    by (auto simp: shaped_def)
  note gaps = finished_gaps_set [OF order_trans [OF g evaluator_gaps_all]]
  have "truncated_gap \<notin> set (res_Gaps b)" using g truncated_gap_new by blast
  then have "truncated_gap \<notin> set (res_Gaps result) \<or> length (res_Evidence result) = 64"
    using gaps(1) finished_evidence_facts(3) [of b] by (auto simp: b(3) finish_eq)
  with gaps(2,3) finished_evidence_facts(2,4) [of b] show ?thesis
    by (simp add: b(3) finish_eq MaxResultEvidence_def MaxResultGaps_def truncated_gap_def)
qed

theorem result_bounded_witness:
  "\<exists>result. Evaluate (\<lambda>s. s) (input0 verifier_modified True edited0) = Inr result \<and>
     length (res_Evidence result) \<le> 64"
proof (rule edited_satisfied)
  fix result
  assume r: "Evaluate (\<lambda>s. s) (input0 verifier_modified True edited0) = Inr result"
  from result_bounded [OF r] r show ?thesis by (simp add: MaxResultEvidence_def)
qed

section \<open>What the verdicts mean\<close>

text \<open>The declared coverage is complete.\<close>

definition coverage_complete :: "Input \<Rightarrow> bool" where
  "coverage_complete input \<longleftrightarrow> (\<forall>r \<in> set (ver_CoverageRequirements (xp_Verifier (inp_Experience input))).
     Coverage_Complete (inp_Coverage input) r)"

lemma complete_coverage:
  assumes "checked input"
  shows "incomplete input (required_coverage input) = [] \<longleftrightarrow> coverage_complete input"
proof -
  from assms have "Verifier_Validate (xp_Verifier (inp_Experience input)) = None" by (simp add: checked_def)
  then have "\<forall>r \<in> set (ver_CoverageRequirements (xp_Verifier (inp_Experience input))). CoverageRequirement_Valid r"
    by (auto simp: Verifier_Validate_def check_simps)
  then show ?thesis by (auto simp: incomplete_def filter_empty_conv coverage_complete_def required_member)
qed

lemma verdict_of:
  assumes "Evaluate lower input = Inr result"
  shows "checked input"
    "res_VerifierState result = (if coverage_complete input
       then fst (the (evaluateVerifier input (coverage_part input))) else VerifierUnknown)"
proof -
  have v: "validateInput lower input = None"
    using assms by (auto simp: Evaluate_def wrap_error_None split: option.splits)
  then show c: "checked input" by (rule validated_checked)
  from verifier_state [OF v] assms show "res_VerifierState result = (if coverage_complete input
       then fst (the (evaluateVerifier input (coverage_part input))) else VerifierUnknown)"
    using complete_coverage [OF c] by fastforce
qed

lemma fst_verdicts [simp]: "fst (verifier_unknown code b) = VerifierUnknown"
  "fst (verifier_decided s es b) = s" "fst (transcript_undeclared b) = VerifierUnknown"
  by (simp_all add: verifier_unknown_def verifier_decided_def transcript_undeclared_def)

lemma fst_absence: "fst (file_absence input s b) = (if fileAbsenceEvidence input = [] then VerifierUnknown else s)"
proof -
  have "fileAbsenceEvidence input = []" if "\<not> fileAbsenceCoverageDeclared (xp_Verifier (inp_Experience input))"
    using that by (simp add: fileAbsenceEvidence_def fileAbsenceCoverageDeclared_def)
  then show ?thesis by (auto simp: file_absence_def)
qed

text \<open>The absence of an edit, exactly: \<open>file_not_modified\<close> is satisfied if and only if the declared
  coverage is complete, no change to the file was recorded (not even an ambiguous one), and a workspace or
  canonical coverage that the verifier declares has evidence; it is violated if and only if the coverage is
  complete, a change was recorded and none of the changes to the file is ambiguous.\<close>

theorem file_not_modified_exact:
  assumes "Evaluate lower input = Inr result"
    and "ver_Kind (xp_Verifier (inp_Experience input)) = VerifierFileNotModified"
    and "ver_File (xp_Verifier (inp_Experience input)) = Some spec"
  defines "changes \<equiv> filter (\<lambda>f. fc_Path f = fvs_Path spec) (facts_FileChanges (inp_Facts input))"
  shows "(res_VerifierState result = VerifierSatisfied \<longleftrightarrow>
      coverage_complete input \<and> changes = [] \<and> fileAbsenceEvidence input \<noteq> []) \<and>
    (res_VerifierState result = VerifierViolated \<longleftrightarrow>
      coverage_complete input \<and> changes \<noteq> [] \<and> \<not> list_ex (\<lambda>f. fm_Ambiguous (fc_FactMeta f)) changes)"
proof -
  note v = verdict_of [OF assms(1)]
  let ?facts = "facts_FileChanges (inp_Facts input)"
  let ?clear = "filter (\<lambda>f. fc_Path f = fvs_Path spec \<and> \<not> fm_Ambiguous (fc_FactMeta f)) ?facts"
  let ?ambiguous = "\<exists>f \<in> set ?facts. fc_Path f = fvs_Path spec \<and> fm_Ambiguous (fc_FactMeta f)"
  have e: "all_evidence fc_FactMeta ?clear = [] \<longleftrightarrow> ?clear = []"
    by (rule all_evidence_empty [OF v(1)]) simp
  have "fst (the (evaluateVerifier input b)) = (if ?ambiguous then VerifierUnknown
      else if ?clear \<noteq> [] then VerifierViolated
      else if fileAbsenceEvidence input = [] then VerifierUnknown else VerifierSatisfied)" for b
    using assms(2,3) e by (simp add: evaluateVerifier_def evaluateFile_def collect_Pair fst_absence)
  moreover have "?ambiguous \<longleftrightarrow> list_ex (\<lambda>f. fm_Ambiguous (fc_FactMeta f)) changes"
    by (auto simp: changes_def list_ex_iff)
  moreover have "?clear = changes" if "\<not> ?ambiguous"
    using that unfolding changes_def by (intro filter_cong) auto
  moreover have "list_ex P [] = False" for P :: "FileChangeFact \<Rightarrow> bool" by simp
  ultimately show ?thesis unfolding v(2) by (cases "changes = []") auto
qed

theorem file_not_modified_exact_witness:
  "\<exists>result. Evaluate (\<lambda>s. s) (input0 verifier_untouched True edited0) = Inr result \<and>
     res_VerifierState result = VerifierViolated"
proof (rule evaluated [OF edited_input_valid(2) [of "\<lambda>s. s" True]])
  fix b assume r: "Evaluate (\<lambda>s. s) (input0 verifier_untouched True edited0) = Inr (finish b)"
  from file_not_modified_exact [OF this, of "\<lparr>fvs_Path = ''a.go''\<rparr>"] r show ?thesis
    by (simp add: edited0_def no_facts_def edit0_def meta0_def coverage_complete_def)
qed

section \<open>Repeated failures\<close>

text \<open>Two entries of a list that are at most \<open>w\<close> apart.\<close>

definition close_pair :: "int \<Rightarrow> int list \<Rightarrow> bool" where
  "close_pair w xs \<longleftrightarrow> (\<exists>x y. {#x, y#} \<subseteq># mset xs \<and> \<bar>x - y\<bar> \<le> w)"

lemma close_pair_Nil [simp]: "\<not> close_pair w []"
  by (simp add: close_pair_def)

lemma pair_add_mset: "{#x, y#} \<subseteq># add_mset a M \<longleftrightarrow>
    {#x, y#} \<subseteq># M \<or> x = a \<and> y \<in># M \<or> y = a \<and> x \<in># M"
proof (cases "x = a")
  case True
  have "{#a, y#} \<subseteq># M \<Longrightarrow> y \<in># M" using mset_subset_eqD [of "{#a, y#}" M y] by simp
  with True show ?thesis by (auto simp: insert_subset_eq_iff)
next
  case False
  then show ?thesis by (auto simp: insert_subset_eq_iff)
qed

lemma close_pair_Cons [simp]: "close_pair w (a # xs) \<longleftrightarrow> (\<exists>y \<in> set xs. \<bar>a - y\<bar> \<le> w) \<or> close_pair w xs"
  by (auto simp: close_pair_def pair_add_mset abs_minus_commute)

lemma pair_nth_Cons:
  "(\<exists>i j. i < j \<and> j < length (a # xs) \<and> P ((a # xs) ! i) ((a # xs) ! j)) \<longleftrightarrow>
     (\<exists>y \<in> set xs. P a y) \<or> (\<exists>i j. i < j \<and> j < length xs \<and> P (xs ! i) (xs ! j))"
    (is "?l \<longleftrightarrow> ?h \<or> ?t")
proof
  assume ?l
  then obtain i j where ij: "i < j" "j < length (a # xs)" "P ((a # xs) ! i) ((a # xs) ! j)" by blast
  then obtain j' where "j = Suc j'" by (cases j) auto
  with ij show "?h \<or> ?t" by (cases i) (auto dest: nth_mem)
next
  assume "?h \<or> ?t"
  then show ?l
  proof
    assume ?h
    then obtain j where "j < length xs" "P a (xs ! j)" by (auto simp: in_set_conv_nth)
    then show ?l by (intro exI [of _ 0] exI [of _ "Suc j"]) simp
  next
    assume ?t
    then obtain i j where "i < j" "j < length xs" "P (xs ! i) (xs ! j)" by blast
    then show ?l by (intro exI [of _ "Suc i"] exI [of _ "Suc j"]) simp
  qed
qed

lemma close_pair_nth:
  "close_pair w xs \<longleftrightarrow> (\<exists>i j. i < j \<and> j < length xs \<and> \<bar>xs ! i - xs ! j\<bar> \<le> w)"
proof (induction xs)
  case (Cons a xs)
  then show ?case unfolding close_pair_Cons
    by (subst pair_nth_Cons [where P = "\<lambda>x y. \<bar>x - y\<bar> \<le> w"]) simp
qed simp

lemma close_pair_sort: "close_pair w (sort xs) \<longleftrightarrow> close_pair w xs"
  by (simp add: close_pair_def)

lemma repeat_within_close:
  "sorted xs \<Longrightarrow> \<forall>x \<in> set xs. 0 \<le> x \<and> is_int64 x \<Longrightarrow> repeat_within w xs \<longleftrightarrow> close_pair w xs"
proof (induction w xs rule: repeat_within.induct)
  case (1 w a b rest)
  have "sub64 b a = b - a" using "1.prems"(2) by (intro sub64_exact) simp_all
  moreover have "(\<exists>y \<in> set (b # rest). \<bar>a - y\<bar> \<le> w) \<longleftrightarrow> b - a \<le> w"
    using "1.prems"(1) by force
  ultimately show ?case using 1 by (auto simp del: close_pair_Cons simp: close_pair_Cons [of w a])
qed simp_all


text \<open>Two failures, two turns apart.\<close>

definition verifier_repeat :: Verifier where
  "verifier_repeat = (no_verifier VerifierNoRepeatFailure [CoverageTranscriptComplete])
     \<lparr>ver_NoRepeatFailure := Some \<lparr>nrf_CommandClass = ''b'', nrf_NormalizedPattern = ''f'', nrf_WindowTurns = 4\<rparr>\<rparr>"

definition failed0 :: "int \<Rightarrow> FailureFact" where
  "failed0 order = \<lparr>ff_FactMeta = meta0 order, ff_CommandClass = ''b'', ff_NormalizedPattern = ''f''\<rparr>"

definition repeated0 :: Facts where
  "repeated0 = no_facts\<lparr>facts_Failures := [failed0 3, failed0 5]\<rparr>"

lemma short_normalized: "validateNormalizedString name ''b'' True = None"
  "validateNormalizedString name ''f'' True = None"
proof -
  have "TrimSpace ''b'' = ''b''" "ValidString ''b''" "\<not> list_ex (\<lambda>c. byte c < 32 \<or> byte c = 127) ''b''"
    "TrimSpace ''f'' = ''f''" "ValidString ''f''" "\<not> list_ex (\<lambda>c. byte c < 32 \<or> byte c = 127) ''f''"
    by code_simp+
  then show "validateNormalizedString name ''b'' True = None" "validateNormalizedString name ''f'' True = None"
    by (simp_all add: validateNormalizedString_def check_simps)
qed

lemma repeated0_valid: "validateFacts lower context0 repeated0 = None"
  by (simp add: validateFacts_def repeated0_def no_facts_def failed0_def check_simps MaxFacts_def
      failure_check_def short_normalized)

lemma verifier_repeat_valid: "Verifier_Validate verifier_repeat = None"
  by (simp add: Verifier_Validate_def verifier_repeat_def no_verifier_def check_simps limit_defs check_each_def
      spec_count_def require_spec_def NoRepeatFailureSpec_Validate_def)


section \<open>Applicability\<close>

text \<open>The condition facts that match a condition of the experience.\<close>

definition matching_facts :: "Input \<Rightarrow> DeterministicCondition \<Rightarrow> ConditionFact list" where
  "matching_facts input condition = filter (\<lambda>f. cf_Kind f = cond_Kind condition \<and>
     conditionValuesMatch condition (cf_Values f)) (facts_Conditions (inp_Facts input))"

definition holds :: "Input \<Rightarrow> DeterministicCondition \<Rightarrow> bool" where
  "holds input condition \<longleftrightarrow> matching_facts input condition \<noteq> [] \<and>
     \<not> list_ex (\<lambda>f. fm_Ambiguous (cf_FactMeta f)) (matching_facts input condition)"

lemma match_condition:
  assumes "checked input"
  shows "matchCondition c (facts_Conditions (inp_Facts input)) = (m, a, es) \<Longrightarrow>
    (a \<longleftrightarrow> list_ex (\<lambda>f. fm_Ambiguous (cf_FactMeta f)) (matching_facts input c)) \<and>
    (\<not> a \<longrightarrow> (m \<longleftrightarrow> matching_facts input c \<noteq> []))"
proof -
  assume match: "matchCondition c (facts_Conditions (inp_Facts input)) = (m, a, es)"
  let ?P = "\<lambda>f. cf_Kind f = cond_Kind c \<and> conditionValuesMatch c (cf_Values f)"
  let ?clear = "filter (\<lambda>f. ?P f \<and> \<not> fm_Ambiguous (cf_FactMeta f)) (facts_Conditions (inp_Facts input))"
  have "matchCondition c (facts_Conditions (inp_Facts input)) = (all_evidence cf_FactMeta ?clear \<noteq> [],
      \<exists>f \<in> set (facts_Conditions (inp_Facts input)). ?P f \<and> fm_Ambiguous (cf_FactMeta f),
      all_evidence cf_FactMeta ?clear)"
    by (simp add: matchCondition_def collect_Pair)
  from trans [OF sym [OF this] match] have m: "(all_evidence cf_FactMeta ?clear \<noteq> []) = m"
    and "(\<exists>f \<in> set (facts_Conditions (inp_Facts input)). ?P f \<and> fm_Ambiguous (cf_FactMeta f)) = a"
    unfolding prod.inject by blast+
  then have a: "a \<longleftrightarrow> list_ex (\<lambda>f. fm_Ambiguous (cf_FactMeta f)) (matching_facts input c)"
    by (simp add: matching_facts_def list_ex_iff) blast
  have "all_evidence cf_FactMeta ?clear = [] \<longleftrightarrow> ?clear = []"
    by (rule all_evidence_empty [OF assms]) simp
  with m have "m \<longleftrightarrow> ?clear \<noteq> []" by simp
  moreover have "?clear = matching_facts input c" if "\<not> a"
    using that unfolding a matching_facts_def by (intro filter_cong) (auto simp: list_ex_iff)
  ultimately show ?thesis using a by simp
qed

definition conditions_exclude :: "Input \<Rightarrow> bool" where
  "conditions_exclude input \<longleftrightarrow> list_ex (\<lambda>c. matching_facts input c = [] \<and>
     cond_Kind c \<in> set (ctx_CompleteConditionKinds (inp_Context input)))
     (appl_DeterministicConditions (xp_Applicability (inp_Experience input)))"

lemma conditions_exact:
  assumes "checked input"
  shows "case evaluate_conditions input cs u b of
      Inl _ \<Rightarrow> \<exists>c \<in> set cs. matching_facts input c = [] \<and>
        cond_Kind c \<in> set (ctx_CompleteConditionKinds (inp_Context input))
    | Inr (u', _) \<Rightarrow> \<not> (\<exists>c \<in> set cs. matching_facts input c = [] \<and>
        cond_Kind c \<in> set (ctx_CompleteConditionKinds (inp_Context input))) \<and>
        (u' \<longleftrightarrow> u \<or> \<not> (\<forall>c \<in> set cs. holds input c))"
proof (induction cs arbitrary: u b)
  case (Cons c cs)
  obtain m a es where m: "matchCondition c (facts_Conditions (inp_Facts input)) = (m, a, es)"
    by (cases "matchCondition c (facts_Conditions (inp_Facts input))")
  note f = match_condition [OF assms m]
  show ?case
  proof (cases a)
    case True
    with f have "\<not> holds input c" "matching_facts input c \<noteq> []" by (auto simp: holds_def)
    with True m Cons.IH [of True "addGap (kind_gap GapAmbiguousMatch (cond_Kind c)) b"] show ?thesis
      by (cases m) (auto split: sum.splits)
  next
    case False
    show ?thesis
    proof (cases m)
      case True
      with f False have "holds input c" "matching_facts input c \<noteq> []" by (auto simp: holds_def)
      with True False m Cons.IH [of u "addEvidence ComponentApplicability es b"] show ?thesis
        by (auto split: sum.splits)
    next
      case m': False
      with f False have n: "\<not> holds input c" "matching_facts input c = []" by (auto simp: holds_def)
      with m' False m Cons.IH [of True "addGap (kind_gap GapFactsIncomplete (cond_Kind c)) b"] show ?thesis
        by (auto split: sum.splits)
    qed
  qed
qed simp

lemma applicability_state:
  assumes "Evaluate lower input = Inr result"
  shows "checked input" "\<exists>b. res_ApplicabilityState result = fst (evaluateApplicability input b)"
proof -
  obtain b where b: "checked input" "evaluate_verdicts input = Some b" "result = finish b"
    using evaluated_result [OF assms] .
  from b(1) show "checked input" .
  from evaluate_verdicts_facts [OF b(1)] b(2) have "res_ApplicabilityState b = fst (applicability_part input)"
    by auto
  then show "\<exists>b. res_ApplicabilityState result = fst (evaluateApplicability input b)"
    by (auto simp: b(3) finish_eq applicability_part_def)
qed

text \<open>The decision in closed form.\<close>

lemma applicability_closed:
  assumes "checked input"
  defines "x \<equiv> inp_Experience input"
  shows "fst (evaluateApplicability input b) =
    (if ruled_out input \<or> paths_unmatched input \<and>
        ConditionPathPattern \<in> set (ctx_CompleteConditionKinds (inp_Context input)) \<or> conditions_exclude input
     then if context_evidence input = [] then ApplicabilityUnknown else ApplicabilityNotApplicable
     else if scope_unknown input \<or> paths_unmatched input \<or>
        \<not> list_all (holds input) (appl_DeterministicConditions (xp_Applicability x)) \<or>
        appl_Exclusions (xp_Applicability x) \<noteq> [] \<or> context_evidence input = []
     then ApplicabilityUnknown else ApplicabilityApplicable)"
proof -
  let ?cs = "appl_DeterministicConditions (xp_Applicability x)"
  let ?u = "scope_unknown input \<or> paths_unmatched input"
  define b1 where "b1 = (if paths_unmatched input
    then addGap (kind_gap GapFactsIncomplete ConditionPathPattern) b else b)"
  have decision: "fst (applicabilityDecision s es b') = (if es = [] then ApplicabilityUnknown else s)" for s es b'
    by (simp add: applicabilityDecision_def)
  note c = conditions_exact [OF assms(1), where cs = ?cs and u = ?u and b = b1]
  show ?thesis
  proof (cases "ruled_out input \<or> paths_unmatched input \<and>
      ConditionPathPattern \<in> set (ctx_CompleteConditionKinds (inp_Context input))")
    case True
    then show ?thesis by (auto simp: evaluateApplicability_def Let_def decision)
  next
    case False
    then have f: "fst (evaluateApplicability input b) = fst (case evaluate_conditions input ?cs ?u b1 of
         Inl b2 \<Rightarrow> applicabilityDecision ApplicabilityNotApplicable (context_evidence input) b2
       | Inr (unknown, b2) \<Rightarrow>
           let excluded = (appl_Exclusions (xp_Applicability x) \<noteq> []);
               b3 = (if excluded then addGap (gap ComponentApplicability GapSemanticExclusion) b2 else b2)
           in if unknown \<or> excluded
              then (ApplicabilityUnknown, addGap (gap ComponentApplicability GapNoApplicableObservation) b3)
              else applicabilityDecision ApplicabilityApplicable (context_evidence input) b3)"
      unfolding evaluateApplicability_def Let_def b1_def x_def by (auto simp del: prod.case_distrib)
    show ?thesis
    proof (cases "evaluate_conditions input ?cs ?u b1")
      case (Inl b2)
      with c have "conditions_exclude input" by (auto simp: conditions_exclude_def list_ex_iff x_def)
      with f Inl show ?thesis by (simp add: decision)
    next
      case (Inr p)
      obtain unknown b2 where p: "p = (unknown, b2)" by (cases p)
      from c Inr p have "\<not> conditions_exclude input" "unknown \<longleftrightarrow> ?u \<or> \<not> list_all (holds input) ?cs"
        by (auto simp: conditions_exclude_def list_ex_iff x_def list_all_iff)
      with f False Inr p show ?thesis by (auto simp: Let_def decision)
    qed
  qed
qed

lemma holds_not_excluded:
  "list_all (holds input) (appl_DeterministicConditions (xp_Applicability (inp_Experience input))) \<Longrightarrow>
     \<not> conditions_exclude input"
  by (auto simp: conditions_exclude_def list_ex_iff list_all_iff holds_def)



end
