(* ===== verification/PackText.thy ===== *)
theory PackText
  imports GoJson GoDigest
begin

text \<open>
  The text helpers of \<open>internal/missionpack/build.go\<close>. A string is cut into the pieces that Go's \<open>range\<close>
  and \<open>[]rune\<close> see: valid encodings, and single bytes where the text is not valid UTF-8. What needs the
  tables of Unicode is a parameter (record \<open>unicode\<close>): \<open>strings.ToLower\<close> and whether a rune is a
  letter or a number.
\<close>

section \<open>Runes\<close>

record unicode =
  uni_ToLower :: "string \<Rightarrow> string"
  uni_IsLetterOrNumber :: "nat \<Rightarrow> bool"

function rune_pieces :: "string \<Rightarrow> string list" where
  "rune_pieces s =
     (if s = [] then []
      else let n = max 1 (utf8_len s) in take n s # rune_pieces (drop n s))"
  by pat_completeness auto
termination
  by (relation "measure length") auto

declare rune_pieces.simps [simp del]

text \<open>\<open>string(r)\<close> of the rune of a piece: an invalid byte has become U+FFFD.\<close>

definition rune_text :: "string \<Rightarrow> string" where
  "rune_text piece = (if utf8_len piece = 0 then bytes [239, 191, 189] else piece)"

definition RuneCountInString :: "string \<Rightarrow> nat" where
  "RuneCountInString s = length (rune_pieces s)"

definition is_space :: "string \<Rightarrow> bool" where
  "is_space piece \<longleftrightarrow> piece \<in> set space_encodings"

text \<open>\<open>strings.FieldsFunc\<close>: the maximal runs of pieces that are not separators; \<open>acc\<close> is the run so far.\<close>

fun fields_from :: "(string \<Rightarrow> bool) \<Rightarrow> string \<Rightarrow> string list \<Rightarrow> string list" where
  "fields_from sep acc [] = (if acc = [] then [] else [acc])"
| "fields_from sep acc (p # ps) =
     (if sep p then (if acc = [] then fields_from sep [] ps else acc # fields_from sep [] ps)
      else fields_from sep (acc @ p) ps)"

definition FieldsFunc :: "(string \<Rightarrow> bool) \<Rightarrow> string \<Rightarrow> string list" where
  "FieldsFunc sep s = fields_from sep [] (rune_pieces s)"

definition Fields :: "string \<Rightarrow> string list" where
  "Fields s = FieldsFunc is_space s"

definition ellipsis :: string where
  "ellipsis = bytes [226, 128, 166]"

definition oneLine :: "string \<Rightarrow> nat \<Rightarrow> string" where
  "oneLine value0 maxRunes =
     (let value = join_with (CHR '' '') (Fields value0); runes = rune_pieces value in
      if maxRunes = 0 then []
      else if length runes \<le> maxRunes then value
      else if maxRunes = 1 then ellipsis
      else TrimSpace (concat (map rune_text (take (maxRunes - 1) runes))) @ ellipsis)"

definition boundedIdentifier :: "string \<Rightarrow> string" where
  "boundedIdentifier value = oneLine value 256"

text \<open>The loops that append what was not \<open>seen\<close> before, by a key.\<close>

fun keep_new :: "('a \<Rightarrow> 'k) \<Rightarrow> 'k list \<Rightarrow> 'a list \<Rightarrow> 'a list" where
  "keep_new key seen [] = []"
| "keep_new key seen (x # xs) =
     (if key x \<in> set seen then keep_new key seen xs else x # keep_new key (key x # seen) xs)"

definition sortedDistinctLines :: "string list \<Rightarrow> nat \<Rightarrow> string list" where
  "sortedDistinctLines values maxRunes =
     sort (keep_new (\<lambda>v. v) [] (filter (\<lambda>v. v \<noteq> []) (map (\<lambda>v. oneLine v maxRunes) values)))"

lemma set_keep_new: "set (keep_new key seen xs) \<subseteq> set xs"
  by (induction xs arbitrary: seen) auto

lemma length_keep_new: "length (keep_new key seen xs) \<le> length xs"
  by (induction xs arbitrary: seen) (auto simp: le_SucI)

lemma keys_keep_new: "key ` set (keep_new key seen xs) = key ` set xs - set seen"
  by (induction xs arbitrary: seen) auto

lemma distinct_keep_new: "distinct (map key (keep_new key seen xs))"
proof (induction xs arbitrary: seen)
  case (Cons x xs)
  have "key x \<notin> key ` set (keep_new key (key x # seen) xs)"
    by (simp add: keys_keep_new)
  with Cons show ?case by simp
qed simp

text \<open>\<open>strings.Title\<close> on ASCII text (it is only called on the intent): a letter after a separator becomes
  upper case.\<close>

definition ascii_word :: "char \<Rightarrow> bool" where
  "ascii_word c \<longleftrightarrow> (48 \<le> byte c \<and> byte c \<le> 57) \<or> (65 \<le> byte c \<and> byte c \<le> 90) \<or>
     (97 \<le> byte c \<and> byte c \<le> 122) \<or> c = CHR ''_''"

definition upper_char :: "char \<Rightarrow> char" where
  "upper_char c = (if 97 \<le> byte c \<and> byte c \<le> 122 then char_of (byte c - 32) else c)"

fun title_from :: "char \<Rightarrow> string \<Rightarrow> string" where
  "title_from prev [] = []"
| "title_from prev (c # cs) = (if ascii_word prev then c else upper_char c) # title_from c cs"

definition Title :: "string \<Rightarrow> string" where
  "Title s = title_from (CHR '' '') s"

section \<open>Markdown and digests\<close>

definition markdown_char :: "char \<Rightarrow> string" where
  "markdown_char c = (if c \<in> set [CHR 0x5C, CHR ''*'', CHR ''_'', CHR ''['', CHR '']'', CHR ''<'', CHR ''>'',
     CHR ''#''] then [CHR 0x5C, c] else [c])"

definition markdownText :: "string \<Rightarrow> string" where
  "markdownText value = concat (map markdown_char value)"

definition shortDigest :: "string \<Rightarrow> string" where
  "shortDigest value = hex_encode (take 8 (sha256 value))"

definition zero_byte :: string where "zero_byte = bytes [0]"

definition join_zero :: "string list \<Rightarrow> string" where
  "join_zero values = join_with (CHR 0x00) values"

section \<open>Lexical tokens\<close>

definition lexicalStopWords :: "string list" where
  "lexicalStopWords =
     [''about'', ''after'', ''again'', ''agent'', ''all'', ''and'', ''are'', ''as'', ''at'', ''be'',
      ''before'', ''by'', ''change'', ''code'', ''complete'', ''done'', ''each'', ''file'', ''fix'', ''for'',
      ''from'', ''guidance'', ''has'', ''have'', ''if'', ''implement'', ''in'', ''into'', ''is'', ''it'',
      ''make'', ''not'', ''of'', ''on'', ''only'', ''or'', ''project'', ''review'', ''rule'', ''run'',
      ''session'', ''should'', ''task'', ''that'', ''the'', ''then'', ''this'', ''to'', ''update'', ''use'',
      ''was'', ''were'', ''when'', ''with'', ''work'', ''your'']"

definition not_word :: "unicode \<Rightarrow> string \<Rightarrow> bool" where
  "not_word u piece \<longleftrightarrow> \<not> uni_IsLetterOrNumber u (fst (DecodeRune piece))"

text \<open>The set of tokens as a list without repetition. \<open>WriteRune\<close> writes U+FFFD for an invalid byte.\<close>

definition lexicalTokens :: "unicode \<Rightarrow> string \<Rightarrow> string list" where
  "lexicalTokens u value = remdups (filter (\<lambda>t. 2 \<le> length t \<and> t \<notin> set lexicalStopWords)
     (fields_from (not_word u) [] (map rune_text (rune_pieces (uni_ToLower u value)))))"

definition tokenSetsRelevant :: "string list \<Rightarrow> string list \<Rightarrow> bool" where
  "tokenSetsRelevant evidenceTokens relevanceTokens \<longleftrightarrow>
     (if 2 \<le> length relevanceTokens then 2 else 1) \<le>
       length (filter (\<lambda>t. t \<in> set evidenceTokens) relevanceTokens)"

section \<open>The size budget\<close>

definition MaxRenderedMarkdown :: nat where "MaxRenderedMarkdown = 12 * 1024"
definition MaxEstimatedTokens :: nat where "MaxEstimatedTokens = 1500"

definition estimateTokens :: "string \<Rightarrow> nat" where
  "estimateTokens value = (length value + 3) div 4"

definition withinBudget :: "string \<Rightarrow> bool" where
  "withinBudget markdown \<longleftrightarrow> length markdown \<le> MaxRenderedMarkdown \<and> estimateTokens markdown \<le> MaxEstimatedTokens"

definition truncation_suffix :: string where
  "truncation_suffix = CHR 0x0A # CHR 0x0A # ''_[Mission Pack output truncated.]_'' @ [CHR 0x0A]"

definition RuneStart :: "char \<Rightarrow> bool" where
  "RuneStart c \<longleftrightarrow> \<not> is_cont c"

text \<open>\<open>for cut > 0 && !utf8.RuneStart(value[cut]) { cut-- }\<close>\<close>

fun cut_back :: "string \<Rightarrow> nat \<Rightarrow> nat" where
  "cut_back value 0 = 0"
| "cut_back value (Suc n) = (if RuneStart (value ! Suc n) then Suc n else cut_back value n)"

definition truncateMarkdown :: "string \<Rightarrow> string" where
  "truncateMarkdown value =
     (let limit = min MaxRenderedMarkdown (MaxEstimatedTokens * 4) in
      if length value \<le> limit then value
      else TrimSpace (take (cut_back value (limit - length truncation_suffix)) value) @ truncation_suffix)"

text \<open>A blank text has no fields, and a truncated text is within the budget.\<close>

lemma space_utf8_len:
  assumes "w \<in> set space_encodings"
  shows "utf8_len (w @ t) = length w"
proof -
  have "\<forall>w \<in> set space_encodings. utf8_len (w @ t) = length w"
    by (simp add: space_encodings_def bytes_def byte_def second_ok_def is_cont_def Let_def)
  with assms show ?thesis by blast
qed

lemma fields_spaces: "\<forall>p \<in> set ps. sep p \<Longrightarrow> fields_from sep [] ps = []"
  by (induction ps) auto

lemma spaces_pieces:
  "trim_front space_encodings s = [] \<Longrightarrow> \<forall>p \<in> set (rune_pieces s). is_space p"
proof (induction "length s" arbitrary: s rule: less_induct)
  case less
  show ?case
  proof (cases "s = []")
    case False
    with less.prems obtain w where w: "front_match space_encodings s = Some w"
      by (cases "front_match space_encodings s") (auto simp: trim_front_eq)
    from front_match_SomeD [OF this] obtain t where t: "w \<in> set space_encodings" "w \<noteq> []" "s = w @ t"
      by (auto simp: prefix_def)
    have "trim_front space_encodings s = trim_front space_encodings t"
      by (subst trim_front.simps) (simp add: w, simp add: t(3))
    then have "trim_front space_encodings t = []" using less.prems by metis
    moreover have "length t < length s" using t by simp
    ultimately have "\<forall>p \<in> set (rune_pieces t). is_space p" by (rule less.hyps [rotated])
    moreover have "max 1 (utf8_len s) = length w"
      using t(2) space_utf8_len [OF t(1)] by (simp add: t(3) Suc_le_eq max_def)
    ultimately show ?thesis
      using t by (subst rune_pieces.simps) (simp add: Let_def is_space_def)
  qed (simp add: rune_pieces.simps)
qed

lemma trimmed_back_front:
  "trim_front (map rev ws) (rev x) = [] \<Longrightarrow> x \<noteq> [] \<Longrightarrow> \<exists>w \<in> set ws. w \<noteq> [] \<and> prefix w x"
proof (induction "length x" arbitrary: x rule: less_induct)
  case less
  from less.prems obtain w where w: "front_match (map rev ws) (rev x) = Some w"
    by (cases "front_match (map rev ws) (rev x)") (auto simp: trim_front_eq)
  from front_match_SomeD [OF this] obtain v y where v: "v \<in> set ws" "w = rev v" "v \<noteq> []" "x = y @ v"
    by (auto simp: prefix_def) (metis rev_append rev_rev_ident)
  have "trim_front (map rev ws) (rev x) = trim_front (map rev ws) (rev y)"
    by (subst trim_front.simps) (simp add: w, simp add: v)
  then have y: "trim_front (map rev ws) (rev y) = []" using less.prems by metis
  show ?case
  proof (cases "y = []")
    case False
    with less.hyps [of y] y v obtain w' where "w' \<in> set ws" "w' \<noteq> []" "prefix w' y" by auto
    then show ?thesis using v(4) by (metis prefix_prefix)
  qed (use v in auto)
qed

lemma Fields_blank:
  assumes "TrimSpace s = []"
  shows "Fields s = []"
proof -
  let ?l = "trim_front space_encodings s"
  have "trim_front (map rev space_encodings) (rev ?l) = []" using assms by (simp add: TrimSpace_def)
  then have "?l = []"
    using trimmed_back_front [of space_encodings ?l] trim_front_clean [of space_encodings s]
    by (auto simp: front_match_def find_None_iff)
  then show ?thesis
    by (simp add: Fields_def FieldsFunc_def fields_spaces spaces_pieces)
qed

text \<open>Visible ASCII text is one field, with a rune for each byte.\<close>

lemma rune_pieces_ascii: "is_ascii s \<Longrightarrow> rune_pieces s = map (\<lambda>c. [c]) s"
proof (induction s)
  case (Cons c s)
  then show ?case by (subst rune_pieces.simps) (simp add: is_ascii_def)
qed (simp add: rune_pieces.simps)

lemma visible_not_space: "32 < byte c \<Longrightarrow> byte c < 127 \<Longrightarrow> \<not> is_space [c]"
  using space_encodings_not_visible by (fastforce simp: is_space_def list_all_iff)

lemma fields_visible:
  "visible s \<Longrightarrow> fields_from is_space acc (map (\<lambda>c. [c]) s) = (if acc @ s = [] then [] else [acc @ s])"
proof (induction s arbitrary: acc)
  case (Cons c s)
  then show ?case by (simp add: visible_def visible_not_space)
qed simp

lemma oneLine_visible:
  assumes "visible s" "length s \<le> n"
  shows "oneLine s n = s"
proof -
  have "rune_pieces s = map (\<lambda>c. [c]) s" using assms(1) by (simp add: rune_pieces_ascii visible_ascii)
  moreover have "join_with (CHR '' '') (Fields s) = s"
    using fields_visible [OF assms(1), of "[]"] calculation by (simp add: Fields_def FieldsFunc_def)
  ultimately show ?thesis using assms(2) by (cases n) (simp_all add: oneLine_def Let_def)
qed

lemma oneLine_blank: "TrimSpace s = [] \<Longrightarrow> oneLine s n = []"
  by (simp add: oneLine_def Fields_blank rune_pieces.simps)

lemma length_truncateMarkdown: "length (truncateMarkdown s) \<le> MaxEstimatedTokens * 4"
proof -
  have s: "length truncation_suffix = 37" by (simp add: truncation_suffix_def)
  have c: "cut_back v n \<le> n" for v n by (induction n) auto
  show ?thesis
    using length_TrimSpace [of "take (cut_back s (6000 - 37)) s"] c [of s "6000 - 37"]
    by (simp add: truncateMarkdown_def Let_def MaxRenderedMarkdown_def MaxEstimatedTokens_def s)
qed

lemma withinBudget_truncateMarkdown: "withinBudget (truncateMarkdown s)"
  using length_truncateMarkdown [of s]
  by (simp add: withinBudget_def estimateTokens_def MaxRenderedMarkdown_def MaxEstimatedTokens_def)

lemma withinBudget_iff: "withinBudget s \<longleftrightarrow> length s \<le> 6000"
  by (auto simp: withinBudget_def estimateTokens_def MaxRenderedMarkdown_def MaxEstimatedTokens_def)

section \<open>Numbers and times\<close>

definition float_eq :: "float64 \<Rightarrow> float64 \<Rightarrow> bool" where
  "float_eq x y \<longleftrightarrow> x \<noteq> NaN \<and> (x = y \<or> {x, y} = {NegZero, Finite 0})"

fun float_less :: "float64 \<Rightarrow> float64 \<Rightarrow> bool" where
  "float_less NaN y = False"
| "float_less x NaN = False"
| "float_less PosInf y = False"
| "float_less x NegInf = False"
| "float_less x PosInf = True"
| "float_less NegInf y = True"
| "float_less NegZero NegZero = False"
| "float_less NegZero (Finite y) = (0 < y)"
| "float_less (Finite x) NegZero = (x < 0)"
| "float_less (Finite x) (Finite y) = (x < y)"

text \<open>\<open>%.2f\<close>: two decimals, correctly rounded, ties to even.\<close>

definition round_half_even :: "rat \<Rightarrow> int" where
  "round_half_even x =
     (let n = floor x; d = x - of_int n in
      if d < 1 / 2 then n else if 1 / 2 < d then n + 1 else if even n then n else n + 1)"

definition fixed2 :: "rat \<Rightarrow> string" where
  "fixed2 x = (let n = round_half_even (x * 100) in
     digits_text (n div 100) @ ''.'' @ pad_left 2 (digits_text (n mod 100)))"

fun format_2f :: "float64 \<Rightarrow> string" where
  "format_2f NaN = ''NaN''"
| "format_2f PosInf = ''+Inf''"
| "format_2f NegInf = ''-Inf''"
| "format_2f NegZero = ''-0.00''"
| "format_2f (Finite x) = (if x < 0 then CHR ''-'' # fixed2 (- x) else fixed2 x)"

text \<open>\<open>UTC().Format(timeLayout)\<close>, the layout of RFC 3339 with nanoseconds.\<close>

definition format_nano :: "gotime \<Rightarrow> string" where
  "format_nano t =
     (let y = fst (year_day (day_number (wall_ns t))) in
      if y < 0 then CHR ''-'' # pad_left 4 (digits_text (- y)) @
        drop (length (pad_left 4 (digits_text y))) (rfc3339 t)
      else rfc3339 t)"

text \<open>\<open>t.UTC()\<close> keeps the monotonic reading.\<close>

definition UTC :: "gotime \<Rightarrow> gotime" where
  "UTC t = t\<lparr>loc := 0\<rparr>"

definition timePointer :: "gotime \<Rightarrow> gotime option" where
  "timePointer t = (if IsZero t then None else Some (UTC t))"

definition timeValue :: "gotime option \<Rightarrow> gotime" where
  "timeValue t = (case t of None \<Rightarrow> utc_at 0 | Some v \<Rightarrow> UTC v)"

definition time_Equal :: "gotime \<Rightarrow> gotime \<Rightarrow> bool" where
  "time_Equal t u \<longleftrightarrow> fst (time_cmp_key t u) = snd (time_cmp_key t u)"

definition add64 :: "int \<Rightarrow> int \<Rightarrow> int" where
  "add64 a b = wrap64 (a + b)"

section \<open>\<open>sort.Slice\<close>\<close>

text \<open>
  The insertion sort that \<open>sort.Slice\<close> runs on up to 12 elements; for longer slices the result is the same
  when \<open>lt\<close> orders the elements strictly and totally.
\<close>

fun insert_back :: "('a \<Rightarrow> 'a \<Rightarrow> bool) \<Rightarrow> 'a \<Rightarrow> 'a list \<Rightarrow> 'a list" where
  "insert_back lt x [] = [x]"
| "insert_back lt x (y # ys) = (if lt x y then y # insert_back lt x ys else x # y # ys)"

text \<open>The sorted prefix is kept in reverse, so that its last element comes first.\<close>

definition sort_slice :: "('a \<Rightarrow> 'a \<Rightarrow> bool) \<Rightarrow> 'a list \<Rightarrow> 'a list" where
  "sort_slice lt xs = rev (foldl (\<lambda>acc x. insert_back lt x acc) [] xs)"

lemma mset_insert_back: "mset (insert_back lt x ys) = add_mset x (mset ys)"
  by (induction ys) auto

lemma mset_sort_slice [simp]: "mset (sort_slice lt xs) = mset xs"
proof -
  have "mset (foldl (\<lambda>acc x. insert_back lt x acc) ys xs) = mset ys + mset xs" for ys
    by (induction xs arbitrary: ys) (auto simp: mset_insert_back)
  then show ?thesis by (simp add: sort_slice_def)
qed

lemma set_sort_slice [simp]: "set (sort_slice lt xs) = set xs"
  by (metis mset_sort_slice set_mset_mset)

lemma length_sort_slice [simp]: "length (sort_slice lt xs) = length xs"
  by (metis mset_sort_slice size_mset)

text \<open>
  What a comparison of the code owes \<open>sort.Slice\<close>: on the values \<open>A\<close> it is meant for it is a strict order,
  total up to the key. Then the sorted slice is in order, and only depends on which values it holds, not on
  the order they came in.
\<close>

locale slice_order =
  fixes lt :: "'a \<Rightarrow> 'a \<Rightarrow> bool"
    and key :: "'a \<Rightarrow> 'k"
    and A :: "'a set"
  assumes lt_irrefl: "x \<in> A \<Longrightarrow> \<not> lt x x"
    and lt_trans: "x \<in> A \<Longrightarrow> y \<in> A \<Longrightarrow> z \<in> A \<Longrightarrow> lt x y \<Longrightarrow> lt y z \<Longrightarrow> lt x z"
    and lt_total: "x \<in> A \<Longrightarrow> y \<in> A \<Longrightarrow> key x \<noteq> key y \<Longrightarrow> lt x y \<or> lt y x"
begin

lemma lt_asym: "x \<in> A \<Longrightarrow> y \<in> A \<Longrightarrow> lt x y \<Longrightarrow> \<not> lt y x"
  using lt_irrefl lt_trans by blast

lemma sorted_insert_back:
  assumes "insert x (set ys) \<subseteq> A" "key x \<notin> key ` set ys" "sorted_wrt (\<lambda>a b. lt b a) ys"
  shows "sorted_wrt (\<lambda>a b. lt b a) (insert_back lt x ys)"
  using assms
proof (induction ys)
  case (Cons y ys)
  have m: "set (insert_back lt x ys) = insert x (set ys)"
    by (metis mset_insert_back set_mset_add_mset_insert set_mset_mset)
  show ?case
  proof (cases "lt x y")
    case True
    with Cons m show ?thesis by simp
  next
    case False
    with Cons.prems have "lt y x" using lt_total [of x y] by auto
    have "lt z x" if "z \<in> set ys" for z
      using that \<open>lt y x\<close> Cons.prems(1,3) lt_trans [of z y x] by auto
    with False Cons.prems(3) \<open>lt y x\<close> show ?thesis by simp
  qed
qed simp

lemma sorted_sort_slice:
  assumes "set xs \<subseteq> A" "distinct (map key xs)"
  shows "sorted_wrt lt (sort_slice lt xs)"
proof -
  have "sorted_wrt (\<lambda>a b. lt b a) (foldl (\<lambda>acc x. insert_back lt x acc) ys xs)"
    if "set xs \<union> set ys \<subseteq> A" "distinct (map key (xs @ ys))" "sorted_wrt (\<lambda>a b. lt b a) ys" for ys
    using that
  proof (induction xs arbitrary: ys)
    case (Cons x xs)
    have m: "set (insert_back lt x ys) = insert x (set ys)" "mset (insert_back lt x ys) = add_mset x (mset ys)"
      by (metis mset_insert_back set_mset_add_mset_insert set_mset_mset) (rule mset_insert_back)
    have "mset (map key (xs @ insert_back lt x ys)) = mset (map key ((x # xs) @ ys))"
      by (simp add: m(2))
    with Cons.prems(2) have "distinct (map key (xs @ insert_back lt x ys))"
      by (metis mset_eq_imp_distinct_iff)
    moreover have "sorted_wrt (\<lambda>a b. lt b a) (insert_back lt x ys)"
      using Cons.prems by (intro sorted_insert_back) auto
    ultimately show ?case using Cons.prems m(1) by (auto intro!: Cons.IH)
  qed simp
  from this [of "[]"] assms show ?thesis by (simp add: sort_slice_def sorted_wrt_rev)
qed

lemma sorted_unique:
  assumes "set xs \<subseteq> A" "sorted_wrt lt xs" "sorted_wrt lt ys" "mset xs = mset ys"
  shows "xs = ys"
  using assms
proof (induction xs arbitrary: ys)
  case (Cons x xs)
  then obtain y ys' where ys: "ys = y # ys'" by (cases ys) auto
  have s: "set ys = insert x (set xs)" using Cons.prems(4) by (metis list.set(2) set_mset_mset)
  have "x = y"
  proof (rule ccontr)
    assume "x \<noteq> y"
    then have "lt x y" "lt y x" using Cons.prems(2,3) s ys by auto
    moreover have "x \<in> A" "y \<in> A" using Cons.prems(1) s ys by auto
    ultimately show False using lt_asym by blast
  qed
  with Cons ys show ?case by auto
qed simp

lemma sort_slice_unique:
  assumes "set xs \<subseteq> A" "distinct (map key xs)" "mset xs = mset ys"
  shows "sort_slice lt xs = sort_slice lt ys"
proof (rule sorted_unique)
  have "distinct (map key ys)" using assms(2,3) by (metis mset_eq_imp_distinct_iff mset_map)
  then show "sorted_wrt lt (sort_slice lt ys)"
    using assms by (intro sorted_sort_slice) (auto dest: mset_eq_setD)
qed (use assms in \<open>simp_all add: sorted_sort_slice\<close>)

end

end
