(* ===== verification/PackTypes.thy ===== *)
theory PackTypes
  imports GoJson Enums
begin

text \<open>
  The data of Mission Packs: the structs of \<open>internal/issueintel/model.go\<close> that a pack is built from
  and those of \<open>internal/missionpack/model.go\<close>. Each Go struct is a record whose fields are the struct's prefix
  and the Go field name; a pointer is an option, a map a partial function, \<open>int\<close> and \<open>int64\<close> are
  integers. \<open>transcript.Role\<close>, which nothing here reads, is its string.
\<close>

section \<open>Issues and insights\<close>

record Cost =
  cost_WastedMinutes :: float64
  cost_WastedTokens :: int
  cost_WastedUSD :: "float64 option"
  cost_LowerBound :: bool

record IssueProject =
  ipj_Identity :: string
  ipj_Path :: string

record SessionRef =
  sref_SessionKey :: string
  sref_Agent :: string
  sref_StartedAt :: gotime
  sref_EndedAt :: gotime

record Citation =
  cit_SessionKey :: string
  cit_TurnIndex :: int
  cit_OccurredAt :: gotime
  cit_SourceFileID :: string
  cit_JSONLByteOffset :: int

record Excerpt =
  exc_Citation :: Citation
  exc_Role :: string
  exc_ToolName :: string
  exc_Text :: string

record TrendWeek =
  tw_WeekStart :: gotime
  tw_Count :: int

record SuggestedFix =
  sfix_Kind :: string
  sfix_TargetFile :: string
  sfix_Rationale :: string

record EvidenceBasis =
  eb_Kind :: string
  eb_Summary :: string

record Issue =
  iss_IssueID :: string
  iss_DetectorID :: string
  iss_Fingerprint :: string
  iss_Headline :: string
  iss_Cost :: Cost
  iss_SessionCount :: int
  iss_Sessions :: "SessionRef list"
  iss_FirstSeen :: gotime
  iss_LastSeen :: gotime
  iss_Trend :: "TrendWeek list"
  iss_Excerpts :: "Excerpt list"
  iss_EpisodeRefs :: "string list"
  iss_EvidenceBasis :: EvidenceBasis
  iss_Project :: IssueProject
  iss_SuggestedFix :: SuggestedFix

record CorrectionCandidate =
  corr_CandidateID :: string
  corr_Project :: IssueProject
  corr_Citation :: Citation
  corr_Text :: string
  corr_Marker :: string
  corr_ShortTurn :: bool
  corr_OccurredAt :: gotime

record InsightCluster =
  clu_CandidateIDs :: "string list"
  clu_Topic :: string
  clu_RuleText :: string
  clu_TargetFile :: string
  clu_Confidence :: float64

record InsightFix =
  ifx_IssueID :: string
  ifx_RuleText :: string
  ifx_TargetFile :: string
  ifx_Confidence :: float64

record InsightResult =
  ires_Clusters :: "InsightCluster list"
  ires_Fixes :: "InsightFix list"

record InsightSanitization =
  isan_DroppedClusters :: int
  isan_DroppedFixes :: int
  isan_InvalidClusterFields :: int
  isan_UnknownClusterCandidates :: int
  isan_AmbiguousClusterCandidates :: int
  isan_InvalidFixFields :: int
  isan_UnknownFixIssues :: int
  isan_AmbiguousFixIssues :: int

record InsightRecord =
  ins_InsightID :: string
  ins_Project :: IssueProject
  ins_Harness :: string
  ins_Model :: string
  ins_PromptVersion :: string
  ins_InputHash :: string
  ins_GeneratedAt :: gotime
  ins_Result :: InsightResult
  ins_Sanitization :: InsightSanitization

text \<open>The names of the detectors.\<close>

abbreviation (input) DetectorRetryLoop :: string where "DetectorRetryLoop \<equiv> ''retry_loop''"
abbreviation (input) DetectorRecurringError :: string where "DetectorRecurringError \<equiv> ''recurring_error''"
abbreviation (input) DetectorRepeatedCorrection :: string where "DetectorRepeatedCorrection \<equiv> ''repeated_correction''"
abbreviation (input) DetectorDoneWithoutVerification :: string where "DetectorDoneWithoutVerification \<equiv> ''done_without_verification''"
abbreviation (input) DetectorPermissionChurn :: string where "DetectorPermissionChurn \<equiv> ''permission_churn''"
abbreviation (input) DetectorColdStartCost :: string where "DetectorColdStartCost \<equiv> ''cold_start_cost''"
abbreviation (input) DetectorFileThrash :: string where "DetectorFileThrash \<equiv> ''file_thrash''"
abbreviation (input) DetectorFileReversal :: string where "DetectorFileReversal \<equiv> ''file_reversal''"
abbreviation (input) DetectorFailureRepaired :: string where "DetectorFailureRepaired \<equiv> ''failure_repaired''"
abbreviation (input) DetectorCompactionBeforeCompletion :: string where "DetectorCompactionBeforeCompletion \<equiv> ''compaction_before_completion''"

section \<open>Requests and packs\<close>

datatype Intent =
    IntentGeneral | IntentDebug | IntentImplement | IntentRefactor | IntentReview | IntentRelease
    | Intent_other string

fun Intent_text :: "Intent \<Rightarrow> string" where
  "Intent_text IntentGeneral = ''general''"
| "Intent_text IntentDebug = ''debug''"
| "Intent_text IntentImplement = ''implement''"
| "Intent_text IntentRefactor = ''refactor''"
| "Intent_text IntentReview = ''review''"
| "Intent_text IntentRelease = ''release''"
| "Intent_text (Intent_other s) = s"

fun validIntent :: "Intent \<Rightarrow> bool" where
  "validIntent (Intent_other s) = False"
| "validIntent _ = True"

interpretation Intent_enum: string_enum
  "[IntentGeneral, IntentDebug, IntentImplement, IntentRefactor, IntentReview, IntentRelease]"
  Intent_text Intent_other validIntent
  by unfold_locales (auto elim: validIntent.elims)

text \<open>The empty harness, which means that none was given, is a value of its own.\<close>

datatype PackHarness =
    PackHarnessNone | PackHarnessClaude | PackHarnessCodex | PackHarnessCursor | PackHarnessAntigravity
    | PackHarness_other string

fun PackHarness_text :: "PackHarness \<Rightarrow> string" where
  "PackHarness_text PackHarnessNone = []"
| "PackHarness_text PackHarnessClaude = ''claude''"
| "PackHarness_text PackHarnessCodex = ''codex''"
| "PackHarness_text PackHarnessCursor = ''cursor''"
| "PackHarness_text PackHarnessAntigravity = ''antigravity''"
| "PackHarness_text (PackHarness_other s) = s"

fun validHarness :: "PackHarness \<Rightarrow> bool" where
  "validHarness (PackHarness_other s) = False"
| "validHarness _ = True"

interpretation PackHarness_enum: string_enum
  "[PackHarnessNone, PackHarnessClaude, PackHarnessCodex, PackHarnessCursor, PackHarnessAntigravity]"
  PackHarness_text PackHarness_other validHarness
  by unfold_locales (auto elim: validHarness.elims)

record PackRequest =
  req_CWD :: string
  req_IssueID :: string
  req_Intent :: Intent
  req_Harness :: PackHarness
  req_TaskHint :: string
  req_GeneratedAt :: gotime

record PackProject =
  pj_Label :: string
  pj_IdentityKind :: string
  pj_Branch :: string
  pj_Worktree :: string

record ResolvedProject =
  rp_Identity :: string
  rp_IdentityKind :: string
  rp_Label :: string
  rp_Path :: string

record WorkspaceSnapshot =
  ws_Branch :: string
  ws_Worktree :: string
  ws_Harnesses :: "string list"

record Trust =
  trust_InstructionAuthority :: string
  trust_GuidanceState :: string
  trust_EvidenceState :: string
  trust_ActivationRequired :: bool

record SourceState =
  ss_TranscriptGeneration :: int
  ss_AnalyzedGeneration :: int
  ss_AnalysisStatus :: string
  ss_DataThrough :: gotime

record SourceRef =
  src_Kind :: string
  src_IssueID :: string
  src_InsightID :: string
  src_CandidateID :: string
  src_EpisodeID :: string
  src_SessionKey :: string
  src_TurnIndex :: "int option"
  src_EventID :: string
  src_ProjectFile :: string
  src_SourceSHA256 :: string
  src_SourceFileID :: string
  src_JSONLByteOffset :: "int option"
  src_ObservedAt :: "gotime option"

record VerifierSummary =
  vs_Kind :: string
  vs_Summary :: string

record ExperienceItem =
  ei_ExperienceID :: string
  ei_Version :: int
  ei_Type :: string
  ei_Guidance :: string
  ei_Applicability :: string
  ei_Exceptions :: "string list"
  ei_Rationale :: string
  ei_Verifier :: VerifierSummary
  ei_Authority :: string
  ei_Sources :: "SourceRef list"

record GuidanceItem =
  gi_ID :: string
  gi_Kind :: string
  gi_Title :: string
  gi_Guidance :: string
  gi_TargetFile :: string
  gi_Confidence :: "float64 option"
  gi_SessionCount :: int
  gi_WastedMinutes :: float64
  gi_WastedTokens :: int
  gi_WastedUSD :: "float64 option"
  gi_CostLowerBound :: bool
  gi_RequiresApproval :: bool
  gi_Sources :: "SourceRef list"

record CommandItem =
  ci_ID :: string
  ci_Command :: string
  ci_Class :: string
  ci_Configured :: bool
  ci_Observed :: bool
  ci_SuccessCount :: int
  ci_LastSuccess :: "gotime option"
  ci_RequiresApproval :: bool
  ci_Sources :: "SourceRef list"

record ContextFact =
  ctxf_ID :: string
  ctxf_Kind :: string
  ctxf_Summary :: string
  ctxf_SessionCount :: int
  ctxf_ObservedAt :: "gotime option"
  ctxf_Sources :: "SourceRef list"

record PackContext =
  cx_Harnesses :: "string list"
  cx_Facts :: "ContextFact list"

record ChecklistItem =
  ck_ID :: string
  ck_Text :: string

record PackWarning =
  wn_Code :: string
  wn_Message :: string

record PackCoverage =
  pcov_TranscriptStatus :: string
  pcov_CanonicalContextAvailable :: bool

record ObservedCommand =
  oc_Command :: string
  oc_Class :: string
  oc_SuccessCount :: int
  oc_LastSuccess :: gotime
  oc_Sources :: "SourceRef list"

record DiscoveredCommand =
  dc_Command :: string
  dc_Class :: string
  dc_SourceFile :: string
  dc_SourceSHA256 :: string

record CanonicalFact =
  can_FactID :: string
  can_Kind :: string
  can_Value :: string
  can_SessionCount :: int
  can_ObservedAt :: gotime
  can_Sources :: "SourceRef list"

record Pack =
  pk_SchemaVersion :: string
  pk_GeneratorVersion :: string
  pk_PackID :: string
  pk_GeneratedAt :: gotime
  pk_Project :: PackProject
  pk_Intent :: Intent
  pk_Harness :: PackHarness
  pk_Status :: string
  pk_Trust :: Trust
  pk_SourceState :: SourceState
  pk_ExperienceGeneration :: int
  pk_Experiences :: "ExperienceItem list"
  pk_Context :: PackContext
  pk_KnownTraps :: "GuidanceItem list"
  pk_OperatingRules :: "GuidanceItem list"
  pk_Verification :: "CommandItem list"
  pk_Completion :: "ChecklistItem list"
  pk_Warnings :: "PackWarning list"
  pk_EstimatedTokens :: int
  pk_Truncated :: bool
  pk_RenderedMarkdown :: string

record BuildInput =
  bi_Request :: PackRequest
  bi_Project :: ResolvedProject
  bi_Workspace :: WorkspaceSnapshot
  bi_SourceState :: SourceState
  bi_Issues :: "Issue list"
  bi_Insight :: "InsightRecord option"
  bi_Candidates :: "string \<rightharpoonup> CorrectionCandidate"
  bi_Commands :: "ObservedCommand list"
  bi_ProjectFiles :: "DiscoveredCommand list"
  bi_Facts :: "CanonicalFact list"
  bi_Coverage :: PackCoverage
  bi_InsightStale :: bool
  bi_ExperienceGeneration :: int
  bi_Experiences :: "ExperienceItem list"

section \<open>Constants\<close>

definition MaxKnownTraps :: nat where "MaxKnownTraps = 3"
definition MaxOperatingRules :: nat where "MaxOperatingRules = 3"
definition MaxVerificationCommands :: nat where "MaxVerificationCommands = 3"
definition MaxContextFacts :: nat where "MaxContextFacts = 5"
definition MaxChecklistItems :: nat where "MaxChecklistItems = 6"
definition MaxSourcesPerItem :: nat where "MaxSourcesPerItem = 2"

definition pack_SchemaVersion :: string where "pack_SchemaVersion = ''belay.mission-pack.v1''"
definition pack_GeneratorVersion :: string where "pack_GeneratorVersion = ''mission-pack.det.v6''"
definition legacyGeneratorVersion :: string where "legacyGeneratorVersion = ''mission-pack.det.v3''"

abbreviation (input) maxCandidateIssues :: nat where "maxCandidateIssues \<equiv> 10"
abbreviation (input) maxRuleRunes :: nat where "maxRuleRunes \<equiv> 300"
abbreviation (input) maxCommandRunes :: nat where "maxCommandRunes \<equiv> 256"
abbreviation (input) maxDisplayRunes :: nat where "maxDisplayRunes \<equiv> 300"

abbreviation (input) maxExperiences :: nat where "maxExperiences \<equiv> 3"
abbreviation (input) maxExperienceTokens :: nat where "maxExperienceTokens \<equiv> 600"
abbreviation (input) maxExperienceIDRunes :: nat where "maxExperienceIDRunes \<equiv> 256"
abbreviation (input) maxExperienceTypeRunes :: nat where "maxExperienceTypeRunes \<equiv> 64"
abbreviation (input) maxExperienceGuidanceBytes :: nat where "maxExperienceGuidanceBytes \<equiv> 2 * 1024"
abbreviation (input) maxExperienceApplicabilityBytes :: nat where "maxExperienceApplicabilityBytes \<equiv> 2 * 1024"
abbreviation (input) maxExperienceExceptions :: nat where "maxExperienceExceptions \<equiv> 8"
abbreviation (input) maxExperienceRationaleBytes :: nat where "maxExperienceRationaleBytes \<equiv> 8 * 1024"
abbreviation (input) maxExperienceVerifierRunes :: nat where "maxExperienceVerifierRunes \<equiv> 300"
abbreviation (input) experienceAuthorityUserApproved :: string where
  "experienceAuthorityUserApproved \<equiv> ''user_approved''"

text \<open>\<open>highConfidence\<close>, 0.8: the double next to it, 3602879701896397 / 2^52.\<close>

definition highConfidence :: float64 where
  "highConfidence = Finite (3602879701896397 / 4503599627370496)"

end
