(* ===== verification/PackExperiences.thy ===== *)
theory PackExperiences
  imports PackText PackTypes
begin

text \<open>
  The sources that every item of a Mission Pack cites, in their normal form, and the checks that the approved
  experiences pass before a pack carries them (\<open>internal/missionpack/build.go\<close>).
\<close>

section \<open>Sources\<close>

definition sourceKey :: "SourceRef \<Rightarrow> string" where
  "sourceKey v = join_zero
     [src_Kind v, src_IssueID v, src_InsightID v, src_CandidateID v, src_EpisodeID v, src_SessionKey v,
      int_text (case src_TurnIndex v of None \<Rightarrow> -1 | Some t \<Rightarrow> t),
      src_EventID v, src_ProjectFile v, src_SourceSHA256 v, src_SourceFileID v,
      int_text (case src_JSONLByteOffset v of None \<Rightarrow> -1 | Some t \<Rightarrow> t),
      (case src_ObservedAt v of None \<Rightarrow> [] | Some t \<Rightarrow> format_nano t)]"

definition normalizeSource :: "SourceRef \<Rightarrow> SourceRef" where
  "normalizeSource v =
     \<lparr>src_Kind = oneLine (src_Kind v) 64,
      src_IssueID = boundedIdentifier (src_IssueID v),
      src_InsightID = boundedIdentifier (src_InsightID v),
      src_CandidateID = boundedIdentifier (src_CandidateID v),
      src_EpisodeID = boundedIdentifier (src_EpisodeID v),
      src_SessionKey = boundedIdentifier (src_SessionKey v),
      src_TurnIndex = src_TurnIndex v,
      src_EventID = boundedIdentifier (src_EventID v),
      src_ProjectFile = boundedIdentifier (src_ProjectFile v),
      src_SourceSHA256 = boundedIdentifier (src_SourceSHA256 v),
      src_SourceFileID = boundedIdentifier (src_SourceFileID v),
      src_JSONLByteOffset = src_JSONLByteOffset v,
      src_ObservedAt = Option.bind (src_ObservedAt v) timePointer\<rparr>"

definition normalizeSources :: "SourceRef list \<Rightarrow> nat \<Rightarrow> SourceRef list" where
  "normalizeSources values limit =
     take limit (sort_slice (\<lambda>a b. sourceKey a < sourceKey b)
       (keep_new sourceKey [] (filter (\<lambda>v. src_Kind v \<noteq> []) (map normalizeSource values))))"

definition no_source :: SourceRef where
  "no_source = \<lparr>src_Kind = [], src_IssueID = [], src_InsightID = [], src_CandidateID = [],
     src_EpisodeID = [], src_SessionKey = [], src_TurnIndex = None, src_EventID = [], src_ProjectFile = [],
     src_SourceSHA256 = [], src_SourceFileID = [], src_JSONLByteOffset = None, src_ObservedAt = None\<rparr>"

lemma length_normalizeSources: "length (normalizeSources values limit) \<le> limit"
  by (simp add: normalizeSources_def)

section \<open>Experiences\<close>

abbreviation pack_error :: "string \<Rightarrow> string" where
  "pack_error msg \<equiv> ''Mission Pack '' @ msg"

definition line_break :: string where
  "line_break = [CHR 0x0D, CHR 0x0A]"

definition validExperienceOneLine :: "string \<Rightarrow> string \<Rightarrow> nat \<Rightarrow> check" where
  "validExperienceOneLine field value0 maxRunes =
     (let value = TrimSpace value0 in
      reject_if (value = [] \<or> ContainsAny value line_break \<or> maxRunes < RuneCountInString value)
        (pack_error (field @ '' is invalid'')))"

definition validateExperienceSource :: "SourceRef \<Rightarrow> check" where
  "validateExperienceSource v = first_error
     [validExperienceOneLine ''experience source kind'' (src_Kind v) 64,
      check_each (\<lambda>identifier. reject_if (identifier \<noteq> [] \<and>
            (ContainsAny identifier line_break \<or> maxExperienceIDRunes < RuneCountInString (TrimSpace identifier)))
          (pack_error ''experience source identifier is invalid''))
        [src_IssueID v, src_InsightID v, src_CandidateID v, src_EpisodeID v, src_SessionKey v, src_EventID v,
         src_ProjectFile v, src_SourceSHA256 v, src_SourceFileID v]]"

fun check_exceptions :: "unicode \<Rightarrow> string list \<Rightarrow> string list \<Rightarrow> check" where
  "check_exceptions u seen [] = None"
| "check_exceptions u seen (e # es) =
     (let exception = TrimSpace e; normalized = uni_ToLower u exception in
      first_error
        [reject_if (exception = [] \<or> ContainsAny exception line_break \<or>
            maxExperienceGuidanceBytes < length exception) (pack_error ''experience exception is invalid''),
         reject_if (normalized \<in> set seen) (pack_error ''experience exceptions are duplicated''),
         check_exceptions u (normalized # seen) es])"

definition check_experience_item :: "unicode \<Rightarrow> ExperienceItem \<Rightarrow> check" where
  "check_experience_item u v = first_error
     [validExperienceOneLine ''experience ID'' (ei_ExperienceID v) maxExperienceIDRunes,
      reject_if (ei_Version v \<le> 0) (pack_error ''experience version must be positive''),
      validExperienceOneLine ''experience type'' (ei_Type v) maxExperienceTypeRunes,
      (let guidance = TrimSpace (ei_Guidance v) in
       reject_if (guidance = [] \<or> ContainsAny guidance line_break \<or>
           maxExperienceGuidanceBytes < length guidance) (pack_error ''experience guidance is invalid'')),
      (let applicability = TrimSpace (ei_Applicability v) in
       reject_if (applicability = [] \<or> ContainsAny applicability line_break \<or>
           maxExperienceApplicabilityBytes < length applicability)
         (pack_error ''experience applicability is invalid'')),
      reject_if (maxExperienceExceptions < length (ei_Exceptions v))
        (pack_error ''experience has too many exceptions''),
      check_exceptions u [] (ei_Exceptions v),
      (let rationale = TrimSpace (ei_Rationale v) in
       reject_if (rationale = [] \<or> maxExperienceRationaleBytes < length rationale)
         (pack_error ''experience rationale is invalid'')),
      validExperienceOneLine ''experience verifier kind'' (vs_Kind (ei_Verifier v)) maxExperienceTypeRunes,
      validExperienceOneLine ''experience verifier summary'' (vs_Summary (ei_Verifier v))
        maxExperienceVerifierRunes,
      reject_if (ei_Authority v \<noteq> experienceAuthorityUserApproved)
        (pack_error ''experience authority must be user_approved''),
      reject_if (MaxSourcesPerItem < length (ei_Sources v)) (pack_error ''experience has too many sources''),
      check_each validateExperienceSource (ei_Sources v)]"

definition trimmed_experience :: "ExperienceItem \<Rightarrow> ExperienceItem" where
  "trimmed_experience v =
     \<lparr>ei_ExperienceID = TrimSpace (ei_ExperienceID v), ei_Version = ei_Version v,
      ei_Type = TrimSpace (ei_Type v), ei_Guidance = TrimSpace (ei_Guidance v),
      ei_Applicability = TrimSpace (ei_Applicability v),
      ei_Exceptions = map TrimSpace (ei_Exceptions v), ei_Rationale = TrimSpace (ei_Rationale v),
      ei_Verifier = \<lparr>vs_Kind = TrimSpace (vs_Kind (ei_Verifier v)),
        vs_Summary = TrimSpace (vs_Summary (ei_Verifier v))\<rparr>,
      ei_Authority = ei_Authority v,
      ei_Sources = normalizeSources (ei_Sources v) MaxSourcesPerItem\<rparr>"

definition experience_bytes :: "ExperienceItem \<Rightarrow> nat" where
  "experience_bytes v = length (ei_Guidance v) + length (ei_Applicability v) + length (ei_Rationale v) +
     length (vs_Kind (ei_Verifier v)) + length (vs_Summary (ei_Verifier v)) +
     sum_list (map length (ei_Exceptions v))"

definition normalizeExperienceItem :: "unicode \<Rightarrow> ExperienceItem \<Rightarrow> go_error + ExperienceItem \<times> nat" where
  "normalizeExperienceItem u v =
     (case check_experience_item u v of Some e \<Rightarrow> Inl e
      | None \<Rightarrow> Inr (trimmed_experience v, experience_bytes (trimmed_experience v)))"

fun normalize_items :: "unicode \<Rightarrow> ExperienceItem list \<Rightarrow> go_error + ExperienceItem list \<times> nat" where
  "normalize_items u [] = Inr ([], 0)"
| "normalize_items u (v # vs) =
     (case normalizeExperienceItem u v of Inl e \<Rightarrow> Inl e
      | Inr (item, n) \<Rightarrow>
        (case normalize_items u vs of Inl e \<Rightarrow> Inl e | Inr (items, m) \<Rightarrow> Inr (item # items, n + m)))"

definition normalizeExperienceItems ::
    "unicode \<Rightarrow> int \<Rightarrow> ExperienceItem list \<Rightarrow> go_error + ExperienceItem list" where
  "normalizeExperienceItems u generation values =
     (if values = [] then
        (if generation \<noteq> 0 then Inl (Err (pack_error ''experience generation requires experience items''))
         else Inr [])
      else if generation \<le> 0 then Inl (Err (pack_error ''experiences require a positive generation''))
      else if maxExperiences < length values then Inl (Err (pack_error ''has too many experiences''))
      else
        (case normalize_items u values of Inl e \<Rightarrow> Inl e
         | Inr (items, totalBytes) \<Rightarrow>
           if maxExperienceTokens < (totalBytes + 3) div 4
           then Inl (Err (pack_error ''experiences exceed the experience token budget''))
           else Inr items))"

end
