(* ===== verification/PackSelect.thy ===== *)
theory PackSelect
  imports PackExperiences
begin

text \<open>
  What goes into a Mission Pack (\<open>internal/missionpack/build.go\<close>): the choice of the issues, of the proposed
  rules, of the verification commands and of the facts. A Go map that is filled in a loop and then listed is
  the list of its values in the order they were first entered; Go lists it in any order, and the comparisons
  that sort it afterwards are total on what the map can hold.
\<close>

section \<open>Issues\<close>

definition baseIssueLess :: "Issue \<Rightarrow> Issue \<Rightarrow> bool" where
  "baseIssueLess left right =
     (let leftUSD = cost_WastedUSD (iss_Cost left); rightUSD = cost_WastedUSD (iss_Cost right) in
      if (leftUSD \<noteq> None) \<noteq> (rightUSD \<noteq> None) then leftUSD \<noteq> None
      else if leftUSD \<noteq> None \<and> \<not> float_eq (the leftUSD) (the rightUSD)
      then float_less (the rightUSD) (the leftUSD)
      else if iss_SessionCount left \<noteq> iss_SessionCount right
      then iss_SessionCount right < iss_SessionCount left
      else if \<not> time_Equal (iss_LastSeen left) (iss_LastSeen right)
      then After (iss_LastSeen left) (iss_LastSeen right)
      else iss_IssueID left < iss_IssueID right)"

definition issueSessionCount :: "Issue \<Rightarrow> int" where
  "issueSessionCount issue = max (iss_SessionCount issue) (int (length (iss_Sessions issue)))"

definition detectorFamily :: "string \<Rightarrow> string" where
  "detectorFamily detectorID =
     (if TrimSpace detectorID \<in> set [DetectorRetryLoop, DetectorRecurringError, DetectorRepeatedCorrection,
        DetectorDoneWithoutVerification, DetectorPermissionChurn, DetectorColdStartCost, DetectorFileThrash,
        DetectorFileReversal, DetectorFailureRepaired, DetectorCompactionBeforeCompletion]
      then TrimSpace detectorID else ''unknown'')"

text \<open>One turn of the loop that keeps, of the issues with one identifier, the first in the ranking.\<close>

fun merge_issue :: "Issue \<Rightarrow> Issue list \<Rightarrow> Issue list" where
  "merge_issue issue [] = [issue]"
| "merge_issue issue (current # rest) =
     (if iss_IssueID current = iss_IssueID issue
      then (if baseIssueLess issue current then issue else current) # rest
      else current # merge_issue issue rest)"

definition trim_issue :: "Issue \<Rightarrow> Issue" where
  "trim_issue issue = issue\<lparr>iss_IssueID := TrimSpace (iss_IssueID issue)\<rparr>"

definition issue_usable :: "string \<Rightarrow> Issue \<Rightarrow> bool" where
  "issue_usable identity issue \<longleftrightarrow> iss_IssueID issue \<noteq> [] \<and>
     \<not> (ipj_Identity (iss_Project issue) \<noteq> [] \<and> ipj_Identity (iss_Project issue) \<noteq> identity)"

definition unique_issues :: "BuildInput \<Rightarrow> Issue list" where
  "unique_issues input =
     fold merge_issue
       (filter (issue_usable (rp_Identity (bi_Project input))) (map trim_issue (bi_Issues input))) []"

definition selectIssues :: "BuildInput \<Rightarrow> go_error + Issue list" where
  "selectIssues input =
     (let all = sort_slice baseIssueLess (unique_issues input);
          anchorID = TrimSpace (req_IssueID (bi_Request input)) in
      if anchorID \<noteq> [] then
        (case find (\<lambda>issue. iss_IssueID issue = anchorID) all of
           Some issue \<Rightarrow> Inr [issue]
         | None \<Rightarrow> Inl (Err (pack_error ''anchor issue is unavailable'')))
      else
        (let remaining = take maxCandidateIssues (filter (\<lambda>issue. 2 \<le> issueSessionCount issue) all) in
         Inr (take MaxKnownTraps (keep_new (\<lambda>issue. detectorFamily (iss_DetectorID issue)) [] remaining))))"

section \<open>Known traps\<close>

definition plural :: "int \<Rightarrow> string" where
  "plural n = (if n = 1 then [] else ''s'')"

definition knownTrapTitle :: "string \<Rightarrow> string" where
  "knownTrapTitle detectorID =
     (if detectorID = DetectorRetryLoop then ''Repeated command failure loop''
      else if detectorID = DetectorRecurringError then ''Recurring error across sessions''
      else if detectorID = DetectorRepeatedCorrection then ''Repeated agent correction''
      else if detectorID = DetectorDoneWithoutVerification then ''Completion claimed without verification''
      else if detectorID = DetectorPermissionChurn then ''Repeated permission approval''
      else if detectorID = DetectorColdStartCost then ''High project cold-start cost''
      else if detectorID = DetectorFileThrash then ''Repeated edits to the same file''
      else if detectorID = DetectorFileReversal then ''File returned to an earlier edit state''
      else if detectorID = DetectorFailureRepaired then ''A failed approach had a successful recovery''
      else if detectorID = DetectorCompactionBeforeCompletion
      then ''Context compaction before verified completion''
      else ''Recurring agent workflow issue'')"

definition knownTrapDisplayTitle :: "Issue \<Rightarrow> string" where
  "knownTrapDisplayTitle issue =
     (let headline = oneLine (iss_Headline issue) maxDisplayRunes;
          title = knownTrapTitle (iss_DetectorID issue); sessionCount = issueSessionCount issue in
      if headline \<noteq> [] then headline
      else if sessionCount \<le> 0 then title
      else oneLine (title @ '' across '' @ int_text sessionCount @ '' session'' @ plural sessionCount)
             maxDisplayRunes)"

definition issueSources :: "Issue \<Rightarrow> SourceRef list" where
  "issueSources issue =
     (let cited = no_source\<lparr>src_Kind := ''cost_issue'', src_IssueID := boundedIdentifier (iss_IssueID issue)\<rparr>;
          episode = (case find (\<lambda>e. e \<noteq> []) (map boundedIdentifier (sort (iss_EpisodeRefs issue))) of
             None \<Rightarrow> []
           | Some e \<Rightarrow> [cited\<lparr>src_Kind := ''evidence_episode'', src_EpisodeID := e\<rparr>]);
          excerpts = map (\<lambda>excerpt. let citation = exc_Citation excerpt in
             cited\<lparr>src_SessionKey := boundedIdentifier (cit_SessionKey citation),
               src_TurnIndex := Some (cit_TurnIndex citation),
               src_SourceFileID := boundedIdentifier (cit_SourceFileID citation),
               src_JSONLByteOffset := Some (cit_JSONLByteOffset citation),
               src_ObservedAt := timePointer (cit_OccurredAt citation)\<rparr>) (iss_Excerpts issue);
          result = episode @ take (MaxSourcesPerItem - length episode) excerpts in
      normalizeSources (if result = [] then [cited] else result) MaxSourcesPerItem)"

definition buildKnownTrap :: "Issue \<Rightarrow> GuidanceItem" where
  "buildKnownTrap issue =
     \<lparr>gi_ID = ''trap_'' @ shortDigest (iss_IssueID issue), gi_Kind = ''known_trap'',
      gi_Title = knownTrapDisplayTitle issue, gi_Guidance = [], gi_TargetFile = [], gi_Confidence = None,
      gi_SessionCount = issueSessionCount issue,
      gi_WastedMinutes = cost_WastedMinutes (iss_Cost issue),
      gi_WastedTokens = cost_WastedTokens (iss_Cost issue), gi_WastedUSD = cost_WastedUSD (iss_Cost issue),
      gi_CostLowerBound = cost_LowerBound (iss_Cost issue), gi_RequiresApproval = True,
      gi_Sources = issueSources issue\<rparr>"

definition buildKnownTraps :: "Issue list \<Rightarrow> GuidanceItem list" where
  "buildKnownTraps issues = map buildKnownTrap issues"

end
