(* ===== verification/PackGuidance.thy ===== *)
theory PackGuidance
  imports PackSelect
begin

text \<open>
  The operating rules that a Mission Pack proposes (\<open>selectRules\<close> of \<open>internal/missionpack/build.go\<close>): fixes of
  the current insight for the selected issues, then clusters of corrections that at least two sessions support,
  both for the harness the request names and both only when they share words with the task.
\<close>

section \<open>Targets\<close>

fun semanticTargetForHarness :: "PackHarness \<Rightarrow> string \<Rightarrow> string option" where
  "semanticTargetForHarness PackHarnessClaude targetFile =
     (let target = TrimSpace targetFile in
      if target = ''CLAUDE.md'' \<or> target = ''.claude/settings.json'' then Some target
      else if target = ''AGENTS.md'' \<or> target = ''.codex/rules/default.rules'' \<or>
        target = ''.agents/rules/belay.md'' then Some ''CLAUDE.md''
      else None)"
| "semanticTargetForHarness PackHarnessCodex targetFile =
     (let target = TrimSpace targetFile in
      if target = ''AGENTS.md'' \<or> target = ''.codex/rules/default.rules'' then Some target
      else if target = ''CLAUDE.md'' \<or> target = ''.agents/rules/belay.md'' then Some ''AGENTS.md''
      else None)"
| "semanticTargetForHarness PackHarnessCursor targetFile =
     (let target = TrimSpace targetFile in
      if target = ''AGENTS.md'' then Some ''AGENTS.md''
      else if target = ''CLAUDE.md'' \<or> target = ''.codex/rules/default.rules'' \<or>
        target = ''.agents/rules/belay.md'' then Some ''AGENTS.md''
      else None)"
| "semanticTargetForHarness PackHarnessAntigravity targetFile =
     (let target = TrimSpace targetFile in
      if target = ''.agents/rules/belay.md'' then Some ''.agents/rules/belay.md''
      else if target = ''AGENTS.md'' \<or> target = ''CLAUDE.md'' \<or> target = ''.codex/rules/default.rules''
      then Some ''.agents/rules/belay.md''
      else None)"
| "semanticTargetForHarness _ targetFile = None"

section \<open>Fixes\<close>

definition fix_less :: "InsightFix \<Rightarrow> InsightFix \<Rightarrow> bool" where
  "fix_less a b =
     (if ifx_IssueID a \<noteq> ifx_IssueID b then ifx_IssueID a < ifx_IssueID b
      else if \<not> float_eq (ifx_Confidence a) (ifx_Confidence b)
      then float_less (ifx_Confidence b) (ifx_Confidence a)
      else if ifx_RuleText a \<noteq> ifx_RuleText b then ifx_RuleText a < ifx_RuleText b
      else ifx_TargetFile a < ifx_TargetFile b)"

definition semanticTextRelevant :: "unicode \<Rightarrow> string \<Rightarrow> string list \<Rightarrow> bool" where
  "semanticTextRelevant u value relevanceTokens \<longleftrightarrow>
     tokenSetsRelevant (lexicalTokens u (oneLine value (maxDisplayRunes + maxRuleRunes))) relevanceTokens"

definition issueFixRelevant :: "unicode \<Rightarrow> Issue \<Rightarrow> InsightFix \<Rightarrow> string list \<Rightarrow> bool" where
  "issueFixRelevant u issue fix relevanceTokens \<longleftrightarrow>
     semanticTextRelevant u (iss_Headline issue @ '' '' @ ifx_RuleText fix) relevanceTokens"

text \<open>The checks of one fix; the fix as it is kept, with its target for the harness.\<close>

definition fix_candidate ::
    "unicode \<Rightarrow> PackHarness \<Rightarrow> string \<Rightarrow> string list \<Rightarrow> (string \<rightharpoonup> Issue) \<Rightarrow> InsightFix \<Rightarrow> InsightFix option" where
  "fix_candidate u harness anchorID relevanceTokens issuesByID fix =
     (if float_less (ifx_Confidence fix) highConfidence then None
      else case semanticTargetForHarness harness (ifx_TargetFile fix) of
        None \<Rightarrow> None
      | Some targetFile \<Rightarrow>
        (let fix' = fix\<lparr>ifx_TargetFile := targetFile\<rparr> in
         case issuesByID (ifx_IssueID fix) of
           None \<Rightarrow> None
         | Some issue \<Rightarrow>
           if anchorID \<noteq> [] \<and> ifx_IssueID fix \<noteq> anchorID then None
           else if anchorID = [] \<and> \<not> issueFixRelevant u issue fix' relevanceTokens then None
           else Some fix'))"

fun best_fixes :: "(InsightFix \<Rightarrow> InsightFix option) \<Rightarrow> InsightFix list \<Rightarrow> (string \<rightharpoonup> InsightFix) \<Rightarrow>
    (string \<rightharpoonup> InsightFix)" where
  "best_fixes candidate [] bestFix = bestFix"
| "best_fixes candidate (fix # fixes) bestFix =
     best_fixes candidate fixes
       (case candidate fix of None \<Rightarrow> bestFix
        | Some fix' \<Rightarrow> if bestFix (ifx_IssueID fix') = None then bestFix(ifx_IssueID fix' \<mapsto> fix') else bestFix)"

definition insightFixRule :: "InsightRecord \<Rightarrow> Issue \<Rightarrow> InsightFix \<Rightarrow> GuidanceItem" where
  "insightFixRule insight issue fix =
     (let guidance = oneLine (ifx_RuleText fix) maxRuleRunes in
      \<lparr>gi_ID = ''rule_'' @ shortDigest (''fix'' @ zero_byte @ iss_IssueID issue @ zero_byte @ guidance),
       gi_Kind = ''insight_fix'',
       gi_Title = oneLine (''Rule for '' @ knownTrapTitle (iss_DetectorID issue)) maxDisplayRunes,
       gi_Guidance = guidance, gi_TargetFile = oneLine (ifx_TargetFile fix) 160,
       gi_Confidence = Some (ifx_Confidence fix), gi_SessionCount = 0, gi_WastedMinutes = Finite 0,
       gi_WastedTokens = 0, gi_WastedUSD = None, gi_CostLowerBound = False, gi_RequiresApproval = True,
       gi_Sources = normalizeSources
         [no_source\<lparr>src_Kind := ''insight'', src_IssueID := boundedIdentifier (iss_IssueID issue),
            src_InsightID := boundedIdentifier (ins_InsightID insight),
            src_ObservedAt := timePointer (ins_GeneratedAt insight)\<rparr>] MaxSourcesPerItem\<rparr>)"

definition fix_rules :: "InsightRecord \<Rightarrow> string \<Rightarrow> (string \<rightharpoonup> InsightFix) \<Rightarrow> Issue list \<Rightarrow> GuidanceItem list" where
  "fix_rules insight anchorID bestFix issues =
     List.map_filter (\<lambda>issue. if anchorID \<noteq> [] \<and> iss_IssueID issue \<noteq> anchorID then None
        else map_option (insightFixRule insight issue) (bestFix (iss_IssueID issue))) issues"

section \<open>Clusters of corrections\<close>

record rankedInsightCluster =
  rk_cluster :: InsightCluster
  rk_candidateIDs :: "string list"
  rk_sessionSupport :: nat

definition clusterCandidateSupport ::
    "InsightCluster \<Rightarrow> (string \<rightharpoonup> CorrectionCandidate) \<Rightarrow> string list \<times> nat" where
  "clusterCandidateSupport cluster candidates =
     (let known = keep_new (\<lambda>i. i) [] (filter (\<lambda>i. candidates i \<noteq> None) (clu_CandidateIDs cluster));
          sessions = map (\<lambda>i. TrimSpace (cit_SessionKey (corr_Citation (the (candidates i))))) known in
      (sort known, length (remdups (filter (\<lambda>k. k \<noteq> []) sessions))))"

definition ranked_cluster :: "PackHarness \<Rightarrow> (string \<rightharpoonup> CorrectionCandidate) \<Rightarrow> InsightCluster \<Rightarrow>
    rankedInsightCluster option" where
  "ranked_cluster harness candidates cluster =
     (case semanticTargetForHarness harness (clu_TargetFile cluster) of
        None \<Rightarrow> None
      | Some targetFile \<Rightarrow>
        (let cluster' = cluster\<lparr>clu_TargetFile := targetFile\<rparr>;
             (candidateIDs, sessionSupport) = clusterCandidateSupport cluster' candidates in
         if length candidateIDs < 2 \<or> sessionSupport < 2 then None
         else Some \<lparr>rk_cluster = cluster', rk_candidateIDs = candidateIDs,
                    rk_sessionSupport = sessionSupport\<rparr>))"

definition cluster_less :: "rankedInsightCluster \<Rightarrow> rankedInsightCluster \<Rightarrow> bool" where
  "cluster_less a b =
     (let left = rk_cluster a; right = rk_cluster b in
      if rk_sessionSupport a \<noteq> rk_sessionSupport b then rk_sessionSupport b < rk_sessionSupport a
      else if length (rk_candidateIDs a) \<noteq> length (rk_candidateIDs b)
      then length (rk_candidateIDs b) < length (rk_candidateIDs a)
      else if \<not> float_eq (clu_Confidence left) (clu_Confidence right)
      then float_less (clu_Confidence right) (clu_Confidence left)
      else if clu_Topic left \<noteq> clu_Topic right then clu_Topic left < clu_Topic right
      else if clu_RuleText left \<noteq> clu_RuleText right then clu_RuleText left < clu_RuleText right
      else if clu_TargetFile left \<noteq> clu_TargetFile right then clu_TargetFile left < clu_TargetFile right
      else join_zero (rk_candidateIDs a) < join_zero (rk_candidateIDs b))"

definition clusterRelevant :: "unicode \<Rightarrow> InsightCluster \<Rightarrow> string list \<Rightarrow>
    (string \<rightharpoonup> CorrectionCandidate) \<Rightarrow> string list \<Rightarrow> bool" where
  "clusterRelevant u cluster candidateIDs candidates relevanceTokens \<longleftrightarrow>
     (let evidenceTokens = lexicalTokens u (oneLine (clu_Topic cluster @ '' '' @ clu_RuleText cluster) maxRuleRunes);
          texts = List.map_filter candidates candidateIDs;
          candidateTokens = concat (map (\<lambda>c. lexicalTokens u (oneLine (corr_Text c) maxDisplayRunes)) texts) in
      tokenSetsRelevant (evidenceTokens @ candidateTokens) relevanceTokens)"

definition cluster_source :: "InsightRecord \<Rightarrow> string \<Rightarrow> CorrectionCandidate \<Rightarrow> SourceRef" where
  "cluster_source insight candidateID candidate =
     (let citation = corr_Citation candidate in
      no_source\<lparr>src_Kind := ''insight_cluster'', src_InsightID := boundedIdentifier (ins_InsightID insight),
        src_CandidateID := boundedIdentifier candidateID,
        src_SessionKey := boundedIdentifier (cit_SessionKey citation),
        src_TurnIndex := Some (cit_TurnIndex citation),
        src_SourceFileID := boundedIdentifier (cit_SourceFileID citation),
        src_JSONLByteOffset := Some (cit_JSONLByteOffset citation),
        src_ObservedAt := timePointer (cit_OccurredAt citation)\<rparr>)"

definition insightClusterRule :: "InsightRecord \<Rightarrow> InsightCluster \<Rightarrow> string list \<Rightarrow>
    (string \<rightharpoonup> CorrectionCandidate) \<Rightarrow> GuidanceItem" where
  "insightClusterRule insight cluster candidateIDs candidates =
     (let known = filter (\<lambda>i. candidates i \<noteq> None) candidateIDs;
          boundedCandidateIDs = map boundedIdentifier known;
          sources = map (\<lambda>i. cluster_source insight i (the (candidates i))) known;
          uncited = no_source\<lparr>src_Kind := ''insight_cluster'',
            src_InsightID := boundedIdentifier (ins_InsightID insight),
            src_ObservedAt := timePointer (ins_GeneratedAt insight)\<rparr>;
          guidance = oneLine (clu_RuleText cluster) maxRuleRunes in
      \<lparr>gi_ID = ''rule_'' @ shortDigest
         (''cluster'' @ zero_byte @ join_zero boundedCandidateIDs @ zero_byte @ guidance),
       gi_Kind = ''correction_cluster'', gi_Title = oneLine (clu_Topic cluster) maxDisplayRunes,
       gi_Guidance = guidance, gi_TargetFile = oneLine (clu_TargetFile cluster) 160,
       gi_Confidence = Some (clu_Confidence cluster), gi_SessionCount = 0, gi_WastedMinutes = Finite 0,
       gi_WastedTokens = 0, gi_WastedUSD = None, gi_CostLowerBound = False, gi_RequiresApproval = True,
       gi_Sources = normalizeSources (if sources = [] then [uncited] else sources) MaxSourcesPerItem\<rparr>)"

definition cluster_rules :: "unicode \<Rightarrow> InsightRecord \<Rightarrow> (string \<rightharpoonup> CorrectionCandidate) \<Rightarrow> string list \<Rightarrow>
    rankedInsightCluster list \<Rightarrow> GuidanceItem list" where
  "cluster_rules u insight candidates relevanceTokens clusters =
     map (\<lambda>r. insightClusterRule insight (rk_cluster r) (rk_candidateIDs r) candidates)
       (filter (\<lambda>r. \<not> float_less (clu_Confidence (rk_cluster r)) highConfidence \<and>
          clusterRelevant u (rk_cluster r) (rk_candidateIDs r) candidates relevanceTokens) clusters)"

section \<open>The rules of a pack\<close>

text \<open>The rules so far and the lower-case guidance already taken.\<close>

type_synonym rules_state = "GuidanceItem list \<times> string list"

definition appendRule :: "unicode \<Rightarrow> GuidanceItem \<Rightarrow> rules_state \<Rightarrow> rules_state" where
  "appendRule u rule0 st =
     (case st of (result, seen) \<Rightarrow>
      (let rule = rule0\<lparr>gi_Title := oneLine (gi_Title rule0) maxDisplayRunes,
             gi_Guidance := oneLine (gi_Guidance rule0) maxRuleRunes,
             gi_Sources := normalizeSources (gi_Sources rule0) MaxSourcesPerItem\<rparr>;
           normalized = uni_ToLower u (gi_Guidance rule) in
       if gi_Guidance rule = [] \<or> normalized \<in> set seen then (result, seen)
       else (result @ [rule], normalized # seen)))"

text \<open>The loops that append rules return once there are \<open>MaxOperatingRules\<close> of them.\<close>

fun append_rules :: "unicode \<Rightarrow> GuidanceItem list \<Rightarrow> rules_state \<Rightarrow> rules_state" where
  "append_rules u [] st = st"
| "append_rules u (rule # rules) st =
     (let st' = appendRule u rule st in
      if length (fst st') = MaxOperatingRules then st' else append_rules u rules st')"

definition insight_rules :: "unicode \<Rightarrow> BuildInput \<Rightarrow> Issue list \<Rightarrow> InsightRecord \<Rightarrow> string list \<Rightarrow>
    GuidanceItem list" where
  "insight_rules u input issues insight relevanceTokens =
     (let harness = req_Harness (bi_Request input);
          anchorID = TrimSpace (req_IssueID (bi_Request input));
          issuesByID = map_of (rev (map (\<lambda>issue. (iss_IssueID issue, issue)) issues));
          fixes' = sort_slice fix_less (ires_Fixes (ins_Result insight));
          bestFix = best_fixes (fix_candidate u harness anchorID relevanceTokens issuesByID) fixes' Map.empty;
          st = append_rules u (fix_rules insight anchorID bestFix issues) ([], []);
          clusters = sort_slice cluster_less
            (List.map_filter (ranked_cluster harness (bi_Candidates input)) (ires_Clusters (ins_Result insight)))
      in if length (fst st) = MaxOperatingRules \<or> anchorID \<noteq> [] then fst st
         else fst (append_rules u (cluster_rules u insight (bi_Candidates input) relevanceTokens clusters) st))"

definition selectRules :: "unicode \<Rightarrow> BuildInput \<Rightarrow> Issue list \<Rightarrow> GuidanceItem list" where
  "selectRules u input issues =
     (let request = bi_Request input; taskHint = TrimSpace (req_TaskHint request);
          relevanceTokens = lexicalTokens u (oneLine taskHint maxDisplayRunes) in
      if req_Harness request = PackHarnessNone then []
      else case bi_Insight input of
        None \<Rightarrow> []
      | Some insight \<Rightarrow>
        if bi_InsightStale input \<or> TrimSpace (ss_AnalysisStatus (bi_SourceState input)) = ''stale'' then []
        else if TrimSpace (req_IssueID request) \<noteq> [] then insight_rules u input issues insight []
        else if taskHint = [] \<or> relevanceTokens = [] then []
        else insight_rules u input issues insight relevanceTokens)"

end
