(* ===== verification/PackCommands.thy ===== *)
theory PackCommands
  imports PackExperiences
begin

text \<open>
  The verification commands and the context facts of a Mission Pack (\<open>selectVerification\<close> and \<open>selectFacts\<close> of
  \<open>internal/missionpack/build.go\<close>). The map of merged commands is the list of its values, first entered first.
\<close>

section \<open>Verification commands\<close>

record mergedCommand =
  mc_command :: string
  mc_class :: string
  mc_configured :: bool
  mc_observed :: bool
  mc_successCount :: int
  mc_lastSuccess :: gotime
  mc_sources :: "SourceRef list"

definition new_command :: "string \<Rightarrow> mergedCommand" where
  "new_command command =
     \<lparr>mc_command = command, mc_class = [], mc_configured = False, mc_observed = False, mc_successCount = 0,
      mc_lastSuccess = utc_at 0, mc_sources = []\<rparr>"

text \<open>The trimmed command, when it is one line of at most 256 runes.\<close>

definition validCommand :: "string \<Rightarrow> string option" where
  "validCommand value0 =
     (let value = TrimSpace value0 in
      if value \<noteq> [] \<and> RuneCountInString value \<le> maxCommandRunes \<and> \<not> ContainsAny value line_break
      then Some value else None)"

fun update_command :: "string \<Rightarrow> (mergedCommand \<Rightarrow> mergedCommand) \<Rightarrow> mergedCommand list \<Rightarrow> mergedCommand list" where
  "update_command command f [] = [f (new_command command)]"
| "update_command command f (c # cs) =
     (if mc_command c = command then f c # cs else c # update_command command f cs)"

definition add_discovered :: "DiscoveredCommand \<Rightarrow> mergedCommand \<Rightarrow> mergedCommand" where
  "add_discovered value current = current
     \<lparr>mc_configured := True,
      mc_class := (if mc_class current = [] then oneLine (dc_Class value) 80 else mc_class current),
      mc_sources := mc_sources current @
        [no_source\<lparr>src_Kind := ''project_config'', src_ProjectFile := boundedIdentifier (dc_SourceFile value),
           src_SourceSHA256 := boundedIdentifier (dc_SourceSHA256 value)\<rparr>]\<rparr>"

definition add_observed :: "ObservedCommand \<Rightarrow> mergedCommand \<Rightarrow> mergedCommand" where
  "add_observed value current = current
     \<lparr>mc_observed := True,
      mc_successCount := add64 (mc_successCount current) (oc_SuccessCount value),
      mc_lastSuccess := (if After (oc_LastSuccess value) (mc_lastSuccess current)
        then UTC (oc_LastSuccess value) else mc_lastSuccess current),
      mc_class := (if mc_class current = [] then oneLine (oc_Class value) 80 else mc_class current),
      mc_sources := mc_sources current @ oc_Sources value\<rparr>"

definition merge_discovered :: "DiscoveredCommand \<Rightarrow> mergedCommand list \<Rightarrow> mergedCommand list" where
  "merge_discovered value merged =
     (case validCommand (dc_Command value) of None \<Rightarrow> merged
      | Some command \<Rightarrow> update_command command (add_discovered value) merged)"

definition merge_observed :: "ObservedCommand \<Rightarrow> mergedCommand list \<Rightarrow> mergedCommand list" where
  "merge_observed value merged =
     (case validCommand (oc_Command value) of None \<Rightarrow> merged
      | Some command \<Rightarrow>
        if oc_SuccessCount value \<le> 0 then merged else update_command command (add_observed value) merged)"

definition merged_commands :: "ObservedCommand list \<Rightarrow> DiscoveredCommand list \<Rightarrow> mergedCommand list" where
  "merged_commands observed discovered = fold merge_observed observed (fold merge_discovered discovered [])"

definition releaseOrientedCommand :: "unicode \<Rightarrow> string \<Rightarrow> bool" where
  "releaseOrientedCommand u command \<longleftrightarrow>
     list_ex (\<lambda>token. token \<in> set [''release'', ''prerelease'', ''publish'', ''deploy'', ''distribution'',
        ''distribute'', ''dist'', ''packaging'']) (FieldsFunc (not_word u) (uni_ToLower u command))"

definition command_less :: "unicode \<Rightarrow> Intent \<Rightarrow> mergedCommand \<Rightarrow> mergedCommand \<Rightarrow> bool" where
  "command_less u intent a b =
     (let leftBoth = mc_configured a \<and> mc_observed a; rightBoth = mc_configured b \<and> mc_observed b;
          leftRelease = releaseOrientedCommand u (mc_command a);
          rightRelease = releaseOrientedCommand u (mc_command b) in
      if leftBoth \<noteq> rightBoth then leftBoth
      else if mc_observed a \<noteq> mc_observed b then mc_observed a
      else if leftRelease \<noteq> rightRelease then (if intent = IntentRelease then leftRelease else \<not> leftRelease)
      else if mc_successCount a \<noteq> mc_successCount b then mc_successCount b < mc_successCount a
      else if \<not> time_Equal (mc_lastSuccess a) (mc_lastSuccess b)
      then After (mc_lastSuccess a) (mc_lastSuccess b)
      else mc_command a < mc_command b)"

definition classKey :: "unicode \<Rightarrow> mergedCommand \<Rightarrow> string" where
  "classKey u value = uni_ToLower u (TrimSpace (mc_class value))"

text \<open>At most one command of each named class.\<close>

fun keep_classes :: "unicode \<Rightarrow> string list \<Rightarrow> mergedCommand list \<Rightarrow> mergedCommand list" where
  "keep_classes u seen [] = []"
| "keep_classes u seen (v # vs) =
     (if classKey u v \<noteq> [] \<and> classKey u v \<in> set seen then keep_classes u seen vs
      else v # keep_classes u (if classKey u v \<noteq> [] then classKey u v # seen else seen) vs)"

definition command_item :: "mergedCommand \<Rightarrow> CommandItem" where
  "command_item v =
     \<lparr>ci_ID = ''cmd_'' @ shortDigest (mc_command v), ci_Command = mc_command v, ci_Class = mc_class v,
      ci_Configured = mc_configured v, ci_Observed = mc_observed v, ci_SuccessCount = mc_successCount v,
      ci_LastSuccess = timePointer (mc_lastSuccess v), ci_RequiresApproval = True,
      ci_Sources = mc_sources v\<rparr>"

definition normalize_command :: "mergedCommand \<Rightarrow> mergedCommand" where
  "normalize_command v = v\<lparr>mc_sources := normalizeSources (mc_sources v) MaxSourcesPerItem\<rparr>"

definition selectVerification ::
    "unicode \<Rightarrow> Intent \<Rightarrow> ObservedCommand list \<Rightarrow> DiscoveredCommand list \<Rightarrow> CommandItem list" where
  "selectVerification u intent observed discovered =
     (let values = sort_slice (command_less u intent)
            (map normalize_command (merged_commands observed discovered)) in
      map command_item (take MaxVerificationCommands (keep_classes u [] values)))"

section \<open>Facts\<close>

definition canonicalFactSummary :: "string \<Rightarrow> string \<Rightarrow> string" where
  "canonicalFactSummary kind0 value0 =
     (let value = oneLine value0 240; kind = TrimSpace kind0 in
      if value = [] then []
      else if kind = ''file_written'' then oneLine (''Frequently edited file: '' @ value) maxDisplayRunes
      else if kind = ''command_executable'' then oneLine (''Common executable: '' @ value) maxDisplayRunes
      else if kind = ''mcp_tool'' then oneLine (''Common MCP tool: '' @ value) maxDisplayRunes
      else if kind = ''tool'' then oneLine (''Common tool: '' @ value) maxDisplayRunes
      else [])"

definition context_fact :: "CanonicalFact \<Rightarrow> ContextFact option" where
  "context_fact v =
     (let summary = canonicalFactSummary (can_Kind v) (can_Value v); id0 = TrimSpace (can_FactID v);
          id1 = (if id0 = [] then shortDigest (can_Kind v @ zero_byte @ can_Value v) else id0) in
      if summary = [] then None
      else Some \<lparr>ctxf_ID = ''fact_'' @ shortDigest id1, ctxf_Kind = oneLine (can_Kind v) 64,
        ctxf_Summary = summary, ctxf_SessionCount = can_SessionCount v,
        ctxf_ObservedAt = timePointer (can_ObservedAt v),
        ctxf_Sources = normalizeSources (can_Sources v) MaxSourcesPerItem\<rparr>)"

definition fact_less :: "ContextFact \<Rightarrow> ContextFact \<Rightarrow> bool" where
  "fact_less a b =
     (let leftObserved = timeValue (ctxf_ObservedAt a); rightObserved = timeValue (ctxf_ObservedAt b) in
      if ctxf_SessionCount a \<noteq> ctxf_SessionCount b then ctxf_SessionCount b < ctxf_SessionCount a
      else if \<not> time_Equal leftObserved rightObserved then After leftObserved rightObserved
      else if ctxf_Kind a \<noteq> ctxf_Kind b then ctxf_Kind a < ctxf_Kind b
      else if ctxf_Summary a \<noteq> ctxf_Summary b then ctxf_Summary a < ctxf_Summary b
      else ctxf_ID a < ctxf_ID b)"

definition selectFacts :: "CanonicalFact list \<Rightarrow> ContextFact list" where
  "selectFacts values = take MaxContextFacts (sort_slice fact_less (List.map_filter context_fact values))"

end
