(* ===== verification/PackBuild.thy ===== *)
theory PackBuild
  imports PackGuidance PackCommands
begin

text \<open>
  \<open>Build\<close> of \<open>internal/missionpack/build.go\<close>: the pack is filled, its warnings, checklist and status derived,
  its content reduced until the rendered Markdown fits the budget, and its identifier computed.
  \<open>ensureNonNil\<close> only replaces nil slices by empty ones, which are the same list here.
\<close>

section \<open>Warnings, checklist and status\<close>

definition warning_message :: "string \<Rightarrow> string" where
  "warning_message code =
     (case map_of
        [(''analysis_pending'', ''Transcript analysis is not current; this pack uses the latest completed snapshot.''),
         (''transcript_partial'', ''Transcript coverage is partial; some prior-session guidance may be missing.''),
         (''no_recurring_traps'', ''No issue has repeated across enough sessions to qualify as a known trap.''),
         (''insight_unavailable'', ''No useful semantic insight is available; no topic-specific operating rule is included.''),
         (''insight_stale'', ''Semantic insight predates the latest analyzed evidence.''),
         (''harness_unspecified'', ''Current harness was not supplied; harness-specific operating rules were omitted.''),
         (''verification_unavailable'', ''No established verification command is available.''),
         (''branch_unavailable'', ''The current Git branch is unavailable.''),
         (''canonical_context_unavailable'', ''Structured project context is unavailable.''),
         (''pack_truncated'', ''Lower-ranked content was removed to keep this Mission Pack within its size budget.'')]
        code of Some m \<Rightarrow> m | None \<Rightarrow> [])"

definition appendWarning :: "string \<Rightarrow> PackWarning list \<Rightarrow> PackWarning list" where
  "appendWarning code values =
     (if code \<in> set (map wn_Code values) then values
      else values @ [\<lparr>wn_Code = code, wn_Message = warning_message code\<rparr>])"

definition warn_if :: "bool \<Rightarrow> string \<Rightarrow> PackWarning list \<Rightarrow> PackWarning list" where
  "warn_if b code values = (if b then appendWarning code values else values)"

definition buildWarnings :: "BuildInput \<Rightarrow> Pack \<Rightarrow> PackWarning list" where
  "buildWarnings input pack =
     (let state = pk_SourceState pack; no_harness = req_Harness (bi_Request input) = PackHarnessNone;
          analysisCurrent = ss_AnalysisStatus state = ''current'' \<and>
            ss_TranscriptGeneration state \<le> ss_AnalyzedGeneration state in
      fold (\<lambda>(b, code). warn_if b code)
        [(\<not> analysisCurrent, ''analysis_pending''),
         (pcov_TranscriptStatus (bi_Coverage input) \<noteq> ''complete'', ''transcript_partial''),
         (pk_KnownTraps pack = [], ''no_recurring_traps''),
         (pk_KnownTraps pack \<noteq> [] \<and> pk_OperatingRules pack = [] \<and> \<not> no_harness, ''insight_unavailable''),
         (no_harness, ''harness_unspecified''),
         (bi_Insight input \<noteq> None \<and> (bi_InsightStale input \<or> ss_AnalysisStatus state = ''stale''),
          ''insight_stale''),
         (pk_Verification pack = [], ''verification_unavailable''),
         (pj_Branch (pk_Project pack) = [], ''branch_unavailable''),
         (\<not> pcov_CanonicalContextAvailable (bi_Coverage input), ''canonical_context_unavailable'')] [])"

definition nothing_useful :: "Pack \<Rightarrow> bool" where
  "nothing_useful pack \<longleftrightarrow> pk_KnownTraps pack = [] \<and> pk_OperatingRules pack = [] \<and> pk_Verification pack = []"

definition verification_text :: "Pack \<Rightarrow> string" where
  "verification_text pack =
     (let cautious = pk_Intent pack = IntentReview \<or> pk_Intent pack = IntentGeneral in
      if pk_Verification pack \<noteq> [] then
        (if cautious
         then ''If files changed, run at least one listed verification command after the final edit.''
         else ''Run at least one listed verification command after the final edit.'')
      else
        (if cautious
         then ''If files changed, inspect project scripts and choose an appropriate verification command.''
         else ''Inspect project scripts and choose an appropriate verification command.''))"

text \<open>The loop over the rules stops when four texts are there; it tests after each of them.\<close>

definition checklist_texts :: "Pack \<Rightarrow> string list" where
  "checklist_texts pack =
     (let first = (if pk_KnownTraps pack \<noteq> [] then [''Review the selected known traps before making changes.''] else []);
          follow = map (\<lambda>rule. oneLine (''Follow: '' @ gi_Guidance rule) maxDisplayRunes) (pk_OperatingRules pack) in
      take MaxChecklistItems
        (first @ take (MaxChecklistItems - 2 - length first) follow @
         [verification_text pack, ''Report the verification result before claiming completion.'']))"

definition buildChecklist :: "Pack \<Rightarrow> ChecklistItem list" where
  "buildChecklist pack =
     (if nothing_useful pack then []
      else map (\<lambda>(index, text). \<lparr>ck_ID = ''check_'' @ int_text (int index + 1) @ ''_'' @ shortDigest text,
             ck_Text = text\<rparr>) (List.enumerate 0 (checklist_texts pack)))"

definition packStatus :: "Pack \<Rightarrow> string" where
  "packStatus pack =
     (if pk_Experiences pack \<noteq> [] then ''ready''
      else if nothing_useful pack then ''empty''
      else if 0 < length (pk_KnownTraps pack) + length (pk_OperatingRules pack) \<and> pk_Verification pack \<noteq> [] \<and>
        pk_Warnings pack = [] then ''ready''
      else ''partial'')"

definition setPackStatusAndTrust :: "Pack \<Rightarrow> Pack" where
  "setPackStatusAndTrust pack =
     (let status = packStatus pack; e = (status = ''empty'') in
      pack\<lparr>pk_Status := status,
        pk_Trust := \<lparr>trust_InstructionAuthority = ''none'',
          trust_GuidanceState = (if e then ''unavailable'' else ''proposal''),
          trust_EvidenceState = ''untrusted'', trust_ActivationRequired = \<not> e\<rparr>\<rparr>)"

section \<open>Markdown\<close>

definition nl :: string where "nl = [CHR 0x0A]"

definition md_section :: "string \<Rightarrow> string list \<Rightarrow> string" where
  "md_section title lines =
     (if lines = [] then [] else nl @ ''## '' @ title @ nl @ nl @ concat (map (\<lambda>l. l @ nl) lines))"

definition trap_line :: "GuidanceItem \<Rightarrow> string" where
  "trap_line item = ''- '' @ markdownText (gi_Title item) @
     (case gi_WastedUSD item of None \<Rightarrow> []
      | Some usd \<Rightarrow> CHR '' '' # bytes [226, 128, 148] @ '' $'' @ format_2f usd @ '' attributed'')"

definition rule_line :: "GuidanceItem \<Rightarrow> string" where
  "rule_line item = ''- '' @ markdownText (gi_Guidance item) @
     (if gi_TargetFile item = [] then [] else '' (target: '' @ markdownText (gi_TargetFile item) @ '')'')"

definition experience_lines :: "ExperienceItem \<Rightarrow> string" where
  "experience_lines item =
     ''- Rule: '' @ markdownText (ei_Guidance item) @
     nl @ ''  Apply when: '' @ markdownText (ei_Applicability item) @
     concat (map (\<lambda>e. nl @ ''  Exception: '' @ markdownText e) (ei_Exceptions item)) @
     nl @ ''  Plan: Before editing, map the rule and each exception to an explicit code predicate and required behavior.'' @
     nl @ ''  Proof: Verify the main rule and every exception path separately; an exception is required behavior, not permission to skip the rule.'' @
     nl @ ''  Boundary: Preserve existing behavior outside this rule and make the narrowest relevant change.'' @
     nl @ ''  Verify: '' @ markdownText (vs_Summary (ei_Verifier item)) @ nl"

definition renderExperienceMarkdown :: "Pack \<Rightarrow> string" where
  "renderExperienceMarkdown pack =
     ''# Mission Pack: '' @ markdownText (pj_Label (pk_Project pack)) @ nl @ nl @ ''## Project guidance'' @ nl @ nl @
     concat (map experience_lines (pk_Experiences pack)) @
     nl @ ''## Completion'' @ nl @ nl @
     concat (map (\<lambda>summary. ''- '' @ markdownText summary @ nl)
       (keep_new (\<lambda>s. s) [] (map (\<lambda>item. vs_Summary (ei_Verifier item)) (pk_Experiences pack))))"

definition renderMarkdown :: "Pack \<Rightarrow> string" where
  "renderMarkdown pack =
     (if pk_Experiences pack \<noteq> [] then renderExperienceMarkdown pack
      else if pk_Status pack = ''empty'' then ''Belay found no useful guidance for this session.'' @ nl
      else
        ''# Mission Pack: '' @ markdownText (pj_Label (pk_Project pack)) @ nl @ nl @
        markdownText (Title (Intent_text (pk_Intent pack))) @
        (if pj_Branch (pk_Project pack) = [] then []
         else CHR '' '' # bytes [194, 183] @ CHR '' '' # markdownText (pj_Branch (pk_Project pack))) @ nl @
        md_section ''Known traps'' (map trap_line (pk_KnownTraps pack)) @
        md_section ''Proposed operating rules'' (map rule_line (pk_OperatingRules pack)) @
        md_section ''Verification commands to consider''
          (map (\<lambda>item. ''- '' @ markdownText (ci_Command item)) (pk_Verification pack)) @
        md_section ''Completion checklist''
          (map (\<lambda>item. ''- [ ] '' @ markdownText (ck_Text item)) (pk_Completion pack)))"

section \<open>The budget\<close>

definition guidanceHasIssue :: "GuidanceItem \<Rightarrow> string \<Rightarrow> bool" where
  "guidanceHasIssue item issueID \<longleftrightarrow> list_ex (\<lambda>source. src_IssueID source = issueID) (gi_Sources item)"

fun remove_first :: "('a \<Rightarrow> bool) \<Rightarrow> 'a list \<Rightarrow> 'a list" where
  "remove_first P [] = []"
| "remove_first P (x # xs) = (if P x then xs else x # remove_first P xs)"

text \<open>The loop runs from the last item to the first.\<close>

definition removeLowestNonAnchor :: "string \<Rightarrow> GuidanceItem list \<Rightarrow> GuidanceItem list" where
  "removeLowestNonAnchor anchorIssueID values =
     (let anchor = boundedIdentifier anchorIssueID in
      if length values \<le> 1 then values
      else rev (remove_first (\<lambda>v. \<not> (anchor \<noteq> [] \<and> guidanceHasIssue v anchor)) (rev values)))"

definition strip_traps :: "GuidanceItem list \<Rightarrow> GuidanceItem list" where
  "strip_traps items = map (\<lambda>v. v\<lparr>gi_Sources := take 1 (gi_Sources v)\<rparr>) items"

definition strip_commands :: "CommandItem list \<Rightarrow> CommandItem list" where
  "strip_commands items = map (\<lambda>v. v\<lparr>ci_Sources := take 1 (ci_Sources v)\<rparr>) items"

definition strip_facts :: "ContextFact list \<Rightarrow> ContextFact list" where
  "strip_facts items = map (\<lambda>v. v\<lparr>ctxf_Sources := take 1 (ctxf_Sources v)\<rparr>) items"

definition secondary_sources :: "Pack \<Rightarrow> bool" where
  "secondary_sources pack \<longleftrightarrow>
     list_ex (\<lambda>v. 1 < length (gi_Sources v)) (pk_KnownTraps pack @ pk_OperatingRules pack) \<or>
     list_ex (\<lambda>v. 1 < length (ci_Sources v)) (pk_Verification pack) \<or>
     list_ex (\<lambda>v. 1 < length (ctxf_Sources v)) (cx_Facts (pk_Context pack))"

definition stripSecondarySources :: "Pack \<Rightarrow> Pack \<times> bool" where
  "stripSecondarySources pack =
     (pack\<lparr>pk_KnownTraps := strip_traps (pk_KnownTraps pack),
        pk_OperatingRules := strip_traps (pk_OperatingRules pack),
        pk_Verification := strip_commands (pk_Verification pack),
        pk_Context := (pk_Context pack)\<lparr>cx_Facts := strip_facts (cx_Facts (pk_Context pack))\<rparr>\<rparr>,
      secondary_sources pack)"

definition mark_truncated :: "Pack \<Rightarrow> Pack" where
  "mark_truncated pack =
     (if pk_Truncated pack then pack
      else pack\<lparr>pk_Truncated := True, pk_Warnings := appendWarning ''pack_truncated'' (pk_Warnings pack)\<rparr>)"

text \<open>What the \<open>switch\<close> of the loop drops; \<open>None\<close> is its default branch.\<close>

definition drop_lowest :: "string \<Rightarrow> Pack \<Rightarrow> Pack option" where
  "drop_lowest anchorIssueID pack =
     (if cx_Facts (pk_Context pack) \<noteq> [] then
        Some (pack\<lparr>pk_Context := (pk_Context pack)\<lparr>cx_Facts := butlast (cx_Facts (pk_Context pack))\<rparr>\<rparr>)
      else if 1 < length (pk_Verification pack) then
        Some (pack\<lparr>pk_Verification := butlast (pk_Verification pack)\<rparr>)
      else if pk_OperatingRules pack \<noteq> [] then
        Some (pack\<lparr>pk_OperatingRules := butlast (pk_OperatingRules pack)\<rparr>)
      else if 2 < length (pk_KnownTraps pack) then Some (pack\<lparr>pk_KnownTraps := take 2 (pk_KnownTraps pack)\<rparr>)
      else
        (case stripSecondarySources pack of
           (pack', True) \<Rightarrow> Some pack'
         | (pack', False) \<Rightarrow>
           if 1 < length (pk_KnownTraps pack') then
             Some (pack'\<lparr>pk_KnownTraps := removeLowestNonAnchor anchorIssueID (pk_KnownTraps pack')\<rparr>)
           else None))"

definition refresh :: "Pack \<Rightarrow> Pack" where
  "refresh pack = setPackStatusAndTrust (pack\<lparr>pk_Completion := buildChecklist pack\<rparr>)"

definition with_markdown :: "string \<Rightarrow> Pack \<Rightarrow> Pack" where
  "with_markdown markdown pack =
     pack\<lparr>pk_RenderedMarkdown := markdown, pk_EstimatedTokens := int (estimateTokens markdown)\<rparr>"

text \<open>One turn of the loop: \<open>Inl\<close> is its return, \<open>Inr\<close> the pack it goes on with.\<close>

definition budget_turn :: "string \<Rightarrow> Pack \<Rightarrow> Pack + Pack" where
  "budget_turn anchorIssueID pack0 =
     (let pack = refresh pack0; rendered = renderMarkdown pack in
      if withinBudget rendered then Inl (with_markdown rendered pack)
      else case drop_lowest anchorIssueID (mark_truncated pack) of
        Some pack' \<Rightarrow> Inr pack'
      | None \<Rightarrow> Inl (with_markdown (truncateMarkdown rendered) (mark_truncated pack)))"

partial_function (option) truncateToBudget :: "string \<Rightarrow> Pack \<Rightarrow> Pack option" where
  "truncateToBudget anchorIssueID pack =
     (case budget_turn anchorIssueID pack of
        Inl result \<Rightarrow> Some result
      | Inr pack' \<Rightarrow> truncateToBudget anchorIssueID pack')"

section \<open>\<open>Build\<close>\<close>

definition derivePackID :: "BuildInput \<Rightarrow> Pack \<Rightarrow> string" where
  "derivePackID input pack =
     (let request = bi_Request input; state = pk_SourceState pack;
          experiences = pk_Experiences pack in
      ''mpk_'' @ ascii_lower (base32_encode (sha256 (join_zero
        ([pack_SchemaVersion,
          (if experiences = [] then legacyGeneratorVersion else pack_GeneratorVersion),
          rp_Identity (bi_Project input), TrimSpace (req_IssueID request), Intent_text (req_Intent request),
          PackHarness_text (req_Harness request), hex_encode (sha256 (req_TaskHint request)),
          int_text (ss_TranscriptGeneration state), int_text (ss_AnalyzedGeneration state),
          pj_Branch (pk_Project pack)] @
         (case bi_Insight input of None \<Rightarrow> [] | Some insight \<Rightarrow> [ins_InputHash insight]) @
         map gi_ID (pk_KnownTraps pack) @ map gi_ID (pk_OperatingRules pack) @
         map ci_ID (pk_Verification pack) @ map ctxf_ID (cx_Facts (pk_Context pack)) @
         (if experiences = [] then []
          else [''experience_generation'', int_text (pk_ExperienceGeneration pack)] @
            concat (map (\<lambda>item. [''experience'', ei_ExperienceID item, int_text (ei_Version item)]) experiences)))))))"

definition prepared_input :: "BuildInput \<Rightarrow> BuildInput" where
  "prepared_input input =
     (let project = bi_Project input in
      input\<lparr>bi_Project := project\<lparr>rp_Identity := TrimSpace (rp_Identity project),
        rp_Label := oneLine (rp_Label project) 120,
        rp_IdentityKind := oneLine (rp_IdentityKind project) 32\<rparr>\<rparr>)"

definition check_input :: "BuildInput \<Rightarrow> check" where
  "check_input input = first_error
     [reject_if (\<not> validIntent (req_Intent (bi_Request input))) ''invalid Mission Pack intent'',
      reject_if (\<not> validHarness (req_Harness (bi_Request input))) ''invalid Mission Pack harness'',
      reject_if (IsZero (req_GeneratedAt (bi_Request input))) ''Mission Pack generated_at is required'',
      reject_if (TrimSpace (rp_Identity (bi_Project input)) = [] \<or>
          oneLine (rp_Label (bi_Project input)) 120 = []) ''Mission Pack project is required'']"

definition initial_pack :: "unicode \<Rightarrow> BuildInput \<Rightarrow> ExperienceItem list \<Rightarrow> Issue list \<Rightarrow> Pack" where
  "initial_pack u input experiences issues =
     (let request = bi_Request input; workspace = bi_Workspace input; state = bi_SourceState input in
      \<lparr>pk_SchemaVersion = pack_SchemaVersion, pk_GeneratorVersion = pack_GeneratorVersion, pk_PackID = [],
       pk_GeneratedAt = UTC (req_GeneratedAt request),
       pk_Project = \<lparr>pj_Label = rp_Label (bi_Project input), pj_IdentityKind = rp_IdentityKind (bi_Project input),
         pj_Branch = oneLine (ws_Branch workspace) 160, pj_Worktree = oneLine (ws_Worktree workspace) 160\<rparr>,
       pk_Intent = req_Intent request, pk_Harness = req_Harness request, pk_Status = [],
       pk_Trust = \<lparr>trust_InstructionAuthority = ''none'', trust_GuidanceState = ''proposal'',
         trust_EvidenceState = ''untrusted'', trust_ActivationRequired = True\<rparr>,
       pk_SourceState = state\<lparr>ss_AnalysisStatus := oneLine (ss_AnalysisStatus state) 32,
         ss_DataThrough := (if IsZero (ss_DataThrough state) then ss_DataThrough state
           else UTC (ss_DataThrough state))\<rparr>,
       pk_ExperienceGeneration = bi_ExperienceGeneration input, pk_Experiences = experiences,
       pk_Context = \<lparr>cx_Harnesses = sortedDistinctLines (ws_Harnesses workspace) 64,
         cx_Facts = selectFacts (bi_Facts input)\<rparr>,
       pk_KnownTraps = buildKnownTraps issues, pk_OperatingRules = selectRules u input issues,
       pk_Verification = selectVerification u (req_Intent request) (bi_Commands input) (bi_ProjectFiles input),
       pk_Completion = [], pk_Warnings = [], pk_EstimatedTokens = 0, pk_Truncated = False,
       pk_RenderedMarkdown = []\<rparr>)"

definition assembled_pack :: "unicode \<Rightarrow> BuildInput \<Rightarrow> ExperienceItem list \<Rightarrow> Issue list \<Rightarrow> Pack" where
  "assembled_pack u input experiences issues =
     (let pack = initial_pack u input experiences issues in
      refresh (pack\<lparr>pk_Warnings := buildWarnings input pack\<rparr>))"

definition finish_pack :: "BuildInput \<Rightarrow> Pack \<Rightarrow> Pack" where
  "finish_pack input pack0 =
     (let pack = pack0\<lparr>pk_PackID := derivePackID input pack0\<rparr>; rendered = renderMarkdown pack in
      if withinBudget rendered then with_markdown rendered pack
      else with_markdown (truncateMarkdown rendered)
        (setPackStatusAndTrust (pack\<lparr>pk_Truncated := True,
           pk_Warnings := appendWarning ''pack_truncated'' (pk_Warnings pack)\<rparr>)))"

text \<open>\<open>None\<close> would be a loop of \<open>truncateToBudget\<close> that never ends.\<close>

definition Build :: "unicode \<Rightarrow> BuildInput \<Rightarrow> (go_error + Pack) option" where
  "Build u input0 =
     (case check_input input0 of Some e \<Rightarrow> Some (Inl e)
      | None \<Rightarrow>
        (let input = prepared_input input0 in
         case normalizeExperienceItems u (bi_ExperienceGeneration input) (bi_Experiences input) of
           Inl e \<Rightarrow> Some (Inl e)
         | Inr experiences \<Rightarrow>
           (case selectIssues input of
              Inl e \<Rightarrow> Some (Inl e)
            | Inr issues \<Rightarrow>
              (let pack = assembled_pack u input experiences issues in
               if experiences \<noteq> [] then
                 (let final = pack\<lparr>pk_PackID := derivePackID input pack\<rparr>; rendered = renderMarkdown final in
                  if withinBudget rendered then Some (Inr (with_markdown rendered final))
                  else Some (Inl (Err ''Mission Pack experience guidance exceeds pack budget'')))
               else
                 (case truncateToBudget (req_IssueID (bi_Request input)) pack of
                    None \<Rightarrow> None
                  | Some pack' \<Rightarrow> Some (Inr (finish_pack input pack')))))))"

end
