(* ===== verification/PackBudget.thy ===== *)
theory PackBudget
  imports PackBuild
begin

text \<open>
  The loop of \<open>truncateToBudget\<close>: what one turn keeps, a rule to carry an invariant through the loop, and
  the measure that makes it end.
\<close>

section \<open>Invariants of the loop\<close>

lemma budget_turn_cases:
  obtains (fits) m where "budget_turn a p = Inl (with_markdown m (refresh p))" "withinBudget m"
  | (cut) m where "budget_turn a p = Inl (with_markdown m (mark_truncated (refresh p)))" "withinBudget m"
      "drop_lowest a (mark_truncated (refresh p)) = None"
  | (on) p' where "budget_turn a p = Inr p'" "drop_lowest a (mark_truncated (refresh p)) = Some p'"
proof (cases "withinBudget (renderMarkdown (refresh p))")
  case True
  with fits show ?thesis by (simp add: budget_turn_def Let_def)
next
  case False
  then show ?thesis
    using cut on withinBudget_truncateMarkdown
    by (cases "drop_lowest a (mark_truncated (refresh p))") (simp_all add: budget_turn_def Let_def)
qed

lemma truncateToBudget_rule:
  assumes "truncateToBudget a p = Some q" and "I p"
    and refresh: "\<And>p. I p \<Longrightarrow> I (refresh p)" and mark: "\<And>p. I p \<Longrightarrow> I (mark_truncated p)"
    and md: "\<And>m p. I p \<Longrightarrow> I (with_markdown m p)"
    and drop: "\<And>p p'. I p \<Longrightarrow> drop_lowest a p = Some p' \<Longrightarrow> I p'"
  shows "I q"
proof -
  have "a = a \<longrightarrow> I p \<longrightarrow> I q"
  proof (rule truncateToBudget.raw_induct [where P = "\<lambda>b p q. b = a \<longrightarrow> I p \<longrightarrow> I q", OF _ assms(1)])
    fix f b p q
    assume IH: "\<And>b p q. f b p = Some q \<Longrightarrow> b = a \<longrightarrow> I p \<longrightarrow> I q"
      and step: "(case budget_turn b p of Inl result \<Rightarrow> Some result | Inr p' \<Rightarrow> f b p') = Some q"
    show "b = a \<longrightarrow> I p \<longrightarrow> I q"
    proof (intro impI)
      assume ab: "b = a" and i: "I p"
      show "I q"
      proof (rule budget_turn_cases [of b p])
        fix p' assume t: "budget_turn b p = Inr p'" "drop_lowest b (mark_truncated (refresh p)) = Some p'"
        with step have "f b p' = Some q" by simp
        with IH ab have "I p' \<longrightarrow> I q" by blast
        moreover have "I p'" using t(2) ab i by (metis drop mark refresh)
        ultimately show "I q" by blast
      next
        fix m assume "budget_turn b p = Inl (with_markdown m (refresh p))"
        with step have "q = with_markdown m (refresh p)" by simp
        then show "I q" using i by (simp add: md refresh)
      next
        fix m assume "budget_turn b p = Inl (with_markdown m (mark_truncated (refresh p)))"
        with step have "q = with_markdown m (mark_truncated (refresh p))" by simp
        then show "I q" using i by (simp add: md refresh mark)
      qed
    qed
  qed
  with assms(2) show ?thesis by blast
qed


section \<open>What is left of a pack\<close>

text \<open>
  Each turn removes items or sources: \<open>pack_from q p\<close> says that every item of \<open>q\<close> is an item of \<open>p\<close> with
  some of its sources, that there are no more of them, and that what the loop does not touch is the same.
\<close>

definition items_from :: "('a \<Rightarrow> 'a \<Rightarrow> bool) \<Rightarrow> 'a list \<Rightarrow> 'a list \<Rightarrow> bool" where
  "items_from R ys xs \<longleftrightarrow> length ys \<le> length xs \<and> (\<forall>y \<in> set ys. \<exists>x \<in> set xs. R y x)"

lemma items_from_refl: "(\<And>x. R x x) \<Longrightarrow> items_from R xs xs"
  by (auto simp: items_from_def)

lemma items_from_trans:
  "items_from R zs ys \<Longrightarrow> items_from R ys xs \<Longrightarrow> (\<And>x y z. R z y \<Longrightarrow> R y x \<Longrightarrow> R z x) \<Longrightarrow> items_from R zs xs"
  unfolding items_from_def by (meson order_trans)

lemma items_from_part:
  "(\<And>x. R x x) \<Longrightarrow> set ys \<subseteq> set xs \<Longrightarrow> length ys \<le> length xs \<Longrightarrow> items_from R ys xs"
  by (auto simp: items_from_def)

lemma items_from_map: "(\<And>x. R (f x) x) \<Longrightarrow> items_from R (map f xs) xs"
  by (auto simp: items_from_def)

definition same_guidance :: "GuidanceItem \<Rightarrow> GuidanceItem \<Rightarrow> bool" where
  "same_guidance a b \<longleftrightarrow> (\<exists>n. a = b\<lparr>gi_Sources := take n (gi_Sources b)\<rparr>)"

definition same_command :: "CommandItem \<Rightarrow> CommandItem \<Rightarrow> bool" where
  "same_command a b \<longleftrightarrow> (\<exists>n. a = b\<lparr>ci_Sources := take n (ci_Sources b)\<rparr>)"

definition same_fact :: "ContextFact \<Rightarrow> ContextFact \<Rightarrow> bool" where
  "same_fact a b \<longleftrightarrow> (\<exists>n. a = b\<lparr>ctxf_Sources := take n (ctxf_Sources b)\<rparr>)"

lemma same_refl: "same_guidance g g" "same_command c c" "same_fact f f"
  by (auto simp: same_guidance_def same_command_def same_fact_def
      intro: exI [of _ "length (gi_Sources g)"] exI [of _ "length (ci_Sources c)"]
        exI [of _ "length (ctxf_Sources f)"])

lemma same_trans:
  "same_guidance g2 g1 \<Longrightarrow> same_guidance g1 g0 \<Longrightarrow> same_guidance g2 g0"
  "same_command c2 c1 \<Longrightarrow> same_command c1 c0 \<Longrightarrow> same_command c2 c0"
  "same_fact f2 f1 \<Longrightarrow> same_fact f1 f0 \<Longrightarrow> same_fact f2 f0"
  by (auto simp: same_guidance_def same_command_def same_fact_def take_take)

definition pack_from :: "Pack \<Rightarrow> Pack \<Rightarrow> bool" where
  "pack_from q p \<longleftrightarrow>
     items_from same_guidance (pk_KnownTraps q) (pk_KnownTraps p) \<and>
     items_from same_guidance (pk_OperatingRules q) (pk_OperatingRules p) \<and>
     items_from same_command (pk_Verification q) (pk_Verification p) \<and>
     items_from same_fact (cx_Facts (pk_Context q)) (cx_Facts (pk_Context p)) \<and>
     (pk_KnownTraps p \<noteq> [] \<longrightarrow> pk_KnownTraps q \<noteq> []) \<and>
     (pk_Verification p \<noteq> [] \<longrightarrow> pk_Verification q \<noteq> []) \<and>
     cx_Harnesses (pk_Context q) = cx_Harnesses (pk_Context p) \<and>
     pk_Project q = pk_Project p \<and> pk_Intent q = pk_Intent p \<and> pk_Harness q = pk_Harness p \<and>
     pk_SourceState q = pk_SourceState p \<and> pk_Experiences q = pk_Experiences p \<and>
     set (pk_Warnings p) \<subseteq> set (pk_Warnings q)"

lemmas pack_from_parts = items_from_refl [of same_guidance] items_from_refl [of same_command]
  items_from_refl [of same_fact] same_refl

lemma pack_from_refl: "pack_from p p"
  by (simp add: pack_from_def pack_from_parts)

lemma items_trans:
  "items_from same_guidance gs2 gs1 \<Longrightarrow> items_from same_guidance gs1 gs \<Longrightarrow> items_from same_guidance gs2 gs"
  "items_from same_command cs2 cs1 \<Longrightarrow> items_from same_command cs1 cs \<Longrightarrow> items_from same_command cs2 cs"
  "items_from same_fact fs2 fs1 \<Longrightarrow> items_from same_fact fs1 fs \<Longrightarrow> items_from same_fact fs2 fs"
  by (erule (1) items_from_trans, erule (1) same_trans)+

lemma pack_fromD:
  assumes "pack_from q p"
  shows "items_from same_guidance (pk_KnownTraps q) (pk_KnownTraps p)"
    and "items_from same_guidance (pk_OperatingRules q) (pk_OperatingRules p)"
    and "items_from same_command (pk_Verification q) (pk_Verification p)"
    and "items_from same_fact (cx_Facts (pk_Context q)) (cx_Facts (pk_Context p))"
    and "pk_KnownTraps p \<noteq> [] \<Longrightarrow> pk_KnownTraps q \<noteq> []"
    and "pk_Verification p \<noteq> [] \<Longrightarrow> pk_Verification q \<noteq> []"
    and "cx_Harnesses (pk_Context q) = cx_Harnesses (pk_Context p)"
    and "pk_Project q = pk_Project p" and "pk_Intent q = pk_Intent p" and "pk_Harness q = pk_Harness p"
    and "pk_SourceState q = pk_SourceState p" and "pk_Experiences q = pk_Experiences p"
    and "set (pk_Warnings p) \<subseteq> set (pk_Warnings q)"
  using assms unfolding pack_from_def by blast+

lemma pack_from_trans:
  assumes r: "pack_from r q" and q: "pack_from q p"
  shows "pack_from r p"
  unfolding pack_from_def
  by (intro conjI impI items_trans(1) [OF pack_fromD(1) [OF r] pack_fromD(1) [OF q]]
      items_trans(1) [OF pack_fromD(2) [OF r] pack_fromD(2) [OF q]]
      items_trans(2) [OF pack_fromD(3) [OF r] pack_fromD(3) [OF q]]
      items_trans(3) [OF pack_fromD(4) [OF r] pack_fromD(4) [OF q]]
      pack_fromD(5) [OF r] pack_fromD(5) [OF q] pack_fromD(6) [OF r] pack_fromD(6) [OF q]
      trans [OF pack_fromD(7) [OF r] pack_fromD(7) [OF q]]
      trans [OF pack_fromD(8) [OF r] pack_fromD(8) [OF q]]
      trans [OF pack_fromD(9) [OF r] pack_fromD(9) [OF q]]
      trans [OF pack_fromD(10) [OF r] pack_fromD(10) [OF q]]
      trans [OF pack_fromD(11) [OF r] pack_fromD(11) [OF q]]
      trans [OF pack_fromD(12) [OF r] pack_fromD(12) [OF q]]
      subset_trans [OF pack_fromD(13) [OF q] pack_fromD(13) [OF r]])

lemma pack_from_refresh [simp]: "pack_from (refresh p) p"
  by (simp add: pack_from_def pack_from_parts refresh_def setPackStatusAndTrust_def Let_def)

lemma pack_from_with_markdown [simp]: "pack_from (with_markdown m p) p"
  by (simp add: pack_from_def pack_from_parts with_markdown_def)

lemma pack_from_mark [simp]: "pack_from (mark_truncated p) p"
  by (auto simp: pack_from_def pack_from_parts mark_truncated_def appendWarning_def)

lemma remove_first_le: "length (remove_first P xs) \<le> length xs" "set (remove_first P xs) \<subseteq> set xs"
  by (induction xs) auto

lemma remove_first_nonempty: "1 < length xs \<Longrightarrow> remove_first P xs \<noteq> []"
  by (cases xs; cases "tl xs") auto

lemma removeLowest_from:
  "items_from same_guidance (removeLowestNonAnchor a xs) xs"
  "xs \<noteq> [] \<Longrightarrow> removeLowestNonAnchor a xs \<noteq> []"
  using remove_first_le [of _ "rev xs"] remove_first_nonempty [of "rev xs"]
  by (auto simp: removeLowestNonAnchor_def Let_def items_from_refl same_refl subset_iff intro!: items_from_part)

lemma strip_from:
  "items_from same_guidance (strip_traps gs) gs" "items_from same_command (strip_commands cs) cs"
  "items_from same_fact (strip_facts fs) fs"
  by (auto simp: strip_traps_def strip_commands_def strip_facts_def same_guidance_def same_command_def
      same_fact_def intro!: items_from_map)

lemma butlast_from: "(\<And>x. R x x) \<Longrightarrow> items_from R (butlast xs) xs"
  by (rule items_from_part) (auto dest: in_set_butlastD)

lemma butlast_not_Nil: "1 < length xs \<Longrightarrow> butlast xs \<noteq> []"
  by (cases xs; cases "tl xs") auto

text \<open>The branches of the \<open>switch\<close>.\<close>

lemma drop_lowest_cases:
  assumes "drop_lowest a p = Some p'"
  obtains (facts) "cx_Facts (pk_Context p) \<noteq> []"
      "p' = p\<lparr>pk_Context := (pk_Context p)\<lparr>cx_Facts := butlast (cx_Facts (pk_Context p))\<rparr>\<rparr>"
  | (commands) "1 < length (pk_Verification p)" "p' = p\<lparr>pk_Verification := butlast (pk_Verification p)\<rparr>"
  | (rules) "pk_OperatingRules p \<noteq> []" "p' = p\<lparr>pk_OperatingRules := butlast (pk_OperatingRules p)\<rparr>"
  | (traps) "2 < length (pk_KnownTraps p)" "p' = p\<lparr>pk_KnownTraps := take 2 (pk_KnownTraps p)\<rparr>"
  | (sources) "secondary_sources p" "p' = fst (stripSecondarySources p)"
  | (trap) "\<not> secondary_sources p" "1 < length (pk_KnownTraps p)"
      "p' = (fst (stripSecondarySources p))
         \<lparr>pk_KnownTraps := removeLowestNonAnchor a (strip_traps (pk_KnownTraps p))\<rparr>"
proof -
  let ?f = "cx_Facts (pk_Context p) \<noteq> []" and ?c = "1 < length (pk_Verification p)"
    and ?r = "pk_OperatingRules p \<noteq> []" and ?t = "2 < length (pk_KnownTraps p)"
  have d: "drop_lowest a p =
     (if ?f then Some (p\<lparr>pk_Context := (pk_Context p)\<lparr>cx_Facts := butlast (cx_Facts (pk_Context p))\<rparr>\<rparr>)
      else if ?c then Some (p\<lparr>pk_Verification := butlast (pk_Verification p)\<rparr>)
      else if ?r then Some (p\<lparr>pk_OperatingRules := butlast (pk_OperatingRules p)\<rparr>)
      else if ?t then Some (p\<lparr>pk_KnownTraps := take 2 (pk_KnownTraps p)\<rparr>)
      else if secondary_sources p then Some (fst (stripSecondarySources p))
      else if 1 < length (pk_KnownTraps p) then
        Some ((fst (stripSecondarySources p))
          \<lparr>pk_KnownTraps := removeLowestNonAnchor a (strip_traps (pk_KnownTraps p))\<rparr>)
      else None)"
    unfolding drop_lowest_def stripSecondarySources_def strip_traps_def
    by (cases "secondary_sources p") simp_all
  show ?thesis
  proof (cases "?f")
    case True
    with assms d  show ?thesis by (intro facts) simp_all
  next
    case n0: False
    show ?thesis
    proof (cases "?c")
      case True
      with assms d n0 show ?thesis by (intro commands) simp_all
    next
      case n1: False
      show ?thesis
      proof (cases "?r")
        case True
        with assms d n0 n1 show ?thesis by (intro rules) simp_all
      next
        case n2: False
        show ?thesis
        proof (cases "?t")
          case True
          with assms d n0 n1 n2 show ?thesis by (intro traps) simp_all
        next
          case n3: False
          show ?thesis
          proof (cases "secondary_sources p")
            case True
            with assms d n0 n1 n2 n3 show ?thesis by (intro sources) simp_all
          next
            case n4: False
            have "1 < length (pk_KnownTraps p)" using assms d n0 n1 n2 n3 n4 by (simp split: if_splits)
            with assms d n0 n1 n2 n3 n4 show ?thesis by (intro trap) simp_all
          qed
        qed
      qed
    qed
  qed
qed

lemma strip_eq_Nil [simp]: "strip_traps gs = [] \<longleftrightarrow> gs = []" "strip_commands cs = [] \<longleftrightarrow> cs = []"
  by (simp_all add: strip_traps_def strip_commands_def)

lemma pack_from_strip: "pack_from (fst (stripSecondarySources p)) p"
  unfolding stripSecondarySources_def fst_conv pack_from_def by (simp add: strip_from)

lemma pack_from_drop: "drop_lowest a p = Some p' \<Longrightarrow> pack_from p' p"
proof (erule drop_lowest_cases)
  assume "1 < length (pk_Verification p)" "p' = p\<lparr>pk_Verification := butlast (pk_Verification p)\<rparr>"
  then show "pack_from p' p"
    using butlast_not_Nil [of "pk_Verification p"]
    by (simp add: pack_from_def pack_from_parts butlast_from)
next
  assume "2 < length (pk_KnownTraps p)" "p' = p\<lparr>pk_KnownTraps := take 2 (pk_KnownTraps p)\<rparr>"
  then show "pack_from p' p"
    using items_from_part [of same_guidance "take 2 (pk_KnownTraps p)" "pk_KnownTraps p"] same_refl(1)
    by (auto simp: pack_from_def pack_from_parts set_take_subset)
next
  assume t: "1 < length (pk_KnownTraps p)" "p' = (fst (stripSecondarySources p))
         \<lparr>pk_KnownTraps := removeLowestNonAnchor a (strip_traps (pk_KnownTraps p))\<rparr>"
  let ?ts = "strip_traps (pk_KnownTraps p)"
  have "items_from same_guidance (removeLowestNonAnchor a ?ts) (pk_KnownTraps p)"
    by (rule items_trans(1) [OF removeLowest_from(1) strip_from(1)])
  then show "pack_from p' p"
    using removeLowest_from(2) [of ?ts a] t
    by (auto simp: pack_from_def stripSecondarySources_def strip_from)
qed (simp_all add: pack_from_strip, simp_all add: pack_from_def pack_from_parts butlast_from)

lemma pack_from_truncate: "truncateToBudget a p = Some q \<Longrightarrow> pack_from q p"
  by (erule truncateToBudget_rule [where I = "\<lambda>q. pack_from q p"])
    (auto intro: pack_from_refl pack_from_trans [rotated] dest: pack_from_drop)

section \<open>The loop ends\<close>

definition pack_size :: "Pack \<Rightarrow> nat" where
  "pack_size p = length (pk_KnownTraps p) + length (pk_OperatingRules p) + length (pk_Verification p) +
     length (cx_Facts (pk_Context p)) + of_bool (secondary_sources p)"

lemma pack_size_same [simp]:
  "pack_size (refresh p) = pack_size p" "pack_size (mark_truncated p) = pack_size p"
  by (simp_all add: pack_size_def refresh_def mark_truncated_def setPackStatusAndTrust_def Let_def
      secondary_sources_def)

text \<open>An item with fewer sources has no more of them.\<close>

lemma secondary_from:
  assumes "pack_from q p" "secondary_sources q"
  shows "secondary_sources p"
proof -
  have g: "list_ex (\<lambda>v. 1 < length (gi_Sources v)) ys \<Longrightarrow> list_ex (\<lambda>v. 1 < length (gi_Sources v)) xs"
    if "items_from same_guidance ys xs" for xs ys
    using that by (fastforce simp: items_from_def same_guidance_def list_ex_iff)
  have c: "list_ex (\<lambda>v. 1 < length (ci_Sources v)) ys \<Longrightarrow> list_ex (\<lambda>v. 1 < length (ci_Sources v)) xs"
    if "items_from same_command ys xs" for xs ys
    using that by (fastforce simp: items_from_def same_command_def list_ex_iff)
  have f: "list_ex (\<lambda>v. 1 < length (ctxf_Sources v)) ys \<Longrightarrow> list_ex (\<lambda>v. 1 < length (ctxf_Sources v)) xs"
    if "items_from same_fact ys xs" for xs ys
    using that by (fastforce simp: items_from_def same_fact_def list_ex_iff)
  show ?thesis
    using assms(2) g [OF pack_fromD(1) [OF assms(1)]] g [OF pack_fromD(2) [OF assms(1)]]
      c [OF pack_fromD(3) [OF assms(1)]] f [OF pack_fromD(4) [OF assms(1)]]
    unfolding secondary_sources_def list_ex_append by blast
qed

lemma stripped: "\<not> secondary_sources (fst (stripSecondarySources p))"
  by (auto simp: stripSecondarySources_def secondary_sources_def strip_traps_def strip_commands_def
      strip_facts_def list_ex_iff)

lemma pack_size_from:
  "pack_from q p \<Longrightarrow> secondary_sources q \<longrightarrow> secondary_sources p"
  by (auto dest: secondary_from)

lemma length_remove_first: "\<exists>x \<in> set xs. P x \<Longrightarrow> length (remove_first P xs) < length xs"
  by (induction xs) auto

lemma length_strip [simp]:
  "length (strip_traps gs) = length gs" "length (strip_commands cs) = length cs" "length (strip_facts fs) = length fs"
  by (simp_all add: strip_traps_def strip_commands_def strip_facts_def)

lemma length_removeLowest:
  assumes "boundedIdentifier a = []" "1 < length xs"
  shows "length (removeLowestNonAnchor a xs) < length xs"
  using assms length_remove_first [of "rev xs" "\<lambda>v. True"]
  by (cases xs) (auto simp: removeLowestNonAnchor_def)

lemma pack_size_drop:
  assumes "drop_lowest a p = Some p'" "boundedIdentifier a = [] \<or> length (pk_KnownTraps p) \<le> 1"
  shows "pack_size p' < pack_size p"
proof -
  have m: "of_bool (secondary_sources p') \<le> (of_bool (secondary_sources p) :: nat)"
    using pack_size_from [OF pack_from_drop [OF assms(1)]] by simp
  from assms(1) show ?thesis
  proof (cases rule: drop_lowest_cases)
    case sources
    then show ?thesis using stripped [of p]
      by (simp add: pack_size_def stripSecondarySources_def)
  next
    case trap
    then have "boundedIdentifier a = []" using assms(2) by simp
    then have "length (removeLowestNonAnchor a (strip_traps (pk_KnownTraps p))) < length (pk_KnownTraps p)"
      using length_removeLowest [of a "strip_traps (pk_KnownTraps p)"] trap(2) by simp
    then show ?thesis using m trap(3) by (simp add: pack_size_def stripSecondarySources_def)
  next
    case facts
    then show ?thesis using m by (cases "cx_Facts (pk_Context p)") (simp_all add: pack_size_def)
  next
    case commands
    then show ?thesis using m by (cases "pk_Verification p") (simp_all add: pack_size_def)
  next
    case rules
    then show ?thesis using m by (cases "pk_OperatingRules p") (simp_all add: pack_size_def)
  next
    case traps
    then show ?thesis using m by (simp add: pack_size_def)
  qed
qed

lemma truncateToBudget_total:
  "boundedIdentifier a = [] \<or> length (pk_KnownTraps p) \<le> 1 \<Longrightarrow> \<exists>q. truncateToBudget a p = Some q"
proof (induction "pack_size p" arbitrary: p rule: less_induct)
  case less
  show ?case
  proof (rule budget_turn_cases [of a p])
    fix p' assume t: "budget_turn a p = Inr p'" "drop_lowest a (mark_truncated (refresh p)) = Some p'"
    let ?p = "mark_truncated (refresh p)"
    have k: "pk_KnownTraps ?p = pk_KnownTraps p"
      by (simp add: mark_truncated_def refresh_def setPackStatusAndTrust_def Let_def)
    have "length (pk_KnownTraps p') \<le> length (pk_KnownTraps p)"
      using pack_fromD(1) [OF pack_from_drop [OF t(2)]] by (simp add: k items_from_def)
    then have "boundedIdentifier a = [] \<or> length (pk_KnownTraps p') \<le> 1"
      using less.prems by auto
    moreover have "pack_size p' < pack_size p" using pack_size_drop [OF t(2)] less.prems k by simp
    ultimately have "\<exists>q. truncateToBudget a p' = Some q" by (intro less.hyps)
    then show ?thesis using t(1) by (subst truncateToBudget.simps) simp
  qed (subst truncateToBudget.simps, simp)+
qed

end
