(* ===== verification/PackFacts.thy ===== *)
theory PackFacts
  imports PackBudget
begin

text \<open>
  Lemmas on \<open>Build\<close>: how a finished pack comes from the assembled one, what holds of its status, checklist and
  Markdown, and where its items come from.
\<close>

section \<open>A finished pack\<close>

lemma selectIssues_anchor:
  assumes "selectIssues input = Inr issues" "TrimSpace (req_IssueID (bi_Request input)) \<noteq> []"
  shows "length issues = 1"
  using assms by (auto simp: selectIssues_def Let_def split: option.splits)

lemma selectIssues_limit: "selectIssues input = Inr issues \<Longrightarrow> length issues \<le> MaxKnownTraps"
  by (auto simp: selectIssues_def Let_def MaxKnownTraps_def split: option.splits if_splits)

lemma assembled_simps [simp]:
  "pk_KnownTraps (assembled_pack u input ex issues) = buildKnownTraps issues"
  "pk_OperatingRules (assembled_pack u input ex issues) = selectRules u input issues"
  "pk_Verification (assembled_pack u input ex issues) =
     selectVerification u (req_Intent (bi_Request input)) (bi_Commands input) (bi_ProjectFiles input)"
  "pk_Experiences (assembled_pack u input ex issues) = ex"
  "pk_Context (assembled_pack u input ex issues) =
     \<lparr>cx_Harnesses = sortedDistinctLines (ws_Harnesses (bi_Workspace input)) 64,
      cx_Facts = selectFacts (bi_Facts input)\<rparr>"
  "pk_Project (assembled_pack u input ex issues) =
     \<lparr>pj_Label = rp_Label (bi_Project input), pj_IdentityKind = rp_IdentityKind (bi_Project input),
      pj_Branch = oneLine (ws_Branch (bi_Workspace input)) 160,
      pj_Worktree = oneLine (ws_Worktree (bi_Workspace input)) 160\<rparr>"
  "pk_Intent (assembled_pack u input ex issues) = req_Intent (bi_Request input)"
  "pk_Harness (assembled_pack u input ex issues) = req_Harness (bi_Request input)"
  by (simp_all add: assembled_pack_def refresh_def setPackStatusAndTrust_def initial_pack_def Let_def)

lemma prepared_input_simps [simp]:
  "bi_Request (prepared_input input) = bi_Request input"
  "bi_Issues (prepared_input input) = bi_Issues input"
  "bi_Commands (prepared_input input) = bi_Commands input"
  "bi_ProjectFiles (prepared_input input) = bi_ProjectFiles input"
  "bi_Experiences (prepared_input input) = bi_Experiences input"
  "bi_ExperienceGeneration (prepared_input input) = bi_ExperienceGeneration input"
  "bi_Insight (prepared_input input) = bi_Insight input"
  "bi_InsightStale (prepared_input input) = bi_InsightStale input"
  "bi_SourceState (prepared_input input) = bi_SourceState input"
  "bi_Candidates (prepared_input input) = bi_Candidates input"
  "bi_Facts (prepared_input input) = bi_Facts input"
  "rp_Identity (bi_Project (prepared_input input)) = TrimSpace (rp_Identity (bi_Project input))"
  "rp_Label (bi_Project (prepared_input input)) = oneLine (rp_Label (bi_Project input)) 120"
  by (simp_all add: prepared_input_def Let_def)

lemma truncate_assembled:
  assumes "selectIssues (prepared_input input) = Inr issues"
  shows "\<exists>q. truncateToBudget (req_IssueID (bi_Request input))
     (assembled_pack u (prepared_input input) ex issues) = Some q"
proof (rule truncateToBudget_total)
  show "boundedIdentifier (req_IssueID (bi_Request input)) = [] \<or>
      length (pk_KnownTraps (assembled_pack u (prepared_input input) ex issues)) \<le> 1"
    using selectIssues_anchor [OF assms] oneLine_blank
    by (cases "TrimSpace (req_IssueID (bi_Request input)) = []")
      (auto simp: boundedIdentifier_def buildKnownTraps_def)
qed

lemma Build_total: "\<exists>r. Build u input = Some r"
proof -
  have "\<exists>r. (case truncateToBudget (req_IssueID (bi_Request (prepared_input input)))
        (assembled_pack u (prepared_input input) ex issues) of
        None \<Rightarrow> None | Some pack' \<Rightarrow> Some (f pack')) = Some r"
    if "selectIssues (prepared_input input) = Inr issues" for issues ex and f :: "Pack \<Rightarrow> go_error + Pack"
    using truncate_assembled [OF that, of u ex] by auto
  then show ?thesis
    by (auto simp: Build_def Let_def split: option.split sum.split)
qed

lemma Build_cases:
  assumes "Build u input = Some (Inr pack)"
  obtains ex issues where "check_input input = None"
      "normalizeExperienceItems u (bi_ExperienceGeneration input) (bi_Experiences input) = Inr ex"
      "selectIssues (prepared_input input) = Inr issues"
      "ex \<noteq> [] \<and> (let p = assembled_pack u (prepared_input input) ex issues;
           p' = p\<lparr>pk_PackID := derivePackID (prepared_input input) p\<rparr> in
         withinBudget (renderMarkdown p') \<and> pack = with_markdown (renderMarkdown p') p') \<or>
       ex = [] \<and> (\<exists>p. truncateToBudget (req_IssueID (bi_Request input))
           (assembled_pack u (prepared_input input) [] issues) = Some p \<and>
         pack = finish_pack (prepared_input input) p)"
  using assms by (auto simp: Build_def Let_def split: option.splits sum.splits if_splits)

text \<open>How the loop can return.\<close>

lemma truncateToBudget_turn:
  assumes "truncateToBudget a p = Some q"
  shows "\<exists>r. budget_turn a r = Inl q"
proof (rule truncateToBudget.raw_induct [where P = "\<lambda>b p q. \<exists>r. budget_turn b r = Inl q", OF _ assms])
  fix f b p q
  assume IH: "\<And>b p q. f b p = Some q \<Longrightarrow> \<exists>r. budget_turn b r = Inl q"
    and step: "(case budget_turn b p of Inl result \<Rightarrow> Some result | Inr p' \<Rightarrow> f b p') = Some q"
  show "\<exists>r. budget_turn b r = Inl q"
  proof (cases "budget_turn b p")
    case (Inl r)
    with step show ?thesis by auto
  next
    case (Inr p')
    with step IH show ?thesis by auto
  qed
qed

lemma truncateToBudget_result:
  assumes "truncateToBudget a p = Some q"
  obtains (fits) r where "q = with_markdown (renderMarkdown (refresh r)) (refresh r)"
      "withinBudget (renderMarkdown (refresh r))"
  | (cut) r where "q = with_markdown (truncateMarkdown (renderMarkdown (refresh r))) (mark_truncated (refresh r))"
      "\<not> withinBudget (renderMarkdown (refresh r))" "drop_lowest a (mark_truncated (refresh r)) = None"
proof -
  obtain r where r: "budget_turn a r = Inl q" using truncateToBudget_turn [OF assms] by blast
  show ?thesis
  proof (cases "withinBudget (renderMarkdown (refresh r))")
    case True
    with r show ?thesis by (intro fits [of r]) (simp_all add: budget_turn_def Let_def)
  next
    case False
    with r show ?thesis by (intro cut [of r]) (simp_all add: budget_turn_def Let_def split: option.splits)
  qed
qed

text \<open>Status, trust and checklist follow from the content.\<close>

definition trust_for :: "string \<Rightarrow> Trust" where
  "trust_for status =
     \<lparr>trust_InstructionAuthority = ''none'',
      trust_GuidanceState = (if status = ''empty'' then ''unavailable'' else ''proposal''),
      trust_EvidenceState = ''untrusted'', trust_ActivationRequired = (status \<noteq> ''empty'')\<rparr>"

definition settled :: "Pack \<Rightarrow> bool" where
  "settled p \<longleftrightarrow> pk_Status p = packStatus p \<and> pk_Trust p = trust_for (pk_Status p) \<and>
     pk_Completion p = buildChecklist p"

lemmas pack_fields = nothing_useful_def packStatus_def buildChecklist_def checklist_texts_def
  verification_text_def

lemma checklist_same [simp]:
  "buildChecklist (p\<lparr>pk_Completion := c\<rparr>) = buildChecklist p"
  "buildChecklist (setPackStatusAndTrust p) = buildChecklist p"
  "buildChecklist (p\<lparr>pk_PackID := i\<rparr>) = buildChecklist p"
  "buildChecklist (with_markdown m p) = buildChecklist p"
  "buildChecklist (p\<lparr>pk_Truncated := b, pk_Warnings := w\<rparr>) = buildChecklist p"
  "buildChecklist (mark_truncated p) = buildChecklist p"
  by (simp_all add: pack_fields setPackStatusAndTrust_def Let_def with_markdown_def mark_truncated_def)

lemma status_same [simp]:
  "packStatus (p\<lparr>pk_Completion := c\<rparr>) = packStatus p"
  "packStatus (setPackStatusAndTrust p) = packStatus p"
  "packStatus (p\<lparr>pk_PackID := i\<rparr>) = packStatus p"
  "packStatus (with_markdown m p) = packStatus p"
  by (simp_all add: pack_fields setPackStatusAndTrust_def Let_def with_markdown_def)

lemma set_status_simps [simp]:
  "pk_Status (setPackStatusAndTrust p) = packStatus p"
  "pk_Trust (setPackStatusAndTrust p) = trust_for (packStatus p)"
  "pk_Completion (setPackStatusAndTrust p) = pk_Completion p"
  by (simp_all add: setPackStatusAndTrust_def Let_def trust_for_def)

lemma md_simps [simp]:
  "pk_Status (with_markdown m p) = pk_Status p" "pk_Trust (with_markdown m p) = pk_Trust p"
  "pk_Completion (with_markdown m p) = pk_Completion p" "pk_RenderedMarkdown (with_markdown m p) = m"
  "pk_EstimatedTokens (with_markdown m p) = int (estimateTokens m)"
  by (simp_all add: with_markdown_def)

lemma settled_refresh: "settled (refresh p)"
  by (simp add: settled_def refresh_def)

lemma settled_same [simp]:
  "settled (with_markdown m p) = settled p" "settled (p\<lparr>pk_PackID := i\<rparr>) = settled p"
  by (simp_all add: settled_def)

text \<open>The Markdown shows no identifier, no warning, and of the status only whether the pack is empty.\<close>

lemma render_same [simp]:
  "renderMarkdown (p\<lparr>pk_PackID := i\<rparr>) = renderMarkdown p"
  "renderMarkdown (with_markdown m p) = renderMarkdown p"
  "renderMarkdown (mark_truncated p) = renderMarkdown p"
  by (simp_all add: renderMarkdown_def renderExperienceMarkdown_def with_markdown_def mark_truncated_def)

lemma render_status:
  assumes "pk_Experiences p = []" "(pk_Status p = ''empty'') = nothing_useful p"
  shows "renderMarkdown (setPackStatusAndTrust (p\<lparr>pk_Truncated := b, pk_Warnings := w\<rparr>)) = renderMarkdown p"
  using assms by (simp add: renderMarkdown_def setPackStatusAndTrust_def Let_def packStatus_def nothing_useful_def)

text \<open>What is left when nothing more can be dropped.\<close>

definition minimal :: "Pack \<Rightarrow> bool" where
  "minimal p \<longleftrightarrow> cx_Facts (pk_Context p) = [] \<and> length (pk_Verification p) \<le> 1 \<and>
     pk_OperatingRules p = [] \<and> length (pk_KnownTraps p) \<le> 1"

lemma drop_lowest_None: "drop_lowest a p = None \<Longrightarrow> minimal p"
  by (auto simp: drop_lowest_def minimal_def stripSecondarySources_def strip_traps_def
      split: if_splits bool.splits)

lemma minimal_same [simp]:
  "minimal (with_markdown m p) = minimal p" "minimal (p\<lparr>pk_PackID := i\<rparr>) = minimal p"
  "minimal (setPackStatusAndTrust p) = minimal p" "minimal (p\<lparr>pk_Truncated := b, pk_Warnings := w\<rparr>) = minimal p"
  by (simp_all add: minimal_def with_markdown_def setPackStatusAndTrust_def Let_def)

lemma truncated_cases:
  assumes "truncateToBudget a p = Some q" "pk_Experiences p = []"
  shows "withinBudget (renderMarkdown q) \<and> settled q \<or>
     \<not> withinBudget (renderMarkdown q) \<and> minimal q \<and> pk_Experiences q = [] \<and>
       (pk_Status q = ''empty'') = nothing_useful q \<and> pk_Completion q = buildChecklist q"
  using assms(1)
proof (cases rule: truncateToBudget_result)
  case (fits r)
  then show ?thesis by (simp add: settled_refresh)
next
  case (cut r)
  let ?m = "mark_truncated (refresh r)"
  have e: "pk_Experiences ?m = []"
    using pack_fromD(12) [OF pack_from_truncate [OF assms(1)]] assms(2) cut(1) by (simp add: with_markdown_def)
  have "pk_Status ?m = packStatus (refresh r) \<and> pk_Completion ?m = buildChecklist (refresh r)"
    using settled_refresh [of r] by (simp add: settled_def mark_truncated_def)
  moreover have "(packStatus (refresh r) = ''empty'') = nothing_useful ?m"
    using e by (auto simp: packStatus_def nothing_useful_def mark_truncated_def split: if_splits)
  moreover have "nothing_useful (with_markdown m p) = nothing_useful p" for m p
    by (simp add: nothing_useful_def with_markdown_def)
  moreover have "pk_Experiences (with_markdown m p) = pk_Experiences p" for m p
    by (simp add: with_markdown_def)
  ultimately show ?thesis
    using cut(2) drop_lowest_None [OF cut(3)] e unfolding cut(1) by simp
qed

lemma finish_facts:
  assumes "truncateToBudget a p = Some q" "pk_Experiences p = []"
  shows "settled (finish_pack i q)" (is ?s)
    and "renderMarkdown (finish_pack i q) = renderMarkdown q" (is ?r)
    and "withinBudget (renderMarkdown q) \<or> minimal (finish_pack i q)" (is ?m)
proof -
  have "?s \<and> ?r \<and> ?m"
    using truncated_cases [OF assms]
  proof (elim disjE conjE)
    assume "withinBudget (renderMarkdown q)" "settled q"
    then show ?thesis by (simp add: finish_pack_def Let_def)
  next
    assume q: "\<not> withinBudget (renderMarkdown q)" "minimal q" "pk_Experiences q = []"
      "(pk_Status q = ''empty'') = nothing_useful q" "pk_Completion q = buildChecklist q"
    let ?q = "q\<lparr>pk_PackID := derivePackID i q\<rparr>"
    let ?t = "setPackStatusAndTrust (?q\<lparr>pk_Truncated := True,
           pk_Warnings := appendWarning ''pack_truncated'' (pk_Warnings ?q)\<rparr>)"
    have f: "finish_pack i q = with_markdown (truncateMarkdown (renderMarkdown ?q)) ?t"
      using q(1) by (simp add: finish_pack_def Let_def)
    have "renderMarkdown ?t = renderMarkdown ?q"
      using q(3,4) by (intro render_status) (simp_all add: nothing_useful_def)
    moreover have "settled ?t" using q(5) by (simp add: settled_def)
    ultimately show ?thesis using q(2) by (simp add: f)
  qed
  then show ?s ?r ?m by blast+
qed

lemma finish_markdown:
  "pk_RenderedMarkdown (finish_pack i q) =
     (if withinBudget (renderMarkdown q) then renderMarkdown q else truncateMarkdown (renderMarkdown q))"
  "pk_EstimatedTokens (finish_pack i q) = int (estimateTokens (pk_RenderedMarkdown (finish_pack i q)))"
  by (simp_all add: finish_pack_def Let_def)

lemma pack_from_finish: "pack_from (finish_pack i q) q"
proof -
  let ?j = "derivePackID i q"
  have j: "pack_from (q\<lparr>pk_PackID := ?j\<rparr>) q"
    by (simp add: pack_from_def pack_from_parts)
  have s: "pack_from (setPackStatusAndTrust (q\<lparr>pk_PackID := ?j, pk_Truncated := True,
      pk_Warnings := appendWarning c (pk_Warnings q)\<rparr>)) q" for c
    by (auto simp: pack_from_def pack_from_parts setPackStatusAndTrust_def Let_def appendWarning_def)
  show ?thesis
    using pack_from_trans [OF pack_from_with_markdown j] pack_from_trans [OF pack_from_with_markdown s]
    by (simp add: finish_pack_def Let_def)
qed

text \<open>The summary the properties use.\<close>

lemma Build_result:
  assumes "Build u input = Some (Inr pack)"
  obtains ex issues where "check_input input = None"
    "normalizeExperienceItems u (bi_ExperienceGeneration input) (bi_Experiences input) = Inr ex"
    "selectIssues (prepared_input input) = Inr issues"
    "pack_from pack (assembled_pack u (prepared_input input) ex issues)"
    "settled pack" "withinBudget (renderMarkdown pack) \<or> ex = [] \<and> minimal pack"
    "pk_RenderedMarkdown pack =
      (if withinBudget (renderMarkdown pack) then renderMarkdown pack else truncateMarkdown (renderMarkdown pack))"
    "pk_EstimatedTokens pack = int (estimateTokens (pk_RenderedMarkdown pack))"
  using assms
proof (rule Build_cases)
  fix ex issues
  let ?i = "prepared_input input" let ?p = "assembled_pack u ?i ex issues"
  let ?q = "?p\<lparr>pk_PackID := derivePackID ?i ?p\<rparr>"
  assume a: "check_input input = None"
    "normalizeExperienceItems u (bi_ExperienceGeneration input) (bi_Experiences input) = Inr ex"
    "selectIssues ?i = Inr issues"
    "ex \<noteq> [] \<and> (let p = ?p; p' = p\<lparr>pk_PackID := derivePackID ?i p\<rparr> in
         withinBudget (renderMarkdown p') \<and> pack = with_markdown (renderMarkdown p') p') \<or>
     ex = [] \<and> (\<exists>p. truncateToBudget (req_IssueID (bi_Request input)) (assembled_pack u ?i [] issues) = Some p \<and>
         pack = finish_pack ?i p)"
  show thesis
    using a(4)
  proof (elim disjE conjE exE)
    assume "let p = ?p; p' = p\<lparr>pk_PackID := derivePackID ?i p\<rparr> in
         withinBudget (renderMarkdown p') \<and> pack = with_markdown (renderMarkdown p') p'"
    then have w: "withinBudget (renderMarkdown ?q)" and p: "pack = with_markdown (renderMarkdown ?q) ?q"
      by (simp_all only: Let_def)
    have "pack_from pack ?p"
      unfolding p by (rule pack_from_trans [OF pack_from_with_markdown]) (simp add: pack_from_def pack_from_parts)
    moreover have "settled ?p" by (simp add: assembled_pack_def Let_def settled_refresh)
    ultimately show thesis using that [OF a(1-3)] w unfolding p by simp
  next
    fix p assume ex: "ex = []" and t: "truncateToBudget (req_IssueID (bi_Request input)) (assembled_pack u ?i [] issues) = Some p"
      and p: "pack = finish_pack ?i p"
    have "pack_from pack ?p"
      using pack_from_trans [OF pack_from_finish pack_from_truncate [OF t]] p ex by simp
    moreover have "settled pack" "renderMarkdown pack = renderMarkdown p"
      "withinBudget (renderMarkdown p) \<or> minimal pack"
      using finish_facts [OF t, of ?i] p by simp_all
    ultimately show thesis
      using that [OF a(1-3)] ex finish_markdown [of ?i p] p by simp
  qed
qed

end
