(* ===== verification/PackBytes.thy ===== *)
theory PackBytes
  imports PackFacts
begin

text \<open>
  How many bytes the Markdown of a pack takes: a text of \<open>n\<close> runes becomes at most \<open>4 * n\<close> bytes, escapes
  included, because only one-byte runes are escaped. What is left when nothing more can be dropped is far
  below the budget.
\<close>

section \<open>Runes and bytes\<close>

abbreviation md_bytes :: "string \<Rightarrow> nat" where
  "md_bytes s \<equiv> length (markdownText s)"

lemma md_append [simp]: "markdownText (s @ t) = markdownText s @ markdownText t"
  by (simp add: markdownText_def)

lemma md_Nil [simp]: "markdownText [] = []"
  by (simp add: markdownText_def)

lemma md_Cons: "markdownText (c # s) = markdown_char c @ markdownText s"
  by (simp add: markdownText_def)

lemma md_char: "length (markdown_char c) \<le> 2" "128 \<le> byte c \<Longrightarrow> markdown_char c = [c]"
proof -
  have "\<forall>d \<in> set [CHR 0x5C, CHR ''*'', CHR ''_'', CHR ''['', CHR '']'', CHR ''<'', CHR ''>'', CHR ''#'']. byte d < 128"
    by (simp add: byte_def)
  then show "128 \<le> byte c \<Longrightarrow> markdown_char c = [c]" unfolding markdown_char_def by (metis not_less)
qed (simp add: markdown_char_def)

lemma md_high: "\<forall>c \<in> set s. 128 \<le> byte c \<Longrightarrow> markdownText s = s"
  by (induction s) (simp_all add: md_Cons md_char)

lemma utf8_len_4: "utf8_len s \<le> 4"
  by (cases s rule: utf8_len.cases) (auto simp: Let_def split: list.splits)

lemma utf8_len_high: "2 \<le> utf8_len s \<Longrightarrow> \<forall>c \<in> set (take (utf8_len s) s). 128 \<le> byte c"
  by (cases s rule: utf8_len.cases)
    (auto simp: Let_def second_ok_def is_cont_def split: list.splits if_splits)

lemma md_piece: "md_bytes (take (max 1 (utf8_len s)) s) \<le> 4"
proof (cases "2 \<le> utf8_len s")
  case True
  then have "markdownText (take (max 1 (utf8_len s)) s) = take (utf8_len s) s"
    using md_high [OF utf8_len_high [OF True]] by (simp add: max_def)
  then show ?thesis using utf8_len_4 [of s] by simp
next
  case False
  then have "max 1 (utf8_len s) = 1" by simp
  then show ?thesis by (cases s) (simp_all add: md_Cons order_trans [OF md_char(1)])
qed

lemma md_pieces: "p \<in> set (rune_pieces s) \<Longrightarrow> md_bytes p \<le> 4 \<and> md_bytes (rune_text p) \<le> 4"
proof (induction "length s" arbitrary: s rule: less_induct)
  case less
  let ?n = "max 1 (utf8_len s)"
  have s: "s \<noteq> []" using less.prems by (auto simp: rune_pieces.simps)
  then have "p = take ?n s \<or> p \<in> set (rune_pieces (drop ?n s))"
    using less.prems by (subst (asm) rune_pieces.simps) (simp add: Let_def)
  then show ?case
  proof
    assume p: "p = take ?n s"
    have "markdownText (bytes [239, 191, 189]) = bytes [239, 191, 189]"
      by (rule md_high) (simp add: bytes_def byte_def)
    then have "md_bytes (bytes [239, 191, 189]) \<le> 4" by (simp add: bytes_def)
    then show ?thesis using md_piece [of s] by (simp add: p rune_text_def)
  next
    assume "p \<in> set (rune_pieces (drop ?n s))"
    moreover have "length (drop ?n s) < length s" using s by (cases s) auto
    ultimately show ?thesis by (rule less.hyps [rotated])
  qed
qed

lemma concat_pieces: "concat (rune_pieces s) = s"
proof (induction "length s" arbitrary: s rule: less_induct)
  case less
  show ?case
  proof (cases "s = []")
    case False
    then have "length (drop (max 1 (utf8_len s)) s) < length s" by (cases s) auto
    then show ?thesis using False less by (subst rune_pieces.simps) (simp add: Let_def)
  qed (simp add: rune_pieces.simps)
qed

lemma md_concat: "\<forall>p \<in> set ps. md_bytes p \<le> 4 \<Longrightarrow> md_bytes (concat ps) \<le> 4 * length ps"
  by (induction ps) auto

lemma md_runes: "md_bytes s \<le> 4 * RuneCountInString s"
  using md_concat [of "rune_pieces s"] md_pieces [of _ s]
  by (simp add: concat_pieces RuneCountInString_def)

lemma TrimSpace_segment: "\<exists>a b. s = a @ TrimSpace s @ b"
proof -
  let ?l = "trim_front space_encodings s"
  obtain a where a: "s = a @ ?l" using trim_front_suffix [of space_encodings s] by (auto simp: suffix_def)
  obtain b where "rev ?l = b @ trim_front (map rev space_encodings) (rev ?l)"
    using trim_front_suffix [of "map rev space_encodings" "rev ?l"] by (auto simp: suffix_def)
  then have "?l = TrimSpace s @ rev b"
    unfolding TrimSpace_def by (metis rev_append rev_rev_ident)
  with a show ?thesis by metis
qed

lemma md_TrimSpace: "md_bytes (TrimSpace s) \<le> md_bytes s"
proof -
  obtain a b where "s = a @ TrimSpace s @ b" using TrimSpace_segment by blast
  then have "md_bytes s = md_bytes a + md_bytes (TrimSpace s) + md_bytes b"
    by (metis add.assoc length_append md_append)
  then show ?thesis by simp
qed

lemma md_oneLine: "md_bytes (oneLine s n) \<le> 4 * n"
proof -
  let ?v = "join_with (CHR '' '') (Fields s)" and ?r = "rune_pieces (join_with (CHR '' '') (Fields s))"
  have "markdownText ellipsis = ellipsis" by (rule md_high) (simp add: ellipsis_def bytes_def byte_def)
  then have e: "md_bytes ellipsis = 3" by (simp add: ellipsis_def bytes_def)
  have "md_bytes (concat (map rune_text (take (n - 1) ?r))) \<le> 4 * length (map rune_text (take (n - 1) ?r))"
    using md_pieces [of _ ?v] by (intro md_concat) (auto dest!: in_set_takeD)
  then have "md_bytes (TrimSpace (concat (map rune_text (take (n - 1) ?r)))) \<le> 4 * (n - 1)"
    using md_TrimSpace [of "concat (map rune_text (take (n - 1) ?r))"] by simp
  then show ?thesis
    using md_runes [of ?v] e
    by (cases n) (auto simp: oneLine_def Let_def RuneCountInString_def)
qed

section \<open>Amounts\<close>

definition is_double :: "float64 \<Rightarrow> bool" where
  "is_double f \<longleftrightarrow> (case f of Finite x \<Rightarrow> \<bar>x\<bar> < 2 ^ 1024 | _ \<Rightarrow> True)"

lemma length_digits: "n < 10 ^ Suc k \<Longrightarrow> length (digits_text n) \<le> Suc k"
proof (induction k arbitrary: n)
  case 0
  then show ?case by (subst digits_text.simps) simp
next
  case (Suc k)
  then have "n div 10 < 10 ^ Suc k" by simp
  with Suc.IH show ?case by (subst digits_text.simps) simp
qed

lemma length_fixed2:
  assumes "0 \<le> x" "x < 2 ^ 1024"
  shows "length (fixed2 x) \<le> 312"
proof -
  let ?n = "round_half_even (x * 100)"
  have "?n \<le> \<lfloor>x * 100\<rfloor> + 1" by (simp add: round_half_even_def Let_def)
  moreover have "\<lfloor>x * 100\<rfloor> < 2 ^ 1024 * 100"
    using assms(2) by (simp add: floor_less_iff)
  ultimately have "?n div 100 \<le> 2 ^ 1024" by linarith
  also have "(2 :: int) ^ 1024 < 10 ^ Suc 308" by simp
  finally have "length (digits_text (?n div 100)) \<le> 309" using length_digits [of _ 308] by simp
  moreover have "length (digits_text (?n mod 100)) \<le> 2"
    using length_digits [of "?n mod 100" 1] by simp
  ultimately show ?thesis
    by (simp add: fixed2_def Let_def pad_left_def)
qed

lemma length_format_2f: "is_double f \<Longrightarrow> length (format_2f f) \<le> 313"
proof (cases f)
  case (Finite x)
  moreover assume "is_double f"
  ultimately have "\<bar>x\<bar> < 2 ^ 1024" by (simp add: is_double_def)
  then show ?thesis
    using length_fixed2 [of x] length_fixed2 [of "- x"] Finite by (cases "x < 0") simp_all
qed simp_all

section \<open>The smallest pack\<close>

lemma length_section: "length (md_section t ls) \<le> length t + 6 + sum_list (map (\<lambda>l. Suc (length l)) ls)"
  by (simp add: md_section_def nl_def length_concat comp_def)

lemma md_double: "md_bytes s \<le> 2 * length s"
proof (induction s)
  case (Cons c s)
  then show ?case using md_char(1) [of c] by (simp add: md_Cons)
qed simp

lemma md_knownTrapTitle: "md_bytes (knownTrapTitle d) \<le> 100"
proof -
  have "length (knownTrapTitle d) \<le> 50" by (simp add: knownTrapTitle_def)
  then show ?thesis using md_double [of "knownTrapTitle d"] by linarith
qed

lemma md_trap_title: "md_bytes (knownTrapDisplayTitle issue) \<le> 1200"
  using md_oneLine [of _ 300] md_knownTrapTitle [of "iss_DetectorID issue"]
  by (auto simp: knownTrapDisplayTitle_def Let_def intro: order_trans)

lemma md_command:
  assumes "validCommand c = Some v"
  shows "md_bytes v \<le> 1024"
proof -
  have "RuneCountInString v \<le> 256" using assms by (auto simp: validCommand_def Let_def split: if_splits)
  then show ?thesis using md_runes [of v] by linarith
qed

lemma md_texts:
  "md_bytes (verification_text p) \<le> 180"
  "md_bytes ''Review the selected known traps before making changes.'' \<le> 180"
  "md_bytes ''Report the verification result before claiming completion.'' \<le> 180"
proof -
  have "length (verification_text p) \<le> 90" by (simp add: verification_text_def Let_def)
  then show "md_bytes (verification_text p) \<le> 180" using md_double [of "verification_text p"] by linarith
qed (rule order_trans [OF md_double], simp)+

lemma md_Title: "validIntent i \<Longrightarrow> md_bytes (Title (Intent_text i)) \<le> 20"
  by (cases i) (simp_all add: Title_def ascii_word_def upper_char_def byte_def md_Cons markdown_char_def)

lemma length_trap_line:
  assumes "md_bytes (gi_Title t) \<le> 1200" "\<forall>x. gi_WastedUSD t = Some x \<longrightarrow> is_double x"
  shows "length (trap_line t) \<le> 1540"
proof (cases "gi_WastedUSD t")
  case (Some x)
  then have "length (format_2f x) \<le> 313" using assms(2) length_format_2f by blast
  with assms(1) Some show ?thesis by (simp add: trap_line_def bytes_def)
qed (use assms(1) in \<open>simp add: trap_line_def\<close>)

lemma at_most_one: "length xs \<le> 1 \<Longrightarrow> xs = [] \<or> (\<exists>x. xs = [x])"
  by (cases xs; cases "tl xs") auto

lemma minimal_sections:
  assumes "minimal p" "\<forall>t \<in> set (pk_KnownTraps p). length (trap_line t) \<le> 1540"
    and "\<forall>c \<in> set (pk_Verification p). md_bytes (ci_Command c) \<le> 1024"
  shows "length (md_section ''Known traps'' (map trap_line (pk_KnownTraps p))) \<le> 1560"
    and "md_section ''Proposed operating rules'' (map rule_line (pk_OperatingRules p)) = []"
    and "length (md_section ''Verification commands to consider''
      (map (\<lambda>item. ''- '' @ markdownText (ci_Command item)) (pk_Verification p))) \<le> 1070"
proof -
  have m: "length (pk_KnownTraps p) \<le> 1" "pk_OperatingRules p = []" "length (pk_Verification p) \<le> 1"
    using assms(1) by (simp_all add: minimal_def)
  show "length (md_section ''Known traps'' (map trap_line (pk_KnownTraps p))) \<le> 1560"
    using at_most_one [OF m(1)] assms(2) by (auto simp: md_section_def nl_def)
  show "md_section ''Proposed operating rules'' (map rule_line (pk_OperatingRules p)) = []"
    using m(2) by (simp add: md_section_def)
  show "length (md_section ''Verification commands to consider''
      (map (\<lambda>item. ''- '' @ markdownText (ci_Command item)) (pk_Verification p))) \<le> 1070"
    using at_most_one [OF m(3)] assms(3) by (auto simp: md_section_def nl_def)
qed

lemma minimal_checklist:
  assumes "minimal p"
  shows "length (md_section ''Completion checklist''
      (map (\<lambda>item. ''- [ ] '' @ markdownText (ck_Text item)) (buildChecklist p))) \<le> 600"
proof -
  have r: "pk_OperatingRules p = []" using assms by (simp add: minimal_def)
  have "checklist_texts p = (if pk_KnownTraps p \<noteq> [] then [''Review the selected known traps before making changes.''] else []) @
      [verification_text p, ''Report the verification result before claiming completion.'']"
    by (simp add: checklist_texts_def r MaxChecklistItems_def)
  then have "\<exists>a. map ck_Text (buildChecklist p) = [] \<or>
      map ck_Text (buildChecklist p) = a @ [verification_text p, ''Report the verification result before claiming completion.''] \<and>
      (a = [] \<or> a = [''Review the selected known traps before making changes.''])"
    by (auto simp: buildChecklist_def comp_def split_def enumerate_eq_zip)
  then obtain a where a: "map ck_Text (buildChecklist p) = [] \<or>
      map ck_Text (buildChecklist p) = a @ [verification_text p, ''Report the verification result before claiming completion.'']"
      "a = [] \<or> a = [''Review the selected known traps before making changes.'']" by blast
  have "length (md_section ''Completion checklist'' (map (\<lambda>t. ''- [ ] '' @ markdownText t) ts)) \<le> 600"
    if "ts = [] \<or> ts = a @ [verification_text p, ''Report the verification result before claiming completion.'']" for ts
    using that a(2) md_texts(1) [of p] md_texts(2,3) by (elim disjE) (simp_all add: md_section_def nl_def)
  from this [OF a(1)] show ?thesis by (simp add: comp_def)
qed

lemma minimal_bytes:
  assumes "minimal p" "pk_Experiences p = []" "validIntent (pk_Intent p)" "pk_Completion p = buildChecklist p"
    and "md_bytes (pj_Label (pk_Project p)) \<le> 480" "md_bytes (pj_Branch (pk_Project p)) \<le> 640"
    and "\<forall>t \<in> set (pk_KnownTraps p). length (trap_line t) \<le> 1540"
    and "\<forall>c \<in> set (pk_Verification p). md_bytes (ci_Command c) \<le> 1024"
  shows "withinBudget (renderMarkdown p)"
  using minimal_sections [OF assms(1,7,8)] minimal_checklist [OF assms(1)] md_Title [OF assms(3)] assms(2,4-6)
  by (simp add: withinBudget_iff renderMarkdown_def nl_def bytes_def)

end
