(* ===== verification/PackOrigin.thy ===== *)
theory PackOrigin
  imports PackBytes
begin

text \<open>
  Where the items of an assembled pack come from: each known trap from an issue of the input, each command
  from an offered one, each rule from the insight of the harness, each experience from an approved one.
\<close>

section \<open>Issues\<close>

lemma set_merge_issue: "set (merge_issue i xs) \<subseteq> insert i (set xs)"
  by (induction xs) auto

lemma set_fold_merge: "set (fold merge_issue is xs) \<subseteq> set is \<union> set xs"
proof (induction "is" arbitrary: xs)
  case (Cons i "is")
  then show ?case using set_merge_issue [of i xs] by fastforce
qed simp

lemma ids_merge_issue: "iss_IssueID ` set (merge_issue i xs) = insert (iss_IssueID i) (iss_IssueID ` set xs)"
  by (induction xs) auto

lemma distinct_merge_issue:
  "distinct (map iss_IssueID xs) \<Longrightarrow> distinct (map iss_IssueID (merge_issue i xs))"
proof (induction xs)
  case (Cons x xs)
  then show ?case using ids_merge_issue [of i xs] by auto
qed simp

lemma distinct_fold_merge:
  "distinct (map iss_IssueID xs) \<Longrightarrow> distinct (map iss_IssueID (fold merge_issue is xs))"
  by (induction "is" arbitrary: xs) (simp_all add: distinct_merge_issue)

lemma distinct_unique_issues: "distinct (map iss_IssueID (unique_issues input))"
  by (simp add: unique_issues_def distinct_fold_merge)

lemma unique_issues_from:
  assumes "issue \<in> set (unique_issues input)"
  obtains offered where "offered \<in> set (bi_Issues input)" "issue = trim_issue offered"
    "issue_usable (rp_Identity (bi_Project input)) issue"
  using assms set_fold_merge [of "filter (issue_usable (rp_Identity (bi_Project input)))
      (map trim_issue (bi_Issues input))" "[]"]
  by (fastforce simp: unique_issues_def)

definition open_issues :: "Issue list \<Rightarrow> Issue list" where
  "open_issues all = take MaxKnownTraps (keep_new (\<lambda>issue. detectorFamily (iss_DetectorID issue)) []
      (take maxCandidateIssues (filter (\<lambda>issue. 2 \<le> issueSessionCount issue) all)))"

lemma selectIssues_open:
  "TrimSpace (req_IssueID (bi_Request input)) = [] \<Longrightarrow>
     selectIssues input = Inr (open_issues (sort_slice baseIssueLess (unique_issues input)))"
  by (simp add: selectIssues_def open_issues_def)

lemma set_open_issues: "issue \<in> set (open_issues all) \<Longrightarrow> issue \<in> set all \<and> 2 \<le> issueSessionCount issue"
  by (auto simp: open_issues_def dest!: in_set_takeD subsetD [OF set_keep_new])

lemma distinct_open_issues: "distinct (map (\<lambda>issue. detectorFamily (iss_DetectorID issue)) (open_issues all))"
  by (simp add: open_issues_def distinct_keep_new distinct_take flip: take_map)

lemma selectIssues_unique:
  assumes "selectIssues input = Inr issues" "issue \<in> set issues"
  shows "issue \<in> set (unique_issues input)"
proof (cases "TrimSpace (req_IssueID (bi_Request input)) = []")
  case True
  then show ?thesis
    using assms set_open_issues [of issue "sort_slice baseIssueLess (unique_issues input)"]
    by (simp add: selectIssues_open)
next
  case False
  then have "find (\<lambda>i. iss_IssueID i = TrimSpace (req_IssueID (bi_Request input)))
      (sort_slice baseIssueLess (unique_issues input)) = Some issue"
    using assms by (auto simp: selectIssues_def Let_def split: option.splits)
  then have "issue \<in> set (sort_slice baseIssueLess (unique_issues input))"
    by (metis find_Some_iff nth_mem)
  then show ?thesis by simp
qed

lemma selectIssues_recurring:
  assumes "selectIssues input = Inr issues" "TrimSpace (req_IssueID (bi_Request input)) = []"
  shows "\<forall>issue \<in> set issues. 2 \<le> issueSessionCount issue"
    and "distinct (map (\<lambda>issue. detectorFamily (iss_DetectorID issue)) issues)"
  using assms set_open_issues distinct_open_issues by (auto simp: selectIssues_open)

lemma selectIssues_anchored:
  assumes "selectIssues input = Inr issues" "TrimSpace (req_IssueID (bi_Request input)) \<noteq> []"
  obtains issue where "issues = [issue]" "iss_IssueID issue = TrimSpace (req_IssueID (bi_Request input))"
  using assms by (auto simp: selectIssues_def Let_def find_Some_iff split: option.splits)

section \<open>Commands\<close>

definition command_offered :: "ObservedCommand list \<Rightarrow> DiscoveredCommand list \<Rightarrow> mergedCommand \<Rightarrow> bool" where
  "command_offered observed discovered c \<longleftrightarrow>
     (mc_configured c \<longrightarrow> (\<exists>d \<in> set discovered. validCommand (dc_Command d) = Some (mc_command c))) \<and>
     (mc_observed c \<longrightarrow> (\<exists>o' \<in> set observed. validCommand (oc_Command o') = Some (mc_command c) \<and>
        0 < oc_SuccessCount o')) \<and>
     (mc_configured c \<or> mc_observed c)"

lemma update_command_inv:
  assumes "\<forall>c \<in> set cs. P c" "\<And>c. P c \<or> \<not> mc_configured c \<and> \<not> mc_observed c \<Longrightarrow> mc_command c = k \<Longrightarrow> P (f c)"
  shows "\<forall>c \<in> set (update_command k f cs). P c"
  using assms(1)
proof (induction cs)
  case Nil
  then show ?case using assms(2) by (simp add: new_command_def)
next
  case (Cons c cs)
  then show ?case using assms(2) by auto
qed

lemma merged_offered: "\<forall>c \<in> set (merged_commands observed discovered). command_offered observed discovered c"
proof -
  have d: "\<forall>c \<in> set (fold merge_discovered ds cs). command_offered observed discovered c"
    if "set ds \<subseteq> set discovered" "\<forall>c \<in> set cs. command_offered observed discovered c" for ds cs
    using that
  proof (induction ds arbitrary: cs)
    case (Cons d ds)
    have "\<forall>c \<in> set (merge_discovered d cs). command_offered observed discovered c"
    proof (cases "validCommand (dc_Command d)")
      case (Some k)
      then have "\<forall>c \<in> set (update_command k (add_discovered d) cs). command_offered observed discovered c"
        using Cons.prems
        by (intro update_command_inv) (auto simp: command_offered_def add_discovered_def)
      with Some show ?thesis by (simp add: merge_discovered_def)
    qed (use Cons.prems in \<open>simp add: merge_discovered_def\<close>)
    with Cons show ?case by simp
  qed simp
  have o: "\<forall>c \<in> set (fold merge_observed os cs). command_offered observed discovered c"
    if "set os \<subseteq> set observed" "\<forall>c \<in> set cs. command_offered observed discovered c" for os cs
    using that
  proof (induction os arbitrary: cs)
    case (Cons v os)
    have "\<forall>c \<in> set (merge_observed v cs). command_offered observed discovered c"
    proof (cases "validCommand (oc_Command v)")
      case (Some k)
      then have "\<forall>c \<in> set (update_command k (add_observed v) cs). command_offered observed discovered c"
        if "0 < oc_SuccessCount v"
        using Cons.prems that
        by (intro update_command_inv) (auto simp: command_offered_def add_observed_def)
      with Some Cons.prems show ?thesis by (simp add: merge_observed_def)
    qed (use Cons.prems in \<open>simp add: merge_observed_def\<close>)
    with Cons show ?case by simp
  qed simp
  show ?thesis unfolding merged_commands_def by (intro o d) auto
qed

lemma set_keep_classes: "set (keep_classes u seen vs) \<subseteq> set vs"
  by (induction vs arbitrary: seen) auto

lemma selectVerification_from:
  assumes "c \<in> set (selectVerification u intent observed discovered)"
  obtains m where "m \<in> set (merged_commands observed discovered)" "c = command_item (normalize_command m)"
  using assms
  by (auto simp: selectVerification_def Let_def dest!: in_set_takeD subsetD [OF set_keep_classes])

lemma length_selectVerification:
  "length (selectVerification u intent observed discovered) \<le> MaxVerificationCommands"
  by (simp add: selectVerification_def Let_def)

section \<open>Rules\<close>

text \<open>The instruction files that a harness reads.\<close>

fun harness_files :: "PackHarness \<Rightarrow> string list" where
  "harness_files PackHarnessClaude = [''CLAUDE.md'', ''.claude/settings.json'']"
| "harness_files PackHarnessCodex = [''AGENTS.md'', ''.codex/rules/default.rules'']"
| "harness_files PackHarnessCursor = [''AGENTS.md'']"
| "harness_files PackHarnessAntigravity = [''.agents/rules/belay.md'']"
| "harness_files _ = []"

definition rule_ok :: "PackHarness \<Rightarrow> GuidanceItem \<Rightarrow> bool" where
  "rule_ok harness r \<longleftrightarrow> gi_TargetFile r \<in> set (harness_files harness) \<and> gi_RequiresApproval r \<and>
     (\<exists>c. gi_Confidence r = Some c \<and> \<not> float_less c highConfidence)"

lemma target_in_files:
  "semanticTargetForHarness harness t = Some target \<Longrightarrow>
     target \<in> set (harness_files harness) \<and> oneLine target 160 = target"
proof -
  have f: "\<forall>t \<in> set [''CLAUDE.md'', ''.claude/settings.json'', ''AGENTS.md'', ''.codex/rules/default.rules'',
      ''.agents/rules/belay.md'']. oneLine t 160 = t"
    by (simp add: oneLine_visible visible_def byte_def)
  assume a: "semanticTargetForHarness harness t = Some target"
  then have "target \<in> set (harness_files harness)"
    by (cases harness) (auto simp: Let_def split: if_splits)
  moreover have "oneLine target 160 = target"
    using calculation f by (cases harness) auto
  ultimately show ?thesis by blast
qed

lemma fix_candidate_ok:
  assumes "fix_candidate u harness anchorID tokens byID fx = Some kept"
  shows "ifx_TargetFile kept \<in> set (harness_files harness) \<and>
    oneLine (ifx_TargetFile kept) 160 = ifx_TargetFile kept \<and> \<not> float_less (ifx_Confidence kept) highConfidence"
proof -
  have c: "\<not> float_less (ifx_Confidence fx) highConfidence"
    using assms unfolding fix_candidate_def by (cases "float_less (ifx_Confidence fx) highConfidence") simp_all
  obtain target where t: "semanticTargetForHarness harness (ifx_TargetFile fx) = Some target"
    using assms c unfolding fix_candidate_def
    by (cases "semanticTargetForHarness harness (ifx_TargetFile fx)") simp_all
  have "kept = fx\<lparr>ifx_TargetFile := target\<rparr>"
    using assms c t unfolding fix_candidate_def Let_def
    by (cases "byID (ifx_IssueID fx)") (simp_all split: if_split_asm)
  with target_in_files [OF t] c show ?thesis by simp
qed

lemma best_fixes_from:
  "best_fixes candidate fxs m k = Some f \<Longrightarrow> (\<exists>fx. candidate fx = Some f) \<or> m k = Some f"
proof (induction fxs arbitrary: m)
  case (Cons fx fxs)
  from Cons.IH [OF Cons.prems [simplified]] show ?case
    by (auto split: option.splits if_splits)
qed simp

lemma fix_rules_ok:
  assumes "r \<in> set (fix_rules insight anchorID
      (best_fixes (fix_candidate u harness anchorID tokens byID) fxs Map.empty) issues)"
  shows "rule_ok harness r"
proof -
  obtain issue f where f: "best_fixes (fix_candidate u harness anchorID tokens byID) fxs Map.empty
      (iss_IssueID issue) = Some f" and r: "r = insightFixRule insight issue f"
    using assms by (auto simp: fix_rules_def List.map_filter_def split: if_splits)
  from best_fixes_from [OF f] obtain fx where "fix_candidate u harness anchorID tokens byID fx = Some f" by auto
  from fix_candidate_ok [OF this] show ?thesis
    by (simp add: r rule_ok_def insightFixRule_def Let_def)
qed

lemma cluster_rules_ok:
  assumes "r \<in> set (cluster_rules u insight candidates tokens clusters)"
    and "\<forall>c \<in> set clusters. \<exists>cluster. ranked_cluster harness candidates cluster = Some c"
  shows "rule_ok harness r"
proof -
  obtain c cluster where c: "ranked_cluster harness candidates cluster = Some c"
    and h: "\<not> float_less (clu_Confidence (rk_cluster c)) highConfidence"
    and r: "r = insightClusterRule insight (rk_cluster c) (rk_candidateIDs c) candidates"
    using assms by (auto simp: cluster_rules_def)
  then obtain target where "semanticTargetForHarness harness (clu_TargetFile cluster) = Some target"
    "clu_TargetFile (rk_cluster c) = target"
    by (auto simp: ranked_cluster_def Let_def split: option.splits prod.splits if_splits)
  with target_in_files [of harness "clu_TargetFile cluster" target] h show ?thesis
    by (simp add: r rule_ok_def insightClusterRule_def Let_def)
qed

definition rules_state_ok :: "PackHarness \<Rightarrow> rules_state \<Rightarrow> bool" where
  "rules_state_ok harness st \<longleftrightarrow> length (fst st) \<le> MaxOperatingRules \<and>
     (\<forall>r \<in> set (fst st). rule_ok harness r \<and> gi_Guidance r \<noteq> [] \<and> length (gi_Sources r) \<le> MaxSourcesPerItem)"

lemma appendRule_ok:
  assumes "rule_ok harness r" "rules_state_ok harness st" "length (fst st) < MaxOperatingRules"
  shows "rules_state_ok harness (appendRule u r st)"
  using assms
  by (cases st) (auto simp: appendRule_def Let_def rules_state_ok_def rule_ok_def length_normalizeSources)

lemma append_rules_ok:
  assumes "\<forall>r \<in> set rs. rule_ok harness r" "rules_state_ok harness st" "length (fst st) < MaxOperatingRules"
  shows "rules_state_ok harness (append_rules u rs st)"
  using assms
proof (induction rs arbitrary: st)
  case (Cons r rs)
  have s: "rules_state_ok harness (appendRule u r st)" using Cons.prems by (intro appendRule_ok) auto
  show ?case
  proof (cases "length (fst (appendRule u r st)) = MaxOperatingRules")
    case False
    with s have "length (fst (appendRule u r st)) < MaxOperatingRules" by (auto simp: rules_state_ok_def)
    with False s Cons show ?thesis by (simp add: Let_def)
  qed (use s in \<open>simp add: Let_def\<close>)
qed simp

lemma insight_rules_ok:
  "rules_state_ok (req_Harness (bi_Request input)) (insight_rules u input issues insight tokens, [])"
proof -
  let ?h = "req_Harness (bi_Request input)" and ?a = "TrimSpace (req_IssueID (bi_Request input))"
  let ?byID = "map_of (rev (map (\<lambda>issue. (iss_IssueID issue, issue)) issues))"
  let ?best = "best_fixes (fix_candidate u ?h ?a tokens ?byID)
      (sort_slice fix_less (ires_Fixes (ins_Result insight))) Map.empty"
  let ?st = "append_rules u (fix_rules insight ?a ?best issues) ([], [])"
  let ?cl = "sort_slice cluster_less
      (List.map_filter (ranked_cluster ?h (bi_Candidates input)) (ires_Clusters (ins_Result insight)))"
  let ?st' = "append_rules u (cluster_rules u insight (bi_Candidates input) tokens ?cl) ?st"
  have st: "rules_state_ok ?h ?st"
    by (rule append_rules_ok) (auto simp: rules_state_ok_def MaxOperatingRules_def dest: fix_rules_ok)
  have cl: "\<forall>c \<in> set ?cl. \<exists>cluster. ranked_cluster ?h (bi_Candidates input) cluster = Some c"
    by (auto simp: List.map_filter_def)
  have e: "insight_rules u input issues insight tokens =
      (if length (fst ?st) = MaxOperatingRules \<or> ?a \<noteq> [] then fst ?st else fst ?st')"
    unfolding insight_rules_def Let_def by (rule refl)
  have st': "rules_state_ok ?h ?st'" if "length (fst ?st) \<noteq> MaxOperatingRules"
  proof (rule append_rules_ok [OF _ st])
    show "\<forall>r \<in> set (cluster_rules u insight (bi_Candidates input) tokens ?cl). rule_ok ?h r"
      by (intro ballI cluster_rules_ok [OF _ cl])
    show "length (fst ?st) < MaxOperatingRules"
      using st that unfolding rules_state_ok_def by linarith
  qed
  have f: "rules_state_ok ?h (fst s, [])" if "rules_state_ok ?h s" for s
    using that by (simp add: rules_state_ok_def)
  show ?thesis
  proof (cases "length (fst ?st) = MaxOperatingRules \<or> ?a \<noteq> []")
    case True
    then show ?thesis unfolding e if_P [OF True] by (intro f st)
  next
    case False
    then have "length (fst ?st) \<noteq> MaxOperatingRules" by blast
    then show ?thesis unfolding e if_not_P [OF False] by (intro f st')
  qed
qed

lemma selectRules_ok:
  "rules_state_ok (req_Harness (bi_Request input)) (selectRules u input issues, [])"
  using insight_rules_ok [of input u issues]
  by (auto simp: selectRules_def Let_def rules_state_ok_def split: option.split)

end
