(* ===== verification/PackOrders.thy ===== *)
theory PackOrders
  imports PackOrigin
begin

text \<open>
  The comparisons that \<open>build.go\<close> gives to \<open>sort.Slice\<close> are strict orders, total up to the identity of what
  they sort, on values without NaN and without monotonic clock readings (a stored time has none). So what is
  selected does not depend on the order in which Go lists a map.
\<close>

section \<open>Comparisons field by field\<close>

lemma slice_order_base:
  fixes f :: "'a \<Rightarrow> 'o::linorder"
  shows "slice_order (\<lambda>a b. f a < f b) f A"
  by unfold_locales auto

lemma slice_order_lex:
  fixes f :: "'a \<Rightarrow> 'o::linorder"
  assumes "slice_order rest key A"
  shows "slice_order (\<lambda>a b. if f a \<noteq> f b then f a < f b else rest a b) key A"
  by (rule slice_order.intro)
    (auto simp: slice_order.lt_irrefl [OF assms] dest: slice_order.lt_total [OF assms]
      intro: slice_order.lt_trans [OF assms] split: if_splits)

lemma slice_order_cong:
  assumes "slice_order lt' key A" "\<And>a b. a \<in> A \<Longrightarrow> b \<in> A \<Longrightarrow> lt a b = lt' a b"
  shows "slice_order lt key A"
  using slice_order.lt_irrefl [OF assms(1)] slice_order.lt_total [OF assms(1)]
  by (intro slice_order.intro) (simp_all add: assms(2), meson slice_order.lt_trans [OF assms(1)])

section \<open>Numbers\<close>

fun float_class :: "float64 \<Rightarrow> int" where
  "float_class NegInf = 1"
| "float_class PosInf = -1"
| "float_class _ = 0"

fun float_value :: "float64 \<Rightarrow> rat" where
  "float_value (Finite x) = - x"
| "float_value _ = 0"

text \<open>Descending order of floats that are not NaN.\<close>

lemma float_descending:
  assumes "x \<noteq> NaN" "y \<noteq> NaN"
  shows "(if \<not> float_eq x y then float_less y x else r) =
     (if float_class x \<noteq> float_class y then float_class x < float_class y
      else if float_value x \<noteq> float_value y then float_value x < float_value y else r)"
  using assms by (cases x; cases y) (auto simp: float_eq_def doubleton_eq_iff)

lemma time_descending:
  assumes "mono x = None" "mono y = None"
  shows "(if \<not> time_Equal x y then After x y else r) =
     (if - wall_ns x \<noteq> - wall_ns y then - wall_ns x < - wall_ns y else r)"
  using assms by (simp add: time_Equal_def After_def time_cmp_key_def)

section \<open>Issues\<close>

definition rankable :: "Issue \<Rightarrow> bool" where
  "rankable i \<longleftrightarrow> cost_WastedUSD (iss_Cost i) \<noteq> Some NaN \<and> mono (iss_LastSeen i) = None"

definition usd_rank :: "Issue \<Rightarrow> int" where
  "usd_rank i = (case cost_WastedUSD (iss_Cost i) of None \<Rightarrow> 2 | Some x \<Rightarrow> float_class x)"

definition usd_value :: "Issue \<Rightarrow> rat" where
  "usd_value i = (case cost_WastedUSD (iss_Cost i) of None \<Rightarrow> 0 | Some x \<Rightarrow> float_value x)"

lemma baseIssueLess_lex:
  assumes "rankable a" "rankable b"
  shows "baseIssueLess a b =
    (if usd_rank a \<noteq> usd_rank b then usd_rank a < usd_rank b
     else if usd_value a \<noteq> usd_value b then usd_value a < usd_value b
     else if - iss_SessionCount a \<noteq> - iss_SessionCount b then - iss_SessionCount a < - iss_SessionCount b
     else if - wall_ns (iss_LastSeen a) \<noteq> - wall_ns (iss_LastSeen b)
     then - wall_ns (iss_LastSeen a) < - wall_ns (iss_LastSeen b)
     else iss_IssueID a < iss_IssueID b)"
proof -
  let ?r = "if iss_SessionCount a \<noteq> iss_SessionCount b then iss_SessionCount b < iss_SessionCount a
     else if \<not> time_Equal (iss_LastSeen a) (iss_LastSeen b) then After (iss_LastSeen a) (iss_LastSeen b)
     else iss_IssueID a < iss_IssueID b"
  have c: "float_class x \<in> {-1, 0, 1}" for x by (cases x) simp_all
  have u: "baseIssueLess a b = (if usd_rank a \<noteq> usd_rank b then usd_rank a < usd_rank b
     else if usd_value a \<noteq> usd_value b then usd_value a < usd_value b else ?r)"
  proof (cases "cost_WastedUSD (iss_Cost a)"; cases "cost_WastedUSD (iss_Cost b)")
    fix x y assume s: "cost_WastedUSD (iss_Cost a) = Some x" "cost_WastedUSD (iss_Cost b) = Some y"
    then have "x \<noteq> NaN" "y \<noteq> NaN" using assms by (auto simp: rankable_def)
    note d = float_descending [OF this, of ?r]
    have k: "usd_rank a = float_class x" "usd_rank b = float_class y" "usd_value a = float_value x"
      "usd_value b = float_value y" by (simp_all add: usd_rank_def usd_value_def s)
    have "baseIssueLess a b = (if \<not> float_eq x y then float_less y x else ?r)"
      unfolding baseIssueLess_def Let_def s by simp
    then show ?thesis unfolding k d .
  next
    fix x assume s: "cost_WastedUSD (iss_Cost a) = None" "cost_WastedUSD (iss_Cost b) = Some x"
    show ?thesis using c [of x] by (auto simp: baseIssueLess_def usd_rank_def s)
  next
    fix x assume s: "cost_WastedUSD (iss_Cost a) = Some x" "cost_WastedUSD (iss_Cost b) = None"
    show ?thesis using c [of x] by (auto simp: baseIssueLess_def usd_rank_def s)
  next
    assume s: "cost_WastedUSD (iss_Cost a) = None" "cost_WastedUSD (iss_Cost b) = None"
    show ?thesis by (simp add: baseIssueLess_def usd_rank_def usd_value_def s)
  qed
  have "mono (iss_LastSeen a) = None" "mono (iss_LastSeen b) = None"
    using assms by (simp_all add: rankable_def)
  note t = time_descending [OF this, of "iss_IssueID a < iss_IssueID b"]
  show ?thesis unfolding u t by simp
qed

interpretation issue_order: slice_order baseIssueLess iss_IssueID "Collect rankable"
proof (rule slice_order_cong)
  show "slice_order
    (\<lambda>a b. if usd_rank a \<noteq> usd_rank b then usd_rank a < usd_rank b
     else if usd_value a \<noteq> usd_value b then usd_value a < usd_value b
     else if - iss_SessionCount a \<noteq> - iss_SessionCount b then - iss_SessionCount a < - iss_SessionCount b
     else if - wall_ns (iss_LastSeen a) \<noteq> - wall_ns (iss_LastSeen b)
     then - wall_ns (iss_LastSeen a) < - wall_ns (iss_LastSeen b)
     else iss_IssueID a < iss_IssueID b) iss_IssueID (Collect rankable)"
    by (intro slice_order_lex slice_order_base)
qed (simp add: baseIssueLess_lex)

interpretation source_order: slice_order "\<lambda>a b. sourceKey a < sourceKey b" sourceKey UNIV
  by (rule slice_order_base)

section \<open>Commands\<close>

lemma command_less_lex:
  assumes "mono (mc_lastSuccess a) = None" "mono (mc_lastSuccess b) = None"
  shows "command_less u intent a b =
    (let first = (\<lambda>c. \<not> (mc_configured c \<and> mc_observed c));
         release = (\<lambda>c. releaseOrientedCommand u (mc_command c) \<noteq> (intent = IntentRelease)) in
     if first a \<noteq> first b then first a < first b
     else if (\<not> mc_observed a) \<noteq> (\<not> mc_observed b) then (\<not> mc_observed a) < (\<not> mc_observed b)
     else if release a \<noteq> release b then release a < release b
     else if - mc_successCount a \<noteq> - mc_successCount b then - mc_successCount a < - mc_successCount b
     else if - wall_ns (mc_lastSuccess a) \<noteq> - wall_ns (mc_lastSuccess b)
     then - wall_ns (mc_lastSuccess a) < - wall_ns (mc_lastSuccess b)
     else mc_command a < mc_command b)"
proof -
  note t = time_descending [OF assms, of "mc_command a < mc_command b"]
  show ?thesis unfolding command_less_def Let_def t by auto
qed

interpretation command_order: slice_order "command_less u intent" mc_command
    "{c. mono (mc_lastSuccess c) = None}" for u intent
proof (rule slice_order_cong)
  show "slice_order (\<lambda>a b. let first = (\<lambda>c. \<not> (mc_configured c \<and> mc_observed c));
         release = (\<lambda>c. releaseOrientedCommand u (mc_command c) \<noteq> (intent = IntentRelease)) in
     if first a \<noteq> first b then first a < first b
     else if (\<not> mc_observed a) \<noteq> (\<not> mc_observed b) then (\<not> mc_observed a) < (\<not> mc_observed b)
     else if release a \<noteq> release b then release a < release b
     else if - mc_successCount a \<noteq> - mc_successCount b then - mc_successCount a < - mc_successCount b
     else if - wall_ns (mc_lastSuccess a) \<noteq> - wall_ns (mc_lastSuccess b)
     then - wall_ns (mc_lastSuccess a) < - wall_ns (mc_lastSuccess b)
     else mc_command a < mc_command b) mc_command {c. mono (mc_lastSuccess c) = None}"
    unfolding Let_def by (intro slice_order_lex slice_order_base)
qed (simp add: command_less_lex)

end
