(* ===== verification/PackSamples.thy ===== *)
theory PackSamples
  imports PackOrders
begin

text \<open>
  A concrete project for the witnesses: two issues (one seen in three sessions, one in two), a command from
  the project files that also ran twice with success, an insight with one fix, one approved experience.
\<close>

definition ascii_unicode :: unicode where
  "ascii_unicode = \<lparr>uni_ToLower = ascii_lower,
     uni_IsLetterOrNumber = (\<lambda>n. (48 \<le> n \<and> n \<le> 57) \<or> (65 \<le> n \<and> n \<le> 90) \<or> (97 \<le> n \<and> n \<le> 122))\<rparr>"

definition pack_time :: gotime where
  "pack_time = utc_at 63844547696780000000"

definition sample_issue :: "string \<Rightarrow> string \<Rightarrow> int \<Rightarrow> float64 option \<Rightarrow> Issue" where
  "sample_issue identifier detector sessions usd =
     \<lparr>iss_IssueID = identifier, iss_DetectorID = detector, iss_Fingerprint = ''fp'',
      iss_Headline = ''Repeated failing build'',
      iss_Cost = \<lparr>cost_WastedMinutes = Finite 12, cost_WastedTokens = 900, cost_WastedUSD = usd, cost_LowerBound = False\<rparr>,
      iss_SessionCount = sessions, iss_Sessions = [], iss_FirstSeen = pack_time, iss_LastSeen = pack_time,
      iss_Trend = [], iss_Excerpts = [], iss_EpisodeRefs = [],
      iss_EvidenceBasis = \<lparr>eb_Kind = ''action_sequence'', eb_Summary = []\<rparr>,
      iss_Project = \<lparr>ipj_Identity = ''project'', ipj_Path = ''/work''\<rparr>,
      iss_SuggestedFix = \<lparr>sfix_Kind = [], sfix_TargetFile = [], sfix_Rationale = []\<rparr>\<rparr>"

definition issue_one :: Issue where
  "issue_one = sample_issue ''issue_1'' DetectorRetryLoop 3 (Some (Finite (5 / 2)))"

definition issue_two :: Issue where
  "issue_two = sample_issue ''issue_2'' DetectorFileThrash 2 None"

definition sample_insight :: InsightRecord where
  "sample_insight =
     \<lparr>ins_InsightID = ''ins_1'', ins_Project = \<lparr>ipj_Identity = ''project'', ipj_Path = ''/work''\<rparr>,
      ins_Harness = ''codex'', ins_Model = [], ins_PromptVersion = ''v1'', ins_InputHash = ''h'',
      ins_GeneratedAt = pack_time,
      ins_Result = \<lparr>ires_Clusters = [],
        ires_Fixes = [\<lparr>ifx_IssueID = ''issue_1'', ifx_RuleText = ''Run the failing build alone first'',
          ifx_TargetFile = ''CLAUDE.md'', ifx_Confidence = Finite (15 / 16)\<rparr>]\<rparr>,
      ins_Sanitization = \<lparr>isan_DroppedClusters = 0, isan_DroppedFixes = 0, isan_InvalidClusterFields = 0,
        isan_UnknownClusterCandidates = 0, isan_AmbiguousClusterCandidates = 0, isan_InvalidFixFields = 0,
        isan_UnknownFixIssues = 0, isan_AmbiguousFixIssues = 0\<rparr>\<rparr>"

definition sample_input :: BuildInput where
  "sample_input =
     \<lparr>bi_Request = \<lparr>req_CWD = ''/work'', req_IssueID = [], req_Intent = IntentDebug, req_Harness = PackHarnessCodex,
        req_TaskHint = ''failing build'', req_GeneratedAt = pack_time\<rparr>,
      bi_Project = \<lparr>rp_Identity = ''project'', rp_IdentityKind = ''path'', rp_Label = ''work'', rp_Path = ''/work''\<rparr>,
      bi_Workspace = \<lparr>ws_Branch = ''main'', ws_Worktree = [], ws_Harnesses = [''codex'']\<rparr>,
      bi_SourceState = \<lparr>ss_TranscriptGeneration = 4, ss_AnalyzedGeneration = 4, ss_AnalysisStatus = ''current'',
        ss_DataThrough = pack_time\<rparr>,
      bi_Issues = [issue_two, issue_one], bi_Insight = Some sample_insight, bi_Candidates = Map.empty,
      bi_Commands = [\<lparr>oc_Command = ''gotest'', oc_Class = ''test'', oc_SuccessCount = 2,
        oc_LastSuccess = pack_time, oc_Sources = []\<rparr>],
      bi_ProjectFiles = [\<lparr>dc_Command = ''gotest'', dc_Class = ''test'', dc_SourceFile = ''Makefile'', dc_SourceSHA256 = ''s''\<rparr>],
      bi_Facts = [], bi_Coverage = \<lparr>pcov_TranscriptStatus = ''complete'', pcov_CanonicalContextAvailable = True\<rparr>,
      bi_InsightStale = False, bi_ExperienceGeneration = 0, bi_Experiences = []\<rparr>"

definition sample_experience :: ExperienceItem where
  "sample_experience =
     \<lparr>ei_ExperienceID = ''exp_1'', ei_Version = 2, ei_Type = ''rule'', ei_Guidance = ''test-first'',
      ei_Applicability = ''always'', ei_Exceptions = [''docs''], ei_Rationale = ''seen-twice'',
      ei_Verifier = \<lparr>vs_Kind = ''command'', vs_Summary = ''gotest''\<rparr>, ei_Authority = ''user_approved'',
      ei_Sources = []\<rparr>"

definition sample_approved :: BuildInput where
  "sample_approved = sample_input\<lparr>bi_ExperienceGeneration := 1, bi_Experiences := [sample_experience]\<rparr>"

lemma sample_visible:
  "visible ''issue_1'' \<and> visible ''issue_2'' \<and> visible ''project'' \<and> visible ''work'' \<and> visible ''gotest''"
  by (simp add: visible_def byte_def)

lemma sample_checked: "check_input sample_input = None"
  using sample_visible
  by (simp add: check_input_def check_simps sample_input_def oneLine_visible IsZero_def pack_time_def utc_at_def)

lemma sample_unique: "unique_issues (prepared_input sample_input) = [issue_two, issue_one]"
  using sample_visible
  by (simp add: unique_issues_def sample_input_def issue_one_def issue_two_def sample_issue_def trim_issue_def
      issue_usable_def prepared_input_def Let_def)

lemma sample_order: "baseIssueLess issue_one issue_two \<and> \<not> baseIssueLess issue_two issue_one"
  by (simp add: baseIssueLess_def issue_one_def issue_two_def sample_issue_def)

lemma sample_selected: "selectIssues (prepared_input sample_input) = Inr [issue_one, issue_two]"
proof -
  have f: "detectorFamily DetectorRetryLoop = DetectorRetryLoop" "detectorFamily DetectorFileThrash = DetectorFileThrash"
    by (simp_all add: detectorFamily_def visible_def byte_def)
  have "sort_slice baseIssueLess [issue_two, issue_one] = [issue_one, issue_two]"
    by (simp add: sort_slice_def sample_order)
  moreover have "req_IssueID (bi_Request sample_input) = []" by (simp add: sample_input_def)
  moreover have "issueSessionCount issue_one = 3" "issueSessionCount issue_two = 2"
    "iss_DetectorID issue_one = DetectorRetryLoop" "iss_DetectorID issue_two = DetectorFileThrash"
    by (simp_all add: issueSessionCount_def issue_one_def issue_two_def sample_issue_def)
  ultimately show ?thesis
    by (simp add: selectIssues_open sample_unique open_issues_def MaxKnownTraps_def f)
qed

lemma sample_commands: "selectVerification ascii_unicode IntentDebug (bi_Commands sample_input) (bi_ProjectFiles sample_input) \<noteq> []"
proof -
  have v: "validCommand ''gotest'' = Some ''gotest''"
    using sample_visible
    by (simp add: validCommand_def RuneCountInString_def rune_pieces_ascii visible_ascii ContainsAny_def line_break_def)
  show ?thesis
    by (simp add: selectVerification_def merged_commands_def sample_input_def merge_discovered_def
        merge_observed_def v add_discovered_def add_observed_def new_command_def sort_slice_def
        MaxVerificationCommands_def)
qed

lemma sample_build: "\<exists>pack. Build ascii_unicode sample_input = Some (Inr pack)"
proof -
  have e: "bi_Experiences sample_input = []" "bi_ExperienceGeneration sample_input = 0"
    by (simp_all add: sample_input_def)
  obtain q where "truncateToBudget (req_IssueID (bi_Request sample_input))
      (assembled_pack ascii_unicode (prepared_input sample_input) [] [issue_one, issue_two]) = Some q"
    using truncate_assembled [OF sample_selected] by blast
  then show ?thesis
    by (simp add: Build_def sample_checked sample_selected normalizeExperienceItems_def e)
qed

text \<open>The same project with one approved experience.\<close>

lemma sample_runes: "visible s \<Longrightarrow> RuneCountInString s = length s"
  by (simp add: RuneCountInString_def rune_pieces_ascii visible_ascii)

lemma sample_text: "visible s \<Longrightarrow> \<not> ContainsAny s line_break"
  by (induction s) (auto simp: ContainsAny_def line_break_def visible_def byte_def)

lemma sample_experience_checked: "check_experience_item ascii_unicode sample_experience = None"
proof -
  have v: "visible ''exp_1'' \<and> visible ''rule'' \<and> visible ''test-first'' \<and> visible ''always'' \<and> visible ''docs'' \<and>
      visible ''seen-twice'' \<and> visible ''command'' \<and> visible ''gotest''"
    by (simp add: visible_def byte_def)
  then show ?thesis
    by (simp add: check_experience_item_def sample_experience_def check_simps validExperienceOneLine_def
        sample_runes sample_text MaxSourcesPerItem_def)
qed

lemma sample_experience_trimmed: "trimmed_experience sample_experience = sample_experience"
proof -
  have "visible ''exp_1'' \<and> visible ''rule'' \<and> visible ''test-first'' \<and> visible ''always'' \<and> visible ''docs'' \<and>
      visible ''seen-twice'' \<and> visible ''command'' \<and> visible ''gotest''"
    by (simp add: visible_def byte_def)
  then show ?thesis
    by (simp add: trimmed_experience_def sample_experience_def normalizeSources_def sort_slice_def)
qed

lemma sample_experience_normalized:
  "normalizeExperienceItems ascii_unicode 1 [sample_experience] = Inr [sample_experience]"
  by (simp add: normalizeExperienceItems_def normalizeExperienceItem_def sample_experience_checked
      sample_experience_trimmed) (simp add: experience_bytes_def sample_experience_def)

lemma sample_approved_build: "\<exists>pack. Build ascii_unicode sample_approved = Some (Inr pack)"
proof -
  have c: "check_input sample_approved = None"
    using sample_checked by (simp add: check_input_def sample_approved_def)
  have s: "selectIssues (prepared_input sample_approved) = Inr [issue_one, issue_two]"
  proof -
    have "selectIssues (prepared_input sample_approved) = selectIssues (prepared_input sample_input)"
      by (simp add: sample_approved_def selectIssues_def unique_issues_def prepared_input_def Let_def)
    then show ?thesis by (simp add: sample_selected)
  qed
  have e: "bi_Experiences sample_approved = [sample_experience]" "bi_ExperienceGeneration sample_approved = 1"
    by (simp_all add: sample_approved_def)
  have l: "oneLine (rp_Label (bi_Project sample_approved)) 120 = ''work''"
    using sample_visible by (simp add: sample_approved_def sample_input_def oneLine_visible)
  have "withinBudget (renderMarkdown p)"
    if "pk_Experiences p = [sample_experience]" "pj_Label (pk_Project p) = ''work''" for p
    using that
    by (simp add: withinBudget_iff renderMarkdown_def renderExperienceMarkdown_def experience_lines_def
        sample_experience_def nl_def md_Cons markdown_char_def)
  then show ?thesis
    by (simp add: Build_def c s e sample_experience_normalized l Let_def)
qed

end
