(* ===== verification/PackRules.thy ===== *)
theory PackRules
  imports PackSamples
begin

text \<open>
  The properties of Mission Packs (\<open>internal/missionpack/build.go\<close>): \<open>Build\<close> always returns, its Markdown fits
  the budget, and everything it carries is a bounded, unapproved proposal that comes from the input.
\<close>

section \<open>Lemmas\<close>

lemma from_in: "items_from R ys xs \<Longrightarrow> y \<in> set ys \<Longrightarrow> \<exists>x \<in> set xs. R y x"
  by (simp add: items_from_def)

lemma from_le: "items_from R ys xs \<Longrightarrow> length ys \<le> length xs"
  by (simp add: items_from_def)

lemma pack_trap_from:
  assumes "pack_from pack (assembled_pack u input ex issues)" "t \<in> set (pk_KnownTraps pack)"
  obtains issue n where "issue \<in> set issues"
    "t = (buildKnownTrap issue)\<lparr>gi_Sources := take n (issueSources issue)\<rparr>"
  using from_in [OF pack_fromD(1) [OF assms(1)] assms(2)]
  by (auto simp: same_guidance_def buildKnownTraps_def) (simp add: buildKnownTrap_def)

lemma pack_command_from:
  assumes "pack_from pack (assembled_pack u input ex issues)" "c \<in> set (pk_Verification pack)"
  obtains m n where "m \<in> set (merged_commands (bi_Commands input) (bi_ProjectFiles input))"
    "c = (command_item m)\<lparr>ci_Sources := take n (normalizeSources (mc_sources m) MaxSourcesPerItem)\<rparr>"
proof -
  obtain c0 where c0: "c0 \<in> set (selectVerification u (req_Intent (bi_Request input)) (bi_Commands input)
      (bi_ProjectFiles input))" "same_command c c0"
    using from_in [OF pack_fromD(3) [OF assms(1)] assms(2)] by auto
  obtain m where "m \<in> set (merged_commands (bi_Commands input) (bi_ProjectFiles input))"
    "c0 = command_item (normalize_command m)" using selectVerification_from [OF c0(1)] .
  with c0(2) that show ?thesis by (auto simp: same_command_def command_item_def normalize_command_def)
qed

lemma pack_rule_from:
  assumes "pack_from pack (assembled_pack u input ex issues)" "r \<in> set (pk_OperatingRules pack)"
  shows "rule_ok (req_Harness (bi_Request input)) r \<and> gi_Guidance r \<noteq> [] \<and>
    length (gi_Sources r) \<le> MaxSourcesPerItem"
proof -
  obtain r0 where "r0 \<in> set (selectRules u input issues)" and s: "same_guidance r r0"
    using from_in [OF pack_fromD(2) [OF assms(1)] assms(2)] by auto
  then have "rule_ok (req_Harness (bi_Request input)) r0 \<and> gi_Guidance r0 \<noteq> [] \<and>
    length (gi_Sources r0) \<le> MaxSourcesPerItem"
    using selectRules_ok [of input u issues] by (auto simp: rules_state_ok_def)
  with s show ?thesis by (auto simp: same_guidance_def rule_ok_def)
qed

lemma length_selectRules: "length (selectRules u input issues) \<le> MaxOperatingRules"
  using selectRules_ok [of input u issues] by (simp add: rules_state_ok_def)

lemma length_selectFacts: "length (selectFacts values) \<le> MaxContextFacts"
  by (simp add: selectFacts_def)

lemma fact_sources: "f \<in> set (selectFacts values) \<Longrightarrow> length (ctxf_Sources f) \<le> MaxSourcesPerItem"
  by (auto simp: selectFacts_def List.map_filter_def context_fact_def Let_def length_normalizeSources
      dest!: in_set_takeD split: if_splits)

lemma length_checklist: "length (buildChecklist p) \<le> MaxChecklistItems"
  by (simp add: buildChecklist_def checklist_texts_def Let_def del: take_append)

lemma take_bound: "length xs \<le> m \<Longrightarrow> length (take n xs) \<le> m"
  by simp

lemma normalize_items_result:
  "normalize_items u vs = Inr (items, n) \<Longrightarrow>
     items = map trimmed_experience vs \<and> n = sum_list (map (\<lambda>v. experience_bytes (trimmed_experience v)) vs) \<and>
     (\<forall>v \<in> set vs. check_experience_item u v = None)"
proof (induction vs arbitrary: items n)
  case (Cons v vs)
  then show ?case
    by (auto simp: normalizeExperienceItem_def split: option.splits sum.splits prod.splits)
qed simp

lemma normalizeExperienceItems_result:
  assumes "normalizeExperienceItems u g vs = Inr ex"
  shows "ex = map trimmed_experience vs" and "length vs \<le> maxExperiences"
    and "(sum_list (map experience_bytes ex) + 3) div 4 \<le> maxExperienceTokens"
    and "\<forall>v \<in> set vs. check_experience_item u v = None" and "vs \<noteq> [] \<Longrightarrow> 0 < g"
proof -
  have "ex = map trimmed_experience vs \<and> length vs \<le> maxExperiences \<and>
    (sum_list (map experience_bytes ex) + 3) div 4 \<le> maxExperienceTokens \<and>
    (\<forall>v \<in> set vs. check_experience_item u v = None) \<and> (vs \<noteq> [] \<longrightarrow> 0 < g)"
    using assms normalize_items_result [of u vs]
    by (auto simp: normalizeExperienceItems_def comp_def split: if_splits sum.splits prod.splits)
  then show "ex = map trimmed_experience vs" and "length vs \<le> maxExperiences"
    and "(sum_list (map experience_bytes ex) + 3) div 4 \<le> maxExperienceTokens"
    and "\<forall>v \<in> set vs. check_experience_item u v = None" and "vs \<noteq> [] \<Longrightarrow> 0 < g" by blast+
qed

lemma merge_issue_new: "iss_IssueID i \<notin> iss_IssueID ` set xs \<Longrightarrow> merge_issue i xs = xs @ [i]"
  by (induction xs) auto

lemma fold_merge_distinct:
  "distinct (map iss_IssueID (xs @ is)) \<Longrightarrow> fold merge_issue is xs = xs @ is"
proof (induction "is" arbitrary: xs)
  case (Cons i "is")
  then have "merge_issue i xs = xs @ [i]" by (intro merge_issue_new) auto
  with Cons show ?case by simp
qed simp

lemma unique_issues_permuted:
  assumes "mset issues' = mset (bi_Issues input)"
    and "distinct (map (\<lambda>i. TrimSpace (iss_IssueID i)) (bi_Issues input))"
  shows "mset (unique_issues (input\<lparr>bi_Issues := issues'\<rparr>)) = mset (unique_issues input)"
proof -
  let ?f = "\<lambda>xs. filter (issue_usable (rp_Identity (bi_Project input))) (map trim_issue xs)"
  have d: "distinct (map iss_IssueID (?f xs))" if "distinct (map (\<lambda>i. TrimSpace (iss_IssueID i)) xs)" for xs
    using that by (induction xs) (auto simp: trim_issue_def)
  have "distinct (map (\<lambda>i. TrimSpace (iss_IssueID i)) issues')"
    using assms by (metis mset_eq_imp_distinct_iff mset_map)
  from d [OF this] d [OF assms(2)] have "unique_issues (input\<lparr>bi_Issues := issues'\<rparr>) = ?f issues'"
    "unique_issues input = ?f (bi_Issues input)"
    by (simp_all add: unique_issues_def fold_merge_distinct)
  moreover have "mset (?f issues') = mset (?f (bi_Issues input))"
    using assms(1) by (metis mset_filter mset_map)
  ultimately show ?thesis by simp
qed

lemma rankable_trim [simp]: "rankable (trim_issue i) = rankable i"
  by (simp add: rankable_def trim_issue_def)

lemma sort_unique_permuted:
  assumes "mset issues' = mset (bi_Issues input)"
    and "distinct (map (\<lambda>i. TrimSpace (iss_IssueID i)) (bi_Issues input))"
    and "\<forall>i \<in> set (bi_Issues input). rankable i"
  shows "sort_slice baseIssueLess (unique_issues (input\<lparr>bi_Issues := issues'\<rparr>)) =
    sort_slice baseIssueLess (unique_issues input)"
proof (rule issue_order.sort_slice_unique)
  have "rankable i" if "i \<in> set (unique_issues input)" for i
    using unique_issues_from [OF that] assms(3) by (metis rankable_trim)
  then show "set (unique_issues (input\<lparr>bi_Issues := issues'\<rparr>)) \<subseteq> Collect rankable"
    using mset_eq_setD [OF unique_issues_permuted [OF assms(1,2)]] by auto
  show "distinct (map iss_IssueID (unique_issues (input\<lparr>bi_Issues := issues'\<rparr>)))"
    by (rule distinct_unique_issues)
qed (rule unique_issues_permuted [OF assms(1,2)])

text \<open>Nothing but \<open>selectIssues\<close> reads the issues of the input.\<close>

lemma Build_reads_issues:
  assumes "selectIssues (prepared_input (input\<lparr>bi_Issues := xs\<rparr>)) = selectIssues (prepared_input input)"
  shows "Build u (input\<lparr>bi_Issues := xs\<rparr>) = Build u input"
proof -
  have n: "prepared_input (input\<lparr>bi_Issues := xs\<rparr>) = (prepared_input input)\<lparr>bi_Issues := xs\<rparr>"
    by (simp add: prepared_input_def Let_def)
  have c: "check_input (input\<lparr>bi_Issues := xs\<rparr>) = check_input input"
    by (simp add: check_input_def)
  have ir: "insight_rules u (i\<lparr>bi_Issues := xs\<rparr>) = insight_rules u i" for i
    by (intro ext) (simp add: insight_rules_def Let_def cong: if_cong)
  have r: "selectRules u (i\<lparr>bi_Issues := xs\<rparr>) issues = selectRules u i issues" for i issues
    unfolding selectRules_def ir Let_def by (simp cong: if_cong option.case_cong)
  have p: "assembled_pack u (i\<lparr>bi_Issues := xs\<rparr>) ex issues = assembled_pack u i ex issues" for i ex issues
    by (simp add: assembled_pack_def initial_pack_def r buildWarnings_def Let_def cong: if_cong)
  have d: "derivePackID (i\<lparr>bi_Issues := xs\<rparr>) pack = derivePackID i pack" for i pack
    by (simp add: derivePackID_def Let_def cong: if_cong option.case_cong)
  have f: "finish_pack (i\<lparr>bi_Issues := xs\<rparr>) pack = finish_pack i pack" for i pack
    by (simp add: finish_pack_def d Let_def cong: if_cong)
  show ?thesis using assms unfolding Build_def c n Let_def p d f by (simp cong: if_cong option.case_cong sum.case_cong)
qed

lemma pack_trap_lines:
  assumes i: "selectIssues (prepared_input input) = Inr issues"
    and f: "pack_from pack (assembled_pack u (prepared_input input) ex issues)"
    and d: "\<forall>issue \<in> set (bi_Issues input). \<forall>usd. cost_WastedUSD (iss_Cost issue) = Some usd \<longrightarrow> is_double usd"
    and t: "t \<in> set (pk_KnownTraps pack)"
  shows "length (trap_line t) \<le> 1540"
proof -
  obtain issue n where t: "issue \<in> set issues" "t = (buildKnownTrap issue)\<lparr>gi_Sources := take n (issueSources issue)\<rparr>"
    using pack_trap_from [OF f t] by blast
  obtain offered where "offered \<in> set (bi_Issues input)" "issue = trim_issue offered"
    using unique_issues_from [OF selectIssues_unique [OF i t(1)]] by auto
  with d have "\<forall>x. gi_WastedUSD t = Some x \<longrightarrow> is_double x"
    by (simp add: t(2) buildKnownTrap_def trim_issue_def)
  moreover have "md_bytes (gi_Title t) \<le> 1200"
    by (simp add: t(2) buildKnownTrap_def md_trap_title)
  ultimately show ?thesis by (rule length_trap_line [rotated])
qed

lemma pack_command_bytes:
  assumes f: "pack_from pack (assembled_pack u input ex issues)" and c: "c \<in> set (pk_Verification pack)"
  shows "md_bytes (ci_Command c) \<le> 1024"
proof -
  obtain m n where "m \<in> set (merged_commands (bi_Commands input) (bi_ProjectFiles input))"
    and c: "c = (command_item m)\<lparr>ci_Sources := take n (normalizeSources (mc_sources m) MaxSourcesPerItem)\<rparr>"
    using pack_command_from [OF f c] by blast
  then have "command_offered (bi_Commands input) (bi_ProjectFiles input) m" using merged_offered by blast
  then obtain v where "validCommand v = Some (mc_command m)" by (auto simp: command_offered_def)
  from md_command [OF this] show ?thesis by (simp add: c command_item_def)
qed

text \<open>A pack from which nothing more can be dropped fits.\<close>

lemma minimal_pack_fits:
  assumes c: "check_input input = None" and i: "selectIssues (prepared_input input) = Inr issues"
    and f: "pack_from pack (assembled_pack u (prepared_input input) [] issues)" and s: "settled pack"
    and m: "minimal pack"
    and d: "\<forall>issue \<in> set (bi_Issues input). \<forall>usd. cost_WastedUSD (iss_Cost issue) = Some usd \<longrightarrow> is_double usd"
  shows "withinBudget (renderMarkdown pack)"
proof (rule minimal_bytes [OF m])
  show "pk_Experiences pack = []" using pack_fromD(12) [OF f] by simp
  show "validIntent (pk_Intent pack)"
    using pack_fromD(9) [OF f] c by (simp add: check_input_def check_simps)
  show "pk_Completion pack = buildChecklist pack" using s by (simp add: settled_def)
  show "md_bytes (pj_Label (pk_Project pack)) \<le> 480" "md_bytes (pj_Branch (pk_Project pack)) \<le> 640"
    using pack_fromD(8) [OF f] md_oneLine [of _ 120] md_oneLine [of _ 160] by simp_all
  show "\<forall>t \<in> set (pk_KnownTraps pack). length (trap_line t) \<le> 1540"
    using pack_trap_lines [OF i f d] by blast
  show "\<forall>c \<in> set (pk_Verification pack). md_bytes (ci_Command c) \<le> 1024"
    using pack_command_bytes [OF f] by blast
qed

text \<open>The sources of the items.\<close>

lemma pack_guidance_sources:
  assumes f: "pack_from pack (assembled_pack u input ex issues)"
    and t: "t \<in> set (pk_KnownTraps pack) \<union> set (pk_OperatingRules pack)"
  shows "length (gi_Sources t) \<le> MaxSourcesPerItem"
  using t
proof
  assume "t \<in> set (pk_KnownTraps pack)"
  then obtain issue n where "t = (buildKnownTrap issue)\<lparr>gi_Sources := take n (issueSources issue)\<rparr>"
    using pack_trap_from [OF f] by blast
  then show ?thesis using take_bound [OF length_normalizeSources] by (simp add: issueSources_def Let_def)
next
  assume "t \<in> set (pk_OperatingRules pack)"
  from pack_rule_from [OF f this] show ?thesis by simp
qed

lemma pack_other_sources:
  assumes f: "pack_from pack (assembled_pack u input ex issues)"
  shows "c \<in> set (pk_Verification pack) \<Longrightarrow> length (ci_Sources c) \<le> MaxSourcesPerItem"
    and "x \<in> set (cx_Facts (pk_Context pack)) \<Longrightarrow> length (ctxf_Sources x) \<le> MaxSourcesPerItem"
proof -
  assume "c \<in> set (pk_Verification pack)"
  then obtain v n where "c = (command_item v)\<lparr>ci_Sources := take n (normalizeSources (mc_sources v) MaxSourcesPerItem)\<rparr>"
    using pack_command_from [OF f] by blast
  then show "length (ci_Sources c) \<le> MaxSourcesPerItem" using take_bound [OF length_normalizeSources] by simp
next
  assume "x \<in> set (cx_Facts (pk_Context pack))"
  then obtain y where "y \<in> set (selectFacts (bi_Facts input))" "same_fact x y"
    using from_in [OF pack_fromD(4) [OF f]] by auto
  then show "length (ctxf_Sources x) \<le> MaxSourcesPerItem"
    using fact_sources [of y "bi_Facts input"] by (auto simp: same_fact_def min_def)
qed

section \<open>Properties\<close>

text \<open>C14: \<open>Build\<close> returns on every input. The loop of \<open>truncateToBudget\<close> has no bound of its own, and
  \<open>removeLowestNonAnchor\<close> would remove nothing if two traps cited the anchor issue; but with an anchor there is
  exactly one trap, and a blank anchor is no anchor.\<close>

theorem build_returns: "\<exists>result. Build u input = Some result"
  by (rule Build_total)

text \<open>C15: The Markdown of a pack is at most 6000 bytes and its estimate of tokens is the length divided by four,
  rounded up, at most 1500. If the costs of the issues are doubles, the Markdown is never cut in the middle:
  it is exactly the rendering of the pack, because what is left when nothing more can be dropped always fits.\<close>

theorem pack_fits_budget:
  assumes "Build u input = Some (Inr pack)"
  shows "length (pk_RenderedMarkdown pack) \<le> 6000 \<and> pk_EstimatedTokens pack \<le> 1500 \<and>
    4 * pk_EstimatedTokens pack - 3 \<le> int (length (pk_RenderedMarkdown pack)) \<and>
    int (length (pk_RenderedMarkdown pack)) \<le> 4 * pk_EstimatedTokens pack \<and>
    ((\<forall>issue \<in> set (bi_Issues input). \<forall>usd. cost_WastedUSD (iss_Cost issue) = Some usd \<longrightarrow> is_double usd) \<longrightarrow>
      pk_RenderedMarkdown pack = renderMarkdown pack)"
  using assms
proof (rule Build_result)
  fix ex issues
  let ?i = "prepared_input input"
  assume c: "check_input input = None" and i: "selectIssues ?i = Inr issues"
    and ex: "normalizeExperienceItems u (bi_ExperienceGeneration input) (bi_Experiences input) = Inr ex"
    and f: "pack_from pack (assembled_pack u ?i ex issues)" and s: "settled pack"
    and w: "withinBudget (renderMarkdown pack) \<or> ex = [] \<and> minimal pack"
    and md: "pk_RenderedMarkdown pack =
      (if withinBudget (renderMarkdown pack) then renderMarkdown pack else truncateMarkdown (renderMarkdown pack))"
    and t: "pk_EstimatedTokens pack = int (estimateTokens (pk_RenderedMarkdown pack))"
  have l: "length (pk_RenderedMarkdown pack) \<le> 6000"
    using md withinBudget_truncateMarkdown [of "renderMarkdown pack"] by (auto simp: withinBudget_iff)
  moreover have "int (estimateTokens m) \<le> 1500" if "length m \<le> 6000" for m
    using that by (simp add: estimateTokens_def)
  moreover have "4 * int (estimateTokens m) - 3 \<le> int (length m) \<and> int (length m) \<le> 4 * int (estimateTokens m)" for m
    by (simp add: estimateTokens_def) linarith
  moreover have "withinBudget (renderMarkdown pack)"
    if d: "\<forall>issue \<in> set (bi_Issues input). \<forall>usd. cost_WastedUSD (iss_Cost issue) = Some usd \<longrightarrow> is_double usd"
    using w minimal_pack_fits [OF c i _ s _ d] f by blast
  ultimately show ?thesis using md t by auto
qed

theorem pack_fits_budget_witness:
  "\<exists>pack. Build ascii_unicode sample_input = Some (Inr pack) \<and> length (pk_RenderedMarkdown pack) \<le> 6000 \<and>
     pk_RenderedMarkdown pack = renderMarkdown pack"
proof -
  obtain pack where p: "Build ascii_unicode sample_input = Some (Inr pack)" using sample_build by blast
  have "\<forall>issue \<in> set (bi_Issues sample_input). \<forall>usd. cost_WastedUSD (iss_Cost issue) = Some usd \<longrightarrow> is_double usd"
    by (simp add: sample_input_def issue_one_def issue_two_def sample_issue_def is_double_def)
  with pack_fits_budget [OF p] p show ?thesis by blast
qed



text \<open>C17: Without an anchor, the known traps of a pack are issues of the input that belong to the project and
  recurred in at least two sessions, at most one of each detector family; with an anchor there is exactly one
  trap, and it is the anchor issue.\<close>

theorem traps_recur:
  assumes "Build u input = Some (Inr pack)"
  shows "\<exists>issues. distinct (map (\<lambda>issue. detectorFamily (iss_DetectorID issue)) issues) \<and>
    (\<forall>t \<in> set (pk_KnownTraps pack). \<exists>issue \<in> set issues. gi_ID t = ''trap_'' @ shortDigest (iss_IssueID issue) \<and>
        gi_SessionCount t = issueSessionCount issue \<and> gi_Title t = knownTrapDisplayTitle issue) \<and>
    (\<forall>issue \<in> set issues. issue_usable (TrimSpace (rp_Identity (bi_Project input))) issue \<and>
        (\<exists>offered \<in> set (bi_Issues input). issue = trim_issue offered)) \<and>
    (if TrimSpace (req_IssueID (bi_Request input)) = [] then
       (\<forall>issue \<in> set issues. 2 \<le> issueSessionCount issue) \<and> (pk_KnownTraps pack = [] \<longleftrightarrow> issues = [])
     else length (pk_KnownTraps pack) = 1 \<and> map iss_IssueID issues = [TrimSpace (req_IssueID (bi_Request input))])"
  using assms
proof (rule Build_result)
  fix ex issues
  let ?i = "prepared_input input" and ?a = "TrimSpace (req_IssueID (bi_Request input))"
  assume i: "selectIssues ?i = Inr issues" and f: "pack_from pack (assembled_pack u ?i ex issues)"
  have a: "\<exists>issue \<in> set issues. gi_ID t = ''trap_'' @ shortDigest (iss_IssueID issue) \<and>
        gi_SessionCount t = issueSessionCount issue \<and> gi_Title t = knownTrapDisplayTitle issue"
    if "t \<in> set (pk_KnownTraps pack)" for t
  proof -
    obtain issue n where "issue \<in> set issues" "t = (buildKnownTrap issue)\<lparr>gi_Sources := take n (issueSources issue)\<rparr>"
      using pack_trap_from [OF f \<open>t \<in> set (pk_KnownTraps pack)\<close>] by blast
    then show ?thesis by (intro bexI [of _ issue]) (simp_all add: buildKnownTrap_def)
  qed
  have b: "issue_usable (TrimSpace (rp_Identity (bi_Project input))) issue \<and>
        (\<exists>offered \<in> set (bi_Issues input). issue = trim_issue offered)" if "issue \<in> set issues" for issue
    using unique_issues_from [OF selectIssues_unique [OF i that]] by (metis prepared_input_simps(2) prepared_input_simps(12))
  have n: "pk_KnownTraps pack = [] \<longleftrightarrow> issues = []" "length (pk_KnownTraps pack) \<le> length issues"
    using pack_fromD(5) [OF f] from_le [OF pack_fromD(1) [OF f]] by (auto simp: buildKnownTraps_def)
  show ?thesis
  proof (cases "?a = []")
    case True
    then show ?thesis using a b n selectIssues_recurring [OF i] by (intro exI [of _ issues]) simp
  next
    case False
    then obtain issue where "issues = [issue]" "iss_IssueID issue = ?a"
      using selectIssues_anchored [OF i] by auto
    moreover have "length (pk_KnownTraps pack) = 1"
      using n calculation(1) by (cases "pk_KnownTraps pack") auto
    ultimately show ?thesis using False a b by (intro exI [of _ issues]) simp
  qed
qed

lemma sample_trap:
  assumes "Build ascii_unicode sample_input = Some (Inr pack)"
  shows "pk_KnownTraps pack \<noteq> [] \<and> pk_Verification pack \<noteq> []"
  using assms
proof (rule Build_result)
  fix ex issues
  assume i: "selectIssues (prepared_input sample_input) = Inr issues"
    and f: "pack_from pack (assembled_pack ascii_unicode (prepared_input sample_input) ex issues)"
  have "issues = [issue_one, issue_two]" using i sample_selected by simp
  moreover have "selectVerification ascii_unicode (req_Intent (bi_Request sample_input)) (bi_Commands sample_input)
      (bi_ProjectFiles sample_input) \<noteq> []"
    using sample_commands by (simp add: sample_input_def)
  ultimately show ?thesis
    using pack_fromD(5,6) [OF f] by (simp add: buildKnownTraps_def)
qed

theorem traps_recur_witness:
  "\<exists>pack t. Build ascii_unicode sample_input = Some (Inr pack) \<and> t \<in> set (pk_KnownTraps pack) \<and>
     2 \<le> gi_SessionCount t"
proof -
  obtain pack where p: "Build ascii_unicode sample_input = Some (Inr pack)" using sample_build by blast
  have "TrimSpace (req_IssueID (bi_Request sample_input)) = []" by (simp add: sample_input_def)
  with traps_recur [OF p] have "\<forall>t \<in> set (pk_KnownTraps pack). 2 \<le> gi_SessionCount t" by auto
  with p sample_trap [OF p] show ?thesis by (metis list.set_sel(1))
qed







text \<open>C20: Every rule a pack proposes has text, targets an instruction file that the harness of the request
  reads, and comes with a confidence that is not below 0.8; without a harness there are no rules.\<close>

theorem rules_target_harness:
  assumes "Build u input = Some (Inr pack)"
  shows "\<forall>r \<in> set (pk_OperatingRules pack). gi_TargetFile r \<in> set (harness_files (req_Harness (bi_Request input))) \<and>
    gi_Guidance r \<noteq> [] \<and> (\<exists>c. gi_Confidence r = Some c \<and> \<not> float_less c highConfidence)"
  using assms
proof (rule Build_result)
  fix ex issues
  assume "pack_from pack (assembled_pack u (prepared_input input) ex issues)"
  from pack_rule_from [OF this] show ?thesis by (simp add: rule_ok_def)
qed

theorem rules_target_harness_witness:
  "\<exists>pack. Build ascii_unicode sample_input = Some (Inr pack) \<and>
     (\<forall>r \<in> set (pk_OperatingRules pack). gi_TargetFile r \<in> {''AGENTS.md'', ''.codex/rules/default.rules''})"
proof -
  obtain pack where p: "Build ascii_unicode sample_input = Some (Inr pack)" using sample_build by blast
  have "req_Harness (bi_Request sample_input) = PackHarnessCodex" by (simp add: sample_input_def)
  with p rules_target_harness [OF p] show ?thesis by auto
qed

text \<open>C18: Approved experiences are carried whole: a pack holds each experience of the request, trimmed and in
  order, none dropped and none cut; there are at most three, of at most 600 tokens together, each one approved
  by the user and from a positive generation. If they do not fit, \<open>Build\<close> fails instead.\<close>

theorem experiences_carried_whole:
  assumes "Build u input = Some (Inr pack)"
  shows "pk_Experiences pack = map trimmed_experience (bi_Experiences input) \<and> length (pk_Experiences pack) \<le> 3 \<and>
    sum_list (map experience_bytes (pk_Experiences pack)) \<le> 2400 \<and>
    (pk_Experiences pack \<noteq> [] \<longrightarrow> 0 < bi_ExperienceGeneration input \<and> pk_RenderedMarkdown pack = renderMarkdown pack) \<and>
    (\<forall>e \<in> set (pk_Experiences pack). ei_Authority e = ''user_approved'' \<and> 0 < ei_Version e \<and>
       ei_Guidance e \<noteq> [] \<and> length (ei_Guidance e) \<le> 2048)"
  using assms
proof (rule Build_result)
  fix ex issues
  assume n: "normalizeExperienceItems u (bi_ExperienceGeneration input) (bi_Experiences input) = Inr ex"
    and f: "pack_from pack (assembled_pack u (prepared_input input) ex issues)"
    and w: "withinBudget (renderMarkdown pack) \<or> ex = [] \<and> minimal pack"
    and md: "pk_RenderedMarkdown pack =
      (if withinBudget (renderMarkdown pack) then renderMarkdown pack else truncateMarkdown (renderMarkdown pack))"
  note r = normalizeExperienceItems_result [OF n]
  have e: "pk_Experiences pack = ex" using pack_fromD(12) [OF f] by simp
  have "ei_Authority (trimmed_experience v) = ''user_approved'' \<and> 0 < ei_Version (trimmed_experience v) \<and>
       ei_Guidance (trimmed_experience v) \<noteq> [] \<and> length (ei_Guidance (trimmed_experience v)) \<le> 2048"
    if "v \<in> set (bi_Experiences input)" for v
    using r(4) that by (auto simp: check_experience_item_def check_simps trimmed_experience_def Let_def)
  then have "\<forall>x \<in> set ex. ei_Authority x = ''user_approved'' \<and> 0 < ei_Version x \<and>
       ei_Guidance x \<noteq> [] \<and> length (ei_Guidance x) \<le> 2048"
    by (simp add: r(1))
  moreover have "sum_list (map experience_bytes ex) \<le> 2400" using r(3) by linarith
  moreover have "ex \<noteq> [] \<longrightarrow> 0 < bi_ExperienceGeneration input \<and> pk_RenderedMarkdown pack = renderMarkdown pack"
    using r(1,5) w md by auto
  ultimately show ?thesis using r(1,2) by (simp add: e)
qed

theorem experiences_carried_whole_witness:
  "\<exists>pack. Build ascii_unicode sample_approved = Some (Inr pack) \<and> pk_Experiences pack = [sample_experience]"
proof -
  obtain pack where p: "Build ascii_unicode sample_approved = Some (Inr pack)" using sample_approved_build by blast
  have "bi_Experiences sample_approved = [sample_experience]" by (simp add: sample_approved_def)
  with p experiences_carried_whole [OF p] show ?thesis by (simp add: sample_experience_trimmed)
qed

end
