(* ===== verification/Tokens.thy ===== *)
theory Tokens
  imports ReviewStore
begin

text \<open>
  The signed texts the store hands out and takes back: approval and lifecycle tokens
  (\<open>experience_approval_token.go\<close>, \<open>experience_lifecycle_token.go\<close>), tokens for actions on fixes
  (\<open>fix_token.go\<close>) and cursors into issue lists (\<open>issue_cursor.go\<close>) of \<open>internal/storage/local\<close>. \<open>now\<close> is
  \<open>s.nowUTC()\<close>; the row of the issue summary that names the current cursor epoch is a parameter.
\<close>

section \<open>Signed texts\<close>

datatype token_error =
    TokenInvalid | TokenExpired | KeyUnavailable | EncodeFailed | SnapshotExpired | EpochUnreadable

type_synonym 'a opened = "token_error + 'a"

definition signed_text :: "string \<Rightarrow> string \<Rightarrow> string" where
  "signed_text key body = base64_encode body @ CHR ''.'' # base64_encode (opaqueDigest key body)"

text \<open>The body and the signature of a text, before the signature is checked.\<close>

definition split_signed :: "nat \<Rightarrow> nat \<Rightarrow> string \<Rightarrow> (string \<times> string) option" where
  "split_signed limit bodyLimit token =
     (if token = [] \<or> limit < length token then None
      else case split_on (CHR ''.'') token of
          [first, second] \<Rightarrow>
            (case base64_decode first of
               None \<Rightarrow> None
             | Some body \<Rightarrow>
                 if body = [] \<or> bodyLimit < length body then None
                 else map_option (\<lambda>signature. (body, signature)) (base64_decode second))
        | _ \<Rightarrow> None)"

definition open_signed :: "store_keys \<Rightarrow> string \<Rightarrow> nat \<Rightarrow> string \<Rightarrow> string opened" where
  "open_signed keys domain limit token =
     (case split_signed limit limit token of
        None \<Rightarrow> Inl TokenInvalid
      | Some (body, signature) \<Rightarrow>
          (case derivedKey keys domain of
             None \<Rightarrow> Inl KeyUnavailable
           | Some key \<Rightarrow> if signature \<noteq> opaqueDigest key body then Inl TokenInvalid else Inr body))"

definition sign_json :: "store_keys \<Rightarrow> string \<Rightarrow> json \<Rightarrow> string opened" where
  "sign_json keys domain payload =
     (case render payload of
        None \<Rightarrow> Inl EncodeFailed
      | Some body \<Rightarrow>
          (case derivedKey keys domain of None \<Rightarrow> Inl KeyUnavailable | Some key \<Rightarrow> Inr (signed_text key body)))"

section \<open>Approval tokens\<close>

definition maxExperienceApprovalTokenBytes :: nat where "maxExperienceApprovalTokenBytes = 4096"

definition approval_payload :: "ApprovalTokenClaims \<Rightarrow> json" where
  "approval_payload claims = JObj
     [(''v'', JStr (atc_Version claims)), (''c'', JStr (atc_CandidateID claims)),
      (''p'', JStr (atc_ProposalID claims)), (''j'', JStr (atc_ProjectIdentity claims)),
      (''i'', JStr (atc_SemanticInputHash claims)), (''h'', JStr (atc_ProposedContentHash claims)),
      (''g'', JStr (atc_EvidenceGeneration claims)),
      (''a'', JStr (formatProjectionTime (atc_IssuedAt claims))),
      (''e'', JStr (formatProjectionTime (atc_ExpiresAt claims)))]"

definition approval_fields :: "(string \<times> field_kind) list" where
  "approval_fields = map (\<lambda>n. (n, TextField)) [''v'', ''c'', ''p'', ''j'', ''i'', ''h'', ''g'', ''a'', ''e'']"

definition IssueExperienceApprovalToken :: "store_keys \<Rightarrow> ApprovalTokenClaims \<Rightarrow> string opened" where
  "IssueExperienceApprovalToken keys claims0 =
     (let claims = utc_claims claims0 in
      if \<not> validExperienceApprovalClaims claims then Inl TokenInvalid
      else sign_json keys experienceApprovalTokenKeyDomain (approval_payload claims))"

definition approval_claims :: "(string \<times> member) list \<Rightarrow> gotime \<Rightarrow> gotime \<Rightarrow> ApprovalTokenClaims" where
  "approval_claims ms issuedAt expiresAt =
     \<lparr>atc_Version = field_text ms ''v'', atc_CandidateID = field_text ms ''c'',
      atc_ProposalID = field_text ms ''p'', atc_ProjectIdentity = field_text ms ''j'',
      atc_SemanticInputHash = field_text ms ''i'', atc_ProposedContentHash = field_text ms ''h'',
      atc_EvidenceGeneration = field_text ms ''g'', atc_IssuedAt = issuedAt, atc_ExpiresAt = expiresAt\<rparr>"

text \<open>The claims in a body, before the expiry is looked at.\<close>

definition read_approval :: "string \<Rightarrow> ApprovalTokenClaims option" where
  "read_approval body =
     (case strict_decode approval_fields body of
        None \<Rightarrow> None
      | Some ms \<Rightarrow>
          (case parse_projection (field_text ms ''a'') of
             None \<Rightarrow> None
           | Some issuedAt \<Rightarrow>
               (case parse_projection (field_text ms ''e'') of
                  None \<Rightarrow> None
                | Some expiresAt \<Rightarrow>
                    let claims = approval_claims ms issuedAt expiresAt in
                    if \<not> validExperienceApprovalClaims claims then None else Some claims)))"

definition DecodeExperienceApprovalToken ::
  "store_keys \<Rightarrow> gotime \<Rightarrow> string \<Rightarrow> ApprovalTokenClaims opened" where
  "DecodeExperienceApprovalToken keys now token =
     (case open_signed keys experienceApprovalTokenKeyDomain maxExperienceApprovalTokenBytes token of
        Inl e \<Rightarrow> Inl e
      | Inr body \<Rightarrow>
          (case read_approval body of
             None \<Rightarrow> Inl TokenInvalid
           | Some claims \<Rightarrow> if After now (atc_ExpiresAt claims) then Inl TokenExpired else Inr claims))"

section \<open>Lifecycle tokens\<close>

definition maxExperienceLifecycleTokenBytes :: nat where "maxExperienceLifecycleTokenBytes = 4096"

definition LifecycleAction_of :: "string \<Rightarrow> LifecycleAction" where
  "LifecycleAction_of = enum_of [LifecycleActionActivate, LifecycleActionPause, LifecycleActionSupersede,
     LifecycleActionExpire] LifecycleAction_text LifecycleAction_other"

definition LifecycleState_of :: "string \<Rightarrow> LifecycleState" where
  "LifecycleState_of = enum_of [LifecycleCandidate, LifecycleApproved, LifecycleActive, LifecyclePaused,
     LifecycleContradicted, LifecycleSuperseded, LifecycleExpired, LifecycleRejected]
     LifecycleState_text LifecycleState_other"

definition utc_lifecycle_claims :: "LifecycleActionTokenClaims \<Rightarrow> LifecycleActionTokenClaims" where
  "utc_lifecycle_claims claims = claims\<lparr>ltc_IssuedAt := time_UTC (ltc_IssuedAt claims),
     ltc_ExpiresAt := time_UTC (ltc_ExpiresAt claims)\<rparr>"

definition lifecycle_payload :: "LifecycleActionTokenClaims \<Rightarrow> json" where
  "lifecycle_payload claims = JObj
     [(''v'', JStr (ltc_Version claims)), (''a'', JStr (LifecycleAction_text (ltc_Action claims))),
      (''x'', JStr (xref_ExperienceID (ltc_Experience claims))),
      (''n'', JInt (xref_Version (ltc_Experience claims))), (''j'', JStr (ltc_ProjectIdentity claims)),
      (''s'', JStr (LifecycleState_text (ltc_CurrentLifecycle claims))),
      (''h'', JStr (ltc_ContentHash claims)),
      (''i'', JStr (formatProjectionTime (ltc_IssuedAt claims))),
      (''e'', JStr (formatProjectionTime (ltc_ExpiresAt claims)))]"

definition lifecycle_fields :: "(string \<times> field_kind) list" where
  "lifecycle_fields = (''n'', Int64Field) #
     map (\<lambda>n. (n, TextField)) [''v'', ''a'', ''x'', ''j'', ''s'', ''h'', ''i'', ''e'']"

definition IssueExperienceLifecycleToken :: "store_keys \<Rightarrow> LifecycleActionTokenClaims \<Rightarrow> string opened" where
  "IssueExperienceLifecycleToken keys claims0 =
     (let claims = utc_lifecycle_claims claims0 in
      if \<not> validExperienceLifecycleClaims claims then Inl TokenInvalid
      else sign_json keys experienceLifecycleTokenKeyDomain (lifecycle_payload claims))"

definition lifecycle_claims ::
  "(string \<times> member) list \<Rightarrow> gotime \<Rightarrow> gotime \<Rightarrow> LifecycleActionTokenClaims" where
  "lifecycle_claims ms issuedAt expiresAt =
     \<lparr>ltc_Version = field_text ms ''v'', ltc_Action = LifecycleAction_of (field_text ms ''a''),
      ltc_Experience = ExperienceRef (field_text ms ''x'') (field_int ms ''n''),
      ltc_ProjectIdentity = field_text ms ''j'', ltc_CurrentLifecycle = LifecycleState_of (field_text ms ''s''),
      ltc_ContentHash = field_text ms ''h'', ltc_IssuedAt = issuedAt, ltc_ExpiresAt = expiresAt\<rparr>"

definition read_lifecycle :: "string \<Rightarrow> LifecycleActionTokenClaims option" where
  "read_lifecycle body =
     (case strict_decode lifecycle_fields body of
        None \<Rightarrow> None
      | Some ms \<Rightarrow>
          (case parse_projection (field_text ms ''i'') of
             None \<Rightarrow> None
           | Some issuedAt \<Rightarrow>
               (case parse_projection (field_text ms ''e'') of
                  None \<Rightarrow> None
                | Some expiresAt \<Rightarrow>
                    let claims = lifecycle_claims ms issuedAt expiresAt in
                    if \<not> validExperienceLifecycleClaims claims then None else Some claims)))"

definition DecodeExperienceLifecycleToken ::
  "store_keys \<Rightarrow> gotime \<Rightarrow> string \<Rightarrow> LifecycleActionTokenClaims opened" where
  "DecodeExperienceLifecycleToken keys now token =
     (case open_signed keys experienceLifecycleTokenKeyDomain maxExperienceLifecycleTokenBytes token of
        Inl e \<Rightarrow> Inl e
      | Inr body \<Rightarrow>
          (case read_lifecycle body of
             None \<Rightarrow> Inl TokenInvalid
           | Some claims \<Rightarrow> if After now (ltc_ExpiresAt claims) then Inl TokenExpired else Inr claims))"

section \<open>Fix action tokens\<close>

definition maxFixActionTokenBytes :: nat where "maxFixActionTokenBytes = 2048"
definition issueCursorLifetime :: int where "issueCursorLifetime = 15 * 60 * 1000000000"
definition FixActionTokenVersion :: string where "FixActionTokenVersion = ''belay.fix-action.v2''"
definition FixActionTokenVersionV1 :: string where "FixActionTokenVersionV1 = ''belay.fix-action.v1''"

record FixActionClaims =
  fac_Version :: string
  fac_CursorEpoch :: string
  fac_IssueID :: string
  fac_Snapshot :: int
  fac_RetentionGeneration :: int
  fac_IssuedAt :: gotime
  fac_ExpiresAt :: gotime

record epoch_row =
  ep_Epoch :: string
  ep_Readiness :: string
  ep_Current :: int
  ep_Materialized :: int

definition currentIssueCursorEpoch :: "epoch_row option \<Rightarrow> string opened" where
  "currentIssueCursorEpoch row =
     (case row of
        None \<Rightarrow> Inl EpochUnreadable
      | Some r \<Rightarrow>
          if ep_Epoch r = [] \<or> ep_Readiness r \<noteq> ''ready'' \<or> ep_Materialized r \<noteq> ep_Current r
          then Inl SnapshotExpired else Inr (ep_Epoch r))"

definition validFixActionClaims :: "FixActionClaims \<Rightarrow> bool" where
  "validFixActionClaims claims \<longleftrightarrow>
     fac_Version claims = FixActionTokenVersion \<and> fac_CursorEpoch claims \<noteq> [] \<and>
     validIssueID (fac_IssueID claims) \<and> 0 < fac_Snapshot claims \<and> 0 < fac_RetentionGeneration claims \<and>
     \<not> IsZero (fac_IssuedAt claims) \<and> \<not> IsZero (fac_ExpiresAt claims) \<and>
     After (fac_ExpiresAt claims) (fac_IssuedAt claims) \<and>
     time_Sub (fac_ExpiresAt claims) (fac_IssuedAt claims) \<le> issueCursorLifetime"

definition utc_fix_claims :: "FixActionClaims \<Rightarrow> FixActionClaims" where
  "utc_fix_claims claims = claims\<lparr>fac_IssuedAt := time_UTC (fac_IssuedAt claims),
     fac_ExpiresAt := time_UTC (fac_ExpiresAt claims)\<rparr>"

definition fix_payload :: "FixActionClaims \<Rightarrow> json" where
  "fix_payload claims = JObj
     [(''v'', JStr (fac_Version claims)), (''x'', JStr (fac_CursorEpoch claims)),
      (''i'', JStr (fac_IssueID claims)), (''s'', JInt (fac_Snapshot claims)),
      (''r'', JInt (fac_RetentionGeneration claims)),
      (''a'', JStr (formatProjectionTime (fac_IssuedAt claims))),
      (''e'', JStr (formatProjectionTime (fac_ExpiresAt claims)))]"

definition fix_fields :: "(string \<times> field_kind) list" where
  "fix_fields = [(''s'', Int64Field), (''r'', Int64Field)] @
     map (\<lambda>n. (n, TextField)) [''v'', ''x'', ''i'', ''a'', ''e'']"

definition fix_fields_v1 :: "(string \<times> field_kind) list" where
  "fix_fields_v1 = (''s'', Int64Field) # map (\<lambda>n. (n, TextField)) [''v'', ''i'', ''a'', ''e'']"

definition IssueFixActionToken :: "store_keys \<Rightarrow> epoch_row option \<Rightarrow> FixActionClaims \<Rightarrow> string opened" where
  "IssueFixActionToken keys row claims0 =
     (let claims = utc_fix_claims claims0 in
      if \<not> validFixActionClaims claims then Inl TokenInvalid
      else case currentIssueCursorEpoch row of
          Inl e \<Rightarrow> Inl e
        | Inr epoch \<Rightarrow>
            if fac_CursorEpoch claims \<noteq> epoch then Inl TokenExpired
            else sign_json keys fixActionTokenKeyDomain (fix_payload claims))"

text \<open>
  A body of the first version is checked and then called expired. The version is read leniently first;
  a body with other than flat fields fails there or in the strict decoding, with the same error.
\<close>

definition read_fix_v1 :: "(string \<times> member) list \<Rightarrow> token_error" where
  "read_fix_v1 ms =
     (case parse_projection (field_text ms ''a'') of
        None \<Rightarrow> TokenInvalid
      | Some issuedAt \<Rightarrow>
          (case parse_projection (field_text ms ''e'') of
             None \<Rightarrow> TokenInvalid
           | Some expiresAt \<Rightarrow>
               if \<not> validIssueID (field_text ms ''i'') \<or> field_int ms ''s'' < 1 \<or>
                  \<not> After expiresAt issuedAt \<or> issueCursorLifetime < time_Sub expiresAt issuedAt
               then TokenInvalid else TokenExpired))"

definition fix_claims :: "(string \<times> member) list \<Rightarrow> gotime \<Rightarrow> gotime \<Rightarrow> FixActionClaims" where
  "fix_claims ms issuedAt expiresAt =
     \<lparr>fac_Version = field_text ms ''v'', fac_CursorEpoch = field_text ms ''x'',
      fac_IssueID = field_text ms ''i'', fac_Snapshot = field_int ms ''s'',
      fac_RetentionGeneration = field_int ms ''r'', fac_IssuedAt = issuedAt, fac_ExpiresAt = expiresAt\<rparr>"

definition lenient_version :: "string \<Rightarrow> string option" where
  "lenient_version body =
     (case read_object body of
        None \<Rightarrow> None
      | Some (ms, rest) \<Rightarrow>
          if skip_space rest = [] \<and> list_all (\<lambda>(name, m). fold_name name = ''v'' \<longrightarrow> fits TextField m) ms
          then Some (field_text (map (apfst fold_name) ms) ''v'') else None)"

definition read_fix_v2 :: "string \<Rightarrow> FixActionClaims option" where
  "read_fix_v2 body =
     (case strict_decode fix_fields body of
        None \<Rightarrow> None
      | Some ms \<Rightarrow>
          (case parse_projection (field_text ms ''a'') of
             None \<Rightarrow> None
           | Some issuedAt \<Rightarrow>
               (case parse_projection (field_text ms ''e'') of
                  None \<Rightarrow> None
                | Some expiresAt \<Rightarrow>
                    let claims = fix_claims ms issuedAt expiresAt in
                    if \<not> validFixActionClaims claims then None else Some claims)))"

definition read_fix :: "string \<Rightarrow> FixActionClaims opened" where
  "read_fix body =
     (case lenient_version body of
        None \<Rightarrow> Inl TokenInvalid
      | Some version \<Rightarrow>
          if version = FixActionTokenVersionV1
          then (case strict_decode fix_fields_v1 body of
              None \<Rightarrow> Inl TokenInvalid | Some ms \<Rightarrow> Inl (read_fix_v1 ms))
          else (case read_fix_v2 body of None \<Rightarrow> Inl TokenInvalid | Some claims \<Rightarrow> Inr claims))"

definition DecodeFixActionToken :: "store_keys \<Rightarrow> epoch_row option \<Rightarrow> string \<Rightarrow> FixActionClaims opened" where
  "DecodeFixActionToken keys row token =
     (case open_signed keys fixActionTokenKeyDomain maxFixActionTokenBytes token of
        Inl e \<Rightarrow> Inl e
      | Inr body \<Rightarrow>
          (case read_fix body of
             Inl e \<Rightarrow> Inl e
           | Inr claims \<Rightarrow>
               (case currentIssueCursorEpoch row of
                  Inl e \<Rightarrow> Inl e
                | Inr epoch \<Rightarrow> if fac_CursorEpoch claims \<noteq> epoch then Inl TokenExpired else Inr claims)))"

section \<open>Cursors\<close>

definition maxIssueCursorBytes :: nat where "maxIssueCursorBytes = 16 * 1024"

definition SealIssueCursor :: "store_keys \<Rightarrow> string \<Rightarrow> string opened" where
  "SealIssueCursor keys payload =
     (if payload = [] \<or> maxIssueCursorBytes < length payload then Inl TokenInvalid
      else case derivedKey keys issueCursorKeyDomain of
          None \<Rightarrow> Inl KeyUnavailable
        | Some key \<Rightarrow> Inr (signed_text key payload))"

definition OpenIssueCursor :: "store_keys \<Rightarrow> string \<Rightarrow> string opened" where
  "OpenIssueCursor keys cursor =
     (case split_signed (2 * maxIssueCursorBytes) maxIssueCursorBytes cursor of
        None \<Rightarrow> Inl TokenInvalid
      | Some (payload, signature) \<Rightarrow>
          if base64_encode payload @ CHR ''.'' # base64_encode signature \<noteq> cursor then Inl TokenInvalid
          else case derivedKey keys issueCursorKeyDomain of
              None \<Rightarrow> Inl KeyUnavailable
            | Some key \<Rightarrow> if signature \<noteq> opaqueDigest key payload then Inl TokenInvalid else Inr payload)"

end
