(* ===== verification/TokenCodecs.thy ===== *)
theory TokenCodecs
  imports Tokens
begin

text \<open>
  What the tokens have in common, as a contract: claims are written as the members of an object, and
  reading the object gives valid claims back. The lemmas about issuing and decoding are proved once from
  it; the approval, the lifecycle and the fix tokens provide it.
\<close>

section \<open>Signed texts\<close>

lemma length_signed_text:
  "length (signed_text key body) = (8 * length body + 5) div 6 + 44"
  by (simp add: signed_text_def length_base64 opaqueDigest_def)

lemma split_signed_text:
  assumes "body \<noteq> []" "length body \<le> bodyLimit" "length (signed_text key body) \<le> limit"
  shows "split_signed limit bodyLimit (signed_text key body) = Some (body, opaqueDigest key body)"
proof -
  have "split_on (CHR ''.'') (signed_text key body) = [base64_encode body, base64_encode (opaqueDigest key body)]"
    by (simp add: signed_text_def split_on_app split_on_no_delim base64_no_dot)
  moreover have "signed_text key body \<noteq> []" by (simp add: signed_text_def)
  ultimately show ?thesis using assms by (simp add: split_signed_def)
qed

lemma open_signed_text:
  assumes "derivedKey keys domain = Some key" "body \<noteq> []" "length (signed_text key body) \<le> limit"
  shows "open_signed keys domain limit (signed_text key body) = Inr body"
proof -
  have "length body \<le> limit" using assms(3) unfolding length_signed_text by linarith
  with assms show ?thesis by (simp add: open_signed_def split_signed_text)
qed

lemma open_signedD:
  assumes "open_signed keys domain limit token = Inr body"
  obtains key where "derivedKey keys domain = Some key" "body \<noteq> []" "length body \<le> limit"
    "split_signed limit limit token = Some (body, opaqueDigest key body)"
  using assms by (auto simp: open_signed_def split_signed_def split: option.splits prod.splits if_splits list.splits)

lemma sign_json_members:
  "sign_json keys domain (JObj (map (apsnd member_json) ms)) =
    (case derivedKey keys domain of None \<Rightarrow> Inl KeyUnavailable
     | Some key \<Rightarrow> Inr (signed_text key (object_text ms)))"
  by (simp add: sign_json_def render_object del: render.simps)

section \<open>Claims as objects\<close>

locale signed_claims =
  fixes members :: "'c \<Rightarrow> (string \<times> member) list"
    and read :: "string \<Rightarrow> 'c option"
    and valid :: "'c \<Rightarrow> bool"
    and plain :: "'c \<Rightarrow> bool"
  assumes read_members: "valid c \<Longrightarrow> plain c \<Longrightarrow> read (object_text (members c)) = Some c"
    and read_valid: "read body = Some c \<Longrightarrow> valid c"
begin

lemma written_object: "object_text ms \<noteq> []"
  by (simp add: object_text_def)

lemma issued_opens:
  assumes "sign_json keys domain (JObj (map (apsnd member_json) (members c))) = Inr token"
    and "valid c" "plain c" "length token \<le> limit"
  shows "\<exists>body. open_signed keys domain limit token = Inr body \<and> read body = Some c"
proof -
  obtain key where key: "derivedKey keys domain = Some key"
    and token: "token = signed_text key (object_text (members c))"
    using assms(1) by (auto simp: sign_json_members split: option.splits)
  show ?thesis
    using open_signed_text [OF key written_object] assms(4) read_members [OF assms(2,3)] by (auto simp: token)
qed

end

section \<open>What the fields hold\<close>

definition plain_time :: "gotime \<Rightarrow> bool" where
  "plain_time t \<longleftrightarrow> mono t = None \<and> loc t = 0 \<and> json_time_ok t"

lemma plain_time_parse: "plain_time t \<Longrightarrow> parse_projection (formatProjectionTime t) = Some t"
  by (simp add: plain_time_def parse_formatted_time utc_at_def)

lemma plain_time_valid: "plain_time t \<Longrightarrow> ValidString (formatProjectionTime t)"
  by (simp add: plain_time_def formatted_shape)

lemma time_UTC_plain: "plain_time t \<Longrightarrow> time_UTC t = t"
  by (simp add: plain_time_def time_UTC_def)

lemma validIdentifier_ValidString: "validateIdentifier name v = None \<Longrightarrow> ValidString v"
  by (simp add: validateIdentifier_def check_simps)

lemma hex_decode_ascii: "hex_decode s \<noteq> None \<Longrightarrow> is_ascii s"
  by (induction s rule: hex_decode.induct)
    (auto simp: is_ascii_def hex_value_def Let_def split: option.splits if_splits)

lemma validSHA256_ValidString:
  assumes "validSHA256 v"
  shows "ValidString v"
proof -
  have "prefix ''sha256:'' v" "is_ascii (drop 7 v)"
    using assms hex_decode_ascii [of "drop 7 v"] by (simp_all add: validSHA256_def eval_nat_numeral)
  then have "is_ascii v"
    by (auto simp: prefix_def is_ascii_def) (simp_all add: byte_def)
  then show ?thesis by (rule ValidString_ascii)
qed

lemma field_names:
  "list_all (\<lambda>n. fold_name n = n \<and> ValidString n)
     [''v'', ''c'', ''p'', ''j'', ''i'', ''h'', ''g'', ''a'', ''e'', ''x'', ''n'', ''s'', ''r'']"
  by code_simp

section \<open>Approval tokens\<close>

definition approval_members :: "ApprovalTokenClaims \<Rightarrow> (string \<times> member) list" where
  "approval_members claims =
     [(''v'', JText (atc_Version claims)), (''c'', JText (atc_CandidateID claims)),
      (''p'', JText (atc_ProposalID claims)), (''j'', JText (atc_ProjectIdentity claims)),
      (''i'', JText (atc_SemanticInputHash claims)), (''h'', JText (atc_ProposedContentHash claims)),
      (''g'', JText (atc_EvidenceGeneration claims)),
      (''a'', JText (formatProjectionTime (atc_IssuedAt claims))),
      (''e'', JText (formatProjectionTime (atc_ExpiresAt claims)))]"

lemma approval_payload_members:
  "approval_payload claims = JObj (map (apsnd member_json) (approval_members claims))"
  by (simp add: approval_payload_def approval_members_def)

definition plain_approval :: "ApprovalTokenClaims \<Rightarrow> bool" where
  "plain_approval claims \<longleftrightarrow> plain_time (atc_IssuedAt claims) \<and> plain_time (atc_ExpiresAt claims)"

lemma approval_texts:
  assumes "validExperienceApprovalClaims claims"
  shows "ValidString (atc_Version claims)" "ValidString (atc_CandidateID claims)"
    "ValidString (atc_ProposalID claims)" "ValidString (atc_ProjectIdentity claims)"
    "ValidString (atc_SemanticInputHash claims)" "ValidString (atc_ProposedContentHash claims)"
    "ValidString (atc_EvidenceGeneration claims)"
proof -
  have "ValidString ApprovalTokenVersion" by code_simp
  then show "ValidString (atc_Version claims)" "ValidString (atc_CandidateID claims)"
    "ValidString (atc_ProposalID claims)" "ValidString (atc_ProjectIdentity claims)"
    "ValidString (atc_SemanticInputHash claims)" "ValidString (atc_ProposedContentHash claims)"
    "ValidString (atc_EvidenceGeneration claims)"
    using assms validIdentifier_ValidString
    by (auto simp: validExperienceApprovalClaims_def ApprovalTokenClaims_Validate_def check_simps
        validSHA256_ValidString)
qed

lemma read_approval_members:
  assumes "validExperienceApprovalClaims claims" "plain_approval claims"
  shows "read_approval (object_text (approval_members claims)) = Some claims"
proof -
  let ?ms = "approval_members claims"
  have "strict_decode approval_fields (object_text ?ms) = Some ?ms"
  proof (rule strict_decode_text)
    show "\<forall>f \<in> set ?ms. ValidString (fst f) \<and> plain_member (snd f) \<and> fold_name (fst f) = fst f \<and>
        (\<exists>k \<in> set approval_fields. fst k = fst f \<and> fits (snd k) (snd f))"
      using field_names approval_texts [OF assms(1)] assms(2)
      by (simp add: approval_members_def approval_fields_def plain_approval_def plain_time_valid)
  qed
  moreover have "field_text ?ms ''a'' = formatProjectionTime (atc_IssuedAt claims)"
    "field_text ?ms ''e'' = formatProjectionTime (atc_ExpiresAt claims)"
    by (simp_all add: field_text_def approval_members_def)
  moreover have "approval_claims ?ms (atc_IssuedAt claims) (atc_ExpiresAt claims) = claims"
    by (simp add: approval_claims_def field_text_def approval_members_def)
  ultimately show ?thesis
    using assms by (simp add: read_approval_def plain_approval_def plain_time_parse)
qed

lemma read_approval_valid: "read_approval body = Some claims \<Longrightarrow> validExperienceApprovalClaims claims"
  by (auto simp: read_approval_def Let_def split: option.splits if_splits)

interpretation approval_token: signed_claims approval_members read_approval validExperienceApprovalClaims
  plain_approval
  by unfold_locales (auto intro: read_approval_members read_approval_valid)

section \<open>Lifecycle tokens\<close>

definition lifecycle_members :: "LifecycleActionTokenClaims \<Rightarrow> (string \<times> member) list" where
  "lifecycle_members claims =
     [(''v'', JText (ltc_Version claims)), (''a'', JText (LifecycleAction_text (ltc_Action claims))),
      (''x'', JText (xref_ExperienceID (ltc_Experience claims))),
      (''n'', JWhole (xref_Version (ltc_Experience claims))), (''j'', JText (ltc_ProjectIdentity claims)),
      (''s'', JText (LifecycleState_text (ltc_CurrentLifecycle claims))),
      (''h'', JText (ltc_ContentHash claims)),
      (''i'', JText (formatProjectionTime (ltc_IssuedAt claims))),
      (''e'', JText (formatProjectionTime (ltc_ExpiresAt claims)))]"

lemma lifecycle_payload_members:
  "lifecycle_payload claims = JObj (map (apsnd member_json) (lifecycle_members claims))"
  by (simp add: lifecycle_payload_def lifecycle_members_def)

text \<open>The times carry no monotonic reading, and the version is a machine integer.\<close>

definition plain_lifecycle :: "LifecycleActionTokenClaims \<Rightarrow> bool" where
  "plain_lifecycle claims \<longleftrightarrow> plain_time (ltc_IssuedAt claims) \<and> plain_time (ltc_ExpiresAt claims) \<and>
     xref_Version (ltc_Experience claims) < 9223372036854775808"

lemma allowed_state:
  assumes "snd (TransitionFrom action state)"
  shows "LifecycleState_of (LifecycleState_text state) = state" "ValidString (LifecycleState_text state)"
proof -
  have "(\<forall>s. state \<noteq> LifecycleState_other s)" using assms
    by (cases action; cases state) auto
  moreover have "list_all (\<lambda>st. LifecycleState_of (LifecycleState_text st) = st \<and> ValidString (LifecycleState_text st))
     [LifecycleCandidate, LifecycleApproved, LifecycleActive, LifecyclePaused,
      LifecycleContradicted, LifecycleSuperseded, LifecycleExpired, LifecycleRejected]" by code_simp
  ultimately show "LifecycleState_of (LifecycleState_text state) = state"
    "ValidString (LifecycleState_text state)" by (cases state; simp)+
qed

lemma action_text:
  assumes "LifecycleAction_Valid action"
  shows "LifecycleAction_of (LifecycleAction_text action) = action" "ValidString (LifecycleAction_text action)"
proof -
  show "LifecycleAction_of (LifecycleAction_text action) = action"
    unfolding LifecycleAction_of_def by (rule LifecycleAction_enum.of_text [OF assms])
  have "list_all (\<lambda>a. ValidString (LifecycleAction_text a))
     [LifecycleActionActivate, LifecycleActionPause, LifecycleActionSupersede, LifecycleActionExpire]"
    by code_simp
  with assms show "ValidString (LifecycleAction_text action)" by (cases action) simp_all
qed

lemma lifecycle_texts:
  assumes "validExperienceLifecycleClaims claims"
  shows "ValidString (ltc_Version claims)" "ValidString (xref_ExperienceID (ltc_Experience claims))"
    "ValidString (ltc_ProjectIdentity claims)" "ValidString (ltc_ContentHash claims)"
    "1 \<le> xref_Version (ltc_Experience claims)" "LifecycleAction_Valid (ltc_Action claims)"
    "snd (TransitionFrom (ltc_Action claims) (ltc_CurrentLifecycle claims))"
proof -
  have "ValidString LifecycleActionTokenVersion" by code_simp
  then show "ValidString (ltc_Version claims)" "ValidString (xref_ExperienceID (ltc_Experience claims))"
    "ValidString (ltc_ProjectIdentity claims)" "ValidString (ltc_ContentHash claims)"
    "1 \<le> xref_Version (ltc_Experience claims)" "LifecycleAction_Valid (ltc_Action claims)"
    "snd (TransitionFrom (ltc_Action claims) (ltc_CurrentLifecycle claims))"
    using assms validIdentifier_ValidString
    by (auto simp: validExperienceLifecycleClaims_def LifecycleActionTokenClaims_Validate_def
        ExperienceRef_Validate_def check_simps validSHA256_ValidString)
qed

lemma read_lifecycle_members:
  assumes "validExperienceLifecycleClaims claims" "plain_lifecycle claims"
  shows "read_lifecycle (object_text (lifecycle_members claims)) = Some claims"
proof -
  let ?ms = "lifecycle_members claims"
  note texts = lifecycle_texts [OF assms(1)]
  note st = allowed_state [OF texts(7)] and act = action_text [OF texts(6)]
  have "strict_decode lifecycle_fields (object_text ?ms) = Some ?ms"
  proof (rule strict_decode_text)
    show "\<forall>f \<in> set ?ms. ValidString (fst f) \<and> plain_member (snd f) \<and> fold_name (fst f) = fst f \<and>
        (\<exists>k \<in> set lifecycle_fields. fst k = fst f \<and> fits (snd k) (snd f))"
      using field_names texts st act assms(2)
      by (simp add: lifecycle_members_def lifecycle_fields_def plain_lifecycle_def plain_time_valid)
  qed
  moreover have "field_text ?ms ''i'' = formatProjectionTime (ltc_IssuedAt claims)"
    "field_text ?ms ''e'' = formatProjectionTime (ltc_ExpiresAt claims)"
    by (simp_all add: field_text_def lifecycle_members_def)
  moreover have "lifecycle_claims ?ms (ltc_IssuedAt claims) (ltc_ExpiresAt claims) = claims"
    using st act by (simp add: lifecycle_claims_def field_text_def field_int_def lifecycle_members_def)
  ultimately show ?thesis
    using assms by (simp add: read_lifecycle_def plain_lifecycle_def plain_time_parse)
qed

lemma read_lifecycle_valid: "read_lifecycle body = Some claims \<Longrightarrow> validExperienceLifecycleClaims claims"
  by (auto simp: read_lifecycle_def Let_def split: option.splits if_splits)

interpretation lifecycle_token: signed_claims lifecycle_members read_lifecycle
  validExperienceLifecycleClaims plain_lifecycle
  by unfold_locales (auto intro: read_lifecycle_members read_lifecycle_valid)

section \<open>Fix tokens\<close>

definition fix_members :: "FixActionClaims \<Rightarrow> (string \<times> member) list" where
  "fix_members claims =
     [(''v'', JText (fac_Version claims)), (''x'', JText (fac_CursorEpoch claims)),
      (''i'', JText (fac_IssueID claims)), (''s'', JWhole (fac_Snapshot claims)),
      (''r'', JWhole (fac_RetentionGeneration claims)),
      (''a'', JText (formatProjectionTime (fac_IssuedAt claims))),
      (''e'', JText (formatProjectionTime (fac_ExpiresAt claims)))]"

lemma fix_payload_members: "fix_payload claims = JObj (map (apsnd member_json) (fix_members claims))"
  by (simp add: fix_payload_def fix_members_def)

definition plain_fix :: "FixActionClaims \<Rightarrow> bool" where
  "plain_fix claims \<longleftrightarrow> plain_time (fac_IssuedAt claims) \<and> plain_time (fac_ExpiresAt claims) \<and>
     ValidString (fac_CursorEpoch claims) \<and> fac_Snapshot claims < 9223372036854775808 \<and>
     fac_RetentionGeneration claims < 9223372036854775808"

lemma validIssueID_ValidString: "validIssueID v \<Longrightarrow> ValidString v"
proof -
  assume v: "validIssueID v"
  then obtain t where "v = ''iss_'' @ t" "list_all is_base32_lower t"
    by (auto simp: validIssueID_def base32_body_def prefix_def)
  then have "is_ascii v"
    by (auto simp: is_ascii_def is_base32_lower_def list_all_iff) (auto simp: byte_def)
  then show ?thesis by (rule ValidString_ascii)
qed

lemma read_fix_members:
  assumes "validFixActionClaims claims" "plain_fix claims"
  shows "read_fix_v2 (object_text (fix_members claims)) = Some claims"
    "lenient_version (object_text (fix_members claims)) = Some FixActionTokenVersion"
proof -
  let ?ms = "fix_members claims"
  have "ValidString FixActionTokenVersion" by code_simp
  then have valid: "ValidString (fac_Version claims)" using assms(1) by (simp add: validFixActionClaims_def)
  have ms: "\<forall>f \<in> set ?ms. ValidString (fst f) \<and> plain_member (snd f) \<and> fold_name (fst f) = fst f \<and>
        (\<exists>k \<in> set fix_fields. fst k = fst f \<and> fits (snd k) (snd f))"
    using field_names valid validIssueID_ValidString assms
    by (simp add: fix_members_def fix_fields_def plain_fix_def plain_time_valid validFixActionClaims_def)
  then have "strict_decode fix_fields (object_text ?ms) = Some ?ms" by (rule strict_decode_text)
  moreover have "field_text ?ms ''a'' = formatProjectionTime (fac_IssuedAt claims)"
    "field_text ?ms ''e'' = formatProjectionTime (fac_ExpiresAt claims)"
    by (simp_all add: field_text_def fix_members_def)
  moreover have "fix_claims ?ms (fac_IssuedAt claims) (fac_ExpiresAt claims) = claims"
    by (simp add: fix_claims_def field_text_def field_int_def fix_members_def)
  ultimately show "read_fix_v2 (object_text ?ms) = Some claims"
    using assms by (simp add: read_fix_v2_def plain_fix_def plain_time_parse)
  have "read_object (object_text ?ms) = Some (?ms, [])" using read_object_text [of ?ms "[]"] ms by simp
  moreover have "map (apfst fold_name) ?ms = ?ms" using field_names by (simp add: fix_members_def)
  moreover have "field_text ?ms ''v'' = FixActionTokenVersion"
    using assms(1) by (simp add: field_text_def fix_members_def validFixActionClaims_def)
  moreover have "list_all (\<lambda>(name, m). fold_name name = ''v'' \<longrightarrow> fits TextField m) ?ms"
    using field_names by (simp add: fix_members_def)
  ultimately show "lenient_version (object_text ?ms) = Some FixActionTokenVersion"
    by (simp add: lenient_version_def skip_space_def)
qed

lemma read_fix_v2_valid: "read_fix_v2 body = Some claims \<Longrightarrow> validFixActionClaims claims"
  by (auto simp: read_fix_v2_def Let_def split: option.splits if_splits)

definition read_fix_claims :: "string \<Rightarrow> FixActionClaims option" where
  "read_fix_claims body = (case read_fix body of Inl e \<Rightarrow> None | Inr claims \<Rightarrow> Some claims)"

interpretation fix_token: signed_claims fix_members read_fix_claims validFixActionClaims plain_fix
proof unfold_locales
  show "read_fix_claims (object_text (fix_members c)) = Some c"
    if "validFixActionClaims c" "plain_fix c" for c
    using read_fix_members [OF that]
    by (simp add: read_fix_claims_def read_fix_def FixActionTokenVersion_def FixActionTokenVersionV1_def)
  show "validFixActionClaims c" if "read_fix_claims body = Some c" for body c
    using that read_fix_v2_valid
    by (auto simp: read_fix_claims_def read_fix_def split: option.splits if_splits sum.splits)
qed

end
