(* ===== verification/ExperienceServices.thy ===== *)
theory ExperienceServices
  imports TokenCodecs
begin

text \<open>
  The application services that put the store and the tokens to use (\<open>internal/localapp\<close>): a user previews
  a lifecycle action or an approval and gets a token, and comes back with it
  (\<open>experience_lifecycle.go\<close>, \<open>experience_review.go\<close>, \<open>experience_conflict.go\<close>, \<open>experience_approval.go\<close>).
  The clocks are arguments: what \<open>service.now\<close> and the clock of the store read at each call. \<open>GetOutcome\<close>
  of the store is an argument too.
\<close>

datatype service_error =
    ServiceInvalidRequest | ServiceExpired | ServiceStale | ReviewMismatch | ReviewStaleProposal
  | ServiceFailed string | FromStore store_error | FromToken token_error | FromContract go_error

type_synonym 'a served = "service_error + 'a"

text \<open>\<open>t.Add(d)\<close>.\<close>

definition time_Add :: "gotime \<Rightarrow> int \<Rightarrow> gotime" where
  "time_Add t d = t\<lparr>wall_ns := wall_ns t + d, mono := map_option (\<lambda>m. m + d) (mono t)\<rparr>"

section \<open>Lifecycle actions\<close>

definition experienceLifecyclePreviewLifetime :: int where
  "experienceLifecyclePreviewLifetime = 15 * 60 * 1000000000"

record ExperienceLifecyclePreview =
  elp_Action :: LifecycleAction
  elp_Experience :: ExperienceRef
  elp_ProjectIdentity :: string
  elp_CurrentLifecycle :: LifecycleState
  elp_ContentHash :: string
  elp_ActionToken :: string
  elp_IssuedAt :: gotime
  elp_ExpiresAt :: gotime

fun map_lifecycle_error :: "reg_error \<Rightarrow> service_error" where
  "map_lifecycle_error ErrTokenInvalid = ServiceInvalidRequest"
| "map_lifecycle_error ErrTokenExpired = ServiceExpired"
| "map_lifecycle_error ErrActionStale = ServiceStale"
| "map_lifecycle_error ErrLifecycleConflict = ServiceStale"
| "map_lifecycle_error e = FromStore (ErrRegistry e)"

fun map_token_error :: "token_error \<Rightarrow> service_error" where
  "map_token_error TokenInvalid = ServiceInvalidRequest"
| "map_token_error TokenExpired = ServiceExpired"
| "map_token_error e = FromToken e"

definition lifecycleActionAllowed :: "LifecycleAction \<Rightarrow> LifecycleState \<Rightarrow> bool" where
  "lifecycleActionAllowed action current = snd (TransitionFrom action current)"

definition prepared_claims ::
  "gotime \<Rightarrow> StoredExperience \<Rightarrow> ExperienceRef \<Rightarrow> LifecycleAction \<Rightarrow> LifecycleActionTokenClaims" where
  "prepared_claims now stored ref action =
     \<lparr>ltc_Version = LifecycleActionTokenVersion, ltc_Action = action, ltc_Experience = ref,
      ltc_ProjectIdentity = scope_ProjectIdentity (xp_Scope (st_Experience stored)),
      ltc_CurrentLifecycle = st_CurrentLifecycle stored,
      ltc_ContentHash = xp_ContentHash (st_Experience stored), ltc_IssuedAt = utcTime now,
      ltc_ExpiresAt = time_Add (utcTime now) experienceLifecyclePreviewLifetime\<rparr>"

definition lifecycle_Prepare ::
  "store_keys \<Rightarrow> registry \<Rightarrow> gotime \<Rightarrow> ExperienceRef \<Rightarrow> LifecycleAction \<Rightarrow>
     ExperienceLifecyclePreview served" where
  "lifecycle_Prepare keys reg now ref action =
     (if \<not> LifecycleAction_Valid action then Inl ServiceInvalidRequest
      else case GetExperience reg ref of
          Inl e \<Rightarrow> Inl (map_lifecycle_error e)
        | Inr stored \<Rightarrow>
          if xp_ExperienceID (st_Experience stored) \<noteq> xref_ExperienceID ref \<or>
             xp_Version (st_Experience stored) \<noteq> xref_Version ref \<or>
             \<not> lifecycleActionAllowed action (st_CurrentLifecycle stored)
          then Inl ServiceStale
          else let claims = prepared_claims now stored ref action in
            (case IssueExperienceLifecycleToken keys claims of
               Inl e \<Rightarrow> Inl (map_token_error e)
             | Inr token \<Rightarrow> Inr
                 \<lparr>elp_Action = ltc_Action claims, elp_Experience = ltc_Experience claims,
                  elp_ProjectIdentity = ltc_ProjectIdentity claims,
                  elp_CurrentLifecycle = ltc_CurrentLifecycle claims, elp_ContentHash = ltc_ContentHash claims,
                  elp_ActionToken = token, elp_IssuedAt = ltc_IssuedAt claims,
                  elp_ExpiresAt = ltc_ExpiresAt claims\<rparr>))"

text \<open>
  \<open>decodeNow\<close> is read by the decoder, \<open>serviceNow\<close> by the service, \<open>now\<close> and \<open>transactionNow\<close> by the store.
  The methods \<open>Activate\<close>, \<open>Pause\<close>, \<open>Supersede\<close> and \<open>Expire\<close> are this for their action.
\<close>

definition lifecycle_apply ::
  "store_keys \<Rightarrow> json_codec \<Rightarrow> gotime \<Rightarrow> gotime \<Rightarrow> gotime \<Rightarrow> gotime \<Rightarrow> registry \<Rightarrow> ExperienceRef \<Rightarrow>
     LifecycleAction \<Rightarrow> string \<Rightarrow> string \<Rightarrow> (LifecycleTransition \<times> registry) served" where
  "lifecycle_apply keys js decodeNow serviceNow now transactionNow reg ref action actionToken actorID =
     (let token = TrimSpace actionToken; actor = TrimSpace actorID in
      if ExperienceRef_Validate ref \<noteq> None \<or> token = [] \<or> actor = [] then Inl ServiceInvalidRequest
      else case DecodeExperienceLifecycleToken keys decodeNow token of
          Inl e \<Rightarrow> Inl (map_token_error e)
        | Inr claims \<Rightarrow>
          if ltc_Experience claims \<noteq> ref \<or> ltc_Action claims \<noteq> action then Inl ServiceInvalidRequest
          else (case ApplyExperienceLifecycleAction js now transactionNow reg
              \<lparr>lai_Claims = claims, lai_ActorID = actor, lai_OccurredAt = utcTime serviceNow\<rparr> of
            Inl e \<Rightarrow> Inl (map_lifecycle_error e) | Inr r \<Rightarrow> Inr r))"

definition lifecycle_Activate where
  "lifecycle_Activate keys js decodeNow serviceNow now transactionNow reg ref =
     lifecycle_apply keys js decodeNow serviceNow now transactionNow reg ref LifecycleActionActivate"

definition lifecycle_Pause where
  "lifecycle_Pause keys js decodeNow serviceNow now transactionNow reg ref =
     lifecycle_apply keys js decodeNow serviceNow now transactionNow reg ref LifecycleActionPause"

definition lifecycle_Supersede where
  "lifecycle_Supersede keys js decodeNow serviceNow now transactionNow reg ref =
     lifecycle_apply keys js decodeNow serviceNow now transactionNow reg ref LifecycleActionSupersede"

definition lifecycle_Expire where
  "lifecycle_Expire keys js decodeNow serviceNow now transactionNow reg ref =
     lifecycle_apply keys js decodeNow serviceNow now transactionNow reg ref LifecycleActionExpire"

section \<open>Conflict preflight on the store\<close>

definition maxExperienceConflictQuery :: int where "maxExperienceConflictQuery = 500"

definition advised :: "ConflictAdvisory \<times> check \<Rightarrow> ConflictAdvisory served" where
  "advised r = (case snd r of None \<Rightarrow> Inr (fst r) | Some e \<Rightarrow> Inl (FromContract e))"

definition served_store :: "'a stored \<Rightarrow> 'a served" where
  "served_store r = (case r of Inl e \<Rightarrow> Inl (FromStore e) | Inr v \<Rightarrow> Inr v)"

definition active_of_project :: "string \<Rightarrow> StoredExperience list \<Rightarrow> Experience list served" where
  "active_of_project project stored =
     (case find (\<lambda>v. scope_ProjectIdentity (xp_Scope (st_Experience v)) \<noteq> project \<or>
            st_CurrentLifecycle v \<noteq> LifecycleActive) stored of
        None \<Rightarrow> Inr (map st_Experience stored)
      | Some v \<Rightarrow> Inl (ServiceFailed (if scope_ProjectIdentity (xp_Scope (st_Experience v)) \<noteq> project
            then ''experience conflict query returned another project''
            else ''active experience query returned an inactive experience'')))"

definition PreflightExperienceConflict :: "review_store \<Rightarrow> SemanticProposal \<Rightarrow> ConflictAdvisory served" where
  "PreflightExperienceConflict st proposal =
     (case SemanticProposal_Validate proposal of
        Some e \<Rightarrow> Inl (FromContract e)
      | None \<Rightarrow>
        and_then (served_store (from_registry
            (QueryActiveExperiences (rs_Registry st) (semp_ProjectIdentity proposal) maxExperienceConflictQuery)))
          (\<lambda>stored. and_then (active_of_project (semp_ProjectIdentity proposal) stored)
            (\<lambda>active. and_then (advised (PreflightSemanticProposalConflict proposal active))
              (\<lambda>result. if maxExperienceConflictQuery \<le> int (length stored)
                 then advised (MarkConflictActiveQueryCapReached result) else Inr result))))"

section \<open>Candidate reviews\<close>

text \<open>\<open>trajectory.Outcome\<close>; the named string types of its fields are strings.\<close>

record NodeRef =
  node_Kind :: string
  node_EventID :: string
  node_SessionKey :: string
  node_TurnIndex :: "int option"
  node_OutcomeID :: string
  node_ExperienceID :: string
  node_ExperienceVersion :: int
  node_ApplicationID :: string
  node_GitObject :: string

record Outcome =
  outc_SchemaVersion :: string
  outc_OutcomeID :: string
  outc_ProjectIdentity :: string
  outc_SessionKey :: string
  outc_OccurredAt :: gotime
  outc_Kind :: string
  outc_Result :: string
  outc_EvidenceClass :: string
  outc_Confidence :: string
  outc_SourceRefs :: "NodeRef list"
  outc_DerivationVersion :: string

definition ExperienceCandidateReviewSchemaVersion :: string where
  "ExperienceCandidateReviewSchemaVersion = ''belay.experience-review.v1''"
definition maxExperienceReviewEvidence :: nat where "maxExperienceReviewEvidence = 5"
definition maxExperienceCandidateReviews :: int where "maxExperienceCandidateReviews = 100"

record ExperienceCandidateReview =
  ecr_SchemaVersion :: string
  ecr_CandidateID :: string
  ecr_ProposalID :: string
  ecr_ProjectIdentity :: string
  ecr_Family :: CandidateFamily
  ecr_ObservedBehavior :: string
  ecr_UserFeedback :: string
  ecr_Proposed :: ExperienceProposal
  ecr_Evidence :: "EvidenceRef list"
  ecr_EvidenceTruncated :: bool
  ecr_Outcomes :: "Outcome list"
  ecr_SemanticProvenance :: SemanticProposalProvenance
  ecr_Conflict :: ConflictAdvisory
  ecr_ProposedContentHash :: string
  ecr_SemanticInputHash :: string
  ecr_EvidenceGeneration :: string
  ecr_Authority :: InstructionAuthority

definition boundedExperienceReviewEvidence :: "EvidenceRef list \<Rightarrow> EvidenceRef list \<times> bool" where
  "boundedExperienceReviewEvidence refs =
     (let available = filter (\<lambda>ref. TrimSpace (eref_Excerpt ref) \<noteq> []) (sort_key evidence_key refs);
          result = take maxExperienceReviewEvidence available
      in (result, length result < length available))"

fun review_outcomes ::
  "(string \<Rightarrow> Outcome stored) \<Rightarrow> string \<Rightarrow> string list \<Rightarrow> Outcome list served" where
  "review_outcomes getOutcome project [] = Inr []"
| "review_outcomes getOutcome project (i # ids) =
     and_then (served_store (getOutcome i))
       (\<lambda>outcome. if outc_OutcomeID outcome \<noteq> i \<or> outc_ProjectIdentity outcome \<noteq> project
          then Inl ReviewMismatch
          else and_then (review_outcomes getOutcome project ids) (\<lambda>outcomes. Inr (outcome # outcomes)))"

definition reviewOutcomes :: "(string \<Rightarrow> Outcome stored) \<Rightarrow> Candidate \<Rightarrow> Outcome list served" where
  "reviewOutcomes getOutcome candidate =
     review_outcomes getOutcome (cand_ProjectIdentity candidate) (sort (cand_OutcomeRefs candidate))"

text \<open>\<open>CanonicalContentHash\<close> panics when the proposal cannot be marshalled.\<close>

definition review_of ::
  "SemanticProposal \<Rightarrow> Candidate \<Rightarrow> Outcome list \<Rightarrow> ConflictAdvisory \<Rightarrow> string \<Rightarrow> ExperienceCandidateReview" where
  "review_of proposal candidate outcomes conflict hash =
     \<lparr>ecr_SchemaVersion = ExperienceCandidateReviewSchemaVersion, ecr_CandidateID = cand_CandidateID candidate,
      ecr_ProposalID = semp_ProposalID proposal, ecr_ProjectIdentity = cand_ProjectIdentity candidate,
      ecr_Family = cand_Family candidate, ecr_ObservedBehavior = cand_ObservedBehavior candidate,
      ecr_UserFeedback = cand_UserFeedback candidate, ecr_Proposed = semp_Proposal proposal,
      ecr_Evidence = fst (boundedExperienceReviewEvidence (evs_Refs (cand_Evidence candidate))),
      ecr_EvidenceTruncated = snd (boundedExperienceReviewEvidence (evs_Refs (cand_Evidence candidate))),
      ecr_Outcomes = outcomes, ecr_SemanticProvenance = semp_Provenance proposal, ecr_Conflict = conflict,
      ecr_ProposedContentHash = hash, ecr_SemanticInputHash = sprov_InputHash (semp_Provenance proposal),
      ecr_EvidenceGeneration = prov_InputHash (cand_Provenance candidate), ecr_Authority = AuthorityNone\<rparr>"

definition finished_review :: "ExperienceCandidateReview \<Rightarrow> ExperienceCandidateReview served" where
  "finished_review result =
     (if scope_ProjectIdentity (prop_Scope (ecr_Proposed result)) \<noteq> ecr_ProjectIdentity result \<or>
         adv_ProposalID (ecr_Conflict result) \<noteq> ecr_ProposalID result \<or> ecr_ProposedContentHash result = [] \<or>
         ecr_SemanticInputHash result = [] \<or> ecr_EvidenceGeneration result = []
      then Inl ReviewMismatch else Inr result)"

definition served_check :: "check \<Rightarrow> 'a served \<Rightarrow> 'a served" where
  "served_check c r = (case c of None \<Rightarrow> r | Some e \<Rightarrow> Inl (FromContract e))"

definition GetExperienceCandidateReview ::
  "(string \<Rightarrow> Outcome stored) \<Rightarrow> review_store \<Rightarrow> string \<Rightarrow> ExperienceCandidateReview served" where
  "GetExperienceCandidateReview getOutcome st proposalID =
     (if TrimSpace proposalID = []
      then Inl (ServiceFailed ''experience candidate review requires a store and proposal ID'')
      else and_then (served_store (GetExperienceSemanticProposal st proposalID)) (\<lambda>proposal.
        served_check (SemanticProposal_Validate proposal)
          (if sprov_PromptVersion (semp_Provenance proposal) \<noteq> SemanticProposalPromptVersion
           then Inl ReviewStaleProposal
           else and_then (served_store (from_registry
               (GetExperienceCandidate (rs_Registry st) (semp_CandidateID proposal)))) (\<lambda>candidate.
             served_check (Candidate_Validate candidate)
               (if cand_CandidateID candidate \<noteq> semp_CandidateID proposal \<or>
                   cand_ProjectIdentity candidate \<noteq> semp_ProjectIdentity proposal \<or>
                   cand_Authority candidate \<noteq> AuthorityNone \<or>
                   cand_LifecycleState candidate \<noteq> LifecycleCandidate
                then Inl ReviewMismatch
                else and_then (reviewOutcomes getOutcome candidate) (\<lambda>outcomes.
                  and_then (PreflightExperienceConflict st proposal) (\<lambda>conflict.
                  (case ExperienceProposal_CanonicalContentHash (semp_Proposal proposal) of
                     None \<Rightarrow> Inl (FromContract (Panic ''json.Marshal failed''))
                   | Some hash \<Rightarrow> finished_review (review_of proposal candidate outcomes conflict hash)))))))))"

definition reviewProvenanceHarnesses :: "Harness \<Rightarrow> Harness list" where
  "reviewProvenanceHarnesses harness =
     (if harness = HarnessCursor \<or> harness = HarnessAntigravity
      then [HarnessClaude, HarnessCodex, HarnessCursor, HarnessAntigravity] else [harness])"

definition proposalScopeAppliesTo :: "SemanticProposal \<Rightarrow> Harness \<Rightarrow> bool" where
  "proposalScopeAppliesTo proposal harness \<longleftrightarrow>
     (let scoped = scope_Harnesses (prop_Scope (semp_Proposal proposal)) in scoped = [] \<or> harness \<in> set scoped)"

text \<open>Stored times carry no monotonic reading, so that \<open>Equal\<close> and \<open>After\<close> compare instants.\<close>

definition generated_key :: "SemanticProposal \<Rightarrow> int \<times> string" where
  "generated_key p = (- wall_ns (sprov_GeneratedAt (semp_Provenance p)), semp_ProposalID p)"

definition proposalGeneratedAfter :: "SemanticProposal \<Rightarrow> SemanticProposal \<Rightarrow> bool" where
  "proposalGeneratedAfter candidate current \<longleftrightarrow> generated_key candidate < generated_key current"

text \<open>The map \<open>latest\<close>, by candidate, as the list of its values.\<close>

definition keep_latest :: "SemanticProposal list \<Rightarrow> SemanticProposal \<Rightarrow> SemanticProposal list" where
  "keep_latest latest proposal =
     (case find (\<lambda>p. semp_CandidateID p = semp_CandidateID proposal) latest of
        None \<Rightarrow> latest @ [proposal]
      | Some current \<Rightarrow>
          if proposalGeneratedAfter proposal current
          then map (\<lambda>p. if semp_CandidateID p = semp_CandidateID proposal then proposal else p) latest
          else latest)"

fun merge_engines ::
  "(Harness \<Rightarrow> SemanticProposal list stored) \<Rightarrow> Harness \<Rightarrow> Harness list \<Rightarrow> SemanticProposal list \<Rightarrow>
     SemanticProposal list served" where
  "merge_engines query harness [] latest = Inr latest"
| "merge_engines query harness (engine # engines) latest =
     and_then (served_store (query engine)) (\<lambda>proposals.
       merge_engines query harness engines
         (foldl keep_latest latest (filter (\<lambda>p. proposalScopeAppliesTo p harness) proposals)))"

definition queryPendingReviewProposals ::
  "gotime \<Rightarrow> review_store \<Rightarrow> string \<Rightarrow> Harness \<Rightarrow> Harness list \<Rightarrow> int \<Rightarrow> bool \<Rightarrow> SemanticProposal list served" where
  "queryPendingReviewProposals now st projectIdentity harness engines limit includeDeferred =
     (let query = (\<lambda>engine. QueryPendingCurrentExperienceSemanticProposals now st projectIdentity engine limit
            includeDeferred) in
      case engines of
        [engine] \<Rightarrow> served_store (query engine)
      | _ \<Rightarrow> and_then (merge_engines query harness engines [])
          (\<lambda>latest. Inr (take (nat limit) (sort_key generated_key latest))))"

fun review_all ::
  "(string \<Rightarrow> Outcome stored) \<Rightarrow> review_store \<Rightarrow> string \<Rightarrow> Harness list \<Rightarrow> SemanticProposal list \<Rightarrow>
     ExperienceCandidateReview list served" where
  "review_all getOutcome st projectIdentity engines [] = Inr []"
| "review_all getOutcome st projectIdentity engines (proposal # proposals) =
     and_then (GetExperienceCandidateReview getOutcome st (semp_ProposalID proposal)) (\<lambda>review.
       if ecr_ProjectIdentity review \<noteq> projectIdentity \<or>
          sprov_Harness (ecr_SemanticProvenance review) \<notin> set engines
       then Inl ReviewMismatch
       else and_then (review_all getOutcome st projectIdentity engines proposals)
         (\<lambda>reviews. Inr (review # reviews)))"

definition ListExperienceCandidateReviews ::
  "(string \<Rightarrow> Outcome stored) \<Rightarrow> gotime \<Rightarrow> review_store \<Rightarrow> string \<Rightarrow> Harness \<Rightarrow> int \<Rightarrow> bool \<Rightarrow>
     ExperienceCandidateReview list served" where
  "ListExperienceCandidateReviews getOutcome now st projectIdentity harness limit includeDeferred =
     (if TrimSpace projectIdentity = [] \<or> \<not> Harness_Valid harness \<or> limit < 1 \<or>
         maxExperienceCandidateReviews < limit
      then Inl (ServiceFailed ''experience candidate review list request is invalid'')
      else let engines = reviewProvenanceHarnesses harness in
        and_then (queryPendingReviewProposals now st projectIdentity harness engines limit includeDeferred)
          (review_all getOutcome st projectIdentity engines))"

section \<open>Approvals\<close>

definition experienceApprovalPreviewLifetime :: int where
  "experienceApprovalPreviewLifetime = 15 * 60 * 1000000000"

record ExperienceApprovalPreview =
  eap_Review :: ExperienceCandidateReview
  eap_ActionToken :: string
  eap_ExpiresAt :: gotime

record ExperienceApprovalWithContentRequest =
  awr_ProposalID :: string
  awr_ActionToken :: string
  awr_Actor :: string
  awr_Mode :: ApprovalMode
  awr_ApprovedContent :: ExperienceProposal

fun map_approval_error :: "store_error \<Rightarrow> service_error" where
  "map_approval_error ErrApprovalTokenInvalid = ServiceInvalidRequest"
| "map_approval_error (ErrApprovalInvalidContent e) = ServiceInvalidRequest"
| "map_approval_error ErrApprovalTokenExpired = ServiceExpired"
| "map_approval_error e = FromStore e"

definition review_claims :: "gotime \<Rightarrow> ExperienceCandidateReview \<Rightarrow> ApprovalTokenClaims" where
  "review_claims now review =
     \<lparr>atc_Version = ApprovalTokenVersion, atc_CandidateID = ecr_CandidateID review,
      atc_ProposalID = ecr_ProposalID review, atc_ProjectIdentity = ecr_ProjectIdentity review,
      atc_SemanticInputHash = ecr_SemanticInputHash review,
      atc_ProposedContentHash = ecr_ProposedContentHash review,
      atc_EvidenceGeneration = ecr_EvidenceGeneration review, atc_IssuedAt = utcTime now,
      atc_ExpiresAt = time_Add (utcTime now) experienceApprovalPreviewLifetime\<rparr>"

definition approval_Prepare ::
  "store_keys \<Rightarrow> (string \<Rightarrow> Outcome stored) \<Rightarrow> review_store \<Rightarrow> gotime \<Rightarrow> string \<Rightarrow>
     ExperienceApprovalPreview served" where
  "approval_Prepare keys getOutcome st now proposalID =
     and_then (GetExperienceCandidateReview getOutcome st (TrimSpace proposalID)) (\<lambda>review.
       (case IssueExperienceApprovalToken keys (review_claims now review) of
          Inl e \<Rightarrow> Inl (map_token_error e)
        | Inr token \<Rightarrow> Inr \<lparr>eap_Review = review, eap_ActionToken = token,
            eap_ExpiresAt = atc_ExpiresAt (review_claims now review)\<rparr>))"

definition decode_and_approve ::
  "store_keys \<Rightarrow> store_codec \<Rightarrow> gotime \<Rightarrow> gotime \<Rightarrow> gotime \<Rightarrow> review_store \<Rightarrow> string \<Rightarrow> string \<Rightarrow> string \<Rightarrow>
     ApprovalMode \<Rightarrow> ExperienceProposal \<Rightarrow> ((Experience \<times> bool) \<times> review_store) served" where
  "decode_and_approve keys sc decodeNow serviceNow now st proposalID token actor mode content =
     (case DecodeExperienceApprovalToken keys decodeNow token of
        Inl e \<Rightarrow> Inl (map_token_error e)
      | Inr claims \<Rightarrow>
        if atc_ProposalID claims \<noteq> proposalID then Inl ServiceInvalidRequest
        else (case ApproveExperienceProposal sc now st
            \<lparr>eai_Claims = claims, eai_ApprovedBy = actor, eai_ApprovedAt = utcTime serviceNow, eai_Mode = mode,
             eai_ApprovedProposal = content\<rparr> of
          Inl e \<Rightarrow> Inl (map_approval_error e) | Inr r \<Rightarrow> Inr r))"

text \<open>\<open>noContent\<close> is the zero value of \<open>ExperienceProposal\<close>; approving as proposed does not look at it.\<close>

definition ApproveAsProposed ::
  "store_keys \<Rightarrow> store_codec \<Rightarrow> ExperienceProposal \<Rightarrow> gotime \<Rightarrow> gotime \<Rightarrow> gotime \<Rightarrow> review_store \<Rightarrow> string \<Rightarrow>
     string \<Rightarrow> string \<Rightarrow> ((Experience \<times> bool) \<times> review_store) served" where
  "ApproveAsProposed keys sc noContent decodeNow serviceNow now st proposalID0 token0 approvedBy0 =
     (let proposalID = TrimSpace proposalID0; token = TrimSpace token0; approvedBy = TrimSpace approvedBy0 in
      if proposalID = [] \<or> token = [] \<or> approvedBy = [] then Inl ServiceInvalidRequest
      else decode_and_approve keys sc decodeNow serviceNow now st proposalID token approvedBy
        ApprovalAsProposed noContent)"

definition ApproveWithContent ::
  "store_keys \<Rightarrow> store_codec \<Rightarrow> gotime \<Rightarrow> gotime \<Rightarrow> gotime \<Rightarrow> review_store \<Rightarrow>
     ExperienceApprovalWithContentRequest \<Rightarrow> ((Experience \<times> bool) \<times> review_store) served" where
  "ApproveWithContent keys sc decodeNow serviceNow now st request =
     (let proposalID = TrimSpace (awr_ProposalID request); token = TrimSpace (awr_ActionToken request);
          actor = TrimSpace (awr_Actor request) in
      if proposalID = [] \<or> token = [] \<or> actor = [] \<or>
         (awr_Mode request \<noteq> ApprovalNarrowed \<and> awr_Mode request \<noteq> ApprovalUserEdited)
      then Inl ServiceInvalidRequest
      else decode_and_approve keys sc decodeNow serviceNow now st proposalID token actor (awr_Mode request)
        (awr_ApprovedContent request))"

end
