(* ===== verification/TokenLengths.thy ===== *)
theory TokenLengths
  imports TokenCodecs
begin

text \<open>
  How long the signed texts are: a token for a proposal that is named by its content always fits into the
  4096 bytes that the decoder accepts. The letters of a token are all visible, so that \<open>TrimSpace\<close> leaves
  it alone.
\<close>

section \<open>How long tokens are\<close>

definition escape_safe :: "char \<Rightarrow> bool" where
  "escape_safe c \<longleftrightarrow> 32 \<le> byte c \<and> byte c < 127 \<and>
     c \<notin> {CHR 0x22, CHR 0x5C, CHR ''<'', CHR ''>'', CHR ''&''}"

lemma escape_safe_text: "list_all escape_safe s \<Longrightarrow> escape_text s = s"
proof (induction s)
  case (Cons c s)
  then have c: "byte c < 128" "escape_ascii c = [c]"
    by (auto simp: escape_safe_def escape_ascii_def Let_def)
  then have "utf8_len (c # s) = 1" by (simp only: utf8_len_one)
  with Cons c show ?case
    by (simp add: escape_text.simps [of "c # s"] del: utf8_len.simps)
qed (simp add: escape_text.simps [of "[]"])

lemma length_escape_ascii: "length (escape_ascii c) \<le> 6"
  by (simp add: escape_ascii_def Let_def)

lemma length_escape_text: "length (escape_text s) \<le> 6 * length s"
proof (induction "length s" arbitrary: s rule: less_induct)
  case less
  show ?case
  proof (cases s)
    case Nil
    then show ?thesis by (simp add: escape_text.simps [of "[]"])
  next
    case (Cons c q)
    let ?n = "utf8_len s"
    have d: "length (escape_text (drop k s)) \<le> 6 * (length s - k)" if "0 < k" "k \<le> length s" for k
      using less [of "drop k s"] that Cons by simp
    have le: "?n \<le> length s" by (rule utf8_len_le)
    have one: "length (escape_text q) \<le> 6 * (length s - 1)" using less [of q] Cons by simp
    have long: "3 \<le> length s" if "take 3 s = bytes [226, 128, x]" for x
      using arg_cong [OF that, of length] by (simp add: bytes_def)
    show ?thesis
      using escape_text.simps [of s] Cons one d [of 3] d [of ?n] le long length_escape_ascii [of c]
      by (auto simp del: utf8_len.simps split: if_splits)
  qed
qed

lemma escape_safe_append [simp]: "list_all escape_safe (s @ t) \<longleftrightarrow> list_all escape_safe s \<and> list_all escape_safe t"
  by simp

lemma base32_safe: "list_all is_base32_lower s \<Longrightarrow> list_all escape_safe s"
proof (induction s)
  case (Cons c s)
  then have "byte c \<notin> {34, 92, 60, 62, 38}" by (auto simp: is_base32_lower_def)
  then have "c \<notin> {CHR 0x22, CHR 0x5C, CHR ''<'', CHR ''>'', CHR ''&''}" by (auto simp: byte_def)
  with Cons show ?case by (auto simp: escape_safe_def is_base32_lower_def)
qed simp

lemma hex_safe: "hex_decode s \<noteq> None \<Longrightarrow> list_all escape_safe s"
proof (induction s rule: hex_decode.induct)
  case (3 a b s)
  have "escape_safe c" if "hex_value c = Some x" for c x
  proof -
    have "48 \<le> byte c \<and> byte c \<le> 57 \<or> 97 \<le> byte c \<and> byte c \<le> 102 \<or> 65 \<le> byte c \<and> byte c \<le> 70"
      using that by (auto simp: hex_value_def Let_def split: if_splits)
    moreover from this have "byte c \<notin> {34, 92, 60, 62, 38}" by auto
    then have "c \<notin> {CHR 0x22, CHR 0x5C, CHR ''<'', CHR ''>'', CHR ''&''}" by (auto simp: byte_def)
    ultimately show ?thesis by (auto simp: escape_safe_def)
  qed
  with 3 show ?case by (auto split: option.splits)
qed simp_all

lemma hash_escape_length:
  assumes "validSHA256 v"
  shows "length (escape_text v) = 71"
proof -
  have "prefix ''sha256:'' v" "list_all escape_safe (drop 7 v)" and l: "length v = 71"
    using assms hex_safe [of "drop 7 v"] by (simp_all add: validSHA256_def eval_nat_numeral)
  moreover have "list_all escape_safe ''sha256:''" by (simp add: escape_safe_def byte_def)
  ultimately have "list_all escape_safe v" by (auto simp: prefix_def)
  with l show ?thesis by (simp add: escape_safe_text)
qed

lemma identifier_escape_length:
  assumes "is_identifier_of pre i" "length pre = 4" "list_all escape_safe pre"
  shows "length (escape_text i) = 56"
  using assms base32_safe by (auto simp: is_identifier_of_def escape_safe_text)

lemma time_escape_length: "plain_time t \<Longrightarrow> length (escape_text (formatProjectionTime t)) \<le> 180"
  using length_escape_text [of "formatProjectionTime t"] by (simp add: plain_time_def formatted_shape)

lemma project_escape_length: "validateIdentifier name v = None \<Longrightarrow> length (escape_text v) \<le> 1536"
  using length_escape_text [of v] by (simp add: validateIdentifier_def check_simps maxIdentifierBytes_def)

lemma string_text_length [simp]: "length (string_text s) = length (escape_text s) + 2"
  by (simp add: string_text_def)

lemma letters_safe: "list_all escape_safe [CHR ''v'', CHR ''c'', CHR ''p'', CHR ''j'', CHR ''i'', CHR ''h'',
    CHR ''g'', CHR ''a'', CHR ''e'', CHR ''x'', CHR ''n'', CHR ''s'']"
  by (simp add: escape_safe_def byte_def)

lemma letter_length [simp]: "escape_safe c \<Longrightarrow> length (escape_text [c]) = 1"
  by (simp add: escape_safe_text)

text \<open>Candidates and proposals are named by their content, so that a token for them always fits.\<close>

lemma approval_token_fits:
  assumes "validExperienceApprovalClaims claims" "plain_approval claims"
    and "is_identifier_of ''exc_'' (atc_CandidateID claims)" "is_identifier_of ''exs_'' (atc_ProposalID claims)"
  shows "length (signed_text key (object_text (approval_members claims))) \<le> 4096"
proof -
  have "list_all escape_safe ApprovalTokenVersion" "length ApprovalTokenVersion = 34"
    by (simp_all add: ApprovalTokenVersion_def escape_safe_def byte_def)
  then have "length (escape_text (atc_Version claims)) = 34"
    using assms(1) by (simp add: validExperienceApprovalClaims_def ApprovalTokenClaims_Validate_def check_simps
        escape_safe_text)
  moreover have "length (escape_text (atc_CandidateID claims)) = 56"
    "length (escape_text (atc_ProposalID claims)) = 56"
    using assms(3,4) by (auto intro!: identifier_escape_length simp: escape_safe_def byte_def)
  moreover have "length (escape_text (atc_ProjectIdentity claims)) \<le> 1536"
    "length (escape_text (atc_SemanticInputHash claims)) = 71"
    "length (escape_text (atc_ProposedContentHash claims)) = 71"
    "length (escape_text (atc_EvidenceGeneration claims)) = 71"
    using assms(1) project_escape_length
    by (auto simp: validExperienceApprovalClaims_def ApprovalTokenClaims_Validate_def check_simps
        hash_escape_length)
  moreover have "length (escape_text (formatProjectionTime (atc_IssuedAt claims))) \<le> 180"
    "length (escape_text (formatProjectionTime (atc_ExpiresAt claims))) \<le> 180"
    using assms(2) by (simp_all add: plain_approval_def time_escape_length)
  ultimately have "length (object_text (approval_members claims)) \<le> 3000"
    using letters_safe by (simp add: object_text_def approval_members_def member_text_def)
  then show ?thesis by (simp add: length_signed_text)
qed

text \<open>Signed texts have no space around them.\<close>

lemma base64_visible: "visible (base64_encode s)"
proof -
  have "visible base64_alphabet" "length base64_alphabet = 64"
    by (simp_all add: base64_alphabet_def visible_def byte_def)
  then show ?thesis
    using sextets_less by (auto simp: base64_encode_sextets visible_def list_all_length in_set_conv_nth)
qed

lemma signed_text_visible: "visible (signed_text key body)"
proof -
  have "visible [CHR ''.'']" by (simp add: visible_def byte_def)
  then show ?thesis
    using visible_append [of "[CHR ''.'']" "base64_encode (opaqueDigest key body)"]
    by (simp add: signed_text_def base64_visible)
qed

end
