(* ===== verification/TokenRules.thy ===== *)
theory TokenRules
  imports TokenLengths ReviewSamples
begin

text \<open>
  What the signed texts guarantee: what is handed out is accepted until it expires, what is accepted was
  signed with the key of its purpose and is valid, and no second text opens to the same cursor.
\<close>

section \<open>Material of identities\<close>

lemma of_char_word: "(of_char (char_of (uint (w :: 32 word))) :: 32 word) = take_bit 8 w"
proof -
  have "[0..<8] = [0, Suc 0, 2, 3, 4, 5, 6, 7 :: nat]" by (simp add: upt_eq_Cons_conv)
  then have "[bit w 0, bit w 1, bit w 2, bit w 3, bit w 4, bit w 5, bit w 6, bit w 7] = map (bit w) [0..<8]"
    by simp
  then have "of_char (char_of (uint w)) = (horner_sum of_bool 2 (map (bit w) [0..<8]) :: 32 word)"
    by (simp add: of_char_def char_of_def bit_uint_iff)
  then show ?thesis by (simp add: horner_sum_bit_eq_take_bit)
qed

lemma be_word_bytes: "be_word (be_bytes 4 (w :: 32 word)) = w"
proof -
  have "bit w n \<Longrightarrow> n < 32" for n by (rule bit_imp_le_length [where 'a = 32, simplified])
  then show ?thesis
    unfolding be_word_def be_bytes_def
    apply (simp add: upt_rec of_char_word)
    apply (rule bit_word_eqI)
    apply (auto simp: bit_simps)
    subgoal for n by (cases "16 \<le> n") auto
    subgoal for n by (cases "16 \<le> n"; cases "24 \<le> n"; cases "n < 32") auto
    subgoal for n by (cases "16 \<le> n"; cases "24 \<le> n"; cases "n < 32") auto
    done
qed

text \<open>Length prefixes make the concatenation of the values unambiguous.\<close>

lemma length_prefixed_step:
  "lengthPrefixed (v # vs) = be_bytes 4 (word_of_nat (length v) :: 32 word) @ v @ lengthPrefixed vs"
  by (simp add: lengthPrefixed_def)

lemma length_be_bytes: "length (be_bytes n w) = n"
  by (simp add: be_bytes_def)

lemma lengthPrefixed_inject:
  assumes "\<forall>v \<in> set vs. length v < 2 ^ 32" "\<forall>u \<in> set us. length u < 2 ^ 32"
    and "lengthPrefixed vs = lengthPrefixed us"
  shows "vs = us"
  using assms
proof (induction vs arbitrary: us)
  case Nil
  then have "length (lengthPrefixed us) = 0" by (simp add: lengthPrefixed_def)
  then show ?case by (cases us) (simp_all add: length_prefixed_step length_be_bytes)
next
  case (Cons v vs)
  show ?case
  proof (cases us)
    case Nil
    with Cons.prems(3) have "length (be_bytes 4 (word_of_nat (length v) :: 32 word)) = 0"
      by (auto simp: lengthPrefixed_def)
    then show ?thesis by (simp add: length_be_bytes)
  next
    case us: (Cons u us')
    have "be_bytes 4 (word_of_nat (length v) :: 32 word) = be_bytes 4 (word_of_nat (length u) :: 32 word)"
      and rest: "v @ lengthPrefixed vs = u @ lengthPrefixed us'"
      using Cons.prems(3) us by (simp_all add: length_prefixed_step length_be_bytes)
    then have "(word_of_nat (length v) :: 32 word) = word_of_nat (length u)"
      using be_word_bytes by metis
    moreover have "length v < 2 ^ 32" "length u < 2 ^ 32" using Cons.prems us by auto
    moreover have "unat (word_of_nat n :: 32 word) = n" if "n < 2 ^ 32" for n
      using that by (simp add: unat_of_nat)
    ultimately have "length v = length u" by metis
    with rest Cons us show ?thesis by auto
  qed
qed

section \<open>Keys, claims and tokens\<close>

definition keys0 :: store_keys where
  "keys0 = \<lparr>sk_Cipher = Some (replicate 32 (CHR ''k'')), sk_StoreID = ''s''\<rparr>"

definition approval_claims0 :: ApprovalTokenClaims where
  "approval_claims0 = token1\<lparr>atc_ExpiresAt := utc_at (wall_ns (day 2) + 900000000000)\<rparr>"

definition fix_claims0 :: FixActionClaims where
  "fix_claims0 = \<lparr>fac_Version = FixActionTokenVersion, fac_CursorEpoch = ''e'',
     fac_IssueID = ''iss_'' @ replicate 52 (CHR ''a''), fac_Snapshot = 7, fac_RetentionGeneration = 1,
     fac_IssuedAt = day 2, fac_ExpiresAt = utc_at (wall_ns (day 2) + 900000000000)\<rparr>"

definition row_at :: "string \<Rightarrow> epoch_row" where
  "row_at epoch = \<lparr>ep_Epoch = epoch, ep_Readiness = ''ready'', ep_Current = 7, ep_Materialized = 7\<rparr>"

lemma keys0_derive: "\<exists>key. derivedKey keys0 domain = Some key"
  by (simp add: derivedKey_def keys0_def)

lemma expiry0_facts: "json_time_ok (utc_at (63763372800000000000 + 900000000000))"
  "plain_time (day 2)" "plain_time (utc_at (wall_ns (day 2) + 900000000000))"
  "\<not> IsZero (utc_at (wall_ns (day 2) + 900000000000))" "\<not> IsZero (day 2)"
  "After (utc_at (wall_ns (day 2) + 900000000000)) (day 2)"
  "\<not> After (day 2) (utc_at (wall_ns (day 2) + 900000000000))"
  "time_Sub (utc_at (wall_ns (day 2) + 900000000000)) (day 2) = 900000000000"
proof -
  show j: "json_time_ok (utc_at (63763372800000000000 + 900000000000))" by code_simp
  show "plain_time (day 2)" by (simp add: plain_time_def)
  show "plain_time (utc_at (wall_ns (day 2) + 900000000000))"
    using j by (simp add: plain_time_def) (simp add: utc_at_def)
qed (simp_all add: utc_at_def After_def time_cmp_key_def IsZero_def time_Sub_def)

lemma approval_claims0_fields [simp]:
  "atc_Version approval_claims0 = ApprovalTokenVersion" "atc_CandidateID approval_claims0 = origin0"
  "atc_ProposalID approval_claims0 = semp_ProposalID semantic1" "atc_ProjectIdentity approval_claims0 = ''p''"
  "atc_SemanticInputHash approval_claims0 = digest0"
  "atc_ProposedContentHash approval_claims0 = content0 verifier_modified"
  "atc_EvidenceGeneration approval_claims0 = digest0" "atc_IssuedAt approval_claims0 = day 2"
  "atc_ExpiresAt approval_claims0 = utc_at (wall_ns (day 2) + 900000000000)"
  by (simp_all add: approval_claims0_def)

lemma approval_claims0_valid:
  "validExperienceApprovalClaims approval_claims0" "utc_claims approval_claims0 = approval_claims0"
  "plain_approval approval_claims0"
proof -
  show "validExperienceApprovalClaims approval_claims0"
    using expiry0_facts(4-8) content0_hash(2) [of verifier_modified]
    by (simp add: validExperienceApprovalClaims_def ApprovalTokenClaims_Validate_def check_simps
        experienceApprovalTokenLifetime_def)
  show p: "plain_approval approval_claims0"
    using expiry0_facts(2,3) by (simp add: plain_approval_def)
  then show "utc_claims approval_claims0 = approval_claims0"
    by (simp add: plain_approval_def utc_claims_def time_UTC_plain)
qed

lemma candidate_named: "Candidate_Validate c = None \<Longrightarrow> is_identifier_of ''exc_'' (cand_CandidateID c)"
proof -
  assume "Candidate_Validate c = None"
  then have "Candidate_DeterministicID c = Some (cand_CandidateID c)"
    by (simp add: Candidate_Validate_def check_simps)
  then show ?thesis unfolding Candidate_DeterministicID_def by (rule deterministicID_shape)
qed

lemma approval_token0:
  obtains token where "IssueExperienceApprovalToken keys0 approval_claims0 = Inr token" "length token \<le> 4096"
proof -
  obtain key where key: "derivedKey keys0 experienceApprovalTokenKeyDomain = Some key" using keys0_derive by blast
  let ?token = "signed_text key (object_text (approval_members approval_claims0))"
  have "Candidate_Validate (candidate0 [event_ref ''e1'']) = None" by (simp add: times_ok_no_time)
  then have "is_identifier_of ''exc_'' origin0"
    using candidate_named [of "candidate0 [event_ref ''e1'']"] by (simp only: candidate1_fields(1))
  then have "length ?token \<le> 4096"
    using approval_token_fits [OF approval_claims0_valid(1,3)] semantic1_id(1) by simp
  moreover have "IssueExperienceApprovalToken keys0 approval_claims0 = Inr ?token"
    using key approval_claims0_valid
    by (simp add: IssueExperienceApprovalToken_def approval_payload_members sign_json_members)
  ultimately show thesis by (rule that [rotated])
qed

lemma fix_claims0_valid: "validFixActionClaims fix_claims0" "utc_fix_claims fix_claims0 = fix_claims0"
  "plain_fix fix_claims0"
proof -
  have "validIssueID (''iss_'' @ replicate 52 (CHR ''a''))"
    by (simp add: validIssueID_def base32_body_def is_base32_lower_def byte_def list_all_iff)
  then show "validFixActionClaims fix_claims0"
    using expiry0_facts(4-8)
    by (simp add: validFixActionClaims_def fix_claims0_def issueCursorLifetime_def)
  have "ValidString ''e''" by code_simp
  then show p: "plain_fix fix_claims0"
    using expiry0_facts(2,3) by (simp add: plain_fix_def fix_claims0_def)
  then show "utc_fix_claims fix_claims0 = fix_claims0"
    by (simp add: plain_fix_def utc_fix_claims_def time_UTC_plain)
qed

lemma fix_token0:
  obtains token where "IssueFixActionToken keys0 (Some (row_at ''e'')) fix_claims0 = Inr token"
    "length token \<le> 2048"
proof -
  obtain key where key: "derivedKey keys0 fixActionTokenKeyDomain = Some key" using keys0_derive by blast
  let ?body = "object_text (fix_members fix_claims0)"
  have "length (escape_text ''e'') = 1" "length (escape_text ''r'') \<le> 6" "length (escape_text FixActionTokenVersion) \<le> 114"
    "length (escape_text (''iss_'' @ replicate 52 (CHR ''a''))) \<le> 336"
    using length_escape_text [of FixActionTokenVersion] length_escape_text [of "''r''"] length_escape_text [of "''iss_'' @ replicate 52 (CHR ''a'')"]
      letters_safe by (simp_all add: FixActionTokenVersion_def)
  moreover have "int_text 7 = ''7''" "int_text 1 = ''1''" by code_simp+
  ultimately have "length ?body \<le> 1000"
    using letters_safe time_escape_length [OF expiry0_facts(2)] time_escape_length [OF expiry0_facts(3)]
    by (simp add: object_text_def fix_members_def member_text_def fix_claims0_def)
  then have "length (signed_text key ?body) \<le> 2048" by (simp add: length_signed_text)
  moreover have "IssueFixActionToken keys0 (Some (row_at ''e'')) fix_claims0 = Inr (signed_text key ?body)"
    using key fix_claims0_valid
    by (simp add: IssueFixActionToken_def fix_payload_members sign_json_members currentIssueCursorEpoch_def
        row_at_def) (simp add: fix_claims0_def)
  ultimately show thesis by (rule that [rotated])
qed

section \<open>Cursors\<close>

text \<open>C11: A cursor has one text. \<open>OpenIssueCursor\<close> opens exactly the texts that \<open>SealIssueCursor\<close> makes: for
  every key, a text opens to a payload if and only if sealing that payload gives that very text, although
  the base64 decoder by itself also accepts texts with line breaks and with other spare bits at the end.\<close>

theorem cursor_opens_what_was_sealed:
  "OpenIssueCursor keys cursor = Inr payload \<longleftrightarrow> SealIssueCursor keys payload = Inr cursor"
proof
  assume "OpenIssueCursor keys cursor = Inr payload"
  then show "SealIssueCursor keys payload = Inr cursor"
    by (auto simp: OpenIssueCursor_def SealIssueCursor_def split_signed_def signed_text_def
        split: option.splits if_splits list.splits)
next
  assume s: "SealIssueCursor keys payload = Inr cursor"
  then obtain key where key: "derivedKey keys issueCursorKeyDomain = Some key"
    and cursor: "cursor = signed_text key payload" and p: "payload \<noteq> []" "length payload \<le> maxIssueCursorBytes"
    by (auto simp: SealIssueCursor_def split: option.splits if_splits)
  have "(8 * length payload + 5) div 6 + 44 \<le> 2 * maxIssueCursorBytes"
    using p(2) by (simp add: maxIssueCursorBytes_def)
  then have "split_signed (2 * maxIssueCursorBytes) maxIssueCursorBytes cursor =
      Some (payload, opaqueDigest key payload)"
    unfolding cursor by (intro split_signed_text p) (simp add: length_signed_text)
  then show "OpenIssueCursor keys cursor = Inr payload"
    using key by (simp add: OpenIssueCursor_def) (simp add: cursor signed_text_def)
qed

section \<open>Approval tokens\<close>

text \<open>C9: An approval token is good until it expires. A token issued for claims whose times carry no
  monotonic reading and lie in the years 0 to 9999 decodes, with the same keys, to exactly those claims as
  long as it has at most 4096 bytes and the clock has not passed its expiry; after that it is expired.\<close>

theorem approval_token_round_trip:
  assumes "IssueExperienceApprovalToken keys claims = Inr token"
    and "plain_time (atc_IssuedAt claims)" "plain_time (atc_ExpiresAt claims)" "length token \<le> 4096"
  shows "DecodeExperienceApprovalToken keys now token =
    (if After now (atc_ExpiresAt claims) then Inl TokenExpired else Inr claims)"
proof -
  have u: "utc_claims claims = claims" using assms(2,3) by (simp add: utc_claims_def time_UTC_plain)
  then have v: "validExperienceApprovalClaims claims"
    and s: "sign_json keys experienceApprovalTokenKeyDomain (JObj (map (apsnd member_json)
      (approval_members claims))) = Inr token"
    using assms(1) by (auto simp: IssueExperienceApprovalToken_def approval_payload_members split: if_splits)
  have "plain_approval claims" using assms(2,3) by (simp add: plain_approval_def)
  from approval_token.issued_opens [OF s v this assms(4)] show ?thesis
    by (auto simp: DecodeExperienceApprovalToken_def maxExperienceApprovalTokenBytes_def)
qed

theorem approval_token_round_trip_witness:
  "\<exists>token. IssueExperienceApprovalToken keys0 approval_claims0 = Inr token \<and>
    DecodeExperienceApprovalToken keys0 (day 2) token = Inr approval_claims0 \<and>
    DecodeExperienceApprovalToken keys0 (day 3) token = Inl TokenExpired"
proof -
  obtain token where t: "IssueExperienceApprovalToken keys0 approval_claims0 = Inr token" "length token \<le> 4096"
    by (rule approval_token0)
  have "plain_time (atc_IssuedAt approval_claims0)" "plain_time (atc_ExpiresAt approval_claims0)"
    using expiry0_facts(2,3) by simp_all
  note d = approval_token_round_trip [OF t(1) this t(2)]
  have "After (day 3) (utc_at (wall_ns (day 2) + 900000000000))"
    by (simp add: After_def time_cmp_key_def) (simp add: day_def utc_at_def)
  then show ?thesis using t(1) d [of "day 2"] d [of "day 3"] expiry0_facts(7) by simp
qed

text \<open>C8: What decodes was signed. When \<open>DecodeExperienceApprovalToken\<close> accepts a text, the part before the
  point is base64 of a body and the part after it of the keyed digest of that body under the key of
  approval tokens; the claims read from the body are valid, span at most 15 minutes and have not
  expired.\<close>

theorem decoded_approval_was_signed:
  assumes "DecodeExperienceApprovalToken keys now token = Inr claims"
  shows "\<exists>key first second body. derivedKey keys experienceApprovalTokenKeyDomain = Some key \<and>
      token = first @ CHR ''.'' # second \<and> CHR ''.'' \<notin> set first \<and> CHR ''.'' \<notin> set second \<and>
      base64_decode first = Some body \<and> base64_decode second = Some (hmac_sha256 key body) \<and>
      read_approval body = Some claims \<and> ApprovalTokenClaims_Validate claims = None \<and>
      time_Sub (atc_ExpiresAt claims) (atc_IssuedAt claims) \<le> 15 * 60 * 1000000000 \<and>
      \<not> After now (atc_ExpiresAt claims)"
proof -
  obtain body where o: "open_signed keys experienceApprovalTokenKeyDomain maxExperienceApprovalTokenBytes token
      = Inr body" and r: "read_approval body = Some claims" "\<not> After now (atc_ExpiresAt claims)"
    using assms by (auto simp: DecodeExperienceApprovalToken_def split: sum.splits option.splits if_splits)
  obtain key where k: "derivedKey keys experienceApprovalTokenKeyDomain = Some key"
    and s: "split_signed maxExperienceApprovalTokenBytes maxExperienceApprovalTokenBytes token =
      Some (body, opaqueDigest key body)"
    by (rule open_signedD [OF o])
  then obtain first second where p: "split_on (CHR ''.'') token = [first, second]"
    "base64_decode first = Some body" "base64_decode second = Some (hmac_sha256 key body)"
    by (auto simp: split_signed_def opaqueDigest_def split: list.splits option.splits if_splits)
  have "token = first @ CHR ''.'' # second" using join_split [of "CHR ''.''" token] p(1) by simp
  moreover have "CHR ''.'' \<notin> set first" "CHR ''.'' \<notin> set second"
    using split_on_segments [of _ "CHR ''.''" token] p(1) by auto
  moreover have "ApprovalTokenClaims_Validate claims = None"
    "time_Sub (atc_ExpiresAt claims) (atc_IssuedAt claims) \<le> 15 * 60 * 1000000000"
    using approval_token.read_valid [OF r(1)]
    by (simp_all add: validExperienceApprovalClaims_def experienceApprovalTokenLifetime_def)
  ultimately show ?thesis using k p r by blast
qed

theorem decoded_approval_was_signed_witness:
  "\<exists>token key first second body. DecodeExperienceApprovalToken keys0 (day 2) token = Inr approval_claims0 \<and>
    derivedKey keys0 experienceApprovalTokenKeyDomain = Some key \<and> token = first @ CHR ''.'' # second \<and>
    base64_decode first = Some body \<and> base64_decode second = Some (hmac_sha256 key body) \<and>
    read_approval body = Some approval_claims0"
proof -
  obtain token where t: "IssueExperienceApprovalToken keys0 approval_claims0 = Inr token" "length token \<le> 4096"
    by (rule approval_token0)
  have s: "sign_json keys0 experienceApprovalTokenKeyDomain (JObj (map (apsnd member_json)
      (approval_members approval_claims0))) = Inr token"
    using t(1) approval_claims0_valid(1,2)
    by (simp add: IssueExperienceApprovalToken_def approval_payload_members)
  from approval_token.issued_opens [OF s approval_claims0_valid(1,3) t(2)]
  have d: "DecodeExperienceApprovalToken keys0 (day 2) token = Inr approval_claims0"
    using expiry0_facts(7) by (auto simp: DecodeExperienceApprovalToken_def maxExperienceApprovalTokenBytes_def)
  from decoded_approval_was_signed [OF this] d show ?thesis by blast
qed

section \<open>Fix tokens\<close>

text \<open>C10: A token for an action on a fix is bound to the state of the issue list. A token issued while the
  list was at one epoch is accepted, and gives its claims back, exactly while the row of the issue summary
  is readable, ready, up to date and still names that epoch; otherwise it is expired or the epoch's error
  is reported.\<close>

theorem fix_token_bound_to_epoch:
  assumes "IssueFixActionToken keys row claims = Inr token"
    and "plain_fix claims" "length token \<le> 2048"
  shows "DecodeFixActionToken keys row' token =
    (case currentIssueCursorEpoch row' of
       Inl e \<Rightarrow> Inl e
     | Inr epoch \<Rightarrow> if epoch = fac_CursorEpoch claims then Inr claims else Inl TokenExpired)"
proof -
  have u: "utc_fix_claims claims = claims" using assms(2) by (simp add: utc_fix_claims_def plain_fix_def time_UTC_plain)
  then have v: "validFixActionClaims claims" and s: "sign_json keys fixActionTokenKeyDomain
      (JObj (map (apsnd member_json) (fix_members claims))) = Inr token"
    using assms(1) by (auto simp: IssueFixActionToken_def fix_payload_members split: if_splits sum.splits)
  obtain body where "open_signed keys fixActionTokenKeyDomain 2048 token = Inr body"
    and "read_fix_claims body = Some claims"
    using fix_token.issued_opens [OF s v assms(2,3)] by blast
  moreover from this have "read_fix body = Inr claims"
    by (cases "read_fix body") (simp_all add: read_fix_claims_def)
  ultimately show ?thesis
    by (cases "currentIssueCursorEpoch row'") (simp_all add: DecodeFixActionToken_def maxFixActionTokenBytes_def)
qed

theorem fix_token_bound_to_epoch_witness:
  "\<exists>token. IssueFixActionToken keys0 (Some (row_at ''e'')) fix_claims0 = Inr token \<and>
    DecodeFixActionToken keys0 (Some (row_at ''e'')) token = Inr fix_claims0 \<and>
    DecodeFixActionToken keys0 (Some (row_at ''f'')) token = Inl TokenExpired"
proof -
  obtain token where t: "IssueFixActionToken keys0 (Some (row_at ''e'')) fix_claims0 = Inr token"
    "length token \<le> 2048"
    by (rule fix_token0)
  from fix_token_bound_to_epoch [OF t(1) fix_claims0_valid(3) t(2)] t(1) show ?thesis
    by (simp add: currentIssueCursorEpoch_def row_at_def) (simp add: fix_claims0_def)
qed

text \<open>Tokens of the first version are never accepted: whatever is signed, a body that names the first
  version ends in an error, \<open>TokenExpired\<close> when it is otherwise a proper token of that version.\<close>

lemma first_version_is_expired:
  assumes "open_signed keys fixActionTokenKeyDomain maxFixActionTokenBytes token = Inr body"
    and "lenient_version body = Some FixActionTokenVersionV1"
  shows "DecodeFixActionToken keys row token \<in> {Inl TokenInvalid, Inl TokenExpired}"
  using assms by (auto simp: DecodeFixActionToken_def read_fix_def read_fix_v1_def split: option.splits)

end
