(* ===== verification/ServiceRules.thy ===== *)
theory ServiceRules
  imports ExperienceServices TokenRules ReviewRules
begin

text \<open>
  The services end to end: what a user approves is what the preview showed, and a prepared lifecycle action
  goes through while its token lives and nothing else happens to the experience.
\<close>

section \<open>Previews\<close>

lemma served_store_Inr [stored_simps]: "served_store r = Inr v \<longleftrightarrow> r = Inr v"
  by (auto simp: served_store_def split: sum.splits)

lemma served_check_Inr [stored_simps]: "served_check c r = Inr v \<longleftrightarrow> c = None \<and> r = Inr v"
  by (auto simp: served_check_def split: option.splits)

lemma served_if_Inr [stored_simps]: "(if b then Inl e else r) = Inr v \<longleftrightarrow> \<not> b \<and> r = Inr v"
  by simp

lemma option_Inr [stored_simps]:
  "(case x of None \<Rightarrow> Inl e | Some h \<Rightarrow> f h) = Inr v \<longleftrightarrow> (\<exists>h. x = Some h \<and> f h = Inr v)"
  by (cases x) auto

lemma review_found:
  assumes "GetExperienceCandidateReview getOutcome st i = Inr review"
  obtains proposal candidate hash where "select_proposal st i = Inr proposal"
    "SemanticProposal_Validate proposal = None" "Candidate_Validate candidate = None"
    "ecr_ProposalID review = semp_ProposalID proposal" "ecr_CandidateID review = cand_CandidateID candidate"
    "ecr_Proposed review = semp_Proposal proposal"
proof -
  obtain proposal candidate outcomes conflict hash where
    p: "GetExperienceSemanticProposal st i = Inr proposal" "SemanticProposal_Validate proposal = None"
    and c: "Candidate_Validate candidate = None"
    and f: "finished_review (review_of proposal candidate outcomes conflict hash) = Inr review"
    using assms by (simp add: GetExperienceCandidateReview_def stored_simps) blast
  have "review = review_of proposal candidate outcomes conflict hash"
    using f by (simp add: finished_review_def split: if_splits)
  moreover have "select_proposal st i = Inr proposal"
    using p(1) by (auto simp: GetExperienceSemanticProposal_def storage_identifier_def split: option.splits)
  ultimately show thesis using p c by (intro that) (simp_all add: review_of_def)
qed

lemma proposal_named: "SemanticProposal_Validate p = None \<Longrightarrow> is_identifier_of ''exs_'' (semp_ProposalID p)"
proof -
  assume "SemanticProposal_Validate p = None"
  then have "SemanticProposal_DeterministicID p = Some (semp_ProposalID p)"
    by (simp add: SemanticProposal_Validate_def check_simps)
  then show ?thesis unfolding SemanticProposal_DeterministicID_def by (rule deterministicID_shape)
qed

definition clock_in_range :: "gotime \<Rightarrow> bool" where
  "clock_in_range t \<longleftrightarrow> json_time_ok t \<and> json_time_ok (time_Add t experienceApprovalPreviewLifetime)"

lemma json_time_ok_wall: "wall_ns t = wall_ns u \<Longrightarrow> json_time_ok t = json_time_ok u"
  by (simp add: json_time_ok_def utc_year_def)

lemma preview_times_plain:
  assumes "clock_in_range now"
  shows "plain_time (utcTime now)" "plain_time (time_Add (utcTime now) experienceApprovalPreviewLifetime)"
    "plain_time (time_Add (utcTime now) experienceLifecyclePreviewLifetime)"
proof -
  have l: "experienceLifecyclePreviewLifetime = experienceApprovalPreviewLifetime"
    by (simp add: experienceLifecyclePreviewLifetime_def experienceApprovalPreviewLifetime_def)
  show "plain_time (utcTime now)"
    using assms json_time_ok_utcTime [of now] by (simp add: clock_in_range_def plain_time_def) (simp add: utcTime_def)
  show "plain_time (time_Add (utcTime now) experienceApprovalPreviewLifetime)"
    using assms json_time_ok_wall [of "time_Add (utcTime now) experienceApprovalPreviewLifetime"
        "time_Add now experienceApprovalPreviewLifetime"]
    by (simp add: clock_in_range_def plain_time_def) (simp add: utcTime_def time_Add_def)
  then show "plain_time (time_Add (utcTime now) experienceLifecyclePreviewLifetime)" by (simp only: l)
qed

lemma preview_decodes:
  assumes "approval_Prepare keys getOutcome st now i = Inr preview" "clock_in_range now"
  obtains review where "GetExperienceCandidateReview getOutcome st (TrimSpace i) = Inr review"
    "eap_Review preview = review" "visible (eap_ActionToken preview)" "eap_ActionToken preview \<noteq> []"
    "\<forall>later. DecodeExperienceApprovalToken keys later (eap_ActionToken preview) =
       (if After later (eap_ExpiresAt preview) then Inl TokenExpired else Inr (review_claims now review))"
proof -
  obtain review where r: "GetExperienceCandidateReview getOutcome st (TrimSpace i) = Inr review"
    and x: "(case IssueExperienceApprovalToken keys (review_claims now review) of
       Inl e \<Rightarrow> Inl (map_token_error e)
     | Inr token \<Rightarrow> Inr \<lparr>eap_Review = review, eap_ActionToken = token,
         eap_ExpiresAt = atc_ExpiresAt (review_claims now review)\<rparr>) = Inr preview"
    using assms(1) unfolding approval_Prepare_def and_then_Inr by blast
  then obtain token where t: "IssueExperienceApprovalToken keys (review_claims now review) = Inr token"
    and p: "preview = \<lparr>eap_Review = review, eap_ActionToken = token,
      eap_ExpiresAt = atc_ExpiresAt (review_claims now review)\<rparr>"
    by (cases "IssueExperienceApprovalToken keys (review_claims now review)") auto
  let ?c = "review_claims now review"
  have plain: "plain_approval ?c"
    using preview_times_plain [OF assms(2)] by (simp add: plain_approval_def review_claims_def)
  then have u: "utc_claims ?c = ?c" by (simp add: plain_approval_def utc_claims_def time_UTC_plain)
  with t obtain key where v: "validExperienceApprovalClaims ?c"
    and key: "token = signed_text key (object_text (approval_members ?c))"
    by (auto simp: IssueExperienceApprovalToken_def Let_def approval_payload_members sign_json_members
        split: if_splits option.splits)
  have s: "sign_json keys experienceApprovalTokenKeyDomain (JObj (map (apsnd member_json) (approval_members ?c)))
      = Inr token"
    using t u v by (simp add: IssueExperienceApprovalToken_def approval_payload_members)
  have "is_identifier_of ''exc_'' (atc_CandidateID ?c)" "is_identifier_of ''exs_'' (atc_ProposalID ?c)"
    using r candidate_named proposal_named by (auto elim!: review_found simp: review_claims_def)
  then have "length token \<le> maxExperienceApprovalTokenBytes"
    using approval_token_fits [OF v plain] by (simp add: key maxExperienceApprovalTokenBytes_def)
  from approval_token.issued_opens [OF s v plain this]
  have "DecodeExperienceApprovalToken keys later token =
      (if After later (atc_ExpiresAt ?c) then Inl TokenExpired else Inr ?c)" for later
    by (auto simp: DecodeExperienceApprovalToken_def)
  moreover have "token \<noteq> []" by (simp add: key signed_text_def)
  ultimately show thesis using r p signed_text_visible [of key] key by (intro that [OF r]) simp_all
qed

lemma proposal_stays:
  assumes "(review_step sc)\<^sup>*\<^sup>* empty_store st" "(review_step sc)\<^sup>*\<^sup>* st st'"
    and "select_proposal st i = Inr proposal"
  shows "select_proposal st' i = Inr proposal"
proof -
  have "prefix (rs_Proposals st) (rs_Proposals st')"
    using run_tables [OF assms(2)] reachable_facts(1) [OF assms(1)] by (simp add: grown_def)
  with assms(3) show ?thesis
    by (auto simp: select_proposal_def dest: find_prefix split: option.splits)
qed


section \<open>A preview and its approval\<close>

definition no_outcome :: "string \<Rightarrow> Outcome stored" where
  "no_outcome i = Inl (ErrRegistry ErrNoRows)"

definition advisory1 :: ConflictAdvisory where
  "advisory1 = \<lparr>adv_ProposalID = semp_ProposalID semantic1, adv_State = ConflictNoConflict,
     adv_ConflictingExperienceRefs = [], adv_ReasonCodes = [ConflictReasonNoActiveExperiences]\<rparr>"

definition review1 :: ExperienceCandidateReview where
  "review1 = review_of semantic1 (candidate0 [event_ref ''e1'']) [] advisory1 (content0 verifier_modified)"

lemma proposal_name1: "TrimSpace (semp_ProposalID semantic1) = semp_ProposalID semantic1"
  using proposal_id1(1) by (simp add: validateIdentifier_def check_simps)

lemma preflight1: "PreflightExperienceConflict store1 semantic1 = Inr advisory1"
proof -
  have "QueryActiveExperiences registry_with_candidate ''p'' 500 = Inr []"
    by (simp add: QueryActiveExperiences_def project_query_def validateProjectIdentity_def
        boundedRepositoryLimit_def maxExperienceQueryLimit_def active_rows_def registry_with_candidate_def)
  moreover have "ConflictAdvisory_Validate advisory1 = None"
    by (simp add: ConflictAdvisory_Validate_def advisory1_def check_simps hasQueryCapReason_def limit_defs maxConflictReasonCodes_def)
  moreover from this have "PreflightSemanticProposalConflict semantic1 [] = (advisory1, None)"
    by (simp add: PreflightSemanticProposalConflict_def advisory1_def [symmetric])
  ultimately show ?thesis
    by (simp add: PreflightExperienceConflict_def served_store_def from_registry_def active_of_project_def
        advised_def maxExperienceConflictQuery_def)
qed

lemma review1_read: "GetExperienceCandidateReview no_outcome store1 (semp_ProposalID semantic1) = Inr review1"
proof -
  let ?c = "candidate0 [event_ref ''e1'']"
  have p: "GetExperienceSemanticProposal store1 (semp_ProposalID semantic1) = Inr semantic1"
    using proposal1_selected proposal_name1 proposal_id1(1) [of "[]"]
    by (simp add: GetExperienceSemanticProposal_def storage_identifier_def validateStorageIdentifier_def
        validateIdentifier_def check_simps maxIdentifierBytes_def)
  have valid: "Candidate_Validate ?c = None" by (simp add: times_ok_no_time)
  have "is_identifier_of ''exc_'' origin0"
    using candidate_named [OF valid] by (simp only: candidate1_fields(1))
  then have "validateIdentifier [] origin0 = None" by (rule identifier_valid) (simp_all add: visible_def byte_def)
  then have c: "GetExperienceCandidate registry_with_candidate origin0 = Inr ?c"
    using candidate1_selected [of store1]
    by (simp add: GetExperienceCandidate_def validateStorageIdentifier_def validateIdentifier_def check_simps
        maxIdentifierBytes_def select_candidate_def from_registry_def split: option.splits sum.splits)
  have f: "cand_ProjectIdentity ?c = ''p''" "cand_Authority ?c = AuthorityNone"
    "cand_LifecycleState ?c = LifecycleCandidate" "cand_OutcomeRefs ?c = []"
    "prov_InputHash (cand_Provenance ?c) = digest0"
    by (simp_all add: candidate0_def Let_def provenance0_def)
  have s: "sprov_PromptVersion sprovenance1 = SemanticProposalPromptVersion" "sprov_InputHash sprovenance1 = digest0"
    by (simp_all add: sprovenance1_def sprovenance0_def)
  have "content0 verifier_modified \<noteq> []" "digest0 \<noteq> []"
    using content0_hash(2) [of verifier_modified] by (auto simp: validSHA256_def digest0_def)
  then have "finished_review review1 = Inr review1"
    using s f by (simp add: finished_review_def review1_def review_of_def advisory1_def)
  then show ?thesis
    using content0_hash(1) proposal_name1
    by (simp add: GetExperienceCandidateReview_def p c valid f s reviewOutcomes_def preflight1 served_store_def
        from_registry_def served_check_def review1_def)
qed

lemma claims1: "review_claims (day 2) review1 = approval_claims0"
proof -
  have "utcTime (day 2) = day 2" "time_Add (day 2) experienceApprovalPreviewLifetime =
      utc_at (wall_ns (day 2) + 900000000000)"
    by (simp_all add: utcTime_def time_Add_def experienceApprovalPreviewLifetime_def utc_at_def day_def)
  then show ?thesis
    by (simp add: review_claims_def review1_def review_of_def approval_claims0_def token1_def sprovenance1_def
        sprovenance0_def)
      (simp add: candidate0_def Let_def provenance0_def)
qed

lemma preview1:
  obtains preview where "approval_Prepare keys0 no_outcome store1 (day 2) (semp_ProposalID semantic1) = Inr preview"
    "eap_Review preview = review1"
    "IssueExperienceApprovalToken keys0 approval_claims0 = Inr (eap_ActionToken preview)"
proof -
  obtain token where "IssueExperienceApprovalToken keys0 approval_claims0 = Inr token" by (rule approval_token0)
  then show thesis
    by (intro that [of "\<lparr>eap_Review = review1, eap_ActionToken = token,
        eap_ExpiresAt = utc_at (wall_ns (day 2) + 900000000000)\<rparr>"])
      (simp_all add: approval_Prepare_def proposal_name1 review1_read claims1)
qed

lemma clock2: "clock_in_range (day 2)"
proof -
  have "time_Add (day 2) experienceApprovalPreviewLifetime = utc_at (63763372800000000000 + 900000000000)"
    by (simp add: time_Add_def experienceApprovalPreviewLifetime_def utc_at_def day_def)
  then show ?thesis using expiry0_facts(1) by (simp add: clock_in_range_def)
qed

lemma approval2_approves:
  "ApproveExperienceProposal sc0 (day 2) store1 (approval1\<lparr>eai_Claims := approval_claims0,
     eai_ApprovedProposal := c\<rparr>) = Inr ((experience1, False), store3)"
proof -
  let ?input = "approval1\<lparr>eai_Claims := approval_claims0, eai_ApprovedProposal := c\<rparr>"
  have i: "eai_Claims ?input = approval_claims0" "eai_ApprovedBy ?input = ''u''" "eai_ApprovedAt ?input = day 2"
    "eai_Mode ?input = ApprovalAsProposed" "normalized_approval ?input = ?input"
    using approval_claims0_valid(2) by (simp_all add: normalized_approval_def)
  have m: "approvalClaimsMatchCurrent approval_claims0 (candidate0 [event_ref ''e1'']) semantic1 = Some True"
    using token1_current by (auto simp: approvalClaimsMatchCurrent_def split: if_splits)
  have "approve_current sc0 store1 ?input (candidate0 [event_ref ''e1'']) semantic1 =
      approve_current sc0 store1 approval1 (candidate0 [event_ref ''e1'']) semantic1"
    by (simp add: approve_current_def approved_content_def i no_approval1 content0_hash(1))
  also have "\<dots> = Inr ((experience1, False), store3)" by (rule approval1_current)
  finally show ?thesis
    using approval_claims0_valid(1) expiry0_facts(4-7)
    by (simp add: ApproveExperienceProposal_def approve_in_transaction_def i m not_blocked1 Let_def Before_After
        proposal1_selected candidate1_selected)
qed

end
