(* ===== verification/ActionRules.thy ===== *)
theory ActionRules
  imports ServiceRules
begin

text \<open>
  A lifecycle action that has been previewed goes through: nothing but the expiry of its token, a change of
  the experience or a failing encoder can stop it.
\<close>

section \<open>The token fits\<close>

lemma digits_text_length: "i < 10 ^ n \<Longrightarrow> 0 < n \<Longrightarrow> length (digits_text i) \<le> n"
proof (induction n arbitrary: i)
  case (Suc n)
  show ?case
  proof (cases "i < 10")
    case True
    then show ?thesis by (simp add: digits_text.simps [of i])
  next
    case False
    then have "0 < n" using Suc.prems by (cases n) auto
    moreover have "i div 10 < 10 ^ n" using Suc.prems by auto
    ultimately show ?thesis using Suc.IH [of "i div 10"] False by (simp add: digits_text.simps [of i])
  qed
qed simp

lemma int_text_length: "0 \<le> i \<Longrightarrow> i < 9223372036854775808 \<Longrightarrow> length (int_text i) \<le> 19"
  using digits_text_length [of i 19] by (simp add: int_text_def)

lemma lifecycle_token_fits:
  assumes "validExperienceLifecycleClaims claims" "plain_lifecycle claims"
    and "is_identifier_of ''exp_'' (xref_ExperienceID (ltc_Experience claims))"
  shows "length (signed_text key (object_text (lifecycle_members claims))) \<le> 4096"
proof -
  have v: "LifecycleActionTokenClaims_Validate claims = None"
    using assms(1) by (simp add: validExperienceLifecycleClaims_def)
  have "length (escape_text (ltc_Version claims)) \<le> 240"
    using length_escape_text [of "ltc_Version claims"] v
    by (simp add: LifecycleActionTokenClaims_Validate_def check_simps LifecycleActionTokenVersion_def)
  moreover have "length (LifecycleAction_text (ltc_Action claims)) \<le> 9"
    using lifecycle_texts(6) [OF assms(1)] by (cases "ltc_Action claims") auto
  then have "length (escape_text (LifecycleAction_text (ltc_Action claims))) \<le> 54"
    using length_escape_text [of "LifecycleAction_text (ltc_Action claims)"] by linarith
  moreover have "length (LifecycleState_text (ltc_CurrentLifecycle claims)) \<le> 12"
    using lifecycle_texts(7) [OF assms(1)] by (cases "ltc_Action claims"; cases "ltc_CurrentLifecycle claims") auto
  then have "length (escape_text (LifecycleState_text (ltc_CurrentLifecycle claims))) \<le> 72"
    using length_escape_text [of "LifecycleState_text (ltc_CurrentLifecycle claims)"] by linarith
  moreover have "length (escape_text (xref_ExperienceID (ltc_Experience claims))) = 56"
    using assms(3) by (auto intro!: identifier_escape_length simp: escape_safe_def byte_def)
  moreover have "length (int_text (xref_Version (ltc_Experience claims))) \<le> 19"
    using lifecycle_texts(5) [OF assms(1)] assms(2) by (intro int_text_length) (auto simp: plain_lifecycle_def)
  moreover have "length (escape_text (ltc_ProjectIdentity claims)) \<le> 1536"
    "length (escape_text (ltc_ContentHash claims)) = 71"
    using v project_escape_length
    by (auto simp: LifecycleActionTokenClaims_Validate_def check_simps hash_escape_length)
  moreover have "length (escape_text (formatProjectionTime (ltc_IssuedAt claims))) \<le> 180"
    "length (escape_text (formatProjectionTime (ltc_ExpiresAt claims))) \<le> 180"
    using assms(2) by (simp_all add: plain_lifecycle_def time_escape_length)
  ultimately have "length (object_text (lifecycle_members claims)) \<le> 3000"
    using letters_safe by (simp add: object_text_def lifecycle_members_def member_text_def)
  then show ?thesis by (simp add: length_signed_text)
qed

lemma experience_named: "Experience_Validate v = None \<Longrightarrow> is_identifier_of ''exp_'' (xp_ExperienceID v)"
proof -
  assume "Experience_Validate v = None"
  then have "DeriveExperienceID (scope_ProjectIdentity (xp_Scope v)) (xp_OriginCandidateID v) = Some (xp_ExperienceID v)"
    by (auto simp: Experience_Validate_def check_simps split: option.splits)
  then show ?thesis unfolding DeriveExperienceID_def by (rule deterministicID_shape)
qed

section \<open>The action on the registry\<close>

lemma reasons_visible: "visible ''user_paused''" "visible ''user_superseded''" "visible ''user_expired''"
  by code_simp+

lemma action_valid_transition:
  assumes "validExperienceLifecycleClaims (lai_Claims input)"
    and "validateIdentifier [] (lai_ActorID input) = None"
    and "json_time_ok (lai_OccurredAt input)" "\<not> IsZero (lai_OccurredAt input)"
    and "TransitionFrom (ltc_Action (lai_Claims input)) (ltc_CurrentLifecycle (lai_Claims input)) = (target, True)"
    and "experienceLifecycleReasonCode (ltc_Action (lai_Claims input)) = (reason, True)"
  obtains t where "action_transition input target reason = Some t" "LifecycleTransition_Validate t = None"
    "lt_Experience t = ltc_Experience (lai_Claims input)"
    "lt_FromState t = ltc_CurrentLifecycle (lai_Claims input)" "lt_ToState t = target"
    "lt_OccurredAt t = lai_OccurredAt input"
proof -
  let ?t = "\<lparr>lt_TransitionID = [], lt_Experience = ltc_Experience (lai_Claims input),
    lt_FromState = ltc_CurrentLifecycle (lai_Claims input), lt_ToState = target,
    lt_ReasonCode = reason, lt_ActorKind = ActorUser, lt_ActorID = lai_ActorID input,
    lt_OccurredAt = lai_OccurredAt input, lt_SourceEvidence = []\<rparr>"
  obtain j where j: "\<And>i. LifecycleTransition_DeterministicID (?t\<lparr>lt_TransitionID := i\<rparr>) = deterministicID ''ext_'' j"
    "json_ok j"
    using assms(3) json_ok_evidence [of "[]"] by (simp add: LifecycleTransition_DeterministicID_def times_ok_def)
  note id = computed_id [OF j(2), of "''ext_''"]
  let ?u = "?t\<lparr>lt_TransitionID := the (deterministicID ''ext_'' j)\<rparr>"
  have "action_transition input target reason = Some ?u"
    using j(1) [of "[]"] id(1) by (simp add: action_transition_def)
  moreover have "validateIdentifier ''transition reason code'' reason = None"
    using assms(6) reasons_visible by (cases "ltc_Action (lai_Claims input)") (auto simp: validateIdentifier_def check_simps maxIdentifierBytes_def)
  moreover have "validateIdentifier name (lai_ActorID input) = None" for name
    using assms(2) by (auto simp: validateIdentifier_def check_simps)
  moreover have "ValidLifecycleTransition (ltc_CurrentLifecycle (lai_Claims input)) target"
    using user_step_valid [OF user_step.act [OF assms(5)]] by (simp add: lifecycle_step_iff)
  ultimately have "LifecycleTransition_Validate ?u = None"
    using j(1) [of "the (deterministicID ''ext_'' j)"] id assms(1,4)
    by (simp add: LifecycleTransition_Validate_def check_simps validExperienceLifecycleClaims_def
        LifecycleActionTokenClaims_Validate_def)
  with \<open>action_transition input target reason = Some ?u\<close> show thesis by (rule that) simp_all
qed

text \<open>The claims describe the row as it is.\<close>

definition describes :: "LifecycleActionTokenClaims \<Rightarrow> experience_row \<Rightarrow> bool" where
  "describes claims row \<longleftrightarrow>
     row_key row = ltc_Experience claims \<and>
     scope_ProjectIdentity (xp_Scope (row_Value row)) = ltc_ProjectIdentity claims \<and>
     xp_ContentHash (row_Value row) = ltc_ContentHash claims \<and> row_State row = ltc_CurrentLifecycle claims"

lemma row_value_key:
  assumes "row_consistent reg row"
  shows "xp_ExperienceID (row_Value row) = xref_ExperienceID (row_key row)"
    "xp_Version (row_Value row) = xref_Version (row_key row)"
proof -
  obtain a where a: "row = (row_of (row_Value row) (row_Plaintext row) a)\<lparr>row_State := row_State row,
      row_ActivatedAt := row_ActivatedAt row, row_UpdatedAt := row_UpdatedAt row\<rparr>"
    using assms by (auto simp: row_consistent_def Let_def)
  have "row_ID row = xp_ExperienceID (row_Value row)" "row_Version row = xp_Version (row_Value row)"
    using arg_cong [OF a, of row_ID] arg_cong [OF a, of row_Version] by (simp_all add: row_of_def)
  then show "xp_ExperienceID (row_Value row) = xref_ExperienceID (row_key row)"
    "xp_Version (row_Value row) = xref_Version (row_key row)"
    by (simp_all add: row_key_def)
qed

lemma length_filter_eq_one: "distinct xs \<Longrightarrow> x \<in> set xs \<Longrightarrow> length (filter (\<lambda>y. y = x) xs) = 1"
  by (induction xs) (auto simp: filter_empty_conv)

lemma transition_appends:
  assumes "consistent reg" "find_row reg (lt_Experience t) = Some row" "row_State row = lt_FromState t"
    and "lt_TransitionID t \<notin> tr_ID ` set (reg_Transitions reg)"
    and "\<forall>old \<in> set (transitions_of reg (lt_Experience t)). tr_OccurredAt old < wall_ns (lt_OccurredAt t)"
  shows "appendExperienceTransitionTx now reg t plaintext = Inr (True, appended now reg t plaintext)"
proof -
  have row: "row \<in> set (reg_Experiences reg)" "row_key row = lt_Experience t"
    using find_row_Some [OF assms(2)] by auto
  have "find (\<lambda>old. tr_ID old = lt_TransitionID t) (reg_Transitions reg) = None"
    using assms(4) by (auto simp: find_None_iff intro: rev_image_eqI)
  moreover have "rebuilt_state reg row = row_State row"
    using assms(1) row(1) by (intro consistent_projection) (simp add: consistent_def)
  moreover have "latest < wall_ns (lt_OccurredAt t)" if "latest_occurred reg (lt_Experience t) = Some latest" for latest
    using that assms(5) by (auto simp: latest_occurred_def split: if_splits)
  moreover have "length (filter (update_hits t) (reg_Experiences reg)) = 1"
  proof -
    have "update_hits t other \<longleftrightarrow> other = row" if "other \<in> set (reg_Experiences reg)" for other
      using that row assms(1,2,3) find_row_unique [of reg other]
      by (auto simp: update_hits_def consistent_def)
    then have "filter (update_hits t) (reg_Experiences reg) = filter (\<lambda>other. other = row) (reg_Experiences reg)"
      by (rule filter_cong [OF refl])
    moreover have "distinct (reg_Experiences reg)"
      using assms(1) by (simp add: consistent_def distinct_map)
    ultimately show ?thesis using row(1) by (simp add: length_filter_eq_one)
  qed
  ultimately show ?thesis
    using assms(2,3) by (auto simp: appendExperienceTransitionTx_def appended_def split: option.splits)
qed

text \<open>The encoder succeeds on every transition.\<close>

definition encodes_transitions :: "json_codec \<Rightarrow> bool" where
  "encodes_transitions js \<longleftrightarrow>
     (\<forall>t. \<exists>p. sealDomainJSON ''experience_transition'' (js_Transition js) maxEvidencePayloadBytes t = Inr p)"

lemma action_goes_through:
  assumes "consistent reg" "find_row reg (ltc_Experience (lai_Claims input)) = Some row"
    and "describes (lai_Claims input) row" "encodes_transitions js"
    and "validExperienceLifecycleClaims (lai_Claims input)" "normalized_input input = input"
    and "validateIdentifier [] (lai_ActorID input) = None"
    and "json_time_ok (lai_OccurredAt input)" "\<not> IsZero (lai_OccurredAt input)"
    and "\<not> Before (lai_OccurredAt input) (ltc_IssuedAt (lai_Claims input))"
    and "\<not> After (lai_OccurredAt input) (ltc_ExpiresAt (lai_Claims input))"
    and "\<not> After now (ltc_ExpiresAt (lai_Claims input))" "\<not> After (lai_OccurredAt input) now"
    and "\<not> After now' (ltc_ExpiresAt (lai_Claims input))" "\<not> After (lai_OccurredAt input) now'"
    and fresh: "\<And>t to reason. action_transition input to reason = Some t \<Longrightarrow>
      lt_TransitionID t \<notin> tr_ID ` set (reg_Transitions reg)"
    and later: "\<forall>old \<in> set (transitions_of reg (ltc_Experience (lai_Claims input))).
      tr_OccurredAt old < wall_ns (lai_OccurredAt input)"
  shows "\<exists>t reg'. ApplyExperienceLifecycleAction js now now' reg input = Inr (t, reg') \<and>
    lt_Experience t = ltc_Experience (lai_Claims input) \<and>
    lt_ToState t = fst (TransitionFrom (ltc_Action (lai_Claims input)) (row_State row))"
proof -
  let ?c = "lai_Claims input"
  obtain target where target: "TransitionFrom (ltc_Action ?c) (ltc_CurrentLifecycle ?c) = (target, True)"
    using token_claims_action assms(5) by (auto simp: validExperienceLifecycleClaims_def)
  obtain reason where reason: "experienceLifecycleReasonCode (ltc_Action ?c) = (reason, True)"
    using target by (cases "ltc_Action ?c") auto
  obtain t where t: "action_transition input target reason = Some t" "LifecycleTransition_Validate t = None"
    "lt_Experience t = ltc_Experience ?c" "lt_FromState t = ltc_CurrentLifecycle ?c" "lt_ToState t = target"
    "lt_OccurredAt t = lai_OccurredAt input"
    by (rule action_valid_transition [OF assms(5,7,8,9) target reason])
  obtain p where "sealDomainJSON ''experience_transition'' (js_Transition js) maxEvidencePayloadBytes t = Inr p"
    using assms(4) by (auto simp: encodes_transitions_def)
  then have p: "prepareExperienceTransition js t = Inr p" by (simp add: prepareExperienceTransition_def t(2))
  have append: "appendExperienceTransitionTx (wall_ns now') reg t p = Inr (True, appended (wall_ns now') reg t p)"
  proof (rule transition_appends [OF assms(1) _ _ fresh [OF t(1)]])
    show "row_State row = lt_FromState t" using assms(3) unfolding describes_def t by blast
  qed (use assms(2) later in \<open>simp_all only: t\<close>)
  have rc: "row_consistent reg row" using assms(1,2) find_row_Some by (auto simp: consistent_def)
  have "apply_in_transaction js now' reg input target = Inr (t, appended (wall_ns now') reg t p)"
    using assms(3,14,15) select_consistent [OF assms(1,2)] row_value_key [OF rc] t(1) reason p append
    by (simp add: apply_in_transaction_def describes_def Let_def)
  moreover have "lai_ActorID input \<noteq> []" "length (lai_ActorID input) \<le> 256"
    using assms(7) by (auto simp: validateIdentifier_def check_simps maxIdentifierBytes_def)
  ultimately have "ApplyExperienceLifecycleAction js now now' reg input = Inr (t, appended (wall_ns now') reg t p)"
    using assms(5,6,9,10,11,12,13) target by (simp add: ApplyExperienceLifecycleAction_def Let_def)
  then show ?thesis using t(3,5) target assms(3) by (auto simp: describes_def)
qed

section \<open>From the preview to the action\<close>

lemma prepared_action:
  assumes "consistent reg" "lifecycle_Prepare keys reg now ref action = Inr preview" "clock_in_range now"
    and "xref_Version ref < 9223372036854775808"
  obtains claims row where "find_row reg ref = Some row" "describes claims row" "ltc_Experience claims = ref"
    "ltc_Action claims = action" "validExperienceLifecycleClaims claims" "plain_lifecycle claims"
    "ltc_IssuedAt claims = utcTime now" "ltc_ExpiresAt claims = elp_ExpiresAt preview"
    "elp_CurrentLifecycle preview = row_State row" "ExperienceRef_Validate ref = None"
    "elp_ExpiresAt preview = time_Add (utcTime now) experienceLifecyclePreviewLifetime"
    "visible (elp_ActionToken preview)" "elp_ActionToken preview \<noteq> []"
    "\<forall>later. DecodeExperienceLifecycleToken keys later (elp_ActionToken preview) =
       (if After later (elp_ExpiresAt preview) then Inl TokenExpired else Inr claims)"
proof -
  obtain stored where ref: "ExperienceRef_Validate ref = None" and sel: "select_experience reg ref = Inr stored"
    using assms(2) by (auto simp: lifecycle_Prepare_def GetExperience_def split: if_splits option.splits sum.splits)
  then obtain row where row: "find_row reg ref = Some row" using select_finds by blast
  have rc: "row_consistent reg row" using assms(1) find_row_Some [OF row] by (auto simp: consistent_def)
  have key: "row_key row = ref" using find_row_Some [OF row] by simp
  have stored: "st_Experience stored = row_Value row" "st_CurrentLifecycle stored = row_State row"
    using sel select_consistent [OF assms(1) row] by auto
  let ?c = "prepared_claims now stored ref action"
  obtain token where token: "IssueExperienceLifecycleToken keys ?c = Inr token"
    and preview: "elp_ActionToken preview = token" "elp_ExpiresAt preview = ltc_ExpiresAt ?c"
      "elp_CurrentLifecycle preview = ltc_CurrentLifecycle ?c"
    using assms(2) ref sel
    by (auto simp: lifecycle_Prepare_def GetExperience_def Let_def split: if_splits sum.splits)
  have plain: "plain_lifecycle ?c"
    using preview_times_plain [OF assms(3)] assms(4) by (simp add: plain_lifecycle_def prepared_claims_def)
  then have u: "utc_lifecycle_claims ?c = ?c"
    by (simp add: plain_lifecycle_def utc_lifecycle_claims_def time_UTC_plain)
  have v: "validExperienceLifecycleClaims ?c"
    and s: "sign_json keys experienceLifecycleTokenKeyDomain (JObj (map (apsnd member_json) (lifecycle_members ?c)))
      = Inr token"
    using token u by (simp_all add: IssueExperienceLifecycleToken_def lifecycle_payload_members Let_def split: if_splits)
  then obtain key where signed: "token = signed_text key (object_text (lifecycle_members ?c))"
    by (auto simp: sign_json_members split: option.splits)
  have "is_identifier_of ''exp_'' (xp_ExperienceID (row_Value row))"
    using rc by (intro experience_named) (simp add: row_consistent_def Let_def)
  then have "length token \<le> maxExperienceLifecycleTokenBytes"
    using lifecycle_token_fits [OF v plain] row_value_key(1) [OF rc] key
    by (simp add: signed prepared_claims_def maxExperienceLifecycleTokenBytes_def)
  from lifecycle_token.issued_opens [OF s v plain this]
  have "DecodeExperienceLifecycleToken keys later token =
      (if After later (ltc_ExpiresAt ?c) then Inl TokenExpired else Inr ?c)" for later
    by (auto simp: DecodeExperienceLifecycleToken_def)
  moreover have "token \<noteq> []" "visible token" by (simp_all add: signed signed_text_visible) (simp add: signed_text_def)
  moreover have "describes ?c row" using key stored by (simp add: describes_def prepared_claims_def)
  ultimately show thesis
    using preview by (intro that [OF row _ _ _ v plain]) (simp_all add: prepared_claims_def ref stored)
qed

lemma compare_plain:
  "mono u = None \<Longrightarrow> After t u \<longleftrightarrow> wall_ns u < wall_ns t"
  "After (utcTime s) t \<longleftrightarrow> wall_ns t < wall_ns s" "After t (utcTime s) \<longleftrightarrow> wall_ns s < wall_ns t"
  by (auto simp: After_def time_cmp_key_def utcTime_def split: option.splits)

lemma action_transition_id:
  assumes "action_transition input target reason = Some t"
  shows "lt_OccurredAt t = lai_OccurredAt input" "LifecycleTransition_DeterministicID t = Some (lt_TransitionID t)"
  using assms by (auto simp: action_transition_def LifecycleTransition_DeterministicID_def)


lemma preview0:
  obtains preview where
    "lifecycle_Prepare keys0 registry0 (day 2) ref0 LifecycleActionActivate = Inr preview"
    "elp_CurrentLifecycle preview = LifecycleApproved"
    "elp_ExpiresAt preview = utc_at (wall_ns (day 2) + 900000000000)"
proof -
  have "consistent registry0" by (rule registry.inv_reachable [OF registry0_reachable])
  from select_consistent [OF this find_row0] obtain stored where stored:
    "select_experience registry0 ref0 = Inr stored" "st_Experience stored = experience0 verifier_modified"
    "st_CurrentLifecycle stored = LifecycleApproved" by auto
  have x: "xref_ExperienceID ref0 = the (DeriveExperienceID ''p'' origin0)" "xref_Version ref0 = 1"
    by (simp_all add: ref0_def del: row0_key)
  let ?c = "prepared_claims (day 2) stored ref0 LifecycleActionActivate"
  have e: "time_Add (utcTime (day 2)) experienceLifecyclePreviewLifetime = utc_at (wall_ns (day 2) + 900000000000)"
    "utcTime (day 2) = day 2"
    by (simp_all add: time_Add_def experienceLifecyclePreviewLifetime_def utc_at_def utcTime_def day_def)
  have c: "?c = claims0\<lparr>ltc_ExpiresAt := utc_at (wall_ns (day 2) + 900000000000)\<rparr>"
    using stored e by (simp add: prepared_claims_def claims0_def)
  have v: "validExperienceLifecycleClaims ?c" unfolding c
    using claims0_valid expiry0_facts(4-8)
    by (simp add: validExperienceLifecycleClaims_def LifecycleActionTokenClaims_Validate_def check_simps
        experienceLifecycleTokenLifetime_def) (simp add: claims0_def)
  have plain: "plain_lifecycle ?c"
    using expiry0_facts(2,3) x by (simp add: plain_lifecycle_def c) (simp add: claims0_def)
  obtain key where "derivedKey keys0 experienceLifecycleTokenKeyDomain = Some key" using keys0_derive by blast
  then obtain token where token: "IssueExperienceLifecycleToken keys0 ?c = Inr token"
    using v plain by (simp add: IssueExperienceLifecycleToken_def lifecycle_payload_members sign_json_members
        utc_lifecycle_claims_def plain_lifecycle_def time_UTC_plain)
  show thesis
    using token stored x e
    by (intro that [of "\<lparr>elp_Action = LifecycleActionActivate, elp_Experience = ref0, elp_ProjectIdentity = ''p'',
          elp_CurrentLifecycle = LifecycleApproved, elp_ContentHash = content0 verifier_modified,
          elp_ActionToken = token, elp_IssuedAt = day 2, elp_ExpiresAt = utc_at (wall_ns (day 2) + 900000000000)\<rparr>"])
      (simp_all add: lifecycle_Prepare_def GetExperience_def lifecycleActionAllowed_def prepared_claims_def)
qed


end
