(* ===== verification/FixIdentities.thy ===== *)
theory FixIdentities
  imports Tokens
begin

text \<open>
  The keyed identities of annotations, retractions and recurrences of fixes and of sessions without a
  project (\<open>internal/storage/local/identity.go\<close>). \<open>None\<close> is an error. Kinds and reasons are strings here.
\<close>

definition fixAnnotationIDKeyDomain :: string where
  "fixAnnotationIDKeyDomain = ''belay.local.fix-annotation.v1''"
definition fixAnnotationRequestKeyDomain :: string where
  "fixAnnotationRequestKeyDomain = ''belay.local.fix-annotation-request.v1''"
definition fixRetractionIDKeyDomain :: string where
  "fixRetractionIDKeyDomain = ''belay.local.fix-retraction.v1''"
definition fixRetractionRequestKeyDomain :: string where
  "fixRetractionRequestKeyDomain = ''belay.local.fix-retraction-request.v1''"
definition fixRecurrenceIDKeyDomain :: string where
  "fixRecurrenceIDKeyDomain = ''belay.local.fix-recurrence-id.v1''"
definition fixRecurrenceJobIDKeyDomain :: string where
  "fixRecurrenceJobIDKeyDomain = ''belay.local.fix-recurrence-job-id.v1''"
definition legacySessionScopeKeyDomain :: string where
  "legacySessionScopeKeyDomain = ''belay.local.legacy-session-scope.v1''"

definition FixSchemaVersion :: string where "FixSchemaVersion = ''belay.fix.v1''"
definition FixChangeCatalogVersion :: string where "FixChangeCatalogVersion = ''fix-change.v1''"

definition deriveFixAnnotationID :: "store_keys \<Rightarrow> string \<Rightarrow> string option" where
  "deriveFixAnnotationID keys idempotencyKey =
     deriveOpaqueID keys fixAnnotationIDKeyDomain ''fxa_'' (lengthPrefixed [idempotencyKey])"

definition annotation_material :: "FixActionClaims \<Rightarrow> string \<Rightarrow> string \<Rightarrow> string list" where
  "annotation_material claims changeKind recordedVia =
     [FixSchemaVersion, fac_Version claims, fac_CursorEpoch claims, fac_IssueID claims,
      int_text (fac_Snapshot claims), int_text (fac_RetentionGeneration claims),
      formatProjectionTime (fac_IssuedAt claims), FixChangeCatalogVersion, changeKind, recordedVia]"

definition deriveFixAnnotationRequestFingerprint ::
  "store_keys \<Rightarrow> FixActionClaims \<Rightarrow> string \<Rightarrow> string \<Rightarrow> string option" where
  "deriveFixAnnotationRequestFingerprint keys claims changeKind recordedVia =
     deriveOpaqueID keys fixAnnotationRequestKeyDomain ''fxp_''
       (lengthPrefixed (annotation_material claims changeKind recordedVia))"

definition deriveFixRetractionID :: "store_keys \<Rightarrow> string \<Rightarrow> string option" where
  "deriveFixRetractionID keys idempotencyKey =
     deriveOpaqueID keys fixRetractionIDKeyDomain ''fxr_'' (lengthPrefixed [idempotencyKey])"

definition deriveFixRetractionRequestFingerprint ::
  "store_keys \<Rightarrow> string \<Rightarrow> string \<Rightarrow> string \<Rightarrow> string \<Rightarrow> string option" where
  "deriveFixRetractionRequestFingerprint keys issueID annotationID reason recordedVia =
     deriveOpaqueID keys fixRetractionRequestKeyDomain ''frp_''
       (lengthPrefixed [FixSchemaVersion, issueID, annotationID, reason, recordedVia])"

text \<open>\<open>validOpaquePrefixedID\<close> of \<open>fix_repository.go\<close>.\<close>

definition validOpaquePrefixedID :: "string \<Rightarrow> string \<Rightarrow> bool" where
  "validOpaquePrefixedID s pre \<longleftrightarrow>
     length s = length pre + 52 \<and> prefix pre s \<and> list_all is_base32_lower (drop (length pre) s)"

definition validFixAnnotationID :: "string \<Rightarrow> bool" where
  "validFixAnnotationID s \<longleftrightarrow> validOpaquePrefixedID s ''fxa_''"

definition deriveFixRecurrenceID :: "store_keys \<Rightarrow> string \<Rightarrow> string \<Rightarrow> string option" where
  "deriveFixRecurrenceID keys annotationID occurrenceID =
     (if \<not> validFixAnnotationID annotationID \<or> occurrenceID = [] then None
      else deriveOpaqueID keys fixRecurrenceIDKeyDomain ''fxo_'' (lengthPrefixed [annotationID, occurrenceID]))"

definition deriveFixRecurrenceJobID :: "store_keys \<Rightarrow> string \<Rightarrow> int \<Rightarrow> string option" where
  "deriveFixRecurrenceJobID keys sessionID projectionGeneration =
     (if sessionID = [] \<or> projectionGeneration < 1 then None
      else deriveOpaqueID keys fixRecurrenceJobIDKeyDomain ''fxj_''
        (lengthPrefixed [sessionID, int_text projectionGeneration]))"

definition deriveLegacySessionScopeID :: "store_keys \<Rightarrow> string \<Rightarrow> string option" where
  "deriveLegacySessionScopeID keys sessionID =
     (if sessionID = [] then None
      else deriveOpaqueID keys legacySessionScopeKeyDomain ''psc_'' (lengthPrefixed [sessionID]))"

end
