(* ===== verification/Spec2Isabelle.thy ===== *)
theory Spec2Isabelle
  imports ReviewRules Evaluations PackRules ActionRules FixIdentities
begin

text \<open>
  The experience core of the Belay engine (Go) and the Mission Packs built on it. Belay watches coding-agent sessions, proposes
  \<^emph>\<open>experiences\<close> (lessons with a scope, guidance and a verifier), lets the user approve them, delivers the
  active ones to later sessions and evaluates, from recorded facts, whether they were followed. The
  development models the contracts of this core (\<open>src/internal/experience\<close>), the registry that stores them
  (\<open>src/internal/storage/local/experience_repository.go\<close> and its neighbours) and the deterministic
  evaluation (\<open>src/internal/experience/evaluate\<close>), and the builder of Mission Packs
  (\<open>src/internal/missionpack\<close>), the guidance that a session starts with.

  \<^bold>\<open>How the parts interact.\<close> A candidate compiler emits a \<open>Candidate\<close>, which the registry stores. A model
  may refine it to a \<open>SemanticProposal\<close>; the conflict preflight compares that with the active experiences of
  the project. The user approves a proposal verbatim, narrowed or edited, which yields an \<open>Experience\<close> in
  state \<open>approved\<close>. Signed lifecycle actions of the user and system transitions move its state; a log of
  transitions records every move. Delivered experiences are \<open>Application\<close>s, which the evaluation judges. A
  Mission Pack carries approved experiences to a session or, when there are none, proposals: issues that recurred,
  rules from insights and verification commands, in a Markdown text of bounded size.

  \<^bold>\<open>Theories, by layer.\<close>
  \<^item> \<open>Prelude\<close>: Go errors as values (\<open>go_error\<close>: an error or a panic), sequences of checks
    (\<open>first_error\<close>, \<open>check_each\<close>, collection \<open>check_simps\<close>), sorting followed by compaction
    (\<open>sort_compact\<close>), 64-bit wrap-around.
  \<^item> \<open>GoText\<close>, \<open>GoTime\<close>, \<open>GoDigest\<close>, \<open>GoJson\<close>: what the source uses of the Go standard library: UTF-8 and
    \<open>strings\<close>, \<open>time.Time\<close> with its zone offset and RFC 3339 text, SHA-256 on 32-bit words, hex and base32,
    and \<open>json.Marshal\<close> with its failures (NaN, infinity, years outside 0 to 9999).
  \<^item> \<open>Enums\<close>, \<open>Model\<close> (\<open>enums.go\<close>, \<open>model.go\<close>, \<open>verifier.go\<close>): every string enumeration as a datatype with a
    constructor for unknown strings (locale \<open>string_enum\<close>, interpreted for each type), every struct as a record.
  \<^item> \<open>Canonical\<close> (\<open>hash.go\<close>): normal forms, identifiers and content hashes. \<open>None\<close> is the panic of
    \<open>deterministicID\<close> when \<open>Marshal\<close> fails.
  \<^item> \<open>Validators\<close>, \<open>Validate\<close> (\<open>validate.go\<close>): every \<open>Validate\<close> method, its checks in their order.
  \<^item> \<open>Lifecycle\<close> (\<open>lifecycle.go\<close>): user actions and transitions as a step relation (locale
    \<open>guarded_machine\<close>: an initial state, steps and an inductive property; its lemmas lift the property to
    everything reachable).
  \<^item> \<open>PathMatch\<close> (\<open>pathmatch.go\<close>): path patterns with double stars over a model of \<open>path.Match\<close>.
  \<^item> \<open>Samples\<close>, \<open>Contracts\<close>: concrete valid contracts for the witnesses, and what acceptance by \<open>Validate\<close>
    guarantees to later code.
  \<^item> \<open>Conflict\<close> (\<open>conflict.go\<close>) and \<open>Approval\<close> (\<open>approval.go\<close>): the preflight and the approval rules.
  \<^item> \<open>RegistryStore\<close> (\<open>experience_repository.go\<close>, \<open>experience_lifecycle_repository.go\<close>, the validation half of
    \<open>experience_lifecycle_token.go\<close>, the tables of migration 017): the four tables as lists of rows, each
    repository operation as a function of the registry, and \<open>registry_step\<close>, the relation of all writing
    operations. \<open>Registry\<close> has the invariant \<open>consistent\<close> (keys, legal logs, sealed payloads that match their
    index columns), \<open>RegistryRecords\<close> the invariant \<open>attached\<close> (each version has exactly its evidence rows);
    both are instances of \<open>guarded_machine\<close>.
  \<^item> \<open>SemanticStore\<close> (\<open>experience_semantic_repository.go\<close>, migrations 019 and 020) and \<open>ReviewStore\<close>
    (\<open>experience_review_action_repository.go\<close>, \<open>experience_approval_repository.go\<close>, migration 022): the record
    \<open>review_store\<close> adds the tables of semantic proposals, decisions and review actions to the registry; its
    operations write batches, record reviews and approve proposals; \<open>review_step\<close> is the relation of all of
    them. \<open>Reviews\<close> shows that every step is a run of registry steps with appends to the other tables
    (\<open>step_tables\<close>, \<open>reachable_registry_run\<close>: the store refines the registry), so every registry property
    carries over, and has the invariant \<open>tables_consistent\<close>, again an instance of \<open>guarded_machine\<close>.
    \<open>ReviewSamples\<close> is a concrete run, \<open>ReviewRules\<close> has the properties.
  \<^item> \<open>GoCodec\<close>, \<open>GoStrict\<close>, \<open>GoStrictRound\<close>: HMAC and HKDF over SHA-256, raw URL base64, and the strict JSON decoder
    (\<open>DisallowUnknownFields\<close>) over flat objects with its escapes, with what it makes of rendered objects.
    \<open>ProjectionTime\<close>: the timestamp layout of the store in both directions. \<open>StoreKeys\<close>, \<open>FixIdentities\<close>
    (\<open>identity.go\<close>): keys by purpose and the identities derived with them.
  \<^item> \<open>Tokens\<close> (\<open>experience_approval_token.go\<close>, \<open>experience_lifecycle_token.go\<close>, \<open>fix_token.go\<close>,
    \<open>issue_cursor.go\<close>): issuing and decoding signed texts. \<open>TokenCodecs\<close> states what a kind of claims owes the
    signing as the locale \<open>signed_claims\<close>, interpreted for the three tokens; \<open>TokenLengths\<close> bounds their length;
    \<open>TokenRules\<close> has the properties.
  \<^item> \<open>ExperienceServices\<close> (\<open>localapp/experience_lifecycle.go\<close>, \<open>experience_conflict.go\<close>,
    \<open>experience_review.go\<close>, \<open>experience_approval.go\<close>): previews with tokens, and the actions and approvals that
    follow. \<open>ServiceRules\<close> relates an approval to its preview, \<open>ActionRules\<close> shows that a prepared action succeeds.
  \<^item> \<open>EvaluateTypes\<close>, \<open>EvaluateInput\<close>, \<open>Evaluate\<close> (\<open>evaluate/types.go\<close>, \<open>evaluate/evaluate.go\<close>): facts,
    coverage and results; input validation and matchers; the four verdicts and \<open>finish\<close>. The Go builder is
    passed along; \<open>None\<close> is a nil dereference. \<open>EvaluateRules\<close> states the contract of an evaluator as the locale
    \<open>verifier_rule\<close> and interprets it for every verifier kind and the dispatcher; \<open>EvaluateResult\<close> is about
    sorting, compaction and truncation; \<open>EvaluateVerdicts\<close> composes the parts; \<open>Evaluations\<close> has the properties.
  \<^item> \<open>PackText\<close>, \<open>PackTypes\<close>: the text helpers of \<open>missionpack/build.go\<close> (runes, fields, one-line texts,
    tokens, the size budget, floats and their two-decimal text, \<open>sort.Slice\<close> as the insertion sort it runs on
    short slices) and the structs of \<open>missionpack/model.go\<close> and \<open>issueintel/model.go\<close>. The locale \<open>slice_order\<close>
    states what a comparison owes \<open>sort.Slice\<close>. \<open>PackExperiences\<close>, \<open>PackSelect\<close>, \<open>PackGuidance\<close>,
    \<open>PackCommands\<close>: what goes into a pack (experiences and sources; issues and known traps; rules; commands
    and facts). \<open>PackBuild\<close>: warnings, checklist, status, Markdown, the loop of \<open>truncateToBudget\<close> and \<open>Build\<close>,
    where \<open>None\<close> is a loop that never ends. \<open>PackBudget\<close> carries invariants through that loop and has its
    measure, \<open>PackFacts\<close> what a finished pack has in common with the assembled one, \<open>PackBytes\<close> how many bytes
    a text takes, \<open>PackOrigin\<close> where each item comes from, \<open>PackOrders\<close> the interpretations of \<open>slice_order\<close>
    on the comparisons of the code; \<open>PackSamples\<close> is a concrete project, \<open>PackRules\<close> has the properties.

  \<^bold>\<open>What the lemmas show.\<close> Validation: types and invariants of accepted contracts, and where validation can
  panic. Hashing: contracts that differ in order, duplicates or metadata only have equal identity. Lifecycle and
  registry: reachable states, immutability of versions, read-back of versions, evidence and candidates, logs
  that are legal and ordered histories, exact effect and single use of user actions, exact queries. Reviews and
  approvals: proposals and decisions read back and refer to each other, batches can be repeated, a review
  revokes the tokens issued before it, an approval creates exactly what its token names and only once. Tokens and services: what is issued is
  accepted until it expires, what is accepted was signed with the key of its purpose, a token of an older issue
  list is refused, a cursor has one text; what is approved is what the preview showed, and a previewed lifecycle
  action goes through. Preflight:
  the verdict is a refinement of the declarative notions of overlap and opposition. Approval: narrowing only
  narrows and is a strict order. Matching: equivalence with a declarative meaning of patterns. Evaluation: it
  answers exactly on valid input, decided verdicts keep a citation, missing coverage leaves the verifier
  undecided, results are bounded and sorted, and verdicts hold exactly under the stated facts. Mission Packs:
  building one always ends, its text fits the budget, approved experiences arrive whole, everything else is a
  bounded, unapproved proposal that comes from the input, and the order of the issues does not matter.

  \<^bold>\<open>Parameters.\<close> \<open>js\<close> (record \<open>json_codec\<close>, in \<open>store_codec\<close> with three more) stands for \<open>json.Marshal\<close> of the
  records that are sealed whole, its failure included; the registry stores, compares and limits the length of its text. Encryption
  cancels, so what a reader decodes is the value that was written. \<open>lower\<close>, and \<open>uni_ToLower\<close> in the record
  \<open>unicode\<close>, stand for \<open>strings.ToLower\<close>, \<open>uni_IsLetterOrNumber\<close> for the letter and number classes of Unicode.
  \<open>store_keys\<close> holds the secret key of the store and its ID. The clocks that a service and the store read are
  arguments of each call; \<open>getOutcome\<close> is the query of trajectories, and the row of the issue summary that
  names the epoch of cursors is an argument; \<open>evalSymlinks\<close> and the operating system are arguments of the
  normalisation of project paths. The properties hold for every value of them.

  \<^bold>\<open>Bounds.\<close> No definition uses fuel. \<open>bit_length\<close>, \<open>escape_text\<close>, \<open>ValidString\<close> and the path walks are
  recursive with measures; \<open>truncateToBudget\<close> is a \<open>partial_function\<close>, which \<open>build_returns\<close> proves to return;
  every other loop is structural over the slice it ranges over.

  \<^bold>\<open>Assumptions of the translation.\<close> \<open>sort.Slice\<close> is modelled as a stable sort: where the code sorts by a
  key that does not determine the element, the order of equal elements is unspecified in Go. Go maps are
  sets or partial functions; where the code ranges over one, only the result that does not depend on the
  order is modelled (in Mission Packs the map is listed in the order of first insertion and then sorted). Orders and turn indices are integers, with 64-bit subtraction where the code subtracts
  them. Time zones are fixed offsets.

  \<^bold>\<open>Not modelled.\<close> SQLite access and its I/O errors,
  encryption and key stores, migrations other than the tables above; transcripts and canonical events,
  detection, trajectories, episodes and other aggregations; the compiler of candidates, impact measurements, the
  collection of the snapshot a Mission Pack is built from; HTTP, MCP and command line presentation. They are either input and output around the core,
  text heuristics with nothing to specify but themselves, or planned for a later extension (impact, candidate
  compiler, the experience state repository).
\<close>

end
